(* ===== verification/Prelude.thy ===== *)
theory Prelude
  imports
    Complex_Main
    "HOL-Library.Product_Lexorder"
    "HOL-Library.List_Lexorder"
    "HOL-Library.Multiset"
begin

text \<open>
  Shared vocabulary of the development: the collections of simplification rules the
  component proofs draw on, the Python list idioms the modelled code uses
  (\<open>sorted(..., key=...)\<close>, \<open>next(..., None)\<close>, \<open>max(..., key=...)\<close>,
  \<open>itertools.pairwise\<close>) and the generic facts about them.
  Nothing here is specific to swimming pools.
\<close>

named_theorems return_iff \<open>when a computation that may fail returns a given value\<close>
named_theorems wf_simps \<open>unfolding rules of the well-formedness predicates\<close>
named_theorems day_simps \<open>evaluation rules for one calendar day\<close>

section \<open>Errors the Python runtime raises\<close>

text \<open>The exception classes that the modelled code raises or catches; \<open>InvalidOperation\<close> is \<open>decimal\<close>'s, \<open>IntegrityError\<close> \<open>sqlite3\<close>'s, \<open>HTTPError\<close> \<open>httpx\<close>'s.\<close>

datatype py_error = ValueError | LookupError | TypeError | AssertionError | KeyError | IndexError
  | AttributeError | OSError | RuntimeError | OverflowError | InvalidOperation | IntegrityError | HTTPError

text \<open>Sequencing of computations that may raise.\<close>

definition bind_err :: "py_error + 'a \<Rightarrow> ('a \<Rightarrow> py_error + 'b) \<Rightarrow> py_error + 'b" where
  "bind_err x f = (case x of Inl e \<Rightarrow> Inl e | Inr v \<Rightarrow> f v)"

lemma bind_err_simps [simp]: "bind_err (Inl e) f = Inl e" "bind_err (Inr v) f = f v"
  by (simp_all add: bind_err_def)

lemma bind_err_Inr [return_iff]: "bind_err x f = Inr y \<longleftrightarrow> (\<exists>v. x = Inr v \<and> f v = Inr y)"
  by (cases x) simp_all

text \<open>A \<open>for\<close> loop whose body may raise: the state is threaded, the first error wins.\<close>

fun fold_err :: "('s \<Rightarrow> 'a \<Rightarrow> py_error + 's) \<Rightarrow> 'a list \<Rightarrow> 's \<Rightarrow> py_error + 's" where
  "fold_err f [] s = Inr s"
| "fold_err f (x # xs) s = bind_err (f s x) (fold_err f xs)"

text \<open>An invariant of the body is an invariant of the loop.\<close>

lemma fold_err_invariant:
  assumes "fold_err f xs s = Inr t" "P s" "\<And>s x s'. x \<in> set xs \<Longrightarrow> P s \<Longrightarrow> f s x = Inr s' \<Longrightarrow> P s'"
  shows "P t"
  using assms
proof (induction xs arbitrary: s)
  case (Cons x xs)
  from Cons.prems(1) obtain s' where "f s x = Inr s'" "fold_err f xs s' = Inr t" by (auto simp: bind_err_Inr)
  with Cons show ?case by (metis list.set_intros(1) list.set_intros(2))
qed simp

lemma fold_err_total:
  "(\<And>s x. x \<in> set xs \<Longrightarrow> \<exists>s'. f s x = Inr s') \<Longrightarrow> \<exists>t. fold_err f xs s = Inr t"
proof (induction xs arbitrary: s)
  case (Cons x xs)
  then obtain s' where "f s x = Inr s'" by (meson list.set_intros(1))
  with Cons show ?case by simp
qed simp

section \<open>next, max and pairwise\<close>

text \<open>\<open>next((x for x in xs if p(x)), None)\<close> is the library's \<open>find\<close>.\<close>

lemma find_None_iff_all: "find p xs = None \<longleftrightarrow> (\<forall>x \<in> set xs. \<not> p x)"
  by (induction xs) auto

lemma find_SomeD: "find p xs = Some x \<Longrightarrow> x \<in> set xs \<and> p x"
  by (induction xs) (auto split: if_splits)

text \<open>\<open>max(xs, key=f)\<close> keeps the first maximal item; the code calls it on a non-empty list.\<close>

fun max_first :: "('a \<Rightarrow> 'k::linorder) \<Rightarrow> 'a \<Rightarrow> 'a list \<Rightarrow> 'a" where
  "max_first f best [] = best"
| "max_first f best (x # xs) = max_first f (if f best < f x then x else best) xs"

lemma max_first_in: "max_first f b xs \<in> set (b # xs)"
  by (induction xs arbitrary: b) (auto split: if_splits)

lemma max_first_ge: "x \<in> set (b # xs) \<Longrightarrow> f x \<le> f (max_first f b xs)"
proof (induction xs arbitrary: b x)
  case Nil
  then show ?case by simp
next
  case (Cons y ys)
  let ?b' = "if f b < f y then y else b"
  have b': "f ?b' \<le> f (max_first f ?b' ys)" by (rule Cons.IH) simp
  from Cons.prems consider "x = b" | "x = y" | "x \<in> set ys" by auto
  then show ?case
  proof cases
    case 1
    then have "f x \<le> f ?b'" by (simp add: less_imp_le)
    also note b'
    finally show ?thesis by simp
  next
    case 2
    then have "f x \<le> f ?b'" by (simp add: not_less)
    also note b'
    finally show ?thesis by simp
  next
    case 3
    then show ?thesis using Cons.IH [of x ?b'] by simp
  qed
qed

text \<open>Everything before the chosen item has a strictly smaller key.\<close>

lemma max_first_split:
  "\<exists>us vs. b # xs = us @ max_first f b xs # vs \<and> (\<forall>u \<in> set us. f u < f (max_first f b xs))"
proof (induction xs arbitrary: b)
  case Nil
  show ?case by (intro exI [of _ "[]"]) simp
next
  case (Cons y ys)
  show ?case
  proof (cases "f b < f y")
    case True
    obtain us vs where s: "y # ys = us @ max_first f y ys # vs"
      "\<forall>u \<in> set us. f u < f (max_first f y ys)" using Cons.IH [of y] by blast
    have "f y \<le> f (max_first f y ys)" by (rule max_first_ge) simp
    with True have "f b < f (max_first f y ys)" by (rule less_le_trans)
    with s have *: "b # y # ys = (b # us) @ max_first f y ys # vs \<and>
      (\<forall>u \<in> set (b # us). f u < f (max_first f y ys))" by simp
    have eq: "max_first f b (y # ys) = max_first f y ys" using True by simp
    show ?thesis unfolding eq by (intro exI [of _ "b # us"] exI [of _ vs]) (rule *)
  next
    case False
    obtain us vs where s: "b # ys = us @ max_first f b ys # vs"
      "\<forall>u \<in> set us. f u < f (max_first f b ys)" using Cons.IH [of b] by blast
    have eq: "max_first f b (y # ys) = max_first f b ys" using False by simp
    show ?thesis
    proof (cases us)
      case Nil
      with s(1) have "max_first f b ys = b" by (metis append_Nil list.inject)
      then show ?thesis unfolding eq by (intro exI [of _ "[]"] exI [of _ "y # ys"]) simp
    next
      case (Cons w us')
      with s(1) have bw: "b = w" and ys: "ys = us' @ max_first f b ys # vs"
        by (metis append_Cons list.inject)+
      from s(2) Cons bw have lt: "f b < f (max_first f b ys)" by simp
      with False have fy: "f y < f (max_first f b ys)" by simp
      from s(2) Cons have us': "\<forall>v \<in> set us'. f v < f (max_first f b ys)" by simp
      have "b # y # ys = (b # y # us') @ max_first f b ys # vs"
        using ys by (metis append_Cons)
      with lt fy us' show ?thesis unfolding eq
        by (intro exI [of _ "b # y # us'"] exI [of _ vs]) simp
    qed
  qed
qed

text \<open>\<open>itertools.pairwise\<close>.\<close>

definition pairwise :: "'a list \<Rightarrow> ('a \<times> 'a) list" where
  "pairwise xs = zip xs (tl xs)"

lemma pairwise_simps [simp]:
  "pairwise [] = []" "pairwise [x] = []"
  "pairwise (x # y # ys) = (x, y) # pairwise (y # ys)"
  by (simp_all add: pairwise_def)

lemma pairwise_mem: "(a, b) \<in> set (pairwise xs) \<Longrightarrow> a \<in> set xs \<and> b \<in> set xs"
  by (induction xs rule: induct_list012) (auto simp: pairwise_def)

lemma pairwise_less: "sorted_wrt (<) xs \<Longrightarrow> (a, b) \<in> set (pairwise xs) \<Longrightarrow> a < (b::'a::order)"
  by (induction xs rule: induct_list012) auto

lemma pairwise_gap:
  "sorted_wrt (<) xs \<Longrightarrow> (a, b) \<in> set (pairwise xs) \<Longrightarrow> x \<in> set xs \<Longrightarrow> x \<le> a \<or> b \<le> (x::'a::linorder)"
proof (induction xs rule: induct_list012)
  case (3 y z zs)
  from "3.prems"(2) consider "a = y" "b = z" | "(a, b) \<in> set (pairwise (z # zs))" by auto
  then show ?case
  proof cases
    case 1
    with "3.prems" show ?thesis by (auto simp: less_imp_le)
  next
    case 2
    then have "a \<in> set (z # zs)" by (auto dest: pairwise_mem)
    with "3.prems"(1) have "y \<le> a" by (auto simp: less_imp_le)
    moreover have "x \<le> a \<or> b \<le> x" if "x \<noteq> y" using "3.IH"(2) "3.prems" 2 that by auto
    ultimately show ?thesis by blast
  qed
qed auto

lemma pairwise_cover:
  "sorted_wrt (<) xs \<Longrightarrow> xs \<noteq> [] \<Longrightarrow> hd xs \<le> t \<Longrightarrow> t < last xs \<Longrightarrow>
   \<exists>a b. (a, b) \<in> set (pairwise xs) \<and> a \<le> t \<and> t < (b::'a::linorder)"
proof (induction xs rule: induct_list012)
  case (3 y z zs)
  show ?case
  proof (cases "t < z")
    case True
    with 3 show ?thesis by (intro exI [of _ y] exI [of _ z]) simp
  next
    case False
    with 3 show ?thesis by force
  qed
qed auto

section \<open>Sorting\<close>

text \<open>
  Python's \<open>sorted\<close> and \<open>list.sort\<close> are stable, as the library's \<open>sort_key\<close> is:
  the result is sorted by the key, a permutation, and keeps the order of equal keys.
\<close>

lemma sort_key_sorted: "sorted_wrt (\<lambda>a b. f a \<le> f b) (sort_key f xs)"
  using sorted_sort_key [of f xs] by (simp add: sorted_map)

lemma sort_key_stable_filter: "[x\<leftarrow>sort_key f xs. f x = k] = [x\<leftarrow>xs. f x = k]"
  by (rule sort_key_stable)

text \<open>\<open>sorted(s)\<close> of a finite set.\<close>

lemma strict_sorted_list_of_set: "sorted_wrt (<) (sorted_list_of_set (A :: 'a::linorder set))"
  by simp

lemma hd_sorted_list_of_set:
  assumes "finite A" "A \<noteq> {}" shows "hd (sorted_list_of_set A) = Min (A :: 'a::linorder set)"
  using assms by (metis Min_in sorted_list_of_set.sorted_key_list_of_set_insert sorted_list_of_set_nonempty list.sel(1))

lemma last_sorted_wrt_less:
  "sorted_wrt (<) xs \<Longrightarrow> x \<in> set xs \<Longrightarrow> x \<le> last (xs :: 'a::linorder list)"
  by (induction xs rule: induct_list012) (auto dest: less_imp_le)

section \<open>Maximal elements under a bound\<close>

lemma sorted_distinct_same_set_eq:
  "sorted_wrt (<) xs \<Longrightarrow> sorted_wrt (<) ys \<Longrightarrow> set xs = set ys \<Longrightarrow> xs = (ys :: 'a::linorder list)"
  by (simp add: strict_sorted_equal)

end
