(* ===== verification/PyStr.thy ===== *)
theory PyStr
  imports Prelude
begin

text \<open>
  Python's \<open>str\<close>: a sequence of Unicode code points, here a list of naturals, so that
  comparison is by code point and \<open>len\<close> counts code points as Python does.
  White space is Python's full \<open>str.isspace\<close> set. The case mappings
  (\<open>casefold\<close>, \<open>lower\<close>) are exact on U+0000 to U+00FF, the range of the
  German text the program reads, and leave other code points alone.
\<close>

type_synonym pystr = "nat list"

text \<open>
  ASCII literals: \<open>u ''abc''\<close> is the Python literal \<open>"abc"\<close>. The congruence rule keeps the
  simplifier out of the literal; equality of two literals is decided on the characters.
\<close>

definition u :: "string \<Rightarrow> pystr" where
  "u s = map of_char s"

lemma u_cong [cong]: "u s = u s"
  by (rule refl)

lemma u_Nil [simp]: "u [] = []" "u s = [] \<longleftrightarrow> s = []" "[] = u s \<longleftrightarrow> s = []"
  by (auto simp: u_def)

lemma u_inject [simp]: "u s = u t \<longleftrightarrow> s = t"
  by (auto simp: u_def inj_map_eq_map inj_of_char)

section \<open>White space: strip, split, join\<close>

definition is_space :: "nat \<Rightarrow> bool" where
  "is_space c \<longleftrightarrow> (9 \<le> c \<and> c \<le> 13) \<or> (28 \<le> c \<and> c \<le> 32) \<or> c = 133 \<or> c = 160 \<or> c = 5760 \<or>
     (8192 \<le> c \<and> c \<le> 8202) \<or> c = 8232 \<or> c = 8233 \<or> c = 8239 \<or> c = 8287 \<or> c = 12288"

definition strip_where :: "('a \<Rightarrow> bool) \<Rightarrow> 'a list \<Rightarrow> 'a list" where
  "strip_where p s = rev (dropWhile p (rev (dropWhile p s)))"

definition py_strip :: "pystr \<Rightarrow> pystr" where
  "py_strip s = strip_where is_space s"

text \<open>\<open>s.split()\<close>: the maximal runs of non-space characters.\<close>

fun split_go :: "pystr \<Rightarrow> pystr \<Rightarrow> pystr list" where
  "split_go w [] = (if w = [] then [] else [w])"
| "split_go w (c # cs) =
     (if is_space c then (if w = [] then split_go [] cs else w # split_go [] cs)
      else split_go (w @ [c]) cs)"

definition py_split :: "pystr \<Rightarrow> pystr list" where
  "py_split s = split_go [] s"

fun py_join :: "pystr \<Rightarrow> pystr list \<Rightarrow> pystr" where
  "py_join sep [] = []"
| "py_join sep [w] = w"
| "py_join sep (w # v # ws) = w @ sep @ py_join sep (v # ws)"

section \<open>Case\<close>

definition lower_cp :: "nat \<Rightarrow> nat" where
  "lower_cp c = (if (65 \<le> c \<and> c \<le> 90) \<or> (192 \<le> c \<and> c \<le> 222 \<and> c \<noteq> 215) then c + 32 else c)"

definition py_lower :: "pystr \<Rightarrow> pystr" where
  "py_lower s = map lower_cp s"

text \<open>Full case folding: as \<open>lower\<close>, but sharp s becomes ss and the micro sign Greek mu.\<close>

definition casefold_cp :: "nat \<Rightarrow> pystr" where
  "casefold_cp c = (if c = 223 then [115, 115] else if c = 181 then [956] else [lower_cp c])"

definition py_casefold :: "pystr \<Rightarrow> pystr" where
  "py_casefold s = concat (map casefold_cp s)"

section \<open>Decimal numerals\<close>

fun digits_of :: "nat \<Rightarrow> pystr" where
  "digits_of n = (if n < 10 then [48 + n] else digits_of (n div 10) @ [48 + n mod 10])"

declare digits_of.simps [simp del]

definition str_of_int :: "int \<Rightarrow> pystr" where
  "str_of_int i = (if i < 0 then 45 # digits_of (nat (- i)) else digits_of (nat i))"

text \<open>
  A \<open>decimal.Decimal\<close>: a finite number, an infinity (negative or not), or a NaN.
\<close>

datatype py_decimal = Finite rat | Infinite bool | NotANumber

section \<open>Facts\<close>

lemma strip_where_id:
  assumes "s \<noteq> []" "\<not> p (hd s)" "\<not> p (last s)" shows "strip_where p s = s"
proof -
  from assms(1,2) have "dropWhile p s = s" by (cases s) auto
  moreover from assms(1,3) have "dropWhile p (rev s) = rev s"
    by (cases s rule: rev_cases) auto
  ultimately show ?thesis by (simp only: strip_where_def rev_rev_ident)
qed

lemma strip_where_Nil [simp]: "strip_where p [] = []"
  by (simp add: strip_where_def)

lemma strip_where_all: "\<forall>x \<in> set s. \<not> p x \<Longrightarrow> strip_where p s = s"
  by (cases "s = []") (simp_all add: strip_where_id hd_in_set last_in_set)

lemma strip_where_Nil_iff: "strip_where p s = [] \<longleftrightarrow> (\<forall>x \<in> set s. p x)"
proof
  assume "strip_where p s = []"
  then have "\<forall>x \<in> set (dropWhile p s). p x"
    by (simp only: strip_where_def rev_is_Nil_conv dropWhile_eq_Nil_conv set_rev)
  moreover have "x \<in> set (takeWhile p s) \<or> x \<in> set (dropWhile p s)" if "x \<in> set s" for x
    using that by (metis Un_iff set_append takeWhile_dropWhile_id)
  ultimately show "\<forall>x \<in> set s. p x" by (auto dest: set_takeWhileD)
next
  assume "\<forall>x \<in> set s. p x"
  then have "dropWhile p s = []" by simp
  then show "strip_where p s = []" by (simp only: strip_where_def) simp
qed

lemma strip_where_hd: "strip_where p s \<noteq> [] \<Longrightarrow> \<not> p (hd (strip_where p s))"
proof -
  assume ne: "strip_where p s \<noteq> []"
  let ?t = "dropWhile p s"
  from ne have tne: "?t \<noteq> []" unfolding strip_where_def by (metis dropWhile.simps(1) rev.simps(1))
  then have h: "\<not> p (hd ?t)" by (rule hd_dropWhile)
  have split: "?t = strip_where p s @ rev (takeWhile p (rev ?t))"
    by (simp add: strip_where_def) (metis rev_append rev_rev_ident takeWhile_dropWhile_id)
  then have "hd ?t = hd (strip_where p s)" using ne by (metis hd_append2)
  with h show ?thesis by simp
qed

lemma strip_where_last: "strip_where p s \<noteq> [] \<Longrightarrow> \<not> p (last (strip_where p s))"
  unfolding strip_where_def by (simp add: last_rev hd_dropWhile)

lemma strip_where_idem: "strip_where p (strip_where p s) = strip_where p s"
  by (cases "strip_where p s = []") (simp_all add: strip_where_id strip_where_hd strip_where_last)

lemma strip_where_subset: "set (strip_where p s) \<subseteq> set s"
  by (auto simp: strip_where_def dest!: set_dropWhileD)

lemma py_strip_idem: "py_strip (py_strip s) = py_strip s"
  by (simp add: py_strip_def strip_where_idem)

definition word :: "pystr \<Rightarrow> bool" where
  "word w \<longleftrightarrow> w \<noteq> [] \<and> (\<forall>c \<in> set w. \<not> is_space c)"

lemma split_go_words: "\<forall>c \<in> set w. \<not> is_space c \<Longrightarrow> v \<in> set (split_go w s) \<Longrightarrow> word v"
proof (induction w s rule: split_go.induct)
  case (1 w)
  then show ?case by (auto simp: word_def split: if_splits)
next
  case (2 w c cs)
  show ?case
  proof (cases "is_space c")
    case True
    with 2 show ?thesis by (cases "w = []") (auto simp: word_def)
  next
    case False
    with "2.prems" have "\<forall>d \<in> set (w @ [c]). \<not> is_space d" "v \<in> set (split_go (w @ [c]) cs)" by simp_all
    then show ?thesis using "2.IH"(3) False by blast
  qed
qed

lemma py_split_words: "v \<in> set (py_split s) \<Longrightarrow> word v"
  unfolding py_split_def by (rule split_go_words [rotated]) auto

lemma split_go_word: "\<forall>c \<in> set v. \<not> is_space c \<Longrightarrow> split_go w (v @ s) = split_go (w @ v) s"
  by (induction v arbitrary: w) auto

lemma is_space_32: "is_space 32"
  by (simp add: is_space_def)

lemma py_split_join:
  "\<forall>w \<in> set ws. word w \<Longrightarrow> py_split (py_join [32] ws) = ws"
proof (induction "[32::nat]" ws rule: py_join.induct)
  case 1
  show ?case by (simp add: py_split_def)
next
  case (2 w)
  then show ?case using split_go_word [of w "[]" "[]"] by (auto simp: py_split_def word_def)
next
  case (3 w v ws)
  then have "py_split (py_join [32] (v # ws)) = v # ws" by simp
  with 3 show ?case
    using split_go_word [of w "[]" "32 # py_join [32] (v # ws)"]
    by (auto simp: py_split_def word_def is_space_32)
qed

lemma py_join_hd: "ws \<noteq> [] \<Longrightarrow> \<forall>w \<in> set ws. w \<noteq> [] \<Longrightarrow> hd (py_join sep ws) = hd (hd ws)"
  by (cases "(sep, ws)" rule: py_join.cases) auto

lemma py_join_Nil_iff: "\<forall>w \<in> set ws. w \<noteq> [] \<Longrightarrow> py_join sep ws = [] \<longleftrightarrow> ws = []"
  by (cases "(sep, ws)" rule: py_join.cases) auto

lemma py_join_last: "ws \<noteq> [] \<Longrightarrow> \<forall>w \<in> set ws. w \<noteq> [] \<Longrightarrow> last (py_join sep ws) = last (last ws)"
  by (induction sep ws rule: py_join.induct) (auto simp: py_join_Nil_iff)

lemma py_join_set: "set (py_join sep ws) \<subseteq> set sep \<union> \<Union> (set ` set ws)"
  by (induction sep ws rule: py_join.induct) auto

lemma lower_cp_idem: "lower_cp (lower_cp c) = lower_cp c"
  by (simp add: lower_cp_def)

lemma lower_cp_ne: "lower_cp c = 223 \<longleftrightarrow> c = 223" "lower_cp c = 181 \<longleftrightarrow> c = 181"
  by (auto simp: lower_cp_def split: if_splits)

lemma casefold_cp_idem: "py_casefold (casefold_cp c) = casefold_cp c"
  by (auto simp: py_casefold_def casefold_cp_def lower_cp_idem lower_cp_ne) (simp_all add: lower_cp_def)

lemma py_casefold_append: "py_casefold (s @ t) = py_casefold s @ py_casefold t"
  by (simp add: py_casefold_def)

lemma py_casefold_idem: "py_casefold (py_casefold s) = py_casefold s"
proof (induction s)
  case Nil
  show ?case by (simp add: py_casefold_def)
next
  case (Cons c s)
  have "py_casefold (c # s) = casefold_cp c @ py_casefold s" by (simp add: py_casefold_def)
  then show ?case by (simp add: py_casefold_append casefold_cp_idem Cons.IH)
qed

lemma casefold_cp_space: "is_space c \<Longrightarrow> casefold_cp c = [c]"
  by (auto simp: is_space_def casefold_cp_def lower_cp_def)

lemma casefold_cp_nonspace: "\<not> is_space c \<Longrightarrow> d \<in> set (casefold_cp c) \<Longrightarrow> \<not> is_space d"
  by (auto simp: is_space_def casefold_cp_def lower_cp_def split: if_splits)

lemma digits_of_nonempty [simp]: "digits_of n \<noteq> []"
  by (subst digits_of.simps) simp

end
