(* ===== verification/Errors.thy ===== *)
theory Errors
  imports PyStr
begin

text \<open>
  \<open>src/swimzh/core/errors.py\<close>: the closed union of provider errors, its
  retriability and its one-line description. Floats are rationals (every finite Python
  float is one); \<open>repr\<close> of a JSON value is the runtime's and an argument.
\<close>

section \<open>Results\<close>

text \<open>
  \<open>src/swimzh/core/result.py\<close>: errors as values. \<open>Ok\<close> and \<open>Err\<close> are the two
  constructors; the methods are functions, and the one that raises returns the raised
  error on the left of a sum.
\<close>

datatype ('a, 'e) result = Ok 'a | Err 'e

fun is_ok :: "('a, 'e) result \<Rightarrow> bool" where
  "is_ok (Ok v) = True"
| "is_ok (Err e) = False"

fun unwrap_or :: "('a, 'e) result \<Rightarrow> 'a \<Rightarrow> 'a" where
  "unwrap_or (Ok v) d = v"
| "unwrap_or (Err e) d = d"

datatype 'e result_error = ResultError 'e

fun unwrap_or_raise :: "('a, 'e) result \<Rightarrow> 'e result_error + 'a" where
  "unwrap_or_raise (Ok v) = Inr v"
| "unwrap_or_raise (Err e) = Inl (ResultError e)"

fun fmap :: "('a, 'e) result \<Rightarrow> ('a \<Rightarrow> 'b) \<Rightarrow> ('b, 'e) result" where
  "fmap (Ok v) f = Ok (f v)"
| "fmap (Err e) f = Err e"

fun bind_result :: "('a, 'e) result \<Rightarrow> ('a \<Rightarrow> ('b, 'e) result) \<Rightarrow> ('b, 'e) result" where
  "bind_result (Ok v) f = f v"
| "bind_result (Err e) f = Err e"

lemma result_case_Ok [return_iff]:
  "(case r of Ok v \<Rightarrow> f v | Err e \<Rightarrow> Inr (Err e)) = Inr (Ok y) \<longleftrightarrow> (\<exists>v. r = Ok v \<and> f v = Inr (Ok y))"
  "(case r of Err e \<Rightarrow> Inr (Err e) | Ok v \<Rightarrow> f v) = Inr (Ok y) \<longleftrightarrow> (\<exists>v. r = Ok v \<and> f v = Inr (Ok y))"
  "(case r of Ok v \<Rightarrow> g v | Err e \<Rightarrow> Err e) = Ok z \<longleftrightarrow> (\<exists>v. r = Ok v \<and> g v = Ok z)"
  by (cases r; simp)+

lemma fmap_Ok [return_iff]: "fmap r f = Ok y \<longleftrightarrow> (\<exists>v. r = Ok v \<and> f v = y)"
  by (cases r) simp_all

lemma fmap_bind: "fmap r f = bind_result r (\<lambda>v. Ok (f v))"
  by (cases r) simp_all

lemma bind_result_assoc:
  "bind_result (bind_result r f) g = bind_result r (\<lambda>v. bind_result (f v) g)"
  by (cases r) simp_all

lemma unwrap_or_raise_iff: "(\<exists>v. unwrap_or_raise r = Inr v) \<longleftrightarrow> is_ok r"
  by (cases r) simp_all

section \<open>Provider errors\<close>

datatype json =
    JNull
  | JBool bool
  | JInt int
  | JFloat rat
  | JStr pystr
  | JList "json list"
  | JObj "(pystr \<times> json) list"

datatype provider_error =
    Timeout (pe_url: pystr) (after_s: rat)
  | ConnectionFailed (pe_url: pystr) (pe_detail: pystr)
  | HttpStatus (pe_url: pystr) (pe_status: int) (body_snippet: pystr)
  | RateLimited (pe_url: pystr) (retry_after_s: "rat option")
  | DecodeError (pe_source: pystr) (pe_detail: pystr)
  | ParseError (pe_source: pystr) (pe_detail: pystr) (raw_snippet: pystr)
  | SchemaMismatch (pe_source: pystr) (pe_detail: pystr)
  | TooLarge (pe_url: pystr) (limit_bytes: int)
  | Redirect (pe_url: pystr) (location: pystr) (redirect_count: int)
  | ProviderSpecific (provider: pystr) (detail_json: json)

fun retriable :: "provider_error \<Rightarrow> bool" where
  "retriable (Timeout _ _) = True"
| "retriable (ConnectionFailed _ _) = True"
| "retriable (RateLimited _ _) = True"
| "retriable (Redirect _ _ _) = True"
| "retriable (HttpStatus _ _ _) = False"
| "retriable (DecodeError _ _) = False"
| "retriable (ParseError _ _ _) = False"
| "retriable (SchemaMismatch _ _) = False"
| "retriable (TooLarge _ _) = False"
| "retriable (ProviderSpecific _ _) = False"

section \<open>The format specification \<open>.kf\<close>\<close>

text \<open>Python rounds the exact value of the float to \<open>k\<close> decimals, ties to even.\<close>

definition round_half_even :: "rat \<Rightarrow> int" where
  "round_half_even x =
     (let f = floor x; r = x - of_int f
      in if r < 1 / 2 then f else if r > 1 / 2 then f + 1 else if even f then f else f + 1)"

definition zero_pad :: "nat \<Rightarrow> pystr \<Rightarrow> pystr" where
  "zero_pad k s = replicate (k - length s) 48 @ s"

definition fmt_fixed :: "nat \<Rightarrow> rat \<Rightarrow> pystr" where
  "fmt_fixed k x =
     (let n = nat (round_half_even (\<bar>x\<bar> * 10 ^ k));
          whole = digits_of (n div 10 ^ k);
          frac = (if k = 0 then [] else u ''.'' @ zero_pad k (digits_of (n mod 10 ^ k)))
      in (if x < 0 then u ''-'' else []) @ whole @ frac)"

fun describe :: "(json \<Rightarrow> pystr) \<Rightarrow> provider_error \<Rightarrow> pystr" where
  "describe repr (Timeout url t) = u ''timeout after '' @ fmt_fixed 1 t @ u ''s: '' @ url"
| "describe repr (ConnectionFailed url d) = u ''connection failed ('' @ d @ u ''): '' @ url"
| "describe repr (HttpStatus url st _) = u ''HTTP '' @ str_of_int st @ u '': '' @ url"
| "describe repr (RateLimited url ra) =
     u ''rate limited: '' @ url @
     (case ra of Some s \<Rightarrow> u '', retry after '' @ fmt_fixed 0 s @ u ''s'' | None \<Rightarrow> [])"
| "describe repr (DecodeError src d) = u ''decode error from '' @ src @ u '': '' @ d"
| "describe repr (ParseError src d _) = u ''parse error from '' @ src @ u '': '' @ d"
| "describe repr (SchemaMismatch src d) = u ''schema mismatch from '' @ src @ u '': '' @ d"
| "describe repr (TooLarge url n) =
     u ''response too large (> '' @ str_of_int n @ u '' bytes): '' @ url"
| "describe repr (Redirect url loc n) =
     u ''redirect loop ('' @ str_of_int n @ u '') at '' @ url @ u '' -> '' @ loc"
| "describe repr (ProviderSpecific p d) = p @ u '' error: '' @ repr d"

lemma round_half_even_near: "\<bar>of_int (round_half_even x) - x\<bar> \<le> 1 / 2"
  unfolding round_half_even_def Let_def by (auto simp: abs_if) linarith+

lemma describe_nonempty: "describe repr e \<noteq> []"
  by (cases e) (auto split: option.splits)

end
