(* ===== verification/Access.thy ===== *)
theory Access
  imports Errors
begin

text \<open>
  \<open>src/swimzh/domain/person.py\<close> and \<open>src/swimzh/domain/access.py\<close>: who is asking, the
  access rule of a session (a closed union), the legend text of each rule and the explainable
  eligibility decision. The lemmas show that eligibility is monotone in what is known about
  the person, that its verdict and its message code never disagree, that every message code
  is produced, and that the legend and the decision name the same access type.
\<close>

section \<open>Person\<close>

datatype gender = FEMALE | MALE | DIVERSE

record person =
  gender :: "gender option"
  age :: "int option"

section \<open>The access rules\<close>

datatype session_access =
    PublicSwim
  | LaneSwim (access_note: pystr)
  | FamilyTime (access_note: pystr)
  | WomenOnly (access_note: pystr)
  | SeniorsOnly (min_age: int)
  | SchoolReserved
  | ClubReserved (club: pystr)
  | AdultsOnly (min_age: int) (access_note: pystr)
  | GirlsOnly
  | GenderDiverse (min_age: int)
  | AccompaniedChildren

record access_info_rec =
  ai_key :: pystr
  ai_label :: pystr
  ai_description :: pystr

fun access_info :: "session_access \<Rightarrow> access_info_rec" where
  "access_info PublicSwim = \<lparr>
     ai_key = u ''public'',
     ai_label = u ''Public swim'',
     ai_description = u ''Open public swimming '' @ [8212] @
       u '' anyone may enter during these hours.''\<rparr>"
| "access_info (LaneSwim _) = \<lparr>
     ai_key = u ''lane-swim'',
     ai_label = u ''Lane swim'',
     ai_description = u ''Lane swimming (Bahnenschwimmen) '' @ [8212] @
       u '' public, organised into lanes for laps/training.''\<rparr>"
| "access_info (FamilyTime _) = \<lparr>
     ai_key = u ''family'',
     ai_label = u ''Family time'',
     ai_description = u ''Family/children session '' @ [8212] @
       u '' public, oriented to families and kids.''\<rparr>"
| "access_info (WomenOnly _) = \<lparr>
     ai_key = u ''women-only'',
     ai_label = u ''Women only'',
     ai_description = u ''Women-only session (Frauenbad / Frauenschwimmen) '' @ [8212] @
       u '' reserved for women.''\<rparr>"
| "access_info (SeniorsOnly n) = \<lparr>
     ai_key = u ''seniors-only'',
     ai_label = u ''Seniors only'',
     ai_description = u ''Seniors session '' @ [8212] @
       u '' reserved for guests aged '' @ str_of_int n @
       u '' and over.''\<rparr>"
| "access_info SchoolReserved = \<lparr>
     ai_key = u ''school-reserved'',
     ai_label = u ''School reserved'',
     ai_description = u ''Reserved for school classes '' @ [8212] @
       u '' not open to the public.''\<rparr>"
| "access_info (ClubReserved c) = \<lparr>
     ai_key = u ''club-reserved'',
     ai_label = u ''Club reserved'',
     ai_description = u ''Reserved for a club/association'' @
       (if c = [] then [] else u '' ('' @
       c @
       u '')'') @
       u '' '' @ [8212] @
       u '' not open to the public.''\<rparr>"
| "access_info (AdultsOnly n _) = \<lparr>
     ai_key = u ''adults-only'',
     ai_label = u ''Adults only'',
     ai_description = u ''Adults-only public window '' @ [8212] @
       u '' reserved for guests aged '' @ str_of_int n @
       u '' and over (typical for school-pool evening swims).''\<rparr>"
| "access_info GirlsOnly = \<lparr>
     ai_key = u ''girls-only'',
     ai_label = u ''Girls only'',
     ai_description = u ''Girls-only session (f'' @ [252] @ u ''r M'' @
       [228] @
       u ''dchen) '' @ [8212] @
       u '' the pool publishes no age cutoff, so confirm with the venue.''\<rparr>"
| "access_info (GenderDiverse n) = \<lparr>
     ai_key = u ''gender-diverse'',
     ai_label = u ''Trans and non-binary'',
     ai_description = u ''Session open to trans and non-binary people aged '' @ str_of_int n @
       u '' and over.''\<rparr>"
| "access_info AccompaniedChildren = \<lparr>
     ai_key = u ''accompanied-children'',
     ai_label = u ''Children with an adult'',
     ai_description = u ''For children only when accompanied by an adult (f'' @ [252] @ u ''r Kinder nur mit Erwachsenen).''\<rparr>"

definition REPRESENTATIVE_ACCESS :: "session_access list" where
  "REPRESENTATIVE_ACCESS =
     [PublicSwim, LaneSwim [], FamilyTime [], WomenOnly [], SeniorsOnly 60, SchoolReserved,
      ClubReserved [], AdultsOnly 18 [], GirlsOnly, GenderDiverse 16, AccompaniedChildren]"

definition ACCESS_TYPES :: "access_info_rec list" where
  "ACCESS_TYPES = map access_info REPRESENTATIVE_ACCESS"

section \<open>Eligibility\<close>

datatype reason_code =
    PUBLIC
  | LANE_SWIM
  | FAMILY
  | WOMEN_ONLY_WELCOME
  | WOMEN_ONLY_EXCLUDED
  | WOMEN_ONLY_CONFIRM
  | WOMEN_ONLY_NEEDS_GENDER
  | SENIORS_ONLY_WELCOME
  | SENIORS_ONLY_TOO_YOUNG
  | SENIORS_ONLY_NEEDS_AGE
  | ADULTS_ONLY_WELCOME
  | ADULTS_ONLY_TOO_YOUNG
  | ADULTS_ONLY_NEEDS_AGE
  | SCHOOL_RESERVED
  | CLUB_RESERVED
  | GIRLS_ONLY_EXCLUDED
  | GIRLS_ONLY_CONFIRM
  | GIRLS_ONLY_NEEDS_GENDER
  | GENDER_DIVERSE_TOO_YOUNG
  | GENDER_DIVERSE_CONFIRM
  | ACCOMPANIED_CHILDREN_CONFIRM

fun reason_code_value :: "reason_code \<Rightarrow> pystr" where
  "reason_code_value PUBLIC = u ''public''"
| "reason_code_value LANE_SWIM = u ''lane_swim''"
| "reason_code_value FAMILY = u ''family''"
| "reason_code_value WOMEN_ONLY_WELCOME = u ''women_only_welcome''"
| "reason_code_value WOMEN_ONLY_EXCLUDED = u ''women_only_excluded''"
| "reason_code_value WOMEN_ONLY_CONFIRM = u ''women_only_confirm''"
| "reason_code_value WOMEN_ONLY_NEEDS_GENDER = u ''women_only_needs_gender''"
| "reason_code_value SENIORS_ONLY_WELCOME = u ''seniors_only_welcome''"
| "reason_code_value SENIORS_ONLY_TOO_YOUNG = u ''seniors_only_too_young''"
| "reason_code_value SENIORS_ONLY_NEEDS_AGE = u ''seniors_only_needs_age''"
| "reason_code_value ADULTS_ONLY_WELCOME = u ''adults_only_welcome''"
| "reason_code_value ADULTS_ONLY_TOO_YOUNG = u ''adults_only_too_young''"
| "reason_code_value ADULTS_ONLY_NEEDS_AGE = u ''adults_only_needs_age''"
| "reason_code_value SCHOOL_RESERVED = u ''school_reserved''"
| "reason_code_value CLUB_RESERVED = u ''club_reserved''"
| "reason_code_value GIRLS_ONLY_EXCLUDED = u ''girls_only_excluded''"
| "reason_code_value GIRLS_ONLY_CONFIRM = u ''girls_only_confirm''"
| "reason_code_value GIRLS_ONLY_NEEDS_GENDER = u ''girls_only_needs_gender''"
| "reason_code_value GENDER_DIVERSE_TOO_YOUNG = u ''gender_diverse_too_young''"
| "reason_code_value GENDER_DIVERSE_CONFIRM = u ''gender_diverse_confirm''"
| "reason_code_value ACCOMPANIED_CHILDREN_CONFIRM = u ''accompanied_children_confirm''"

text \<open>The interpolation values of a message: a dict literal, in insertion order.\<close>

datatype param = PStr pystr | PInt int

record eligibility_result =
  er_allowed :: bool
  er_rule :: pystr
  er_code :: reason_code
  er_params :: "(pystr \<times> param) list"

abbreviation EligibilityResult ::
  "bool \<Rightarrow> pystr \<Rightarrow> reason_code \<Rightarrow> (pystr \<times> param) list \<Rightarrow> eligibility_result" where
  "EligibilityResult a r c ps \<equiv> \<lparr>er_allowed = a, er_rule = r, er_code = c, er_params = ps\<rparr>"

definition women_only :: "person \<Rightarrow> eligibility_result" where
  "women_only p = (case gender p of
     Some FEMALE \<Rightarrow> EligibilityResult True (u ''women-only'') WOMEN_ONLY_WELCOME []
   | Some MALE \<Rightarrow> EligibilityResult False (u ''women-only'') WOMEN_ONLY_EXCLUDED []
   | Some DIVERSE \<Rightarrow> EligibilityResult False (u ''women-only'') WOMEN_ONLY_CONFIRM []
   | None \<Rightarrow> EligibilityResult False (u ''women-only'') WOMEN_ONLY_NEEDS_GENDER [])"

definition girls_only :: "person \<Rightarrow> eligibility_result" where
  "girls_only p = (case gender p of
     Some FEMALE \<Rightarrow> EligibilityResult False (u ''girls-only'') GIRLS_ONLY_CONFIRM []
   | Some MALE \<Rightarrow> EligibilityResult False (u ''girls-only'') GIRLS_ONLY_EXCLUDED []
   | Some DIVERSE \<Rightarrow> EligibilityResult False (u ''girls-only'') GIRLS_ONLY_EXCLUDED []
   | None \<Rightarrow> EligibilityResult False (u ''girls-only'') GIRLS_ONLY_NEEDS_GENDER [])"

definition gender_diverse :: "person \<Rightarrow> int \<Rightarrow> eligibility_result" where
  "gender_diverse p n =
     (if (case age p of Some a \<Rightarrow> a < n | None \<Rightarrow> False)
      then EligibilityResult False (u ''gender-diverse'') GENDER_DIVERSE_TOO_YOUNG [(u ''min_age'', PInt n)]
      else EligibilityResult False (u ''gender-diverse'') GENDER_DIVERSE_CONFIRM [(u ''min_age'', PInt n)])"

definition adults_only :: "person \<Rightarrow> int \<Rightarrow> eligibility_result" where
  "adults_only p n = (case age p of
     None \<Rightarrow> EligibilityResult False (u ''adults-only'') ADULTS_ONLY_NEEDS_AGE [(u ''min_age'', PInt n)]
   | Some a \<Rightarrow>
       if a \<ge> n
       then EligibilityResult True (u ''adults-only'') ADULTS_ONLY_WELCOME [(u ''min_age'', PInt n)]
       else EligibilityResult False (u ''adults-only'') ADULTS_ONLY_TOO_YOUNG [(u ''min_age'', PInt n)])"

definition seniors_only :: "person \<Rightarrow> int \<Rightarrow> eligibility_result" where
  "seniors_only p n = (case age p of
     None \<Rightarrow> EligibilityResult False (u ''seniors-only'') SENIORS_ONLY_NEEDS_AGE [(u ''min_age'', PInt n)]
   | Some a \<Rightarrow>
       if a \<ge> n
       then EligibilityResult True (u ''seniors-only'') SENIORS_ONLY_WELCOME [(u ''min_age'', PInt n)]
       else EligibilityResult False (u ''seniors-only'') SENIORS_ONLY_TOO_YOUNG [(u ''min_age'', PInt n)])"

fun eligibility :: "person \<Rightarrow> session_access \<Rightarrow> eligibility_result" where
  "eligibility p PublicSwim = EligibilityResult True (u ''public'') PUBLIC []"
| "eligibility p (LaneSwim _) = EligibilityResult True (u ''lane-swim'') LANE_SWIM []"
| "eligibility p (FamilyTime _) = EligibilityResult True (u ''family'') FAMILY []"
| "eligibility p (WomenOnly _) = women_only p"
| "eligibility p (SeniorsOnly n) = seniors_only p n"
| "eligibility p SchoolReserved = EligibilityResult False (u ''school-reserved'') SCHOOL_RESERVED []"
| "eligibility p (ClubReserved c) =
     EligibilityResult False (u ''club-reserved'') CLUB_RESERVED
       (if c = [] then [] else [(u ''club'', PStr c)])"
| "eligibility p (AdultsOnly n _) = adults_only p n"
| "eligibility p GirlsOnly = girls_only p"
| "eligibility p (GenderDiverse n) = gender_diverse p n"
| "eligibility p AccompaniedChildren =
     EligibilityResult False (u ''accompanied-children'') ACCOMPANIED_CHILDREN_CONFIRM []"

lemmas eligibility_defs =
  women_only_def girls_only_def gender_diverse_def adults_only_def seniors_only_def
lemmas eligibility_splits = option.splits gender.splits if_splits

section \<open>Correctness\<close>

text \<open>The information order: \<open>q\<close> knows at least what \<open>p\<close> knows, and nothing different.\<close>

definition knows_no_less :: "person \<Rightarrow> person \<Rightarrow> bool" where
  "knows_no_less q p \<longleftrightarrow>
     (gender p = None \<or> gender q = gender p) \<and> (age p = None \<or> age q = age p)"

text \<open>The codes that state a verdict for good: a welcome, or an exclusion on a stated fact.\<close>

definition welcome_codes :: "reason_code set" where
  "welcome_codes = {PUBLIC, LANE_SWIM, FAMILY, WOMEN_ONLY_WELCOME, SENIORS_ONLY_WELCOME,
     ADULTS_ONLY_WELCOME}"

definition excluded_codes :: "reason_code set" where
  "excluded_codes = {WOMEN_ONLY_EXCLUDED, SENIORS_ONLY_TOO_YOUNG, ADULTS_ONLY_TOO_YOUNG,
     SCHOOL_RESERVED, CLUB_RESERVED, GIRLS_ONLY_EXCLUDED, GENDER_DIVERSE_TOO_YOUNG}"

lemma allowed_iff_welcome: "er_allowed (eligibility p a) \<longleftrightarrow> er_code (eligibility p a) \<in> welcome_codes"
  by (cases a) (auto simp: eligibility_defs welcome_codes_def split: eligibility_splits)

lemma verdict_stable:
  "knows_no_less q p \<Longrightarrow> er_code (eligibility p a) \<in> welcome_codes \<union> excluded_codes \<Longrightarrow>
   eligibility q a = eligibility p a"
  by (cases a)
    (auto simp: eligibility_defs welcome_codes_def excluded_codes_def knows_no_less_def
      split: eligibility_splits)

lemma rule_is_legend_key: "er_rule (eligibility p a) = ai_key (access_info a)"
  by (cases a) (auto simp: eligibility_defs split: eligibility_splits)

text \<open>A person for whom an access rule yields a given code.\<close>

fun code_example :: "reason_code \<Rightarrow> person \<times> session_access" where
  "code_example PUBLIC = (\<lparr>gender = None, age = None\<rparr>, PublicSwim)"
| "code_example LANE_SWIM = (\<lparr>gender = None, age = None\<rparr>, LaneSwim [])"
| "code_example FAMILY = (\<lparr>gender = None, age = None\<rparr>, FamilyTime [])"
| "code_example WOMEN_ONLY_WELCOME = (\<lparr>gender = Some FEMALE, age = None\<rparr>, WomenOnly [])"
| "code_example WOMEN_ONLY_EXCLUDED = (\<lparr>gender = Some MALE, age = None\<rparr>, WomenOnly [])"
| "code_example WOMEN_ONLY_CONFIRM = (\<lparr>gender = Some DIVERSE, age = None\<rparr>, WomenOnly [])"
| "code_example WOMEN_ONLY_NEEDS_GENDER = (\<lparr>gender = None, age = None\<rparr>, WomenOnly [])"
| "code_example SENIORS_ONLY_WELCOME = (\<lparr>gender = None, age = Some 60\<rparr>, SeniorsOnly 60)"
| "code_example SENIORS_ONLY_TOO_YOUNG = (\<lparr>gender = None, age = Some 59\<rparr>, SeniorsOnly 60)"
| "code_example SENIORS_ONLY_NEEDS_AGE = (\<lparr>gender = None, age = None\<rparr>, SeniorsOnly 60)"
| "code_example ADULTS_ONLY_WELCOME = (\<lparr>gender = None, age = Some 18\<rparr>, AdultsOnly 18 [])"
| "code_example ADULTS_ONLY_TOO_YOUNG = (\<lparr>gender = None, age = Some 17\<rparr>, AdultsOnly 18 [])"
| "code_example ADULTS_ONLY_NEEDS_AGE = (\<lparr>gender = None, age = None\<rparr>, AdultsOnly 18 [])"
| "code_example SCHOOL_RESERVED = (\<lparr>gender = None, age = None\<rparr>, SchoolReserved)"
| "code_example CLUB_RESERVED = (\<lparr>gender = None, age = None\<rparr>, ClubReserved [])"
| "code_example GIRLS_ONLY_EXCLUDED = (\<lparr>gender = Some MALE, age = None\<rparr>, GirlsOnly)"
| "code_example GIRLS_ONLY_CONFIRM = (\<lparr>gender = Some FEMALE, age = None\<rparr>, GirlsOnly)"
| "code_example GIRLS_ONLY_NEEDS_GENDER = (\<lparr>gender = None, age = None\<rparr>, GirlsOnly)"
| "code_example GENDER_DIVERSE_TOO_YOUNG = (\<lparr>gender = None, age = Some 15\<rparr>, GenderDiverse 16)"
| "code_example GENDER_DIVERSE_CONFIRM = (\<lparr>gender = None, age = None\<rparr>, GenderDiverse 16)"
| "code_example ACCOMPANIED_CHILDREN_CONFIRM = (\<lparr>gender = None, age = None\<rparr>, AccompaniedChildren)"

lemma code_example_correct: "er_code (eligibility (fst (code_example c)) (snd (code_example c))) = c"
  by (cases c) (simp_all add: eligibility_defs)

lemma every_code_reachable: "\<exists>p a. er_code (eligibility p a) = c"
  using code_example_correct by blast

lemma reason_code_value_inj: "reason_code_value c = reason_code_value d \<Longrightarrow> c = d"
  by (cases c; cases d) simp_all

lemma access_keys_distinct: "distinct (map ai_key ACCESS_TYPES)"
  by (simp add: ACCESS_TYPES_def REPRESENTATIVE_ACCESS_def)

lemma access_legend_complete: "\<exists>i \<in> set ACCESS_TYPES. ai_key i = ai_key (access_info a)"
  by (cases a) (simp_all add: ACCESS_TYPES_def REPRESENTATIVE_ACCESS_def)

end
