(* ===== verification/PyTime.thy ===== *)
theory PyTime
  imports Prelude
begin

text \<open>
  The parts of Python's \<open>datetime\<close> module the program uses: \<open>time\<close> and \<open>date\<close>
  with their lexicographic order (a \<open>linorder\<close> instance each), the proleptic Gregorian
  ordinal and \<open>date.weekday()\<close>, and \<open>datetime\<close> with its subtraction rule.
  Durations (\<open>timedelta\<close>) are integers counting microseconds.
\<close>

section \<open>time\<close>

datatype time = Time (hour: nat) (minute: nat) (second: nat) (microsecond: nat)

fun time_key :: "time \<Rightarrow> nat \<times> nat \<times> nat \<times> nat" where
  "time_key (Time h m s us) = (h, m, s, us)"

lemma time_key_inj: "time_key a = time_key b \<Longrightarrow> a = b"
  by (cases a; cases b) simp

instantiation time :: linorder
begin

definition less_eq_time :: "time \<Rightarrow> time \<Rightarrow> bool" where
  "a \<le> b \<longleftrightarrow> time_key a \<le> time_key b"

definition less_time :: "time \<Rightarrow> time \<Rightarrow> bool" where
  "a < b \<longleftrightarrow> time_key a < time_key b"

instance
  by intro_classes (auto simp: less_eq_time_def less_time_def intro: time_key_inj order_trans)

end

definition valid_time :: "time \<Rightarrow> bool" where
  "valid_time t \<longleftrightarrow> hour t < 24 \<and> minute t < 60 \<and> second t < 60 \<and> microsecond t < 1000000"

definition time_us :: "time \<Rightarrow> int" where
  "time_us t = ((int (hour t) * 60 + int (minute t)) * 60 + int (second t)) * 1000000 + int (microsecond t)"

abbreviation hm :: "nat \<Rightarrow> nat \<Rightarrow> time" where
  "hm h m \<equiv> Time h m 0 0"

lemma time_le_simps [simp]:
  "Time h m s us \<le> Time h' m' s' us' \<longleftrightarrow> (h, m, s, us) \<le> (h', m', s', us')"
  "Time h m s us < Time h' m' s' us' \<longleftrightarrow> (h, m, s, us) < (h', m', s', us')"
  by (simp_all add: less_eq_time_def less_time_def)

section \<open>date\<close>

datatype date = Date (year: int) (month: int) (day: int)

fun date_key :: "date \<Rightarrow> int \<times> int \<times> int" where
  "date_key (Date y m d) = (y, m, d)"

lemma date_key_inj: "date_key a = date_key b \<Longrightarrow> a = b"
  by (cases a; cases b) simp

instantiation date :: linorder
begin

definition less_eq_date :: "date \<Rightarrow> date \<Rightarrow> bool" where
  "a \<le> b \<longleftrightarrow> date_key a \<le> date_key b"

definition less_date :: "date \<Rightarrow> date \<Rightarrow> bool" where
  "a < b \<longleftrightarrow> date_key a < date_key b"

instance
  by intro_classes (auto simp: less_eq_date_def less_date_def intro: date_key_inj order_trans)

end

lemma date_le_simps [simp]:
  "Date y m d \<le> Date y' m' d' \<longleftrightarrow> (y, m, d) \<le> (y', m', d')"
  "Date y m d < Date y' m' d' \<longleftrightarrow> (y, m, d) < (y', m', d')"
  by (simp_all add: less_eq_date_def less_date_def)

definition is_leap :: "int \<Rightarrow> bool" where
  "is_leap y \<longleftrightarrow> y mod 4 = 0 \<and> (y mod 100 \<noteq> 0 \<or> y mod 400 = 0)"

definition days_in_month :: "int \<Rightarrow> int \<Rightarrow> int" where
  "days_in_month y m =
     (if m = 2 then (if is_leap y then 29 else 28)
      else if m \<in> {4, 6, 9, 11} then 30 else 31)"

definition valid_date :: "date \<Rightarrow> bool" where
  "valid_date d \<longleftrightarrow> 1 \<le> year d \<and> year d \<le> 9999 \<and> 1 \<le> month d \<and> month d \<le> 12 \<and>
     1 \<le> day d \<and> day d \<le> days_in_month (year d) (month d)"

definition days_before_year :: "int \<Rightarrow> int" where
  "days_before_year y = (y - 1) * 365 + (y - 1) div 4 - (y - 1) div 100 + (y - 1) div 400"

definition days_before_month :: "int \<Rightarrow> int \<Rightarrow> int" where
  "days_before_month y m = sum_list (map (days_in_month y) [1..m - 1])"

definition toordinal :: "date \<Rightarrow> int" where
  "toordinal d = days_before_year (year d) + days_before_month (year d) (month d) + day d"

text \<open>\<open>date.weekday()\<close>: Monday is 0.\<close>

definition weekday_num :: "date \<Rightarrow> int" where
  "weekday_num d = (toordinal d + 6) mod 7"

lemma weekday_num_range: "0 \<le> weekday_num d" "weekday_num d < 7"
  by (simp_all add: weekday_num_def)

lemma weekday_num_example: "weekday_num (Date 2026 8 12) = 2"
  by (simp add: weekday_num_def toordinal_def days_before_year_def days_before_month_def
      days_in_month_def is_leap_def upto.simps)

section \<open>datetime\<close>

text \<open>
  A \<open>datetime\<close> is naive (no zone) or aware. The program uses one named zone,
  \<open>ZoneInfo("Europe/Zurich")\<close>, and receives fixed offsets (in microseconds) from
  parsed timestamps. What the zone database says about Zurich is data outside the
  program: it is the argument \<open>tzdb\<close> of the definitions that convert.
\<close>

datatype tzinfo = Zurich | FixedOffset int

record datetime =
  dt_date :: date
  dt_time :: time
  dt_tz :: "tzinfo option"

record tzdb =
  zurich_offset :: "date \<Rightarrow> time \<Rightarrow> int"
  zurich_from_utc :: "int \<Rightarrow> date \<times> time"

definition wall_us :: "datetime \<Rightarrow> int" where
  "wall_us x = toordinal (dt_date x) * 86400000000 + time_us (dt_time x)"

fun tz_offset :: "tzdb \<Rightarrow> datetime \<Rightarrow> tzinfo option \<Rightarrow> int" where
  "tz_offset db x (Some Zurich) = zurich_offset db (dt_date x) (dt_time x)"
| "tz_offset db x (Some (FixedOffset z)) = z"
| "tz_offset db x None = 0"

text \<open>
  Subtraction of two datetimes: the same zone object on both sides compares wall clocks,
  different zones compare instants. (Naive minus aware raises; the callers rule it out.)
\<close>

definition dt_sub :: "tzdb \<Rightarrow> datetime \<Rightarrow> datetime \<Rightarrow> int" where
  "dt_sub db a b =
     (if dt_tz a = dt_tz b then wall_us a - wall_us b
      else (wall_us a - tz_offset db a (dt_tz a)) - (wall_us b - tz_offset db b (dt_tz b)))"

text \<open>
  \<open>x + timedelta\<close> moves the wall clock and keeps the zone; a result outside the years 1 to
  9999 raises \<open>OverflowError\<close>.
\<close>

definition DAY_US :: int where
  "DAY_US = 86400000000"

definition next_day :: "date \<Rightarrow> date" where
  "next_day d =
     (if day d < days_in_month (year d) (month d) then Date (year d) (month d) (day d + 1)
      else if month d < 12 then Date (year d) (month d + 1) 1
      else Date (year d + 1) 1 1)"

definition prev_day :: "date \<Rightarrow> date" where
  "prev_day d =
     (if 1 < day d then Date (year d) (month d) (day d - 1)
      else if 1 < month d then Date (year d) (month d - 1) (days_in_month (year d) (month d - 1))
      else Date (year d - 1) 12 31)"

definition add_days :: "date \<Rightarrow> int \<Rightarrow> date" where
  "add_days d n = (if 0 \<le> n then (next_day ^^ nat n) d else (prev_day ^^ nat (- n)) d)"

definition time_of_us :: "int \<Rightarrow> time" where
  "time_of_us t =
     Time (nat (t div 3600000000)) (nat (t div 60000000 mod 60)) (nat (t div 1000000 mod 60)) (nat (t mod 1000000))"

definition dt_add :: "datetime \<Rightarrow> int \<Rightarrow> py_error + datetime" where
  "dt_add x us =
     (let t = time_us (dt_time x) + us; d = add_days (dt_date x) (t div DAY_US)
      in if 1 \<le> year d \<and> year d \<le> 9999 then Inr (x\<lparr>dt_date := d, dt_time := time_of_us (t mod DAY_US)\<rparr>)
         else Inl OverflowError)"

text \<open>\<open>x.astimezone(ZURICH)\<close> of an aware datetime.\<close>

definition astimezone_zurich :: "tzdb \<Rightarrow> datetime \<Rightarrow> datetime" where
  "astimezone_zurich db x =
     (if dt_tz x = Some Zurich then x
      else let (d, t) = zurich_from_utc db (wall_us x - tz_offset db x (dt_tz x))
           in \<lparr>dt_date = d, dt_time = t, dt_tz = Some Zurich\<rparr>)"

definition seconds :: "int \<Rightarrow> int" where
  "seconds n = n * 1000000"

lemma dt_sub_self [simp]: "dt_sub db a a = 0"
  by (simp add: dt_sub_def)

lemma dt_sub_antisym: "dt_sub db a b = - dt_sub db b a"
  by (simp add: dt_sub_def)

section \<open>Facts about adding a duration\<close>

definition civil_date :: "date \<Rightarrow> bool" where
  "civil_date d \<longleftrightarrow> 1 \<le> month d \<and> month d \<le> 12 \<and> 1 \<le> day d \<and> day d \<le> days_in_month (year d) (month d)"

lemma valid_date_civil: "valid_date d \<longleftrightarrow> 1 \<le> year d \<and> year d \<le> 9999 \<and> civil_date d"
  by (auto simp: valid_date_def civil_date_def)

lemma days_in_month_pos: "28 \<le> days_in_month y m"
  by (simp add: days_in_month_def)

lemma days_before_next_month:
  "1 \<le> m \<Longrightarrow> days_before_month y (m + 1) = days_before_month y m + days_in_month y m"
  by (simp add: days_before_month_def upto_rec2 [of 1 m])

lemma days_before_year_month: "days_before_month y 12 + 31 = (if is_leap y then 366 else 365)"
  by (simp add: days_before_month_def days_in_month_def upto.simps)

lemma div_pred:
  assumes "0 < k" shows "(y :: int) div k - (y - 1) div k = (if y mod k = 0 then 1 else 0)"
proof (cases "y mod k = 0")
  case True
  then have "y - 1 = k * (y div k - 1) + (k - 1)" by (simp add: algebra_simps minus_mod_eq_mult_div [symmetric])
  then have "(y - 1) div k = y div k - 1" by (rule int_div_pos_eq) (use assms in simp_all)
  with True show ?thesis by simp
next
  case False
  have "0 \<le> y mod k" "y mod k < k" using assms by simp_all
  moreover have "y - 1 = k * (y div k) + (y mod k - 1)" by simp
  ultimately have "(y - 1) div k = y div k" using False by (intro int_div_pos_eq [of _ _ _ "y mod k - 1"]) auto
  with False show ?thesis by simp
qed

lemma days_before_next_year: "days_before_year (y + 1) = days_before_year y + (if is_leap y then 366 else 365)"
proof -
  have "y mod 400 = 0 \<longrightarrow> y mod 100 = 0" "y mod 100 = 0 \<longrightarrow> y mod 4 = 0"
    using dvd_trans [of 100 400 y] dvd_trans [of 4 100 y] by (simp_all add: mod_eq_0_iff_dvd)
  moreover have regroup: "y * 365 + a - b + c = (y - 1) * 365 + a' - b' + c' + 365 + (a - a') - (b - b') + (c - c')"
    for a b c a' b' c' :: int by simp
  have "days_before_year (y + 1) = days_before_year y + 365 + (y div 4 - (y - 1) div 4) -
      (y div 100 - (y - 1) div 100) + (y div 400 - (y - 1) div 400)"
    unfolding days_before_year_def add_diff_cancel_right' by (rule regroup)
  then have "days_before_year (y + 1) = days_before_year y + 365 + (if y mod 4 = 0 then 1 else 0) -
      (if y mod 100 = 0 then 1 else 0) + (if y mod 400 = 0 then 1 else 0)"
    by (simp only: div_pred zero_less_numeral)
  ultimately show ?thesis unfolding is_leap_def by (cases "y mod 4 = 0"; cases "y mod 100 = 0"; cases "y mod 400 = 0") simp_all
qed

lemma next_day_ordinal:
  assumes "civil_date d" shows "civil_date (next_day d) \<and> toordinal (next_day d) = toordinal d + 1"
proof (cases "day d < days_in_month (year d) (month d)")
  case True
  with assms show ?thesis by (simp add: next_day_def civil_date_def toordinal_def)
next
  case False
  with assms have last: "day d = days_in_month (year d) (month d)" by (simp add: civil_date_def)
  show ?thesis
  proof (cases "month d < 12")
    case True
    with False last assms show ?thesis
      using days_in_month_pos [of "year d" "month d + 1"]
      by (simp add: next_day_def civil_date_def toordinal_def days_before_next_month)
  next
    case m: False
    with assms have "month d = 12" by (simp add: civil_date_def)
    moreover from this last have "day d = 31" by (simp add: days_in_month_def)
    moreover have "days_before_month (year d + 1) 1 = 0" by (simp add: days_before_month_def)
    ultimately show ?thesis using False
      using days_in_month_pos [of "year d + 1" 1] days_before_year_month [of "year d"]
      by (simp add: next_day_def civil_date_def toordinal_def days_before_next_year)
  qed
qed

lemma next_days_ordinal:
  "civil_date d \<Longrightarrow> civil_date ((next_day ^^ n) d) \<and> toordinal ((next_day ^^ n) d) = toordinal d + int n"
  by (induction n) (auto simp: next_day_ordinal)

lemma time_of_us_valid:
  assumes "0 \<le> t" "t < DAY_US"
  shows "valid_time (time_of_us t) \<and> time_us (time_of_us t) = t"
proof -
  have h: "0 \<le> t div 3600000000" "t div 3600000000 < 24" using assms by (auto simp: DAY_US_def)
  have r: "t div 3600000000 * 60 + t div 60000000 mod 60 = t div 60000000"
    "t div 60000000 * 60 + t div 1000000 mod 60 = t div 1000000" "t div 1000000 * 1000000 + t mod 1000000 = t"
    using div_mult_mod_eq [of "t div 60000000" 60] div_mult_mod_eq [of "t div 1000000" 60] div_mult_mod_eq [of t 1000000]
    by (simp_all add: zdiv_zmult2_eq [symmetric])
  have "time_us (time_of_us t) =
      ((t div 3600000000 * 60 + t div 60000000 mod 60) * 60 + t div 1000000 mod 60) * 1000000 + t mod 1000000"
    using h(1) by (simp add: time_us_def time_of_us_def)
  then have "time_us (time_of_us t) = t" by (simp only: r)
  with h show ?thesis by (simp add: valid_time_def time_of_us_def nat_less_iff)
qed

text \<open>Adding a duration that is not negative moves the wall clock by exactly that duration.\<close>

lemma dt_add_exact:
  assumes "dt_add x us = Inr y" "civil_date (dt_date x)" "0 \<le> us"
  shows "wall_us y = wall_us x + us" "dt_tz y = dt_tz x" "valid_date (dt_date y)" "valid_time (dt_time y)"
proof -
  let ?t = "time_us (dt_time x) + us"
  let ?d = "(next_day ^^ nat (?t div DAY_US)) (dt_date x)"
  have t: "0 \<le> ?t" using assms(3) by (simp add: time_us_def)
  then have q: "0 \<le> ?t div DAY_US" by (simp add: DAY_US_def)
  have y: "1 \<le> year ?d" "year ?d \<le> 9999" "y = x\<lparr>dt_date := ?d, dt_time := time_of_us (?t mod DAY_US)\<rparr>"
    using assms(1) q by (auto simp: dt_add_def add_days_def Let_def split: if_splits)
  have d: "civil_date ?d" "toordinal ?d = toordinal (dt_date x) + ?t div DAY_US"
    using next_days_ordinal [OF assms(2), of "nat (?t div DAY_US)"] q by simp_all
  have r: "valid_time (time_of_us (?t mod DAY_US))" "time_us (time_of_us (?t mod DAY_US)) = ?t mod DAY_US"
    using time_of_us_valid [of "?t mod DAY_US"] by (simp_all add: DAY_US_def)
  show "dt_tz y = dt_tz x" "valid_date (dt_date y)" "valid_time (dt_time y)"
    using y d r by (simp_all add: valid_date_civil)
  have "wall_us y = toordinal ?d * DAY_US + time_us (time_of_us (?t mod DAY_US))"
    by (simp add: y wall_us_def DAY_US_def)
  then have "wall_us y = (toordinal (dt_date x) + ?t div DAY_US) * DAY_US + ?t mod DAY_US"
    by (simp only: d r)
  also have "\<dots> = wall_us x + us"
    using div_mult_mod_eq [of ?t DAY_US] by (simp add: wall_us_def DAY_US_def algebra_simps)
  finally show "wall_us y = wall_us x + us" .
qed

end
