(* ===== verification/Schedule.thy ===== *)
theory Schedule
  imports Access Errors PyTime
begin

text \<open>
  \<open>src/swimzh/domain/schedule.py\<close>: weekdays, half-open time ranges, year-free annual
  windows, recurring rules, one-off exceptions, closures and the resolved day. Constructors
  that validate return a sum (the raised \<open>ValueError\<close> on the left); code that builds a
  range it has already compared uses the plain constructor, and the lemmas show that the
  comparison holds there.
\<close>

section \<open>Closure reasons and public holidays\<close>

text \<open>
  \<open>src/swimzh/domain/closure.py\<close> and \<open>src/swimzh/domain/holiday.py\<close>: closure reasons
  and public holidays as codes. Curated German text is trimmed, case-folded and looked up;
  a miss keeps the text (closures) or yields the fail-safe code (holidays).
\<close>

section \<open>Closure codes\<close>

datatype closure_code =
    SEASONAL_BREAK | SEASONAL_BREAK_MAINTENANCE | MAINTENANCE | OPERATIONAL_BREAK
  | CHRISTMAS_EVE | PUBLIC_HOLIDAY | NO_SESSIONS | OUT_OF_SEASON | SPECIAL | UNMAPPED

fun closure_code_value :: "closure_code \<Rightarrow> pystr" where
  "closure_code_value SEASONAL_BREAK = u ''seasonal_break''"
| "closure_code_value SEASONAL_BREAK_MAINTENANCE = u ''seasonal_break_maintenance''"
| "closure_code_value MAINTENANCE = u ''maintenance''"
| "closure_code_value OPERATIONAL_BREAK = u ''operational_break''"
| "closure_code_value CHRISTMAS_EVE = u ''christmas_eve''"
| "closure_code_value PUBLIC_HOLIDAY = u ''public_holiday''"
| "closure_code_value NO_SESSIONS = u ''no_sessions''"
| "closure_code_value OUT_OF_SEASON = u ''out_of_season''"
| "closure_code_value SPECIAL = u ''special''"
| "closure_code_value UNMAPPED = u ''unmapped''"

definition PHRASES :: "(pystr \<times> closure_code) list" where
  "PHRASES =
     [(u ''sommerpause'', SEASONAL_BREAK),
      (u ''sommerpause / revision'', SEASONAL_BREAK_MAINTENANCE),
      (u ''revision'', MAINTENANCE),
      (u ''betriebsferien'', OPERATIONAL_BREAK),
      (u ''heiligabend'', CHRISTMAS_EVE)]"

text \<open>The \<open>params\<close> of a closure are a dict of strings, in insertion order.\<close>

type_synonym str_params = "(pystr \<times> pystr) list"

definition classify_closure :: "pystr option \<Rightarrow> closure_code \<times> str_params" where
  "classify_closure text =
     (let stripped = py_strip (case text of Some t \<Rightarrow> t | None \<Rightarrow> [])
      in if stripped = [] then (SPECIAL, [])
         else case map_of PHRASES (py_casefold stripped) of
           Some code \<Rightarrow> (code, [])
         | None \<Rightarrow> (UNMAPPED, [(u ''text'', stripped)]))"

definition is_unmapped :: "closure_code \<Rightarrow> bool" where
  "is_unmapped code \<longleftrightarrow> code = UNMAPPED"

section \<open>Holiday codes\<close>

datatype holiday_code =
    NEW_YEAR | BERCHTOLDSTAG | GOOD_FRIDAY | EASTER_MONDAY | LABOUR_DAY | ASCENSION
  | WHIT_MONDAY | NATIONAL_DAY | CHRISTMAS | ST_STEPHENS | UNKNOWN_HOLIDAY

fun holiday_code_value :: "holiday_code \<Rightarrow> pystr" where
  "holiday_code_value NEW_YEAR = u ''new_year''"
| "holiday_code_value BERCHTOLDSTAG = u ''berchtoldstag''"
| "holiday_code_value GOOD_FRIDAY = u ''good_friday''"
| "holiday_code_value EASTER_MONDAY = u ''easter_monday''"
| "holiday_code_value LABOUR_DAY = u ''labour_day''"
| "holiday_code_value ASCENSION = u ''ascension''"
| "holiday_code_value WHIT_MONDAY = u ''whit_monday''"
| "holiday_code_value NATIONAL_DAY = u ''national_day''"
| "holiday_code_value CHRISTMAS = u ''christmas''"
| "holiday_code_value ST_STEPHENS = u ''st_stephens''"
| "holiday_code_value UNKNOWN_HOLIDAY = u ''unknown''"

definition HOLIDAY_NAMES :: "(pystr \<times> holiday_code) list" where
  "HOLIDAY_NAMES =
     [(u ''neujahr'', NEW_YEAR),
      (u ''berchtoldstag'', BERCHTOLDSTAG),
      (u ''karfreitag'', GOOD_FRIDAY),
      (u ''ostermontag'', EASTER_MONDAY),
      (u ''tag der arbeit'', LABOUR_DAY),
      (u ''auffahrt'', ASCENSION),
      (u ''pfingstmontag'', WHIT_MONDAY),
      (u ''bundesfeier'', NATIONAL_DAY),
      (u ''weihnachten'', CHRISTMAS),
      (u ''stephanstag'', ST_STEPHENS)]"

definition classify_holiday :: "pystr option \<Rightarrow> holiday_code" where
  "classify_holiday name =
     (let stripped = py_strip (case name of Some t \<Rightarrow> t | None \<Rightarrow> [])
      in if stripped = [] then UNKNOWN_HOLIDAY
         else case map_of HOLIDAY_NAMES (py_casefold stripped) of
           Some code \<Rightarrow> code | None \<Rightarrow> UNKNOWN_HOLIDAY)"

section \<open>Nothing is dropped\<close>

lemma blank_iff: "py_strip t = [] \<longleftrightarrow> (\<forall>c \<in> set t. is_space c)"
  by (simp add: py_strip_def strip_where_Nil_iff)

lemma classify_closure_cases:
  obtains (special) "\<forall>c \<in> set t. is_space c" "classify_closure (Some t) = (SPECIAL, [])"
  | (phrase) code where "(py_casefold (py_strip t), code) \<in> set PHRASES"
      "classify_closure (Some t) = (code, [])"
  | (unmapped) "\<not> (\<forall>c \<in> set t. is_space c)" "py_casefold (py_strip t) \<notin> fst ` set PHRASES"
      "classify_closure (Some t) = (UNMAPPED, [(u ''text'', py_strip t)])"
proof (cases "py_strip t = []")
  case True
  then have "classify_closure (Some t) = (SPECIAL, [])" by (simp add: classify_closure_def)
  with True show ?thesis by (intro special) (simp_all add: blank_iff)
next
  case False
  show ?thesis
  proof (cases "map_of PHRASES (py_casefold (py_strip t))")
    case None
    with False have "classify_closure (Some t) = (UNMAPPED, [(u ''text'', py_strip t)])"
      by (simp add: classify_closure_def)
    with False None show ?thesis
      by (intro unmapped) (simp_all add: map_of_eq_None_iff blank_iff)
  next
    case (Some code)
    with False have "classify_closure (Some t) = (code, [])" by (simp add: classify_closure_def)
    with Some show ?thesis by (intro phrase) (simp_all add: map_of_SomeD)
  qed
qed

lemma phrase_codes: "(k, code) \<in> set PHRASES \<Longrightarrow> code \<notin> {SPECIAL, UNMAPPED, PUBLIC_HOLIDAY, NO_SESSIONS, OUT_OF_SEASON}"
  by (auto simp: PHRASES_def)

lemma classify_closure_strip: "classify_closure (Some (py_strip t)) = classify_closure (Some t)"
  by (simp add: classify_closure_def py_strip_idem)

section \<open>Weekdays\<close>

datatype weekday = MONDAY | TUESDAY | WEDNESDAY | THURSDAY | FRIDAY | SATURDAY | SUNDAY

fun weekday_value :: "weekday \<Rightarrow> int" where
  "weekday_value MONDAY = 0"
| "weekday_value TUESDAY = 1"
| "weekday_value WEDNESDAY = 2"
| "weekday_value THURSDAY = 3"
| "weekday_value FRIDAY = 4"
| "weekday_value SATURDAY = 5"
| "weekday_value SUNDAY = 6"

lemma weekday_value_inj: "weekday_value a = weekday_value b \<Longrightarrow> a = b"
  by (cases a; cases b) simp_all

text \<open>An \<open>IntEnum\<close> compares by value.\<close>

instantiation weekday :: linorder
begin

definition less_eq_weekday :: "weekday \<Rightarrow> weekday \<Rightarrow> bool" where
  "a \<le> b \<longleftrightarrow> weekday_value a \<le> weekday_value b"

definition less_weekday :: "weekday \<Rightarrow> weekday \<Rightarrow> bool" where
  "a < b \<longleftrightarrow> weekday_value a < weekday_value b"

instance
  by intro_classes (auto simp: less_eq_weekday_def less_weekday_def intro: weekday_value_inj)

end

lemma UNIV_weekday: "UNIV = {MONDAY, TUESDAY, WEDNESDAY, THURSDAY, FRIDAY, SATURDAY, SUNDAY}"
  using weekday.exhaust by auto

lemma finite_weekdays [simp]: "finite (A :: weekday set)"
  by (rule finite_subset [OF subset_UNIV]) (simp add: UNIV_weekday)

definition Weekday :: "int \<Rightarrow> weekday" where
  "Weekday n = (if n = 0 then MONDAY else if n = 1 then TUESDAY else if n = 2 then WEDNESDAY
     else if n = 3 then THURSDAY else if n = 4 then FRIDAY else if n = 5 then SATURDAY else SUNDAY)"

lemma Weekday_value [simp]: "0 \<le> n \<Longrightarrow> n < 7 \<Longrightarrow> weekday_value (Weekday n) = n"
  by (auto simp: Weekday_def)

definition weekday_of :: "date \<Rightarrow> weekday" where
  "weekday_of d = Weekday (weekday_num d)"

section \<open>Time ranges\<close>

datatype time_range = TimeRange (tr_start: time) (tr_end: time)

definition mk_time_range :: "time \<Rightarrow> time \<Rightarrow> py_error + time_range" where
  "mk_time_range s e = (if s \<ge> e then Inl ValueError else Inr (TimeRange s e))"

definition tr_contains :: "time_range \<Rightarrow> time \<Rightarrow> bool" where
  "tr_contains r t \<longleftrightarrow> tr_start r \<le> t \<and> t < tr_end r"

text \<open>What \<open>__post_init__\<close> has established of every \<open>TimeRange\<close> object.\<close>

definition wf_time_range :: "time_range \<Rightarrow> bool" where
  [wf_simps]: "wf_time_range r \<longleftrightarrow> tr_start r < tr_end r"

lemma mk_time_range_iff: "mk_time_range s e = Inr r \<longleftrightarrow> r = TimeRange s e \<and> wf_time_range r"
  by (auto simp: mk_time_range_def wf_time_range_def)

section \<open>Enumerations\<close>

datatype day_scope = ALWAYS | SCHOOL_TERM | SCHOOL_HOLIDAY
datatype holiday_policy = NORMAL | SUNDAY_SCHEDULE | POLICY_CLOSED
datatype date_precision = PRECISION_DAY | PRECISION_MONTH
datatype weather = ANY | FAIR_ONLY

fun date_precision_value :: "date_precision \<Rightarrow> pystr" where
  "date_precision_value PRECISION_DAY = u ''day''"
| "date_precision_value PRECISION_MONTH = u ''month''"

fun weather_value :: "weather \<Rightarrow> pystr" where
  "weather_value ANY = u ''any''"
| "weather_value FAIR_ONLY = u ''fair_only''"

section \<open>Annual windows\<close>

definition DAYS_IN_MONTH :: "int list" where
  "DAYS_IN_MONTH = [31, 29, 31, 30, 31, 30, 31, 31, 30, 31, 30, 31]"

text \<open>Python indexing: a negative index counts from the end, out of range raises.\<close>

definition py_index :: "'v list \<Rightarrow> int \<Rightarrow> py_error + 'v" where
  "py_index vs k =
     (if 0 \<le> k \<and> k < int (length vs) then Inr (vs ! nat k)
      else if k < 0 \<and> - k \<le> int (length vs) then Inr (rev vs ! nat (- k - 1))
      else Inl IndexError)"

datatype month_day = MonthDay (md_month: int) (md_day: int)

definition mk_month_day :: "int \<Rightarrow> int \<Rightarrow> py_error + month_day" where
  "mk_month_day m d =
     (if \<not> (1 \<le> m \<and> m \<le> 12) then Inl ValueError
      else case py_index DAYS_IN_MONTH (m - 1) of
        Inl e \<Rightarrow> Inl e
      | Inr k \<Rightarrow> if \<not> (1 \<le> d \<and> d \<le> k) then Inl ValueError else Inr (MonthDay m d))"

record annual_window =
  aw_start :: month_day
  aw_end :: month_day
  aw_precision :: date_precision

definition whole_months :: "int \<Rightarrow> int \<Rightarrow> py_error + annual_window" where
  "whole_months start_month end_month =
     (case mk_month_day start_month 1 of
        Inl e \<Rightarrow> Inl e
      | Inr s \<Rightarrow> case py_index DAYS_IN_MONTH (end_month - 1) of
          Inl e \<Rightarrow> Inl e
        | Inr k \<Rightarrow> case mk_month_day end_month k of
            Inl e \<Rightarrow> Inl e
          | Inr t \<Rightarrow> Inr \<lparr>aw_start = s, aw_end = t, aw_precision = PRECISION_MONTH\<rparr>)"

definition in_cycle :: "'a::linorder \<Rightarrow> 'a \<Rightarrow> 'a \<Rightarrow> bool" where
  "in_cycle key lo hi = (if lo \<le> hi then lo \<le> key \<and> key \<le> hi else key \<ge> lo \<or> key \<le> hi)"

definition aw_contains :: "annual_window \<Rightarrow> date \<Rightarrow> bool" where
  "aw_contains w d = (case aw_precision w of
     PRECISION_MONTH \<Rightarrow> in_cycle (month d) (md_month (aw_start w)) (md_month (aw_end w))
   | PRECISION_DAY \<Rightarrow> in_cycle (month d, day d)
       (md_month (aw_start w), md_day (aw_start w)) (md_month (aw_end w), md_day (aw_end w)))"

section \<open>Rules, sessions, exceptions, closures\<close>

record schedule_rule =
  sr_weekdays :: "weekday set"
  sr_time :: time_range
  sr_access :: session_access
  sr_scope :: day_scope
  sr_source_text :: pystr
  sr_season :: "annual_window option"
  sr_weather :: weather

record resolved_session =
  rs_time :: time_range
  rs_access :: session_access
  rs_weather :: weather

definition derive_closure :: "pystr \<Rightarrow> closure_code \<Rightarrow> str_params \<Rightarrow> closure_code \<times> str_params" where
  "derive_closure reason code params =
     (if code \<noteq> SPECIAL \<or> params \<noteq> [] then (code, params) else classify_closure (Some reason))"

record schedule_exception =
  se_date :: date
  se_closed :: bool
  se_reason :: pystr
  se_code :: closure_code
  se_params :: str_params
  se_sessions :: "resolved_session list"

definition mk_schedule_exception ::
  "date \<Rightarrow> bool \<Rightarrow> pystr \<Rightarrow> closure_code \<Rightarrow> str_params \<Rightarrow> resolved_session list \<Rightarrow> schedule_exception" where
  "mk_schedule_exception d shut reason code params sessions =
     (let (c, ps) = derive_closure reason code params
      in \<lparr>se_date = d, se_closed = shut, se_reason = reason, se_code = c, se_params = ps,
          se_sessions = sessions\<rparr>)"

record closure_range =
  cr_start :: date
  cr_end :: date
  cr_reason :: pystr
  cr_code :: closure_code
  cr_params :: str_params

definition mk_closure_range ::
  "date \<Rightarrow> date \<Rightarrow> pystr \<Rightarrow> closure_code \<Rightarrow> str_params \<Rightarrow> closure_range" where
  "mk_closure_range s e reason code params =
     (let (c, ps) = derive_closure reason code params
      in \<lparr>cr_start = s, cr_end = e, cr_reason = reason, cr_code = c, cr_params = ps\<rparr>)"

definition cr_contains :: "closure_range \<Rightarrow> date \<Rightarrow> bool" where
  "cr_contains c d \<longleftrightarrow> cr_start c \<le> d \<and> d \<le> cr_end c"

section \<open>The resolved day\<close>

datatype day_schedule =
    OpenDay (od_sessions: "resolved_session list") (holiday_policy_unverified: bool)
  | OpenUnscheduledDay (oud_weather: weather)
  | ClosedDay (cd_code: closure_code) (cd_params: str_params)

section \<open>Facts about windows\<close>

lemma DAYS_IN_MONTH_index:
  "1 \<le> m \<Longrightarrow> m \<le> 12 \<Longrightarrow> \<exists>k. py_index DAYS_IN_MONTH (m - 1) = Inr k \<and> 1 \<le> k \<and>
     days_in_month y m \<le> k"
proof -
  assume "1 \<le> m" "m \<le> 12"
  then have "m = 1 \<or> m = 2 \<or> m = 3 \<or> m = 4 \<or> m = 5 \<or> m = 6 \<or> m = 7 \<or> m = 8 \<or> m = 9 \<or>
      m = 10 \<or> m = 11 \<or> m = 12"
    by presburger
  then show ?thesis
    by (auto simp: py_index_def DAYS_IN_MONTH_def days_in_month_def)
qed

lemma whole_months_Inr:
  assumes "1 \<le> s" "s \<le> 12" "1 \<le> e" "e \<le> 12"
  obtains k where "whole_months s e =
      Inr \<lparr>aw_start = MonthDay s 1, aw_end = MonthDay e k, aw_precision = PRECISION_MONTH\<rparr>"
    "1 \<le> k" "\<And>y. days_in_month y e \<le> k"
proof -
  obtain ks where ks: "py_index DAYS_IN_MONTH (s - 1) = Inr ks" "1 \<le> ks"
    using DAYS_IN_MONTH_index [of s] assms by blast
  obtain k where k: "py_index DAYS_IN_MONTH (e - 1) = Inr k" "1 \<le> k"
    using DAYS_IN_MONTH_index [of e] assms by blast
  have "days_in_month y e \<le> k" for y using DAYS_IN_MONTH_index [of e y] assms k by auto
  moreover have "whole_months s e =
      Inr \<lparr>aw_start = MonthDay s 1, aw_end = MonthDay e k, aw_precision = PRECISION_MONTH\<rparr>"
    using assms ks k by (simp add: whole_months_def mk_month_day_def)
  ultimately show ?thesis using that k by blast
qed

lemma in_cycle_lex_month:
  fixes m d s e k :: int
  assumes "1 \<le> d" "m = e \<Longrightarrow> d \<le> k" "1 \<le> k"
  shows "in_cycle (m, d) (s, 1) (e, k) = in_cycle m s e"
  using assms by (auto simp: in_cycle_def)

lemma whole_months_day_month_agree:
  assumes w: "whole_months s e = Inr w" and d: "valid_date d"
    and range: "1 \<le> s" "s \<le> 12" "1 \<le> e" "e \<le> 12"
  shows "aw_contains (w\<lparr>aw_precision := PRECISION_DAY\<rparr>) d = aw_contains w d"
proof -
  obtain k where k: "whole_months s e =
      Inr \<lparr>aw_start = MonthDay s 1, aw_end = MonthDay e k, aw_precision = PRECISION_MONTH\<rparr>"
    "1 \<le> k" "\<And>y. days_in_month y e \<le> k" using whole_months_Inr [OF range] by blast
  from d have "1 \<le> day d" "month d = e \<Longrightarrow> day d \<le> k"
    using k(3) [of "year d"] by (auto simp: valid_date_def)
  with k w show ?thesis by (auto simp: aw_contains_def in_cycle_lex_month)
qed

lemma aw_contains_year_free:
  "month d = month d' \<Longrightarrow> day d = day d' \<Longrightarrow> aw_contains w d = aw_contains w d'"
  by (simp add: aw_contains_def split: date_precision.split)

lemma in_cycle_wrap_complement:
  "\<not> lo \<le> hi \<Longrightarrow> in_cycle key lo hi \<longleftrightarrow> \<not> (hi < key \<and> key < lo)"
  by (auto simp: in_cycle_def)

section \<open>Facts about closures\<close>

lemma derive_closure_idem:
  "derive_closure reason code params = (c, ps) \<Longrightarrow> derive_closure reason c ps = (c, ps)"
  by (auto simp: derive_closure_def split: if_splits)

lemma derive_closure_special:
  assumes "derive_closure reason code params = (SPECIAL, [])"
  shows "\<forall>c \<in> set reason. is_space c"
proof -
  from assms have "classify_closure (Some reason) = (SPECIAL, [])"
    by (simp add: derive_closure_def split: if_splits)
  then show ?thesis
    by (cases reason rule: classify_closure_cases) (auto dest: phrase_codes)
qed

lemma mk_closure_range_fields:
  "cr_start (mk_closure_range s e r c ps) = s" "cr_end (mk_closure_range s e r c ps) = e"
  "(cr_code (mk_closure_range s e r c ps), cr_params (mk_closure_range s e r c ps)) = derive_closure r c ps"
  by (simp_all add: mk_closure_range_def split: prod.splits)

section \<open>The calendar overlay\<close>

text \<open>
  \<open>src/swimzh/domain/calendar.py\<close>: the public-holiday and school-holiday overlay of a date.
\<close>

record day_context =
  ctx_date :: date
  is_public_holiday :: bool
  holiday_name :: "pystr option"
  is_school_holiday :: bool
  school_holiday_name :: "pystr option"

record holiday_range =
  hr_name :: pystr
  hr_start :: date
  hr_end :: date

definition hr_contains :: "holiday_range \<Rightarrow> date \<Rightarrow> bool" where
  "hr_contains r d \<longleftrightarrow> hr_start r \<le> d \<and> d \<le> hr_end r"

record zurich_calendar =
  cal_public :: "date \<rightharpoonup> pystr"
  cal_school :: "holiday_range list"
  cal_known_years :: "int set"

definition covers :: "zurich_calendar \<Rightarrow> date \<Rightarrow> bool" where
  "covers cal d \<longleftrightarrow> year d \<in> cal_known_years cal"

definition calendar_eq :: "zurich_calendar \<Rightarrow> zurich_calendar \<Rightarrow> bool" where
  "calendar_eq a b \<longleftrightarrow> cal_public a = cal_public b \<and> cal_school a = cal_school b \<and>
     cal_known_years a = cal_known_years b"

definition cal_context :: "zurich_calendar \<Rightarrow> date \<Rightarrow> day_context" where
  "cal_context cal d =
     (let hname = cal_public cal d;
          school = find (\<lambda>r. hr_contains r d) (cal_school cal)
      in \<lparr>ctx_date = d,
          is_public_holiday = (hname \<noteq> None),
          holiday_name = hname,
          is_school_holiday = (school \<noteq> None),
          school_holiday_name = (case school of Some r \<Rightarrow> Some (hr_name r) | None \<Rightarrow> None)\<rparr>)"

lemma cal_context_public [day_simps]:
  "is_public_holiday (cal_context cal d) \<longleftrightarrow> d \<in> dom (cal_public cal)"
  "holiday_name (cal_context cal d) = cal_public cal d"
  by (auto simp: cal_context_def Let_def)

lemma cal_context_school [day_simps]:
  "is_school_holiday (cal_context cal d) \<longleftrightarrow> (\<exists>r \<in> set (cal_school cal). hr_contains r d)"
  by (auto simp: cal_context_def Let_def find_None_iff_all dest: find_SomeD)
     (metis find_None_iff_all not_None_eq)

lemma calendar_eq_iff: "calendar_eq a b \<longleftrightarrow> (a::zurich_calendar) = b"
  by (cases a; cases b) (auto simp: calendar_eq_def)

end
