(* ===== verification/Geo.thy ===== *)
theory Geo
  imports Prelude
begin

text \<open>
  \<open>src/swimzh/domain/geo.py\<close>: the great-circle distance, over the reals: floating-point
  rounding is idealised away, everything else is the code's formula.
\<close>

record geo_point =
  lat :: real
  lon :: real

definition EARTH_RADIUS_KM :: real where
  "EARTH_RADIUS_KM = 6371.0088"

definition radians :: "real \<Rightarrow> real" where
  "radians x = x * pi / 180"

definition haversine_h :: "geo_point \<Rightarrow> geo_point \<Rightarrow> real" where
  "haversine_h a b =
     (let lat1 = radians (lat a); lon1 = radians (lon a); lat2 = radians (lat b); lon2 = radians (lon b);
          dlat = lat2 - lat1; dlon = lon2 - lon1
      in (sin (dlat / 2))\<^sup>2 + cos lat1 * cos lat2 * (sin (dlon / 2))\<^sup>2)"

definition haversine_km :: "geo_point \<Rightarrow> geo_point \<Rightarrow> real" where
  "haversine_km a b = 2 * EARTH_RADIUS_KM * arcsin (sqrt (haversine_h a b))"

definition valid_geo :: "geo_point \<Rightarrow> bool" where
  "valid_geo p \<longleftrightarrow> - 90 \<le> lat p \<and> lat p \<le> 90"

lemma haversine_h_sym: "haversine_h a b = haversine_h b a"
proof -
  have "(sin ((x - y) / 2))\<^sup>2 = (sin ((y - x) / 2))\<^sup>2" for x y :: real
  proof -
    have "(x - y) / 2 = - ((y - x) / 2)" by (simp add: field_simps)
    then show ?thesis by (simp only: sin_minus power2_minus)
  qed
  then show ?thesis by (simp add: haversine_h_def Let_def mult.commute)
qed

lemma cos_lat_nonneg: "valid_geo p \<Longrightarrow> 0 \<le> cos (radians (lat p))"
proof (rule cos_ge_zero)
  assume v: "valid_geo p"
  then have "- 90 * pi \<le> lat p * pi" "lat p * pi \<le> 90 * pi"
    by (auto simp: valid_geo_def simp del: mult_minus_left intro!: mult_right_mono)
  then show "- (pi / 2) \<le> radians (lat p)" "radians (lat p) \<le> pi / 2"
    by (simp_all add: radians_def)
qed

text \<open>The argument of the square root is a square-root argument, and its root an arcsine one.\<close>

lemma haversine_h_bounds:
  assumes "valid_geo a" "valid_geo b"
  shows "0 \<le> haversine_h a b" "haversine_h a b \<le> 1"
proof -
  define x y s where "x = radians (lat a)" and "y = radians (lat b)"
    and "s = (sin ((radians (lon b) - radians (lon a)) / 2))\<^sup>2"
  have h: "haversine_h a b = (sin ((y - x) / 2))\<^sup>2 + cos x * cos y * s"
    by (simp add: haversine_h_def x_def y_def s_def Let_def)
  have cc: "0 \<le> cos x * cos y" using assms by (simp add: x_def y_def cos_lat_nonneg)
  have s: "0 \<le> s" "s \<le> 1" by (simp_all add: s_def abs_square_le_1)
  show "0 \<le> haversine_h a b" using cc s h by simp
  have "cos x * cos y * s \<le> cos x * cos y" using cc s by (rule_tac mult_left_le) simp_all
  moreover have "(sin ((y - x) / 2))\<^sup>2 + cos x * cos y \<le> 1"
  proof -
    have "2 * ((y - x) / 2) = y - x" by simp
    then have "cos (y - x) = 1 - 2 * (sin ((y - x) / 2))\<^sup>2"
      using cos_double_sin [of "(y - x) / 2"] by (simp only:)
    then have "(sin ((y - x) / 2))\<^sup>2 = (1 - (cos y * cos x + sin y * sin x)) / 2"
      by (simp add: cos_diff)
    moreover have "cos y * cos x - sin y * sin x \<le> 1" using cos_le_one [of "y + x"] by (simp add: cos_add)
    ultimately show ?thesis by (simp add: field_simps)
  qed
  ultimately show "haversine_h a b \<le> 1" using h by linarith
qed

lemma haversine_km_bounds:
  assumes "valid_geo a" "valid_geo b"
  shows "0 \<le> haversine_km a b" "haversine_km a b \<le> pi * EARTH_RADIUS_KM"
proof -
  let ?r = "sqrt (haversine_h a b)"
  have r: "0 \<le> ?r" "?r \<le> 1" using haversine_h_bounds [OF assms] by simp_all
  from r have "- 1 \<le> ?r" by linarith
  with r have "arcsin 0 \<le> arcsin ?r" "arcsin ?r \<le> arcsin 1"
    by (intro arcsin_le_arcsin; linarith)+
  then show "0 \<le> haversine_km a b" "haversine_km a b \<le> pi * EARTH_RADIUS_KM"
    by (simp_all add: haversine_km_def EARTH_RADIUS_KM_def)
qed

lemma haversine_km_sym: "haversine_km a b = haversine_km b a"
  by (simp add: haversine_km_def haversine_h_sym)

lemma haversine_km_self [simp]: "haversine_km a a = 0"
  by (simp add: haversine_km_def haversine_h_def Let_def)

end
