(* ===== verification/Models.thy ===== *)
theory Models
  imports Schedule Geo
begin

text \<open>
  \<open>src/swimzh/domain/models.py\<close>, \<open>lockers.py\<close>, \<open>rentals.py\<close> and the stored half of
  \<open>lane_plan.py\<close>: the \<open>Facility\<close> aggregate and everything it holds. \<open>Decimal\<close>
  amounts and measures are rationals, \<open>timedelta\<close> is an integer of microseconds.
\<close>

section \<open>Tariffs and admission\<close>

text \<open>
  \<open>src/swimzh/domain/pricing.py\<close> and \<open>src/swimzh/domain/admission.py\<close>: the published
  tariff with its printed age bounds, and the closed admission union. Amounts are rationals
  (\<open>Decimal\<close>).
\<close>

datatype price_category = CHILD | YOUTH | ADULT

record price_entry =
  pe_category :: price_category
  amount_chf :: rat
  display :: pystr
  pe_min_age :: "int option"

record price_table =
  pt_entries :: "price_entry list"
  pt_valid_as_of :: "date option"
  pt_source_url :: "pystr option"

definition bounded_entries :: "price_entry list \<Rightarrow> (int \<times> price_entry) list" where
  "bounded_entries es = concat (map (\<lambda>e. case pe_min_age e of Some b \<Rightarrow> [(b, e)] | None \<Rightarrow> []) es)"

definition entry_for :: "price_table \<Rightarrow> int option \<Rightarrow> price_entry option" where
  "entry_for t years =
     (let bounded = bounded_entries (pt_entries t);
          bounded' = (case years of None \<Rightarrow> bounded | Some a \<Rightarrow> filter (\<lambda>(bound, e). bound \<le> a) bounded)
      in case bounded' of
           [] \<Rightarrow> None
         | x # xs \<Rightarrow> Some (snd (max_first fst x xs)))"

definition price_for :: "price_table \<Rightarrow> int option \<Rightarrow> price_entry option" where
  "price_for t years = entry_for t years"

datatype admission = Free | Tariff (tariff_table: price_table) | Unknown

section \<open>The entry picked is the greatest bound the person clears\<close>

definition clears :: "int option \<Rightarrow> int \<Rightarrow> bool" where
  "clears years b \<longleftrightarrow> (case years of None \<Rightarrow> True | Some a \<Rightarrow> b \<le> a)"

lemma bounded_entries_set: "(b, e) \<in> set (bounded_entries es) \<longleftrightarrow> e \<in> set es \<and> pe_min_age e = Some b"
  by (auto simp: bounded_entries_def split: option.splits)

lemma price_for_cases:
  obtains (none) "price_for t years = None"
      "\<And>e b. e \<in> set (pt_entries t) \<Longrightarrow> pe_min_age e = Some b \<Longrightarrow> \<not> clears years b"
  | (some) e b where "price_for t years = Some e" "e \<in> set (pt_entries t)" "pe_min_age e = Some b"
      "clears years b"
      "\<And>e' b'. e' \<in> set (pt_entries t) \<Longrightarrow> pe_min_age e' = Some b' \<Longrightarrow> clears years b' \<Longrightarrow> b' \<le> b"
proof -
  define bs where "bs = filter (\<lambda>(b, e). clears years b) (bounded_entries (pt_entries t))"
  have mem: "(b, e) \<in> set bs \<longleftrightarrow> e \<in> set (pt_entries t) \<and> pe_min_age e = Some b \<and> clears years b" for b e
    by (auto simp: bs_def bounded_entries_set)
  have eq: "price_for t years = (case bs of [] \<Rightarrow> None | x # xs \<Rightarrow> Some (snd (max_first fst x xs)))"
    by (cases years) (simp_all add: price_for_def entry_for_def bs_def clears_def Let_def)
  show ?thesis
  proof (cases bs)
    case Nil
    show ?thesis by (rule none) (use eq Nil mem in auto)
  next
    case (Cons x xs)
    obtain b e where m: "max_first fst x xs = (b, e)" by fastforce
    then have "(b, e) \<in> set bs" using max_first_in [of fst x xs] Cons by simp
    then have e: "e \<in> set (pt_entries t)" "pe_min_age e = Some b" "clears years b" by (simp_all add: mem)
    have "b' \<le> b" if "e' \<in> set (pt_entries t)" "pe_min_age e' = Some b'" "clears years b'" for e' b'
      using max_first_ge [of "(b', e')" x xs fst] that m Cons mem [of b' e'] by simp
    with e show ?thesis using some [of e b] eq m Cons by simp
  qed
qed

lemma price_for_unbounded_skipped:
  "(\<And>e. e \<in> set (pt_entries t) \<Longrightarrow> pe_min_age e = None) \<Longrightarrow> price_for t years = None"
  by (cases t years rule: price_for_cases) auto

section \<open>Identity and provenance\<close>

text \<open>\<open>PoolId\<close> and \<open>BasinId\<close> are \<open>NewType\<close>s over \<open>str\<close>: plain strings at run time.\<close>

type_synonym pool_id = pystr
type_synonym basin_id = pystr

definition reconstruct_pool_id :: "pystr \<Rightarrow> pool_id" where
  "reconstruct_pool_id v = v"

datatype pool_kind = INDOOR | OUTDOOR_POOL | RIVER | LAKE | SCHOOL | PADDLING | THERMAL

record provenance =
  pv_source :: pystr
  pv_curated :: bool
  pv_valid_as_of :: "date option"
  pv_fetched_at :: "datetime option"

record pool_identity =
  facility_id :: pool_id
  pid_name :: pystr
  pid_kind :: pool_kind
  geo_sport_id :: "pystr option"
  crowdmonitor_keys :: "pystr list"
  baditicker_poiid :: "pystr option"
  aliases :: "pystr list"

record notice =
  no_text :: pystr
  active_from :: "date option"
  active_to :: "date option"

definition active_on :: "notice \<Rightarrow> date \<Rightarrow> bool" where
  "active_on n d =
     (let after_start = (case active_from n of None \<Rightarrow> True | Some f \<Rightarrow> d \<ge> f);
          before_end = (case active_to n of None \<Rightarrow> True | Some t \<Rightarrow> d \<le> t)
      in after_start \<and> before_end)"

section \<open>Lockers and rentals\<close>

datatype locker_category = WARDROBE | VALUABLES | LAUNDRY
datatype locker_mechanism = COIN | KEY | CHIP | WRISTBAND | MECH_OTHER

record locker_option =
  lo_category :: locker_category
  lo_fee_chf :: "rat option"
  lo_deposit_chf :: "rat option"
  lo_period :: "pystr option"
  lo_mechanism :: "locker_mechanism option"
  lo_raw :: pystr

datatype rental_kind = TOWEL | SWIMWEAR | GOGGLES | CABIN | SUNLOUNGER | PARASOL | RENTAL_OTHER
datatype rental_fee = Priced rat | Gratis | Unstated

record rental_item =
  ri_kind :: rental_kind
  ri_fee :: rental_fee
  ri_deposit_chf :: "rat option"
  ri_period :: "pystr option"
  ri_raw :: pystr

section \<open>Stored lane plans\<close>

datatype plan_confidence = COMPLETE | PARTIAL

record lane_reservation =
  lr_weekdays :: "weekday set"
  lr_time :: time_range
  lr_lanes :: "int set"
  lr_access :: session_access
  lr_section :: "pystr option"

record plan_coverage =
  pc_confidence :: plan_confidence
  cells_total :: int
  cells_resolved :: int
  unresolved_lanes :: "int set"

record lane_plan =
  lane_count :: int
  reservations :: "lane_reservation list"
  lp_valid_from :: "date option"
  coverage :: plan_coverage
  lp_fetched_at :: "datetime option"
  lanes_by_weekday :: "(weekday \<rightharpoonup> int) option"

record lane_plan_source =
  lps_url :: pystr
  lps_section :: "pystr option"

record lane_plan_unavailable =
  lpu_source_url :: pystr
  lpu_section :: "pystr option"
  lpu_cause :: provider_error
  lpu_observed_at :: datetime

datatype lane_plan_outcome = Parsed lane_plan | Unavailable lane_plan_unavailable

section \<open>Basins and features\<close>

datatype basin_kind = LAP | NON_SWIMMER | DIVING | VARIO | TEACHING | CHILDREN | OUTDOOR_BASIN | BASIN_OTHER
datatype basin_source = CURATED_PHYSICALS | PARSED_PROSE

record dimensions =
  length_m :: rat
  width_m :: "rat option"

record basin =
  bn_id :: basin_id
  bn_name :: pystr
  bn_rules :: "schedule_rule list"
  bn_exceptions :: "schedule_exception list"
  bn_kind :: basin_kind
  bn_dimensions :: "dimensions option"
  bn_lanes :: "int option"
  nominal_temp_c :: "rat option"
  measured_temp_c :: "rat option"
  diving_platforms_m :: "rat list"
  physical_source :: basin_source
  lane_plan_source_of :: "lane_plan_source option"
  lane_plan_of :: "lane_plan_outcome option"

datatype feature_kind = SAUNA | STEAM_BATH | WELLNESS | SLIDE | HOT_TUB | TERRACE | REST | GASTRONOMY

record feature =
  ft_kind :: feature_kind
  ft_name :: pystr
  ft_hours :: "schedule_rule list"
  ft_surcharge_chf :: "rat option"
  ft_temp_c :: "rat option"
  ft_note :: pystr

record operating_season_rec =
  os_window :: annual_window
  os_weather :: weather

section \<open>Facility\<close>

record facility =
  identity :: pool_identity
  address :: pystr
  provenance_of :: provenance
  basins :: "basin list"
  geo :: "geo_point option"
  closures :: "closure_range list"
  public_holiday_policy :: "holiday_policy option"
  operating_season :: "operating_season_rec option"
  admission_of :: admission
  notices :: "notice list"
  features :: "feature list"
  lockers :: "locker_option list"
  rentals :: "rental_item list"
  last_admission_before :: "int option"

lemma active_on_iff:
  "active_on n d \<longleftrightarrow> (\<forall>f. active_from n = Some f \<longrightarrow> f \<le> d) \<and> (\<forall>t. active_to n = Some t \<longrightarrow> d \<le> t)"
  by (auto simp: active_on_def Let_def split: option.splits)

end
