(* ===== verification/Day_Properties.thy ===== *)
theory Day_Properties
  imports Resolver
begin

text \<open>
  What the resolved day, the access rules, the closure codes and the tariff promise.
  A small river bath with an operating season serves as the concrete input of the witnesses.
\<close>

section \<open>A concrete facility\<close>

definition ex_identity :: "pystr \<Rightarrow> pystr \<Rightarrow> pool_identity" where
  "ex_identity fid name = \<lparr>facility_id = fid, pid_name = name, pid_kind = INDOOR, geo_sport_id = None,
     crowdmonitor_keys = [], baditicker_poiid = None, aliases = []\<rparr>"

definition ex_provenance :: provenance where
  "ex_provenance = \<lparr>pv_source = u ''scrape'', pv_curated = False, pv_valid_as_of = None, pv_fetched_at = None\<rparr>"

definition ex_facility :: "pystr \<Rightarrow> basin list \<Rightarrow> facility" where
  "ex_facility fid bs = \<lparr>identity = ex_identity fid fid, address = [], provenance_of = ex_provenance,
     basins = bs, geo = None, closures = [], public_holiday_policy = None, operating_season = None,
     admission_of = Unknown, notices = [], features = [], lockers = [], rentals = [],
     last_admission_before = None\<rparr>"

definition ex_rule :: schedule_rule where
  "ex_rule = \<lparr>sr_weekdays = {WEDNESDAY, SUNDAY}, sr_time = TimeRange (hm 9 0) (hm 18 0), sr_access = PublicSwim,
     sr_scope = ALWAYS, sr_source_text = [], sr_season = None, sr_weather = ANY\<rparr>"

definition ex_calendar :: zurich_calendar where
  "ex_calendar = \<lparr>cal_public = [Date 2026 8 1 \<mapsto> u ''Bundesfeier''], cal_school = [], cal_known_years = {2026}\<rparr>"

definition ex_season :: operating_season_rec where
  "ex_season = \<lparr>os_window = \<lparr>aw_start = MonthDay 5 1, aw_end = MonthDay 9 30, aw_precision = PRECISION_MONTH\<rparr>,
     os_weather = FAIR_ONLY\<rparr>"

definition ex_day :: date where
  "ex_day = Date 2026 8 12"

lemma ex_weekday: "weekday_of ex_day = WEDNESDAY"
  by (simp add: weekday_of_def ex_day_def weekday_num_example Weekday_def)

lemmas ex_defs = ex_facility_def ex_rule_def ex_calendar_def ex_season_def ex_day_def

section \<open>The resolved day\<close>

text \<open>
  C6: on a day no closure, exception or season boundary overrides, the answer is exactly
  the recurring timetable: closed when no rule applies on the effective weekday, otherwise
  open with the sessions of precisely the applicable rules (as a multiset), in order of
  their starts, flagged as unverified exactly on a public holiday without a stated policy.
\<close>

theorem recurring_day_is_timetable:
  assumes "\<not> overridden fac ex d" "\<not> off_season fac d" "rules \<noteq> [] \<or> operating_season fac = None"
  shows "if sessions_spec fac rules d cal = {#}
    then \<exists>code ps. resolve_hours fac rules ex d cal = ClosedDay code ps
    else \<exists>ss. resolve_hours fac rules ex d cal =
           OpenDay ss (d \<in> dom (cal_public cal) \<and> public_holiday_policy fac = None) \<and>
         mset ss = sessions_spec fac rules d cal \<and>
         sorted_wrt (\<lambda>a b. session_start a \<le> session_start b) ss"
  using resolve_calendar_spec [of fac rules d cal] resolve_hours_recurring [OF assms] by simp

lemma ex_sessions: "sessions_spec (ex_facility fid bs) [ex_rule] ex_day ex_calendar = {#session_of ex_rule#}"
  using ex_weekday by (simp add: sessions_spec_def effective_weekday_def rule_applies_def in_season_def ex_defs)

theorem recurring_day_is_timetable_witness:
  "\<exists>ss. resolve_hours (ex_facility (u ''a'') []) [ex_rule] [] ex_day ex_calendar = OpenDay ss False \<and>
     mset ss = {#session_of ex_rule#}"
proof -
  have "\<not> overridden (ex_facility (u ''a'') []) [] ex_day" "\<not> off_season (ex_facility (u ''a'') []) ex_day"
    by (simp_all add: overridden_def off_season_def ex_facility_def)
  moreover have "ex_day \<notin> dom (cal_public ex_calendar)" by (simp add: ex_calendar_def ex_day_def)
  ultimately show ?thesis
    using recurring_day_is_timetable [of "ex_facility (u ''a'') []" "[]" ex_day "[ex_rule]" ex_calendar]
    by (auto simp: ex_sessions)
qed

text \<open>
  a facility closure beats everything: whatever the rules, exceptions, season and
  calendar say, the day is closed with the code and parameters of the first closure in force.
\<close>

theorem closure_wins:
  assumes "closures fac = before @ c # after" "cr_contains c d" "\<forall>b \<in> set before. \<not> cr_contains b d"
  shows "resolve_hours fac rules ex d cal = ClosedDay (cr_code c) (cr_params c)"
proof -
  have "find (\<lambda>c. cr_contains c d) (before @ c # after) = Some c"
    using assms(2,3) by (induction before) auto
  then show ?thesis by (simp add: resolve_hours_def assms(1))
qed

theorem closure_wins_witness:
  "resolve_hours ((ex_facility (u ''a'') [])\<lparr>closures := [mk_closure_range (Date 2026 8 10) (Date 2026 8 20) (u ''Revision'') SPECIAL []]\<rparr>)
     [ex_rule] [] ex_day ex_calendar =
   ClosedDay (cr_code (mk_closure_range (Date 2026 8 10) (Date 2026 8 20) (u ''Revision'') SPECIAL []))
     (cr_params (mk_closure_range (Date 2026 8 10) (Date 2026 8 20) (u ''Revision'') SPECIAL []))"
  by (rule closure_wins [where before = "[]" and after = "[]"])
     (simp_all add: cr_contains_def mk_closure_range_fields ex_day_def)

text \<open>
  the fourth honest state, "open, hours unpublished", appears exactly for a rule-less
  schedule of a facility inside its operating season that nothing overrides, and carries
  that season's weather condition.
\<close>

theorem unscheduled_iff_ruleless_in_season:
  "resolve_hours fac rules ex d cal = OpenUnscheduledDay wx \<longleftrightarrow>
     rules = [] \<and> \<not> overridden fac ex d \<and>
     (\<exists>s. operating_season fac = Some s \<and> aw_contains (os_window s) d \<and> os_weather s = wx)"
proof (cases "overridden fac ex d")
  case True
  then have "resolve_hours fac rules ex d cal \<noteq> OpenUnscheduledDay wx"
    by (auto simp: resolve_hours_def overridden_def find_exception_def find_None_iff_all split: option.splits)
  with True show ?thesis by simp
next
  case False
  then show ?thesis
    using find_closure_None [OF False] find_exception_None [OF False] resolve_calendar_not_unscheduled
    by (auto simp: resolve_hours_def split: option.splits)
qed

text \<open>
  the two spellings of a whole-month window agree. A window built by
  \<open>whole_months\<close> contains the same days whether it is read month by month or day by day
  (its end day is the longest that month can be), for every valid date, and neither reading
  looks at the year.
\<close>

theorem whole_months_precision_agrees:
  assumes "whole_months s e = Inr w" "valid_date d" "valid_date d'" "1 \<le> s" "s \<le> 12" "1 \<le> e" "e \<le> 12"
    "month d' = month d" "day d' = day d"
  shows "aw_contains (w\<lparr>aw_precision := PRECISION_DAY\<rparr>) d = aw_contains w d'"
  using whole_months_day_month_agree [OF assms(1,2,4-7)] aw_contains_year_free [OF assms(8,9)] by simp

theorem whole_months_precision_agrees_witness:
  "aw_contains \<lparr>aw_start = MonthDay 11 1, aw_end = MonthDay 2 29, aw_precision = PRECISION_DAY\<rparr> (Date 2027 2 28) =
   aw_contains \<lparr>aw_start = MonthDay 11 1, aw_end = MonthDay 2 29, aw_precision = PRECISION_MONTH\<rparr> (Date 2028 2 28)"
proof -
  have "whole_months 11 2 = Inr \<lparr>aw_start = MonthDay 11 1, aw_end = MonthDay 2 29, aw_precision = PRECISION_MONTH\<rparr>"
    by (simp add: whole_months_def mk_month_day_def py_index_def DAYS_IN_MONTH_def)
  from whole_months_precision_agrees [OF this, of "Date 2027 2 28" "Date 2028 2 28"] show ?thesis
    by (simp add: valid_date_def days_in_month_def is_leap_def)
qed

section \<open>Access\<close>

text \<open>
  C7: verdicts are stable under more information. A welcome, or an exclusion on a stated
  fact, does not change when a person who left age or gender open states them; only the
  "needs" and "confirm" answers may.
\<close>

theorem verdict_survives_information:
  assumes "knows_no_less q p" "er_code (eligibility p a) \<in> welcome_codes \<union> excluded_codes"
  shows "eligibility q a = eligibility p a"
  using assms by (rule verdict_stable)

theorem verdict_survives_information_witness:
  "eligibility \<lparr>gender = Some MALE, age = Some 70\<rparr> (SeniorsOnly 60) = eligibility \<lparr>gender = None, age = Some 70\<rparr> (SeniorsOnly 60)"
  by (rule verdict_survives_information)
     (simp_all add: knows_no_less_def welcome_codes_def eligibility_defs)

text \<open>
  the eligibility answer speaks the vocabulary of the published legend: its rule is the
  legend key of the access type, that key occurs in the legend, keys are distinct, a person
  is allowed exactly on the welcome codes, and every reason code is really produced by some
  person and access type.
\<close>

theorem eligibility_vocabulary:
  "er_rule (eligibility p a) = ai_key (access_info a) \<and>
   (\<exists>i \<in> set ACCESS_TYPES. ai_key i = er_rule (eligibility p a)) \<and> distinct (map ai_key ACCESS_TYPES) \<and>
   (er_allowed (eligibility p a) = (er_code (eligibility p a) \<in> welcome_codes)) \<and>
   (\<exists>p' a'. er_code (eligibility p' a') = c)"
  using rule_is_legend_key access_legend_complete access_keys_distinct allowed_iff_welcome every_code_reachable
  by metis

section \<open>Closure reasons\<close>

text \<open>
  classifying a closure text never loses it: a blank text is \<open>SPECIAL\<close>, a listed
  phrase (up to case and surrounding white space) is its code, and any other text is
  \<open>UNMAPPED\<close> with the stripped text as its parameter. The codes the resolver computes
  itself are never produced from text.
\<close>

theorem closure_text_kept:
  "case classify_closure (Some t) of (code, params) \<Rightarrow>
     (code = SPECIAL) = (\<forall>c \<in> set t. is_space c) \<and>
     (if code = UNMAPPED then params = [(u ''text'', py_strip t)] \<and> py_casefold (py_strip t) \<notin> fst ` set PHRASES
      else params = []) \<and>
     code \<notin> {PUBLIC_HOLIDAY, NO_SESSIONS, OUT_OF_SEASON}"
proof (cases t rule: classify_closure_cases)
  case special
  then show ?thesis by simp
next
  case (phrase code)
  have "py_strip t \<noteq> []"
  proof
    assume "py_strip t = []"
    then have "classify_closure (Some t) = (SPECIAL, [])" by (simp add: classify_closure_def)
    with phrase phrase_codes show False by fastforce
  qed
  with phrase phrase_codes [OF phrase(1)] show ?thesis by (auto simp: blank_iff)
next
  case unmapped
  then show ?thesis by simp
qed

theorem closure_text_kept_witness:
  "\<exists>code params. classify_closure (Some (u '' '')) = (code, params) \<and> code = SPECIAL"
  using closure_text_kept [of "u '' ''"] by (auto simp: u_def is_space_def split: prod.splits)

section \<open>Prices\<close>

text \<open>
  the price shown is the entry with the greatest printed age bound the person clears
  (every bound when the age is unknown); an entry without a printed bound is never chosen,
  and no price is given exactly when no bounded entry is cleared.
\<close>

theorem price_is_greatest_cleared_bound:
  "case price_for t a of
     None \<Rightarrow> \<forall>e \<in> set (pt_entries t). \<forall>b. pe_min_age e = Some b \<longrightarrow> \<not> clears a b
   | Some e \<Rightarrow> e \<in> set (pt_entries t) \<and>
       (\<exists>b. pe_min_age e = Some b \<and> clears a b \<and>
          (\<forall>e' \<in> set (pt_entries t). \<forall>b'. pe_min_age e' = Some b' \<longrightarrow> clears a b' \<longrightarrow> b' \<le> b))"
  by (cases t a rule: price_for_cases) auto

definition ex_table :: price_table where
  "ex_table = \<lparr>pt_entries = [\<lparr>pe_category = ADULT, amount_chf = 8, display = [], pe_min_age = Some 20\<rparr>,
     \<lparr>pe_category = CHILD, amount_chf = 4, display = [], pe_min_age = Some 6\<rparr>], pt_valid_as_of = None, pt_source_url = None\<rparr>"

theorem price_is_greatest_cleared_bound_witness:
  "\<exists>e. price_for ex_table (Some 12) = Some e \<and> pe_min_age e = Some 6"
  using price_is_greatest_cleared_bound [of ex_table "Some 12"]
  by (auto simp: ex_table_def clears_def split: option.splits)

end
