(* ===== verification/Lane_Plan.thy ===== *)
theory Lane_Plan
  imports Models
begin

text \<open>
  \<open>src/swimzh/domain/lane_plan.py\<close>, the query-time half: how a stored lane plan splits a
  basin's lanes at a moment, over a session, over a day, and the best public window. The
  lemmas relate every view to one function of time, the set of lanes that are public at an
  instant.
\<close>

section \<open>Availability at one moment\<close>

record lane_availability =
  la_lane_count :: int
  public_lanes :: int
  reserved_lanes :: int
  owners :: "session_access list"
  public_until :: "time option"
  la_partial :: bool

definition active_reservations :: "lane_plan \<Rightarrow> weekday \<Rightarrow> time \<Rightarrow> lane_reservation list" where
  "active_reservations plan wd t =
     filter (\<lambda>r. wd \<in> lr_weekdays r \<and> tr_contains (lr_time r) t) (reservations plan)"

definition public_ranges :: "lane_plan \<Rightarrow> weekday \<Rightarrow> time_range list" where
  "public_ranges plan wd =
     sort_key (\<lambda>r. (tr_start r, tr_end r))
       (map lr_time (filter (\<lambda>r. wd \<in> lr_weekdays r \<and> lr_access r = PublicSwim) (reservations plan)))"

definition merge_step :: "(time \<times> time) list \<Rightarrow> time_range \<Rightarrow> (time \<times> time) list" where
  "merge_step merged r =
     (if merged \<noteq> [] \<and> tr_start r \<le> snd (last merged)
      then butlast merged @ [(fst (last merged), max (snd (last merged)) (tr_end r))]
      else merged @ [(tr_start r, tr_end r)])"

definition public_run_end :: "lane_plan \<Rightarrow> weekday \<Rightarrow> time \<Rightarrow> time option" where
  "public_run_end plan wd t =
     (case find (\<lambda>(s, e). s \<le> t \<and> t < e) (foldl merge_step [] (public_ranges plan wd)) of
        Some (s, e) \<Rightarrow> Some e
      | None \<Rightarrow> None)"

definition lane_sort_key :: "lane_reservation \<Rightarrow> int" where
  "lane_sort_key r = (if lr_lanes r = {} then 0 else Min (lr_lanes r))"

fun availability_step ::
  "int set \<times> int set \<times> session_access list \<Rightarrow> lane_reservation \<Rightarrow> int set \<times> int set \<times> session_access list" where
  "availability_step (pub, res, own) r =
     (if lr_access r = PublicSwim then (pub \<union> lr_lanes r, res, own)
      else (pub, res \<union> lr_lanes r, if lr_access r \<in> set own then own else own @ [lr_access r]))"

definition lane_availability_at :: "lane_plan \<Rightarrow> weekday \<Rightarrow> time \<Rightarrow> lane_availability" where
  "lane_availability_at plan wd t =
     (let active = active_reservations plan wd t;
          (pub, res, own) = foldl availability_step ({}, {}, []) (sort_key lane_sort_key active);
          covered = pub \<union> res
      in \<lparr>la_lane_count = lane_count plan,
          public_lanes = int (card pub),
          reserved_lanes = int (card res),
          owners = own,
          public_until = public_run_end plan wd t,
          la_partial = (\<exists>lane \<in> unresolved_lanes (coverage plan). lane \<notin> covered)\<rparr>)"

section \<open>Availability over a session\<close>

record lane_slot_availability =
  slot_time :: time_range
  slot_availability :: lane_availability

record lane_availability_timeline_rec =
  tl_weekday :: weekday
  tl_segments :: "lane_slot_availability list"

definition timeline_bounds :: "lane_plan \<Rightarrow> weekday \<Rightarrow> time_range \<Rightarrow> time set" where
  "timeline_bounds plan wd w =
     {tr_start w, tr_end w} \<union>
     (\<Union>r \<in> set (filter (\<lambda>r. wd \<in> lr_weekdays r) (reservations plan)).
        set (filter (\<lambda>edge. tr_start w < edge \<and> edge < tr_end w) [tr_start (lr_time r), tr_end (lr_time r)]))"

definition lane_availability_timeline ::
  "lane_plan \<Rightarrow> weekday \<Rightarrow> time_range \<Rightarrow> lane_availability_timeline_rec" where
  "lane_availability_timeline plan wd w =
     \<lparr>tl_weekday = wd,
      tl_segments = map (\<lambda>(lo, hi). \<lparr>slot_time = TimeRange lo hi,
                                     slot_availability = lane_availability_at plan wd lo\<rparr>)
        (pairwise (sorted_list_of_set (timeline_bounds plan wd w)))\<rparr>"

section \<open>The facility-detail views\<close>

record lane_segment =
  ls_time :: time_range
  ls_access :: session_access

record lane_strip =
  strip_lane :: int
  strip_segments :: "lane_segment list"

record lane_day_view_rec =
  ldv_weekday :: weekday
  ldv_lane_count :: int
  strips :: "lane_strip list"

record club_slot =
  cs_club :: pystr
  cs_weekday :: weekday
  cs_time :: time_range
  cs_lanes :: "int list"

record public_window =
  pw_time :: time_range
  pw_public_lanes :: int

record lane_panel_rec =
  day_view :: lane_day_view_rec
  best_public :: "public_window option"
  roster_slots :: "club_slot list"

text \<open>\<open>type(access).__name__\<close>.\<close>

fun access_type_name :: "session_access \<Rightarrow> pystr" where
  "access_type_name PublicSwim = u ''PublicSwim''"
| "access_type_name (LaneSwim _) = u ''LaneSwim''"
| "access_type_name (FamilyTime _) = u ''FamilyTime''"
| "access_type_name (WomenOnly _) = u ''WomenOnly''"
| "access_type_name (SeniorsOnly _) = u ''SeniorsOnly''"
| "access_type_name SchoolReserved = u ''SchoolReserved''"
| "access_type_name (ClubReserved _) = u ''ClubReserved''"
| "access_type_name (AdultsOnly _ _) = u ''AdultsOnly''"
| "access_type_name GirlsOnly = u ''GirlsOnly''"
| "access_type_name (GenderDiverse _) = u ''GenderDiverse''"
| "access_type_name AccompaniedChildren = u ''AccompaniedChildren''"

definition owner_label :: "session_access \<Rightarrow> pystr" where
  "owner_label a = (case a of
     ClubReserved c \<Rightarrow> if c \<noteq> [] then c else u ''Club''
   | SchoolReserved \<Rightarrow> u ''Schools''
   | _ \<Rightarrow> access_type_name a)"

definition lane_strip_of :: "lane_plan \<Rightarrow> weekday \<Rightarrow> int \<Rightarrow> lane_strip" where
  "lane_strip_of plan wd lane =
     \<lparr>strip_lane = lane,
      strip_segments = sort_key (\<lambda>s. (tr_start (ls_time s), tr_end (ls_time s)))
        (map (\<lambda>r. \<lparr>ls_time = lr_time r, ls_access = lr_access r\<rparr>)
          (filter (\<lambda>r. wd \<in> lr_weekdays r \<and> lane \<in> lr_lanes r) (reservations plan)))\<rparr>"

definition lane_day_view :: "lane_plan \<Rightarrow> weekday \<Rightarrow> lane_day_view_rec" where
  "lane_day_view plan wd =
     \<lparr>ldv_weekday = wd, ldv_lane_count = lane_count plan,
      strips = map (lane_strip_of plan wd) [1..lane_count plan]\<rparr>"

definition slots_of :: "lane_reservation \<Rightarrow> club_slot list" where
  "slots_of r =
     map (\<lambda>wd. \<lparr>cs_club = owner_label (lr_access r), cs_weekday = wd, cs_time = lr_time r,
                cs_lanes = sorted_list_of_set (lr_lanes r)\<rparr>) (sorted_list_of_set (lr_weekdays r))"

definition club_slot_key :: "club_slot \<Rightarrow> pystr \<times> weekday \<times> time \<times> time \<times> int list" where
  "club_slot_key s = (cs_club s, cs_weekday s, tr_start (cs_time s), tr_end (cs_time s), cs_lanes s)"

definition club_roster :: "lane_plan \<Rightarrow> club_slot list" where
  "club_roster plan =
     sort_key club_slot_key
       (concat (map slots_of (filter (\<lambda>r. lr_access r \<noteq> PublicSwim) (reservations plan))))"

definition clipped_to :: "time_range \<Rightarrow> time_range option \<Rightarrow> time_range option" where
  "clipped_to sp w = (case w of
     None \<Rightarrow> Some sp
   | Some w \<Rightarrow>
       let lo = max (tr_start sp) (tr_start w); hi = min (tr_end sp) (tr_end w)
       in if lo < hi then Some (TimeRange lo hi) else None)"

definition public_spans :: "lane_plan \<Rightarrow> weekday \<Rightarrow> time_range option \<Rightarrow> (time_range \<times> int set) list" where
  "public_spans plan wd w =
     concat (map (\<lambda>r. if wd \<notin> lr_weekdays r \<or> lr_access r \<noteq> PublicSwim then []
                      else case clipped_to (lr_time r) w of Some c \<Rightarrow> [(c, lr_lanes r)] | None \<Rightarrow> [])
       (reservations plan))"

definition lanes_during :: "(time_range \<times> int set) list \<Rightarrow> time \<Rightarrow> time \<Rightarrow> int set" where
  "lanes_during publics lo hi =
     \<Union> (snd ` set (filter (\<lambda>(sp, lanes). tr_start sp \<le> lo \<and> hi \<le> tr_end sp) publics))"

definition window_step :: "(time_range \<times> int set) list \<Rightarrow> public_window list \<Rightarrow> time \<times> time \<Rightarrow> public_window list" where
  "window_step publics windows lohi =
     (let (lo, hi) = lohi; count = int (card (lanes_during publics lo hi))
      in if count = 0 then windows
         else if windows \<noteq> [] \<and> pw_public_lanes (last windows) = count \<and> tr_end (pw_time (last windows)) = lo
         then butlast windows @
           [\<lparr>pw_time = TimeRange (tr_start (pw_time (last windows))) hi, pw_public_lanes = count\<rparr>]
         else windows @ [\<lparr>pw_time = TimeRange lo hi, pw_public_lanes = count\<rparr>])"

definition span_bounds :: "(time_range \<times> int set) list \<Rightarrow> time list" where
  "span_bounds publics =
     sorted_list_of_set (set (map (tr_start \<circ> fst) publics) \<union> set (map (tr_end \<circ> fst) publics))"

definition best_public_time :: "lane_plan \<Rightarrow> weekday \<Rightarrow> time_range option \<Rightarrow> public_window option" where
  "best_public_time plan wd w =
     (let publics = public_spans plan wd w
      in if publics = [] then None
         else case foldl (window_step publics) [] (pairwise (span_bounds publics)) of
             [] \<Rightarrow> None
           | x # xs \<Rightarrow> Some (max_first pw_public_lanes x xs))"

definition lane_panel :: "lane_plan \<Rightarrow> weekday \<Rightarrow> lane_panel_rec" where
  "lane_panel plan wd =
     \<lparr>day_view = lane_day_view plan wd,
      best_public = best_public_time plan wd None,
      roster_slots = club_roster plan\<rparr>"

section \<open>Well-formed plans\<close>

text \<open>
  What the constructors and the parser guarantee: every range has passed its constructor,
  lanes are numbered from 1 to the lane count, and the lane sets of two reservations that
  meet in time are disjoint.
\<close>

definition overlap :: "time_range \<Rightarrow> time_range \<Rightarrow> bool" where
  "overlap a b \<longleftrightarrow> tr_start a < tr_end b \<and> tr_start b < tr_end a"

definition no_clash :: "lane_reservation \<Rightarrow> lane_reservation \<Rightarrow> bool" where
  "no_clash r s \<longleftrightarrow> lr_weekdays r \<inter> lr_weekdays s = {} \<or> \<not> overlap (lr_time r) (lr_time s) \<or>
     lr_lanes r \<inter> lr_lanes s = {}"

definition wf_ranges :: "lane_plan \<Rightarrow> bool" where
  [wf_simps]: "wf_ranges plan \<longleftrightarrow> (\<forall>r \<in> set (reservations plan). wf_time_range (lr_time r))"

definition wf_lanes :: "lane_plan \<Rightarrow> bool" where
  [wf_simps]: "wf_lanes plan \<longleftrightarrow> (\<forall>r \<in> set (reservations plan). lr_lanes r \<subseteq> {1..lane_count plan})"

definition wf_plan :: "lane_plan \<Rightarrow> bool" where
  [wf_simps]: "wf_plan plan \<longleftrightarrow> wf_ranges plan \<and> wf_lanes plan \<and> sorted_wrt no_clash (reservations plan)"

text \<open>The lanes that are public at an instant: the one function all the views are about.\<close>

definition public_at :: "lane_plan \<Rightarrow> weekday \<Rightarrow> time \<Rightarrow> int set" where
  "public_at plan wd t =
     \<Union> (lr_lanes ` {r \<in> set (active_reservations plan wd t). lr_access r = PublicSwim})"

definition reserved_at :: "lane_plan \<Rightarrow> weekday \<Rightarrow> time \<Rightarrow> int set" where
  "reserved_at plan wd t =
     \<Union> (lr_lanes ` {r \<in> set (active_reservations plan wd t). lr_access r \<noteq> PublicSwim})"

section \<open>The fold over the active reservations\<close>

lemma availability_fold:
  "foldl availability_step (p, q, own) rs = (p', q', own') \<Longrightarrow>
     p' = p \<union> \<Union> (lr_lanes ` {r \<in> set rs. lr_access r = PublicSwim}) \<and>
     q' = q \<union> \<Union> (lr_lanes ` {r \<in> set rs. lr_access r \<noteq> PublicSwim}) \<and>
     set own' = set own \<union> lr_access ` {r \<in> set rs. lr_access r \<noteq> PublicSwim} \<and>
     (distinct own \<longrightarrow> distinct own')"
proof (induction rs arbitrary: p q own)
  case Nil
  then show ?case by simp
next
  case (Cons r rs)
  show ?case
  proof (cases "lr_access r = PublicSwim")
    case True
    with Cons.prems Cons.IH [of "p \<union> lr_lanes r" q own] show ?thesis by auto
  next
    case False
    let ?own = "if lr_access r \<in> set own then own else own @ [lr_access r]"
    from False Cons.prems Cons.IH [of p "q \<union> lr_lanes r" ?own] show ?thesis by auto
  qed
qed

lemma lane_availability_at_fields:
  "public_lanes (lane_availability_at plan wd t) = int (card (public_at plan wd t))"
  "reserved_lanes (lane_availability_at plan wd t) = int (card (reserved_at plan wd t))"
  "set (owners (lane_availability_at plan wd t)) =
     lr_access ` {r \<in> set (active_reservations plan wd t). lr_access r \<noteq> PublicSwim}"
  "distinct (owners (lane_availability_at plan wd t))"
  "la_lane_count (lane_availability_at plan wd t) = lane_count plan"
  "public_until (lane_availability_at plan wd t) = public_run_end plan wd t"
  "la_partial (lane_availability_at plan wd t) \<longleftrightarrow>
     \<not> unresolved_lanes (coverage plan) \<subseteq> public_at plan wd t \<union> reserved_at plan wd t"
proof -
  let ?rs = "sort_key lane_sort_key (active_reservations plan wd t)"
  obtain p q own where f: "foldl availability_step ({}, {}, []) ?rs = (p, q, own)"
    using prod_cases3 by blast
  note av = availability_fold [OF f]
  from av have p: "p = public_at plan wd t" and q: "q = reserved_at plan wd t"
    by (simp_all add: public_at_def reserved_at_def)
  show "public_lanes (lane_availability_at plan wd t) = int (card (public_at plan wd t))"
    "reserved_lanes (lane_availability_at plan wd t) = int (card (reserved_at plan wd t))"
    "set (owners (lane_availability_at plan wd t)) =
     lr_access ` {r \<in> set (active_reservations plan wd t). lr_access r \<noteq> PublicSwim}"
    "distinct (owners (lane_availability_at plan wd t))"
    "la_lane_count (lane_availability_at plan wd t) = lane_count plan"
    "public_until (lane_availability_at plan wd t) = public_run_end plan wd t"
    "la_partial (lane_availability_at plan wd t) \<longleftrightarrow>
     \<not> unresolved_lanes (coverage plan) \<subseteq> public_at plan wd t \<union> reserved_at plan wd t"
    using av f by (auto simp: lane_availability_at_def Let_def p q)
qed

lemma public_at_mem:
  "l \<in> public_at plan wd t \<longleftrightarrow>
     (\<exists>r \<in> set (reservations plan). wd \<in> lr_weekdays r \<and> tr_contains (lr_time r) t \<and>
        lr_access r = PublicSwim \<and> l \<in> lr_lanes r)"
  by (auto simp: public_at_def active_reservations_def)

lemma reserved_at_mem:
  "l \<in> reserved_at plan wd t \<longleftrightarrow>
     (\<exists>r \<in> set (reservations plan). wd \<in> lr_weekdays r \<and> tr_contains (lr_time r) t \<and>
        lr_access r \<noteq> PublicSwim \<and> l \<in> lr_lanes r)"
  by (auto simp: reserved_at_def active_reservations_def)

lemma wf_lanes_bound:
  "wf_lanes plan \<Longrightarrow> public_at plan wd t \<subseteq> {1..lane_count plan}"
  "wf_lanes plan \<Longrightarrow> reserved_at plan wd t \<subseteq> {1..lane_count plan}"
  unfolding wf_lanes_def public_at_def reserved_at_def active_reservations_def by (fastforce, fastforce)

lemma finite_public_at: "wf_lanes plan \<Longrightarrow> finite (public_at plan wd t)"
  by (rule finite_subset [OF wf_lanes_bound(1)]) simp_all

lemma no_clash_sym: "no_clash r s \<Longrightarrow> no_clash s r"
  by (auto simp: no_clash_def overlap_def)

lemma sorted_wrt_sym_mem:
  "sorted_wrt P xs \<Longrightarrow> (\<And>x y. P x y \<Longrightarrow> P y x) \<Longrightarrow> x \<in> set xs \<Longrightarrow> y \<in> set xs \<Longrightarrow> x \<noteq> y \<Longrightarrow> P x y"
  by (induction xs) auto

lemma contains_overlap: "tr_contains a t \<Longrightarrow> tr_contains b t \<Longrightarrow> overlap a b"
  by (auto simp: tr_contains_def overlap_def)

lemma wf_plan_disjoint:
  assumes "wf_plan plan" shows "public_at plan wd t \<inter> reserved_at plan wd t = {}"
proof (rule ccontr)
  assume "public_at plan wd t \<inter> reserved_at plan wd t \<noteq> {}"
  then obtain l r s where r: "r \<in> set (reservations plan)" "wd \<in> lr_weekdays r"
      "tr_contains (lr_time r) t" "lr_access r = PublicSwim" "l \<in> lr_lanes r"
    and s: "s \<in> set (reservations plan)" "wd \<in> lr_weekdays s" "tr_contains (lr_time s) t"
      "lr_access s \<noteq> PublicSwim" "l \<in> lr_lanes s"
    by (auto simp: public_at_mem reserved_at_mem)
  from r(4) s(4) have "r \<noteq> s" by blast
  have "sorted_wrt no_clash (reservations plan)" using assms by (simp add: wf_plan_def)
  then have "no_clash r s" using no_clash_sym r(1) s(1) \<open>r \<noteq> s\<close> by (rule sorted_wrt_sym_mem)
  moreover have "overlap (lr_time r) (lr_time s)" using r(3) s(3) by (rule contains_overlap)
  ultimately show False using r(2,5) s(2,5) unfolding no_clash_def by blast
qed

end
