(* ===== verification/Lane_Views.thy ===== *)
theory Lane_Views
  imports Lane_Plan
begin

text \<open>
  Correctness of the three sweeps of \<open>lane_plan.py\<close>: the merge of public ranges behind
  \<open>public_until\<close>, the cut of a session into segments of constant availability, and the
  search for the best public window. Each is related to the set of lanes that are public at
  an instant.
\<close>

section \<open>Merging the public ranges\<close>

definition merge_inv :: "(time \<times> time) list \<Rightarrow> time_range list \<Rightarrow> bool" where
  "merge_inv merged done \<longleftrightarrow>
     sorted_wrt (\<lambda>a b. snd a < fst b) merged \<and>
     (\<forall>p \<in> set merged. fst p < snd p) \<and>
     (\<forall>x. (\<exists>p \<in> set merged. fst p \<le> x \<and> x < snd p) \<longleftrightarrow> (\<exists>r \<in> set done. tr_contains r x)) \<and>
     (\<forall>p \<in> set merged. fst p \<in> tr_start ` set done \<and> snd p \<in> tr_end ` set done)"

lemma merge_inv_Nil: "merge_inv [] []"
  by (simp add: merge_inv_def)

lemma merge_inv_snoc_extend:
  assumes inv: "merge_inv (ms @ [(a, b)]) done" and wf: "wf_time_range r"
    and le: "a \<le> tr_start r" "tr_start r \<le> b"
  shows "merge_inv (ms @ [(a, max b (tr_end r))]) (done @ [r])"
proof -
  have cov: "(\<exists>p \<in> set (ms @ [(a, b)]). fst p \<le> x \<and> x < snd p) \<longleftrightarrow> (\<exists>r \<in> set done. tr_contains r x)" for x
    using inv by (simp only: merge_inv_def)
  have new: "a \<le> x \<and> x < max b (tr_end r) \<longleftrightarrow> (a \<le> x \<and> x < b) \<or> tr_contains r x" for x
    using le by (auto simp: tr_contains_def less_max_iff_disj)
  have "(\<exists>p \<in> set (ms @ [(a, max b (tr_end r))]). fst p \<le> x \<and> x < snd p) \<longleftrightarrow>
      (\<exists>s \<in> set (done @ [r]). tr_contains s x)" for x
    using cov [of x] new [of x] by simp blast
  moreover have "max b (tr_end r) \<in> tr_end ` set (done @ [r])"
    using inv by (auto simp: merge_inv_def max_def)
  moreover have "a < max b (tr_end r)" using inv by (auto simp: merge_inv_def max_def)
  ultimately show ?thesis using inv by (auto simp: merge_inv_def sorted_wrt_append)
qed

lemma merge_inv_snoc_new:
  assumes inv: "merge_inv merged done" and wf: "wf_time_range r"
    and lt: "\<forall>p \<in> set merged. snd p < tr_start r"
  shows "merge_inv (merged @ [(tr_start r, tr_end r)]) (done @ [r])"
proof -
  have cov: "(\<exists>p \<in> set merged. fst p \<le> x \<and> x < snd p) \<longleftrightarrow> (\<exists>r \<in> set done. tr_contains r x)" for x
    using inv by (simp only: merge_inv_def)
  have "(\<exists>p \<in> set (merged @ [(tr_start r, tr_end r)]). fst p \<le> x \<and> x < snd p) \<longleftrightarrow>
      (\<exists>s \<in> set (done @ [r]). tr_contains s x)" for x
    using cov [of x] by (simp add: tr_contains_def)
  with inv wf lt show ?thesis by (auto simp: merge_inv_def sorted_wrt_append wf_time_range_def)
qed

lemma merge_inv_step:
  assumes inv: "merge_inv merged done" and wf: "wf_time_range r"
    and start: "\<forall>s \<in> set done. tr_start s \<le> tr_start r"
  shows "merge_inv (merge_step merged r) (done @ [r])"
proof (cases merged rule: rev_cases)
  case Nil
  with inv wf show ?thesis by (simp add: merge_step_def merge_inv_snoc_new [of "[]", simplified])
next
  case (snoc ms p)
  obtain a b where p: "p = (a, b)" by fastforce
  from inv snoc p have a: "a \<in> tr_start ` set done" by (simp add: merge_inv_def)
  with start have le: "a \<le> tr_start r" by auto
  show ?thesis
  proof (cases "tr_start r \<le> b")
    case True
    with snoc p inv wf le show ?thesis by (simp add: merge_step_def merge_inv_snoc_extend)
  next
    case False
    have "\<forall>q \<in> set merged. snd q < tr_start r"
    proof
      fix q assume "q \<in> set merged"
      with snoc p have "q \<in> set ms \<or> q = (a, b)" by auto
      then show "snd q < tr_start r"
        using inv snoc p False le by (auto simp: merge_inv_def sorted_wrt_append intro: less_le_trans)
    qed
    with inv wf have "merge_inv (merged @ [(tr_start r, tr_end r)]) (done @ [r])"
      by (rule merge_inv_snoc_new)
    with snoc p False show ?thesis by (simp add: merge_step_def)
  qed
qed

lemma merge_inv_foldl:
  "sorted_wrt (\<lambda>a b. tr_start a \<le> tr_start b) rs \<Longrightarrow> \<forall>r \<in> set rs. wf_time_range r \<Longrightarrow>
   merge_inv (foldl merge_step [] rs) rs"
proof (induction rs rule: rev_induct)
  case Nil
  show ?case by (simp add: merge_inv_Nil)
next
  case (snoc r rs)
  then show ?case by (simp add: sorted_wrt_append merge_inv_step)
qed

lemma public_ranges_mem:
  "(\<exists>r \<in> set (public_ranges plan wd). Q r) \<longleftrightarrow>
     (\<exists>r \<in> set (reservations plan). wd \<in> lr_weekdays r \<and> lr_access r = PublicSwim \<and> Q (lr_time r))"
  by (auto simp: public_ranges_def)

lemma public_ranges_inv:
  assumes "wf_ranges plan"
  shows "merge_inv (foldl merge_step [] (public_ranges plan wd)) (public_ranges plan wd)"
proof (rule merge_inv_foldl)
  have "sorted_wrt (\<lambda>a b. (tr_start a, tr_end a) \<le> (tr_start b, tr_end b)) (public_ranges plan wd)"
    unfolding public_ranges_def by (rule sort_key_sorted)
  then show "sorted_wrt (\<lambda>a b. tr_start a \<le> tr_start b) (public_ranges plan wd)"
    by (rule sorted_wrt_mono_rel [rotated]) auto
  show "\<forall>r \<in> set (public_ranges plan wd). wf_time_range r"
    using assms by (auto simp: public_ranges_def wf_ranges_def)
qed

text \<open>Some lane range is public at \<open>t\<close> on \<open>wd\<close> (whatever its lanes are).\<close>

definition public_now :: "lane_plan \<Rightarrow> weekday \<Rightarrow> time \<Rightarrow> bool" where
  "public_now plan wd t \<longleftrightarrow>
     (\<exists>r \<in> set (reservations plan). wd \<in> lr_weekdays r \<and> lr_access r = PublicSwim \<and> tr_contains (lr_time r) t)"

lemma merged_unique:
  "merge_inv merged done \<Longrightarrow> p \<in> set merged \<Longrightarrow> q \<in> set merged \<Longrightarrow> p \<noteq> q \<Longrightarrow> snd p < fst q \<or> snd q < fst p"
proof -
  assume inv: "merge_inv merged done" and pq: "p \<in> set merged" "q \<in> set merged" "p \<noteq> q"
  from inv have "sorted_wrt (\<lambda>a b. snd a < fst b) merged" by (simp add: merge_inv_def)
  then have "sorted_wrt (\<lambda>a b. snd a < fst b \<or> snd b < fst a) merged"
    by (rule sorted_wrt_mono_rel [rotated]) simp
  then show ?thesis
    by (rule sorted_wrt_sym_mem [of "\<lambda>a b. snd a < fst b \<or> snd b < fst a", OF _ _ pq]) auto
qed

lemma public_run_end_None_iff:
  assumes "wf_ranges plan"
  shows "public_run_end plan wd t = None \<longleftrightarrow> \<not> public_now plan wd t"
proof -
  let ?m = "foldl merge_step [] (public_ranges plan wd)"
  have "(\<exists>p \<in> set ?m. fst p \<le> t \<and> t < snd p) \<longleftrightarrow> public_now plan wd t"
    using public_ranges_inv [OF assms, of wd]
    by (simp add: merge_inv_def public_ranges_mem public_now_def)
  then show ?thesis
    by (auto simp: public_run_end_def find_None_iff_all split: option.splits)
      (metis (mono_tags, lifting) case_prod_unfold find_SomeD)+
qed

lemma public_run_end_Some:
  assumes wf: "wf_ranges plan" and e: "public_run_end plan wd t = Some e"
  shows "t < e" "\<And>x. t \<le> x \<Longrightarrow> x < e \<Longrightarrow> public_now plan wd x" "\<not> public_now plan wd e"
proof -
  let ?m = "foldl merge_step [] (public_ranges plan wd)"
  note inv = public_ranges_inv [OF wf, of wd]
  have cov: "(\<exists>p \<in> set ?m. fst p \<le> x \<and> x < snd p) \<longleftrightarrow> public_now plan wd x" for x
    using inv by (simp add: merge_inv_def public_ranges_mem public_now_def)
  from e obtain s where f: "find (\<lambda>(s, e). s \<le> t \<and> t < e) ?m = Some (s, e)"
    by (auto simp: public_run_end_def split: option.splits)
  from find_SomeD [OF f] have m: "(s, e) \<in> set ?m" "s \<le> t" "t < e" by auto
  show "t < e" by (rule m)
  show "public_now plan wd x" if "t \<le> x" "x < e" for x
    using cov [of x] m that by (metis fst_conv order_trans snd_conv)
  show "\<not> public_now plan wd e"
  proof
    assume "public_now plan wd e"
    then obtain q where q: "q \<in> set ?m" "fst q \<le> e" "e < snd q" using cov by blast
    then have "(s, e) \<noteq> q" by auto
    from merged_unique [OF inv m(1) q(1) this] q m show False by auto
  qed
qed

section \<open>A segment between two edges\<close>

text \<open>No start or end of a reservation of the day lies strictly between \<open>lo\<close> and \<open>hi\<close>.\<close>

definition edge_free :: "lane_plan \<Rightarrow> weekday \<Rightarrow> time \<Rightarrow> time \<Rightarrow> bool" where
  "edge_free plan wd lo hi \<longleftrightarrow>
     (\<forall>r \<in> set (reservations plan). wd \<in> lr_weekdays r \<longrightarrow>
        \<not> (lo < tr_start (lr_time r) \<and> tr_start (lr_time r) < hi) \<and>
        \<not> (lo < tr_end (lr_time r) \<and> tr_end (lr_time r) < hi))"

lemma edge_free_active:
  assumes "edge_free plan wd lo hi" "lo \<le> t" "t < hi"
  shows "active_reservations plan wd t = active_reservations plan wd lo"
proof -
  have "wd \<in> lr_weekdays r \<and> tr_contains (lr_time r) t \<longleftrightarrow> wd \<in> lr_weekdays r \<and> tr_contains (lr_time r) lo"
    if "r \<in> set (reservations plan)" for r
  proof (cases "wd \<in> lr_weekdays r")
    case True
    with assms that have s: "\<not> (lo < tr_start (lr_time r) \<and> tr_start (lr_time r) < hi)"
      and e: "\<not> (lo < tr_end (lr_time r) \<and> tr_end (lr_time r) < hi)"
      by (auto simp: edge_free_def)
    from s assms(2,3) have "tr_start (lr_time r) \<le> t \<longleftrightarrow> tr_start (lr_time r) \<le> lo" by fastforce
    moreover from e assms(2,3) have "t < tr_end (lr_time r) \<longleftrightarrow> lo < tr_end (lr_time r)" by fastforce
    ultimately show ?thesis by (simp add: tr_contains_def)
  qed simp
  then show ?thesis unfolding active_reservations_def by (intro filter_cong) auto
qed

lemma find_cong': "(\<And>x. x \<in> set xs \<Longrightarrow> P x = Q x) \<Longrightarrow> find P xs = find Q xs"
  by (induction xs) auto

lemma edge_free_run_end:
  assumes "wf_ranges plan" "edge_free plan wd lo hi" "lo \<le> t" "t < hi"
  shows "public_run_end plan wd t = public_run_end plan wd lo"
proof -
  let ?m = "foldl merge_step [] (public_ranges plan wd)"
  have "find (\<lambda>(s, e). s \<le> t \<and> t < e) ?m = find (\<lambda>(s, e). s \<le> lo \<and> lo < e) ?m"
  proof (rule find_cong')
    fix p assume p: "p \<in> set ?m"
    then have "fst p \<in> tr_start ` set (public_ranges plan wd)" "snd p \<in> tr_end ` set (public_ranges plan wd)"
      using public_ranges_inv [OF assms(1), of wd] by (auto simp: merge_inv_def)
    then have "\<not> (lo < fst p \<and> fst p < hi)" "\<not> (lo < snd p \<and> snd p < hi)"
      using assms(2) by (auto simp: edge_free_def public_ranges_def)
    then show "(case p of (s, e) \<Rightarrow> s \<le> t \<and> t < e) = (case p of (s, e) \<Rightarrow> s \<le> lo \<and> lo < e)"
      using assms(3,4) by (cases p) fastforce
  qed
  then show ?thesis by (simp add: public_run_end_def)
qed

lemma edge_free_availability:
  assumes "wf_ranges plan" "edge_free plan wd lo hi" "lo \<le> t" "t < hi"
  shows "lane_availability_at plan wd t = lane_availability_at plan wd lo"
  using edge_free_active [OF assms(2-4)] edge_free_run_end [OF assms]
  by (simp add: lane_availability_at_def)

section \<open>The timeline\<close>

lemma finite_timeline_bounds [simp]: "finite (timeline_bounds plan wd w)"
  by (simp add: timeline_bounds_def)

lemma timeline_bounds_range:
  "wf_time_range w \<Longrightarrow> x \<in> timeline_bounds plan wd w \<Longrightarrow> tr_start w \<le> x \<and> x \<le> tr_end w"
  by (auto simp: timeline_bounds_def wf_time_range_def split: if_splits)

lemma timeline_bounds_hd_last:
  assumes "wf_time_range w"
  shows "hd (sorted_list_of_set (timeline_bounds plan wd w)) = tr_start w"
    "last (sorted_list_of_set (timeline_bounds plan wd w)) = tr_end w"
proof -
  let ?B = "timeline_bounds plan wd w"
  have mem: "tr_start w \<in> ?B" "tr_end w \<in> ?B" by (simp_all add: timeline_bounds_def)
  have "hd (sorted_list_of_set ?B) = Min ?B" using mem by (intro hd_sorted_list_of_set) auto
  also have "\<dots> = tr_start w"
    using mem timeline_bounds_range [OF assms] by (intro Min_eqI) auto
  finally show "hd (sorted_list_of_set ?B) = tr_start w" .
  have "last (sorted_list_of_set ?B) \<in> ?B" using mem
    by (metis empty_iff finite_timeline_bounds last_in_set sorted_list_of_set.set_sorted_key_list_of_set
        sorted_list_of_set.sorted_key_list_of_set_eq_Nil_iff)
  moreover have "tr_end w \<le> last (sorted_list_of_set ?B)"
    using mem by (intro last_sorted_wrt_less) auto
  ultimately show "last (sorted_list_of_set ?B) = tr_end w"
    using timeline_bounds_range [OF assms] by fastforce
qed

lemma timeline_segment_iff:
  "seg \<in> set (tl_segments (lane_availability_timeline plan wd w)) \<longleftrightarrow>
     (\<exists>lo hi. (lo, hi) \<in> set (pairwise (sorted_list_of_set (timeline_bounds plan wd w))) \<and>
        seg = \<lparr>slot_time = TimeRange lo hi, slot_availability = lane_availability_at plan wd lo\<rparr>)"
  by (auto simp: lane_availability_timeline_def)

lemma timeline_edge_free:
  assumes "wf_time_range w"
    and p: "(lo, hi) \<in> set (pairwise (sorted_list_of_set (timeline_bounds plan wd w)))"
  shows "edge_free plan wd lo hi"
proof -
  have mem: "lo \<in> timeline_bounds plan wd w" "hi \<in> timeline_bounds plan wd w"
    using pairwise_mem [OF p] by auto
  then have io: "tr_start w \<le> lo" "hi \<le> tr_end w" using timeline_bounds_range [OF assms(1)] by blast+
  have gap: "x \<le> lo \<or> hi \<le> x" if "x \<in> timeline_bounds plan wd w" for x
    using pairwise_gap [OF _ p, of x] that by simp
  have "\<not> (lo < x \<and> x < hi)"
    if "r \<in> set (reservations plan)" "wd \<in> lr_weekdays r" "x = tr_start (lr_time r) \<or> x = tr_end (lr_time r)" for r x
  proof
    assume "lo < x \<and> x < hi"
    with io have "tr_start w < x \<and> x < tr_end w" by auto
    with that have "x \<in> timeline_bounds plan wd w" by (auto simp: timeline_bounds_def)
    with gap \<open>lo < x \<and> x < hi\<close> show False by fastforce
  qed
  then show ?thesis by (auto simp: edge_free_def)
qed

lemma timeline_segment:
  assumes "wf_ranges plan" "wf_time_range w"
    and seg: "seg \<in> set (tl_segments (lane_availability_timeline plan wd w))"
  shows "wf_time_range (slot_time seg)"
    "tr_start w \<le> tr_start (slot_time seg)" "tr_end (slot_time seg) \<le> tr_end w"
    "\<And>t. tr_contains (slot_time seg) t \<Longrightarrow> lane_availability_at plan wd t = slot_availability seg"
proof -
  from seg obtain lo hi where p: "(lo, hi) \<in> set (pairwise (sorted_list_of_set (timeline_bounds plan wd w)))"
    and s: "seg = \<lparr>slot_time = TimeRange lo hi, slot_availability = lane_availability_at plan wd lo\<rparr>"
    by (auto simp: timeline_segment_iff)
  show "wf_time_range (slot_time seg)" using pairwise_less [OF _ p] s by (simp add: wf_time_range_def)
  have "lo \<in> timeline_bounds plan wd w" "hi \<in> timeline_bounds plan wd w"
    using pairwise_mem [OF p] by auto
  with timeline_bounds_range [OF assms(2)] s
  show "tr_start w \<le> tr_start (slot_time seg)" "tr_end (slot_time seg) \<le> tr_end w" by auto
  show "lane_availability_at plan wd t = slot_availability seg" if "tr_contains (slot_time seg) t" for t
    using edge_free_availability [OF assms(1) timeline_edge_free [OF assms(2) p]] that s
    by (auto simp: tr_contains_def)
qed

lemma timeline_covers:
  assumes "wf_time_range w" "tr_contains w t"
  shows "\<exists>seg \<in> set (tl_segments (lane_availability_timeline plan wd w)). tr_contains (slot_time seg) t"
proof -
  let ?xs = "sorted_list_of_set (timeline_bounds plan wd w)"
  have "?xs \<noteq> []" by (simp add: timeline_bounds_def)
  then obtain a b where "(a, b) \<in> set (pairwise ?xs)" "a \<le> t" "t < b"
    using pairwise_cover [of ?xs t] timeline_bounds_hd_last [OF assms(1), of plan wd] assms(2)
    by (auto simp: tr_contains_def)
  then show ?thesis by (force simp: timeline_segment_iff tr_contains_def)
qed

end
