(* ===== verification/Lane_Best.thy ===== *)
theory Lane_Best
  imports Lane_Views
begin

text \<open>
  The best public window (\<open>best_public_time\<close>): the sweep over the bounds of the public
  spans finds the greatest number of public lanes of the scope, attains it throughout the
  window, and takes the earliest window that attains it.
\<close>

section \<open>The count is constant between two bounds\<close>

definition lanes_at :: "(time_range \<times> int set) list \<Rightarrow> time \<Rightarrow> int set" where
  "lanes_at publics t = \<Union> (snd ` {p \<in> set publics. tr_contains (fst p) t})"

definition count_at :: "(time_range \<times> int set) list \<Rightarrow> time \<Rightarrow> int" where
  "count_at publics t = int (card (lanes_at publics t))"

lemma span_bounds_mem:
  "p \<in> set publics \<Longrightarrow> tr_start (fst p) \<in> set (span_bounds publics) \<and> tr_end (fst p) \<in> set (span_bounds publics)"
  by (auto simp: span_bounds_def)

lemma span_bounds_sorted: "sorted_wrt (<) (span_bounds publics)"
  by (simp add: span_bounds_def)

lemma lanes_during_eq:
  assumes p: "(lo, hi) \<in> set (pairwise (span_bounds publics))" and t: "lo \<le> t" "t < hi"
  shows "lanes_during publics lo hi = lanes_at publics t"
proof -
  have gap: "x \<le> lo \<or> hi \<le> x" if "x \<in> set (span_bounds publics)" for x
    using pairwise_gap [OF span_bounds_sorted p that] .
  have "tr_start (fst q) \<le> lo \<and> hi \<le> tr_end (fst q) \<longleftrightarrow> tr_contains (fst q) t" if "q \<in> set publics" for q
    using gap [of "tr_start (fst q)"] gap [of "tr_end (fst q)"] span_bounds_mem [OF that] t
    by (fastforce simp: tr_contains_def)
  then show ?thesis by (force simp: lanes_during_def lanes_at_def)
qed

section \<open>The sweep\<close>

definition window_inv :: "(time_range \<times> int set) list \<Rightarrow> public_window list \<Rightarrow> (time \<times> time) list \<Rightarrow> bool" where
  "window_inv publics ws done \<longleftrightarrow>
     (\<forall>w \<in> set ws. wf_time_range (pw_time w) \<and> 0 < pw_public_lanes w \<and>
        (\<forall>t. tr_contains (pw_time w) t \<longrightarrow> count_at publics t = pw_public_lanes w)) \<and>
     sorted_wrt (\<lambda>v w. tr_end (pw_time v) \<le> tr_start (pw_time w)) ws \<and>
     (\<forall>p \<in> set done. \<forall>t. fst p \<le> t \<and> t < snd p \<and> 0 < count_at publics t \<longrightarrow>
        (\<exists>w \<in> set ws. tr_contains (pw_time w) t)) \<and>
     (\<forall>w \<in> set ws. tr_end (pw_time w) \<in> snd ` set done)"

lemma window_invD:
  assumes "window_inv publics ws done"
  shows "w \<in> set ws \<Longrightarrow> wf_time_range (pw_time w)" "w \<in> set ws \<Longrightarrow> 0 < pw_public_lanes w"
    "w \<in> set ws \<Longrightarrow> tr_contains (pw_time w) t \<Longrightarrow> count_at publics t = pw_public_lanes w"
    "sorted_wrt (\<lambda>v w. tr_end (pw_time v) \<le> tr_start (pw_time w)) ws"
    "p \<in> set done \<Longrightarrow> fst p \<le> t \<Longrightarrow> t < snd p \<Longrightarrow> 0 < count_at publics t \<Longrightarrow>
       \<exists>w \<in> set ws. tr_contains (pw_time w) t"
    "w \<in> set ws \<Longrightarrow> tr_end (pw_time w) \<in> snd ` set done"
  using assms unfolding window_inv_def by blast+

lemma window_inv_skip:
  assumes "window_inv publics ws done" "\<forall>t. lo \<le> t \<and> t < hi \<longrightarrow> count_at publics t = 0"
  shows "window_inv publics ws (done @ [(lo, hi)])"
  using assms by (auto simp: window_inv_def)

lemma window_inv_new:
  assumes inv: "window_inv publics ws done" and lt: "lo < hi" "0 < c"
    and c: "\<forall>t. lo \<le> t \<and> t < hi \<longrightarrow> count_at publics t = c"
    and before: "\<forall>p \<in> set done. snd p \<le> lo"
  shows "window_inv publics (ws @ [\<lparr>pw_time = TimeRange lo hi, pw_public_lanes = c\<rparr>]) (done @ [(lo, hi)])"
proof -
  have "tr_end (pw_time w) \<le> lo" if "w \<in> set ws" for w
    using window_invD(6) [OF inv that] before by auto
  then show ?thesis
    using inv lt c by (auto simp: window_inv_def sorted_wrt_append wf_time_range_def tr_contains_def)
qed

lemma window_inv_extend:
  assumes inv: "window_inv publics (ws @ [w]) done" and lt: "lo < hi"
    and c: "\<forall>t. lo \<le> t \<and> t < hi \<longrightarrow> count_at publics t = pw_public_lanes w"
    and adj: "tr_end (pw_time w) = lo"
  shows "window_inv publics
    (ws @ [\<lparr>pw_time = TimeRange (tr_start (pw_time w)) hi, pw_public_lanes = pw_public_lanes w\<rparr>]) (done @ [(lo, hi)])"
proof -
  let ?w = "\<lparr>pw_time = TimeRange (tr_start (pw_time w)) hi, pw_public_lanes = pw_public_lanes w\<rparr>"
  have wf: "tr_start (pw_time w) < lo" using inv adj by (auto simp: window_inv_def wf_time_range_def)
  have split: "tr_contains (pw_time ?w) t \<longleftrightarrow> tr_contains (pw_time w) t \<or> (lo \<le> t \<and> t < hi)" for t
    using wf lt adj by (auto simp: tr_contains_def)
  have cnt: "\<forall>t. tr_contains (pw_time ?w) t \<longrightarrow> count_at publics t = pw_public_lanes ?w"
    using inv c split by (auto simp: window_inv_def)
  have cov: "\<exists>v \<in> set (ws @ [?w]). tr_contains (pw_time v) t"
    if "p \<in> set (done @ [(lo, hi)])" "fst p \<le> t" "t < snd p" "0 < count_at publics t" for p t
  proof -
    have "(\<exists>v \<in> set (ws @ [w]). tr_contains (pw_time v) t) \<or> (lo \<le> t \<and> t < hi)"
    proof (cases "p \<in> set done")
      case True
      with window_invD(5) [OF inv] that show ?thesis by blast
    next
      case False
      with that show ?thesis by simp
    qed
    with split [of t] show ?thesis by auto
  qed
  have good: "wf_time_range (pw_time v)" "0 < pw_public_lanes v"
      "tr_end (pw_time v) \<in> snd ` set (done @ [(lo, hi)])" if "v \<in> set (ws @ [?w])" for v
  proof -
    from that consider "v \<in> set (ws @ [w])" | "v = ?w" by auto
    then show "wf_time_range (pw_time v)" "0 < pw_public_lanes v"
        "tr_end (pw_time v) \<in> snd ` set (done @ [(lo, hi)])"
      using window_invD(1,2,6) [OF inv, of v] window_invD(2) [OF inv, of w] wf lt
      by (cases; auto simp: wf_time_range_def)+
  qed
  have cnt': "count_at publics t = pw_public_lanes v"
    if "v \<in> set (ws @ [?w])" "tr_contains (pw_time v) t" for v t
    using that cnt window_invD(3) [OF inv, of v t] by auto
  have "sorted_wrt (\<lambda>v w. tr_end (pw_time v) \<le> tr_start (pw_time w)) (ws @ [?w])"
    using window_invD(4) [OF inv] by (simp add: sorted_wrt_append)
  then show ?thesis
    using good cnt' cov unfolding window_inv_def by (auto simp del: set_append)
qed

lemma window_inv_step:
  assumes inv: "window_inv publics ws done"
    and p: "(lo, hi) \<in> set (pairwise (span_bounds publics))"
    and before: "\<forall>p \<in> set done. snd p \<le> lo"
  shows "window_inv publics (window_step publics ws (lo, hi)) (done @ [(lo, hi)])"
proof -
  let ?c = "int (card (lanes_during publics lo hi))"
  have lt: "lo < hi" using pairwise_less [OF span_bounds_sorted p] .
  have c: "\<forall>t. lo \<le> t \<and> t < hi \<longrightarrow> count_at publics t = ?c"
    using lanes_during_eq [OF p] by (auto simp: count_at_def)
  show ?thesis
  proof (cases "?c = 0")
    case True
    with c inv show ?thesis by (simp add: window_step_def Let_def window_inv_skip)
  next
    case False
    then have pos: "0 < ?c" by simp
    show ?thesis
    proof (cases "ws \<noteq> [] \<and> pw_public_lanes (last ws) = ?c \<and> tr_end (pw_time (last ws)) = lo")
      case True
      then obtain vs w where ws: "ws = vs @ [w]" by (cases ws rule: rev_cases) auto
      with True have "pw_public_lanes w = ?c" "tr_end (pw_time w) = lo" by auto
      with inv lt c ws have "window_inv publics
          (vs @ [\<lparr>pw_time = TimeRange (tr_start (pw_time w)) hi, pw_public_lanes = ?c\<rparr>]) (done @ [(lo, hi)])"
        using window_inv_extend [of publics vs w "done" lo hi] by simp
      with True False ws show ?thesis by (simp add: window_step_def Let_def)
    next
      case no: False
      have "window_step publics ws (lo, hi) = ws @ [\<lparr>pw_time = TimeRange lo hi, pw_public_lanes = ?c\<rparr>]"
        using no False by (simp only: window_step_def Let_def prod.case if_False)
      with window_inv_new [OF inv lt pos c before] show ?thesis by simp
    qed
  qed
qed

lemma pairwise_append_before:
  "sorted_wrt (<) xs \<Longrightarrow> pairwise xs = us @ p # vs \<Longrightarrow> q \<in> set us \<Longrightarrow> snd q \<le> (fst p :: 'a::linorder)"
proof (induction xs arbitrary: us rule: induct_list012)
  case (3 x y zs)
  from "3.prems"(2,3) obtain us' where us: "us = (x, y) # us'" and t: "pairwise (y # zs) = us' @ p # vs"
    by (cases us) auto
  from t have "p \<in> set (pairwise (y # zs))" by simp
  then have "fst p \<in> set (y # zs)" by (metis pairwise_mem prod.collapse)
  with "3.prems"(1) have "y \<le> fst p" by (auto simp: less_imp_le)
  with "3.IH"(2) [of us'] "3.prems" us t show ?case by auto
qed auto

lemma window_inv_foldl:
  assumes "pairwise (span_bounds publics) = ps @ qs"
  shows "window_inv publics (foldl (window_step publics) [] ps) ps"
  using assms
proof (induction ps arbitrary: qs rule: rev_induct)
  case Nil
  show ?case by (simp add: window_inv_def)
next
  case (snoc p ps)
  obtain lo hi where p: "p = (lo, hi)" by fastforce
  from snoc.prems have eq: "pairwise (span_bounds publics) = ps @ p # qs" by simp
  have "\<forall>q \<in> set ps. snd q \<le> lo"
    using pairwise_append_before [OF span_bounds_sorted eq] p by auto
  moreover have "(lo, hi) \<in> set (pairwise (span_bounds publics))" using eq p by simp
  ultimately show ?case using snoc.IH [OF eq] p by (simp add: window_inv_step)
qed

section \<open>The chosen window\<close>

lemma count_in_some_pair:
  assumes "0 < count_at publics t"
  shows "\<exists>p \<in> set (pairwise (span_bounds publics)). fst p \<le> t \<and> t < snd p"
proof -
  from assms have "lanes_at publics t \<noteq> {}" by (auto simp: count_at_def)
  then obtain q where q: "q \<in> set publics" "tr_contains (fst q) t" by (auto simp: lanes_at_def)
  let ?xs = "span_bounds publics"
  let ?B = "set (map (tr_start \<circ> fst) publics) \<union> set (map (tr_end \<circ> fst) publics)"
  have mem: "tr_start (fst q) \<in> ?B" "tr_end (fst q) \<in> ?B" using q(1) by auto
  have ne: "?xs \<noteq> []" using span_bounds_mem [OF q(1)] by auto
  have "hd ?xs = Min ?B" unfolding span_bounds_def using mem by (intro hd_sorted_list_of_set) auto
  also have "\<dots> \<le> tr_start (fst q)" using mem by (intro Min_le) auto
  finally have "hd ?xs \<le> t" using q by (auto simp: tr_contains_def)
  moreover have "tr_end (fst q) \<le> last ?xs"
    using span_bounds_mem [OF q(1)] by (intro last_sorted_wrt_less span_bounds_sorted) simp
  with q have "t < last ?xs" by (auto simp: tr_contains_def)
  ultimately show ?thesis using pairwise_cover [OF span_bounds_sorted ne] by force
qed

definition in_scope :: "time_range option \<Rightarrow> time \<Rightarrow> bool" where
  "in_scope w t \<longleftrightarrow> (case w of None \<Rightarrow> True | Some r \<Rightarrow> tr_contains r t)"

lemma clipped_to_contains:
  "(\<exists>c. clipped_to r w = Some c \<and> tr_contains c t) \<longleftrightarrow> tr_contains r t \<and> in_scope w t"
  by (cases w) (auto simp: clipped_to_def in_scope_def tr_contains_def Let_def)

lemma public_spans_mem:
  "p \<in> set (public_spans plan wd w) \<longleftrightarrow>
     (\<exists>r \<in> set (reservations plan). wd \<in> lr_weekdays r \<and> lr_access r = PublicSwim \<and>
        clipped_to (lr_time r) w = Some (fst p) \<and> snd p = lr_lanes r)"
  by (cases p) (force simp: public_spans_def split: option.splits)

lemma lanes_at_public_spans:
  "lanes_at (public_spans plan wd w) t = (if in_scope w t then public_at plan wd t else {})"
proof -
  have "l \<in> lanes_at (public_spans plan wd w) t \<longleftrightarrow> in_scope w t \<and> l \<in> public_at plan wd t" for l
  proof -
    have "l \<in> lanes_at (public_spans plan wd w) t \<longleftrightarrow>
        (\<exists>r \<in> set (reservations plan). wd \<in> lr_weekdays r \<and> lr_access r = PublicSwim \<and> l \<in> lr_lanes r \<and>
          (\<exists>c. clipped_to (lr_time r) w = Some c \<and> tr_contains c t))" (is "_ \<longleftrightarrow> ?R")
    proof
      assume "l \<in> lanes_at (public_spans plan wd w) t"
      then obtain p where "p \<in> set (public_spans plan wd w)" "tr_contains (fst p) t" "l \<in> snd p"
        by (auto simp: lanes_at_def)
      then show ?R by (auto simp: public_spans_mem)
    next
      assume ?R
      then obtain r c where r: "r \<in> set (reservations plan)" "wd \<in> lr_weekdays r" "lr_access r = PublicSwim"
          "l \<in> lr_lanes r" "clipped_to (lr_time r) w = Some c" "tr_contains c t" by blast
      then have "(c, lr_lanes r) \<in> set (public_spans plan wd w)" by (auto simp: public_spans_mem)
      with r show "l \<in> lanes_at (public_spans plan wd w) t" by (force simp: lanes_at_def)
    qed
    also have "\<dots> \<longleftrightarrow> in_scope w t \<and> l \<in> public_at plan wd t"
      unfolding clipped_to_contains public_at_mem by blast
    finally show ?thesis .
  qed
  then show ?thesis by auto
qed

lemma count_at_public_spans:
  "count_at (public_spans plan wd w) t = (if in_scope w t then int (card (public_at plan wd t)) else 0)"
  by (simp add: count_at_def lanes_at_public_spans)

lemma best_windows_inv:
  "window_inv (public_spans plan wd w)
     (foldl (window_step (public_spans plan wd w)) [] (pairwise (span_bounds (public_spans plan wd w))))
     (pairwise (span_bounds (public_spans plan wd w)))"
  by (rule window_inv_foldl [where qs = "[]"]) simp

lemma best_public_time_None:
  assumes "best_public_time plan wd w = None" "in_scope w t"
  shows "card (public_at plan wd t) = 0"
proof (rule ccontr)
  assume "card (public_at plan wd t) \<noteq> 0"
  let ?ps = "public_spans plan wd w"
  let ?ws = "foldl (window_step ?ps) [] (pairwise (span_bounds ?ps))"
  have pos: "0 < count_at ?ps t"
    using \<open>card (public_at plan wd t) \<noteq> 0\<close> assms(2) by (simp add: count_at_public_spans)
  have "\<exists>v \<in> set ?ws. tr_contains (pw_time v) t"
    using count_in_some_pair [OF pos] best_windows_inv [of plan wd w] pos
    by (fastforce simp: window_inv_def)
  then have "?ws \<noteq> []" by auto
  moreover from pos have "?ps \<noteq> []" by (auto simp: count_at_def lanes_at_def)
  ultimately show False
    using assms(1) by (auto simp: best_public_time_def Let_def split: list.splits)
qed

lemma best_public_time_Some:
  assumes "best_public_time plan wd w = Some b"
  shows "wf_time_range (pw_time b)" "0 < pw_public_lanes b"
    "\<And>t. tr_contains (pw_time b) t \<Longrightarrow> in_scope w t \<and> int (card (public_at plan wd t)) = pw_public_lanes b"
    "\<And>t. in_scope w t \<Longrightarrow> int (card (public_at plan wd t)) \<le> pw_public_lanes b"
    "\<And>t. in_scope w t \<Longrightarrow> t < tr_start (pw_time b) \<Longrightarrow> int (card (public_at plan wd t)) < pw_public_lanes b"
proof -
  let ?ps = "public_spans plan wd w"
  let ?ws = "foldl (window_step ?ps) [] (pairwise (span_bounds ?ps))"
  note inv = best_windows_inv [of plan wd w]
  obtain x xs where ws: "?ws = x # xs" and b: "b = max_first pw_public_lanes x xs"
    using assms by (auto simp: best_public_time_def Let_def split: list.splits if_splits)
  obtain us vs where sp: "?ws = us @ b # vs" and less: "\<forall>v \<in> set us. pw_public_lanes v < pw_public_lanes b"
    using max_first_split [of x xs pw_public_lanes] unfolding ws b by blast
  have top: "pw_public_lanes v \<le> pw_public_lanes b" if "v \<in> set ?ws" for v
    using max_first_ge [of v x xs pw_public_lanes] that unfolding ws b by blast
  have bin: "b \<in> set ?ws" unfolding sp by simp
  show wf: "wf_time_range (pw_time b)" and pos: "0 < pw_public_lanes b"
    using inv bin unfolding window_inv_def by blast+
  have cnt: "count_at ?ps t = pw_public_lanes v" if "v \<in> set ?ws" "tr_contains (pw_time v) t" for v t
    using inv that unfolding window_inv_def by blast
  show "in_scope w t \<and> int (card (public_at plan wd t)) = pw_public_lanes b" if "tr_contains (pw_time b) t" for t
    using cnt [OF bin that] pos by (auto simp: count_at_public_spans split: if_splits)
  have ex: "\<exists>v \<in> set ?ws. tr_contains (pw_time v) t" if "0 < count_at ?ps t" for t
    using count_in_some_pair [OF that] inv that by (fastforce simp: window_inv_def)
  show "int (card (public_at plan wd t)) \<le> pw_public_lanes b" if "in_scope w t" for t
  proof (cases "0 < count_at ?ps t")
    case True
    then obtain v where "v \<in> set ?ws" "tr_contains (pw_time v) t" using ex by blast
    with cnt top that show ?thesis by (fastforce simp: count_at_public_spans)
  next
    case False
    with that pos show ?thesis by (simp add: count_at_public_spans)
  qed
  show "int (card (public_at plan wd t)) < pw_public_lanes b"
    if "in_scope w t" "t < tr_start (pw_time b)" for t
  proof (cases "0 < count_at ?ps t")
    case True
    then obtain v where v: "v \<in> set ?ws" "tr_contains (pw_time v) t" using ex by blast
    have "sorted_wrt (\<lambda>v w. tr_end (pw_time v) \<le> tr_start (pw_time w)) (us @ b # vs)"
      using inv unfolding window_inv_def sp by blast
    then have late: "\<forall>z \<in> set vs. tr_end (pw_time b) \<le> tr_start (pw_time z)" by (simp add: sorted_wrt_append)
    have "v \<notin> set vs" "v \<noteq> b"
      using v(2) that(2) late wf by (force simp: tr_contains_def wf_time_range_def)+
    with v(1) have "v \<in> set us" unfolding sp by auto
    with less cnt [OF v] that(1) show ?thesis by (auto simp: count_at_public_spans)
  next
    case False
    with that pos show ?thesis by (simp add: count_at_public_spans)
  qed
qed

end
