(* ===== verification/Lane_Properties.thy ===== *)
theory Lane_Properties
  imports Lane_Views Lane_Best
begin

text \<open>
  The promises of the lane views: how many lanes are public at a moment, until when, over a
  session, on the day board and in the club roster, all against \<open>public_at\<close>, the set of
  lanes a public reservation of the plan holds at an instant.
\<close>

section \<open>A concrete plan\<close>

definition ex_reservation :: "int set \<Rightarrow> time_range \<Rightarrow> session_access \<Rightarrow> lane_reservation" where
  "ex_reservation lanes r a = \<lparr>lr_weekdays = {MONDAY}, lr_time = r, lr_lanes = lanes, lr_access = a, lr_section = None\<rparr>"

definition ex_plan :: lane_plan where
  "ex_plan = \<lparr>lane_count = 3,
     reservations = [ex_reservation {1, 2} (TimeRange (hm 8 0) (hm 12 0)) PublicSwim,
                     ex_reservation {3} (TimeRange (hm 8 0) (hm 10 0)) (ClubReserved (u ''SCZ'')),
                     ex_reservation {3} (TimeRange (hm 10 0) (hm 12 0)) PublicSwim],
     lp_valid_from = None,
     coverage = \<lparr>pc_confidence = COMPLETE, cells_total = 0, cells_resolved = 0, unresolved_lanes = {}\<rparr>,
     lp_fetched_at = None, lanes_by_weekday = None\<rparr>"

lemma ex_plan_wf: "wf_plan ex_plan"
  by (auto simp: wf_simps ex_plan_def ex_reservation_def no_clash_def overlap_def)

lemma ex_plan_wf_ranges: "wf_ranges ex_plan"
  using ex_plan_wf by (simp add: wf_plan_def)

section \<open>Counts\<close>

text \<open>
  a badge never promises lanes that are not there: on a well-formed plan the public
  and the reserved lanes of any moment are disjoint, so together at most the lane count, and
  every reserving owner is named exactly once.
\<close>

theorem lane_badge_within_plan:
  assumes "wf_plan plan" "0 \<le> lane_count plan"
  shows "let a = lane_availability_at plan wd t
    in 0 \<le> public_lanes a \<and> 0 \<le> reserved_lanes a \<and>
       public_lanes a + reserved_lanes a \<le> la_lane_count a \<and>
       distinct (owners a) \<and> PublicSwim \<notin> set (owners a)"
proof -
  let ?P = "public_at plan wd t" and ?R = "reserved_at plan wd t"
  from assms have wf: "wf_lanes plan" by (simp add: wf_plan_def)
  have sub: "?P \<union> ?R \<subseteq> {1..lane_count plan}" using wf_lanes_bound [OF wf] by blast
  then have fin: "finite ?P" "finite ?R" by (auto intro: finite_subset)
  have "card ?P + card ?R = card (?P \<union> ?R)"
    using fin wf_plan_disjoint [OF assms(1)] by (simp add: card_Un_disjoint)
  also have "\<dots> \<le> card {1..lane_count plan}" by (rule card_mono) (use sub in auto)
  finally have "card ?P + card ?R \<le> nat (lane_count plan)" by simp
  with assms(2) show ?thesis by (auto simp: Let_def lane_availability_at_fields)
qed

theorem lane_badge_within_plan_witness:
  "public_lanes (lane_availability_at ex_plan MONDAY (hm 9 0)) +
   reserved_lanes (lane_availability_at ex_plan MONDAY (hm 9 0)) \<le> 3"
proof -
  have "0 \<le> lane_count ex_plan" "lane_count ex_plan = 3" by (simp_all add: ex_plan_def)
  with lane_badge_within_plan [OF ex_plan_wf, of MONDAY "hm 9 0"] show ?thesis
    by (simp add: Let_def lane_availability_at_fields)
qed

text \<open>
  \<open>public_until\<close> is the end of the maximal public run: absent exactly when nothing
  is public at the moment; otherwise later than it, with some lane range public at every
  instant before it and none at it, across adjoining and overlapping reservations.
\<close>

theorem public_until_is_run_end:
  assumes "wf_ranges plan"
  shows "case public_until (lane_availability_at plan wd t) of
      None \<Rightarrow> \<not> public_now plan wd t
    | Some e \<Rightarrow> t < e \<and> (\<forall>x. t \<le> x \<and> x < e \<longrightarrow> public_now plan wd x) \<and> \<not> public_now plan wd e"
  using public_run_end_None_iff [OF assms, of wd t] public_run_end_Some [OF assms, of wd t]
  by (auto simp: lane_availability_at_fields split: option.splits)

theorem public_until_is_run_end_witness:
  "case public_until (lane_availability_at ex_plan MONDAY (hm 9 0)) of
      None \<Rightarrow> \<not> public_now ex_plan MONDAY (hm 9 0)
    | Some e \<Rightarrow> hm 9 0 < e \<and> {hm 9 0..<e} \<subseteq> Collect (public_now ex_plan MONDAY) \<and> \<not> public_now ex_plan MONDAY e"
  using public_until_is_run_end [OF ex_plan_wf_ranges, of MONDAY "hm 9 0"] by (auto split: option.splits)

section \<open>The timeline\<close>

lemma timeline_segment_unique:
  assumes "s1 \<in> set (tl_segments (lane_availability_timeline plan wd w))" "tr_contains (slot_time s1) t"
    and "s2 \<in> set (tl_segments (lane_availability_timeline plan wd w))" "tr_contains (slot_time s2) t"
  shows "s1 = s2"
proof -
  let ?xs = "sorted_list_of_set (timeline_bounds plan wd w)"
  obtain l1 h1 where p1: "(l1, h1) \<in> set (pairwise ?xs)" "l1 \<le> t" "t < h1"
    and s1: "s1 = \<lparr>slot_time = TimeRange l1 h1, slot_availability = lane_availability_at plan wd l1\<rparr>"
    using assms(1,2) by (auto simp: timeline_segment_iff tr_contains_def)
  obtain l2 h2 where p2: "(l2, h2) \<in> set (pairwise ?xs)" "l2 \<le> t" "t < h2"
    and s2: "s2 = \<lparr>slot_time = TimeRange l2 h2, slot_availability = lane_availability_at plan wd l2\<rparr>"
    using assms(3,4) by (auto simp: timeline_segment_iff tr_contains_def)
  have gap1: "x \<le> l1 \<or> h1 \<le> x" and gap2: "x \<le> l2 \<or> h2 \<le> x" if "x \<in> set ?xs" for x
    using pairwise_gap [OF strict_sorted_list_of_set p1(1) that]
      pairwise_gap [OF strict_sorted_list_of_set p2(1) that] by blast+
  have "l2 \<le> l1" using gap1 [of l2] pairwise_mem [OF p2(1)] p1 p2 by force
  moreover have "l1 \<le> l2" using gap2 [of l1] pairwise_mem [OF p1(1)] p1 p2 by force
  ultimately have l: "l1 = l2" by simp
  have "h1 \<le> h2" using gap1 [of h2] pairwise_mem [OF p2(1)] p1 p2 by force
  moreover have "h2 \<le> h1" using gap2 [of h1] pairwise_mem [OF p1(1)] p1 p2 by force
  ultimately show ?thesis using l s1 s2 by simp
qed

text \<open>
  C8: the lane timeline of a session is a partition of the session: every moment of the
  session lies in exactly one segment, segments stay inside the session, and the badge
  computed at the start of a segment is the badge of each of its moments.
\<close>

theorem timeline_partitions_session:
  assumes "wf_ranges plan" "wf_time_range w" "tr_contains w t"
  shows "(\<exists>!seg. seg \<in> set (tl_segments (lane_availability_timeline plan wd w)) \<and> tr_contains (slot_time seg) t) \<and>
    (\<forall>seg \<in> set (tl_segments (lane_availability_timeline plan wd w)). \<forall>x. tr_contains (slot_time seg) x \<longrightarrow>
       tr_contains w x \<and> lane_availability_at plan wd x = slot_availability seg)"
proof -
  have "\<exists>!seg. seg \<in> set (tl_segments (lane_availability_timeline plan wd w)) \<and> tr_contains (slot_time seg) t"
    using timeline_covers [OF assms(2,3), of plan wd] timeline_segment_unique by blast
  moreover have "tr_contains w x \<and> lane_availability_at plan wd x = slot_availability seg"
    if "seg \<in> set (tl_segments (lane_availability_timeline plan wd w))" "tr_contains (slot_time seg) x" for seg x
    using timeline_segment [OF assms(1,2) that(1)] that(2) by (auto simp: tr_contains_def)
  ultimately show ?thesis by blast
qed

theorem timeline_partitions_session_witness:
  "\<exists>!seg. seg \<in> set (tl_segments (lane_availability_timeline ex_plan MONDAY (TimeRange (hm 9 0) (hm 11 0)))) \<and>
     tr_contains (slot_time seg) (hm 9 30)"
  using timeline_partitions_session [OF ex_plan_wf_ranges, of "TimeRange (hm 9 0) (hm 11 0)" "hm 9 30" MONDAY]
  by (simp add: wf_time_range_def tr_contains_def)

section \<open>The best public window\<close>

text \<open>
  C9: the "best time to come" is what it says: no window exactly when no lane is public
  anywhere in scope; otherwise throughout the window the number of public lanes is the stated
  one, no moment in scope has more, and every earlier moment in scope has fewer. The window
  never leaves the session it is asked for.
\<close>

theorem best_public_window_is_best:
  "case best_public_time plan wd w of
     None \<Rightarrow> \<forall>t. in_scope w t \<longrightarrow> card (public_at plan wd t) = 0
   | Some b \<Rightarrow> wf_time_range (pw_time b) \<and> 0 < pw_public_lanes b \<and>
       (\<forall>t. tr_contains (pw_time b) t \<longrightarrow> in_scope w t \<and> int (card (public_at plan wd t)) = pw_public_lanes b) \<and>
       (\<forall>t. in_scope w t \<longrightarrow> int (card (public_at plan wd t)) \<le> pw_public_lanes b \<and>
          (t < tr_start (pw_time b) \<longrightarrow> int (card (public_at plan wd t)) < pw_public_lanes b))"
proof (cases "best_public_time plan wd w")
  case None
  then show ?thesis using best_public_time_None [OF None] by simp
next
  case (Some b)
  note facts = best_public_time_Some [OF Some]
  show ?thesis unfolding Some option.case using facts by blast
qed

lemma ex_plan_public: "public_at ex_plan MONDAY (hm 9 0) = {1, 2}"
proof -
  have "active_reservations ex_plan MONDAY (hm 9 0) =
      [ex_reservation {1, 2} (TimeRange (hm 8 0) (hm 12 0)) PublicSwim,
       ex_reservation {3} (TimeRange (hm 8 0) (hm 10 0)) (ClubReserved (u ''SCZ''))]"
    by (simp add: active_reservations_def ex_plan_def ex_reservation_def tr_contains_def)
  then show ?thesis by (simp add: public_at_def ex_reservation_def Collect_disj_eq conj_disj_distribR cong: conj_cong)
qed

theorem best_public_window_is_best_witness:
  "\<exists>b. best_public_time ex_plan MONDAY None = Some b \<and> 2 \<le> pw_public_lanes b"
proof (cases "best_public_time ex_plan MONDAY None")
  case None
  then have "card (public_at ex_plan MONDAY (hm 9 0)) = 0"
    using best_public_window_is_best [where plan = ex_plan and wd = MONDAY and w = None] by (simp add: in_scope_def)
  then show ?thesis by (simp add: ex_plan_public)
next
  case (Some b)
  then have "int (card (public_at ex_plan MONDAY (hm 9 0))) \<le> pw_public_lanes b"
    using best_public_window_is_best [where plan = ex_plan and wd = MONDAY and w = None] by (simp add: in_scope_def)
  with Some show ?thesis by (simp add: ex_plan_public)
qed

section \<open>The day board and the roster\<close>

definition strip_public_at :: "time \<Rightarrow> lane_strip \<Rightarrow> bool" where
  "strip_public_at t s \<longleftrightarrow>
     (\<exists>seg \<in> set (strip_segments s). ls_access seg = PublicSwim \<and> tr_contains (ls_time seg) t)"

lemma strip_public_at_iff: "strip_public_at t (lane_strip_of plan wd l) \<longleftrightarrow> l \<in> public_at plan wd t"
  by (auto simp: strip_public_at_def lane_strip_of_def public_at_mem)

text \<open>
  C10: the per-lane day board and the badge agree: on a plan whose reservations name only
  its own lanes, the number of strips painted public at a moment is the badge's count of
  public lanes at that moment, and the board has one strip per lane.
\<close>

theorem day_board_agrees_with_badge:
  assumes "wf_lanes plan"
  shows "int (length (filter (strip_public_at t) (strips (lane_day_view plan wd)))) =
      public_lanes (lane_availability_at plan wd t) \<and>
    map strip_lane (strips (lane_day_view plan wd)) = [1..lane_count plan]"
proof
  have "filter (strip_public_at t) (strips (lane_day_view plan wd)) =
      map (lane_strip_of plan wd) (filter (\<lambda>l. l \<in> public_at plan wd t) [1..lane_count plan])"
    by (simp add: lane_day_view_def filter_map comp_def strip_public_at_iff)
  moreover have "length (filter (\<lambda>l. l \<in> public_at plan wd t) [1..lane_count plan]) =
      card ({l \<in> set [1..lane_count plan]. l \<in> public_at plan wd t})"
    using distinct_card [of "filter (\<lambda>l. l \<in> public_at plan wd t) [1..lane_count plan]"] by simp
  moreover have "{l \<in> set [1..lane_count plan]. l \<in> public_at plan wd t} = public_at plan wd t"
    using wf_lanes_bound(1) [OF assms, of wd t] by auto
  ultimately show "int (length (filter (strip_public_at t) (strips (lane_day_view plan wd)))) =
      public_lanes (lane_availability_at plan wd t)"
    by (simp add: lane_availability_at_fields)
  show "map strip_lane (strips (lane_day_view plan wd)) = [1..lane_count plan]"
    by (simp add: lane_day_view_def lane_strip_of_def comp_def)
qed

theorem day_board_agrees_with_badge_witness:
  "int (length (filter (strip_public_at (hm 9 0)) (strips (lane_day_view ex_plan MONDAY)))) =
     public_lanes (lane_availability_at ex_plan MONDAY (hm 9 0))"
  using day_board_agrees_with_badge [of ex_plan "hm 9 0" MONDAY] ex_plan_wf by (simp add: wf_plan_def)

text \<open>
  the club roster lists exactly the non-public reservations, one row for each of
  their weekdays, each under a non-empty label, in the order of label, weekday and time.
\<close>

theorem club_roster_complete_sorted:
  "sorted_wrt (\<lambda>a b. club_slot_key a \<le> club_slot_key b) (club_roster plan) \<and>
   set (club_roster plan) =
     {\<lparr>cs_club = owner_label (lr_access r), cs_weekday = wd, cs_time = lr_time r,
       cs_lanes = sorted_list_of_set (lr_lanes r)\<rparr> | r wd.
        r \<in> set (reservations plan) \<and> lr_access r \<noteq> PublicSwim \<and> wd \<in> lr_weekdays r} \<and>
   (\<forall>s \<in> set (club_roster plan). cs_club s \<noteq> [])"
proof -
  have "owner_label a \<noteq> []" for a by (cases a) (auto simp: owner_label_def u_def)
  then have "\<forall>s \<in> set (club_roster plan). cs_club s \<noteq> []" by (auto simp: club_roster_def slots_of_def)
  moreover have "sorted_wrt (\<lambda>a b. club_slot_key a \<le> club_slot_key b) (club_roster plan)"
    by (simp add: club_roster_def sort_key_sorted)
  moreover have "set (club_roster plan) =
     {\<lparr>cs_club = owner_label (lr_access r), cs_weekday = wd, cs_time = lr_time r,
       cs_lanes = sorted_list_of_set (lr_lanes r)\<rparr> | r wd.
        r \<in> set (reservations plan) \<and> lr_access r \<noteq> PublicSwim \<and> wd \<in> lr_weekdays r}"
    by (auto simp: club_roster_def slots_of_def)
  ultimately show ?thesis by blast
qed

theorem club_roster_complete_sorted_witness:
  "[] \<notin> cs_club ` set (club_roster ex_plan)"
  using club_roster_complete_sorted [of ex_plan] by (fastforce simp: image_iff)

text \<open>
  the per-weekday lane count of a plan is inert: whatever \<open>lanes_by_weekday\<close> says,
  the badge, the timeline, the panel with its day board, and the best window are the same,
  all of them computed from the uniform \<open>lane_count\<close>.
\<close>

theorem weekday_lane_counts_inert:
  "lane_availability_at (plan\<lparr>lanes_by_weekday := m\<rparr>) wd t = lane_availability_at plan wd t \<and>
   lane_availability_timeline (plan\<lparr>lanes_by_weekday := m\<rparr>) wd w = lane_availability_timeline plan wd w \<and>
   lane_panel (plan\<lparr>lanes_by_weekday := m\<rparr>) wd = lane_panel plan wd \<and>
   best_public_time (plan\<lparr>lanes_by_weekday := m\<rparr>) wd scope = best_public_time plan wd scope"
proof -
  let ?over = "plan\<lparr>lanes_by_weekday := m\<rparr>"
  have av: "lane_availability_at ?over wd t = lane_availability_at plan wd t" for t
    by (simp add: lane_availability_at_def active_reservations_def public_run_end_def public_ranges_def)
  have best: "best_public_time ?over wd scope = best_public_time plan wd scope" for scope
    by (simp add: best_public_time_def public_spans_def)
  have "lane_strip_of ?over wd = lane_strip_of plan wd" by (simp add: fun_eq_iff lane_strip_of_def)
  then have "lane_day_view ?over wd = lane_day_view plan wd" by (simp add: lane_day_view_def)
  then have "lane_panel ?over wd = lane_panel plan wd"
    by (simp add: lane_panel_def best club_roster_def)
  then show ?thesis by (simp add: av best lane_availability_timeline_def timeline_bounds_def)
qed

end
