(* ===== verification/Normalize.thy ===== *)
theory Normalize
  imports PyStr
begin

text \<open>
  \<open>src/swimzh/core/normalize.py\<close>: the one match key of names. Its docstring promises
  idempotence; the lemmas prove it from the facts about \<open>strip\<close>, \<open>casefold\<close>,
  \<open>split\<close> and \<open>join\<close>.
\<close>

definition normalize :: "pystr \<Rightarrow> pystr" where
  "normalize text = py_join (u '' '') (py_split (py_casefold (py_strip text)))"

lemma u_space: "u '' '' = [32]"
  by (simp add: u_def)

text \<open>A list of words none of which case folding changes.\<close>

definition folded_words :: "pystr list \<Rightarrow> bool" where
  "folded_words ws \<longleftrightarrow> (\<forall>w \<in> set ws. word w \<and> py_casefold w = w)"

lemma py_casefold_concat_id: "\<forall>c \<in> set s. casefold_cp c = [c] \<Longrightarrow> py_casefold s = s"
  by (induction s) (auto simp: py_casefold_def)

lemma py_casefold_fixed_chars: "py_casefold s = s \<Longrightarrow> c \<in> set s \<Longrightarrow> casefold_cp c = [c]"
proof (induction s)
  case (Cons d s)
  have one: "casefold_cp d \<noteq> []" by (simp add: casefold_cp_def)
  from Cons.prems(1) have eq: "casefold_cp d @ py_casefold s = d # s" by (simp add: py_casefold_def)
  have len: "length s \<le> length (py_casefold s)" for s
    by (induction s) (auto simp: py_casefold_def casefold_cp_def)
  have "length (casefold_cp d) + length (py_casefold s) = Suc (length s)"
    using arg_cong [OF eq, of length] by simp
  with len [of s] have "length (casefold_cp d) \<le> 1" by linarith
  with one obtain x where "casefold_cp d = [x]" by (cases "casefold_cp d") auto
  with eq have "casefold_cp d = [d]" "py_casefold s = s" by auto
  with Cons show ?case by auto
qed simp

lemma split_casefolded_words: "folded_words (py_split (py_casefold s))"
proof -
  have fixed: "casefold_cp c = [c]" if "c \<in> set (py_casefold s)" for c
    using py_casefold_fixed_chars [OF py_casefold_idem that] .
  have sub: "set w \<subseteq> set v \<union> set t" if "w \<in> set (split_go v t)" for w v t
    using that by (induction v t rule: split_go.induct) (auto split: if_splits)
  have "py_casefold w = w" if "w \<in> set (py_split (py_casefold s))" for w
    using sub [of w "[]" "py_casefold s"] that fixed
    by (intro py_casefold_concat_id) (auto simp: py_split_def)
  then show ?thesis by (auto simp: folded_words_def py_split_words)
qed

lemma join_folded_words:
  assumes "folded_words ws"
  shows "py_strip (py_join [32] ws) = py_join [32] ws" "py_casefold (py_join [32] ws) = py_join [32] ws"
    "py_split (py_join [32] ws) = ws"
proof -
  have words: "\<forall>w \<in> set ws. word w" and ne: "\<forall>w \<in> set ws. w \<noteq> []"
    using assms by (auto simp: folded_words_def word_def)
  show "py_split (py_join [32] ws) = ws" using words by (rule py_split_join)
  show "py_strip (py_join [32] ws) = py_join [32] ws"
  proof (cases "ws = []")
    case True
    then show ?thesis by (simp add: py_strip_def)
  next
    case False
    then have "hd ws \<in> set ws" "last ws \<in> set ws" by simp_all
    then have "\<not> is_space (hd (hd ws))" "\<not> is_space (last (last ws))"
      using words ne by (auto simp: word_def)
    then have "\<not> is_space (hd (py_join [32] ws))" "\<not> is_space (last (py_join [32] ws))"
      using False ne by (simp_all add: py_join_hd py_join_last)
    then show ?thesis unfolding py_strip_def
      using False ne py_join_Nil_iff by (intro strip_where_id) auto
  qed
  have "casefold_cp c = [c]" if c: "c \<in> set (py_join [32] ws)" for c
  proof -
    from c py_join_set [of "[32]" ws] consider "c = 32" | w where "w \<in> set ws" "c \<in> set w" by auto
    then show ?thesis
      using assms by cases (auto simp: casefold_cp_space is_space_32 folded_words_def dest: py_casefold_fixed_chars)
  qed
  then show "py_casefold (py_join [32] ws) = py_join [32] ws" by (intro py_casefold_concat_id) auto
qed

lemma normalize_fixed: "folded_words ws \<Longrightarrow> normalize (py_join [32] ws) = py_join [32] ws"
  by (simp add: normalize_def u_space join_folded_words)

lemma normalize_is_join: "\<exists>ws. folded_words ws \<and> normalize s = py_join [32] ws"
  using split_casefolded_words by (auto simp: normalize_def u_space)

end
