(* ===== verification/Registry.thy ===== *)
theory Registry
  imports Models Normalize
begin

text \<open>
  \<open>src/swimzh/domain/registry.py\<close>: the pool identity registry. Construction registers the
  identities in order and raises on a duplicate id or on an alias two pools share.
\<close>

record registry =
  by_id :: "pool_id \<rightharpoonup> pool_identity"
  alias_index :: "pystr \<rightharpoonup> pool_id"

definition empty_registry :: registry where
  "empty_registry = \<lparr>by_id = Map.empty, alias_index = Map.empty\<rparr>"

fun add_aliases :: "pool_id \<Rightarrow> pystr list \<Rightarrow> (pystr \<rightharpoonup> pool_id) \<Rightarrow> py_error + (pystr \<rightharpoonup> pool_id)" where
  "add_aliases fid [] idx = Inr idx"
| "add_aliases fid (alias # rest) idx =
     (let key = normalize alias
      in case idx key of
           Some existing \<Rightarrow> if existing \<noteq> fid then Inl ValueError
                            else add_aliases fid rest (idx(key \<mapsto> fid))
         | None \<Rightarrow> add_aliases fid rest (idx(key \<mapsto> fid)))"

definition register :: "registry \<Rightarrow> pool_identity \<Rightarrow> py_error + registry" where
  "register r i =
     (let fid = facility_id i
      in if fid \<in> dom (by_id r) then Inl ValueError
         else case add_aliases fid (pid_name i # aliases i) (alias_index r) of
           Inl e \<Rightarrow> Inl e
         | Inr idx \<Rightarrow> Inr \<lparr>by_id = (by_id r)(fid \<mapsto> i), alias_index = idx\<rparr>)"

fun register_all :: "registry \<Rightarrow> pool_identity list \<Rightarrow> py_error + registry" where
  "register_all r [] = Inr r"
| "register_all r (i # is) = (case register r i of Inl e \<Rightarrow> Inl e | Inr r' \<Rightarrow> register_all r' is)"

definition mk_registry :: "pool_identity list \<Rightarrow> py_error + registry" where
  "mk_registry is = register_all empty_registry is"

definition registry_get :: "registry \<Rightarrow> pool_id \<Rightarrow> pool_identity option" where
  "registry_get r fid = by_id r fid"

section \<open>What construction checks\<close>

definition keys_of :: "pool_identity \<Rightarrow> pystr set" where
  "keys_of i = normalize ` set (pid_name i # aliases i)"

lemma add_aliases_Inr_iff:
  "add_aliases fid as idx = Inr idx' \<longleftrightarrow>
     (\<forall>a \<in> set as. idx (normalize a) = None \<or> idx (normalize a) = Some fid) \<and>
     idx' = (\<lambda>k. if k \<in> normalize ` set as then Some fid else idx k)"
proof (induction as arbitrary: idx)
  case Nil
  then show ?case by auto
next
  case (Cons a as)
  show ?case
  proof (cases "idx (normalize a) = None \<or> idx (normalize a) = Some fid")
    case True
    then have "add_aliases fid (a # as) idx = add_aliases fid as (idx(normalize a \<mapsto> fid))"
      by (auto simp: Let_def)
    with True show ?thesis by (auto simp: Cons.IH fun_eq_iff)
  next
    case False
    then show ?thesis by (auto simp: Let_def split: option.splits)
  qed
qed

lemma register_Inr_iff:
  "register r i = Inr r' \<longleftrightarrow>
     by_id r (facility_id i) = None \<and>
     (\<forall>k \<in> keys_of i. alias_index r k = None \<or> alias_index r k = Some (facility_id i)) \<and>
     r' = \<lparr>by_id = (by_id r)(facility_id i \<mapsto> i),
           alias_index = (\<lambda>k. if k \<in> keys_of i then Some (facility_id i) else alias_index r k)\<rparr>"
proof (cases "add_aliases (facility_id i) (pid_name i # aliases i) (alias_index r)")
  case (Inl e)
  then have "\<not> (\<forall>a \<in> set (pid_name i # aliases i). alias_index r (normalize a) = None \<or>
      alias_index r (normalize a) = Some (facility_id i))"
    using add_aliases_Inr_iff [of "facility_id i" "pid_name i # aliases i" "alias_index r"] by fastforce
  then have "\<not> (\<forall>k \<in> keys_of i. alias_index r k = None \<or> alias_index r k = Some (facility_id i))"
    unfolding keys_of_def by blast
  with Inl show ?thesis unfolding register_def Let_def by auto
next
  case (Inr idx)
  note add_aliases_Inr_iff [THEN iffD1, OF this]
  note facts = this [folded keys_of_def, THEN conjunct1] this [folded keys_of_def, THEN conjunct2]
  from facts(1) have "\<forall>k \<in> keys_of i. alias_index r k = None \<or> alias_index r k = Some (facility_id i)"
    by (simp add: keys_of_def)
  with facts(2) Inr show ?thesis unfolding register_def Let_def by (auto simp: dom_def)
qed

text \<open>
  The invariant of the loop: each id maps to the identity that carries it, each key to the
  id of a registered identity with that key.
\<close>

definition registry_inv :: "registry \<Rightarrow> pool_identity list \<Rightarrow> bool" where
  "registry_inv r is \<longleftrightarrow>
     distinct (map facility_id is) \<and>
     (\<forall>fid i. by_id r fid = Some i \<longleftrightarrow> i \<in> set is \<and> facility_id i = fid) \<and>
     (\<forall>k fid. alias_index r k = Some fid \<longleftrightarrow> (\<exists>i \<in> set is. k \<in> keys_of i \<and> facility_id i = fid))"

lemma registry_inv_empty: "registry_inv empty_registry []"
  by (simp add: registry_inv_def empty_registry_def)

lemma registry_inv_fresh:
  "registry_inv r is \<Longrightarrow> by_id r fid = None \<longleftrightarrow> (\<forall>i \<in> set is. facility_id i \<noteq> fid)"
  unfolding registry_inv_def by (metis not_None_eq)

lemma register_inv:
  assumes inv: "registry_inv r is" and reg: "register r i = Inr r'"
  shows "registry_inv r' (is @ [i])"
proof -
  from reg have fresh: "by_id r (facility_id i) = None"
    and ok: "\<forall>k \<in> keys_of i. alias_index r k = None \<or> alias_index r k = Some (facility_id i)"
    and r': "r' = \<lparr>by_id = (by_id r)(facility_id i \<mapsto> i),
           alias_index = (\<lambda>k. if k \<in> keys_of i then Some (facility_id i) else alias_index r k)\<rparr>"
    by (auto simp: register_Inr_iff)
  from fresh inv have ne: "\<forall>j \<in> set is. facility_id j \<noteq> facility_id i" by (simp add: registry_inv_fresh)
  have al: "alias_index r k = Some fid \<longleftrightarrow> (\<exists>j \<in> set is. k \<in> keys_of j \<and> facility_id j = fid)" for k fid
    using inv by (simp only: registry_inv_def)
  have "alias_index r' k = Some fid \<longleftrightarrow> (\<exists>j \<in> set (is @ [i]). k \<in> keys_of j \<and> facility_id j = fid)" for k fid
  proof (cases "k \<in> keys_of i")
    case True
    with ok have "alias_index r k = None \<or> alias_index r k = Some (facility_id i)" by blast
    then have "\<not> (\<exists>j \<in> set is. k \<in> keys_of j)" using al ne by (metis option.distinct(1) option.inject)
    with True r' show ?thesis by auto
  next
    case False
    with r' al [of k fid] show ?thesis by auto
  qed
  with inv ne r' show ?thesis by (auto simp: registry_inv_def)
qed

lemma register_all_inv:
  "registry_inv r is \<Longrightarrow> register_all r js = Inr r' \<Longrightarrow> registry_inv r' (is @ js)"
proof (induction js arbitrary: r "is")
  case (Cons j js)
  then obtain r1 where "register r j = Inr r1" "register_all r1 js = Inr r'"
    by (auto split: sum.splits)
  with Cons.IH [of r1 "is @ [j]"] Cons.prems register_inv show ?case by fastforce
qed simp

text \<open>Two pools clash when they share an id or a normalised name.\<close>

definition clash :: "pool_identity \<Rightarrow> pool_identity \<Rightarrow> bool" where
  "clash i j \<longleftrightarrow> facility_id i = facility_id j \<or> keys_of i \<inter> keys_of j \<noteq> {}"

lemma register_Inr_ex_iff:
  assumes inv: "registry_inv r is"
  shows "(\<exists>r'. register r i = Inr r') \<longleftrightarrow> (\<forall>j \<in> set is. \<not> clash j i)"
proof -
  have al: "alias_index r k = Some fid \<longleftrightarrow> (\<exists>j \<in> set is. k \<in> keys_of j \<and> facility_id j = fid)" for k fid
    using inv by (simp only: registry_inv_def)
  have "(\<exists>r'. register r i = Inr r') \<longleftrightarrow> (\<forall>j \<in> set is. facility_id j \<noteq> facility_id i) \<and>
      (\<forall>k \<in> keys_of i. alias_index r k = None \<or> alias_index r k = Some (facility_id i))"
    using registry_inv_fresh [OF inv] by (simp add: register_Inr_iff)
  also have "\<dots> \<longleftrightarrow> (\<forall>j \<in> set is. facility_id j \<noteq> facility_id i) \<and>
      (\<forall>k \<in> keys_of i. \<forall>j \<in> set is. k \<notin> keys_of j)"
    using al by (metis not_None_eq)
  also have "\<dots> \<longleftrightarrow> (\<forall>j \<in> set is. \<not> clash j i)" by (auto simp: clash_def)
  finally show ?thesis .
qed

lemma register_all_ex_iff:
  "registry_inv r is \<Longrightarrow>
   (\<exists>r'. register_all r js = Inr r') \<longleftrightarrow>
     (\<forall>i \<in> set is. \<forall>j \<in> set js. \<not> clash i j) \<and> sorted_wrt (\<lambda>i j. \<not> clash i j) js"
proof (induction js arbitrary: r "is")
  case (Cons j js)
  show ?case
  proof (cases "register r j")
    case (Inl e)
    then have "\<not> (\<forall>i \<in> set is. \<not> clash i j)" using register_Inr_ex_iff [OF Cons.prems, of j] by auto
    with Inl show ?thesis by auto
  next
    case (Inr r1)
    then have ok: "\<forall>i \<in> set is. \<not> clash i j" using register_Inr_ex_iff [OF Cons.prems, of j] by auto
    from Cons.IH [OF register_inv [OF Cons.prems Inr]] Inr ok show ?thesis by auto
  qed
qed simp

end
