(* ===== verification/Catalog.thy ===== *)
theory Catalog
  imports Models Normalize
begin

text \<open>
  \<open>src/swimzh/domain/catalog.py\<close>: the slug of a pool name, catalog entries and the
  three-state schedule freshness.
\<close>

section \<open>Slugs\<close>

fun translit_cp :: "nat \<Rightarrow> pystr" where
  "translit_cp c = (if c = 228 then u ''ae'' else if c = 246 then u ''oe''
     else if c = 252 then u ''ue'' else if c = 223 then u ''ss'' else [c])"

definition slug_char :: "nat \<Rightarrow> bool" where
  "slug_char c \<longleftrightarrow> (97 \<le> c \<and> c \<le> 122) \<or> (48 \<le> c \<and> c \<le> 57)"

text \<open>\<open>re.sub("[^a-z0-9]+", "-", s)\<close>: one dash per maximal run of other characters.\<close>

fun sub_runs :: "bool \<Rightarrow> pystr \<Rightarrow> pystr" where
  "sub_runs in_run [] = []"
| "sub_runs in_run (c # cs) =
     (if slug_char c then c # sub_runs False cs
      else if in_run then sub_runs True cs else 45 # sub_runs True cs)"

definition slug :: "pystr \<Rightarrow> pystr" where
  "slug name =
     (let lowered = concat (map translit_cp (py_lower (py_strip name)))
      in strip_where (\<lambda>c. c = 45) (sub_runs False lowered))"

section \<open>Catalog and roster\<close>

record pool_catalog_entry =
  pce_pool_id :: pystr
  pce_name :: pystr
  pce_kind :: pool_kind
  pce_address :: pystr
  pce_geo :: "geo_point option"
  pce_url :: "pystr option"
  pce_description :: "pystr option"
  pce_phone :: "pystr option"
  pce_poi_id :: "pystr option"

datatype schedule_freshness = SCRAPED | AWAITING_SCRAPE | NO_SOURCE

fun freshness_value :: "schedule_freshness \<Rightarrow> pystr" where
  "freshness_value SCRAPED = u ''scraped''"
| "freshness_value AWAITING_SCRAPE = u ''awaiting_scrape''"
| "freshness_value NO_SOURCE = u ''no_source''"

record roster_entry =
  re_entry :: pool_catalog_entry
  re_freshness :: schedule_freshness

definition has_rules :: "facility \<Rightarrow> bool" where
  "has_rules fac \<longleftrightarrow> (\<exists>b \<in> set (basins fac). bn_rules b \<noteq> [])"

definition freshness_of :: "facility \<Rightarrow> schedule_freshness" where
  "freshness_of fac =
     (if has_rules fac then SCRAPED
      else if pid_kind (identity fac) \<in> {INDOOR, THERMAL} then AWAITING_SCRAPE
      else NO_SOURCE)"

section \<open>The shape of a slug\<close>

definition slug_ok :: "pystr \<Rightarrow> bool" where
  "slug_ok s \<longleftrightarrow> (\<forall>c \<in> set s. slug_char c \<or> c = 45) \<and> successively (\<lambda>a b. a \<noteq> 45 \<or> b \<noteq> 45) s \<and>
     (s \<noteq> [] \<longrightarrow> hd s \<noteq> 45 \<and> last s \<noteq> 45)"

lemma sub_runs_chars: "c \<in> set (sub_runs b s) \<Longrightarrow> slug_char c \<or> c = 45"
  by (induction b s rule: sub_runs.induct) (auto split: if_splits)

lemma sub_runs_adjacent:
  "successively (\<lambda>a b. a \<noteq> 45 \<or> b \<noteq> 45) (sub_runs b s) \<and>
   (b \<longrightarrow> sub_runs b s \<noteq> [] \<longrightarrow> hd (sub_runs b s) \<noteq> 45)"
proof (induction b s rule: sub_runs.induct)
  case (2 b c cs)
  have "slug_char c \<Longrightarrow> c \<noteq> 45" by (auto simp: slug_char_def)
  with 2 show ?case by (auto simp: successively_Cons)
qed simp

lemma strip_where_infix: "\<exists>us vs. s = us @ strip_where p s @ vs"
proof -
  let ?t = "dropWhile p s"
  have "s = takeWhile p s @ ?t" by simp
  moreover have "?t = strip_where p s @ rev (takeWhile p (rev ?t))"
    unfolding strip_where_def by (metis rev_append rev_rev_ident takeWhile_dropWhile_id)
  ultimately show ?thesis by (metis append.assoc)
qed

lemma slug_slug_ok: "slug_ok (slug name)"
proof -
  let ?s = "sub_runs False (concat (map translit_cp (py_lower (py_strip name))))"
  have eq: "slug name = strip_where (\<lambda>c. c = 45) ?s" by (simp add: slug_def)
  obtain us vs where "?s = us @ slug name @ vs" using strip_where_infix unfolding eq by blast
  moreover have "successively (\<lambda>a b. a \<noteq> 45 \<or> b \<noteq> 45) ?s" using sub_runs_adjacent by blast
  ultimately have "successively (\<lambda>a b. a \<noteq> 45 \<or> b \<noteq> 45) (slug name)"
    by (simp add: successively_append_iff)
  moreover have "slug_char c \<or> c = 45" if "c \<in> set (slug name)" for c
    using that subsetD [OF strip_where_subset] sub_runs_chars unfolding eq by metis
  moreover have "hd (slug name) \<noteq> 45 \<and> last (slug name) \<noteq> 45" if "slug name \<noteq> []"
    using that strip_where_hd [of "\<lambda>c. c = 45"] strip_where_last [of "\<lambda>c. c = 45"] unfolding eq by blast
  ultimately show ?thesis by (simp add: slug_ok_def)
qed

lemma sub_runs_id:
  "\<forall>c \<in> set s. slug_char c \<or> c = 45 \<Longrightarrow> successively (\<lambda>a b. a \<noteq> 45 \<or> b \<noteq> 45) s \<Longrightarrow>
   (b \<longrightarrow> s \<noteq> [] \<longrightarrow> hd s \<noteq> 45) \<Longrightarrow> sub_runs b s = s"
proof (induction b s rule: sub_runs.induct)
  case (2 b c cs)
  have "\<not> slug_char 45" by (simp add: slug_char_def)
  with 2 show ?case by (cases cs) (auto simp: successively_Cons)
qed simp

lemma slug_char_fixed:
  "slug_char c \<or> c = 45 \<Longrightarrow> \<not> is_space c \<and> lower_cp c = c \<and> translit_cp c = [c]"
  by (auto simp: slug_char_def is_space_def lower_cp_def)

lemma slug_of_slug_ok:
  assumes "slug_ok s" shows "slug s = s"
proof -
  have ok: "\<forall>c \<in> set s. slug_char c \<or> c = 45" using assms by (simp add: slug_ok_def)
  then have "py_strip s = s" using slug_char_fixed unfolding py_strip_def by (intro strip_where_all) blast
  moreover have "py_lower s = s" unfolding py_lower_def
    using ok slug_char_fixed by (intro map_idI) blast
  moreover have "concat (map translit_cp s) = s"
    using ok by (induction s) (use slug_char_fixed in auto)
  moreover have "sub_runs False s = s"
    using assms by (intro sub_runs_id) (auto simp: slug_ok_def)
  moreover have "strip_where (\<lambda>c. c = 45) s = s"
    using assms by (cases "s = []") (auto simp: slug_ok_def intro: strip_where_id)
  ultimately show ?thesis by (simp add: slug_def)
qed

end
