(* ===== verification/Identity_Properties.thy ===== *)
theory Identity_Properties
  imports Registry Catalog Geo
begin

text \<open>
  Identity of pools: the registry accepts exactly the unambiguous identity lists, the match
  key and the slug are stable, and distances are a symmetric, bounded quantity.
\<close>

definition ex_pool :: "pystr \<Rightarrow> pystr \<Rightarrow> pystr list \<Rightarrow> pool_identity" where
  "ex_pool fid name als = \<lparr>facility_id = fid, pid_name = name, pid_kind = INDOOR, geo_sport_id = None,
     crowdmonitor_keys = [], baditicker_poiid = None, aliases = als\<rparr>"

lemma register_all_error: "register_all r is = Inl e \<Longrightarrow> e = ValueError"
proof (induction "is" arbitrary: r)
  case (Cons i "is")
  have "add_aliases fid as idx = Inl e' \<Longrightarrow> e' = ValueError" for fid as idx e'
    by (induction as arbitrary: idx) (auto simp: Let_def split: option.splits if_splits)
  then have "register r i = Inl e' \<Longrightarrow> e' = ValueError" for e'
    by (auto simp: register_def Let_def simp del: add_aliases.simps split: if_splits sum.splits)
  with Cons show ?case by (auto split: sum.splits)
qed simp

text \<open>
  C11: building the registry succeeds exactly when no two identities clash, that is share
  an id or, after normalisation, a name or alias; it then finds every pool by its id and only
  those, and maps every normalised name to the one pool that carries it. Otherwise it raises
  \<open>ValueError\<close>; it never silently overwrites.
\<close>

theorem registry_accepts_unambiguous:
  "case mk_registry is of
     Inl e \<Rightarrow> e = ValueError \<and> \<not> sorted_wrt (\<lambda>i j. \<not> clash i j) is
   | Inr r \<Rightarrow> sorted_wrt (\<lambda>i j. \<not> clash i j) is \<and>
       (\<forall>fid i. registry_get r fid = Some i \<longleftrightarrow> i \<in> set is \<and> facility_id i = fid) \<and>
       (\<forall>k fid. alias_index r k = Some fid \<longleftrightarrow> (\<exists>i \<in> set is. k \<in> keys_of i \<and> facility_id i = fid))"
proof (cases "mk_registry is")
  case (Inl e)
  then have "\<not> (\<exists>r. register_all empty_registry is = Inr r)" by (simp add: mk_registry_def)
  then show ?thesis
    using register_all_ex_iff [OF registry_inv_empty] Inl register_all_error by (simp add: mk_registry_def)
next
  case (Inr r)
  then have reg: "register_all empty_registry is = Inr r" by (simp add: mk_registry_def)
  then have "registry_inv r is" using register_all_inv [OF registry_inv_empty] by fastforce
  moreover have "sorted_wrt (\<lambda>i j. \<not> clash i j) is" using register_all_ex_iff [OF registry_inv_empty, of "is"] reg by auto
  ultimately show ?thesis by (simp add: Inr registry_inv_def registry_get_def)
qed

text \<open>
  the match key is stable: normalising twice is normalising once, so a stored key
  and a freshly computed one can be compared.
\<close>

theorem normalize_idempotent: "normalize (normalize s) = normalize s"
  using normalize_is_join [of s] normalize_fixed by auto

text \<open>
  a slug contains only \<open>a-z\<close>, \<open>0-9\<close> and single dashes between them, and slugging a
  slug changes nothing, so an id derived from a name may be derived again.
\<close>

theorem slug_shape_stable: "slug_ok (slug name) \<and> slug (slug name) = slug name"
  using slug_slug_ok slug_of_slug_ok by blast

text \<open>
  the distance of two points on the earth is symmetric, zero at the same point,
  never negative and at most half the circumference.
\<close>

theorem haversine_is_bounded_symmetric:
  assumes "valid_geo a" "valid_geo b"
  shows "haversine_km a b = haversine_km b a \<and> haversine_km a a = 0 \<and> 0 \<le> haversine_km a b \<and>
    haversine_km a b \<le> pi * EARTH_RADIUS_KM"
  using haversine_km_bounds [OF assms] haversine_km_sym by simp

theorem haversine_is_bounded_symmetric_witness:
  "0 \<le> haversine_km \<lparr>lat = 47, lon = 8\<rparr> \<lparr>lat = 46, lon = 9\<rparr>"
  using haversine_is_bounded_symmetric [of "\<lparr>lat = 47, lon = 8\<rparr>" "\<lparr>lat = 46, lon = 9\<rparr>"]
  by (simp add: valid_geo_def)

end
