(* ===== verification/Live.thy ===== *)
theory Live
  imports Models Errors
begin

text \<open>
  \<open>src/swimzh/domain/query.py\<close>, the live readings: occupancy (CrowdMonitor) and water
  temperature (Baditicker). The two providers are ports: the functions \<open>read\<close> are
  arguments. The locale states what the two attachments have in common, and is
  interpreted on both.
\<close>

section \<open>Occupancy\<close>

record occupancy =
  oc_facility_id :: pool_id
  oc_measured_at :: datetime
  percent_full :: "rat option"
  people :: "int option"
  capacity :: "int option"
  oc_source :: pystr

definition mk_occupancy ::
  "pool_id \<Rightarrow> datetime \<Rightarrow> rat option \<Rightarrow> int option \<Rightarrow> int option \<Rightarrow> pystr \<Rightarrow> py_error + occupancy" where
  "mk_occupancy fid measured pct ppl cap src =
     (if dt_tz measured = None then Inl ValueError
      else Inr \<lparr>oc_facility_id = fid, oc_measured_at = measured, percent_full = pct, people = ppl,
                capacity = cap, oc_source = src\<rparr>)"

datatype occupancy_result =
    LiveOccupancy (lo_reading: occupancy) (lo_age: int)
  | OccupancyUnavailable (ou_reason: pystr)

definition minutes :: "int \<Rightarrow> int" where
  "minutes n = seconds (60 * n)"

definition occupancy_is_stale :: "int \<Rightarrow> int \<Rightarrow> bool" where
  "occupancy_is_stale age_us limit \<longleftrightarrow> age_us > limit"

definition read_occupancy ::
  "(json \<Rightarrow> pystr) \<Rightarrow> tzdb \<Rightarrow> (pystr list \<Rightarrow> (occupancy, provider_error) result) \<Rightarrow> pool_identity \<Rightarrow>
   datetime \<Rightarrow> occupancy_result" where
  "read_occupancy repr db read ident now =
     (if crowdmonitor_keys ident = [] then OccupancyUnavailable (u ''no crowdmonitor key'')
      else case read (crowdmonitor_keys ident) of
        Ok reading \<Rightarrow> LiveOccupancy reading (dt_sub db now (oc_measured_at reading))
      | Err error \<Rightarrow> OccupancyUnavailable (describe repr error))"

section \<open>Water temperature\<close>

record temp_reading =
  tr_measured_at :: datetime
  celsius :: "py_decimal option"
  is_open :: "bool option"
  tr_source :: pystr

definition mk_temp_reading ::
  "datetime \<Rightarrow> py_decimal option \<Rightarrow> bool option \<Rightarrow> pystr \<Rightarrow> py_error + temp_reading" where
  "mk_temp_reading measured c op src =
     (if dt_tz measured = None then Inl ValueError
      else Inr \<lparr>tr_measured_at = measured, celsius = c, is_open = op, tr_source = src\<rparr>)"

datatype temp_unavailable_code = NO_KEY | PROVIDER_ERROR | NOT_CONFIGURED

datatype temp_result =
    LiveTemp (lt_reading: temp_reading) (lt_age: int)
  | TempUnavailable (tu_reason: pystr) (tu_code: temp_unavailable_code)

definition temp_is_stale :: "int \<Rightarrow> int \<Rightarrow> bool" where
  "temp_is_stale age_us limit \<longleftrightarrow> age_us > limit"

definition read_temperature ::
  "(json \<Rightarrow> pystr) \<Rightarrow> tzdb \<Rightarrow> (pystr \<Rightarrow> (temp_reading, provider_error) result) \<Rightarrow> pool_identity \<Rightarrow>
   datetime \<Rightarrow> temp_result" where
  "read_temperature repr db read ident now =
     (case baditicker_poiid ident of
        None \<Rightarrow> TempUnavailable (u ''no baditicker key'') NO_KEY
      | Some poiid \<Rightarrow>
          (case read poiid of
             Ok reading \<Rightarrow> LiveTemp reading (dt_sub db now (tr_measured_at reading))
           | Err error \<Rightarrow> TempUnavailable (describe repr error) PROVIDER_ERROR))"

section \<open>What attaching a live reading promises\<close>

text \<open>
  \<open>attach\<close> is a total function into live readings and explained absences;
  \<open>key_of\<close> is the identity's key for the port, if it has one; \<open>explains\<close> is
  the technical reason of an absence.
\<close>

locale live_source =
  fixes key_of :: "pool_identity \<Rightarrow> 'k option"
    and measured :: "'r \<Rightarrow> datetime"
    and attach :: "tzdb \<Rightarrow> ('k \<Rightarrow> ('r, provider_error) result) \<Rightarrow> pool_identity \<Rightarrow> datetime \<Rightarrow> 'out"
    and live :: "'r \<Rightarrow> int \<Rightarrow> 'out"
    and keyless :: "'out"
    and broken :: "provider_error \<Rightarrow> 'out"
    and explains :: "'out \<Rightarrow> pystr option"
  assumes no_key: "key_of i = None \<Longrightarrow> attach db read i now = keyless"
    and answered: "key_of i = Some k \<Longrightarrow> read k = Ok r \<Longrightarrow> attach db read i now = live r (dt_sub db now (measured r))"
    and failed: "key_of i = Some k \<Longrightarrow> read k = Err e \<Longrightarrow> attach db read i now = broken e"
    and live_inj: "live r a = live r' a' \<Longrightarrow> r = r' \<and> a = a'"
    and live_explains: "explains (live r a) = None"
    and keyless_explains: "\<exists>why. explains keyless = Some why \<and> why \<noteq> []"
    and broken_explains: "\<exists>why. explains (broken e) = Some why \<and> why \<noteq> []"
begin

lemma attach_cases:
  obtains (keyless) "key_of i = None" "attach db read i now = keyless"
  | (live) k r where "key_of i = Some k" "read k = Ok r"
      "attach db read i now = live r (dt_sub db now (measured r))"
  | (broken) k e where "key_of i = Some k" "read k = Err e" "attach db read i now = broken e"
  by (metis no_key answered failed result.exhaust option.exhaust)

text \<open>A live answer is exactly a reading the port returned for this pool's own key.\<close>

lemma live_iff:
  "attach db read i now = live r a \<longleftrightarrow>
     (\<exists>k. key_of i = Some k \<and> read k = Ok r \<and> a = dt_sub db now (measured r))"
proof (cases rule: attach_cases [of i db read now])
  case keyless
  then show ?thesis using live_explains [of r a] keyless_explains by auto
next
  case (live k r')
  then show ?thesis using live_inj by auto
next
  case (broken k e)
  then show ?thesis using live_explains [of r a] broken_explains [of e] by auto
qed

text \<open>Everything else is an absence with a reason.\<close>

lemma absent_explained:
  "(\<forall>k r. key_of i = Some k \<longrightarrow> read k \<noteq> Ok r) \<longleftrightarrow>
     (\<exists>why. explains (attach db read i now) = Some why \<and> why \<noteq> [])"
  by (cases rule: attach_cases [of i db read now])
     (use live_explains keyless_explains broken_explains in auto)

text \<open>Only the pool's own key is ever asked.\<close>

lemma asks_own_key:
  assumes "\<And>k. key_of i = Some k \<Longrightarrow> read k = read' k"
  shows "attach db read i now = attach db read' i now"
  by (cases rule: attach_cases [of i db read now]) (use assms in \<open>auto simp: no_key answered failed\<close>)

end

fun occupancy_explains :: "occupancy_result \<Rightarrow> pystr option" where
  "occupancy_explains (LiveOccupancy r a) = None"
| "occupancy_explains (OccupancyUnavailable why) = Some why"

fun temp_explains :: "temp_result \<Rightarrow> pystr option" where
  "temp_explains (LiveTemp r a) = None"
| "temp_explains (TempUnavailable why code) = Some why"

interpretation occupancy_source: live_source
  "\<lambda>i. if crowdmonitor_keys i = [] then None else Some (crowdmonitor_keys i)"
  oc_measured_at "read_occupancy repr" LiveOccupancy
  "OccupancyUnavailable (u ''no crowdmonitor key'')" "\<lambda>e. OccupancyUnavailable (describe repr e)"
  occupancy_explains
  for repr
  by unfold_locales (auto simp: read_occupancy_def describe_nonempty u_def split: if_splits)

interpretation temp_source: live_source
  baditicker_poiid tr_measured_at "read_temperature repr" LiveTemp
  "TempUnavailable (u ''no baditicker key'') NO_KEY" "\<lambda>e. TempUnavailable (describe repr e) PROVIDER_ERROR"
  temp_explains
  for repr
  by unfold_locales (auto simp: read_temperature_def describe_nonempty u_def)

end
