(* ===== verification/Query.thy ===== *)
theory Query
  imports Live Resolver Lane_Plan Catalog
begin

text \<open>
  \<open>src/swimzh/domain/query.py\<close>: the query surface. \<open>find_swim_options\<close> resolves every
  facility for the queried day into options, closed statuses and schedule-less statuses.
  The wall clock (\<open>now\<close>), the zone database and the occupancy port are arguments; the
  accumulators of the loop are the fields of a record, passed from facility to facility.
\<close>

section \<open>The query and its answer\<close>

record swim_query =
  sq_person :: person
  sq_at :: datetime
  sq_near :: "geo_point option"
  radius_km :: "real option"

record swim_option =
  so_facility_id :: pool_id
  so_facility_name :: pystr
  so_facility_kind :: pool_kind
  so_basin_id :: basin_id
  so_basin_name :: pystr
  so_basin_kind :: basin_kind
  so_basin_length_m :: "rat option"
  so_lanes :: "int option"
  so_water_temp_c :: "rat option"
  so_session :: resolved_session
  so_eligibility :: eligibility_result
  so_open_at_query_time :: bool
  so_price :: "price_entry option"
  so_distance_km :: "real option"
  so_provenance :: provenance
  so_live_occupancy :: "occupancy_result option"
  so_lane_availability :: "lane_availability option"
  so_lane_timeline :: "lane_availability_timeline_rec option"
  so_lane_day_view :: "lane_day_view_rec option"
  so_lane_best_public :: "public_window option"

datatype status_code = CLOSED_REASON | CODE_AWAITING_SCRAPE | CODE_NO_SOURCE | OPEN_UNSCHEDULED

record facility_status =
  fs_facility_id :: pool_id
  fs_facility_name :: pystr
  fs_status :: pystr
  fs_code :: status_code
  fs_closure :: "closure_code option"
  fs_params :: str_params
  fs_distance_km :: "real option"

record facility_notice =
  fn_facility_id :: pool_id
  fn_facility_name :: pystr
  fn_text :: pystr

record query_result =
  qr_options :: "swim_option list"
  qr_statuses :: "facility_status list"
  qr_warnings :: "pystr list"
  qr_notices :: "facility_notice list"

definition eligible_options :: "query_result \<Rightarrow> swim_option list" where
  "eligible_options r = filter (\<lambda>opt. er_allowed (so_eligibility opt)) (qr_options r)"

section \<open>Distances and sort keys\<close>

text \<open>A sort key distance: kilometres, or the \<open>inf\<close> that stands for an unknown position.\<close>

datatype sort_distance = Km real | Inf

fun sd_le :: "sort_distance \<Rightarrow> sort_distance \<Rightarrow> bool" where
  "sd_le (Km a) (Km b) = (a \<le> b)"
| "sd_le Inf (Km b) = False"
| "sd_le a Inf = True"

instantiation sort_distance :: linorder
begin

definition less_eq_sort_distance :: "sort_distance \<Rightarrow> sort_distance \<Rightarrow> bool" where
  "a \<le> b \<longleftrightarrow> sd_le a b"

definition less_sort_distance :: "sort_distance \<Rightarrow> sort_distance \<Rightarrow> bool" where
  "a < b \<longleftrightarrow> sd_le a b \<and> \<not> sd_le b a"

instance
proof
  fix x y z :: sort_distance
  show "x \<le> y \<Longrightarrow> y \<le> z \<Longrightarrow> x \<le> z"
    by (cases x; cases y; cases z) (auto simp: less_eq_sort_distance_def)
  show "x \<le> y \<Longrightarrow> y \<le> x \<Longrightarrow> x = y" "x \<le> y \<or> y \<le> x"
    by (cases x; cases y; auto simp: less_eq_sort_distance_def)+
  show "x \<le> x" by (cases x) (auto simp: less_eq_sort_distance_def)
  show "(x < y) = (x \<le> y \<and> \<not> y \<le> x)" by (simp add: less_eq_sort_distance_def less_sort_distance_def)
qed

end

fun sort_distance_of :: "real option \<Rightarrow> sort_distance" where
  "sort_distance_of (Some d) = Km d"
| "sort_distance_of None = Inf"

definition distance_km :: "swim_query \<Rightarrow> geo_point option \<Rightarrow> real option" where
  "distance_km q g = (case (sq_near q, g) of
     (Some a, Some b) \<Rightarrow> Some (haversine_km a b)
   | _ \<Rightarrow> None)"

definition option_order :: "swim_option \<Rightarrow> sort_distance \<times> time \<times> pystr" where
  "option_order opt = (sort_distance_of (so_distance_km opt), tr_start (rs_time (so_session opt)), so_facility_name opt)"

definition status_order :: "facility_status \<Rightarrow> sort_distance \<times> pystr" where
  "status_order s = (sort_distance_of (fs_distance_km s), fs_facility_name s)"

fun price_of :: "admission \<Rightarrow> int option \<Rightarrow> price_entry option" where
  "price_of (Tariff table) a = price_for table a"
| "price_of Free a = None"
| "price_of Unknown a = None"

section \<open>Seasonal statuses\<close>

definition season_params :: "annual_window \<Rightarrow> weather \<Rightarrow> str_params" where
  "season_params w wx =
     [(u ''weather'', weather_value wx),
      (u ''season_start_month'', str_of_int (md_month (aw_start w))),
      (u ''season_end_month'', str_of_int (md_month (aw_end w))),
      (u ''season_precision'', date_precision_value (aw_precision w))] @
     (if aw_precision w = PRECISION_DAY
      then [(u ''season_start_day'', str_of_int (md_day (aw_start w))),
            (u ''season_end_day'', str_of_int (md_day (aw_end w)))]
      else [])"

fun seasonal_status ::
  "facility \<Rightarrow> operating_season_rec \<Rightarrow> day_schedule \<Rightarrow> real option \<Rightarrow> py_error + facility_status" where
  "seasonal_status fac season (OpenUnscheduledDay wx) distance =
     Inr \<lparr>fs_facility_id = facility_id (identity fac), fs_facility_name = pid_name (identity fac),
          fs_status = u ''open_unscheduled'', fs_code = OPEN_UNSCHEDULED, fs_closure = None,
          fs_params = season_params (os_window season) wx, fs_distance_km = distance\<rparr>"
| "seasonal_status fac season (ClosedDay code params) distance =
     Inr \<lparr>fs_facility_id = facility_id (identity fac), fs_facility_name = pid_name (identity fac),
          fs_status = u ''closed'', fs_code = CLOSED_REASON, fs_closure = Some code,
          fs_params = params, fs_distance_km = distance\<rparr>"
| "seasonal_status fac season (OpenDay ss uv) distance = Inl AssertionError"

definition seasonal_status_for ::
  "facility \<Rightarrow> date \<Rightarrow> zurich_calendar \<Rightarrow> real option \<Rightarrow> py_error + facility_status option" where
  "seasonal_status_for fac d cal distance =
     (case operating_season fac of
        None \<Rightarrow> Inr None
      | Some season \<Rightarrow>
          if \<exists>b \<in> set (basins fac). bn_rules b \<noteq> [] then Inr None
          else case seasonal_status fac season (resolve_hours fac [] [] d cal) distance of
            Inl e \<Rightarrow> Inl e
          | Inr s \<Rightarrow> Inr (Some s))"

section \<open>One session\<close>

definition session_option ::
  "facility \<Rightarrow> basin \<Rightarrow> resolved_session \<Rightarrow> date \<Rightarrow> time \<Rightarrow> price_entry option \<Rightarrow> real option \<Rightarrow>
   occupancy_result option \<Rightarrow> person \<Rightarrow> swim_option" where
  "session_option fac b session d now_time price distance live_reading p =
     (let wd = weekday_of d;
          t = (if tr_contains (rs_time session) now_time then now_time else tr_start (rs_time session));
          plan = (case lane_plan_of b of Some (Parsed plan) \<Rightarrow> Some plan | _ \<Rightarrow> None)
      in \<lparr>so_facility_id = facility_id (identity fac),
          so_facility_name = pid_name (identity fac),
          so_facility_kind = pid_kind (identity fac),
          so_basin_id = bn_id b,
          so_basin_name = bn_name b,
          so_basin_kind = bn_kind b,
          so_basin_length_m = map_option length_m (bn_dimensions b),
          so_lanes = bn_lanes b,
          so_water_temp_c = nominal_temp_c b,
          so_session = session,
          so_eligibility = eligibility p (rs_access session),
          so_open_at_query_time = tr_contains (rs_time session) now_time,
          so_price = price,
          so_distance_km = distance,
          so_provenance = provenance_of fac,
          so_live_occupancy = live_reading,
          so_lane_availability = map_option (\<lambda>plan. lane_availability_at plan wd t) plan,
          so_lane_timeline = map_option (\<lambda>plan. lane_availability_timeline plan wd (rs_time session)) plan,
          so_lane_day_view = map_option (\<lambda>plan. lane_day_view plan wd) plan,
          so_lane_best_public =
            (case plan of Some plan \<Rightarrow> best_public_time plan wd (Some (rs_time session)) | None \<Rightarrow> None)\<rparr>)"

section \<open>The loop over facilities\<close>

record scan =
  sc_options :: "swim_option list"
  sc_statuses :: "facility_status list"
  sc_notices :: "facility_notice list"
  sc_unverified :: "pystr set"

text \<open>The moment of a query: its local date and time, the aware moment, and the wall clock.\<close>

record moment =
  mo_day :: date
  mo_now_time :: time
  want_occupancy :: bool

definition NOW_TOLERANCE :: int where
  "NOW_TOLERANCE = minutes 30"

definition at_local :: "tzdb \<Rightarrow> datetime \<Rightarrow> datetime" where
  "at_local db query_at = (if dt_tz query_at \<noteq> None then astimezone_zurich db query_at else query_at)"

definition moment_of :: "tzdb \<Rightarrow> datetime \<Rightarrow> datetime \<Rightarrow> moment" where
  "moment_of db now query_at =
     (let local = at_local db query_at;
          aware = (if dt_tz local \<noteq> None then local else local\<lparr>dt_tz := Some Zurich\<rparr>)
      in \<lparr>mo_day = dt_date local, mo_now_time = dt_time local,
          want_occupancy = (\<bar>dt_sub db aware now\<bar> \<le> NOW_TOLERANCE)\<rparr>)"

text \<open>The accumulators of the basin loop of one facility.\<close>

record basin_scan =
  bs_options :: "swim_option list"
  bs_unverified :: bool
  bs_closed :: "(closure_code \<times> str_params) option"
  bs_produced :: bool

definition basin_step ::
  "facility \<Rightarrow> moment \<Rightarrow> zurich_calendar \<Rightarrow> price_entry option \<Rightarrow> real option \<Rightarrow> occupancy_result option \<Rightarrow>
   person \<Rightarrow> basin \<Rightarrow> basin_scan \<Rightarrow> basin_scan" where
  "basin_step fac m cal price distance live_reading p b s =
     (if bn_rules b = [] then s
      else case resolve_basin fac b (mo_day m) cal of
        ClosedDay code params \<Rightarrow> s\<lparr>bs_closed := Some (code, params)\<rparr>
      | OpenDay sessions unverified \<Rightarrow>
          s\<lparr>bs_unverified := (bs_unverified s \<or> unverified),
            bs_produced := (bs_produced s \<or> sessions \<noteq> []),
            bs_options := bs_options s @
              map (\<lambda>session. session_option fac b session (mo_day m) (mo_now_time m) price distance
                live_reading p) sessions\<rparr>
      | OpenUnscheduledDay wx \<Rightarrow> s)"

definition scan_basins ::
  "facility \<Rightarrow> moment \<Rightarrow> zurich_calendar \<Rightarrow> price_entry option \<Rightarrow> real option \<Rightarrow> occupancy_result option \<Rightarrow>
   person \<Rightarrow> basin_scan" where
  "scan_basins fac m cal price distance live_reading p =
     fold (basin_step fac m cal price distance live_reading p) (basins fac)
       \<lparr>bs_options = [], bs_unverified = False, bs_closed = None, bs_produced = False\<rparr>"

definition closed_status :: "facility \<Rightarrow> closure_code \<times> str_params \<Rightarrow> real option \<Rightarrow> facility_status" where
  "closed_status fac c distance =
     \<lparr>fs_facility_id = facility_id (identity fac), fs_facility_name = pid_name (identity fac),
      fs_status = u ''closed'', fs_code = CLOSED_REASON, fs_closure = Some (fst c), fs_params = snd c,
      fs_distance_km = distance\<rparr>"

definition out_of_radius :: "swim_query \<Rightarrow> real option \<Rightarrow> bool" where
  "out_of_radius q distance =
     (case (radius_km q, distance) of (Some r, Some d) \<Rightarrow> d > r | _ \<Rightarrow> False)"

definition active_notices :: "facility \<Rightarrow> date \<Rightarrow> facility_notice list" where
  "active_notices fac d =
     map (\<lambda>n. \<lparr>fn_facility_id = facility_id (identity fac), fn_facility_name = pid_name (identity fac),
               fn_text = no_text n\<rparr>)
       (filter (\<lambda>n. active_on n d) (notices fac))"

definition facility_step ::
  "swim_query \<Rightarrow> moment \<Rightarrow> zurich_calendar \<Rightarrow> (pool_identity \<Rightarrow> occupancy_result) option \<Rightarrow> facility \<Rightarrow>
   scan \<Rightarrow> py_error + scan" where
  "facility_step q m cal occ fac s =
     (let distance = distance_km q (geo fac)
      in if out_of_radius q distance then Inr s
         else
           let price = price_of (admission_of fac) (age (sq_person q));
               live_reading = (case occ of
                   Some read \<Rightarrow> if want_occupancy m then Some (read (identity fac)) else None
                 | None \<Rightarrow> None);
               bs = scan_basins fac m cal price distance live_reading (sq_person q)
           in case seasonal_status_for fac (mo_day m) cal distance of
                Inl e \<Rightarrow> Inl e
              | Inr seasonal \<Rightarrow>
                  Inr (s\<lparr>sc_options := sc_options s @ bs_options bs,
                         sc_statuses := sc_statuses s
                           @ (case seasonal of Some st \<Rightarrow> [st] | None \<Rightarrow> [])
                           @ (case bs_closed bs of
                                Some c \<Rightarrow> if bs_produced bs then [] else [closed_status fac c distance]
                              | None \<Rightarrow> []),
                         sc_notices := sc_notices s @ active_notices fac (mo_day m),
                         sc_unverified := (if bs_unverified bs then insert (pid_name (identity fac)) (sc_unverified s)
                                           else sc_unverified s)\<rparr>))"

fun scan_facilities ::
  "swim_query \<Rightarrow> moment \<Rightarrow> zurich_calendar \<Rightarrow> (pool_identity \<Rightarrow> occupancy_result) option \<Rightarrow> facility list \<Rightarrow>
   scan \<Rightarrow> py_error + scan" where
  "scan_facilities q m cal occ [] s = Inr s"
| "scan_facilities q m cal occ (fac # facs) s =
     (case facility_step q m cal occ fac s of
        Inl e \<Rightarrow> Inl e
      | Inr s' \<Rightarrow> scan_facilities q m cal occ facs s')"

section \<open>Schedule-less pools\<close>

fun FRESHNESS_STATUS_CODE :: "schedule_freshness \<Rightarrow> py_error + status_code" where
  "FRESHNESS_STATUS_CODE AWAITING_SCRAPE = Inr CODE_AWAITING_SCRAPE"
| "FRESHNESS_STATUS_CODE NO_SOURCE = Inr CODE_NO_SOURCE"
| "FRESHNESS_STATUS_CODE SCRAPED = Inl KeyError"

definition scheduled_ids :: "facility list \<Rightarrow> pystr set" where
  "scheduled_ids facs = {facility_id (identity f) | f. f \<in> set facs \<and>
     ((\<exists>b \<in> set (basins f). bn_rules b \<noteq> []) \<or> operating_season f \<noteq> None)}"

definition roster_status :: "swim_query \<Rightarrow> roster_entry \<Rightarrow> py_error + facility_status" where
  "roster_status q row =
     (case FRESHNESS_STATUS_CODE (re_freshness row) of
        Inl e \<Rightarrow> Inl e
      | Inr code \<Rightarrow>
          Inr \<lparr>fs_facility_id = reconstruct_pool_id (pce_pool_id (re_entry row)),
               fs_facility_name = pce_name (re_entry row),
               fs_status = freshness_value (re_freshness row),
               fs_code = code, fs_closure = None, fs_params = [],
               fs_distance_km = distance_km q (pce_geo (re_entry row))\<rparr>)"

fun collect :: "('a \<Rightarrow> py_error + 'b) \<Rightarrow> 'a list \<Rightarrow> py_error + 'b list" where
  "collect f [] = Inr []"
| "collect f (x # xs) = (case f x of Inl e \<Rightarrow> Inl e | Inr y \<Rightarrow>
     (case collect f xs of Inl e \<Rightarrow> Inl e | Inr ys \<Rightarrow> Inr (y # ys)))"

definition schedule_less :: "facility list \<Rightarrow> roster_entry \<Rightarrow> bool" where
  "schedule_less facs row \<longleftrightarrow> pce_pool_id (re_entry row) \<notin> scheduled_ids facs \<and> re_freshness row \<noteq> SCRAPED"

definition schedule_less_statuses ::
  "swim_query \<Rightarrow> facility list \<Rightarrow> roster_entry list \<Rightarrow> py_error + facility_status list" where
  "schedule_less_statuses q facs roster = collect (roster_status q) (filter (schedule_less facs) roster)"

section \<open>The answer\<close>

definition isoformat_date :: "date \<Rightarrow> pystr" where
  "isoformat_date d = zero_pad 4 (str_of_int (year d)) @ u ''-'' @ zero_pad 2 (str_of_int (month d)) @
     u ''-'' @ zero_pad 2 (str_of_int (day d))"

definition calendar_warning :: "date \<Rightarrow> pystr" where
  "calendar_warning d = u ''calendar data not available for '' @ str_of_int (year d) @
     u ''; holiday-dependent schedules may be inaccurate''"

definition holiday_warning :: "date \<Rightarrow> pystr set \<Rightarrow> pystr" where
  "holiday_warning d names = isoformat_date d @
     u '' is a public holiday and these pools do not publish their '' @
     u ''holiday hours; the times shown are their usual weekday hours and are '' @
     u ''unconfirmed: '' @ py_join (u '', '') (sorted_list_of_set names)"

definition find_swim_options_at ::
  "swim_query \<Rightarrow> moment \<Rightarrow> facility list \<Rightarrow> zurich_calendar \<Rightarrow> roster_entry list \<Rightarrow>
   (pool_identity \<Rightarrow> occupancy_result) option \<Rightarrow> py_error + query_result" where
  "find_swim_options_at q m facs cal roster occ =
     (let warnings = (if covers cal (mo_day m) then [] else [calendar_warning (mo_day m)])
      in case scan_facilities q m cal occ facs
             \<lparr>sc_options = [], sc_statuses = [], sc_notices = [], sc_unverified = {}\<rparr> of
           Inl e \<Rightarrow> Inl e
         | Inr s \<Rightarrow>
             case schedule_less_statuses q facs roster of
               Inl e \<Rightarrow> Inl e
             | Inr missing \<Rightarrow>
                 Inr \<lparr>qr_options = sort_key option_order (sc_options s),
                      qr_statuses = sort_key status_order (sc_statuses s @ missing),
                      qr_warnings = warnings @ (if sc_unverified s \<noteq> {}
                        then [holiday_warning (mo_day m) (sc_unverified s)] else []),
                      qr_notices = sc_notices s\<rparr>)"

definition find_swim_options ::
  "(json \<Rightarrow> pystr) \<Rightarrow> tzdb \<Rightarrow> datetime \<Rightarrow> swim_query \<Rightarrow> facility list \<Rightarrow> zurich_calendar \<Rightarrow>
   roster_entry list \<Rightarrow> (pystr list \<Rightarrow> (occupancy, provider_error) result) option \<Rightarrow>
   py_error + query_result" where
  "find_swim_options repr db now q facs cal roster occupancy_port =
     find_swim_options_at q (moment_of db now (sq_at q)) facs cal roster
       (map_option (\<lambda>read ident. read_occupancy repr db read ident now) occupancy_port)"

section \<open>Facility detail\<close>

record feature_status =
  fst_feature :: feature
  fst_schedule :: "day_schedule option"
  fst_open_at_query_time :: "bool option"

record basin_lane_panel =
  blp_basin_id :: basin_id
  blp_basin_name :: pystr
  blp_panel :: lane_panel_rec

record facility_detail_rec =
  fd_facility_id :: pool_id
  fd_facility_name :: pystr
  fd_address :: pystr
  fd_basins :: "basin list"
  fd_features :: "feature_status list"
  fd_lockers :: "locker_option list"
  fd_rentals :: "rental_item list"
  fd_provenance :: provenance
  fd_lane_panels :: "basin_lane_panel list"
  fd_last_admission_before :: "int option"

definition feature_status_of :: "facility \<Rightarrow> feature \<Rightarrow> datetime \<Rightarrow> zurich_calendar \<Rightarrow> feature_status" where
  "feature_status_of fac f local cal =
     (if ft_hours f = []
      then \<lparr>fst_feature = f, fst_schedule = None, fst_open_at_query_time = None\<rparr>
      else
        let schedule = resolve_hours fac (ft_hours f) [] (dt_date local) cal;
            open_now = (case schedule of
                OpenDay sessions uv \<Rightarrow> Some (\<exists>s \<in> set sessions. tr_contains (rs_time s) (dt_time local))
              | ClosedDay code params \<Rightarrow> Some False
              | OpenUnscheduledDay wx \<Rightarrow> None)
        in \<lparr>fst_feature = f, fst_schedule = Some schedule, fst_open_at_query_time = open_now\<rparr>)"

definition panels_of :: "basin list \<Rightarrow> weekday \<Rightarrow> basin_lane_panel list" where
  "panels_of bs wd = concat (map (\<lambda>b. case lane_plan_of b of
       Some (Parsed plan) \<Rightarrow>
         [\<lparr>blp_basin_id = bn_id b, blp_basin_name = bn_name b, blp_panel = lane_panel plan wd\<rparr>]
     | _ \<Rightarrow> []) bs)"

definition facility_detail :: "tzdb \<Rightarrow> facility \<Rightarrow> datetime \<Rightarrow> zurich_calendar \<Rightarrow> facility_detail_rec" where
  "facility_detail db fac query_at cal =
     (let local = at_local db query_at;
          wd = weekday_of (dt_date local)
      in \<lparr>fd_facility_id = facility_id (identity fac), fd_facility_name = pid_name (identity fac),
          fd_address = address fac, fd_basins = basins fac,
          fd_features = map (\<lambda>f. feature_status_of fac f local cal) (features fac),
          fd_lockers = lockers fac, fd_rentals = rentals fac, fd_provenance = provenance_of fac,
          fd_lane_panels = panels_of (basins fac) wd,
          fd_last_admission_before = last_admission_before fac\<rparr>)"

end
