(* ===== verification/Query_Facts.thy ===== *)
theory Query_Facts
  imports Query
begin

text \<open>
  Closed forms of the query loops: what the basin loop and the facility loop have
  accumulated at their end, and that neither can raise.
\<close>

section \<open>The basin loop\<close>

text \<open>A basin takes part when it has rules; its day is the resolver's.\<close>

definition basin_days :: "facility \<Rightarrow> date \<Rightarrow> zurich_calendar \<Rightarrow> (basin \<times> day_schedule) list" where
  "basin_days fac d cal = map (\<lambda>b. (b, resolve_basin fac b d cal)) (filter (\<lambda>b. bn_rules b \<noteq> []) (basins fac))"

fun day_sessions :: "day_schedule \<Rightarrow> resolved_session list" where
  "day_sessions (OpenDay ss uv) = ss"
| "day_sessions (OpenUnscheduledDay wx) = []"
| "day_sessions (ClosedDay code params) = []"

fun day_closed :: "day_schedule \<Rightarrow> (closure_code \<times> str_params) option" where
  "day_closed (ClosedDay code params) = Some (code, params)"
| "day_closed (OpenDay ss uv) = None"
| "day_closed (OpenUnscheduledDay wx) = None"

fun day_unverified :: "day_schedule \<Rightarrow> bool" where
  "day_unverified (OpenDay ss uv) = uv"
| "day_unverified (OpenUnscheduledDay wx) = False"
| "day_unverified (ClosedDay code params) = False"

fun last_some :: "'a option list \<Rightarrow> 'a option" where
  "last_some [] = None"
| "last_some (x # xs) = (case last_some xs of Some y \<Rightarrow> Some y | None \<Rightarrow> x)"

lemma last_some_None: "last_some xs = None \<longleftrightarrow> (\<forall>x \<in> set xs. x = None)"
  by (induction xs) (auto split: option.splits)

lemma last_some_mem: "last_some xs = Some x \<Longrightarrow> Some x \<in> set xs"
  by (induction xs) (auto split: option.splits)


definition day_options ::
  "facility \<Rightarrow> moment \<Rightarrow> price_entry option \<Rightarrow> real option \<Rightarrow> occupancy_result option \<Rightarrow> person \<Rightarrow>
   basin \<times> day_schedule \<Rightarrow> swim_option list" where
  "day_options fac m price distance live_reading p bd =
     map (\<lambda>session. session_option fac (fst bd) session (mo_day m) (mo_now_time m) price distance live_reading p)
       (day_sessions (snd bd))"

lemma scan_basins_fold:
  "fold (basin_step fac m cal price distance live_reading p) bs s =
     (let bds = map (\<lambda>b. (b, resolve_basin fac b (mo_day m) cal)) (filter (\<lambda>b. bn_rules b \<noteq> []) bs)
      in \<lparr>bs_options = bs_options s @ concat (map (day_options fac m price distance live_reading p) bds),
          bs_unverified = (bs_unverified s \<or> (\<exists>bd \<in> set bds. day_unverified (snd bd))),
          bs_closed = (case last_some (map (day_closed \<circ> snd) bds) of Some c \<Rightarrow> Some c | None \<Rightarrow> bs_closed s),
          bs_produced = (bs_produced s \<or> (\<exists>bd \<in> set bds. day_sessions (snd bd) \<noteq> []))\<rparr>)"
proof (induction bs arbitrary: s)
  case Nil
  then show ?case by simp
next
  case (Cons b bs)
  let ?step = "basin_step fac m cal price distance live_reading p"
  show ?case
  proof (cases "bn_rules b = []")
    case True
    then have "?step b s = s" by (simp add: basin_step_def)
    with True show ?thesis unfolding fold_simps Cons.IH by (simp add: Let_def comp_def split: option.splits)
  next
    case False
    then show ?thesis unfolding fold_simps Cons.IH
      by (cases "resolve_basin fac b (mo_day m) cal")
         (simp_all add: basin_step_def Let_def day_options_def disj_assoc comp_def split: option.splits)
  qed
qed

lemma scan_basins_eq:
  "scan_basins fac m cal price distance live_reading p =
     (let bds = basin_days fac (mo_day m) cal
      in \<lparr>bs_options = concat (map (day_options fac m price distance live_reading p) bds),
          bs_unverified = (\<exists>bd \<in> set bds. day_unverified (snd bd)),
          bs_closed = last_some (map (day_closed \<circ> snd) bds),
          bs_produced = (\<exists>bd \<in> set bds. day_sessions (snd bd) \<noteq> [])\<rparr>)"
  by (simp add: scan_basins_def scan_basins_fold basin_days_def Let_def split: option.splits)

section \<open>The seasonal status\<close>

definition has_scheduled_basin :: "facility \<Rightarrow> bool" where
  "has_scheduled_basin fac \<longleftrightarrow> (\<exists>b \<in> set (basins fac). bn_rules b \<noteq> [])"

lemma ruleless_resolution:
  assumes "operating_season fac = Some season"
  shows "(\<exists>code params. resolve_hours fac [] [] d cal = ClosedDay code params) \<or>
         (resolve_hours fac [] [] d cal = OpenUnscheduledDay (os_weather season) \<and>
          aw_contains (os_window season) d)"
  using assms by (auto simp: resolve_hours_def find_exception_def split: option.splits)

lemma seasonal_status_for_total: "\<exists>st. seasonal_status_for fac d cal distance = Inr st"
proof (cases "operating_season fac")
  case (Some season)
  from ruleless_resolution [OF this, of d cal] show ?thesis
    by (auto simp: seasonal_status_for_def Some)
qed (simp add: seasonal_status_for_def)

lemma seasonal_status_for_None_iff:
  "seasonal_status_for fac d cal distance = Inr None \<longleftrightarrow> operating_season fac = None \<or> has_scheduled_basin fac"
proof (cases "operating_season fac")
  case (Some season)
  from ruleless_resolution [OF this, of d cal] show ?thesis
    by (auto simp: seasonal_status_for_def has_scheduled_basin_def Some split: sum.splits)
qed (simp add: seasonal_status_for_def)

lemma seasonal_status_for_fields:
  assumes "seasonal_status_for fac d cal distance = Inr (Some st)"
  shows "fs_facility_id st = facility_id (identity fac)" "fs_facility_name st = pid_name (identity fac)"
    "fs_distance_km st = distance" "fs_status st \<in> {u ''open_unscheduled'', u ''closed''}"
    "operating_season fac \<noteq> None" "\<not> has_scheduled_basin fac"
proof -
  from assms obtain season where season: "operating_season fac = Some season"
    and none: "\<not> has_scheduled_basin fac"
    and st: "seasonal_status fac season (resolve_hours fac [] [] d cal) distance = Inr st"
    by (auto simp: seasonal_status_for_def has_scheduled_basin_def split: option.splits if_splits sum.splits)
  from st ruleless_resolution [OF season, of d cal]
  show "fs_facility_id st = facility_id (identity fac)" "fs_facility_name st = pid_name (identity fac)"
    "fs_distance_km st = distance" "fs_status st \<in> {u ''open_unscheduled'', u ''closed''}"
    by auto
  show "operating_season fac \<noteq> None" "\<not> has_scheduled_basin fac" using season none by auto
qed

section \<open>The facility loop\<close>

definition fac_distance :: "swim_query \<Rightarrow> facility \<Rightarrow> real option" where
  "fac_distance q fac = distance_km q (geo fac)"

definition in_radius :: "swim_query \<Rightarrow> facility \<Rightarrow> bool" where
  "in_radius q fac \<longleftrightarrow> \<not> out_of_radius q (fac_distance q fac)"

definition live_of :: "moment \<Rightarrow> (pool_identity \<Rightarrow> occupancy_result) option \<Rightarrow> facility \<Rightarrow> occupancy_result option" where
  "live_of m occ fac =
     (case occ of Some read \<Rightarrow> if want_occupancy m then Some (read (identity fac)) else None | None \<Rightarrow> None)"

definition facility_options ::
  "swim_query \<Rightarrow> moment \<Rightarrow> zurich_calendar \<Rightarrow> (pool_identity \<Rightarrow> occupancy_result) option \<Rightarrow> facility \<Rightarrow>
   swim_option list" where
  "facility_options q m cal occ fac =
     concat (map (day_options fac m (price_of (admission_of fac) (age (sq_person q))) (fac_distance q fac)
       (live_of m occ fac) (sq_person q)) (basin_days fac (mo_day m) cal))"

text \<open>The status of a facility that has rules on the day: closed unless some session came out.\<close>

definition closed_of :: "facility \<Rightarrow> date \<Rightarrow> zurich_calendar \<Rightarrow> (closure_code \<times> str_params) option" where
  "closed_of fac d cal =
     (if \<exists>bd \<in> set (basin_days fac d cal). day_sessions (snd bd) \<noteq> [] then None
      else last_some (map (day_closed \<circ> snd) (basin_days fac d cal)))"

definition facility_statuses :: "swim_query \<Rightarrow> date \<Rightarrow> zurich_calendar \<Rightarrow> facility \<Rightarrow> facility_status list" where
  "facility_statuses q d cal fac =
     (case seasonal_status_for fac d cal (fac_distance q fac) of Inr (Some st) \<Rightarrow> [st] | _ \<Rightarrow> []) @
     (case closed_of fac d cal of Some c \<Rightarrow> [closed_status fac c (fac_distance q fac)] | None \<Rightarrow> [])"

definition unverified_names :: "date \<Rightarrow> zurich_calendar \<Rightarrow> facility list \<Rightarrow> pystr set" where
  "unverified_names d cal facs = {pid_name (identity fac) | fac. fac \<in> set facs \<and>
     (\<exists>bd \<in> set (basin_days fac d cal). day_unverified (snd bd))}"

lemma facility_step_in:
  assumes "in_radius q fac"
  shows "facility_step q m cal occ fac s =
    Inr (s\<lparr>sc_options := sc_options s @ facility_options q m cal occ fac,
           sc_statuses := sc_statuses s @ facility_statuses q (mo_day m) cal fac,
           sc_notices := sc_notices s @ active_notices fac (mo_day m),
           sc_unverified := unverified_names (mo_day m) cal [fac] \<union> sc_unverified s\<rparr>)"
proof -
  obtain st where st: "seasonal_status_for fac (mo_day m) cal (fac_distance q fac) = Inr st"
    using seasonal_status_for_total by blast
  have *: "\<not> out_of_radius q (distance_km q (geo fac))"
    using assms by (simp add: in_radius_def fac_distance_def)
  show ?thesis
    unfolding facility_step_def Let_def scan_basins_eq
    using st by (auto simp: * fac_distance_def facility_options_def facility_statuses_def closed_of_def
        live_of_def unverified_names_def split: option.splits)
qed

lemma facility_step_out: "\<not> in_radius q fac \<Longrightarrow> facility_step q m cal occ fac s = Inr s"
  by (simp add: facility_step_def in_radius_def fac_distance_def)

lemma unverified_names_Cons:
  "unverified_names d cal (fac # facs) = unverified_names d cal [fac] \<union> unverified_names d cal facs"
  by (auto simp: unverified_names_def)

lemma scan_facilities_eq:
  "scan_facilities q m cal occ facs s =
     (let ins = filter (in_radius q) facs
      in Inr (s\<lparr>sc_options := sc_options s @ concat (map (facility_options q m cal occ) ins),
           sc_statuses := sc_statuses s @ concat (map (facility_statuses q (mo_day m) cal) ins),
           sc_notices := sc_notices s @ concat (map (\<lambda>fac. active_notices fac (mo_day m)) ins),
           sc_unverified := unverified_names (mo_day m) cal ins \<union> sc_unverified s\<rparr>))"
proof (induction facs arbitrary: s)
  case Nil
  then show ?case by (simp add: unverified_names_def)
next
  case (Cons fac facs)
  show ?case
  proof (cases "in_radius q fac")
    case True
    then show ?thesis
      by (simp add: facility_step_in Cons.IH Let_def unverified_names_Cons [of _ _ fac "filter _ _"] Un_ac)
  next
    case False
    then show ?thesis by (simp add: facility_step_out Cons.IH)
  qed
qed

section \<open>The schedule-less statuses\<close>

fun row_status :: "swim_query \<Rightarrow> roster_entry \<Rightarrow> facility_status" where
  "row_status q row =
     \<lparr>fs_facility_id = pce_pool_id (re_entry row), fs_facility_name = pce_name (re_entry row),
      fs_status = freshness_value (re_freshness row),
      fs_code = (if re_freshness row = AWAITING_SCRAPE then CODE_AWAITING_SCRAPE else CODE_NO_SOURCE),
      fs_closure = None, fs_params = [], fs_distance_km = distance_km q (pce_geo (re_entry row))\<rparr>"

lemma roster_status_ok: "re_freshness row \<noteq> SCRAPED \<Longrightarrow> roster_status q row = Inr (row_status q row)"
  by (cases "re_freshness row") (auto simp: roster_status_def reconstruct_pool_id_def)

lemma collect_all: "\<forall>x \<in> set xs. f x = Inr (g x) \<Longrightarrow> collect f xs = Inr (map g xs)"
  by (induction xs) auto

lemma schedule_less_statuses_eq:
  "schedule_less_statuses q facs roster = Inr (map (row_status q) (filter (schedule_less facs) roster))"
  unfolding schedule_less_statuses_def
  by (rule collect_all) (auto simp: schedule_less_def roster_status_ok)

section \<open>The answer\<close>

lemma find_swim_options_at_eq:
  "find_swim_options_at q m facs cal roster occ =
     (let ins = filter (in_radius q) facs; d = mo_day m; names = unverified_names d cal ins
      in Inr \<lparr>qr_options = sort_key option_order (concat (map (facility_options q m cal occ) ins)),
           qr_statuses = sort_key status_order (concat (map (facility_statuses q d cal) ins) @
              map (row_status q) (filter (schedule_less facs) roster)),
           qr_warnings = (if covers cal d then [] else [calendar_warning d]) @
              (if names \<noteq> {} then [holiday_warning d names] else []),
           qr_notices = concat (map (\<lambda>fac. active_notices fac d) ins)\<rparr>)"
  unfolding find_swim_options_at_def scan_facilities_eq schedule_less_statuses_eq
  by (simp add: Let_def)

lemma find_swim_options_eq:
  "find_swim_options repr db now q facs cal roster port =
     find_swim_options_at q (moment_of db now (sq_at q)) facs cal roster
       (map_option (\<lambda>read ident. read_occupancy repr db read ident now) port)"
  by (simp add: find_swim_options_def)

lemma facility_options_iff:
  "opt \<in> set (facility_options q m cal occ fac) \<longleftrightarrow>
     (\<exists>b \<in> set (basins fac). bn_rules b \<noteq> [] \<and>
        (\<exists>ss uv session. resolve_basin fac b (mo_day m) cal = OpenDay ss uv \<and> session \<in> set ss \<and>
           opt = session_option fac b session (mo_day m) (mo_now_time m)
             (price_of (admission_of fac) (age (sq_person q))) (fac_distance q fac) (live_of m occ fac) (sq_person q)))"
  (is "_ \<longleftrightarrow> ?rhs")
proof
  assume "opt \<in> set (facility_options q m cal occ fac)"
  then obtain b session where "b \<in> set (basins fac)" "bn_rules b \<noteq> []"
    and s: "session \<in> set (day_sessions (resolve_basin fac b (mo_day m) cal))"
    and "opt = session_option fac b session (mo_day m) (mo_now_time m)
         (price_of (admission_of fac) (age (sq_person q))) (fac_distance q fac) (live_of m occ fac) (sq_person q)"
    by (auto simp: facility_options_def basin_days_def day_options_def)
  moreover from s obtain ss uv where "resolve_basin fac b (mo_day m) cal = OpenDay ss uv" "session \<in> set ss"
    by (cases "resolve_basin fac b (mo_day m) cal") auto
  ultimately show ?rhs by blast
next
  assume ?rhs
  then show "opt \<in> set (facility_options q m cal occ fac)"
    by (fastforce simp: facility_options_def basin_days_def day_options_def)
qed

lemma facility_options_fields:
  assumes "opt \<in> set (facility_options q m cal occ fac)"
  shows "so_facility_id opt = facility_id (identity fac)" "so_distance_km opt = fac_distance q fac"
    "so_live_occupancy opt = live_of m occ fac" "has_scheduled_basin fac"
  using assms by (auto simp: facility_options_iff session_option_def Let_def has_scheduled_basin_def)

lemma facility_options_Nil_iff:
  "facility_options q m cal occ fac = [] \<longleftrightarrow>
     (\<forall>bd \<in> set (basin_days fac (mo_day m) cal). day_sessions (snd bd) = [])"
  by (simp add: facility_options_def day_options_def)

section \<open>One bucket per pool\<close>

lemma closed_of_scheduled: "closed_of fac d cal = Some c \<Longrightarrow> has_scheduled_basin fac"
  by (auto simp: closed_of_def basin_days_def has_scheduled_basin_def split: if_splits dest!: last_some_mem)

lemma facility_statuses_cases:
  obtains (none) "facility_statuses q d cal fac = []"
  | (one) st where "facility_statuses q d cal fac = [st]" "fs_facility_id st = facility_id (identity fac)"
      "fs_distance_km st = fac_distance q fac" "fs_status st \<in> {u ''open_unscheduled'', u ''closed''}"
      "has_scheduled_basin fac \<or> operating_season fac \<noteq> None"
proof (cases "closed_of fac d cal")
  case None
  obtain st where st: "seasonal_status_for fac d cal (fac_distance q fac) = Inr st"
    using seasonal_status_for_total by blast
  show ?thesis
  proof (cases st)
    case None
    with \<open>closed_of fac d cal = None\<close> st show ?thesis by (intro none) (simp add: facility_statuses_def)
  next
    case (Some s)
    with st have "seasonal_status_for fac d cal (fac_distance q fac) = Inr (Some s)" by simp
    from seasonal_status_for_fields [OF this] show ?thesis
      using \<open>closed_of fac d cal = None\<close> st Some by (intro one [of s]) (simp_all add: facility_statuses_def)
  qed
next
  case (Some c)
  then have sched: "has_scheduled_basin fac" by (rule closed_of_scheduled)
  then have "seasonal_status_for fac d cal (fac_distance q fac) = Inr None"
    by (simp add: seasonal_status_for_None_iff)
  with Some sched show ?thesis
    by (intro one [of "closed_status fac c (fac_distance q fac)"])
       (simp_all add: facility_statuses_def closed_status_def)
qed

lemma facility_options_or_closed:
  "facility_options q m cal occ fac \<noteq> [] \<Longrightarrow> facility_statuses q (mo_day m) cal fac = []"
proof -
  assume ne: "facility_options q m cal occ fac \<noteq> []"
  then obtain opt where "opt \<in> set (facility_options q m cal occ fac)" by fastforce
  then have "has_scheduled_basin fac" by (rule facility_options_fields)
  then have "seasonal_status_for fac (mo_day m) cal (fac_distance q fac) = Inr None"
    by (simp add: seasonal_status_for_None_iff)
  moreover have "closed_of fac (mo_day m) cal = None"
    using ne by (simp add: facility_options_Nil_iff closed_of_def)
  ultimately show ?thesis by (simp add: facility_statuses_def)
qed

lemma scheduled_ids_iff:
  "distinct (map (facility_id \<circ> identity) facs) \<Longrightarrow> fac \<in> set facs \<Longrightarrow>
   facility_id (identity fac) \<in> scheduled_ids facs \<longleftrightarrow> has_scheduled_basin fac \<or> operating_season fac \<noteq> None"
proof -
  assume dist: "distinct (map (facility_id \<circ> identity) facs)" and mem: "fac \<in> set facs"
  from dist have inj: "inj_on (facility_id \<circ> identity) (set facs)" by (simp add: distinct_map)
  have same: "f = fac" if "f \<in> set facs" "facility_id (identity f) = facility_id (identity fac)" for f
    using inj_onD [OF inj, of f fac] mem that by simp
  show ?thesis unfolding scheduled_ids_def has_scheduled_basin_def mem_Collect_eq using mem same by metis
qed

end
