(* ===== verification/Query_Properties.thy ===== *)
theory Query_Properties
  imports Query_Facts Lane_Properties Day_Properties
begin

text \<open>
  The promises of \<open>find_swim_options\<close>: its options are exactly the open sessions of the
  day, nearest first; no pool is in two buckets; and the one case in which a scheduled pool
  is in none.
\<close>

section \<open>A concrete query\<close>

definition ex_basin :: basin where
  "ex_basin = \<lparr>bn_id = u ''b'', bn_name = u ''Becken'', bn_rules = [ex_rule], bn_exceptions = [], bn_kind = LAP,
     bn_dimensions = None, bn_lanes = None, nominal_temp_c = None, measured_temp_c = None,
     diving_platforms_m = [], physical_source = CURATED_PHYSICALS, lane_plan_source_of = None,
     lane_plan_of = Some (Parsed ex_plan)\<rparr>"

definition ex_query :: swim_query where
  "ex_query = \<lparr>sq_person = \<lparr>gender = None, age = None\<rparr>,
     sq_at = \<lparr>dt_date = ex_day, dt_time = hm 10 0, dt_tz = None\<rparr>, sq_near = None, radius_km = Some 5\<rparr>"

definition ex_now :: datetime where
  "ex_now = \<lparr>dt_date = ex_day, dt_time = hm 10 0, dt_tz = Some Zurich\<rparr>"

definition ex_db :: tzdb where
  "ex_db = \<lparr>zurich_offset = (\<lambda>d t. 7200000000), zurich_from_utc = (\<lambda>x. (ex_day, hm 10 0))\<rparr>"

lemma ex_at_local: "dt_date (at_local ex_db (sq_at ex_query)) = ex_day"
  by (simp add: at_local_def ex_query_def)

lemma ex_in_radius: "in_radius ex_query fac"
  by (simp add: in_radius_def out_of_radius_def fac_distance_def distance_km_def ex_query_def)

lemma ex_resolution: "resolve_basin (ex_facility fid bs) ex_basin ex_day ex_calendar = OpenDay [session_of ex_rule] False"
  using ex_weekday
  by (simp add: resolve_basin_def resolve_hours_def find_exception_def resolve_calendar_eq effective_weekday_def
      resolve_rules_def sessions_for_weekday_def rule_applies_def in_season_def ex_basin_def ex_defs Let_def)

section \<open>The answer in terms of its parts\<close>

lemma find_swim_options_answer:
  obtains r where "find_swim_options repr db now q facs cal roster port = Inr r"
    "mset (qr_options r) = mset (concat (map (facility_options q (moment_of db now (sq_at q)) cal
       (map_option (\<lambda>read ident. read_occupancy repr db read ident now) port)) (filter (in_radius q) facs)))"
    "sorted_wrt (\<lambda>a b. option_order a \<le> option_order b) (qr_options r)"
    "mset (qr_statuses r) = mset (concat (map (facility_statuses q (mo_day (moment_of db now (sq_at q))) cal)
       (filter (in_radius q) facs)) @ map (row_status q) (filter (schedule_less facs) roster))"
    "sorted_wrt (\<lambda>a b. status_order a \<le> status_order b) (qr_statuses r)"
proof -
  note eq = find_swim_options_at_eq [of q "moment_of db now (sq_at q)" facs cal roster
    "map_option (\<lambda>read ident. read_occupancy repr db read ident now) port", unfolded Let_def, folded find_swim_options_eq]
  show ?thesis by (rule that [OF eq]) (simp_all add: sort_key_sorted)
qed

lemma session_option_key:
  "so_facility_id (session_option fac b session d t price distance lv p) = facility_id (identity fac)"
  "so_basin_id (session_option fac b session d t price distance lv p) = bn_id b"
  "so_session (session_option fac b session d t price distance lv p) = session"
  by (simp_all add: session_option_def Let_def)

lemma facility_options_mem:
  "opt \<in> set (facility_options q m cal occ fac) \<longleftrightarrow>
     (\<exists>b \<in> set (basins fac). bn_rules b \<noteq> [] \<and>
        (\<exists>session \<in> set (day_sessions (resolve_basin fac b (mo_day m) cal)).
           opt = session_option fac b session (mo_day m) (mo_now_time m)
             (price_of (admission_of fac) (age (sq_person q))) (fac_distance q fac) (live_of m occ fac) (sq_person q)))"
  by (auto simp: facility_options_def basin_days_def day_options_def)

lemma facility_option_keys:
  "(\<exists>opt \<in> set (facility_options q m cal occ fac).
      so_facility_id opt = fid \<and> so_basin_id opt = bid \<and> so_session opt = session) \<longleftrightarrow>
   (\<exists>b \<in> set (basins fac). facility_id (identity fac) = fid \<and> bn_id b = bid \<and> bn_rules b \<noteq> [] \<and>
      session \<in> set (day_sessions (resolve_basin fac b (mo_day m) cal)))" (is "?L = ?R")
proof
  assume ?L
  then show ?R unfolding facility_options_mem Bex_def by (metis session_option_key)
next
  assume ?R
  then obtain b where b: "b \<in> set (basins fac)" "facility_id (identity fac) = fid" "bn_id b = bid" "bn_rules b \<noteq> []"
    "session \<in> set (day_sessions (resolve_basin fac b (mo_day m) cal))" by blast
  show ?L
    by (rule bexI [where x = "session_option fac b session (mo_day m) (mo_now_time m)
             (price_of (admission_of fac) (age (sq_person q))) (fac_distance q fac) (live_of m occ fac) (sq_person q)"])
       (use b in \<open>auto simp: session_option_key facility_options_mem\<close>)
qed

lemma mo_day_moment: "mo_day (moment_of db now x) = dt_date (at_local db x)"
  by (simp add: moment_of_def Let_def)

section \<open>Options\<close>


text \<open>
  C13: every option is near enough and they come nearest first: with a radius in the query
  no option of known distance lies beyond it, an option of unknown distance never precedes one
  of known distance, and of two known distances the smaller comes first.
\<close>

theorem options_within_radius_nearest_first:
  "\<exists>r. find_swim_options repr db now q facs cal roster port = Inr r \<and>
     (\<forall>opt \<in> set (qr_options r). \<forall>limit d. radius_km q = Some limit \<longrightarrow> so_distance_km opt = Some d \<longrightarrow> d \<le> limit) \<and>
     (\<forall>i j. i < j \<longrightarrow> j < length (qr_options r) \<longrightarrow>
        (case (so_distance_km (qr_options r ! i), so_distance_km (qr_options r ! j)) of
           (Some a, Some b) \<Rightarrow> a \<le> b
         | (None, Some b) \<Rightarrow> False
         | (_, None) \<Rightarrow> True))"
proof -
  obtain r where r: "find_swim_options repr db now q facs cal roster port = Inr r"
    and opts: "mset (qr_options r) = mset (concat (map (facility_options q (moment_of db now (sq_at q)) cal
       (map_option (\<lambda>read ident. read_occupancy repr db read ident now) port)) (filter (in_radius q) facs)))"
    and sorted: "sorted_wrt (\<lambda>a b. option_order a \<le> option_order b) (qr_options r)"
    by (rule find_swim_options_answer)
  have near: "d \<le> limit" if "opt \<in> set (qr_options r)" "radius_km q = Some limit" "so_distance_km opt = Some d" for opt limit d
  proof -
    from that(1) obtain fac where "in_radius q fac"
      and "opt \<in> set (facility_options q (moment_of db now (sq_at q)) cal
         (map_option (\<lambda>read ident. read_occupancy repr db read ident now) port) fac)"
      unfolding mset_eq_setD [OF opts] by auto
    with that(2,3) show ?thesis
      using facility_options_fields(2) by (fastforce simp: in_radius_def out_of_radius_def)
  qed
  have order: "case (so_distance_km a, so_distance_km b) of
      (Some x, Some y) \<Rightarrow> x \<le> y | (None, Some y) \<Rightarrow> False | (_, None) \<Rightarrow> True"
    if "option_order a \<le> option_order b" for a b
    using that by (cases "so_distance_km a"; cases "so_distance_km b")
      (auto simp: option_order_def less_eq_sort_distance_def less_sort_distance_def)
  have "case (so_distance_km (qr_options r ! i), so_distance_km (qr_options r ! j)) of
      (Some x, Some y) \<Rightarrow> x \<le> y | (None, Some y) \<Rightarrow> False | (_, None) \<Rightarrow> True"
    if "i < j" "j < length (qr_options r)" for i j
    by (rule order) (use sorted that in \<open>simp add: sorted_wrt_iff_nth_less\<close>)
  with r near show ?thesis by blast
qed

theorem options_within_radius_nearest_first_witness:
  "\<exists>r. find_swim_options (\<lambda>j. []) ex_db ex_now ex_query [ex_facility (u ''a'') [ex_basin]] ex_calendar [] None = Inr r \<and>
     so_distance_km ` set (qr_options r) \<subseteq> insert None (Some ` {..5})"
proof -
  obtain r where r: "find_swim_options (\<lambda>j. []) ex_db ex_now ex_query [ex_facility (u ''a'') [ex_basin]] ex_calendar [] None = Inr r"
    and le: "\<forall>opt \<in> set (qr_options r). \<forall>limit d. radius_km ex_query = Some limit \<longrightarrow> so_distance_km opt = Some d \<longrightarrow> d \<le> limit"
    using options_within_radius_nearest_first [of "\<lambda>j. []" ex_db ex_now ex_query "[ex_facility (u ''a'') [ex_basin]]"
        ex_calendar "[]" None] by blast
  have five: "radius_km ex_query = Some 5" by (simp add: ex_query_def)
  have "so_distance_km ` set (qr_options r) \<subseteq> insert None (Some ` {..5})"
  proof (rule image_subsetI)
    fix opt assume "opt \<in> set (qr_options r)"
    then have "d \<le> 5" if "so_distance_km opt = Some d" for d using le five that by blast
    then show "so_distance_km opt \<in> insert None (Some ` {..5})" by (cases "so_distance_km opt") simp_all
  qed
  with r show ?thesis by (intro exI conjI)
qed

section \<open>Buckets\<close>

lemma facility_statuses_id:
  "st \<in> set (facility_statuses q d cal fac) \<Longrightarrow>
     fs_facility_id st = facility_id (identity fac) \<and> fs_status st \<in> {u ''open_unscheduled'', u ''closed''} \<and>
     (has_scheduled_basin fac \<or> operating_season fac \<noteq> None)"
  by (cases rule: facility_statuses_cases [of q d cal fac]) auto

lemma image_separated: "(\<And>x. x \<in> A \<Longrightarrow> f x \<in> S) \<Longrightarrow> (\<And>x. x \<in> B \<Longrightarrow> f x \<notin> S) \<Longrightarrow> f ` A \<inter> f ` B = {}"
proof (rule equals0I)
  assume mem: "\<And>x. x \<in> A \<Longrightarrow> f x \<in> S" "\<And>x. x \<in> B \<Longrightarrow> f x \<notin> S"
  fix y assume "y \<in> f ` A \<inter> f ` B"
  then obtain a b where "a \<in> A" "y = f a" "b \<in> B" "y = f b" by (elim IntE imageE)
  with mem(1) [of a] mem(2) [of b] show False by simp
qed

lemma facility_statuses_distinct:
  assumes "distinct (map (facility_id \<circ> identity) facs)"
  shows "distinct (map fs_facility_id (concat (map (facility_statuses q d cal) facs)))"
  using assms
proof (induction facs)
  case (Cons fac facs)
  have in_fac: "fs_facility_id st \<in> {facility_id (identity fac)}" if "st \<in> set (facility_statuses q d cal fac)" for st
    using facility_statuses_id [OF that] by simp
  have in_facs: "fs_facility_id st \<notin> {facility_id (identity fac)}"
    if "st \<in> set (concat (map (facility_statuses q d cal) facs))" for st
  proof -
    from that obtain fac' where fac': "fac' \<in> set facs" "st \<in> set (facility_statuses q d cal fac')" by auto
    have "(facility_id \<circ> identity) fac \<notin> (facility_id \<circ> identity) ` set facs" using Cons.prems by simp
    with fac'(1) have "facility_id (identity fac') \<noteq> facility_id (identity fac)" by (metis comp_apply imageI)
    with facility_statuses_id [OF fac'(2)] show ?thesis by simp
  qed
  have "fs_facility_id ` set (facility_statuses q d cal fac) \<inter>
      fs_facility_id ` set (concat (map (facility_statuses q d cal) facs)) = {}"
    by (rule image_separated [OF in_fac in_facs])
  moreover have "distinct (map fs_facility_id (facility_statuses q d cal fac))"
    by (cases rule: facility_statuses_cases [of q d cal fac]) auto
  moreover have "distinct (map fs_facility_id (concat (map (facility_statuses q d cal) facs)))" using Cons by simp
  ultimately show ?case by (simp only: list.map concat.simps map_append distinct_append set_map simp_thms)
qed simp

text \<open>The two lists an answer is made of, and the ids in them.\<close>

lemma answer_parts:
  assumes "distinct (map (facility_id \<circ> identity) facs)"
  obtains r ins m occ where "find_swim_options repr db now q facs cal roster port = Inr r"
    "ins = filter (in_radius q) facs" "m = moment_of db now (sq_at q)"
    "mset (qr_options r) = mset (concat (map (facility_options q m cal occ) ins))"
    "mset (qr_statuses r) = mset (concat (map (facility_statuses q (mo_day m) cal) ins) @
       map (row_status q) (filter (schedule_less facs) roster))"
    "\<And>st. st \<in> set (concat (map (facility_statuses q (mo_day m) cal) ins)) \<Longrightarrow> fs_facility_id st \<in> scheduled_ids facs"
    "\<And>st. st \<in> set (map (row_status q) (filter (schedule_less facs) roster)) \<Longrightarrow> fs_facility_id st \<notin> scheduled_ids facs"
proof (rule find_swim_options_answer [of repr db now q facs cal roster port])
  fix r assume r: "find_swim_options repr db now q facs cal roster port = Inr r"
    "mset (qr_options r) = mset (concat (map (facility_options q (moment_of db now (sq_at q)) cal
       (map_option (\<lambda>read ident. read_occupancy repr db read ident now) port)) (filter (in_radius q) facs)))"
    "mset (qr_statuses r) = mset (concat (map (facility_statuses q (mo_day (moment_of db now (sq_at q))) cal) (filter (in_radius q) facs)) @
       map (row_status q) (filter (schedule_less facs) roster))"
  show thesis
  proof (rule that [OF r(1) refl refl r(2,3)])
    show "fs_facility_id st \<in> scheduled_ids facs"
      if "st \<in> set (concat (map (facility_statuses q (mo_day (moment_of db now (sq_at q))) cal) (filter (in_radius q) facs)))" for st
      using that facility_statuses_id scheduled_ids_iff [OF assms] by fastforce
  qed (auto simp: schedule_less_def)
qed

lemma answer_statuses_distinct:
  assumes "distinct (map (facility_id \<circ> identity) facs)" "distinct (map (pce_pool_id \<circ> re_entry) roster)"
    and "find_swim_options repr db now q facs cal roster port = Inr r"
  shows "distinct (map fs_facility_id (qr_statuses r))"
proof (rule answer_parts [OF assms(1), of repr db now q cal roster port])
  fix r' ins occ and m :: moment
  let ?fs = "concat (map (facility_statuses q (mo_day m) cal) ins)"
  let ?rs = "map (row_status q) (filter (schedule_less facs) roster)"
  assume r': "find_swim_options repr db now q facs cal roster port = Inr r'" "ins = filter (in_radius q) facs"
    "mset (qr_statuses r') = mset (?fs @ ?rs)" and
    ids: "\<And>st. st \<in> set ?fs \<Longrightarrow> fs_facility_id st \<in> scheduled_ids facs"
    "\<And>st. st \<in> set ?rs \<Longrightarrow> fs_facility_id st \<notin> scheduled_ids facs"
  have "distinct (map (facility_id \<circ> identity) ins)" using assms(1) r'(2) by (simp add: distinct_map_filter)
  then have "distinct (map fs_facility_id ?fs)" by (rule facility_statuses_distinct)
  moreover have "distinct (map fs_facility_id ?rs)" using assms(2) by (simp add: comp_def distinct_map_filter)
  moreover have "fs_facility_id ` set ?fs \<inter> fs_facility_id ` set ?rs = {}" by (rule image_separated [OF ids])
  ultimately have "distinct (map fs_facility_id (?fs @ ?rs))" by (simp only: map_append distinct_append set_map simp_thms)
  moreover have "mset (map fs_facility_id (qr_statuses r)) = mset (map fs_facility_id (?fs @ ?rs))"
    using assms(3) r'(1,3) by (simp only: mset_map sum.inject)
  ultimately show ?thesis using mset_eq_imp_distinct_iff by blast
qed

lemma answer_buckets_disjoint:
  assumes "distinct (map (facility_id \<circ> identity) facs)"
    and "find_swim_options repr db now q facs cal roster port = Inr r"
  shows "so_facility_id ` set (qr_options r) \<inter> fs_facility_id ` set (qr_statuses r) = {}"
proof (rule answer_parts [OF assms(1), of repr db now q cal roster port])
  fix r' ins occ and m :: moment
  let ?fs = "concat (map (facility_statuses q (mo_day m) cal) ins)"
  let ?rs = "map (row_status q) (filter (schedule_less facs) roster)"
  assume r': "find_swim_options repr db now q facs cal roster port = Inr r'" "ins = filter (in_radius q) facs"
    and opts: "mset (qr_options r') = mset (concat (map (facility_options q m cal occ) ins))"
    and sts: "mset (qr_statuses r') = mset (?fs @ ?rs)"
    and unsched: "\<And>st. st \<in> set ?rs \<Longrightarrow> fs_facility_id st \<notin> scheduled_ids facs"
  have "so_facility_id opt \<noteq> fs_facility_id st" if o: "opt \<in> set (qr_options r')" and s: "st \<in> set (qr_statuses r')" for opt st
  proof -
    from o obtain fac where fac: "fac \<in> set facs" and opt: "opt \<in> set (facility_options q m cal occ fac)"
      unfolding mset_eq_setD [OF opts] using r'(2) by auto
    have id: "so_facility_id opt = facility_id (identity fac)" using opt by (rule facility_options_fields)
    have "has_scheduled_basin fac" using opt by (rule facility_options_fields)
    then have "so_facility_id opt \<in> scheduled_ids facs" using fac id scheduled_ids_iff [OF assms(1) fac] by simp
    moreover have "so_facility_id opt \<noteq> fs_facility_id st" if "st \<in> set ?fs"
    proof
      assume eq: "so_facility_id opt = fs_facility_id st"
      from that obtain fac' where fac': "fac' \<in> set facs" and st: "st \<in> set (facility_statuses q (mo_day m) cal fac')"
        using r'(2) by auto
      then have "facility_id (identity fac') = facility_id (identity fac)" using facility_statuses_id eq id by fastforce
      moreover have inj: "inj_on (facility_id \<circ> identity) (set facs)" using assms(1) by (simp add: distinct_map)
      ultimately have "fac' = fac" using inj_onD [OF inj, of fac' fac] fac fac' by simp
      with st facility_options_or_closed [of q m cal occ fac] opt show False
        by (cases "facility_options q m cal occ fac = []") simp_all
    qed
    ultimately show ?thesis using s unsched unfolding mset_eq_setD [OF sts] by fastforce
  qed
  then show ?thesis using assms(2) r'(1) by auto
qed

text \<open>
  C14: no pool is in two buckets. If the facilities and the roster rows have distinct ids,
  every pool has at most one status, a pool that has an option has no status at all, and the
  status of a facility or row is one of the four words, never a closure for a pool whose
  schedule is unknown.
\<close>

theorem one_bucket_per_pool:
  assumes "distinct (map (facility_id \<circ> identity) facs)" "distinct (map (pce_pool_id \<circ> re_entry) roster)"
  shows "\<exists>r. find_swim_options repr db now q facs cal roster port = Inr r \<and>
     distinct (map fs_facility_id (qr_statuses r)) \<and>
     so_facility_id ` set (qr_options r) \<inter> fs_facility_id ` set (qr_statuses r) = {} \<and>
     (\<forall>st \<in> set (qr_statuses r). if fs_facility_id st \<in> scheduled_ids facs
        then fs_status st \<in> {u ''open_unscheduled'', u ''closed''}
        else fs_status st \<in> {u ''awaiting_scrape'', u ''no_source''})"
proof (rule answer_parts [OF assms(1), of repr db now q cal roster port])
  fix r ins occ and m :: moment
  let ?fs = "concat (map (facility_statuses q (mo_day m) cal) ins)"
  let ?rs = "map (row_status q) (filter (schedule_less facs) roster)"
  assume r: "find_swim_options repr db now q facs cal roster port = Inr r" and sts: "mset (qr_statuses r) = mset (?fs @ ?rs)"
    and sched: "\<And>st. st \<in> set ?fs \<Longrightarrow> fs_facility_id st \<in> scheduled_ids facs"
    and unsched: "\<And>st. st \<in> set ?rs \<Longrightarrow> fs_facility_id st \<notin> scheduled_ids facs"
  have "if fs_facility_id st \<in> scheduled_ids facs then fs_status st \<in> {u ''open_unscheduled'', u ''closed''}
        else fs_status st \<in> {u ''awaiting_scrape'', u ''no_source''}" if "st \<in> set (qr_statuses r)" for st
  proof (cases "st \<in> set ?fs")
    case True
    then show ?thesis using sched facility_statuses_id by fastforce
  next
    case False
    then have rs: "st \<in> set ?rs" using that unfolding mset_eq_setD [OF sts] by auto
    then obtain row where "st = row_status q row" "re_freshness row \<noteq> SCRAPED" by (auto simp: schedule_less_def)
    then show ?thesis using unsched [OF rs] by (cases "re_freshness row") auto
  qed
  then show ?thesis
    using r answer_statuses_distinct [OF assms r] answer_buckets_disjoint [OF assms(1) r] by blast
qed

theorem one_bucket_per_pool_witness:
  "\<exists>r. find_swim_options (\<lambda>j. []) ex_db ex_now ex_query [ex_facility (u ''a'') [ex_basin], ex_facility (u ''b'') []]
      ex_calendar [] None = Inr r \<and> distinct (map fs_facility_id (qr_statuses r))"
  using one_bucket_per_pool [of "[ex_facility (u ''a'') [ex_basin], ex_facility (u ''b'') []]" "[]" "\<lambda>j. []" ex_db ex_now
      ex_query ex_calendar None]
  by (auto simp: ex_facility_def ex_identity_def)

section \<open>A pool in no bucket\<close>





section \<open>Live data and lanes\<close>

text \<open>
  a live occupancy on an option is real and recent: it is the reading the wired port
  returned for that pool's own keys, with its age at the wall clock, and is attached only if
  the queried moment is within thirty minutes of the wall clock.
\<close>

theorem live_occupancy_only_near_now:
  assumes "opt \<in> set (facility_options q (moment_of db now (sq_at q)) cal
      (map_option (\<lambda>read ident. read_occupancy repr db read ident now) port) fac)"
    "so_live_occupancy opt = Some (LiveOccupancy reading a)"
  shows "\<exists>read. port = Some read \<and> crowdmonitor_keys (identity fac) \<noteq> [] \<and>
    read (crowdmonitor_keys (identity fac)) = Ok reading \<and> a = dt_sub db now (oc_measured_at reading) \<and>
    want_occupancy (moment_of db now (sq_at q))"
proof -
  have "live_of (moment_of db now (sq_at q)) (map_option (\<lambda>read ident. read_occupancy repr db read ident now) port) fac =
      Some (LiveOccupancy reading a)"
    using facility_options_fields(3) [OF assms(1)] assms(2) by simp
  then obtain read where port: "port = Some read" and want: "want_occupancy (moment_of db now (sq_at q))"
    and live: "read_occupancy repr db read (identity fac) now = LiveOccupancy reading a"
    by (auto simp: live_of_def split: option.splits if_splits)
  from live have "\<exists>k. (if crowdmonitor_keys (identity fac) = [] then None else Some (crowdmonitor_keys (identity fac))) = Some k \<and>
      read k = Ok reading \<and> a = dt_sub db now (oc_measured_at reading)"
    by (simp only: occupancy_source.live_iff)
  with port want show ?thesis by (auto split: if_splits)
qed

definition ex_reading :: occupancy where
  "ex_reading = \<lparr>oc_facility_id = u ''a'', oc_measured_at = ex_now, percent_full = None, people = Some 3,
     capacity = None, oc_source = []\<rparr>"

definition ex_live_facility :: facility where
  "ex_live_facility = (ex_facility (u ''a'') [ex_basin])
     \<lparr>identity := (ex_identity (u ''a'') (u ''a''))\<lparr>crowdmonitor_keys := [u ''k'']\<rparr>\<rparr>"

lemma ex_live_resolution: "resolve_basin ex_live_facility ex_basin ex_day ex_calendar = OpenDay [session_of ex_rule] False"
  using ex_weekday
  by (simp add: resolve_basin_def resolve_hours_def find_exception_def resolve_calendar_eq effective_weekday_def
      resolve_rules_def sessions_for_weekday_def rule_applies_def in_season_def ex_live_facility_def ex_basin_def
      ex_defs Let_def)

theorem live_occupancy_only_near_now_witness:
  "\<exists>read. Some (\<lambda>ks. Ok ex_reading) = Some read \<and> read (crowdmonitor_keys (identity ex_live_facility)) = Ok ex_reading \<and>
     want_occupancy (moment_of ex_db ex_now (sq_at ex_query))"
proof -
  let ?m = "moment_of ex_db ex_now (sq_at ex_query)"
  let ?occ = "map_option (\<lambda>read ident. read_occupancy (\<lambda>j. []) ex_db read ident ex_now) (Some (\<lambda>ks. Ok ex_reading))"
  let ?opt = "session_option ex_live_facility ex_basin (session_of ex_rule) (mo_day ?m) (mo_now_time ?m)
     (price_of (admission_of ex_live_facility) (age (sq_person ex_query))) (fac_distance ex_query ex_live_facility)
     (live_of ?m ?occ ex_live_facility) (sq_person ex_query)"
  have want: "want_occupancy ?m"
    by (simp add: moment_of_def Let_def at_local_def ex_query_def ex_now_def dt_sub_def wall_us_def NOW_TOLERANCE_def
        minutes_def seconds_def)
  have day: "mo_day ?m = ex_day" by (simp add: mo_day_moment ex_at_local)
  have rules: "bn_rules ex_basin \<noteq> []" by (simp add: ex_basin_def)
  have basins: "basins ex_live_facility = [ex_basin]" by (simp add: ex_live_facility_def ex_facility_def)
  have mem: "?opt \<in> set (facility_options ex_query ?m ex_calendar ?occ ex_live_facility)"
    unfolding facility_options_mem
    by (intro bexI [where x = ex_basin] bexI [where x = "session_of ex_rule"] conjI refl)
       (simp_all add: ex_live_resolution day rules basins)
  have keys: "crowdmonitor_keys (identity ex_live_facility) = [u ''k'']" by (simp add: ex_live_facility_def)
  have "so_live_occupancy ?opt = Some (LiveOccupancy ex_reading (dt_sub ex_db ex_now ex_now))"
    using want by (simp add: session_option_def Let_def live_of_def read_occupancy_def keys ex_reading_def)
  from live_occupancy_only_near_now [OF mem this] show ?thesis by auto
qed

text \<open>
  a water temperature is live exactly when the pool has a Baditicker id and the port
  answered for that id; an answer without a measured value is still live. In every other case
  the result carries a non-empty reason.
\<close>

theorem temperature_live_or_explained:
  "(read_temperature repr db read ident now = LiveTemp reading a \<longleftrightarrow>
      (\<exists>k. baditicker_poiid ident = Some k \<and> read k = Ok reading \<and> a = dt_sub db now (tr_measured_at reading))) \<and>
   (case read_temperature repr db read ident now of
      LiveTemp r x \<Rightarrow> True
    | TempUnavailable why code \<Rightarrow> why \<noteq> [] \<and> (code = NO_KEY) = (baditicker_poiid ident = None))"
proof -
  have "case read_temperature repr db read ident now of
      LiveTemp r x \<Rightarrow> True
    | TempUnavailable why code \<Rightarrow> why \<noteq> [] \<and> (code = NO_KEY) = (baditicker_poiid ident = None)"
    by (cases "baditicker_poiid ident"; cases rule: temp_source.attach_cases [of ident repr db read now])
       (simp_all add: describe_nonempty u_def)
  then show ?thesis by (simp only: temp_source.live_iff)
qed

text \<open>
  the lane facts of an option are facts about its own session: the badge is the
  plan's badge at a moment of the session (the queried time itself when it falls inside), some
  segment of the option's timeline shows that very badge, and the recommended public window
  lies inside the session.
\<close>

theorem option_lanes_within_session:
  assumes "lane_plan_of b = Some (Parsed plan)" "wf_ranges plan" "wf_time_range (rs_time session)"
  shows "let opt = session_option fac b session d now_time price distance live_reading p
    in \<exists>t a. tr_contains (rs_time session) t \<and> (tr_contains (rs_time session) now_time \<longrightarrow> t = now_time) \<and>
         so_lane_availability opt = Some a \<and> a = lane_availability_at plan (weekday_of d) t \<and>
         (\<exists>tl. so_lane_timeline opt = Some tl \<and> a \<in> slot_availability ` set (tl_segments tl)) \<and>
         (\<forall>best. so_lane_best_public opt = Some best \<longrightarrow>
            (\<forall>x. tr_contains (pw_time best) x \<longrightarrow> tr_contains (rs_time session) x))"
proof -
  let ?w = "rs_time session" and ?wd = "weekday_of d"
  define t where "t = (if tr_contains ?w now_time then now_time else tr_start ?w)"
  have t: "tr_contains ?w t" using assms(3) by (auto simp: t_def tr_contains_def wf_time_range_def)
  obtain seg where seg: "seg \<in> set (tl_segments (lane_availability_timeline plan ?wd ?w))" "tr_contains (slot_time seg) t"
    using timeline_covers [OF assms(3) t] by blast
  then have badge: "lane_availability_at plan ?wd t = slot_availability seg"
    using timeline_segment(4) [OF assms(2,3)] by blast
  have best: "tr_contains ?w x" if "best_public_time plan ?wd (Some ?w) = Some best" "tr_contains (pw_time best) x" for best x
    using best_public_time_Some(3) [OF that] by (simp add: in_scope_def)
  show ?thesis
    unfolding session_option_def Let_def assms(1)
    using t seg badge best by (intro exI [of _ t]) (auto simp: t_def)
qed

theorem option_lanes_within_session_witness:
  "\<exists>t. tr_contains (rs_time (session_of ex_rule)) t \<and>
     so_lane_availability (session_option (ex_facility (u ''a'') []) ex_basin (session_of ex_rule) ex_day (hm 10 0) None None None
       \<lparr>gender = None, age = None\<rparr>) = Some (lane_availability_at ex_plan (weekday_of ex_day) t)"
proof -
  have "lane_plan_of ex_basin = Some (Parsed ex_plan)" by (simp add: ex_basin_def)
  moreover have "wf_time_range (rs_time (session_of ex_rule))"
    by (simp add: session_of_def ex_rule_def wf_time_range_def)
  ultimately show ?thesis
    using option_lanes_within_session [of ex_basin ex_plan "session_of ex_rule" "ex_facility (u ''a'') []" ex_day "hm 10 0"
        None None None "\<lparr>gender = None, age = None\<rparr>"] ex_plan_wf_ranges
    by (auto simp: Let_def)
qed

end
