(* ===== verification/Compose.thy ===== *)
theory Compose
  imports Models
begin

text \<open>
  \<open>src/swimzh/build/compose.py\<close>: curated and scraped facts of a pool are folded into one
  facility. An aspect is a mergeable field with its presence test and its source precedence;
  the locale \<open>aspect_lens\<close> states what reading and replacing a field obey, and is
  interpreted on each of the ten fields of the precedence table.
\<close>

definition SCRAPE_SOURCE :: pystr where
  "SCRAPE_SOURCE = u ''schedule_scraper''"

record scraped_aspects =
  sa_name :: pystr
  sa_kind :: pool_kind
  sa_address :: pystr
  sa_geo :: "geo_point option"
  sa_basins :: "basin list"
  sa_closures :: "closure_range list"
  sa_notices :: "notice list"
  sa_admission :: admission
  sa_fetched_at :: datetime
  sa_features :: "feature list"
  sa_lockers :: "locker_option list"
  sa_rentals :: "rental_item list"
  sa_public_holiday_policy :: "holiday_policy option"
  sa_last_admission_before :: "int option"
  sa_operating_season :: "operating_season_rec option"

datatype source = CURATED | SCRAPED

fun source_value :: "source \<Rightarrow> pystr" where
  "source_value CURATED = u ''curated''"
| "source_value SCRAPED = u ''scraped''"

definition CURATED_WINS :: "source list" where
  "CURATED_WINS = [CURATED, SCRAPED]"

type_synonym by_source = "source \<rightharpoonup> facility"

section \<open>The precedence table\<close>

record aspect =
  asp_field :: pystr
  asp_present :: "facility \<Rightarrow> bool"
  asp_copy :: "facility \<Rightarrow> facility \<Rightarrow> facility"
  asp_precedence :: "source list"

definition is_known_admission :: "admission \<Rightarrow> bool" where
  "is_known_admission a \<longleftrightarrow> a \<noteq> Unknown"

definition admission_aspect :: aspect where
  "admission_aspect =
     \<lparr>asp_field = u ''admission'', asp_present = (\<lambda>f. is_known_admission (admission_of f)),
      asp_copy = (\<lambda>w b. b\<lparr>admission_of := admission_of w\<rparr>), asp_precedence = CURATED_WINS\<rparr>"

definition closures_aspect :: aspect where
  "closures_aspect =
     \<lparr>asp_field = u ''closures'', asp_present = (\<lambda>f. closures f \<noteq> []),
      asp_copy = (\<lambda>w b. b\<lparr>closures := closures w\<rparr>), asp_precedence = CURATED_WINS\<rparr>"

definition notices_aspect :: aspect where
  "notices_aspect =
     \<lparr>asp_field = u ''notices'', asp_present = (\<lambda>f. notices f \<noteq> []),
      asp_copy = (\<lambda>w b. b\<lparr>notices := notices w\<rparr>), asp_precedence = CURATED_WINS\<rparr>"

definition geo_aspect :: aspect where
  "geo_aspect =
     \<lparr>asp_field = u ''geo'', asp_present = (\<lambda>f. geo f \<noteq> None),
      asp_copy = (\<lambda>w b. b\<lparr>geo := geo w\<rparr>), asp_precedence = CURATED_WINS\<rparr>"

definition features_aspect :: aspect where
  "features_aspect =
     \<lparr>asp_field = u ''features'', asp_present = (\<lambda>f. features f \<noteq> []),
      asp_copy = (\<lambda>w b. b\<lparr>features := features w\<rparr>), asp_precedence = CURATED_WINS\<rparr>"

definition lockers_aspect :: aspect where
  "lockers_aspect =
     \<lparr>asp_field = u ''lockers'', asp_present = (\<lambda>f. lockers f \<noteq> []),
      asp_copy = (\<lambda>w b. b\<lparr>lockers := lockers w\<rparr>), asp_precedence = CURATED_WINS\<rparr>"

definition rentals_aspect :: aspect where
  "rentals_aspect =
     \<lparr>asp_field = u ''rentals'', asp_present = (\<lambda>f. rentals f \<noteq> []),
      asp_copy = (\<lambda>w b. b\<lparr>rentals := rentals w\<rparr>), asp_precedence = CURATED_WINS\<rparr>"

definition public_holiday_policy_aspect :: aspect where
  "public_holiday_policy_aspect =
     \<lparr>asp_field = u ''public_holiday_policy'', asp_present = (\<lambda>f. public_holiday_policy f \<noteq> None),
      asp_copy = (\<lambda>w b. b\<lparr>public_holiday_policy := public_holiday_policy w\<rparr>), asp_precedence = CURATED_WINS\<rparr>"

definition last_admission_before_aspect :: aspect where
  "last_admission_before_aspect =
     \<lparr>asp_field = u ''last_admission_before'', asp_present = (\<lambda>f. last_admission_before f \<noteq> None),
      asp_copy = (\<lambda>w b. b\<lparr>last_admission_before := last_admission_before w\<rparr>), asp_precedence = CURATED_WINS\<rparr>"

definition operating_season_aspect :: aspect where
  "operating_season_aspect =
     \<lparr>asp_field = u ''operating_season'', asp_present = (\<lambda>f. operating_season f \<noteq> None),
      asp_copy = (\<lambda>w b. b\<lparr>operating_season := operating_season w\<rparr>), asp_precedence = CURATED_WINS\<rparr>"

definition ASPECTS :: "aspect list" where
  "ASPECTS = [admission_aspect, closures_aspect, notices_aspect, geo_aspect, features_aspect,
     lockers_aspect, rentals_aspect, public_holiday_policy_aspect,
     last_admission_before_aspect, operating_season_aspect]"

record composition =
  co_facilities :: "facility list"
  co_notes :: "pystr list"

section \<open>The scraped facility\<close>

definition scraped_facility :: "pool_id \<Rightarrow> scraped_aspects \<Rightarrow> facility" where
  "scraped_facility pid a =
     \<lparr>identity = \<lparr>facility_id = pid, pid_name = sa_name a, pid_kind = sa_kind a, geo_sport_id = None,
        crowdmonitor_keys = [], baditicker_poiid = None, aliases = []\<rparr>,
      address = sa_address a,
      provenance_of = \<lparr>pv_source = SCRAPE_SOURCE, pv_curated = False,
        pv_valid_as_of = Some (dt_date (sa_fetched_at a)), pv_fetched_at = Some (sa_fetched_at a)\<rparr>,
      basins = sa_basins a,
      geo = sa_geo a,
      closures = sa_closures a,
      public_holiday_policy = sa_public_holiday_policy a,
      operating_season = sa_operating_season a,
      admission_of = sa_admission a,
      notices = sa_notices a,
      features = sa_features a,
      lockers = sa_lockers a,
      rentals = sa_rentals a,
      last_admission_before = sa_last_admission_before a\<rparr>"

section \<open>Basins\<close>

definition has_schedule :: "basin list \<Rightarrow> bool" where
  "has_schedule bs \<longleftrightarrow> (\<exists>b \<in> set bs. bn_rules b \<noteq> [])"

definition bound_basins :: "basin list \<Rightarrow> basin list \<Rightarrow> basin list" where
  "bound_basins scraped_basins curated_basins =
     (let scraped_urls = set (concat (map (\<lambda>b. case lane_plan_source_of b of Some s \<Rightarrow> [lps_url s] | None \<Rightarrow> [])
            scraped_basins))
      in filter (\<lambda>b. case lane_plan_source_of b of Some s \<Rightarrow> lps_url s \<notin> scraped_urls | None \<Rightarrow> False)
           curated_basins)"

definition carry_bindings :: "basin list \<Rightarrow> basin list \<Rightarrow> py_error + basin list" where
  "carry_bindings scraped_basins curated_basins =
     (let rules_bearing = filter (\<lambda>b. bn_rules b \<noteq> []) scraped_basins
      in if length rules_bearing > 1 then Inl ValueError
         else let bound = bound_basins scraped_basins curated_basins
           in case rules_bearing of
                [] \<Rightarrow> Inr (scraped_basins @ bound)
              | r # rs \<Rightarrow> Inr (scraped_basins @ map (\<lambda>b. b\<lparr>bn_rules := bn_rules r\<rparr>) bound))"

definition source_basins :: "by_source \<Rightarrow> source \<Rightarrow> basin list" where
  "source_basins bs s = (case bs s of Some f \<Rightarrow> basins f | None \<Rightarrow> [])"

definition merge_basins :: "by_source \<Rightarrow> py_error + (basin list \<times> pystr option \<times> bool)" where
  "merge_basins bs =
     (let curated_basins = source_basins bs CURATED; scraped_basins = source_basins bs SCRAPED
      in if has_schedule curated_basins then Inr (curated_basins, None, False)
         else if has_schedule scraped_basins then
           (case carry_bindings scraped_basins curated_basins of
              Inl e \<Rightarrow> Inl e
            | Inr merged \<Rightarrow>
                let carried = int (length merged) - int (length scraped_basins);
                    note_text = (if carried \<noteq> 0
                      then Some (u ''basins: scraped schedule + '' @ str_of_int carried @ u '' curated lane binding(s)'')
                      else None)
                in Inr (merged, note_text, True))
         else Inr (if curated_basins \<noteq> [] then curated_basins else scraped_basins, None, False))"

section \<open>One pool\<close>

definition present_sources :: "by_source \<Rightarrow> aspect \<Rightarrow> source list" where
  "present_sources bs a =
     filter (\<lambda>s. case bs s of Some f \<Rightarrow> asp_present a f | None \<Rightarrow> False) (asp_precedence a)"

definition winner :: "by_source \<Rightarrow> aspect \<Rightarrow> facility option" where
  "winner bs a = (case present_sources bs a of [] \<Rightarrow> None | s # ss \<Rightarrow> bs s)"

definition apply_aspect :: "by_source \<Rightarrow> aspect \<Rightarrow> facility \<Rightarrow> facility" where
  "apply_aspect bs a f = (case winner bs a of None \<Rightarrow> f | Some w \<Rightarrow> asp_copy a w f)"

definition aspect_notes :: "by_source \<Rightarrow> pystr \<Rightarrow> aspect \<Rightarrow> pystr list" where
  "aspect_notes bs name a =
     (case present_sources bs a of
        s # t # ts \<Rightarrow>
          [name @ u '': '' @ asp_field a @ u '' kept from '' @ source_value s @
           u '' (also supplied by '' @ py_join (u '', '') (map source_value (t # ts)) @ u '')'']
      | _ \<Rightarrow> [])"

definition base_of :: "by_source \<Rightarrow> py_error + facility" where
  "base_of bs = (case bs CURATED of
     Some f \<Rightarrow> Inr f
   | None \<Rightarrow> (case bs SCRAPED of Some f \<Rightarrow> Inr f | None \<Rightarrow> Inl KeyError))"

definition fold_pool :: "by_source \<Rightarrow> py_error + (facility \<times> pystr list)" where
  "fold_pool bs =
     (case base_of bs of
        Inl e \<Rightarrow> Inl e
      | Inr base \<Rightarrow>
          (let name = pid_name (identity base);
               merged = fold (apply_aspect bs) ASPECTS base;
               notes_of = concat (map (aspect_notes bs name) ASPECTS)
           in case merge_basins bs of
                Inl e \<Rightarrow> Inl e
              | Inr (bsn, basin_note, scraped_schedule) \<Rightarrow>
                  (let with_basins = merged\<lparr>basins := bsn\<rparr>;
                       result = (case bs SCRAPED of
                           Some sf \<Rightarrow> if scraped_schedule then with_basins\<lparr>provenance_of := provenance_of sf\<rparr>
                                      else with_basins
                         | None \<Rightarrow> with_basins)
                   in Inr (result, notes_of @ (case basin_note of Some t \<Rightarrow> [name @ u '': '' @ t] | None \<Rightarrow> [])))))"

section \<open>All pools\<close>

text \<open>A dict comprehension keyed by the facility id: a later facility replaces an earlier one.\<close>

definition dict_by_id :: "facility list \<Rightarrow> pool_id \<rightharpoonup> facility" where
  "dict_by_id fs = foldl (\<lambda>m f. m(facility_id (identity f) \<mapsto> f)) Map.empty fs"

definition pool_sources :: "facility list \<Rightarrow> facility list \<Rightarrow> pool_id \<Rightarrow> by_source" where
  "pool_sources curated scraped key =
     (\<lambda>s. case s of CURATED \<Rightarrow> dict_by_id curated key | SCRAPED \<Rightarrow> dict_by_id scraped key)"

fun fold_pools :: "facility list \<Rightarrow> facility list \<Rightarrow> pool_id list \<Rightarrow> py_error + composition" where
  "fold_pools curated scraped [] = Inr \<lparr>co_facilities = [], co_notes = []\<rparr>"
| "fold_pools curated scraped (k # ks) =
     (case fold_pool (pool_sources curated scraped k) of
        Inl e \<Rightarrow> Inl e
      | Inr (f, ns) \<Rightarrow>
          (case fold_pools curated scraped ks of
             Inl e \<Rightarrow> Inl e
           | Inr c \<Rightarrow> Inr \<lparr>co_facilities = f # co_facilities c, co_notes = ns @ co_notes c\<rparr>))"

definition pool_keys :: "facility list \<Rightarrow> facility list \<Rightarrow> pool_id list" where
  "pool_keys curated scraped =
     sorted_list_of_set (set (map (facility_id \<circ> identity) curated) \<union> set (map (facility_id \<circ> identity) scraped))"

definition compose_facilities :: "facility list \<Rightarrow> facility list \<Rightarrow> py_error + composition" where
  "compose_facilities curated scraped = fold_pools curated scraped (pool_keys curated scraped)"

definition compose :: "facility list \<Rightarrow> (pool_id \<times> scraped_aspects) list \<Rightarrow> py_error + composition" where
  "compose curated scraped = compose_facilities curated (map (\<lambda>(pid, a). scraped_facility pid a) scraped)"

section \<open>Reading and replacing a field\<close>

text \<open>The value a merged field has: the curated one if present, else the scraped one if present.\<close>

definition merged_value :: "(facility \<Rightarrow> 'v) \<Rightarrow> ('v \<Rightarrow> bool) \<Rightarrow> by_source \<Rightarrow> 'v \<Rightarrow> 'v" where
  "merged_value get present bs otherwise =
     (case bs CURATED of
        Some c \<Rightarrow> if present (get c) then get c
          else (case bs SCRAPED of Some s \<Rightarrow> if present (get s) then get s else otherwise | None \<Rightarrow> otherwise)
      | None \<Rightarrow> (case bs SCRAPED of Some s \<Rightarrow> if present (get s) then get s else otherwise | None \<Rightarrow> otherwise))"

locale aspect_lens =
  fixes a :: aspect
    and get :: "facility \<Rightarrow> 'v"
    and put :: "'v \<Rightarrow> facility \<Rightarrow> facility"
    and present :: "'v \<Rightarrow> bool"
  assumes precedence: "asp_precedence a = [CURATED, SCRAPED]"
    and present_get: "asp_present a f = present (get f)"
    and copy_put: "asp_copy a w b = put (get w) b"
    and get_put: "get (put v f) = v"
    and put_get: "put (get f) f = f"
    and put_identity: "identity (put v f) = identity f"
    and one_absent: "\<not> present v \<Longrightarrow> \<not> present v' \<Longrightarrow> v = v'"
begin

lemma apply_eq: "apply_aspect bs a f = put (merged_value get present bs (get f)) f"
  by (simp add: apply_aspect_def winner_def present_sources_def precedence merged_value_def present_get copy_put
      put_get split: option.splits)

lemma get_apply: "get (apply_aspect bs a f) = merged_value get present bs (get f)"
  by (simp add: apply_eq get_put)

text \<open>With both sources known, the fold starts from the curated one, and absence is one value.\<close>

lemma merged_both:
  assumes "bs CURATED = Some c" "bs SCRAPED = Some s"
  shows "merged_value get present bs (get c) = (if present (get c) then get c else get s)"
  using assms one_absent by (auto simp: merged_value_def)

end

interpretation admission_lens: aspect_lens admission_aspect admission_of "\<lambda>v f. f\<lparr>admission_of := v\<rparr>" "is_known_admission"
  by unfold_locales (simp_all add: admission_aspect_def CURATED_WINS_def is_known_admission_def)

interpretation closures_lens: aspect_lens closures_aspect closures "\<lambda>v f. f\<lparr>closures := v\<rparr>" "(\<lambda>v. v \<noteq> [])"
  by unfold_locales (simp_all add: closures_aspect_def CURATED_WINS_def)

interpretation notices_lens: aspect_lens notices_aspect notices "\<lambda>v f. f\<lparr>notices := v\<rparr>" "(\<lambda>v. v \<noteq> [])"
  by unfold_locales (simp_all add: notices_aspect_def CURATED_WINS_def)

interpretation geo_lens: aspect_lens geo_aspect geo "\<lambda>v f. f\<lparr>geo := v\<rparr>" "(\<lambda>v. v \<noteq> None)"
  by unfold_locales (simp_all add: geo_aspect_def CURATED_WINS_def)

interpretation features_lens: aspect_lens features_aspect features "\<lambda>v f. f\<lparr>features := v\<rparr>" "(\<lambda>v. v \<noteq> [])"
  by unfold_locales (simp_all add: features_aspect_def CURATED_WINS_def)

interpretation lockers_lens: aspect_lens lockers_aspect lockers "\<lambda>v f. f\<lparr>lockers := v\<rparr>" "(\<lambda>v. v \<noteq> [])"
  by unfold_locales (simp_all add: lockers_aspect_def CURATED_WINS_def)

interpretation rentals_lens: aspect_lens rentals_aspect rentals "\<lambda>v f. f\<lparr>rentals := v\<rparr>" "(\<lambda>v. v \<noteq> [])"
  by unfold_locales (simp_all add: rentals_aspect_def CURATED_WINS_def)

interpretation public_holiday_policy_lens: aspect_lens public_holiday_policy_aspect public_holiday_policy "\<lambda>v f. f\<lparr>public_holiday_policy := v\<rparr>" "(\<lambda>v. v \<noteq> None)"
  by unfold_locales (simp_all add: public_holiday_policy_aspect_def CURATED_WINS_def)

interpretation last_admission_before_lens: aspect_lens last_admission_before_aspect last_admission_before "\<lambda>v f. f\<lparr>last_admission_before := v\<rparr>" "(\<lambda>v. v \<noteq> None)"
  by unfold_locales (simp_all add: last_admission_before_aspect_def CURATED_WINS_def)

interpretation operating_season_lens: aspect_lens operating_season_aspect operating_season "\<lambda>v f. f\<lparr>operating_season := v\<rparr>" "(\<lambda>v. v \<noteq> None)"
  by unfold_locales (simp_all add: operating_season_aspect_def CURATED_WINS_def)

lemmas aspect_applications =
  admission_lens.apply_eq
  closures_lens.apply_eq
  notices_lens.apply_eq
  geo_lens.apply_eq
  features_lens.apply_eq
  lockers_lens.apply_eq
  rentals_lens.apply_eq
  public_holiday_policy_lens.apply_eq
  last_admission_before_lens.apply_eq
  operating_season_lens.apply_eq

lemmas aspect_merges =
  admission_lens.merged_both
  closures_lens.merged_both
  notices_lens.merged_both
  geo_lens.merged_both
  features_lens.merged_both
  lockers_lens.merged_both
  rentals_lens.merged_both
  public_holiday_policy_lens.merged_both
  last_admission_before_lens.merged_both
  operating_season_lens.merged_both

lemma fold_aspects_eq:
  "fold (apply_aspect bs) ASPECTS f =
     f\<lparr>admission_of := merged_value admission_of is_known_admission bs (admission_of f),
       closures := merged_value closures (\<lambda>v. v \<noteq> []) bs (closures f),
       notices := merged_value notices (\<lambda>v. v \<noteq> []) bs (notices f),
       geo := merged_value geo (\<lambda>v. v \<noteq> None) bs (geo f),
       features := merged_value features (\<lambda>v. v \<noteq> []) bs (features f),
       lockers := merged_value lockers (\<lambda>v. v \<noteq> []) bs (lockers f),
       rentals := merged_value rentals (\<lambda>v. v \<noteq> []) bs (rentals f),
       public_holiday_policy := merged_value public_holiday_policy (\<lambda>v. v \<noteq> None) bs (public_holiday_policy f),
       last_admission_before := merged_value last_admission_before (\<lambda>v. v \<noteq> None) bs (last_admission_before f),
       operating_season := merged_value operating_season (\<lambda>v. v \<noteq> None) bs (operating_season f)\<rparr>"
  by (simp add: ASPECTS_def aspect_applications)

end
