(* ===== verification/Compose_Properties.thy ===== *)
theory Compose_Properties
  imports Compose Day_Properties
begin

text \<open>
  What folding curated and scraped facilities promises: one facility per pool, per-aspect
  precedence, no lost lane binding, honest provenance, and the one case in which it raises.
\<close>

section \<open>Keys\<close>

lemma dict_by_id_snoc: "dict_by_id (fs @ [f]) = (dict_by_id fs)(facility_id (identity f) \<mapsto> f)"
  by (simp add: dict_by_id_def)

lemma dict_by_id_Nil: "dict_by_id [] = Map.empty"
  by (simp add: dict_by_id_def)

lemma dict_by_id_Some: "dict_by_id fs k = Some f \<Longrightarrow> f \<in> set fs \<and> facility_id (identity f) = k"
  by (induction fs rule: rev_induct) (auto simp: dict_by_id_snoc dict_by_id_Nil split: if_splits)

lemma dict_by_id_None: "dict_by_id fs k = None \<longleftrightarrow> k \<notin> set (map (facility_id \<circ> identity) fs)"
  by (induction fs rule: rev_induct) (auto simp: dict_by_id_snoc dict_by_id_Nil)

lemma dict_by_id_distinct:
  "distinct (map (facility_id \<circ> identity) fs) \<Longrightarrow> f \<in> set fs \<Longrightarrow> dict_by_id fs (facility_id (identity f)) = Some f"
  by (induction fs rule: rev_induct) (auto simp: dict_by_id_snoc image_iff)

lemma set_pool_keys:
  "set (pool_keys curated scraped) =
     set (map (facility_id \<circ> identity) curated) \<union> set (map (facility_id \<circ> identity) scraped)"
  by (simp add: pool_keys_def)

lemma pool_keys_sorted: "sorted_wrt (<) (pool_keys curated scraped)"
  by (simp only: pool_keys_def strict_sorted_list_of_set)

lemma base_of_pool:
  assumes "k \<in> set (pool_keys curated scraped)"
  obtains base where "base_of (pool_sources curated scraped k) = Inr base" "facility_id (identity base) = k"
proof (cases "dict_by_id curated k")
  case (Some f)
  then show ?thesis using dict_by_id_Some that by (fastforce simp: base_of_def pool_sources_def)
next
  case None
  with assms have "k \<in> set (map (facility_id \<circ> identity) scraped)" by (auto simp: set_pool_keys dict_by_id_None)
  then obtain f where "dict_by_id scraped k = Some f"
    using dict_by_id_None [of scraped k] by (cases "dict_by_id scraped k") auto
  with None show ?thesis using dict_by_id_Some that by (fastforce simp: base_of_def pool_sources_def)
qed

section \<open>The fold of one pool\<close>

lemma fold_pool_Inr:
  assumes "base_of bs = Inr base" "fold_pool bs = Inr (f, ns)"
  obtains bsn bn schedule where "merge_basins bs = Inr (bsn, bn, schedule)"
    "f = (fold (apply_aspect bs) ASPECTS base)
       \<lparr>basins := bsn,
        provenance_of := (case bs SCRAPED of Some sf \<Rightarrow> if schedule then provenance_of sf else provenance_of base
          | None \<Rightarrow> provenance_of base)\<rparr>"
proof -
  from assms obtain bsn bn schedule where m: "merge_basins bs = Inr (bsn, bn, schedule)"
    by (auto simp: fold_pool_def Let_def split: sum.splits prod.splits)
  have p: "provenance_of (fold (apply_aspect bs) ASPECTS base) = provenance_of base"
    by (simp add: fold_aspects_eq)
  show ?thesis
    by (rule that [OF m]) (use assms m p in \<open>auto simp: fold_pool_def Let_def split: option.splits if_splits\<close>)
qed

lemma fold_pool_identity:
  assumes "base_of bs = Inr base" "fold_pool bs = Inr (f, ns)"
  shows "identity f = identity base" "address f = address base"
proof -
  obtain bsn bn schedule where "f = (fold (apply_aspect bs) ASPECTS base)
       \<lparr>basins := bsn,
        provenance_of := (case bs SCRAPED of Some sf \<Rightarrow> if schedule then provenance_of sf else provenance_of base
          | None \<Rightarrow> provenance_of base)\<rparr>"
    using fold_pool_Inr [OF assms] by blast
  then show "identity f = identity base" "address f = address base" by (simp_all add: fold_aspects_eq)
qed

lemma fold_pools_Inr:
  "fold_pools curated scraped ks = Inr c \<Longrightarrow>
   list_all2 (\<lambda>k f. \<exists>ns. fold_pool (pool_sources curated scraped k) = Inr (f, ns)) ks (co_facilities c)"
  by (induction ks arbitrary: c) (auto split: sum.splits prod.splits)

lemma fold_pools_Inl_iff:
  "(\<exists>e. fold_pools curated scraped ks = Inl e) \<longleftrightarrow> (\<exists>k \<in> set ks. \<exists>e. fold_pool (pool_sources curated scraped k) = Inl e)"
  by (induction ks) (auto split: sum.splits prod.splits)

lemma compose_member:
  assumes "compose_facilities curated scraped = Inr c" "f \<in> set (co_facilities c)"
  obtains k ns base where "k \<in> set (pool_keys curated scraped)"
    "fold_pool (pool_sources curated scraped k) = Inr (f, ns)"
    "base_of (pool_sources curated scraped k) = Inr base" "facility_id (identity f) = k"
proof -
  have "list_all2 (\<lambda>k f. \<exists>ns. fold_pool (pool_sources curated scraped k) = Inr (f, ns))
      (pool_keys curated scraped) (co_facilities c)"
    using assms(1) fold_pools_Inr by (simp add: compose_facilities_def)
  then obtain k ns where k: "k \<in> set (pool_keys curated scraped)"
    and f: "fold_pool (pool_sources curated scraped k) = Inr (f, ns)"
    using assms(2) unfolding list_all2_conv_all_nth by (metis in_set_conv_nth)
  obtain base where b: "base_of (pool_sources curated scraped k) = Inr base" "facility_id (identity base) = k"
    using base_of_pool [OF k] by blast
  have "facility_id (identity f) = k" using fold_pool_identity(1) [OF b(1) f] b(2) by simp
  with k f b(1) show ?thesis by (rule that)
qed

section \<open>A concrete pool\<close>

definition ex_page_basin :: basin where
  "ex_page_basin = \<lparr>bn_id = u ''hauptbecken'', bn_name = u ''Hauptbecken'', bn_rules = [ex_rule], bn_exceptions = [],
     bn_kind = BASIN_OTHER, bn_dimensions = None, bn_lanes = None, nominal_temp_c = None, measured_temp_c = None,
     diving_platforms_m = [], physical_source = CURATED_PHYSICALS, lane_plan_source_of = None, lane_plan_of = None\<rparr>"

abbreviation ex_curated :: facility where
  "ex_curated \<equiv> ex_facility (u ''a'') []"

abbreviation ex_scraped :: facility where
  "ex_scraped \<equiv> ex_facility (u ''a'') [ex_page_basin]"

lemma ex_fields:
  "facility_id (identity (ex_facility fid bs)) = fid" "basins (ex_facility fid bs) = bs"
  by (simp_all add: ex_facility_def ex_identity_def)

lemma ex_dict: "dict_by_id [ex_facility fid bs] fid = Some (ex_facility fid bs)"
  by (simp add: dict_by_id_def ex_fields)

lemma ex_composes:
  obtains c f where "compose_facilities [ex_curated] [ex_scraped] = Inr c" "co_facilities c = [f]"
    "facility_id (identity f) = u ''a''"
proof -
  let ?bs = "pool_sources [ex_curated] [ex_scraped] (u ''a'')"
  have src: "?bs CURATED = Some ex_curated" "?bs SCRAPED = Some ex_scraped"
    by (simp_all add: pool_sources_def ex_dict)
  then have base: "base_of ?bs = Inr ex_curated" by (simp add: base_of_def)
  have rules: "bn_rules ex_page_basin \<noteq> []" by (simp add: ex_page_basin_def)
  have "\<exists>r. fold_pool ?bs = Inr r"
    using src rules by (simp add: fold_pool_def base Let_def merge_basins_def source_basins_def has_schedule_def
        carry_bindings_def ex_fields split: option.splits)
  then obtain f ns where f: "fold_pool ?bs = Inr (f, ns)" by auto
  have "pool_keys [ex_curated] [ex_scraped] = [u ''a'']" by (simp add: pool_keys_def ex_fields)
  with f have "compose_facilities [ex_curated] [ex_scraped] = Inr \<lparr>co_facilities = [f], co_notes = ns\<rparr>"
    by (simp add: compose_facilities_def)
  moreover have "facility_id (identity f) = u ''a''" using fold_pool_identity(1) [OF base f] by (simp add: ex_fields)
  ultimately show ?thesis using that by simp
qed

text \<open>
  the fold yields exactly one facility per pool: the ids of the result are the ids
  that occur in either input, each once, in ascending order, so a re-run yields equal rows.
\<close>

theorem compose_one_per_pool:
  assumes "compose_facilities curated scraped = Inr c"
  shows "let ids = map (facility_id \<circ> identity) (co_facilities c)
    in sorted_wrt (<) ids \<and>
       set ids = (facility_id \<circ> identity) ` set curated \<union> (facility_id \<circ> identity) ` set scraped"
proof -
  have "list_all2 (\<lambda>k f. \<exists>ns. fold_pool (pool_sources curated scraped k) = Inr (f, ns))
      (pool_keys curated scraped) (co_facilities c)"
    using assms fold_pools_Inr by (simp add: compose_facilities_def)
  then have "list_all2 (\<lambda>k f. facility_id (identity f) = k) (pool_keys curated scraped) (co_facilities c)"
  proof (rule list.rel_mono_strong)
    fix k f assume k: "k \<in> set (pool_keys curated scraped)"
      and f: "\<exists>ns. fold_pool (pool_sources curated scraped k) = Inr (f, ns)"
    obtain base where b: "base_of (pool_sources curated scraped k) = Inr base" "facility_id (identity base) = k"
      using base_of_pool [OF k] by blast
    from f obtain ns where "fold_pool (pool_sources curated scraped k) = Inr (f, ns)" ..
    from fold_pool_identity(1) [OF b(1) this] b(2) show "facility_id (identity f) = k" by simp
  qed
  then have "map (facility_id \<circ> identity) (co_facilities c) = pool_keys curated scraped"
    by (auto simp: list_all2_conv_all_nth intro: nth_equalityI)
  then show ?thesis using pool_keys_sorted set_pool_keys by (simp add: Let_def)
qed

theorem compose_one_per_pool_witness:
  "\<exists>c. compose_facilities [ex_curated] [ex_scraped] = Inr c \<and>
     set (map (facility_id \<circ> identity) (co_facilities c)) = {u ''a''}"
proof -
  obtain c f where "compose_facilities [ex_curated] [ex_scraped] = Inr c" by (rule ex_composes)
  with compose_one_per_pool [OF this] show ?thesis by (simp add: Let_def ex_fields)
qed

section \<open>Fields\<close>

text \<open>
  C22: aspects merge one by one and the curated fact wins: in a pool both sources know,
  each of the ten mergeable fields is the curated value when that is a fact at all (a known
  admission, a non-empty list, a stated value) and the scraped value otherwise; name, id and
  address are the curated ones.
\<close>

theorem compose_curated_wins_per_aspect:
  assumes "compose_facilities curated scraped = Inr c" "f \<in> set (co_facilities c)"
    "dict_by_id curated (facility_id (identity f)) = Some cf"
    "dict_by_id scraped (facility_id (identity f)) = Some sf"
  shows "identity f = identity cf \<and> address f = address cf \<and>
    admission_of f = (if admission_of cf \<noteq> Unknown then admission_of cf else admission_of sf) \<and>
    closures f = (if closures cf \<noteq> [] then closures cf else closures sf) \<and>
    notices f = (if notices cf \<noteq> [] then notices cf else notices sf) \<and>
    geo f = (if geo cf \<noteq> None then geo cf else geo sf) \<and>
    features f = (if features cf \<noteq> [] then features cf else features sf) \<and>
    lockers f = (if lockers cf \<noteq> [] then lockers cf else lockers sf) \<and>
    rentals f = (if rentals cf \<noteq> [] then rentals cf else rentals sf) \<and>
    public_holiday_policy f = (if public_holiday_policy cf \<noteq> None then public_holiday_policy cf else public_holiday_policy sf) \<and>
    last_admission_before f = (if last_admission_before cf \<noteq> None then last_admission_before cf else last_admission_before sf) \<and>
    operating_season f = (if operating_season cf \<noteq> None then operating_season cf else operating_season sf)"
proof -
  obtain k ns base where f: "fold_pool (pool_sources curated scraped k) = Inr (f, ns)"
    and b: "base_of (pool_sources curated scraped k) = Inr base" and k: "facility_id (identity f) = k"
    using compose_member [OF assms(1,2)] by blast
  have src: "pool_sources curated scraped k CURATED = Some cf" "pool_sources curated scraped k SCRAPED = Some sf"
    using assms(3,4) k by (simp_all add: pool_sources_def)
  with b have base: "base = cf" by (simp add: base_of_def)
  obtain bsn bn schedule where "f = (fold (apply_aspect (pool_sources curated scraped k)) ASPECTS base)
       \<lparr>basins := bsn,
        provenance_of := (case pool_sources curated scraped k SCRAPED of
            Some sf \<Rightarrow> if schedule then provenance_of sf else provenance_of base
          | None \<Rightarrow> provenance_of base)\<rparr>"
    using fold_pool_Inr [OF b f] by blast
  note eq = this [unfolded base fold_aspects_eq]
  show ?thesis by (simp add: eq aspect_merges [OF src] is_known_admission_def del: not_None_eq)
qed

theorem compose_curated_wins_per_aspect_witness:
  "\<exists>c f. compose_facilities [ex_curated] [ex_scraped] = Inr c \<and> co_facilities c = [f] \<and> identity f = identity ex_curated"
proof -
  obtain c f where c: "compose_facilities [ex_curated] [ex_scraped] = Inr c" "co_facilities c = [f]"
    "facility_id (identity f) = u ''a''" by (rule ex_composes)
  with compose_curated_wins_per_aspect [OF c(1), of f ex_curated ex_scraped] show ?thesis by (simp add: ex_dict)
qed

text \<open>
  a pool only one source knows passes through unchanged, field by field, including
  its provenance and its basins.
\<close>

theorem compose_single_source_unchanged:
  assumes "compose_facilities curated scraped = Inr c" "f \<in> set (co_facilities c)"
    "dict_by_id curated (facility_id (identity f)) = None \<or> dict_by_id scraped (facility_id (identity f)) = None"
  shows "Some f = (case dict_by_id curated (facility_id (identity f)) of
      Some cf \<Rightarrow> Some cf | None \<Rightarrow> dict_by_id scraped (facility_id (identity f)))"
proof -
  obtain k ns base where f: "fold_pool (pool_sources curated scraped k) = Inr (f, ns)"
    and b: "base_of (pool_sources curated scraped k) = Inr base" and k: "facility_id (identity f) = k"
    using compose_member [OF assms(1,2)] by blast
  let ?bs = "pool_sources curated scraped k"
  obtain bsn bn schedule where m: "merge_basins ?bs = Inr (bsn, bn, schedule)"
    and eq: "f = (fold (apply_aspect ?bs) ASPECTS base)
       \<lparr>basins := bsn,
        provenance_of := (case ?bs SCRAPED of Some sf \<Rightarrow> if schedule then provenance_of sf else provenance_of base
          | None \<Rightarrow> provenance_of base)\<rparr>"
    using fold_pool_Inr [OF b f] by blast
  show ?thesis
  proof (cases "dict_by_id curated k")
    case (Some cf)
    with assms(3) k have src: "?bs CURATED = Some cf" "?bs SCRAPED = None" by (simp_all add: pool_sources_def)
    then have "base = cf" using b by (simp add: base_of_def)
    moreover have "bsn = basins cf"
      using m src by (auto simp: merge_basins_def source_basins_def has_schedule_def Let_def split: if_splits)
    ultimately show ?thesis using eq src Some k by (simp add: fold_aspects_eq merged_value_def)
  next
    case None
    then have cur: "?bs CURATED = None" by (simp add: pool_sources_def)
    with b obtain sf where src: "?bs SCRAPED = Some sf" and base: "base = sf"
      by (auto simp: base_of_def split: option.splits)
    have "bsn = basins sf"
      using m src cur by (auto simp: merge_basins_def source_basins_def carry_bindings_def bound_basins_def Let_def
          has_schedule_def split: if_splits sum.splits list.splits)
    then have "f = sf" using eq src cur base by (simp add: fold_aspects_eq merged_value_def)
    with None k src show ?thesis by (simp add: pool_sources_def)
  qed
qed

theorem compose_single_source_unchanged_witness:
  "\<exists>c f. compose_facilities [ex_curated] [] = Inr c \<and> co_facilities c = [f] \<and> f = ex_curated"
proof -
  let ?bs = "pool_sources [ex_curated] [] (u ''a'')"
  have src: "?bs CURATED = Some ex_curated" "?bs SCRAPED = None"
    by (simp_all add: pool_sources_def ex_dict dict_by_id_Nil)
  then have base: "base_of ?bs = Inr ex_curated" by (simp add: base_of_def)
  have "\<exists>r. fold_pool ?bs = Inr r"
    using src by (simp add: fold_pool_def base Let_def merge_basins_def source_basins_def has_schedule_def ex_fields)
  then obtain f ns where f: "fold_pool ?bs = Inr (f, ns)" by auto
  have "pool_keys [ex_curated] [] = [u ''a'']" by (simp add: pool_keys_def ex_fields)
  with f have c: "compose_facilities [ex_curated] [] = Inr \<lparr>co_facilities = [f], co_notes = ns\<rparr>"
    by (simp add: compose_facilities_def)
  have "facility_id (identity f) = u ''a''" using fold_pool_identity(1) [OF base f] by (simp add: ex_fields)
  with compose_single_source_unchanged [OF c, of f] c show ?thesis by (simp add: ex_dict dict_by_id_Nil)
qed

section \<open>Timetables, lane bindings and provenance\<close>

text \<open>
  the timetable and the provenance of a pool both sources know always come from the
  same source: the curated one whenever it has rules, else the scraped one if it has, and in
  that case every curated basin bound to a lane plan the scrape does not itself declare is
  carried over with nothing but its rules replaced by the scraped timetable.
\<close>

theorem compose_schedule_and_provenance:
  assumes "compose_facilities curated scraped = Inr c" "f \<in> set (co_facilities c)"
    "dict_by_id curated (facility_id (identity f)) = Some cf"
    "dict_by_id scraped (facility_id (identity f)) = Some sf"
  shows "if has_schedule (basins cf) then basins f = basins cf \<and> provenance_of f = provenance_of cf
    else if has_schedule (basins sf) then provenance_of f = provenance_of sf \<and>
      (\<exists>r. [r] = filter (\<lambda>b. bn_rules b \<noteq> []) (basins sf) \<and>
        basins f = basins sf @ map (\<lambda>b. b\<lparr>bn_rules := bn_rules r\<rparr>) (bound_basins (basins sf) (basins cf)))
    else provenance_of f = provenance_of cf \<and> \<not> has_schedule (basins f)"
proof -
  obtain k ns base where f: "fold_pool (pool_sources curated scraped k) = Inr (f, ns)"
    and b: "base_of (pool_sources curated scraped k) = Inr base" and k: "facility_id (identity f) = k"
    using compose_member [OF assms(1,2)] by blast
  let ?bs = "pool_sources curated scraped k"
  have src: "?bs CURATED = Some cf" "?bs SCRAPED = Some sf"
    using assms(3,4) k by (simp_all add: pool_sources_def)
  with b have base: "base = cf" by (simp add: base_of_def)
  obtain bsn bn schedule where m: "merge_basins ?bs = Inr (bsn, bn, schedule)"
    and eq: "f = (fold (apply_aspect ?bs) ASPECTS base)
       \<lparr>basins := bsn,
        provenance_of := (case ?bs SCRAPED of Some sf \<Rightarrow> if schedule then provenance_of sf else provenance_of base
          | None \<Rightarrow> provenance_of base)\<rparr>"
    using fold_pool_Inr [OF b f] by blast
  from eq src base have fb: "basins f = bsn" and fp: "provenance_of f = (if schedule then provenance_of sf else provenance_of cf)"
    by simp_all
  have one: "\<exists>r. [r] = filter (\<lambda>b. bn_rules b \<noteq> []) (basins sf) \<and>
        bsn = basins sf @ map (\<lambda>b. b\<lparr>bn_rules := bn_rules r\<rparr>) (bound_basins (basins sf) (basins cf)) \<and> schedule"
    if s: "\<not> has_schedule (basins cf)" "has_schedule (basins sf)"
  proof -
    from m src s have carry: "carry_bindings (basins sf) (basins cf) = Inr bsn" and schedule
      by (auto simp: merge_basins_def source_basins_def Let_def split: sum.splits)
    from s(2) obtain r rs where r: "filter (\<lambda>b. bn_rules b \<noteq> []) (basins sf) = r # rs"
      by (cases "filter (\<lambda>b. bn_rules b \<noteq> []) (basins sf)") (auto simp: has_schedule_def filter_empty_conv)
    with carry have "rs = []" by (auto simp: carry_bindings_def Let_def split: if_splits)
    with r carry \<open>schedule\<close> show ?thesis by (auto simp: carry_bindings_def Let_def split: if_splits)
  qed
  show ?thesis
    using m src fb fp one
    by (auto simp: merge_basins_def source_basins_def Let_def split: if_splits)
qed

theorem compose_schedule_and_provenance_witness:
  "\<exists>c f. compose_facilities [ex_curated] [ex_scraped] = Inr c \<and> co_facilities c = [f] \<and>
     provenance_of f = provenance_of ex_scraped \<and> basins f = [ex_page_basin]"
proof -
  obtain c f where c: "compose_facilities [ex_curated] [ex_scraped] = Inr c" "co_facilities c = [f]"
    "facility_id (identity f) = u ''a''" by (rule ex_composes)
  have "bn_rules ex_page_basin \<noteq> []" by (simp add: ex_page_basin_def)
  with c compose_schedule_and_provenance [OF c(1), of f ex_curated ex_scraped] show ?thesis
    by (auto simp: ex_dict ex_fields has_schedule_def bound_basins_def)
qed

definition ambiguous_timetable :: "facility list \<Rightarrow> facility list \<Rightarrow> pool_id \<Rightarrow> bool" where
  "ambiguous_timetable curated scraped k \<longleftrightarrow>
     (\<forall>cf. dict_by_id curated k = Some cf \<longrightarrow> \<not> has_schedule (basins cf)) \<and>
     (\<exists>sf. dict_by_id scraped k = Some sf \<and> 1 < length (filter (\<lambda>b. bn_rules b \<noteq> []) (basins sf)))"

lemma fold_pool_Inl:
  assumes "k \<in> set (pool_keys curated scraped)"
  shows "(\<exists>e. fold_pool (pool_sources curated scraped k) = Inl e) \<longleftrightarrow> ambiguous_timetable curated scraped k"
    "fold_pool (pool_sources curated scraped k) = Inl e \<Longrightarrow> e = ValueError"
proof -
  let ?bs = "pool_sources curated scraped k"
  obtain base where b: "base_of ?bs = Inr base" using base_of_pool [OF assms] by blast
  have fold_iff: "fold_pool ?bs = Inl e \<longleftrightarrow> merge_basins ?bs = Inl e" for e
    using b by (auto simp: fold_pool_def Let_def split: sum.splits prod.splits)
  have sched: "1 < length (filter (\<lambda>b. bn_rules b \<noteq> []) bs) \<Longrightarrow> has_schedule bs" for bs
    by (cases "filter (\<lambda>b. bn_rules b \<noteq> []) bs") (auto simp: has_schedule_def filter_eq_Cons_iff)
  have merge: "merge_basins ?bs = Inl e \<longleftrightarrow> e = ValueError \<and> ambiguous_timetable curated scraped k" for e
    using sched
    by (auto simp: merge_basins_def carry_bindings_def source_basins_def pool_sources_def Let_def has_schedule_def
        ambiguous_timetable_def split: option.splits list.splits sum.splits)
  show "(\<exists>e. fold_pool ?bs = Inl e) \<longleftrightarrow> ambiguous_timetable curated scraped k" by (simp add: fold_iff merge)
  show "fold_pool ?bs = Inl e \<Longrightarrow> e = ValueError" by (simp add: fold_iff merge)
qed

lemma fold_pools_error: "fold_pools curated scraped ks = Inl e \<Longrightarrow>
    \<exists>k \<in> set ks. fold_pool (pool_sources curated scraped k) = Inl e"
  by (induction ks) (auto split: sum.splits prod.splits)

text \<open>
  C23: composing raises exactly when some pool would have to inherit an ambiguous
  timetable: its curated basins (if any) have no rules and two or more of its scraped basins
  have. The error is a \<open>ValueError\<close>.
\<close>

theorem compose_raises_iff_ambiguous:
  "case compose_facilities curated scraped of
     Inl e \<Rightarrow> e = ValueError \<and> (\<exists>k. ambiguous_timetable curated scraped k)
   | Inr c \<Rightarrow> (\<nexists>k. ambiguous_timetable curated scraped k)"
proof -
  have key: "k \<in> set (pool_keys curated scraped)" if "ambiguous_timetable curated scraped k" for k
    using that dict_by_id_None [of scraped k] by (auto simp: ambiguous_timetable_def set_pool_keys)
  show ?thesis
  proof (cases "compose_facilities curated scraped")
    case (Inl e)
    then obtain k where k: "k \<in> set (pool_keys curated scraped)" "fold_pool (pool_sources curated scraped k) = Inl e"
      using fold_pools_error [of curated scraped "pool_keys curated scraped" e] by (auto simp: compose_facilities_def)
    with fold_pool_Inl [OF k(1)] Inl show ?thesis by auto
  next
    case (Inr c)
    then have "\<not> (\<exists>k \<in> set (pool_keys curated scraped). \<exists>e. fold_pool (pool_sources curated scraped k) = Inl e)"
      using fold_pools_Inl_iff [of curated scraped "pool_keys curated scraped"] by (simp add: compose_facilities_def)
    with Inr key fold_pool_Inl(1) show ?thesis by auto
  qed
qed

end
