(* ===== verification/Json.thy ===== *)
theory Json
  imports Errors
begin

text \<open>
  The JSON values the program moves around, and the builtin conversions it applies to them.
  The text of a JSON file is represented by the value \<open>json.loads\<close> reads from it, or by
  the fact that it reads none or is not even UTF-8; an object is its list of members, which \<open>json.loads\<close> makes
  distinct, and \<open>sort_keys=True\<close> orders.
\<close>

datatype json_text = JsonText json | BadText | NotUtf8

text \<open>\<open>path.read_text(encoding="utf-8")\<close>, then \<open>json.loads\<close>.\<close>

fun read_text :: "json_text \<Rightarrow> py_error + json_text" where
  "read_text (JsonText j) = Inr (JsonText j)"
| "read_text BadText = Inr BadText"
| "read_text NotUtf8 = Inl ValueError"

fun loads :: "json_text \<Rightarrow> py_error + json" where
  "loads (JsonText j) = Inr j"
| "loads BadText = Inl ValueError"
| "loads NotUtf8 = Inl ValueError"

primrec sort_keys :: "json \<Rightarrow> json" where
  "sort_keys JNull = JNull"
| "sort_keys (JBool b) = JBool b"
| "sort_keys (JInt n) = JInt n"
| "sort_keys (JFloat x) = JFloat x"
| "sort_keys (JStr s) = JStr s"
| "sort_keys (JList xs) = JList (map sort_keys xs)"
| "sort_keys (JObj ms) = JObj (sort_key fst (map (map_prod id sort_keys) ms))"

text \<open>\<open>obj[key]\<close> and \<open>obj.get(key, default)\<close> of a decoded document.\<close>

definition get_item :: "json \<Rightarrow> pystr \<Rightarrow> py_error + json" where
  "get_item j k = (case j of
     JObj ms \<Rightarrow> (case map_of ms k of Some v \<Rightarrow> Inr v | None \<Rightarrow> Inl KeyError)
   | _ \<Rightarrow> Inl TypeError)"

definition get_default :: "json \<Rightarrow> pystr \<Rightarrow> json \<Rightarrow> py_error + json" where
  "get_default j k d = (case j of
     JObj ms \<Rightarrow> Inr (case map_of ms k of Some v \<Rightarrow> v | None \<Rightarrow> d)
   | _ \<Rightarrow> Inl AttributeError)"

text \<open>\<open>str(x)\<close>: a string is itself, any other value its \<open>repr\<close>.\<close>

definition str_json :: "(json \<Rightarrow> pystr) \<Rightarrow> json \<Rightarrow> pystr" where
  "str_json repr j = (case j of JStr s \<Rightarrow> s | _ \<Rightarrow> repr j)"

text \<open>\<open>int(s)\<close> of a decimal literal: white space around it, a sign, single underscores between digits.\<close>

fun int_digits :: "bool \<Rightarrow> int \<Rightarrow> pystr \<Rightarrow> int option" where
  "int_digits after_digit acc [] = (if after_digit then Some acc else None)"
| "int_digits after_digit acc (c # cs) =
     (if 48 \<le> c \<and> c \<le> 57 then int_digits True (10 * acc + (int c - 48)) cs
      else if c = 95 \<and> after_digit then (if cs = [] then None else int_digits False acc cs)
      else None)"

definition int_of_str :: "pystr \<Rightarrow> int option" where
  "int_of_str s =
     (case py_strip s of
        [] \<Rightarrow> None
      | c # cs \<Rightarrow>
          if c = 45 then map_option uminus (int_digits False 0 cs)
          else if c = 43 then int_digits False 0 cs
          else int_digits False 0 (c # cs))"

fun int_json :: "json \<Rightarrow> py_error + int" where
  "int_json (JInt n) = Inr n"
| "int_json (JBool b) = Inr (if b then 1 else 0)"
| "int_json (JFloat x) = Inr (if x < 0 then - \<lfloor>- x\<rfloor> else \<lfloor>x\<rfloor>)"
| "int_json (JStr s) = (case int_of_str s of Some n \<Rightarrow> Inr n | None \<Rightarrow> Inl ValueError)"
| "int_json JNull = Inl TypeError"
| "int_json (JList xs) = Inl TypeError"
| "int_json (JObj ms) = Inl TypeError"

section \<open>Sorting members\<close>

lemma map_of_sort_key:
  assumes "distinct (map fst ms)"
  shows "map_of (sort_key fst ms) = map_of ms"
proof (rule map_of_eqI)
  show "set (map fst (sort_key fst ms)) = set (map fst ms)" by simp
next
  show "\<forall>k \<in> set (map fst (sort_key fst ms)). map_of (sort_key fst ms) k = map_of ms k"
  proof
    fix k assume "k \<in> set (map fst (sort_key fst ms))"
    then obtain v where v: "(k, v) \<in> set ms" by auto
    have "distinct (map fst (sort_key fst ms))"
      using assms mset_eq_imp_distinct_iff [of "map fst (sort_key fst ms)" "map fst ms"] by (simp add: mset_map)
    with v assms show "map_of (sort_key fst ms) k = map_of ms k" by simp
  qed
qed

lemma sort_key_perm_eq:
  assumes "mset ms = mset ms'" "distinct (map fst ms)"
  shows "sort_key fst ms = sort_key fst (ms' :: ('k::linorder \<times> 'v) list)"
proof (rule properties_for_sort_key)
  show "mset (sort_key fst ms') = mset ms" using assms(1) by simp
  show "sorted (map fst (sort_key fst ms'))" by (rule sorted_sort_key)
  fix k assume k: "k \<in> set (sort_key fst ms')"
  have one: "filter (\<lambda>x. fst k = fst x) xs = [k]" if "mset xs = mset ms" for xs :: "('k \<times> 'v) list"
  proof -
    have "distinct (map fst xs)" using that assms(2) by (metis mset_map mset_eq_imp_distinct_iff)
    moreover have "k \<in> set xs" using k that assms(1) by (metis mset_eq_setD mset_sort)
    ultimately show ?thesis by (induction xs) (auto simp: filter_empty_conv)
  qed
  show "filter (\<lambda>x. fst k = fst x) (sort_key fst ms') = filter (\<lambda>x. fst k = fst x) ms"
    using one [of ms] one [of "sort_key fst ms'"] assms(1) by simp
qed

lemma map_of_sorted_members:
  assumes "distinct (map fst ms)"
  shows "map_of (sort_key fst (map (map_prod id sort_keys) ms)) k = map_option sort_keys (map_of ms k)"
proof -
  let ?ms = "map (map_prod id sort_keys) ms"
  have "distinct (map fst ?ms)" using assms by (simp add: comp_def)
  then have "map_of (sort_key fst ?ms) = map_of ?ms" by (rule map_of_sort_key)
  moreover have "map_of ?ms k = map_option sort_keys (map_of ms k)"
    by (induction ms) auto
  ultimately show ?thesis by simp
qed

lemma get_item_sorted:
  "distinct (map fst ms) \<Longrightarrow> get_item (sort_keys (JObj ms)) k =
     (case map_of ms k of Some v \<Rightarrow> Inr (sort_keys v) | None \<Rightarrow> Inl KeyError)"
  by (simp add: get_item_def map_of_sorted_members split: option.splits)

lemma get_default_sorted:
  "distinct (map fst ms) \<Longrightarrow> get_default (sort_keys (JObj ms)) k d =
     Inr (case map_of ms k of Some v \<Rightarrow> sort_keys v | None \<Rightarrow> d)"
  by (simp add: get_default_def map_of_sorted_members split: option.splits)

end
