(* ===== verification/Iso.thy ===== *)
theory Iso
  imports PyStr PyTime
begin

text \<open>
  \<open>datetime.isoformat\<close> and \<open>datetime.fromisoformat\<close>. The printed form (and its
  \<open>Z\<close> variant) is parsed here; the other spellings that the runtime's parser accepts are
  outside the program's own output, and what it makes of them is the argument \<open>other\<close>.
  Printing and parsing an aware datetime gives back its wall clock with its offset fixed.
\<close>

section \<open>Digits\<close>

definition d2 :: "nat \<Rightarrow> pystr" where
  "d2 n = [48 + n div 10 mod 10, 48 + n mod 10]"

definition d4 :: "nat \<Rightarrow> pystr" where
  "d4 n = d2 (n div 100) @ d2 (n mod 100)"

definition d6 :: "nat \<Rightarrow> pystr" where
  "d6 n = d2 (n div 10000) @ d4 (n mod 10000)"

definition digit_val :: "nat \<Rightarrow> nat option" where
  "digit_val c = (if 48 \<le> c \<and> c \<le> 57 then Some (c - 48) else None)"

fun num_go :: "nat \<Rightarrow> pystr \<Rightarrow> nat option" where
  "num_go acc [] = Some acc"
| "num_go acc (c # cs) = (case digit_val c of Some v \<Rightarrow> num_go (10 * acc + v) cs | None \<Rightarrow> None)"

definition num :: "nat \<Rightarrow> pystr \<Rightarrow> (nat \<times> pystr) option" where
  "num k s = (if length s < k then None
     else case num_go 0 (take k s) of Some n \<Rightarrow> Some (n, drop k s) | None \<Rightarrow> None)"

lemma num_go_append: "num_go acc (xs @ ys) = (case num_go acc xs of Some n \<Rightarrow> num_go n ys | None \<Rightarrow> None)"
  by (induction xs arbitrary: acc) (auto split: option.splits)

lemma num_go_d2: "n < 100 \<Longrightarrow> num_go acc (d2 n) = Some (100 * acc + n)"
proof -
  assume "n < 100"
  then have "n div 10 < 10" by (simp add: less_mult_imp_div_less)
  then have "n div 10 \<le> 9" "n mod 10 \<le> 9" by simp_all
  then show ?thesis by (simp add: d2_def digit_val_def)
qed

lemma num_go_d4: "n < 10000 \<Longrightarrow> num_go acc (d4 n) = Some (10000 * acc + n)"
  by (simp add: d4_def num_go_append num_go_d2)

lemma num_go_d6: "n < 1000000 \<Longrightarrow> num_go acc (d6 n) = Some (1000000 * acc + n)"
  by (simp add: d6_def num_go_append num_go_d2 num_go_d4)

lemma d_lengths: "length (d2 n) = 2" "length (d4 n) = 4" "length (d6 n) = 6"
  by (simp_all add: d2_def d4_def d6_def)

lemma num_d2: "n < 100 \<Longrightarrow> num 2 (d2 n @ s) = Some (n, s)"
  by (simp add: num_def d_lengths num_go_d2)

lemma num_d4: "n < 10000 \<Longrightarrow> num 4 (d4 n @ s) = Some (n, s)"
  by (simp add: num_def d_lengths num_go_d4)

lemma num_d6: "n < 1000000 \<Longrightarrow> num 6 (d6 n @ s) = Some (n, s)"
  by (simp add: num_def d_lengths num_go_d6)

section \<open>Printing\<close>

definition iso_date :: "date \<Rightarrow> pystr" where
  "iso_date d = d4 (nat (year d)) @ [45] @ d2 (nat (month d)) @ [45] @ d2 (nat (day d))"

definition iso_hms :: "nat \<Rightarrow> nat \<Rightarrow> nat \<Rightarrow> nat \<Rightarrow> pystr" where
  "iso_hms h m s us = d2 h @ [58] @ d2 m @ [58] @ d2 s @ (if us = 0 then [] else [46] @ d6 us)"

text \<open>An offset prints its seconds and microseconds only when it has them.\<close>

definition iso_offset :: "int \<Rightarrow> pystr" where
  "iso_offset z =
     (let a = nat \<bar>z\<bar>; us = a mod 1000000; s = a div 1000000 mod 60; m = a div 60000000 mod 60; h = a div 3600000000
      in [if z < 0 then 45 else 43] @
         (if s = 0 \<and> us = 0 then d2 h @ [58] @ d2 m else iso_hms h m s us))"

definition isoformat :: "tzdb \<Rightarrow> datetime \<Rightarrow> pystr" where
  "isoformat db x =
     iso_date (dt_date x) @ [84] @
     iso_hms (hour (dt_time x)) (minute (dt_time x)) (second (dt_time x)) (microsecond (dt_time x)) @
     (if dt_tz x = None then [] else iso_offset (tz_offset db x (dt_tz x)))"

section \<open>Parsing\<close>

definition expect :: "nat \<Rightarrow> pystr \<Rightarrow> pystr option" where
  "expect c s = (case s of [] \<Rightarrow> None | x # xs \<Rightarrow> if x = c then Some xs else None)"

definition parse_date :: "pystr \<Rightarrow> (date \<times> pystr) option" where
  "parse_date s =
     (case num 4 s of None \<Rightarrow> None | Some (y, s) \<Rightarrow>
      (case expect 45 s of None \<Rightarrow> None | Some s \<Rightarrow>
      (case num 2 s of None \<Rightarrow> None | Some (m, s) \<Rightarrow>
      (case expect 45 s of None \<Rightarrow> None | Some s \<Rightarrow>
      (case num 2 s of None \<Rightarrow> None | Some (d, s) \<Rightarrow> Some (Date (int y) (int m) (int d), s))))))"

definition parse_fraction :: "pystr \<Rightarrow> (nat \<times> pystr) option" where
  "parse_fraction s = (case expect 46 s of None \<Rightarrow> Some (0, s) | Some s' \<Rightarrow> num 6 s')"

definition parse_hm :: "pystr \<Rightarrow> (nat \<times> nat \<times> pystr) option" where
  "parse_hm s =
     (case num 2 s of None \<Rightarrow> None | Some (h, s) \<Rightarrow>
      (case expect 58 s of None \<Rightarrow> None | Some s \<Rightarrow>
      (case num 2 s of None \<Rightarrow> None | Some (m, s) \<Rightarrow> Some (h, m, s))))"

definition parse_hms :: "pystr \<Rightarrow> (time \<times> pystr) option" where
  "parse_hms s =
     (case parse_hm s of None \<Rightarrow> None | Some (h, m, s) \<Rightarrow>
      (case expect 58 s of
         None \<Rightarrow> Some (Time h m 0 0, s)
       | Some s' \<Rightarrow>
           (case num 2 s' of None \<Rightarrow> None | Some (sec, s) \<Rightarrow>
           (case parse_fraction s of None \<Rightarrow> None | Some (us, s) \<Rightarrow> Some (Time h m sec us, s)))))"

definition parse_offset :: "pystr \<Rightarrow> tzinfo option option" where
  "parse_offset s =
     (case s of
        [] \<Rightarrow> Some None
      | c # cs \<Rightarrow>
          if c = 90 then (if cs = [] then Some (Some (FixedOffset 0)) else None)
          else if c = 43 \<or> c = 45 then
            (case parse_hms cs of
               Some (t, []) \<Rightarrow>
                 if valid_time t
                 then Some (Some (FixedOffset (if c = 45 then - time_us t else time_us t)))
                 else None
             | _ \<Rightarrow> None)
          else None)"

definition parse_iso :: "pystr \<Rightarrow> datetime option" where
  "parse_iso s =
     (case parse_date s of None \<Rightarrow> None | Some (d, s) \<Rightarrow>
      (case expect 84 s of None \<Rightarrow> None | Some s \<Rightarrow>
      (case parse_hms s of None \<Rightarrow> None | Some (t, s) \<Rightarrow>
      (case parse_offset s of None \<Rightarrow> None | Some tz \<Rightarrow>
         if valid_date d \<and> valid_time t then Some \<lparr>dt_date = d, dt_time = t, dt_tz = tz\<rparr> else None))))"

definition fromisoformat :: "(pystr \<Rightarrow> datetime option) \<Rightarrow> pystr \<Rightarrow> datetime option" where
  "fromisoformat other s = (case parse_iso s of Some x \<Rightarrow> Some x | None \<Rightarrow> other s)"

section \<open>Round trip\<close>

definition valid_datetime :: "tzdb \<Rightarrow> datetime \<Rightarrow> bool" where
  "valid_datetime db x \<longleftrightarrow> valid_date (dt_date x) \<and> valid_time (dt_time x) \<and>
     \<bar>tz_offset db x (dt_tz x)\<bar> < 86400000000"

text \<open>The same wall clock under its offset of that moment.\<close>

definition fix_offset :: "tzdb \<Rightarrow> datetime \<Rightarrow> datetime" where
  "fix_offset db x = x\<lparr>dt_tz := (case dt_tz x of None \<Rightarrow> None | Some z \<Rightarrow> Some (FixedOffset (tz_offset db x (Some z))))\<rparr>"

lemma expect_Cons [simp]: "expect c (x # xs) = (if x = c then Some xs else None)" "expect c [] = None"
  by (simp_all add: expect_def)

lemma days_in_month_le: "days_in_month y m \<le> 31"
  by (simp add: days_in_month_def)

lemma parse_date_iso: "valid_date d \<Longrightarrow> parse_date (iso_date d @ s) = Some (d, s)"
proof -
  assume v: "valid_date d"
  then have "nat (year d) < 10000" "nat (month d) < 100" "nat (day d) < 100" "0 \<le> year d" "0 \<le> month d" "0 \<le> day d"
    using days_in_month_le [of "year d" "month d"] by (auto simp: valid_date_def)
  then show ?thesis by (simp add: parse_date_def iso_date_def num_d4 num_d2)
qed

lemma d2_not_sep: "d2 n \<noteq> []" "hd (d2 n) \<ge> 48"
  by (simp_all add: d2_def)

lemma parse_hm_iso: "h < 100 \<Longrightarrow> m < 100 \<Longrightarrow> parse_hm (d2 h @ [58] @ d2 m @ s) = Some (h, m, s)"
  by (simp add: parse_hm_def num_d2)

lemma parse_hms_iso:
  assumes "h < 100" "m < 100" "sec < 100" "us < 1000000" "s = [] \<or> hd s \<noteq> 46"
  shows "parse_hms (iso_hms h m sec us @ s) = Some (Time h m sec us, s)"
proof -
  have "parse_fraction ((if us = 0 then [] else [46] @ d6 us) @ s) = Some (us, s)"
    using assms(4,5) by (cases s) (auto simp: parse_fraction_def num_d6 num_d6 [where s = "[]", simplified])
  then show ?thesis
    using assms(1-3) by (simp add: parse_hms_def iso_hms_def parse_hm_def num_d2 split: option.splits)
qed

lemma parse_hms_hm:
  "h < 100 \<Longrightarrow> m < 100 \<Longrightarrow> parse_hms (d2 h @ [58] @ d2 m) = Some (Time h m 0 0, [])"
  using parse_hm_iso [of h m "[]"] by (simp add: parse_hms_def)

lemma split_offset:
  fixes a :: nat
  assumes "a < 86400000000"
  shows "valid_time (Time (a div 3600000000) (a div 60000000 mod 60) (a div 1000000 mod 60) (a mod 1000000))"
    "time_us (Time (a div 3600000000) (a div 60000000 mod 60) (a div 1000000 mod 60) (a mod 1000000)) = int a"
proof -
  have "a div 3600000000 < 24" using assms by (simp add: less_mult_imp_div_less)
  then show "valid_time (Time (a div 3600000000) (a div 60000000 mod 60) (a div 1000000 mod 60) (a mod 1000000))"
    by (simp add: valid_time_def)
  define b where "b = a div 1000000"
  have a: "a = b * 1000000 + a mod 1000000" by (simp add: b_def)
  have e: "a div 60000000 = b div 60" "a div 3600000000 = b div 60 div 60"
    by (simp_all add: b_def div_mult2_eq [symmetric])
  have "b = ((b div 60 div 60) * 60 + b div 60 mod 60) * 60 + b mod 60" by simp
  then have "a = (((b div 60 div 60) * 60 + b div 60 mod 60) * 60 + b mod 60) * 1000000 + a mod 1000000"
    using a by simp
  then show "time_us (Time (a div 3600000000) (a div 60000000 mod 60) (a div 1000000 mod 60) (a mod 1000000)) = int a"
    unfolding e b_def [symmetric] time_us_def time.sel by (metis (no_types) of_nat_add of_nat_mult of_nat_numeral)
qed

lemma parse_offset_iso:
  assumes "\<bar>z\<bar> < 86400000000"
  shows "parse_offset (iso_offset z) = Some (Some (FixedOffset z))"
proof -
  define a where "a = nat \<bar>z\<bar>"
  have a: "a < 86400000000" using assms by (simp add: a_def)
  let ?t = "Time (a div 3600000000) (a div 60000000 mod 60) (a div 1000000 mod 60) (a mod 1000000)"
  note v = split_offset [OF a]
  from v(1) have h: "a div 3600000000 < 100" by (simp add: valid_time_def)
  have lt: "a div 60000000 mod 60 < 100" "a div 1000000 mod 60 < 100" "a mod 1000000 < 1000000"
    using mod_less_divisor [of 60 "a div 60000000"] mod_less_divisor [of 60 "a div 1000000"] by (simp_all del: mod_less_divisor)
  have "\<exists>body. iso_offset z = (if z < 0 then 45 else 43) # body \<and> parse_hms body = Some (?t, [])"
  proof (cases "a div 1000000 mod 60 = 0 \<and> a mod 1000000 = 0")
    case True
    then show ?thesis
      using parse_hms_hm [OF h lt(1)] by (simp add: iso_offset_def Let_def a_def)
  next
    case False
    then show ?thesis
      using parse_hms_iso [OF h lt(1,2,3), of "[]"] by (auto simp: iso_offset_def Let_def a_def)
  qed
  then obtain body where body: "iso_offset z = (if z < 0 then 45 else 43) # body" "parse_hms body = Some (?t, [])"
    by blast
  have "(if z < 0 then - time_us ?t else time_us ?t) = z"
    unfolding v(2) by (auto simp: a_def)
  with body v(1) show ?thesis by (auto simp: parse_offset_def)
qed

lemma iso_offset_hd: "hd (iso_offset z) \<noteq> 46" "iso_offset z \<noteq> []"
  by (auto simp: iso_offset_def Let_def)

lemma parse_isoformat:
  assumes "valid_datetime db x"
  shows "parse_iso (isoformat db x) = Some (fix_offset db x)"
proof -
  let ?o = "if dt_tz x = None then [] else iso_offset (tz_offset db x (dt_tz x))"
  let ?t = "dt_time x"
  have vt: "valid_time ?t" and vd: "valid_date (dt_date x)" using assms by (simp_all add: valid_datetime_def)
  have "parse_hms (iso_hms (hour ?t) (minute ?t) (second ?t) (microsecond ?t) @ ?o) = Some (?t, ?o)"
    using vt iso_offset_hd
      parse_hms_iso [of "hour ?t" "minute ?t" "second ?t" "microsecond ?t" ?o]
    by (cases ?t) (auto simp: valid_time_def)
  moreover have "parse_offset ?o = Some (case dt_tz x of None \<Rightarrow> None | Some z \<Rightarrow> Some (FixedOffset (tz_offset db x (Some z))))"
    using assms parse_offset_iso [of "tz_offset db x (dt_tz x)"]
    by (cases "dt_tz x") (auto simp: valid_datetime_def parse_offset_def)
  ultimately show ?thesis
    using vt vd by (simp add: parse_iso_def isoformat_def parse_date_iso fix_offset_def)
qed

lemma fromisoformat_isoformat:
  "valid_datetime db x \<Longrightarrow> fromisoformat other (isoformat db x) = Some (fix_offset db x)"
  by (simp add: fromisoformat_def parse_isoformat)

lemma fix_offset_idem: "fix_offset db (fix_offset db x) = fix_offset db x"
  by (cases x) (auto simp: fix_offset_def split: option.splits)

lemma fix_offset_valid: "valid_datetime db x \<Longrightarrow> valid_datetime db (fix_offset db x)"
  by (cases "dt_tz x") (auto simp: valid_datetime_def fix_offset_def)

lemma fix_offset_aware: "dt_tz (fix_offset db x) = None \<longleftrightarrow> dt_tz x = None"
  by (auto simp: fix_offset_def split: option.splits)

text \<open>Fixing the offset does not move the instant.\<close>

definition instant :: "tzdb \<Rightarrow> datetime \<Rightarrow> int" where
  "instant db x = wall_us x - tz_offset db x (dt_tz x)"

lemma instant_fix_offset: "instant db (fix_offset db x) = instant db x"
  by (cases "dt_tz x") (auto simp: instant_def fix_offset_def wall_us_def)

end
