(* ===== verification/Atomic.thy ===== *)
theory Atomic
  imports Prelude PyStr
begin

text \<open>
  \<open>src/swimzh/storage/atomic.py\<close>: write into a temporary file beside the target and replace
  the target only after a committed, exception-free block. A file system is a map from paths
  to contents; what the operating system decides (whether the directory and the temporary
  file can be made, its fresh name, whether the replace succeeds) is a record of inputs.
\<close>

type_synonym 'c fs = "pystr \<rightharpoonup> 'c"

record swap_io =
  prepare_ok :: bool
  tmp_name :: pystr
  replace_ok :: bool

text \<open>How the body of the \<open>with\<close> block ends: normally, with \<open>commit()\<close> called or not, or raising.\<close>

datatype 'e block_end = Finished bool | Raised 'e

datatype 'e swap_result = Swapped | NotCommitted | BlockRaised 'e | PrepareFailed | ReplaceFailed

definition atomic_swap ::
  "swap_io \<Rightarrow> 'c \<Rightarrow> pystr \<Rightarrow> (pystr \<Rightarrow> 'c fs \<Rightarrow> 'e block_end \<times> 'c fs) \<Rightarrow> 'c fs \<Rightarrow> 'e swap_result \<times> 'c fs" where
  "atomic_swap io blank target block fs =
     (if \<not> prepare_ok io then (PrepareFailed, fs)
      else let tmp = tmp_name io
        in case block tmp (fs(tmp \<mapsto> blank)) of
             (Raised e, fs') \<Rightarrow> (BlockRaised e, fs'(tmp := None))
           | (Finished committed, fs') \<Rightarrow>
               if committed then
                 (if replace_ok io then (Swapped, (fs'(target := fs' tmp))(tmp := None))
                  else (ReplaceFailed, fs'))
               else (NotCommitted, fs'(tmp := None)))"

section \<open>All or nothing\<close>

text \<open>A block that writes nowhere but its staging file, and a name \<open>mkstemp\<close> can return.\<close>

definition confined :: "(pystr \<Rightarrow> 'c fs \<Rightarrow> 'e block_end \<times> 'c fs) \<Rightarrow> bool" where
  "confined block \<longleftrightarrow> (\<forall>tmp fs p. p \<noteq> tmp \<longrightarrow> snd (block tmp fs) p = fs p)"

definition fresh_tmp :: "swap_io \<Rightarrow> pystr \<Rightarrow> 'c fs \<Rightarrow> bool" where
  "fresh_tmp io target fs \<longleftrightarrow> tmp_name io \<noteq> target \<and> fs (tmp_name io) = None"

lemma confinedD: "confined block \<Longrightarrow> block tmp fs = (e, fs') \<Longrightarrow> p \<noteq> tmp \<Longrightarrow> fs' p = fs p"
  unfolding confined_def by (metis snd_conv)

lemma atomic_swap_not_swapped:
  assumes "confined block" "fresh_tmp io target fs" "atomic_swap io blank target block fs = (r, fs')" "r \<noteq> Swapped"
  shows "p \<noteq> tmp_name io \<Longrightarrow> fs' p = fs p" "r \<noteq> ReplaceFailed \<Longrightarrow> fs' = fs"
proof -
  obtain e g where b: "block (tmp_name io) (fs(tmp_name io \<mapsto> blank)) = (e, g)" by fastforce
  note keep = confinedD [OF assms(1) b]
  show other: "fs' p = fs p" if "p \<noteq> tmp_name io" for p
    using assms(3,4) b keep [OF that] that by (auto simp: atomic_swap_def Let_def split: if_splits block_end.splits)
  show "fs' = fs" if "r \<noteq> ReplaceFailed"
  proof
    fix p
    have "fs' (tmp_name io) = fs (tmp_name io)"
      using assms(2-4) b that by (auto simp: atomic_swap_def fresh_tmp_def Let_def split: if_splits block_end.splits)
    then show "fs' p = fs p" using other by (cases "p = tmp_name io") simp_all
  qed
qed

lemma atomic_swap_swapped:
  assumes "confined block" "fresh_tmp io target fs" "atomic_swap io blank target block fs = (Swapped, fs')"
  shows "fs' = fs(target := snd (block (tmp_name io) (fs(tmp_name io \<mapsto> blank))) (tmp_name io))"
    "fst (block (tmp_name io) (fs(tmp_name io \<mapsto> blank))) = Finished True"
proof -
  obtain e g where b: "block (tmp_name io) (fs(tmp_name io \<mapsto> blank)) = (e, g)" by fastforce
  note keep = confinedD [OF assms(1) b]
  have eq: "e = Finished True" "fs' = (g(target := g (tmp_name io)))(tmp_name io := None)"
    using assms(3) b by (auto simp: atomic_swap_def Let_def split: if_splits block_end.splits)
  show "fst (block (tmp_name io) (fs(tmp_name io \<mapsto> blank))) = Finished True" using b eq by simp
  show "fs' = fs(target := snd (block (tmp_name io) (fs(tmp_name io \<mapsto> blank))) (tmp_name io))"
    using assms(2) keep b eq by (auto simp: fresh_tmp_def)
qed

end
