(* ===== verification/Lake.thy ===== *)
theory Lake
  imports Json Iso Atomic
begin

text \<open>
  \<open>src/swimzh/storage/lake.py\<close>: the silver layer, one typed JSON document per source under
  one root. A lake is a file system whose silver files hold JSON text; \<open>digest\<close> stands for
  the SHA-256 of a value's canonical text and \<open>other\<close> for the spellings of a time stamp
  that the program never writes.
\<close>

definition SILVER_SOURCES :: "pystr list" where
  "SILVER_SOURCES = [u ''roster'', u ''prices'', u ''schedules'', u ''lane_plans'']"

definition SILVER_SCHEMA :: int where
  "SILVER_SCHEMA = 2"

definition PULL_SOURCE :: pystr where
  "PULL_SOURCE = u ''lake''"

datatype silver_status = FRESH | STALE

fun silver_status_value :: "silver_status \<Rightarrow> pystr" where
  "silver_status_value FRESH = u ''fresh''"
| "silver_status_value STALE = u ''stale''"

definition silver_status_of :: "pystr \<Rightarrow> py_error + silver_status" where
  "silver_status_of s =
     (if s = u ''fresh'' then Inr FRESH else if s = u ''stale'' then Inr STALE else Inl ValueError)"

record silver_header =
  sh_source :: pystr
  sh_fetched_at :: datetime
  sh_status :: silver_status
  content_sha :: pystr
  sh_schema :: int

type_synonym payload = "(pystr \<times> json) list"

record silver_doc =
  sd_header :: silver_header
  sd_payload :: payload

text \<open>What the runtime and the host decide, and the program cannot: a record of parameters.\<close>

record runtime =
  rt_repr :: "json \<Rightarrow> pystr"
  rt_tzdb :: tzdb
  rt_other_iso :: "pystr \<Rightarrow> datetime option"
  rt_digest :: "json \<Rightarrow> pystr"

section \<open>The header codec\<close>

definition header_to_json :: "runtime \<Rightarrow> silver_header \<Rightarrow> payload" where
  "header_to_json rt h =
     [(u ''schema'', JInt (sh_schema h)),
      (u ''source'', JStr (sh_source h)),
      (u ''fetched_at'', JStr (isoformat (rt_tzdb rt) (sh_fetched_at h))),
      (u ''status'', JStr (silver_status_value (sh_status h))),
      (u ''content_sha'', JStr (content_sha h))]"

definition header_from_json :: "runtime \<Rightarrow> json \<Rightarrow> py_error + silver_header" where
  "header_from_json rt obj =
     bind_err (get_item obj (u ''fetched_at'')) (\<lambda>raw.
     case fromisoformat (rt_other_iso rt) (str_json (rt_repr rt) raw) of
       None \<Rightarrow> Inl ValueError
     | Some fetched_at \<Rightarrow>
         if dt_tz fetched_at = None then Inl ValueError
         else
           bind_err (get_item obj (u ''source'')) (\<lambda>src.
           bind_err (get_item obj (u ''status'')) (\<lambda>st.
           bind_err (silver_status_of (str_json (rt_repr rt) st)) (\<lambda>status.
           bind_err (get_item obj (u ''content_sha'')) (\<lambda>sha.
           bind_err (get_default obj (u ''schema'') (JInt 0)) (\<lambda>sc.
           bind_err (int_json sc) (\<lambda>schema.
             Inr \<lparr>sh_source = str_json (rt_repr rt) src, sh_fetched_at = fetched_at, sh_status = status,
                  content_sha = str_json (rt_repr rt) sha, sh_schema = schema\<rparr>)))))))"

section \<open>The content hash\<close>

definition RUN_STAMP_KEYS :: "pystr set" where
  "RUN_STAMP_KEYS = {u ''fetched_at'', u ''generated_at'', u ''valid_as_of''}"

primrec without_run_stamps :: "json \<Rightarrow> json" where
  "without_run_stamps JNull = JNull"
| "without_run_stamps (JBool b) = JBool b"
| "without_run_stamps (JInt n) = JInt n"
| "without_run_stamps (JFloat x) = JFloat x"
| "without_run_stamps (JStr s) = JStr s"
| "without_run_stamps (JList xs) = JList (map without_run_stamps xs)"
| "without_run_stamps (JObj ms) =
     JObj (filter (\<lambda>m. fst m \<notin> RUN_STAMP_KEYS) (map (map_prod id without_run_stamps) ms))"

definition payload_sha :: "runtime \<Rightarrow> payload \<Rightarrow> pystr" where
  "payload_sha rt payload = rt_digest rt (sort_keys (without_run_stamps (JObj payload)))"

section \<open>Reading and writing\<close>

definition lake_path :: "pystr \<Rightarrow> pystr \<Rightarrow> pystr" where
  "lake_path lake_root source = lake_root @ u ''/silver/'' @ source @ u ''.json''"

type_synonym lake = "json_text fs"

text \<open>The schema of a document, read before anything else of it.\<close>

definition stored_schema :: "json \<Rightarrow> py_error + int" where
  "stored_schema obj = (case obj of
     JObj ms \<Rightarrow>
       bind_err (get_default obj (u ''silver'') (JObj [])) (\<lambda>silver.
       bind_err (get_default silver (u ''schema'') (JInt 0)) int_json)
   | _ \<Rightarrow> Inr 0)"

definition lake_read :: "runtime \<Rightarrow> pystr \<Rightarrow> lake \<Rightarrow> pystr \<Rightarrow> py_error + silver_doc option" where
  "lake_read rt lake_root fs source =
     (case fs (lake_path lake_root source) of
        None \<Rightarrow> Inr None
      | Some text \<Rightarrow>
          bind_err (bind_err (read_text text) loads) (\<lambda>obj.
          bind_err (stored_schema obj) (\<lambda>schema.
            if schema \<noteq> SILVER_SCHEMA then Inr None
            else
              bind_err (get_item obj (u ''silver'')) (\<lambda>silver.
              bind_err (header_from_json rt silver) (\<lambda>header.
              bind_err (get_item obj (u ''payload'')) (\<lambda>payload.
                case payload of
                  JObj ms \<Rightarrow>
                    if sh_source header \<noteq> source then Inl ValueError
                    else Inr (Some \<lparr>sd_header = header, sd_payload = ms\<rparr>)
                | _ \<Rightarrow> Inl TypeError))))))"

definition document_of :: "runtime \<Rightarrow> silver_doc \<Rightarrow> json_text" where
  "document_of rt doc =
     JsonText (sort_keys (JObj [(u ''silver'', JObj (header_to_json rt (sd_header doc))),
                                (u ''payload'', JObj (sd_payload doc))]))"

text \<open>The block under \<open>atomic_swap\<close>: write the document to the staging path and commit; the write may fail.\<close>

definition store_block :: "runtime \<Rightarrow> bool \<Rightarrow> silver_doc \<Rightarrow> pystr \<Rightarrow> lake \<Rightarrow> py_error block_end \<times> lake" where
  "store_block rt write_ok doc tmp fs =
     (if write_ok then (Finished True, fs(tmp \<mapsto> document_of rt doc)) else (Raised OSError, fs))"

record lake_io = swap_io +
  write_ok :: bool

definition lake_store :: "runtime \<Rightarrow> pystr \<Rightarrow> lake_io \<Rightarrow> silver_doc \<Rightarrow> lake \<Rightarrow> (py_error + silver_doc) \<times> lake" where
  "lake_store rt lake_root io doc fs =
     (case atomic_swap (swap_io.truncate io) BadText (lake_path lake_root (sh_source (sd_header doc)))
             (store_block rt (write_ok io) doc) fs of
        (Swapped, fs') \<Rightarrow> (Inr doc, fs')
      | (BlockRaised e, fs') \<Rightarrow> (Inl e, fs')
      | (_, fs') \<Rightarrow> (Inl OSError, fs'))"

definition lake_write ::
  "runtime \<Rightarrow> pystr \<Rightarrow> lake_io \<Rightarrow> pystr \<Rightarrow> payload \<Rightarrow> datetime \<Rightarrow> lake \<Rightarrow> (py_error + silver_doc) \<times> lake" where
  "lake_write rt lake_root io source payload fetched_at fs =
     lake_store rt lake_root io
       \<lparr>sd_header = \<lparr>sh_source = source, sh_fetched_at = fetched_at, sh_status = FRESH,
          content_sha = payload_sha rt payload, sh_schema = SILVER_SCHEMA\<rparr>,
        sd_payload = payload\<rparr> fs"

definition lake_mark_stale ::
  "runtime \<Rightarrow> pystr \<Rightarrow> lake_io \<Rightarrow> pystr \<Rightarrow> lake \<Rightarrow> (py_error + silver_doc) \<times> lake" where
  "lake_mark_stale rt lake_root io source fs =
     (case lake_read rt lake_root fs source of
        Inl e \<Rightarrow> (Inl e, fs)
      | Inr None \<Rightarrow> (Inl LookupError, fs)
      | Inr (Some previous) \<Rightarrow>
          lake_store rt lake_root io
            \<lparr>sd_header = (sd_header previous)\<lparr>sh_status := STALE\<rparr>, sd_payload = sd_payload previous\<rparr> fs)"

section \<open>Seams to other hosts\<close>

definition lake_export :: "pystr \<Rightarrow> pystr \<Rightarrow> lake \<Rightarrow> pystr list \<times> lake" where
  "lake_export lake_root out fs =
     foldl (\<lambda>(copied, fs') source.
       case fs' (lake_path lake_root source) of
         Some text \<Rightarrow> (copied @ [source], fs'(lake_path out source \<mapsto> text))
       | None \<Rightarrow> (copied, fs')) ([], fs) SILVER_SOURCES"

record pull_report =
  pulled :: "pystr list"
  absent :: "pystr list"
  failed :: "(pystr \<times> provider_error) list"

text \<open>
  Where a pull reads from: an \<open>http(s)\<close> base, given by what the client's \<open>get\<close> returns for
  the document of a source, or a directory of the same file system.
\<close>

datatype origin = HttpOrigin "pystr \<Rightarrow> (json_text, provider_error) result" | DirOrigin pystr

definition read_origin ::
  "origin \<Rightarrow> lake \<Rightarrow> pystr \<Rightarrow> py_error + (json_text option, provider_error) result" where
  "read_origin origin fs source =
     (case origin of
        HttpOrigin get \<Rightarrow>
          (case get source of
             Ok text \<Rightarrow> Inr (Ok (Some text))
           | Err (HttpStatus url st body) \<Rightarrow> Inr (if st = 404 then Ok None else Err (HttpStatus url st body))
           | Err e \<Rightarrow> Inr (Err e))
      | DirOrigin base \<Rightarrow>
          (case fs (lake_path base source) of
             None \<Rightarrow> Inr (Ok None)
           | Some file \<Rightarrow> bind_err (read_text file) (\<lambda>text. Inr (Ok (Some text)))))"

text \<open>
  Decoding catches \<open>ValueError\<close>, \<open>KeyError\<close> and \<open>TypeError\<close>; \<open>detail\<close> is the text of the
  mismatch, which quotes the exception.
\<close>

definition caught_decode :: "py_error \<Rightarrow> bool" where
  "caught_decode e \<longleftrightarrow> e \<in> {ValueError, KeyError, TypeError}"

definition decode_document ::
  "runtime \<Rightarrow> (py_error \<Rightarrow> pystr) \<Rightarrow> json_text \<Rightarrow> pystr \<Rightarrow> py_error + (silver_doc, provider_error) result" where
  "decode_document rt detail text source =
     (let mismatch = (\<lambda>d. Err (SchemaMismatch PULL_SOURCE (source @ u '': '' @ d)));
          parsed = bind_err (loads text) (\<lambda>obj.
            bind_err (get_item obj (u ''silver'')) (\<lambda>silver.
            bind_err (header_from_json rt silver) (\<lambda>header.
            bind_err (get_item obj (u ''payload'')) (\<lambda>payload. Inr (header, payload)))))
      in case parsed of
           Inl e \<Rightarrow> if caught_decode e then Inr (mismatch (u ''unreadable silver document: '' @ detail e)) else Inl e
         | Inr (header, payload) \<Rightarrow>
             Inr (if sh_source header \<noteq> source then mismatch (u ''document claims source '' @ rt_repr rt (JStr (sh_source header)))
                  else (case payload of
                      JObj ms \<Rightarrow>
                        if sh_schema header \<noteq> SILVER_SCHEMA then mismatch (u ''silver schema '' @ str_of_int (sh_schema header) @
                               u '', this build reads '' @ str_of_int SILVER_SCHEMA)
                        else Ok \<lparr>sd_header = header, sd_payload = ms\<rparr>
                    | _ \<Rightarrow> mismatch (u ''payload is not an object''))))"

text \<open>One source of a pull; a store that fails escapes the loop.\<close>

definition pull_step ::
  "runtime \<Rightarrow> (py_error \<Rightarrow> pystr) \<Rightarrow> pystr \<Rightarrow> lake_io \<Rightarrow> origin \<Rightarrow> pystr \<Rightarrow> pull_report \<times> lake \<Rightarrow>
   py_error + pull_report \<times> lake" where
  "pull_step rt detail lake_root io origin source st =
     (let (rep, fs) = st
      in case read_origin origin fs source of
           Inl e \<Rightarrow> Inl e
         | Inr (Ok None) \<Rightarrow> Inr (rep\<lparr>absent := absent rep @ [source]\<rparr>, fs)
         | Inr (Ok (Some text)) \<Rightarrow>
             (case decode_document rt detail text source of
                Inl e \<Rightarrow> Inl e
              | Inr (Ok doc) \<Rightarrow>
                  (case lake_store rt lake_root io doc fs of
                     (Inl e, fs') \<Rightarrow> Inl e
                   | (Inr d, fs') \<Rightarrow> Inr (rep\<lparr>pulled := pulled rep @ [source]\<rparr>, fs'))
              | Inr (Err e) \<Rightarrow> Inr (rep\<lparr>failed := failed rep @ [(source, e)]\<rparr>, fs))
         | Inr (Err e) \<Rightarrow> Inr (rep\<lparr>failed := failed rep @ [(source, e)]\<rparr>, fs))"

fun pull_loop ::
  "runtime \<Rightarrow> (py_error \<Rightarrow> pystr) \<Rightarrow> pystr \<Rightarrow> lake_io \<Rightarrow> origin \<Rightarrow> pystr list \<Rightarrow> pull_report \<times> lake \<Rightarrow>
   py_error + pull_report \<times> lake" where
  "pull_loop rt detail lake_root io origin [] st = Inr st"
| "pull_loop rt detail lake_root io origin (s # ss) st =
     (case pull_step rt detail lake_root io origin s st of
        Inl e \<Rightarrow> Inl e
      | Inr st' \<Rightarrow> pull_loop rt detail lake_root io origin ss st')"

definition lake_pull ::
  "runtime \<Rightarrow> (py_error \<Rightarrow> pystr) \<Rightarrow> pystr \<Rightarrow> lake_io \<Rightarrow> origin \<Rightarrow> lake \<Rightarrow> py_error + pull_report \<times> lake" where
  "lake_pull rt detail lake_root io origin fs =
     pull_loop rt detail lake_root io origin SILVER_SOURCES (\<lparr>pulled = [], absent = [], failed = []\<rparr>, fs)"

end
