(* ===== verification/Cache_Tiers.thy ===== *)
theory Cache_Tiers
  imports PyStr
begin

text \<open>
  \<open>src/swimzh/core/cache_tiers.py\<close>, with the constants it takes from \<open>httpcache.py\<close>: the
  one table of how long each source's responses stay usable, and the request extensions that
  carry a source's policy to the caching transport.
\<close>

definition DEFAULT_TIER :: pystr where "DEFAULT_TIER = u ''default''"
definition DEFAULT_TTL_S :: int where "DEFAULT_TTL_S = 3600"
definition TIER_EXTENSION :: pystr where "TIER_EXTENSION = u ''cache_tier''"
definition TTL_EXTENSION :: pystr where "TTL_EXTENSION = u ''cache_ttl_s''"

definition HOUR_S :: int where "HOUR_S = 3600"
definition DAY_S :: int where "DAY_S = 24 * HOUR_S"
definition MINUTE_S :: int where "MINUTE_S = 60"

definition TIER_STATIC :: pystr where "TIER_STATIC = u ''static''"
definition TIER_SNAPSHOT :: pystr where "TIER_SNAPSHOT = u ''snapshot''"
definition TIER_LIVE :: pystr where "TIER_LIVE = u ''live''"

record cache_policy =
  cp_tier :: pystr
  cp_ttl_s :: int
  cp_max_stale_s :: int

definition DEFAULT_POLICY :: cache_policy where
  "DEFAULT_POLICY = \<lparr>cp_tier = DEFAULT_TIER, cp_ttl_s = DEFAULT_TTL_S, cp_max_stale_s = 0\<rparr>"

definition CACHE_POLICIES :: "(pystr \<times> cache_policy) list" where
  "CACHE_POLICIES =
     [(u ''geo_sport'', \<lparr>cp_tier = TIER_STATIC, cp_ttl_s = 14 * DAY_S, cp_max_stale_s = 90 * DAY_S\<rparr>),
      (u ''page_provider'', \<lparr>cp_tier = TIER_STATIC, cp_ttl_s = 7 * DAY_S, cp_max_stale_s = 30 * DAY_S\<rparr>),
      (u ''price_scraper'', \<lparr>cp_tier = TIER_STATIC, cp_ttl_s = 7 * DAY_S, cp_max_stale_s = 30 * DAY_S\<rparr>),
      (u ''belegungsplan'', \<lparr>cp_tier = TIER_SNAPSHOT, cp_ttl_s = 3 * DAY_S, cp_max_stale_s = 21 * DAY_S\<rparr>),
      (u ''schedule_scraper'', \<lparr>cp_tier = TIER_SNAPSHOT, cp_ttl_s = 12 * HOUR_S, cp_max_stale_s = 14 * DAY_S\<rparr>),
      (u ''baditicker'', \<lparr>cp_tier = TIER_LIVE, cp_ttl_s = 2 * MINUTE_S, cp_max_stale_s = 0\<rparr>)]"

definition policy_for :: "pystr \<Rightarrow> cache_policy" where
  "policy_for source = (case map_of CACHE_POLICIES source of Some p \<Rightarrow> p | None \<Rightarrow> DEFAULT_POLICY)"

text \<open>What an extension of a request can hold, as far as the cache looks at it.\<close>

datatype ext_value = ExtStr pystr | ExtInt int | ExtBool bool | ExtOther

type_synonym extensions = "pystr \<rightharpoonup> ext_value"

definition cache_extensions :: "pystr \<Rightarrow> extensions" where
  "cache_extensions source =
     [TIER_EXTENSION \<mapsto> ExtStr (cp_tier (policy_for source)), TTL_EXTENSION \<mapsto> ExtInt (cp_ttl_s (policy_for source))]"

section \<open>Facts about the table\<close>

lemma tier_constants:
  "DEFAULT_TIER \<noteq> []" "TIER_STATIC \<noteq> []" "TIER_SNAPSHOT \<noteq> []" "TIER_LIVE \<noteq> []"
  by (simp_all add: DEFAULT_TIER_def TIER_STATIC_def TIER_SNAPSHOT_def TIER_LIVE_def)

lemma policy_for_mem: "policy_for source = DEFAULT_POLICY \<or> policy_for source \<in> snd ` set CACHE_POLICIES"
  by (force simp: policy_for_def split: option.splits dest: map_of_SomeD)

lemma policy_facts:
  "0 < cp_ttl_s (policy_for source)" "cp_tier (policy_for source) \<noteq> []"
  "cp_max_stale_s (policy_for source) = 0 \<or> cp_ttl_s (policy_for source) < cp_max_stale_s (policy_for source)"
  using policy_for_mem [of source]
  by (auto simp: CACHE_POLICIES_def DEFAULT_POLICY_def DEFAULT_TTL_S_def DAY_S_def HOUR_S_def MINUTE_S_def tier_constants)

lemma extension_keys: "TIER_EXTENSION \<noteq> TTL_EXTENSION"
  by (simp add: TIER_EXTENSION_def TTL_EXTENSION_def)

lemma cache_extensions_at:
  "cache_extensions source TIER_EXTENSION = Some (ExtStr (cp_tier (policy_for source)))"
  "cache_extensions source TTL_EXTENSION = Some (ExtInt (cp_ttl_s (policy_for source)))"
  using extension_keys by (simp_all add: cache_extensions_def)

end
