(* ===== verification/Refresh.thy ===== *)
theory Refresh
  imports Lake Cache_Tiers Live
begin

text \<open>
  \<open>src/swimzh/etl/refresh.py\<close>: what one run does with one silver source. The policy is
  written over the three operations it calls on the lake; the network is the state \<open>'w\<close> that
  \<open>fetch\<close> transforms, so that "no network" is that state left alone. The locale
  \<open>silver_store\<close> is the contract of those operations.
\<close>

definition POLICY_SOURCE :: "(pystr \<times> pystr) list" where
  "POLICY_SOURCE =
     [(u ''roster'', u ''geo_sport''),
      (u ''prices'', u ''price_scraper''),
      (u ''schedules'', u ''schedule_scraper''),
      (u ''lane_plans'', u ''belegungsplan'')]"

definition silver_policy :: "pystr \<Rightarrow> py_error + cache_policy" where
  "silver_policy source =
     (case map_of POLICY_SOURCE source of Some p \<Rightarrow> Inr (policy_for p) | None \<Rightarrow> Inl KeyError)"

definition transient :: "provider_error \<Rightarrow> bool" where
  "transient e = (if retriable e then True
     else (case e of HttpStatus url st body \<Rightarrow> st \<ge> 500 | _ \<Rightarrow> False))"

record 't refreshed =
  rf_value :: 't
  rf_header :: silver_header
  rf_fetched :: bool

definition rf_stale :: "'t refreshed \<Rightarrow> bool" where
  "rf_stale r \<longleftrightarrow> sh_status (rf_header r) = STALE"

datatype refresh_reason = NOT_TRANSIENT | FIRST_RUN | TOO_STALE

record refresh_failure =
  rff_source :: pystr
  rff_reason :: refresh_reason
  rff_cause :: provider_error
  rff_age :: "int option"

definition describe_failure :: "(json \<Rightarrow> pystr) \<Rightarrow> refresh_failure \<Rightarrow> pystr" where
  "describe_failure repr f =
     (let why = describe repr (rff_cause f)
      in case rff_reason f of
           NOT_TRANSIENT \<Rightarrow> rff_source f @ u '': '' @ why
         | FIRST_RUN \<Rightarrow> rff_source f @ u '': '' @ why @ u '' (no previous silver to keep '' @ [8212] @ u '' first run)''
         | TOO_STALE \<Rightarrow>
             (let days = (case rff_age f of Some a \<Rightarrow> Fract a 86400000000 | None \<Rightarrow> 0)
              in rff_source f @ u '': '' @ why @ u '' (previous silver is '' @ fmt_fixed 1 days @
                 u '' d old, past max_stale)''))"

section \<open>The policy\<close>

text \<open>Not due: a previous document that is not stale, not forced, and younger than the TTL.\<close>

definition not_due :: "tzdb \<Rightarrow> cache_policy \<Rightarrow> datetime \<Rightarrow> bool \<Rightarrow> silver_doc option \<Rightarrow> bool" where
  "not_due db rule now force previous =
     (case previous of
        None \<Rightarrow> False
      | Some d \<Rightarrow> \<not> force \<and> sh_status (sd_header d) \<noteq> STALE \<and>
          dt_sub db now (sh_fetched_at (sd_header d)) < seconds (cp_ttl_s rule))"

definition refresh_with ::
  "('s \<Rightarrow> pystr \<Rightarrow> py_error + silver_doc option) \<Rightarrow>
   (pystr \<Rightarrow> payload \<Rightarrow> datetime \<Rightarrow> 's \<Rightarrow> (py_error + silver_doc) \<times> 's) \<Rightarrow>
   (pystr \<Rightarrow> 's \<Rightarrow> (py_error + silver_doc) \<times> 's) \<Rightarrow>
   tzdb \<Rightarrow> cache_policy \<Rightarrow> pystr \<Rightarrow> datetime \<Rightarrow> ('w \<Rightarrow> (py_error + ('t, provider_error) result) \<times> 'w) \<Rightarrow>
   ('t \<Rightarrow> py_error + payload) \<Rightarrow> (payload \<Rightarrow> py_error + 't) \<Rightarrow> bool \<Rightarrow> 's \<times> 'w \<Rightarrow>
   (py_error + ('t refreshed, refresh_failure) result) \<times> ('s \<times> 'w)" where
  "refresh_with read write stale db rule source now fetch encode decode force st =
     (let (s, w) = st
      in case read s source of
           Inl e \<Rightarrow> (Inl e, (s, w))
         | Inr previous \<Rightarrow>
             if not_due db rule now force previous
             then (case previous of
                 Some d \<Rightarrow>
                   (bind_err (decode (sd_payload d)) (\<lambda>v.
                      Inr (Ok \<lparr>rf_value = v, rf_header = sd_header d, rf_fetched = False\<rparr>)), (s, w))
               | None \<Rightarrow> (Inl RuntimeError, (s, w)))
             else
               (case fetch w of
                  (Inl e, w') \<Rightarrow> (Inl e, (s, w'))
                | (Inr (Ok v), w') \<Rightarrow>
                    (case encode v of
                       Inl e \<Rightarrow> (Inl e, (s, w'))
                     | Inr p \<Rightarrow>
                         (case write source p now s of
                            (Inl e, s') \<Rightarrow> (Inl e, (s', w'))
                          | (Inr doc, s') \<Rightarrow>
                              (Inr (Ok \<lparr>rf_value = v, rf_header = sd_header doc, rf_fetched = True\<rparr>), (s', w'))))
                | (Inr (Err error), w') \<Rightarrow>
                    if \<not> transient error
                    then (Inr (Err \<lparr>rff_source = source, rff_reason = NOT_TRANSIENT, rff_cause = error, rff_age = None\<rparr>), (s, w'))
                    else
                      (case previous of
                         None \<Rightarrow>
                           (Inr (Err \<lparr>rff_source = source, rff_reason = FIRST_RUN, rff_cause = error, rff_age = None\<rparr>), (s, w'))
                       | Some d \<Rightarrow>
                           (let a = dt_sub db now (sh_fetched_at (sd_header d))
                            in if a > seconds (cp_max_stale_s rule)
                               then (Inr (Err \<lparr>rff_source = source, rff_reason = TOO_STALE, rff_cause = error, rff_age = Some a\<rparr>), (s, w'))
                               else
                                 (case stale source s of
                                    (Inl e, s') \<Rightarrow> (Inl e, (s', w'))
                                  | (Inr kept, s') \<Rightarrow>
                                      (bind_err (decode (sd_payload kept)) (\<lambda>v.
                                         Inr (Ok \<lparr>rf_value = v, rf_header = sd_header kept, rf_fetched = False\<rparr>)),
                                       (s', w')))))))"

definition refresh_source ::
  "runtime \<Rightarrow> pystr \<Rightarrow> lake_io \<Rightarrow> pystr \<Rightarrow> datetime \<Rightarrow> ('w \<Rightarrow> (py_error + ('t, provider_error) result) \<times> 'w) \<Rightarrow>
   ('t \<Rightarrow> py_error + payload) \<Rightarrow> (payload \<Rightarrow> py_error + 't) \<Rightarrow> bool \<Rightarrow> cache_policy option \<Rightarrow> lake \<times> 'w \<Rightarrow>
   (py_error + ('t refreshed, refresh_failure) result) \<times> (lake \<times> 'w)" where
  "refresh_source rt lake_root io source now fetch encode decode force policy st =
     (case (case policy of Some p \<Rightarrow> Inr p | None \<Rightarrow> silver_policy source) of
        Inl e \<Rightarrow> (Inl e, st)
      | Inr rule \<Rightarrow>
          refresh_with (\<lambda>fs src. lake_read rt lake_root fs src)
            (lake_write rt lake_root io) (lake_mark_stale rt lake_root io)
            (rt_tzdb rt) rule source now fetch encode decode force st)"

section \<open>The contract of the lake\<close>

text \<open>
  \<open>usable\<close> states are those in which a write can find a fresh staging name; \<open>stamp\<close> is what
  a time stamp reads back as, \<open>canon\<close> what a payload reads back as.
\<close>

locale silver_store =
  fixes rd :: "'s \<Rightarrow> pystr \<Rightarrow> py_error + silver_doc option"
    and wr :: "pystr \<Rightarrow> payload \<Rightarrow> datetime \<Rightarrow> 's \<Rightarrow> (py_error + silver_doc) \<times> 's"
    and mk :: "pystr \<Rightarrow> 's \<Rightarrow> (py_error + silver_doc) \<times> 's"
    and usable :: "'s \<Rightarrow> bool"
    and good_time :: "datetime \<Rightarrow> bool"
    and stamp :: "datetime \<Rightarrow> datetime"
    and canon :: "payload \<Rightarrow> payload"
  assumes write_doc: "wr src p t s = (Inr d, s') \<Longrightarrow>
      sd_payload d = p \<and> sh_fetched_at (sd_header d) = t \<and> sh_status (sd_header d) = FRESH"
    and write_read: "usable s \<Longrightarrow> good_time t \<Longrightarrow> wr src p t s = (Inr d, s') \<Longrightarrow>
      rd s' src = Inr (Some (d\<lparr>sd_header := (sd_header d)\<lparr>sh_fetched_at := stamp t\<rparr>, sd_payload := canon p\<rparr>))"
    and write_others: "usable s \<Longrightarrow> wr src p t s = (r, s') \<Longrightarrow> src' \<noteq> src \<or> (\<exists>e. r = Inl e) \<Longrightarrow> rd s' src' = rd s src'"
    and write_usable: "usable s \<Longrightarrow> wr src p t s = (Inr d, s') \<Longrightarrow> usable s'"
    and stale_doc: "mk src s = (Inr d, s') \<Longrightarrow>
      \<exists>old. rd s src = Inr (Some old) \<and> d = old\<lparr>sd_header := (sd_header old)\<lparr>sh_status := STALE\<rparr>\<rparr>"
    and stale_read: "usable s \<Longrightarrow> mk src s = (Inr d, s') \<Longrightarrow> good_time (sh_fetched_at (sd_header d)) \<Longrightarrow>
      rd s' src = Inr (Some (d\<lparr>sd_header := (sd_header d)\<lparr>sh_fetched_at := stamp (sh_fetched_at (sd_header d))\<rparr>,
        sd_payload := canon (sd_payload d)\<rparr>))"
    and stale_others: "usable s \<Longrightarrow> mk src s = (r, s') \<Longrightarrow> src' \<noteq> src \<or> (\<exists>e. r = Inl e) \<Longrightarrow> rd s' src' = rd s src'"
begin

text \<open>The five ends of a run, with what each does to the lake and to the network.\<close>

lemma run_cases:
  assumes "refresh_with rd wr mk db rule src now fetch encode decode force (s, w) = (out, (s', w'))"
  obtains (unreadable) e where "rd s src = Inl e" "out = Inl e" "s' = s" "w' = w"
  | (reused) d where "rd s src = Inr (Some d)" "not_due db rule now force (Some d)" "s' = s" "w' = w"
      "out = bind_err (decode (sd_payload d)) (\<lambda>v. Inr (Ok \<lparr>rf_value = v, rf_header = sd_header d, rf_fetched = False\<rparr>))"
  | (adopted) previous v p d where "rd s src = Inr previous" "\<not> not_due db rule now force previous"
      "fetch w = (Inr (Ok v), w')" "encode v = Inr p" "wr src p now s = (Inr d, s')"
      "out = Inr (Ok \<lparr>rf_value = v, rf_header = sd_header d, rf_fetched = True\<rparr>)"
  | (aborted) previous error f where "rd s src = Inr previous" "\<not> not_due db rule now force previous"
      "fetch w = (Inr (Err error), w')" "out = Inr (Err f)" "s' = s" "rff_cause f = error" "rff_source f = src"
      "case rff_reason f of NOT_TRANSIENT \<Rightarrow> \<not> transient error
        | FIRST_RUN \<Rightarrow> transient error \<and> previous = None
        | TOO_STALE \<Rightarrow> transient error \<and> (\<exists>d. previous = Some d \<and>
            dt_sub db now (sh_fetched_at (sd_header d)) > seconds (cp_max_stale_s rule))"
  | (kept) d error k where "rd s src = Inr (Some d)" "\<not> not_due db rule now force (Some d)"
      "fetch w = (Inr (Err error), w')" "transient error"
      "dt_sub db now (sh_fetched_at (sd_header d)) \<le> seconds (cp_max_stale_s rule)" "mk src s = (Inr k, s')"
      "out = bind_err (decode (sd_payload k)) (\<lambda>v. Inr (Ok \<lparr>rf_value = v, rf_header = sd_header k, rf_fetched = False\<rparr>))"
  | (raised) e previous where "rd s src = Inr previous" "\<not> not_due db rule now force previous" "out = Inl e" "s' = s"
      "fetch w = (Inl e, w') \<or> (\<exists>v. fetch w = (Inr (Ok v), w') \<and> encode v = Inl e)"
  | (disk) e previous where "rd s src = Inr previous" "\<not> not_due db rule now force previous" "out = Inl e"
      "(\<exists>v p. fetch w = (Inr (Ok v), w') \<and> encode v = Inr p \<and> wr src p now s = (Inl e, s')) \<or>
       (\<exists>error. fetch w = (Inr (Err error), w') \<and> transient error \<and> mk src s = (Inl e, s'))"
proof (cases "rd s src")
  case (Inl e)
  with assms show ?thesis by (intro unreadable) (auto simp: refresh_with_def)
next
  case (Inr previous)
  show ?thesis
  proof (cases "not_due db rule now force previous")
    case True
    then obtain d where "previous = Some d" by (cases previous) (auto simp: not_due_def)
    with assms Inr True show ?thesis by (intro reused [of d]) (auto simp: refresh_with_def)
  next
    case False
    obtain fr w1 where fetched: "fetch w = (fr, w1)" by fastforce
    show ?thesis
    proof (cases fr)
      case (Inl e)
      with assms Inr False fetched show ?thesis by (intro raised) (auto simp: refresh_with_def)
    next
    case r: (Inr r)
    note f = fetched [unfolded r]
    show ?thesis
    proof (cases r)
      case (Ok v)
      show ?thesis
      proof (cases "encode v")
        case (Inl e)
        with assms Inr False f Ok show ?thesis by (intro raised) (auto simp: refresh_with_def)
      next
        case p: (Inr p)
        obtain r2 s2 where wr: "wr src p now s = (r2, s2)" by fastforce
        show ?thesis
        proof (cases r2)
          case (Inl e)
          with assms Inr False f Ok p wr show ?thesis by (intro disk) (auto simp: refresh_with_def)
        next
          case (Inr d)
          with assms \<open>rd s src = Inr previous\<close> False f Ok p wr show ?thesis
            by (intro adopted [of previous v p d]) (auto simp: refresh_with_def)
        qed
      qed
    next
      case (Err error)
      show ?thesis
      proof (cases "transient error")
        case False
        with assms Inr \<open>\<not> not_due db rule now force previous\<close> f Err show ?thesis
          by (intro aborted) (auto simp: refresh_with_def)
      next
        case True
        show ?thesis
        proof (cases previous)
          case None
          with assms Inr False f Err True show ?thesis by (intro aborted) (auto simp: refresh_with_def)
        next
          case (Some d)
          obtain r2 s2 where mk: "mk src s = (r2, s2)" by fastforce
          show ?thesis
          proof (cases "dt_sub db now (sh_fetched_at (sd_header d)) > seconds (cp_max_stale_s rule)")
            case old: True
            with assms Inr False f Err True Some show ?thesis
              by (intro aborted) (auto simp: refresh_with_def Let_def)
          next
            case young: False
            show ?thesis
            proof (cases r2)
              case (Inl e)
              with assms Inr False f Err True Some young mk show ?thesis
                by (intro disk) (auto simp: refresh_with_def Let_def)
            next
              case (Inr k)
              with assms \<open>rd s src = Inr previous\<close> False f Err True Some young mk show ?thesis
                by (intro kept [of d error k]) (auto simp: refresh_with_def Let_def)
            qed
          qed
        qed
      qed
    qed
    qed
  qed
qed

text \<open>A run that does not succeed leaves every document as it was.\<close>

lemma failed_run_keeps_lake:
  assumes "usable s" "refresh_with rd wr mk db rule src now fetch encode decode force (s, w) = (Inr (Err f), (s', w'))"
  shows "s' = s"
  by (cases rule: run_cases [OF assms(2)]) (auto simp: bind_err_def split: sum.splits)

text \<open>A run touches no other source.\<close>

lemma run_keeps_others:
  assumes "usable s" "refresh_with rd wr mk db rule src now fetch encode decode force (s, w) = (out, (s', w'))" "src' \<noteq> src"
  shows "rd s' src' = rd s src'"
  by (cases rule: run_cases [OF assms(2)]) (use assms write_others stale_others in auto)

text \<open>A stale document is never reused without asking the network.\<close>

lemma stale_is_due: "sh_status (sd_header d) = STALE \<Longrightarrow> \<not> not_due db rule now force (Some d)"
  by (simp add: not_due_def)

text \<open>
  After a successful fetch, a second run within the TTL does not touch the network and
  returns what decoding the encoded value gives.
\<close>

lemma second_run_reuses:
  assumes "usable s" "good_time now" "refresh_with rd wr mk db rule src now fetch encode decode force (s, w) = (Inr (Ok r), (s1, w1))"
    "rf_fetched r" "dt_sub db later (stamp now) < seconds (cp_ttl_s rule)"
    "encode (rf_value r) = Inr p" "decode (canon p) = Inr v"
  obtains r' where "refresh_with rd wr mk db rule src later fetch' encode decode False (s1, w1) = (Inr (Ok r'), (s1, w1))"
    "rf_value r' = v" "\<not> rf_fetched r'" "\<not> rf_stale r'" "sh_fetched_at (rf_header r') = stamp now"
  using assms(3)
proof (cases rule: run_cases)
  case (adopted previous v0 p0 d)
  then have r: "r = \<lparr>rf_value = v0, rf_header = sd_header d, rf_fetched = True\<rparr>" "p0 = p" using assms(6) by simp_all
  let ?d = "d\<lparr>sd_header := (sd_header d)\<lparr>sh_fetched_at := stamp now\<rparr>, sd_payload := canon p\<rparr>"
  have rd: "rd s1 src = Inr (Some ?d)" using write_read [OF assms(1,2) adopted(5)] r(2) by simp
  have fresh: "sh_status (sd_header d) = FRESH" using write_doc [OF adopted(5)] by simp
  then have "not_due db rule later False (Some ?d)" using assms(5) by (simp add: not_due_def)
  then have again: "refresh_with rd wr mk db rule src later fetch' encode decode False (s1, w1) =
      (Inr (Ok \<lparr>rf_value = v, rf_header = sd_header ?d, rf_fetched = False\<rparr>), (s1, w1))"
    using assms(7) r rd by (simp add: refresh_with_def)
  show ?thesis by (rule that [OF again]) (use fresh in \<open>simp_all add: rf_stale_def\<close>)
qed (use assms in \<open>auto simp: bind_err_def split: sum.splits\<close>)

end

end
