(* ===== verification/Lake_Store.thy ===== *)
theory Lake_Store
  imports Refresh
begin

text \<open>
  The lake keeps the contract \<open>silver_store\<close>: the header codec is a round trip up to the
  spelling of the time stamp's zone, a stored document reads back, other sources are not
  disturbed, and a failed write changes nothing. The contract is interpreted on the lake.
\<close>

definition usable :: "lake_io \<Rightarrow> pystr \<Rightarrow> lake \<Rightarrow> bool" where
  "usable io lake_root fs \<longleftrightarrow> fs (tmp_name io) = None \<and> (\<forall>src. tmp_name io \<noteq> lake_path lake_root src)"

definition good_time :: "runtime \<Rightarrow> datetime \<Rightarrow> bool" where
  "good_time rt t \<longleftrightarrow> valid_datetime (rt_tzdb rt) t \<and> dt_tz t \<noteq> None"

definition canon :: "payload \<Rightarrow> payload" where
  "canon p = sort_key fst (map (map_prod id sort_keys) p)"

definition restamped :: "runtime \<Rightarrow> silver_doc \<Rightarrow> silver_doc" where
  "restamped rt d = d\<lparr>sd_header := (sd_header d)\<lparr>sh_fetched_at := fix_offset (rt_tzdb rt) (sh_fetched_at (sd_header d))\<rparr>,
     sd_payload := canon (sd_payload d)\<rparr>"

section \<open>The header codec\<close>

lemma silver_status_round_trip: "silver_status_of (silver_status_value s) = Inr s"
  by (cases s) (simp_all add: silver_status_of_def)

lemma header_members_distinct: "distinct (map fst (header_to_json rt h))"
  by (simp add: header_to_json_def)

lemma header_round_trip:
  assumes "good_time rt (sh_fetched_at h)"
  shows "header_from_json rt (sort_keys (JObj (header_to_json rt h))) =
    Inr (h\<lparr>sh_fetched_at := fix_offset (rt_tzdb rt) (sh_fetched_at h)\<rparr>)"
proof -
  let ?j = "sort_keys (JObj (header_to_json rt h))"
  have items: "get_item ?j (u ''fetched_at'') = Inr (JStr (isoformat (rt_tzdb rt) (sh_fetched_at h)))"
    "get_item ?j (u ''source'') = Inr (JStr (sh_source h))"
    "get_item ?j (u ''status'') = Inr (JStr (silver_status_value (sh_status h)))"
    "get_item ?j (u ''content_sha'') = Inr (JStr (content_sha h))"
    unfolding get_item_sorted [OF header_members_distinct] by (simp_all add: header_to_json_def)
  have schema: "get_default ?j (u ''schema'') (JInt 0) = Inr (JInt (sh_schema h))"
    unfolding get_default_sorted [OF header_members_distinct] by (simp add: header_to_json_def)
  have aware: "dt_tz (fix_offset (rt_tzdb rt) (sh_fetched_at h)) \<noteq> None"
    using assms by (simp add: good_time_def fix_offset_aware)
  have valid: "valid_datetime (rt_tzdb rt) (sh_fetched_at h)" using assms by (simp add: good_time_def)
  show ?thesis
    unfolding header_from_json_def items schema
    using aware by (simp add: str_json_def fromisoformat_isoformat [OF valid] silver_status_round_trip)
qed

section \<open>Reading a stored document\<close>

lemma document_members:
  "get_item (sort_keys (JObj [(u ''silver'', a), (u ''payload'', b)])) (u ''silver'') = Inr (sort_keys a)"
  "get_item (sort_keys (JObj [(u ''silver'', a), (u ''payload'', b)])) (u ''payload'') = Inr (sort_keys b)"
  "get_default (sort_keys (JObj [(u ''silver'', a), (u ''payload'', b)])) (u ''silver'') d = Inr (sort_keys a)"
proof -
  have d: "distinct (map fst [(u ''silver'', a), (u ''payload'', b)])" by simp
  show "get_item (sort_keys (JObj [(u ''silver'', a), (u ''payload'', b)])) (u ''silver'') = Inr (sort_keys a)"
    "get_item (sort_keys (JObj [(u ''silver'', a), (u ''payload'', b)])) (u ''payload'') = Inr (sort_keys b)"
    "get_default (sort_keys (JObj [(u ''silver'', a), (u ''payload'', b)])) (u ''silver'') d = Inr (sort_keys a)" for d
    unfolding get_item_sorted [OF d] get_default_sorted [OF d] by simp_all
qed

lemma read_stored:
  assumes "good_time rt (sh_fetched_at (sd_header doc))" "sh_schema (sd_header doc) = SILVER_SCHEMA"
    "fs (lake_path lake_root (sh_source (sd_header doc))) = Some (document_of rt doc)"
  shows "lake_read rt lake_root fs (sh_source (sd_header doc)) = Inr (Some (restamped rt doc))"
proof -
  let ?hj = "JObj (header_to_json rt (sd_header doc))" and ?pj = "JObj (sd_payload doc)"
  let ?j = "sort_keys (JObj [(u ''silver'', ?hj), (u ''payload'', ?pj)])"
  have obj: "\<exists>ms. ?j = JObj ms" by simp
  have "get_default (sort_keys ?hj) (u ''schema'') (JInt 0) = Inr (JInt SILVER_SCHEMA)"
    unfolding get_default_sorted [OF header_members_distinct] by (simp add: header_to_json_def assms(2))
  then have schema: "stored_schema ?j = Inr SILVER_SCHEMA"
    using obj document_members(3) [of ?hj ?pj "JObj []"] unfolding stored_schema_def
    by (auto simp del: sort_keys.simps split: json.splits)
  have payload: "sort_keys ?pj = JObj (canon (sd_payload doc))" by (simp add: canon_def)
  show ?thesis
    unfolding lake_read_def assms(3) option.case document_of_def
    by (simp add: schema document_members header_round_trip [OF assms(1)] payload restamped_def del: sort_keys.simps)
qed

lemma object_case_Inr:
  "(case j of JObj ms \<Rightarrow> f ms | _ \<Rightarrow> Inl e) = Inr x \<longleftrightarrow> (\<exists>ms. j = JObj ms \<and> f ms = Inr x)"
  by (cases j) simp_all

lemma read_header:
  assumes "lake_read rt lake_root fs src = Inr (Some d)"
  shows "sh_source (sd_header d) = src" "sh_schema (sd_header d) = SILVER_SCHEMA"
proof -
  obtain obj silver ms where obj: "stored_schema obj = Inr SILVER_SCHEMA" "get_item obj (u ''silver'') = Inr silver"
      "header_from_json rt silver = Inr (sd_header d)" "sh_source (sd_header d) = src"
    using assms by (auto simp: lake_read_def bind_err_Inr object_case_Inr split: option.splits if_splits)
  show "sh_source (sd_header d) = src" by (rule obj)
  obtain sc where sc: "get_default silver (u ''schema'') (JInt 0) = Inr sc" "int_json sc = Inr (sh_schema (sd_header d))"
    using obj(3) by (auto simp: header_from_json_def bind_err_def split: sum.split_asm option.split_asm if_split_asm
      dest!: arg_cong [where f = sh_schema])
  have "get_default obj (u ''silver'') (JObj []) = Inr silver"
    using obj(2) by (auto simp: get_item_def get_default_def split: json.splits option.splits)
  with obj(1,2) sc show "sh_schema (sd_header d) = SILVER_SCHEMA"
    by (auto simp: stored_schema_def get_item_def split: json.splits)
qed

section \<open>Writing\<close>

lemma store_block_confined: "confined (store_block rt ok doc)"
  by (simp add: confined_def store_block_def)

lemma swap_io_truncate: "tmp_name (swap_io.truncate io) = tmp_name io"
  by (simp add: swap_io.truncate_def)

lemma usable_fresh: "usable io lake_root fs \<Longrightarrow> fresh_tmp (swap_io.truncate io) (lake_path lake_root src) fs"
  by (simp add: usable_def fresh_tmp_def swap_io_truncate)

lemma lake_store_Inr:
  assumes "usable io lake_root fs" "lake_store rt lake_root io doc fs = (Inr d, fs')"
  shows "d = doc" "fs' = fs(lake_path lake_root (sh_source (sd_header doc)) \<mapsto> document_of rt doc)"
proof -
  let ?io = "swap_io.truncate io" and ?p = "lake_path lake_root (sh_source (sd_header doc))"
  let ?block = "store_block rt (write_ok io) doc"
  from assms(2) have d: "d = doc" and sw: "atomic_swap ?io BadText ?p ?block fs = (Swapped, fs')"
    by (auto simp: lake_store_def split: prod.splits swap_result.splits)
  note eq = atomic_swap_swapped [OF store_block_confined usable_fresh [OF assms(1)] sw]
  show "d = doc" by (rule d)
  from eq(2) have "write_ok io" by (auto simp: store_block_def split: if_splits)
  with eq(1) show "fs' = fs(?p \<mapsto> document_of rt doc)" by (simp add: store_block_def)
qed

lemma lake_store_Inl:
  assumes "usable io lake_root fs" "lake_store rt lake_root io doc fs = (Inl e, fs')"
  shows "fs' (lake_path lake_root src) = fs (lake_path lake_root src)"
proof -
  let ?io = "swap_io.truncate io" and ?p = "lake_path lake_root (sh_source (sd_header doc))"
  let ?block = "store_block rt (write_ok io) doc"
  from assms(2) obtain r where sw: "atomic_swap ?io BadText ?p ?block fs = (r, fs')" and r: "r \<noteq> Swapped"
    by (auto simp: lake_store_def split: prod.splits swap_result.splits)
  show ?thesis
    using atomic_swap_not_swapped(1) [OF store_block_confined usable_fresh [OF assms(1)] sw r, of "lake_path lake_root src"] assms(1)
    unfolding usable_def swap_io_truncate by metis
qed

lemma lake_path_inj: "lake_path lake_root a = lake_path lake_root b \<longleftrightarrow> a = b"
  by (simp add: lake_path_def)

lemma lake_read_local:
  "fs' (lake_path lake_root src) = fs (lake_path lake_root src) \<Longrightarrow> lake_read rt lake_root fs' src = lake_read rt lake_root fs src"
  by (simp add: lake_read_def)

lemma lake_store_others:
  assumes "usable io lake_root fs" "lake_store rt lake_root io doc fs = (r, fs')"
    "src' \<noteq> sh_source (sd_header doc) \<or> (\<exists>e. r = Inl e)"
  shows "lake_read rt lake_root fs' src' = lake_read rt lake_root fs src'"
proof (rule lake_read_local, cases r)
  case (Inl e)
  with assms(2) show "fs' (lake_path lake_root src') = fs (lake_path lake_root src')"
    using lake_store_Inl [OF assms(1)] by blast
next
  case (Inr d)
  with assms have "fs' = fs(lake_path lake_root (sh_source (sd_header doc)) \<mapsto> document_of rt doc)"
    using lake_store_Inr(2) [OF assms(1)] by blast
  with assms(3) Inr show "fs' (lake_path lake_root src') = fs (lake_path lake_root src')"
    by (auto simp: lake_path_inj)
qed

lemma lake_store_usable:
  "usable io lake_root fs \<Longrightarrow> lake_store rt lake_root io doc fs = (Inr d, fs') \<Longrightarrow> usable io lake_root fs'"
  using lake_store_Inr(2) [of io lake_root fs rt doc d fs'] by (auto simp: usable_def)

lemma mark_stale_cases:
  assumes "lake_mark_stale rt lake_root io src fs = (r, fs')"
  obtains (no_doc) e where "r = Inl e" "fs' = fs"
  | (stored) old where "lake_read rt lake_root fs src = Inr (Some old)"
      "lake_store rt lake_root io (old\<lparr>sd_header := (sd_header old)\<lparr>sh_status := STALE\<rparr>\<rparr>) fs = (r, fs')"
proof (cases "lake_read rt lake_root fs src")
  case (Inl e)
  with assms show ?thesis by (intro no_doc) (auto simp: lake_mark_stale_def)
next
  case (Inr previous)
  have eq: "d\<lparr>sd_header := h\<rparr> = \<lparr>sd_header = h, sd_payload = sd_payload d\<rparr>" for d :: silver_doc and h
    by (cases d) simp
  from Inr assms show ?thesis
    by (cases previous) (auto simp: lake_mark_stale_def eq intro: no_doc stored)
qed

section \<open>The contract\<close>

interpretation silver_lake: silver_store
  "\<lambda>fs src. lake_read rt lake_root fs src" "lake_write rt lake_root io" "lake_mark_stale rt lake_root io"
  "usable io lake_root" "good_time rt" "fix_offset (rt_tzdb rt)" canon
  for rt lake_root io
proof
  fix src p t s d s' r src'
  show "sd_payload d = p \<and> sh_fetched_at (sd_header d) = t \<and> sh_status (sd_header d) = FRESH"
    if "lake_write rt lake_root io src p t s = (Inr d, s')"
    using that by (auto simp: lake_write_def lake_store_def split: prod.splits swap_result.splits)
  show "lake_read rt lake_root s' src =
      Inr (Some (d\<lparr>sd_header := (sd_header d)\<lparr>sh_fetched_at := fix_offset (rt_tzdb rt) t\<rparr>, sd_payload := canon p\<rparr>))"
    if "usable io lake_root s" "good_time rt t" "lake_write rt lake_root io src p t s = (Inr d, s')"
  proof -
    note st = lake_store_Inr [OF that(1) that(3) [unfolded lake_write_def]]
    have f: "sh_source (sd_header d) = src" "sh_schema (sd_header d) = SILVER_SCHEMA" "sh_fetched_at (sd_header d) = t"
      "sd_payload d = p" by (simp_all add: st(1))
    have "s' (lake_path lake_root src) = Some (document_of rt d)" by (simp add: st)
    then show ?thesis using read_stored [of rt d s' lake_root] that(2) by (simp add: f restamped_def)
  qed
  show "lake_read rt lake_root s' src' = lake_read rt lake_root s src'"
    if "usable io lake_root s" "lake_write rt lake_root io src p t s = (r, s')" "src' \<noteq> src \<or> (\<exists>e. r = Inl e)"
    using lake_store_others [OF that(1) that(2) [unfolded lake_write_def]] that(3) by simp
  show "usable io lake_root s'" if "usable io lake_root s" "lake_write rt lake_root io src p t s = (Inr d, s')"
    using lake_store_usable [OF that(1) that(2) [unfolded lake_write_def]] .
  show "\<exists>old. lake_read rt lake_root s src = Inr (Some old) \<and> d = old\<lparr>sd_header := (sd_header old)\<lparr>sh_status := STALE\<rparr>\<rparr>"
    if "lake_mark_stale rt lake_root io src s = (Inr d, s')"
    using that
    by (cases rule: mark_stale_cases) (auto simp: lake_store_def split: prod.splits swap_result.splits)
  show "lake_read rt lake_root s' src =
      Inr (Some (d\<lparr>sd_header := (sd_header d)\<lparr>sh_fetched_at := fix_offset (rt_tzdb rt) (sh_fetched_at (sd_header d))\<rparr>,
        sd_payload := canon (sd_payload d)\<rparr>))"
    if u: "usable io lake_root s" and m: "lake_mark_stale rt lake_root io src s = (Inr d, s')"
      and g: "good_time rt (sh_fetched_at (sd_header d))"
    using m
  proof (cases rule: mark_stale_cases)
    case (stored old)
    note st = lake_store_Inr [OF u stored(2)]
    have "sh_source (sd_header d) = src" "sh_schema (sd_header d) = SILVER_SCHEMA"
      using read_header [OF stored(1)] st(1) by simp_all
    then show ?thesis using read_stored [OF g, of s' lake_root] st by (simp add: restamped_def)
  qed simp
  show "lake_read rt lake_root s' src' = lake_read rt lake_root s src'"
    if u: "usable io lake_root s" and m: "lake_mark_stale rt lake_root io src s = (r, s')"
      and o: "src' \<noteq> src \<or> (\<exists>e. r = Inl e)"
    using m
  proof (cases rule: mark_stale_cases)
    case (stored old)
    show ?thesis using lake_store_others [OF u stored(2)] read_header(1) [OF stored(1)] o by simp
  qed simp
qed

end
