(* ===== verification/Lake_Properties.thy ===== *)
theory Lake_Properties
  imports Lake_Store
begin

text \<open>
  What the silver layer promises: atomic writes, documents that read back, a hash that only
  facts change, the outcomes of a refresh and of a pull.
\<close>

section \<open>A concrete lake\<close>

definition ex_rt :: runtime where
  "ex_rt = \<lparr>rt_repr = (\<lambda>j. []),
     rt_tzdb = \<lparr>zurich_offset = (\<lambda>d t. 7200000000), zurich_from_utc = (\<lambda>x. (Date 2026 8 12, hm 10 0))\<rparr>,
     rt_other_iso = (\<lambda>s. None), rt_digest = (\<lambda>j. [])\<rparr>"

definition ex_io :: lake_io where
  "ex_io = \<lparr>prepare_ok = True, tmp_name = u ''.tmp'', replace_ok = True, write_ok = True\<rparr>"

definition ex_at :: "nat \<Rightarrow> datetime" where
  "ex_at h = \<lparr>dt_date = Date 2026 8 12, dt_time = hm h 0, dt_tz = Some Zurich\<rparr>"

lemma ex_good_time: "h < 24 \<Longrightarrow> good_time ex_rt (ex_at h)"
  by (simp add: good_time_def valid_datetime_def valid_date_def valid_time_def days_in_month_def ex_rt_def ex_at_def)

lemma ex_usable: "usable ex_io (u ''lake'') Map.empty"
  by (simp add: usable_def lake_path_def ex_io_def u_def)

lemma ex_write:
  obtains d fs where "lake_write ex_rt (u ''lake'') ex_io src p t Map.empty = (Inr d, fs)"
proof -
  obtain r fs where w: "lake_write ex_rt (u ''lake'') ex_io src p t Map.empty = (r, fs)" by fastforce
  then have "r \<noteq> Inl e" for e
    by (auto simp: lake_write_def lake_store_def atomic_swap_def store_block_def ex_io_def swap_io.truncate_def Let_def)
  with w show ?thesis using that by (cases r) auto
qed

section \<open>Atomic writes\<close>

text \<open>
  a staged write is all or nothing: if the block writes only to its staging file, then
  the target ends up with exactly the staged content when the block finished and committed and
  the replace went through, and in every other case no other file has changed at all, nor is
  the staging file left behind unless the replace itself failed.
\<close>

theorem atomic_swap_all_or_nothing:
  assumes "confined block" "fresh_tmp io target fs" "atomic_swap io blank target block fs = (r, fs')"
  shows "if r = Swapped
    then fst (block (tmp_name io) (fs(tmp_name io \<mapsto> blank))) = Finished True \<and>
      fs' = fs(target := snd (block (tmp_name io) (fs(tmp_name io \<mapsto> blank))) (tmp_name io))
    else (\<forall>p. p \<noteq> tmp_name io \<longrightarrow> fs' p = fs p) \<and> (r \<noteq> ReplaceFailed \<longrightarrow> fs' = fs)"
proof (cases "r = Swapped")
  case True
  with assms(3) have "atomic_swap io blank target block fs = (Swapped, fs')" by simp
  from atomic_swap_swapped [OF assms(1,2) this] show ?thesis unfolding if_P [OF True] by blast
next
  case False
  from atomic_swap_not_swapped [OF assms False] show ?thesis unfolding if_not_P [OF False] by blast
qed

theorem atomic_swap_all_or_nothing_witness:
  "snd (atomic_swap \<lparr>prepare_ok = True, tmp_name = [1], replace_ok = True\<rparr> (0::nat) [2]
     (\<lambda>tmp fs. (Raised (), fs(tmp \<mapsto> 7))) [[2] \<mapsto> 5]) = [[2] \<mapsto> 5]"
proof -
  let ?io = "\<lparr>prepare_ok = True, tmp_name = [1], replace_ok = True\<rparr>"
  let ?block = "\<lambda>tmp fs. (Raised (), fs(tmp \<mapsto> (7::nat)))"
  have "confined ?block" by (simp add: confined_def)
  moreover have "fresh_tmp ?io [2] [[2] \<mapsto> 5]" by (simp add: fresh_tmp_def)
  moreover obtain fs' where "atomic_swap ?io (0::nat) [2] ?block [[2] \<mapsto> 5] = (BlockRaised (), fs')"
    by (simp add: atomic_swap_def Let_def)
  ultimately show ?thesis
    using atomic_swap_all_or_nothing [of ?block ?io "[2]" "[[2] \<mapsto> 5]" 0 "BlockRaised ()" fs'] by auto
qed

section \<open>Documents\<close>

text \<open>
  C24: what is written is what is read: after a successful write a lake returns for that
  source a fresh document with the payload (its members in canonical order) and the time stamp
  at the same instant, and for every other source exactly what it returned before.
\<close>

theorem silver_read_after_write:
  assumes "usable io lake_root fs" "good_time rt t" "lake_write rt lake_root io src p t fs = (Inr d, fs')"
  shows "(\<exists>d'. lake_read rt lake_root fs' src = Inr (Some d') \<and> sd_payload d' = canon p \<and>
      sh_status (sd_header d') = FRESH \<and> content_sha (sd_header d') = payload_sha rt p \<and>
      instant (rt_tzdb rt) (sh_fetched_at (sd_header d')) = instant (rt_tzdb rt) t) \<and>
    (\<forall>src'. src' \<noteq> src \<longrightarrow> lake_read rt lake_root fs' src' = lake_read rt lake_root fs src')"
proof -
  have "content_sha (sd_header d) = payload_sha rt p"
    using assms(3) by (auto simp: lake_write_def lake_store_def split: prod.splits swap_result.splits)
  then show ?thesis
    using silver_lake.write_doc [OF assms(3)] silver_lake.write_read [OF assms]
      silver_lake.write_others [OF assms(1,3)] by (simp add: instant_fix_offset)
qed

theorem silver_read_after_write_witness:
  "\<exists>fs d. lake_read ex_rt (u ''lake'') fs (u ''prices'') = Inr (Some d) \<and> sd_payload d = [(u ''a'', JInt 1)]"
proof -
  obtain d fs where w: "lake_write ex_rt (u ''lake'') ex_io (u ''prices'') [(u ''a'', JInt 1)] (ex_at 10) Map.empty = (Inr d, fs)"
    by (rule ex_write)
  from silver_read_after_write [OF ex_usable ex_good_time w] show ?thesis by (auto simp: canon_def)
qed

section \<open>The content hash\<close>

text \<open>Two payloads that differ in run stamps, at any depth, or in the order of members, and in nothing else.\<close>

definition stamp_names :: "pystr set" where
  "stamp_names = {u ''fetched_at'', u ''generated_at'', u ''valid_as_of''}"

lemma stamp_names_are_dropped [simp]: "stamp_names = RUN_STAMP_KEYS"
  by (simp add: stamp_names_def RUN_STAMP_KEYS_def)

inductive same_facts :: "json \<Rightarrow> json \<Rightarrow> bool" where
  same_refl: "same_facts j j"
| same_trans: "same_facts i j \<Longrightarrow> same_facts j k \<Longrightarrow> same_facts i k"
| stamp_change: "k \<in> stamp_names \<Longrightarrow> same_facts (JObj (ms @ (k, v) # ns)) (JObj (ms @ (k, v') # ns))"
| stamp_drop: "k \<in> stamp_names \<Longrightarrow> same_facts (JObj (ms @ (k, v) # ns)) (JObj (ms @ ns))"
| stamp_add: "k \<in> stamp_names \<Longrightarrow> same_facts (JObj (ms @ ns)) (JObj (ms @ (k, v) # ns))"
| reorder: "distinct (map fst ms) \<Longrightarrow> mset ms = mset ms' \<Longrightarrow> same_facts (JObj ms) (JObj ms')"
| in_member: "same_facts v v' \<Longrightarrow> same_facts (JObj (ms @ (k, v) # ns)) (JObj (ms @ (k, v') # ns))"
| in_list: "same_facts v v' \<Longrightarrow> same_facts (JList (xs @ v # ys)) (JList (xs @ v' # ys))"

lemma same_facts_canonical: "same_facts i j \<Longrightarrow> sort_keys (without_run_stamps i) = sort_keys (without_run_stamps j)"
proof (induction rule: same_facts.induct)
  case (reorder ms ms')
  let ?f = "\<lambda>ms. map (map_prod id sort_keys) (filter (\<lambda>m. fst m \<notin> RUN_STAMP_KEYS) (map (map_prod id without_run_stamps) ms))"
  have "distinct (map fst (map (map_prod id without_run_stamps) ms))" using reorder(1) by (simp add: comp_def)
  then have "distinct (map fst (?f ms))" by (simp add: comp_def distinct_map_filter)
  moreover have "mset (?f ms) = mset (?f ms')" using reorder(2) by (simp add: mset_map mset_filter)
  ultimately have "sort_key fst (?f ms) = sort_key fst (?f ms')" by (intro sort_key_perm_eq)
  then show ?case by simp
qed auto

text \<open>
  the content hash is a hash of the facts: two payloads that differ only in run
  stamps (\<open>fetched_at\<close>, \<open>generated_at\<close>, \<open>valid_as_of\<close>, at any depth) or in the
  order of object members have the same hash.
\<close>

theorem content_sha_ignores_run_stamps:
  assumes "same_facts (JObj p) (JObj p')"
  shows "payload_sha rt p = payload_sha rt p'"
  using same_facts_canonical [OF assms] by (simp only: payload_sha_def)

theorem content_sha_ignores_run_stamps_witness:
  "payload_sha ex_rt [(u ''rows'', JList [JObj [(u ''chf'', JInt 8), (u ''valid_as_of'', JStr (u ''2026''))]])] =
   payload_sha ex_rt [(u ''rows'', JList [JObj [(u ''chf'', JInt 8), (u ''valid_as_of'', JStr (u ''2025''))]])]"
proof (rule content_sha_ignores_run_stamps)
  let ?o = "\<lambda>y. JObj [(u ''chf'', JInt 8), (u ''valid_as_of'', JStr (u y))]"
  have "same_facts (?o ''2026'') (?o ''2025'')"
    using stamp_change [of "u ''valid_as_of''" "[(u ''chf'', JInt 8)]" _ "[]"] by (simp add: RUN_STAMP_KEYS_def)
  from in_list [OF this, of "[]" "[]"] have "same_facts (JList [?o ''2026'']) (JList [?o ''2025''])" by simp
  from in_member [OF this, of "[]" "u ''rows''" "[]"]
  show "same_facts (JObj [(u ''rows'', JList [?o ''2026''])]) (JObj [(u ''rows'', JList [?o ''2025''])])" by simp
qed

section \<open>Refreshing a source\<close>

text \<open>
  C25: the outcome of a run says what happened. A failure keeps the lake and names the
  error the network gave: one that is not transient, or a transient one on a first run, or on a
  document past its maximal age. A success is the fetched value; or, without touching network
  or lake, a document younger than the TTL that was not stale; or, when the fetch failed
  transiently, the previous document, kept within its maximal age and marked stale.
\<close>

theorem refresh_outcome_honest:
  assumes "usable io lake_root fs"
    "refresh_source rt lake_root io src now fetch encode decode force (Some rule) (fs, w) = (Inr out, (fs', w'))"
  shows "case out of
      Err f \<Rightarrow> fs' = fs \<and> rff_source f = src \<and> fetch w = (Inr (Err (rff_cause f)), w') \<and>
        (case rff_reason f of
           NOT_TRANSIENT \<Rightarrow> \<not> transient (rff_cause f)
         | FIRST_RUN \<Rightarrow> transient (rff_cause f) \<and> lake_read rt lake_root fs src = Inr None
         | TOO_STALE \<Rightarrow> transient (rff_cause f) \<and> (\<exists>d. lake_read rt lake_root fs src = Inr (Some d) \<and>
             dt_sub (rt_tzdb rt) now (sh_fetched_at (sd_header d)) > seconds (cp_max_stale_s rule)))
    | Ok r \<Rightarrow>
        if rf_fetched r then fetch w = (Inr (Ok (rf_value r)), w') \<and> \<not> rf_stale r \<and> sh_fetched_at (rf_header r) = now
        else \<exists>d. lake_read rt lake_root fs src = Inr (Some d) \<and> decode (sd_payload d) = Inr (rf_value r) \<and>
          sh_fetched_at (rf_header r) = sh_fetched_at (sd_header d) \<and>
          (if rf_stale r
           then \<exists>e. fetch w = (Inr (Err e), w') \<and> transient e \<and>
             dt_sub (rt_tzdb rt) now (sh_fetched_at (sd_header d)) \<le> seconds (cp_max_stale_s rule)
           else fs' = fs \<and> w' = w \<and> \<not> force \<and>
             dt_sub (rt_tzdb rt) now (sh_fetched_at (sd_header d)) < seconds (cp_ttl_s rule))"
proof -
  have run: "refresh_with (\<lambda>fs src. lake_read rt lake_root fs src) (lake_write rt lake_root io) (lake_mark_stale rt lake_root io)
      (rt_tzdb rt) rule src now fetch encode decode force (fs, w) = (Inr out, (fs', w'))"
    using assms(2) by (simp add: refresh_source_def)
  from run show ?thesis
  proof (cases rule: silver_lake.run_cases)
    case (reused d)
    then show ?thesis by (auto simp: bind_err_def rf_stale_def not_due_def split: sum.splits)
  next
    case (adopted previous v p d)
    then show ?thesis using silver_lake.write_doc [OF adopted(5)] by (simp add: rf_stale_def)
  next
    case (aborted previous error f)
    then show ?thesis by (auto split: refresh_reason.splits)
  next
    case (kept d error k)
    then show ?thesis
      using silver_lake.stale_doc [OF kept(6)] by (auto simp: bind_err_def rf_stale_def split: sum.splits)
  qed auto
qed

definition ex_rule_policy :: cache_policy where
  "ex_rule_policy = \<lparr>cp_tier = TIER_STATIC, cp_ttl_s = 7200, cp_max_stale_s = 0\<rparr>"

lemma ex_first_run:
  obtains fs where "refresh_source ex_rt (u ''lake'') ex_io (u ''prices'') (ex_at 10) (\<lambda>w. (Inr (Ok ()), Suc w)) (\<lambda>v. Inr []) (\<lambda>p. Inr ())
      False (Some ex_rule_policy) (Map.empty, 0) =
    (Inr (Ok \<lparr>rf_value = (), rf_header = \<lparr>sh_source = u ''prices'', sh_fetched_at = ex_at 10, sh_status = FRESH,
       content_sha = payload_sha ex_rt [], sh_schema = SILVER_SCHEMA\<rparr>, rf_fetched = True\<rparr>), (fs, 1))"
proof -
  obtain d fs where w: "lake_write ex_rt (u ''lake'') ex_io (u ''prices'') [] (ex_at 10) Map.empty = (Inr d, fs)"
    by (rule ex_write)
  have "d = \<lparr>sd_header = \<lparr>sh_source = u ''prices'', sh_fetched_at = ex_at 10, sh_status = FRESH,
       content_sha = payload_sha ex_rt [], sh_schema = SILVER_SCHEMA\<rparr>, sd_payload = []\<rparr>"
    using lake_store_Inr(1) [OF ex_usable w [unfolded lake_write_def]] .
  with w show ?thesis
    by (intro that [of fs]) (simp add: refresh_source_def refresh_with_def lake_read_def not_due_def)
qed

theorem refresh_outcome_honest_witness:
  "\<exists>r fs'. refresh_source ex_rt (u ''lake'') ex_io (u ''prices'') (ex_at 10) (\<lambda>w. (Inr (Ok ()), Suc w)) (\<lambda>v. Inr []) (\<lambda>p. Inr ())
      False (Some ex_rule_policy) (Map.empty, 0) = (Inr (Ok r), (fs', 1)) \<and> \<not> rf_stale r"
proof -
  obtain fs where run: "refresh_source ex_rt (u ''lake'') ex_io (u ''prices'') (ex_at 10) (\<lambda>w. (Inr (Ok ()), Suc w)) (\<lambda>v. Inr []) (\<lambda>p. Inr ())
      False (Some ex_rule_policy) (Map.empty, 0) =
    (Inr (Ok \<lparr>rf_value = (), rf_header = \<lparr>sh_source = u ''prices'', sh_fetched_at = ex_at 10, sh_status = FRESH,
       content_sha = payload_sha ex_rt [], sh_schema = SILVER_SCHEMA\<rparr>, rf_fetched = True\<rparr>), (fs, 1))"
    by (rule ex_first_run)
  from refresh_outcome_honest [OF ex_usable run] run show ?thesis by auto
qed

text \<open>
  cadence is in the code, not in the cron: after a run that fetched, every run within
  the TTL leaves network and lake alone and returns what the stored document decodes to, with
  the first run's time stamp.
\<close>

theorem second_run_within_ttl_reuses:
  assumes "usable io lake_root fs" "good_time rt now"
    "refresh_source rt lake_root io src now fetch encode decode force (Some rule) (fs, w) = (Inr (Ok r), (fs1, w1))"
    "rf_fetched r" "dt_sub (rt_tzdb rt) later (fix_offset (rt_tzdb rt) now) < seconds (cp_ttl_s rule)"
    "encode (rf_value r) = Inr p" "decode (canon p) = Inr v"
  shows "\<exists>r'. refresh_source rt lake_root io src later fetch' encode decode False (Some rule) (fs1, w1) =
      (Inr (Ok r'), (fs1, w1)) \<and> rf_value r' = v \<and> \<not> rf_fetched r' \<and> \<not> rf_stale r' \<and>
      instant (rt_tzdb rt) (sh_fetched_at (rf_header r')) = instant (rt_tzdb rt) now"
proof -
  have run: "refresh_with (\<lambda>fs src. lake_read rt lake_root fs src) (lake_write rt lake_root io) (lake_mark_stale rt lake_root io)
      (rt_tzdb rt) rule src now fetch encode decode force (fs, w) = (Inr (Ok r), (fs1, w1))"
    using assms(3) by (simp add: refresh_source_def)
  obtain r' where "refresh_with (\<lambda>fs src. lake_read rt lake_root fs src) (lake_write rt lake_root io) (lake_mark_stale rt lake_root io)
      (rt_tzdb rt) rule src later fetch' encode decode False (fs1, w1) = (Inr (Ok r'), (fs1, w1))"
    "rf_value r' = v" "\<not> rf_fetched r'" "\<not> rf_stale r'" "sh_fetched_at (rf_header r') = fix_offset (rt_tzdb rt) now"
    by (rule silver_lake.second_run_reuses [OF assms(1,2) run assms(4-7)])
  then show ?thesis by (intro exI [of _ r']) (simp add: refresh_source_def instant_fix_offset)
qed

theorem second_run_within_ttl_reuses_witness:
  "\<exists>fs1 r'. refresh_source ex_rt (u ''lake'') ex_io (u ''prices'') (ex_at 11) (\<lambda>w. (Inr (Err (Timeout [] 1)), Suc w)) (\<lambda>v. Inr [])
      (\<lambda>p. Inr ()) False (Some ex_rule_policy) (fs1, 1) = (Inr (Ok r'), (fs1, 1)) \<and> \<not> rf_fetched r'"
proof -
  obtain fs where run: "refresh_source ex_rt (u ''lake'') ex_io (u ''prices'') (ex_at 10) (\<lambda>w. (Inr (Ok ()), Suc w)) (\<lambda>v. Inr []) (\<lambda>p. Inr ())
      False (Some ex_rule_policy) (Map.empty, 0) =
    (Inr (Ok \<lparr>rf_value = (), rf_header = \<lparr>sh_source = u ''prices'', sh_fetched_at = ex_at 10, sh_status = FRESH,
       content_sha = payload_sha ex_rt [], sh_schema = SILVER_SCHEMA\<rparr>, rf_fetched = True\<rparr>), (fs, 1))"
    by (rule ex_first_run)
  have "dt_sub (rt_tzdb ex_rt) (ex_at 11) (fix_offset (rt_tzdb ex_rt) (ex_at 10)) < seconds (cp_ttl_s ex_rule_policy)"
    by (simp add: dt_sub_def fix_offset_def wall_us_def time_us_def ex_rt_def ex_at_def seconds_def ex_rule_policy_def)
  from second_run_within_ttl_reuses [OF ex_usable ex_good_time run _ this]
  show ?thesis by fastforce
qed

text \<open>
  a stale keep heals as soon as it can: once a run has kept a stale document, the next
  run of that source asks the network, whatever the TTL and the clock say.
\<close>

theorem stale_keep_is_retried:
  assumes "usable io lake_root fs"
    "refresh_source rt lake_root io src now fetch encode decode force (Some rule) (fs, w) = (Inr (Ok r), (fs1, w1))"
    "rf_stale r" "good_time rt (sh_fetched_at (rf_header r))"
    "refresh_source rt lake_root io src later fetch' encode' decode' force' (Some rule') (fs1, w1) = (out, (fs2, w2))"
  shows "w2 = snd (fetch' w1)"
proof -
  have run1: "refresh_with (\<lambda>fs src. lake_read rt lake_root fs src) (lake_write rt lake_root io) (lake_mark_stale rt lake_root io)
      (rt_tzdb rt) rule src now fetch encode decode force (fs, w) = (Inr (Ok r), (fs1, w1))"
    and run2: "refresh_with (\<lambda>fs src. lake_read rt lake_root fs src) (lake_write rt lake_root io) (lake_mark_stale rt lake_root io)
      (rt_tzdb rt) rule' src later fetch' encode' decode' force' (fs1, w1) = (out, (fs2, w2))"
    using assms(2,5) by (simp_all add: refresh_source_def)
  have stored: "\<exists>d. lake_read rt lake_root fs1 src = Inr (Some d) \<and> sh_status (sd_header d) = STALE"
    using run1
  proof (cases rule: silver_lake.run_cases)
    case (reused d)
    then show ?thesis using assms(3) by (auto simp: bind_err_def rf_stale_def not_due_def split: sum.splits)
  next
    case (adopted previous v p d)
    then show ?thesis using assms(3) silver_lake.write_doc [OF adopted(5)] by (simp add: rf_stale_def)
  next
    case (kept d error k)
    then have "rf_header r = sd_header k" by (auto simp: bind_err_def split: sum.splits)
    moreover have "sh_status (sd_header k) = STALE" using silver_lake.stale_doc [OF kept(6)] by auto
    ultimately show ?thesis
      using silver_lake.stale_read [OF assms(1) kept(6)] assms(4) by simp
  qed auto
  from run2 show ?thesis
  proof (cases rule: silver_lake.run_cases)
    case (reused d)
    then show ?thesis using stored silver_lake.stale_is_due by auto
  qed (use stored in auto)
qed

definition ex_keep_policy :: cache_policy where
  "ex_keep_policy = \<lparr>cp_tier = TIER_STATIC, cp_ttl_s = 0, cp_max_stale_s = 86400\<rparr>"

definition ex_late_fetch :: "nat \<Rightarrow> (py_error + (unit, provider_error) result) \<times> nat" where
  "ex_late_fetch w = (Inr (Err (Timeout [] 1)), Suc w)"

lemma ex_store_writes: "\<exists>d fs'. lake_store rt lake_root ex_io doc fs = (Inr d, fs')"
  by (simp add: lake_store_def atomic_swap_def store_block_def swap_io.truncate_def Let_def ex_io_def)

text \<open>A run that finds last morning's document and a network that times out keeps it, marked stale.\<close>

lemma ex_stale_run:
  obtains fs fs1 r where "usable ex_io (u ''lake'') fs"
    "refresh_source ex_rt (u ''lake'') ex_io (u ''prices'') (ex_at 13) ex_late_fetch (\<lambda>v. Inr []) (\<lambda>p. Inr ())
      False (Some ex_keep_policy) (fs, 0) = (Inr (Ok r), (fs1, 1))"
    "rf_stale r" "good_time ex_rt (sh_fetched_at (rf_header r))"
proof -
  obtain d fs where w: "lake_write ex_rt (u ''lake'') ex_io (u ''prices'') [] (ex_at 10) Map.empty = (Inr d, fs)"
    by (rule ex_write)
  let ?d = "d\<lparr>sd_header := (sd_header d)\<lparr>sh_fetched_at := fix_offset (rt_tzdb ex_rt) (ex_at 10)\<rparr>, sd_payload := canon []\<rparr>"
  have rd: "lake_read ex_rt (u ''lake'') fs (u ''prices'') = Inr (Some ?d)"
    by (rule silver_lake.write_read [OF ex_usable ex_good_time w]) simp
  have us: "usable ex_io (u ''lake'') fs" by (rule silver_lake.write_usable [OF ex_usable w])
  obtain k fs1 where mk: "lake_mark_stale ex_rt (u ''lake'') ex_io (u ''prices'') fs = (Inr k, fs1)"
    using ex_store_writes [of ex_rt "u ''lake''"] rd unfolding lake_mark_stale_def by fastforce
  have k: "k = ?d\<lparr>sd_header := (sd_header ?d)\<lparr>sh_status := STALE\<rparr>\<rparr>"
    using silver_lake.stale_doc [OF mk] rd by auto
  have age: "dt_sub (rt_tzdb ex_rt) (ex_at 13) (fix_offset (rt_tzdb ex_rt) (ex_at 10)) = 3 * 3600000000"
    by (simp add: dt_sub_def fix_offset_def wall_us_def time_us_def ex_rt_def ex_at_def)
  have run: "refresh_source ex_rt (u ''lake'') ex_io (u ''prices'') (ex_at 13) ex_late_fetch (\<lambda>v. Inr []) (\<lambda>p. Inr ())
      False (Some ex_keep_policy) (fs, 0) = (Inr (Ok \<lparr>rf_value = (), rf_header = sd_header k, rf_fetched = False\<rparr>), (fs1, 1))"
    using rd mk
    by (simp add: refresh_source_def refresh_with_def not_due_def age ex_late_fetch_def transient_def
        seconds_def ex_keep_policy_def bind_err_def)
  have "good_time ex_rt (fix_offset (rt_tzdb ex_rt) (ex_at 10))"
    using ex_good_time [of 10] by (simp add: good_time_def fix_offset_valid fix_offset_aware)
  then show ?thesis using that [OF us run] by (simp add: k rf_stale_def)
qed

theorem stale_keep_is_retried_witness:
  "\<exists>fs1. snd (snd (refresh_source ex_rt (u ''lake'') ex_io (u ''prices'') (ex_at 13) ex_late_fetch (\<lambda>v. Inr [])
     (\<lambda>p. Inr ()) False (Some ex_rule_policy) (fs1, 1))) = 2"
proof -
  obtain fs fs1 r where run: "usable ex_io (u ''lake'') fs"
      "refresh_source ex_rt (u ''lake'') ex_io (u ''prices'') (ex_at 13) ex_late_fetch (\<lambda>v. Inr []) (\<lambda>p. Inr ())
        False (Some ex_keep_policy) (fs, 0) = (Inr (Ok r), (fs1, 1))"
      "rf_stale r" "good_time ex_rt (sh_fetched_at (rf_header r))"
    by (rule ex_stale_run)
  obtain out fs2 w2 where again: "refresh_source ex_rt (u ''lake'') ex_io (u ''prices'') (ex_at 13) ex_late_fetch (\<lambda>v. Inr [])
     (\<lambda>p. Inr ()) False (Some ex_rule_policy) (fs1, 1) = (out, (fs2, w2))"
    by (cases "refresh_source ex_rt (u ''lake'') ex_io (u ''prices'') (ex_at 13) ex_late_fetch (\<lambda>v. Inr [])
     (\<lambda>p. Inr ()) False (Some ex_rule_policy) (fs1, 1)") auto
  have "w2 = 2"
    using stale_keep_is_retried [OF run again] by (simp add: ex_late_fetch_def)
  with again show ?thesis by (intro exI [of _ fs1]) simp
qed

section \<open>Pulling a lake\<close>

lemma header_error: "header_from_json rt j = Inl e \<Longrightarrow> e \<in> {ValueError, KeyError, TypeError}"
proof -
  have item: "get_item j k = Inl e' \<Longrightarrow> e' \<in> {KeyError, TypeError}" for k e'
    by (auto simp: get_item_def split: json.splits option.splits)
  have dflt: "get_item j k = Inr v \<Longrightarrow> get_default j k' d \<noteq> Inl e'" for k v k' d e'
    by (auto simp: get_item_def get_default_def split: json.splits)
  have num: "int_json v = Inl e' \<Longrightarrow> e' \<in> {ValueError, TypeError}" for v e'
    by (cases v) (auto split: option.splits)
  have st: "silver_status_of s = Inl e' \<Longrightarrow> e' = ValueError" for s e'
    by (auto simp: silver_status_of_def split: if_splits)
  assume "header_from_json rt j = Inl e"
  then show ?thesis
    unfolding header_from_json_def bind_err_def
    using item dflt num st by (fastforce split: sum.split_asm option.split_asm if_split_asm)
qed

lemma decode_document_total: "\<exists>r. decode_document rt detail text source = Inr r"
proof -
  let ?parsed = "bind_err (loads text) (\<lambda>obj. bind_err (get_item obj (u ''silver'')) (\<lambda>silver.
            bind_err (header_from_json rt silver) (\<lambda>header.
            bind_err (get_item obj (u ''payload'')) (\<lambda>payload. Inr (header, payload)))))"
  have "caught_decode e" if "?parsed = Inl e" for e
  proof -
    have "get_item j k = Inl e' \<Longrightarrow> e' \<in> {KeyError, TypeError}" for j k e'
      by (auto simp: get_item_def split: json.splits option.splits)
    moreover have "loads text = Inl e' \<Longrightarrow> e' = ValueError" for e' by (cases "text") auto
    ultimately show ?thesis
      using that header_error unfolding bind_err_def caught_decode_def
      by (fastforce split: sum.split_asm)
  qed
  then show ?thesis by (cases "?parsed") (auto simp: decode_document_def Let_def)
qed

lemma lake_store_succeeds:
  assumes "prepare_ok io" "write_ok io" "replace_ok io"
  shows "\<exists>d fs'. lake_store rt lake_root io doc fs = (Inr d, fs')"
  using assms by (simp add: lake_store_def atomic_swap_def store_block_def swap_io.truncate_def Let_def)

definition pull_sources :: "pull_report \<Rightarrow> pystr multiset" where
  "pull_sources rep = mset (pulled rep) + mset (absent rep) + mset (map fst (failed rep))"

lemma pull_loop_ok:
  assumes "prepare_ok io" "write_ok io" "replace_ok io" "\<And>fs source. \<exists>r. read_origin origin fs source = Inr r"
  shows "\<exists>rep' fs'. pull_loop rt detail lake_root io origin ss (rep, fs) = Inr (rep', fs') \<and>
    pull_sources rep' = pull_sources rep + mset ss"
proof (induction ss arbitrary: rep fs)
  case (Cons s ss)
  have "\<exists>rep1 fs1. pull_step rt detail lake_root io origin s (rep, fs) = Inr (rep1, fs1) \<and>
      pull_sources rep1 = pull_sources rep + {#s#}"
  proof -
    obtain r where r: "read_origin origin fs s = Inr r" using assms(4) by blast
    show ?thesis
    proof (cases r)
      case (Err e)
      with r show ?thesis by (simp add: pull_step_def pull_sources_def)
    next
      case (Ok t)
      show ?thesis
      proof (cases t)
        case None
        with r Ok show ?thesis by (simp add: pull_step_def pull_sources_def)
      next
        case (Some body)
        obtain q where q: "decode_document rt detail body s = Inr q" using decode_document_total by blast
        show ?thesis
        proof (cases q)
          case (Err e)
          with r Ok Some q show ?thesis by (simp add: pull_step_def pull_sources_def)
        next
          case ok: (Ok doc)
          obtain d fs' where "lake_store rt lake_root io doc fs = (Inr d, fs')"
            using lake_store_succeeds [OF assms(1-3)] by blast
          with r Ok Some q ok show ?thesis by (simp add: pull_step_def pull_sources_def)
        qed
      qed
    qed
  qed
  with Cons.IH show ?case by fastforce
qed simp

text \<open>
  a pull from an \<open>http(s)\<close> origin never raises when the disk takes its writes, and
  accounts for every source exactly once: adopted, absent at the origin, or failed with a typed
  reason.
\<close>

theorem http_pull_accounts_for_every_source:
  assumes "prepare_ok io" "write_ok io" "replace_ok io"
  shows "\<exists>rep fs'. lake_pull rt detail lake_root io (HttpOrigin get) fs = Inr (rep, fs') \<and>
    mset (pulled rep) + mset (absent rep) + mset (map fst (failed rep)) = mset SILVER_SOURCES"
proof -
  have "\<exists>r. read_origin (HttpOrigin get) fs source = Inr r" for fs source
    by (auto simp: read_origin_def split: result.splits provider_error.splits)
  from pull_loop_ok [OF assms this, of rt detail lake_root SILVER_SOURCES "\<lparr>pulled = [], absent = [], failed = []\<rparr>" fs]
  show ?thesis by (simp add: lake_pull_def pull_sources_def)
qed

theorem http_pull_accounts_for_every_source_witness:
  "\<exists>rep fs'. lake_pull ex_rt (\<lambda>e. []) (u ''lake'') ex_io (HttpOrigin (\<lambda>s. Err (HttpStatus s 404 []))) Map.empty = Inr (rep, fs') \<and>
    mset (pulled rep) + mset (absent rep) + mset (map fst (failed rep)) = mset SILVER_SOURCES"
  by (rule http_pull_accounts_for_every_source) (simp_all add: ex_io_def)

text \<open>
  from a directory the promise that nothing raises does not hold: a first document
  that is not UTF-8 makes the pull raise \<open>ValueError\<close> instead of reporting that source.
\<close>

theorem directory_pull_can_raise:
  assumes "fs (lake_path base (u ''roster'')) = Some NotUtf8"
  shows "lake_pull rt detail lake_root io (DirOrigin base) fs = Inl ValueError"
  using assms by (simp add: lake_pull_def SILVER_SOURCES_def pull_step_def read_origin_def)

theorem directory_pull_can_raise_witness:
  "lake_pull ex_rt (\<lambda>e. []) (u ''lake'') ex_io (DirOrigin (u ''old'')) [lake_path (u ''old'') (u ''roster'') \<mapsto> NotUtf8] = Inl ValueError"
  by (rule directory_pull_can_raise) simp

end
