(* ===== verification/PyDict.thy ===== *)
theory PyDict
  imports PyStr
begin

text \<open>
  Python dictionaries whose iteration order matters: association lists in the order of
  first insertion. \<open>group_pairs\<close> is the idiom \<open>d = defaultdict(list); d[k].append(v)\<close>;
  \<open>dict_set\<close> is \<open>d[k] = v\<close>. Also the two minimum idioms of the geometric code and
  the text of a list of integers.
\<close>

section \<open>Insertion\<close>

fun dict_set :: "'k \<Rightarrow> 'v \<Rightarrow> ('k \<times> 'v) list \<Rightarrow> ('k \<times> 'v) list" where
  "dict_set k v [] = [(k, v)]"
| "dict_set k v ((k', v') # d) = (if k = k' then (k, v) # d else (k', v') # dict_set k v d)"

fun dict_append :: "'k \<Rightarrow> 'v \<Rightarrow> ('k \<times> 'v list) list \<Rightarrow> ('k \<times> 'v list) list" where
  "dict_append k v [] = [(k, [v])]"
| "dict_append k v ((k', vs) # d) = (if k = k' then (k, vs @ [v]) # d else (k', vs) # dict_append k v d)"

definition group_pairs :: "('k \<times> 'v) list \<Rightarrow> ('k \<times> 'v list) list" where
  "group_pairs ps = foldl (\<lambda>d (k, v). dict_append k v d) [] ps"

definition group_by :: "('a \<Rightarrow> 'k) \<Rightarrow> 'a list \<Rightarrow> ('k \<times> 'a list) list" where
  "group_by f xs = group_pairs (map (\<lambda>x. (f x, x)) xs)"

section \<open>Lookup after insertion\<close>

lemma map_of_dict_set [simp]: "map_of (dict_set k v d) = (map_of d)(k \<mapsto> v)"
  by (induction k v d rule: dict_set.induct) (auto simp: fun_eq_iff)

lemma dict_set_keys: "set (map fst (dict_set k v d)) = insert k (set (map fst d))"
  by (induction k v d rule: dict_set.induct) auto

lemma dict_set_distinct: "distinct (map fst d) \<Longrightarrow> distinct (map fst (dict_set k v d))"
proof (induction k v d rule: dict_set.induct)
  case (2 k v k' v' d)
  then show ?case using dict_set_keys [of k v d] by auto
qed simp

lemma map_of_dict_append:
  "map_of (dict_append k v d) = (map_of d)(k \<mapsto> (case map_of d k of Some vs \<Rightarrow> vs @ [v] | None \<Rightarrow> [v]))"
  by (induction k v d rule: dict_append.induct) (auto simp: fun_eq_iff split: option.splits)

lemma dict_append_keys: "set (map fst (dict_append k v d)) = insert k (set (map fst d))"
  by (induction k v d rule: dict_append.induct) auto

lemma dict_append_distinct: "distinct (map fst d) \<Longrightarrow> distinct (map fst (dict_append k v d))"
proof (induction k v d rule: dict_append.induct)
  case (2 k v k' vs d)
  then show ?case using dict_append_keys [of k v d] by auto
qed simp

text \<open>The group of a key is the list of its values, in order; a key has a group when it has a value.\<close>

lemma group_pairs_snoc:
  "group_pairs (ps @ [(k, v)]) = dict_append k v (group_pairs ps)"
  by (simp add: group_pairs_def)

lemma group_pairs_distinct: "distinct (map fst (group_pairs ps))"
proof (induction ps rule: rev_induct)
  case (snoc p ps)
  then show ?case by (cases p) (simp add: group_pairs_snoc dict_append_distinct del: set_map)
qed (simp add: group_pairs_def)

lemma map_of_group_pairs:
  "map_of (group_pairs ps) k =
     (let vs = map snd (filter (\<lambda>p. fst p = k) ps) in if vs = [] then None else Some vs)"
proof (induction ps arbitrary: k rule: rev_induct)
  case (snoc p ps)
  then show ?case
    by (cases p) (auto simp: group_pairs_snoc map_of_dict_append Let_def split: if_splits)
qed (simp add: group_pairs_def)

lemma group_pairs_mem:
  "(k, vs) \<in> set (group_pairs ps) \<longleftrightarrow> vs = map snd (filter (\<lambda>p. fst p = k) ps) \<and> vs \<noteq> []"
  using map_of_group_pairs [of ps k] map_of_eq_Some_iff [OF group_pairs_distinct, of ps k vs]
  by (auto simp: Let_def split: if_splits)

lemma group_pairs_value:
  "(k, vs) \<in> set (group_pairs ps) \<Longrightarrow> v \<in> set vs \<longleftrightarrow> (k, v) \<in> set ps"
  by (force simp: group_pairs_mem)

lemma group_pairs_cover: "(k, v) \<in> set ps \<Longrightarrow> \<exists>vs. (k, vs) \<in> set (group_pairs ps) \<and> v \<in> set vs"
proof -
  assume m: "(k, v) \<in> set ps"
  let ?vs = "map snd (filter (\<lambda>p. fst p = k) ps)"
  have "v \<in> set ?vs" using m by force
  then have "?vs \<noteq> []" by (metis empty_iff empty_set)
  then have "(k, ?vs) \<in> set (group_pairs ps)" unfolding group_pairs_mem by blast
  with \<open>v \<in> set ?vs\<close> show ?thesis by blast
qed

lemma group_pairs_keys: "fst ` set (group_pairs ps) = fst ` set ps"
proof (induction ps rule: rev_induct)
  case (snoc p ps)
  then show ?case
    using dict_append_keys [of "fst p" "snd p" "group_pairs ps"] by (cases p) (simp add: group_pairs_snoc)
qed (simp add: group_pairs_def)

text \<open>Regrouping loses and invents nothing.\<close>

lemma dict_append_values: "mset (concat (map snd (dict_append k v d))) = add_mset v (mset (concat (map snd d)))"
  by (induction k v d rule: dict_append.induct) auto

lemma group_pairs_values: "mset (concat (map snd (group_pairs ps))) = mset (map snd ps)"
proof (induction ps rule: rev_induct)
  case (snoc p ps)
  then show ?case by (cases p) (simp add: group_pairs_snoc dict_append_values)
qed (simp add: group_pairs_def)

lemma group_by_values: "mset (concat (map snd (group_by f xs))) = mset xs"
  by (simp add: group_by_def group_pairs_values comp_def)

lemma group_by_mem: "(k, ys) \<in> set (group_by f xs) \<longleftrightarrow> ys = filter (\<lambda>x. f x = k) xs \<and> ys \<noteq> []"
  by (simp add: group_by_def group_pairs_mem filter_map comp_def)

lemma group_by_distinct: "distinct (map fst (group_by f xs))"
  by (simp add: group_by_def group_pairs_distinct)

section \<open>min\<close>

text \<open>\<open>min(xs, key=f)\<close> keeps the first minimal item.\<close>

fun min_first :: "('a \<Rightarrow> 'k::linorder) \<Rightarrow> 'a \<Rightarrow> 'a list \<Rightarrow> 'a" where
  "min_first f best [] = best"
| "min_first f best (x # xs) = min_first f (if f x < f best then x else best) xs"

lemma min_first_in: "min_first f b xs \<in> set (b # xs)"
  by (induction xs arbitrary: b) (auto split: if_splits)

lemma min_first_le: "x \<in> set (b # xs) \<Longrightarrow> f (min_first f b xs) \<le> f x"
proof (induction xs arbitrary: b x)
  case (Cons y ys)
  let ?b' = "if f y < f b then y else b"
  have b': "f (min_first f ?b' ys) \<le> f ?b'" by (rule Cons.IH) simp
  from Cons.prems consider "x = b" | "x = y" | "x \<in> set ys" by auto
  then show ?case
  proof cases
    case 3
    then show ?thesis using Cons.IH [of x ?b'] by simp
  qed (use b' in \<open>auto split: if_splits intro: order_trans less_imp_le\<close>)
qed simp

section \<open>Text of integers and lists\<close>

definition str_of_int_list :: "int list \<Rightarrow> pystr" where
  "str_of_int_list xs = u ''['' @ py_join (u '', '') (map str_of_int xs) @ u '']''"

text \<open>
  \<open>str.isdigit\<close> accepts the decimal digits and the superscript digits; \<open>int\<close> only the
  former (on the modelled range of code points).
\<close>

definition is_decimal :: "nat \<Rightarrow> bool" where
  "is_decimal c \<longleftrightarrow> 48 \<le> c \<and> c \<le> 57"

definition py_isdigit :: "pystr \<Rightarrow> bool" where
  "py_isdigit s \<longleftrightarrow> s \<noteq> [] \<and> (\<forall>c \<in> set s. is_decimal c \<or> c \<in> {178, 179, 185})"

definition decimal_value :: "pystr \<Rightarrow> int" where
  "decimal_value s = foldl (\<lambda>n c. n * 10 + (int c - 48)) 0 s"

definition py_int :: "pystr \<Rightarrow> py_error + int" where
  "py_int s = (if s \<noteq> [] \<and> (\<forall>c \<in> set s. is_decimal c) then Inr (decimal_value s) else Inl ValueError)"

lemma decimal_value_nonneg: "\<forall>c \<in> set s. is_decimal c \<Longrightarrow> 0 \<le> decimal_value s"
  unfolding decimal_value_def by (induction s rule: rev_induct) (auto simp: is_decimal_def)

text \<open>Containment of one string in another, \<open>a in b\<close>.\<close>

fun contains :: "pystr \<Rightarrow> pystr \<Rightarrow> bool" where
  "contains a [] \<longleftrightarrow> a = []"
| "contains a (c # cs) \<longleftrightarrow> take (length a) (c # cs) = a \<or> contains a cs"

lemma contains_iff: "contains a s \<longleftrightarrow> (\<exists>xs ys. s = xs @ a @ ys)"
proof (induction s)
  case (Cons c cs)
  show ?case
  proof
    assume "contains a (c # cs)"
    then consider "take (length a) (c # cs) = a" | "contains a cs" by auto
    then show "\<exists>xs ys. c # cs = xs @ a @ ys"
    proof cases
      case 1
      then show ?thesis by (metis append_Nil append_take_drop_id)
    next
      case 2
      then show ?thesis using Cons.IH by (metis append_Cons)
    qed
  next
    assume "\<exists>xs ys. c # cs = xs @ a @ ys"
    then obtain xs ys where e: "c # cs = xs @ a @ ys" by blast
    show "contains a (c # cs)"
    proof (cases xs)
      case Nil
      with e have "take (length a) (c # cs) = a" by simp
      then show ?thesis by simp
    next
      case (Cons x xs')
      with e have "cs = xs' @ a @ ys" by simp
      then have "contains a cs" using \<open>contains a cs \<longleftrightarrow> _\<close> by blast
      then show ?thesis by simp
    qed
  qed
qed auto

text \<open>\<open>s.replace(old, new)\<close> for a non-empty \<open>old\<close>: leftmost, non-overlapping.\<close>

function replace_all :: "pystr \<Rightarrow> pystr \<Rightarrow> pystr \<Rightarrow> pystr" where
  "replace_all old new [] = []"
| "replace_all old new (c # cs) =
     (if old \<noteq> [] \<and> take (length old) (c # cs) = old then new @ replace_all old new (drop (length old) (c # cs))
      else c # replace_all old new cs)"
  by pat_completeness auto
termination
  by (relation "measure (\<lambda>(old, new, s). length s)") (auto simp: Suc_diff_le intro: diff_less_Suc)

end
