(* ===== verification/Regex.thy ===== *)
theory Regex
  imports PyDict
begin

text \<open>
  Python's \<open>re\<close>: a backtracking matcher. A pattern denotes, from a position, the list of the
  positions it can end at in the order the engine tries them; the first of them is the match.
  A position is the reversed text pre it, the text after it, and the captured groups.
  Compiled patterns of the program are values of \<open>rx\<close>. The word characters are exact up
  to U+02C1 and on the general punctuation; a later code point counts as no word character.
\<close>

type_synonym rx_state = "pystr \<times> pystr \<times> (nat \<rightharpoonup> pystr)"

datatype rx =
    REmpty
  | RChar "nat \<Rightarrow> bool"
  | RSeq rx rx
  | RAlt rx rx
  | RRep bool nat "nat option" rx
  | RGroup nat rx
  | RNot rx
  | RBegin
  | REnd
  | RWordB

text \<open>
  \<open>each f xs\<close> tries every alternative of \<open>xs\<close> in turn. The congruence rule keeps the
  simplifier out of the function until an alternative is there, so that evaluation on a
  concrete text is by need.
\<close>

fun each :: "('a \<Rightarrow> 'b list) \<Rightarrow> 'a list \<Rightarrow> 'b list" where
  "each f [] = []"
| "each f (x # xs) = f x @ each f xs"

lemma each_cong [cong]: "xs = ys \<Longrightarrow> each f xs = each f ys"
  by simp

lemma set_each [simp]: "set (each f xs) = (\<Union>x \<in> set xs. set (f x))"
  by (induction xs) auto

definition rx_prefer :: "bool \<Rightarrow> nat \<Rightarrow> rx_state \<Rightarrow> rx_state list \<Rightarrow> rx_state list" where
  [simp]: "rx_prefer greedy least s more =
     (if least > 0 then more else if greedy then more @ [s] else s # more)"

fun rx_rep :: "(rx_state \<Rightarrow> rx_state list) \<Rightarrow> bool \<Rightarrow> nat \<Rightarrow> nat option \<Rightarrow> nat \<Rightarrow> rx_state \<Rightarrow> rx_state list" where
  "rx_rep m greedy least most 0 s = (if least = 0 then [s] else [])"
| "rx_rep m greedy least most (Suc k) s =
     rx_prefer greedy least s
       (if most = Some 0 then []
        else each (\<lambda>s'. if least = 0 \<and> length (fst (snd s')) = length (fst (snd s)) then []
                        else rx_rep m greedy (least - 1) (map_option (\<lambda>n. n - 1) most) k s') (m s))"

lemma rx_rep_numeral [simp]:
  "rx_rep m greedy least most (numeral n) s =
     rx_prefer greedy least s
       (if most = Some 0 then []
        else each (\<lambda>s'. if least = 0 \<and> length (fst (snd s')) = length (fst (snd s)) then []
                        else rx_rep m greedy (least - 1) (map_option (\<lambda>n. n - 1) most) (pred_numeral n) s') (m s))"
  by (simp only: numeral_eq_Suc rx_rep.simps(2))

definition is_word_cp :: "nat \<Rightarrow> bool" where
  "is_word_cp c \<longleftrightarrow> (48 \<le> c \<and> c \<le> 57) \<or> (65 \<le> c \<and> c \<le> 90) \<or> c = 95 \<or> (97 \<le> c \<and> c \<le> 122) \<or>
     c \<in> {170, 178, 179, 181, 185, 186, 188, 189, 190} \<or> (192 \<le> c \<and> c \<le> 705 \<and> c \<noteq> 215 \<and> c \<noteq> 247)"

definition at_word_boundary :: "pystr \<Rightarrow> pystr \<Rightarrow> bool" where
  "at_word_boundary pre rest \<longleftrightarrow>
     (pre \<noteq> [] \<and> is_word_cp (hd pre)) \<noteq> (rest \<noteq> [] \<and> is_word_cp (hd rest))"

primrec rx_match :: "rx \<Rightarrow> rx_state \<Rightarrow> rx_state list" where
  "rx_match REmpty s = [s]"
| "rx_match (RChar p) s =
     (case s of (pre, rest, c) \<Rightarrow>
        (case rest of [] \<Rightarrow> [] | x # xs \<Rightarrow> if p x then [(x # pre, xs, c)] else []))"
| "rx_match (RSeq a b) s = each (rx_match b) (rx_match a s)"
| "rx_match (RAlt a b) s = rx_match a s @ rx_match b s"
| "rx_match (RRep greedy least most r) s =
     rx_rep (rx_match r) greedy least most (length (fst (snd s)) + least + 1) s"
| "rx_match (RGroup n r) s =
     map (\<lambda>(pre', rest', c'). (pre', rest', c'(n \<mapsto> take (length (fst (snd s)) - length rest') (fst (snd s)))))
       (rx_match r s)"
| "rx_match (RNot r) s = (if rx_match r s = [] then [s] else [])"
| "rx_match RBegin s = (if fst s = [] then [s] else [])"
| "rx_match REnd s = (if fst (snd s) = [] \<or> fst (snd s) = [10] then [s] else [])"
| "rx_match RWordB s = (if at_word_boundary (fst s) (fst (snd s)) then [s] else [])"

text \<open>
  \<open>re.match\<close> at a position and \<open>re.search\<close> from it: the captures (group 0 is the whole
  match) with the text pre and after.
\<close>

definition rx_at :: "rx \<Rightarrow> pystr \<Rightarrow> pystr \<Rightarrow> rx_state option" where
  "rx_at r pre rest = (case rx_match (RGroup 0 r) (pre, rest, Map.empty) of [] \<Rightarrow> None | m # _ \<Rightarrow> Some m)"

fun rx_search_from :: "rx \<Rightarrow> pystr \<Rightarrow> pystr \<Rightarrow> rx_state option" where
  "rx_search_from r pre [] = rx_at r pre []"
| "rx_search_from r pre (c # cs) =
     (case rx_at r pre (c # cs) of Some m \<Rightarrow> Some m | None \<Rightarrow> rx_search_from r (c # pre) cs)"

definition rx_search :: "rx \<Rightarrow> pystr \<Rightarrow> (nat \<rightharpoonup> pystr) option" where
  "rx_search r s = map_option (snd \<circ> snd) (rx_search_from r [] s)"

definition group :: "(nat \<rightharpoonup> pystr) \<Rightarrow> nat \<Rightarrow> pystr" where
  "group m n = (case m n of Some s \<Rightarrow> s | None \<Rightarrow> [])"

section \<open>Abbreviations for the patterns of the program\<close>

abbreviation r_digit :: rx where "r_digit \<equiv> RChar is_decimal"
abbreviation r_space :: rx where "r_space \<equiv> RChar is_space"
abbreviation r_any :: rx where "r_any \<equiv> RChar (\<lambda>c. c \<noteq> 10)"
abbreviation r_star :: "rx \<Rightarrow> rx" where "r_star r \<equiv> RRep True 0 None r"
abbreviation r_plus :: "rx \<Rightarrow> rx" where "r_plus r \<equiv> RRep True 1 None r"
abbreviation r_lazy :: "rx \<Rightarrow> rx" where "r_lazy r \<equiv> RRep False 0 None r"
abbreviation r_opt :: "rx \<Rightarrow> rx" where "r_opt r \<equiv> RRep True 0 (Some 1) r"
abbreviation r_times :: "nat \<Rightarrow> nat \<Rightarrow> rx \<Rightarrow> rx" where "r_times a b r \<equiv> RRep True a (Some b) r"

primrec r_lit :: "pystr \<Rightarrow> rx" where
  "r_lit [] = REmpty"
| "r_lit (c # cs) = RSeq (RChar (\<lambda>x. x = c)) (r_lit cs)"

text \<open>A literal under \<open>re.IGNORECASE\<close>.\<close>

primrec r_lit_ci :: "pystr \<Rightarrow> rx" where
  "r_lit_ci [] = REmpty"
| "r_lit_ci (c # cs) = RSeq (RChar (\<lambda>x. lower_cp x = lower_cp c)) (r_lit_ci cs)"

fun r_seq :: "rx list \<Rightarrow> rx" where
  "r_seq [] = REmpty"
| "r_seq [r] = r"
| "r_seq (r # s # rs) = RSeq r (r_seq (s # rs))"

section \<open>What a match is\<close>

text \<open>Every end of a match lies at or after its start, on the same text.\<close>

definition on_text :: "rx_state \<Rightarrow> rx_state \<Rightarrow> bool" where
  "on_text s s' \<longleftrightarrow> (\<exists>w. fst (snd s) = w @ fst (snd s') \<and> fst s' = rev w @ fst s)"

lemma on_text_refl [simp]: "on_text s s"
  by (simp add: on_text_def)

lemma on_text_trans: "on_text s t \<Longrightarrow> on_text t v \<Longrightarrow> on_text s v"
  by (fastforce simp: on_text_def)

lemma rx_rep_on_text:
  assumes "\<And>s s'. s' \<in> set (m s) \<Longrightarrow> on_text s s'"
  shows "s' \<in> set (rx_rep m g least most k s) \<Longrightarrow> on_text s s'"
proof (induction k arbitrary: least most s)
  case (Suc k)
  then consider "s' = s" | t least' most' where "t \<in> set (m s)" "s' \<in> set (rx_rep m g least' most' k t)"
    by (auto simp: Let_def split: if_splits)
  then show ?case
    by cases (auto intro: on_text_trans assms Suc.IH)
qed (auto split: if_splits)

lemma rx_match_on_text: "s' \<in> set (rx_match r s) \<Longrightarrow> on_text s s'"
proof (induction r arbitrary: s s')
  case (RChar p)
  then show ?case by (cases s) (auto simp: on_text_def split: list.splits if_splits)
next
  case (RSeq a b)
  then obtain t where "t \<in> set (rx_match a s)" "s' \<in> set (rx_match b t)" by auto
  with RSeq.IH show ?case by (blast intro: on_text_trans)
next
  case (RRep g least most r)
  show ?case
    by (rule rx_rep_on_text [of "rx_match r" s' g least most "length (fst (snd s)) + least + 1"])
      (use RRep in simp_all)
next
  case (RGroup n r)
  then obtain c where "(fst s', fst (snd s'), c) \<in> set (rx_match r s)" by auto
  from RGroup.IH [OF this] show ?case by (simp add: on_text_def)
qed (auto split: if_splits)

text \<open>The whole match is a part of the searched text.\<close>

lemma rx_at_text:
  assumes "rx_at r pre rest = Some (pre', rest', m)"
  shows "\<exists>w. rest = w @ rest' \<and> pre' = rev w @ pre \<and> m 0 = Some w"
proof -
  obtain c' where c: "(pre', rest', c') \<in> set (rx_match r (pre, rest, Map.empty))"
    and m: "m = c'(0 \<mapsto> take (length rest - length rest') rest)"
    using assms by (fastforce simp: rx_at_def split: list.split_asm)
  from rx_match_on_text [OF c] m show ?thesis by (auto simp: on_text_def)
qed

lemma rx_search_from_text:
  "rx_search_from r pre rest = Some (pre', rest', m) \<Longrightarrow>
     \<exists>skip w. rest = skip @ w @ rest' \<and> pre' = rev w @ rev skip @ pre \<and> m 0 = Some w"
proof (induction r pre rest rule: rx_search_from.induct)
  case (1 r pre)
  then have "rx_at r pre [] = Some (pre', rest', m)" by simp
  from rx_at_text [OF this] show ?case by auto
next
  case (2 r pre c cs)
  show ?case
  proof (cases "rx_at r pre (c # cs)")
    case None
    with 2 obtain skip w where "cs = skip @ w @ rest'" "pre' = rev w @ rev skip @ c # pre" "m 0 = Some w"
      by auto
    then show ?thesis by (intro exI [of _ "c # skip"] exI [of _ w]) simp
  next
    case (Some x)
    with 2 have "rx_at r pre (c # cs) = Some (pre', rest', m)" by simp
    from rx_at_text [OF this] obtain w where "c # cs = w @ rest'" "pre' = rev w @ pre" "m 0 = Some w" by blast
    then show ?thesis by (intro exI [of _ "[]"] exI [of _ w]) simp
  qed
qed

end
