(* ===== verification/Sheet_Header.thy ===== *)
theory Sheet_Header
  imports Models Regex
begin

text \<open>
  \<open>src/swimzh/providers/belegungsplan.py\<close>, first part: the words of a lane-reservation PDF,
  one-dimensional clustering, and the header and the legend of a sheet. A word is what
  \<open>pdfplumber\<close> returns, a text with its box; coordinates are rationals where the program
  computes with floats. A step that can raise returns a sum, the exception on the left.
\<close>

section \<open>Words and tolerances\<close>

record sheet_word =
  sw_text :: pystr
  sw_x0 :: rat
  sw_x1 :: rat
  sw_top :: rat

definition xc :: "sheet_word \<Rightarrow> rat" where
  "xc w = (sw_x0 w + sw_x1 w) / 2"

record grid_spec =
  x_tol :: rat
  y_tol :: rat
  grid_margin_ratio :: rat
  lane_merge_ratio :: rat
  title_gap :: rat
  bahnen_gap :: rat
  label_overhang_ratio :: rat
  row_label_tol_ratio :: rat

definition DEFAULT_PAGE_WIDTH :: rat where
  "DEFAULT_PAGE_WIDTH = 84192 / 100"

definition DEFAULT_GRID_SPEC :: grid_spec where
  "DEFAULT_GRID_SPEC = \<lparr>x_tol = 5, y_tol = 6, grid_margin_ratio = 70 / DEFAULT_PAGE_WIDTH,
     lane_merge_ratio = 1 / 2, title_gap = 8, bahnen_gap = 5, label_overhang_ratio = 1,
     row_label_tol_ratio = 1 / 2\<rparr>"

definition PLAN_SOURCE :: pystr where
  "PLAN_SOURCE = u ''belegungsplan''"

abbreviation mismatch :: "pystr \<Rightarrow> ('a, provider_error) result" where
  "mismatch detail \<equiv> Err (SchemaMismatch PLAN_SOURCE detail)"

section \<open>Clustering\<close>

text \<open>
  The loops of \<open>_cluster\<close> and \<open>_cluster_counts\<close>: a value joins the last group when it is
  within the tolerance of its last member. (The program never clusters an empty list: every
  call stands under a test that there are words.)
\<close>

definition group_step :: "rat \<Rightarrow> rat list list \<Rightarrow> rat \<Rightarrow> rat list list" where
  "group_step tol groups v =
     (if v - last (last groups) \<le> tol then butlast groups @ [last groups @ [v]] else groups @ [[v]])"

definition cluster_groups :: "rat list \<Rightarrow> rat \<Rightarrow> rat list list" where
  "cluster_groups values tol =
     (case sort values of [] \<Rightarrow> [] | v # ordered \<Rightarrow> foldl (group_step tol) [[v]] ordered)"

definition centre :: "rat list \<Rightarrow> rat" where
  "centre g = sum_list g / of_nat (length g)"

definition cluster :: "rat list \<Rightarrow> rat \<Rightarrow> rat list" where
  "cluster values tol = map centre (cluster_groups values tol)"

definition cluster_counts :: "rat list \<Rightarrow> rat \<Rightarrow> (rat \<times> nat) list" where
  "cluster_counts values tol = map (\<lambda>g. (centre g, length g)) (cluster_groups values tol)"

text \<open>Index of the nearest centre, the first of equally near ones.\<close>

definition nearest :: "rat \<Rightarrow> rat list \<Rightarrow> nat" where
  "nearest v centres =
     (case enumerate 0 centres of [] \<Rightarrow> 0 | x # xs \<Rightarrow> fst (min_first (\<lambda>(i, c). \<bar>c - v\<bar>) x xs))"

definition merge_fragment :: "grid_spec \<Rightarrow> rat \<Rightarrow> (rat \<times> nat) list \<Rightarrow> rat \<times> nat \<Rightarrow> (rat \<times> nat) list" where
  "merge_fragment spec pitch merged cn =
     (let (c, n) = cn; (prev_c, prev_n) = last merged
      in if c - prev_c < lane_merge_ratio spec * pitch
         then butlast merged @ [((prev_c * of_nat prev_n + c * of_nat n) / of_nat (prev_n + n), prev_n + n)]
         else merged @ [(c, n)])"

definition lane_columns :: "rat list \<Rightarrow> grid_spec \<Rightarrow> rat list" where
  "lane_columns values spec =
     (let columns = cluster_counts values (x_tol spec)
      in if length columns < 3 then map fst columns
         else let gaps = sort (map (\<lambda>(a, b). fst b - fst a) (pairwise columns));
                  pitch = gaps ! (length gaps div 2)
              in map fst (foldl (merge_fragment spec pitch) [hd columns] (tl columns)))"

section \<open>Header\<close>

definition MONTHS :: "(pystr \<times> int) list" where
  "MONTHS = [(u ''januar'', 1), (u ''februar'', 2), ([109, 228, 114, 122], 3), (u ''april'', 4),
     (u ''mai'', 5), (u ''juni'', 6), (u ''juli'', 7), (u ''august'', 8), (u ''september'', 9),
     (u ''oktober'', 10), (u ''november'', 11), (u ''dezember'', 12)]"

definition WEEKDAY_TOKENS :: "pystr list" where
  "WEEKDAY_TOKENS =
     [u ''montag'', u ''dienstag'', u ''mittwoch'', u ''donnerstag'', u ''freitag'', u ''samstag'', u ''sonntag'',
      u ''mo'', u ''di'', u ''mi'', u ''do'', u ''fr'', u ''sa'', u ''so'']"

text \<open>
  \<open>[A-Za-z...]\<close> under \<open>IGNORECASE\<close>; the last four code points (dotted and dotless i, long s,
  Kelvin sign) are those whose case variant is an ASCII letter.
\<close>

definition german_letter :: "nat \<Rightarrow> bool" where
  "german_letter c \<longleftrightarrow> (97 \<le> lower_cp c \<and> lower_cp c \<le> 122) \<or> lower_cp c \<in> {228, 246, 252} \<or>
     c \<in> {304, 305, 383, 8490}"

definition VALID_FROM_RE :: rx where
  "VALID_FROM_RE = r_seq [r_lit_ci (u ''ab''), r_plus r_space, RGroup 1 (r_times 1 2 r_digit), r_lit (u ''.''),
     r_star r_space, RGroup 2 (r_plus (RChar german_letter)), r_plus r_space, RGroup 3 (r_times 4 4 r_digit)]"

definition parse_valid_from :: "pystr \<Rightarrow> date option" where
  "parse_valid_from txt =
     (case rx_search VALID_FROM_RE txt of
        None \<Rightarrow> None
      | Some m \<Rightarrow>
          (case map_of MONTHS (py_lower (group m 2)) of
             None \<Rightarrow> None
           | Some mo \<Rightarrow>
               let d = Date (decimal_value (group m 3)) mo (decimal_value (group m 1))
               in if valid_date d then Some d else None))"

text \<open>The digit left of every "Bahnen"; all columns must agree.\<close>

definition lane_count_step :: "sheet_word list \<Rightarrow> int list \<Rightarrow> sheet_word \<Rightarrow> py_error + int list" where
  "lane_count_step digits counts label =
     (let left = filter (\<lambda>d. sw_x1 d \<le> sw_x0 label \<and> sw_x0 label - sw_x1 d < 6) digits
      in if left = [] then Inr counts
         else bind_err (py_int (sw_text (last left))) (\<lambda>n. Inr (List.insert n counts)))"

definition lane_count_of :: "sheet_word list \<Rightarrow> rat \<Rightarrow> py_error + int option" where
  "lane_count_of words bahnen_top =
     (let on_row = filter (\<lambda>w. \<bar>sw_top w - bahnen_top\<bar> \<le> 2) words;
          bahnen = filter (\<lambda>w. py_lower (sw_text w) = u ''bahnen'') on_row;
          digits = filter (\<lambda>w. py_isdigit (sw_text w)) on_row
      in bind_err (fold_err (lane_count_step digits) bahnen []) (\<lambda>counts.
         Inr (case counts of [n] \<Rightarrow> Some n | _ \<Rightarrow> None)))"

definition row_text :: "sheet_word list \<Rightarrow> pystr" where
  "row_text ws = py_strip (py_join (u '' '') (map sw_text (sort_key sw_x0 ws)))"

definition basin_title :: "sheet_word list \<Rightarrow> rat \<Rightarrow> rat \<Rightarrow> grid_spec \<Rightarrow> rat \<Rightarrow> pystr" where
  "basin_title words grid_x_min grid_x_max spec weekday_top =
     (let above = filter (\<lambda>w. sw_top w < weekday_top - title_gap spec \<and> grid_x_min \<le> xc w \<and> xc w \<le> grid_x_max) words
      in case cluster (map sw_top above) (y_tol spec) of
           [] \<Rightarrow> []
         | c # cs \<Rightarrow>
             let target = max_first (\<lambda>x. x) c cs
             in row_text (filter (\<lambda>w. \<bar>sw_top w - target\<bar> \<le> y_tol spec) above))"

definition header_valid_from :: "sheet_word list \<Rightarrow> rat \<Rightarrow> rat \<Rightarrow> date option" where
  "header_valid_from words grid_x_max weekday_top =
     parse_valid_from (row_text (filter (\<lambda>w. xc w > grid_x_max \<and> sw_top w < weekday_top) words))"

text \<open>The densest row of weekday words, the topmost of equally dense ones.\<close>

definition min_top :: "sheet_word list \<Rightarrow> rat" where
  "min_top ws = min_list (map sw_top ws)"

definition weekday_row :: "sheet_word list \<Rightarrow> sheet_word list option" where
  "weekday_row words =
     (case map snd (group_by (\<lambda>w. round_half_even (sw_top w))
             (filter (\<lambda>w. py_lower (py_strip (sw_text w)) \<in> set WEEKDAY_TOKENS) words)) of
        [] \<Rightarrow> None
      | r # rs \<Rightarrow> Some (max_first (\<lambda>r. (int (length r), - min_top r)) r rs))"

definition grid_band :: "sheet_word list \<Rightarrow> grid_spec \<Rightarrow> rat \<Rightarrow> rat \<times> rat" where
  "grid_band anchors spec page_width =
     (let centres = sort (map xc anchors);
          extent = last centres - hd centres;
          half_day = (if length centres > 1 then extent / (2 * (of_nat (length centres) - 1)) else 0)
      in (max (hd centres - half_day) (page_width * grid_margin_ratio spec), last centres + half_day))"

record sheet_header =
  hdr_basin_hint :: pystr
  hdr_lane_count :: int
  hdr_valid_from :: "date option"
  hdr_weekday_top :: rat
  hdr_bahnen_top :: rat
  hdr_grid_x_min :: rat
  hdr_grid_x_max :: rat
  hdr_weekday_centres :: "rat list"

definition parse_header ::
  "sheet_word list \<Rightarrow> grid_spec \<Rightarrow> rat \<Rightarrow> py_error + (sheet_header, provider_error) result" where
  "parse_header words spec page_width =
     (case weekday_row words of
        None \<Rightarrow> Inr (mismatch (u ''no weekday header row''))
      | Some anchors \<Rightarrow>
          let weekday_top = min_top anchors;
              (grid_x_min, grid_x_max) = grid_band anchors spec page_width;
              bahnen_tops = map sw_top (filter (\<lambda>w. py_lower (sw_text w) = u ''bahnen'' \<and> sw_top w > weekday_top) words)
          in if bahnen_tops = [] then Inr (mismatch (u ''no 'Bahnen' lane-count row''))
             else let bahnen_top = min_list bahnen_tops
               in bind_err (lane_count_of words bahnen_top) (\<lambda>count. Inr (
                    case count of
                      None \<Rightarrow> mismatch (u ''lane count not determinable'')
                    | Some n \<Rightarrow>
                        if n < 1 then mismatch (u ''lane count not determinable'')
                        else let hint = basin_title words grid_x_min grid_x_max spec weekday_top
                          in if hint = [] then mismatch (u ''no basin title'')
                             else Ok \<lparr>hdr_basin_hint = hint, hdr_lane_count = n,
                               hdr_valid_from = header_valid_from words grid_x_max weekday_top,
                               hdr_weekday_top = weekday_top, hdr_bahnen_top = bahnen_top,
                               hdr_grid_x_min = grid_x_min, hdr_grid_x_max = grid_x_max,
                               hdr_weekday_centres = sort (map xc anchors)\<rparr>)))"

section \<open>Legend\<close>

type_synonym legend = "(int \<times> pystr) list"

definition legend_step :: "legend \<Rightarrow> sheet_word list \<Rightarrow> py_error + legend" where
  "legend_step leg row =
     (let ordered = sort_key sw_x0 row; head = py_strip (sw_text (hd ordered))
      in if \<not> py_isdigit head then Inr leg
         else let name = py_strip (py_join (u '' '') (map sw_text (tl ordered)))
              in if name = [] then Inr leg
                 else bind_err (py_int head) (\<lambda>code. Inr (dict_set code name leg)))"

definition parse_legend :: "sheet_word list \<Rightarrow> rat \<Rightarrow> rat \<Rightarrow> py_error + legend" where
  "parse_legend words grid_x_max weekday_top =
     fold_err legend_step
       (map snd (group_by (\<lambda>w. round_half_even (sw_top w))
          (filter (\<lambda>w. xc w > grid_x_max \<and> sw_top w > weekday_top) words))) []"

definition oeffentlich :: pystr where
  "oeffentlich = 246 # u ''ffentlich''"

definition code_to_access :: "pystr \<Rightarrow> session_access" where
  "code_to_access name =
     (let lowered = py_lower name
      in if contains oeffentlich lowered then PublicSwim
         else if contains (u ''schul'') (replace_all (u ''schwimmschule'') [] lowered) then SchoolReserved
         else ClubReserved name)"

section \<open>Facts on clustering\<close>

lemma foldl_group_step_concat:
  "groups \<noteq> [] \<Longrightarrow> concat (foldl (group_step tol) groups vs) = concat groups @ vs"
proof (induction vs arbitrary: groups)
  case (Cons v vs)
  have "concat (group_step tol groups v) = concat groups @ [v]" "group_step tol groups v \<noteq> []"
    using Cons.prems by (cases groups rule: rev_cases; simp add: group_step_def)+
  with Cons.IH show ?case by simp
qed simp

lemma foldl_group_step_nonempty:
  "\<forall>g \<in> set groups. g \<noteq> [] \<Longrightarrow> \<forall>g \<in> set (foldl (group_step tol) groups vs). g \<noteq> []"
proof (induction vs arbitrary: groups)
  case (Cons v vs)
  have "\<forall>g \<in> set (group_step tol groups v). g \<noteq> []"
    using Cons.prems by (auto simp: group_step_def dest: in_set_butlastD)
  with Cons.IH show ?case by simp
qed simp

text \<open>Clustering partitions the sorted values into consecutive non-empty groups.\<close>

lemma cluster_groups_concat: "concat (cluster_groups vs tol) = sort vs"
  using foldl_group_step_concat [of "[[_]]" tol] by (simp add: cluster_groups_def split: list.split)

lemma cluster_groups_nonempty: "g \<in> set (cluster_groups vs tol) \<Longrightarrow> g \<noteq> []"
  using foldl_group_step_nonempty [of "[[_]]" tol] by (fastforce simp: cluster_groups_def split: list.splits)

lemma cluster_Nil_iff: "cluster vs tol = [] \<longleftrightarrow> vs = []"
proof -
  have "cluster_groups vs tol = [] \<longleftrightarrow> vs = []"
    using cluster_groups_concat [of vs tol] cluster_groups_nonempty [of _ vs tol]
    by (metis concat.simps(1) cluster_groups_def list.simps(4) sort_key_simps(1) set_empty set_sort)
  then show ?thesis by (simp add: cluster_def)
qed

lemma enumerate_Nil_iff: "enumerate n xs = [] \<longleftrightarrow> xs = []"
  by (metis length_0_conv length_enumerate)

lemma nearest_less: "cs \<noteq> [] \<Longrightarrow> nearest v cs < length cs"
proof -
  assume "cs \<noteq> []"
  then obtain x xs where e: "enumerate 0 cs = x # xs" by (cases "enumerate 0 cs") (auto simp: enumerate_Nil_iff)
  have "min_first (\<lambda>(i, c). \<bar>c - v\<bar>) x xs \<in> set (enumerate 0 cs)"
    unfolding e by (rule min_first_in)
  then have "fst (min_first (\<lambda>(i, c). \<bar>c - v\<bar>) x xs) < length cs"
    by (auto simp: in_set_enumerate_eq)
  then show ?thesis by (simp add: nearest_def e)
qed

lemma nearest_is_nearest: "i < length cs \<Longrightarrow> \<bar>cs ! nearest v cs - v\<bar> \<le> \<bar>cs ! i - v\<bar>"
proof -
  assume i: "i < length cs"
  let ?f = "\<lambda>(i :: nat, c :: rat). \<bar>c - v\<bar>"
  obtain x xs where e: "enumerate 0 cs = x # xs" using i by (cases "enumerate 0 cs") (auto simp: enumerate_Nil_iff)
  have "min_first ?f x xs \<in> set (enumerate 0 cs)" unfolding e by (rule min_first_in)
  then have "snd (min_first ?f x xs) = cs ! fst (min_first ?f x xs)" by (simp only: in_set_enumerate_eq) simp
  then have "?f (min_first ?f x xs) = \<bar>cs ! nearest v cs - v\<bar>"
    by (simp add: nearest_def e case_prod_beta)
  moreover have "(i, cs ! i) \<in> set (enumerate 0 cs)" using i by (simp add: in_set_enumerate_eq)
  then have "?f (min_first ?f x xs) \<le> ?f (i, cs ! i)" unfolding e by (rule min_first_le)
  ultimately show ?thesis by simp
qed

end
