(* ===== verification/Sheet_Grid.thy ===== *)
theory Sheet_Grid
  imports Sheet_Header Iso
begin

text \<open>
  \<open>src/swimzh/providers/belegungsplan.py\<close>, second part: time labels, the pairing of cell
  rows with labels by geometry, and the segmentation of the cells into a grid of codes, either
  the clean rectangle or, on a ragged sheet, weekday by weekday. The text of a float in a
  message is the runtime's and an argument, \<open>frepr\<close>.
\<close>

section \<open>Time labels\<close>

record time_label =
  tl_top :: rat
  tl_time :: time_range

definition TIME_LABEL_RE :: rx where
  "TIME_LABEL_RE = r_seq [RGroup 1 (r_times 1 2 r_digit), r_lit (u ''.''), RGroup 2 (r_times 2 2 r_digit),
     r_lazy r_any, RGroup 3 (r_times 1 2 r_digit), r_lit (u ''.''), RGroup 4 (r_times 2 2 r_digit)]"

definition joined_row :: "sheet_word list \<Rightarrow> pystr" where
  "joined_row row = py_join (u '' '') (map sw_text (sort_key sw_x0 row))"

text \<open>\<open>time(hour, minute)\<close>.\<close>

definition mk_time :: "int \<Rightarrow> int \<Rightarrow> py_error + time" where
  "mk_time h m = (if 0 \<le> h \<and> h < 24 \<and> 0 \<le> m \<and> m < 60 then Inr (hm (nat h) (nat m)) else Inl ValueError)"

definition label_of_row :: "sheet_word list \<Rightarrow> time_label list" where
  "label_of_row row =
     (case rx_search TIME_LABEL_RE (joined_row row) of
        None \<Rightarrow> []
      | Some m \<Rightarrow>
          (case (mk_time (decimal_value (group m 1)) (decimal_value (group m 2)),
                 mk_time (decimal_value (group m 3)) (decimal_value (group m 4))) of
             (Inr s, Inr e) \<Rightarrow> if s < e then [\<lparr>tl_top = min_top row, tl_time = TimeRange s e\<rparr>] else []
           | _ \<Rightarrow> []))"

definition gutter_rows :: "sheet_word list \<Rightarrow> rat \<Rightarrow> (int \<times> sheet_word list) list" where
  "gutter_rows words grid_x_min = group_by (\<lambda>w. round_half_even (sw_top w)) (filter (\<lambda>w. xc w < grid_x_min) words)"

definition time_labels :: "sheet_word list \<Rightarrow> rat \<Rightarrow> time_label list" where
  "time_labels words grid_x_min =
     concat (map (\<lambda>p. label_of_row (snd p)) (sort_key fst (gutter_rows words grid_x_min)))"

definition label_row_tops :: "sheet_word list \<Rightarrow> rat \<Rightarrow> rat list" where
  "label_row_tops words grid_x_min =
     sort (map min_top (filter (\<lambda>row. rx_search TIME_LABEL_RE (joined_row row) \<noteq> None)
       (map snd (gutter_rows words grid_x_min))))"

text \<open>The y below which a digit is prose; \<open>None\<close> is \<open>math.inf\<close>.\<close>

definition grid_bottom :: "sheet_word list \<Rightarrow> rat \<Rightarrow> grid_spec \<Rightarrow> rat option" where
  "grid_bottom words grid_x_min spec =
     (let tops = label_row_tops words grid_x_min
      in if length tops < 2 then None
         else let pitch = (last tops - hd tops) / (of_nat (length tops) - 1)
              in Some (last tops + pitch * label_overhang_ratio spec))"

definition above_bottom :: "rat \<Rightarrow> rat option \<Rightarrow> bool" where
  "above_bottom y bottom = (case bottom of None \<Rightarrow> True | Some b \<Rightarrow> y < b)"

definition cell_words :: "sheet_word list \<Rightarrow> rat \<Rightarrow> rat \<Rightarrow> grid_spec \<Rightarrow> rat \<Rightarrow> sheet_word list" where
  "cell_words words grid_x_min grid_x_max spec bahnen_top =
     (let bottom = grid_bottom words grid_x_min spec
      in filter (\<lambda>w. py_isdigit (sw_text w) \<and> grid_x_min < xc w \<and> xc w < grid_x_max \<and>
           bahnen_top + bahnen_gap spec < sw_top w \<and> above_bottom (sw_top w) bottom) words)"

section \<open>Pairing rows with labels\<close>

text \<open>
  The labels come from \<open>time_labels\<close>, one per rounded top in ascending order, so two labels
  are never at the same height and the pitch is positive.
\<close>

definition no_label_detail :: "(rat \<Rightarrow> pystr) \<Rightarrow> grid_spec \<Rightarrow> rat \<Rightarrow> rat \<Rightarrow> rat \<Rightarrow> pystr" where
  "no_label_detail frepr spec row distance pitch =
     u ''cell row at y='' @ fmt_fixed 1 row @ u '' matches no time label within '' @
     frepr (row_label_tol_ratio spec) @ 215 # u ''pitch (nearest is '' @
     fmt_fixed 2 (distance / pitch) @ 215 # u ''pitch away)''"

definition iso_time :: "time \<Rightarrow> pystr" where
  "iso_time t = iso_hms (hour t) (minute t) (second t) (microsecond t)"

definition two_rows_detail :: "time_range \<Rightarrow> rat \<Rightarrow> pystr" where
  "two_rows_detail r row =
     u ''two cell rows claim the '' @ iso_time (tr_start r) @ u ''-'' @ iso_time (tr_end r) @
     u '' time label (second at y='' @ fmt_fixed 1 row @ u '')''"

fun pair_loop ::
  "(rat \<Rightarrow> pystr) \<Rightarrow> grid_spec \<Rightarrow> time_label list \<Rightarrow> rat \<Rightarrow> rat list \<Rightarrow> nat list \<Rightarrow> time_range list \<Rightarrow>
   (time_range list, provider_error) result" where
  "pair_loop frepr spec labels pitch [] claimed paired = Ok paired"
| "pair_loop frepr spec labels pitch (row # rows) claimed paired =
     (let tops = map tl_top labels; index = nearest row tops; distance = \<bar>tops ! index - row\<bar>;
          label = labels ! index
      in if distance > pitch * row_label_tol_ratio spec then mismatch (no_label_detail frepr spec row distance pitch)
         else if index \<in> set claimed then mismatch (two_rows_detail (tl_time label) row)
         else pair_loop frepr spec labels pitch rows (index # claimed) (paired @ [tl_time label]))"

definition pair_rows_to_labels ::
  "(rat \<Rightarrow> pystr) \<Rightarrow> rat list \<Rightarrow> time_label list \<Rightarrow> grid_spec \<Rightarrow> (time_range list, provider_error) result" where
  "pair_rows_to_labels frepr rows labels spec =
     (if labels = [] then mismatch (u ''no time labels'')
      else if length labels < 2 then
        (if length rows > length labels
         then mismatch (str_of_int (int (length rows)) @ u '' slot rows but only '' @
           str_of_int (int (length labels)) @ u '' time labels'')
         else Ok (map tl_time (take (length rows) labels)))
      else let pitch = (tl_top (last labels) - tl_top (hd labels)) / (of_nat (length labels) - 1)
           in pair_loop frepr spec labels pitch rows [] [])"

section \<open>The grid\<close>

record sheet_grid =
  sg_codes :: "weekday \<times> int \<times> nat \<rightharpoonup> int"
  sg_slots :: "time_range list"
  sg_lane_count :: int
  sg_lanes_by_weekday :: "(weekday \<rightharpoonup> int) option"

text \<open>\<open>Weekday(n)\<close>.\<close>

definition mk_weekday :: "int \<Rightarrow> py_error + weekday" where
  "mk_weekday n = (if 0 \<le> n \<and> n < 7 then Inr (Weekday n) else Inl ValueError)"

definition ALL_WEEKDAYS :: "weekday list" where
  "ALL_WEEKDAYS = [MONDAY, TUESDAY, WEDNESDAY, THURSDAY, FRIDAY, SATURDAY, SUNDAY]"

definition weekday_bounds :: "sheet_header \<Rightarrow> rat list" where
  "weekday_bounds header =
     hdr_grid_x_min header # map (\<lambda>(a, b). (a + b) / 2) (pairwise (hdr_weekday_centres header)) @
     [hdr_grid_x_max header]"

definition uniform_step ::
  "rat list \<Rightarrow> rat list \<Rightarrow> int \<Rightarrow> (weekday \<times> int \<times> nat \<rightharpoonup> int) \<Rightarrow> sheet_word \<Rightarrow>
   py_error + (weekday \<times> int \<times> nat \<rightharpoonup> int)" where
  "uniform_step columns rows lanes codes w =
     (let col = int (nearest (xc w) columns); row = nearest (sw_top w) rows
      in bind_err (mk_weekday (col div lanes)) (\<lambda>wd.
         bind_err (py_int (sw_text w)) (\<lambda>code. Inr (codes((wd, col mod lanes + 1, row) \<mapsto> code)))))"

definition uniform_grid ::
  "sheet_word list \<Rightarrow> rat list \<Rightarrow> time_range list \<Rightarrow> grid_spec \<Rightarrow> sheet_header \<Rightarrow> py_error + sheet_grid" where
  "uniform_grid cells columns slots spec header =
     (let rows = take (length slots) (cluster (map sw_top cells) (y_tol spec))
      in bind_err (fold_err (uniform_step columns rows (hdr_lane_count header)) cells Map.empty) (\<lambda>codes.
         Inr \<lparr>sg_codes = codes, sg_slots = slots, sg_lane_count = hdr_lane_count header,
              sg_lanes_by_weekday = None\<rparr>))"

text \<open>The band of the i-th weekday; \<open>bounds[i + 1]\<close> raises when there are too few anchors.\<close>

definition day_band :: "rat list \<Rightarrow> nat \<Rightarrow> py_error + rat \<times> rat" where
  "day_band bounds i = (if Suc i < length bounds then Inr (bounds ! i, bounds ! Suc i) else Inl IndexError)"

definition in_band :: "rat \<times> rat \<Rightarrow> sheet_word \<Rightarrow> bool" where
  "in_band band w \<longleftrightarrow> fst band \<le> xc w \<and> xc w < snd band"

definition day_columns ::
  "sheet_word list \<Rightarrow> grid_spec \<Rightarrow> rat list \<Rightarrow> (weekday \<times> (rat \<times> rat) \<times> rat list) list \<Rightarrow> nat \<times> weekday \<Rightarrow>
   py_error + (weekday \<times> (rat \<times> rat) \<times> rat list) list" where
  "day_columns cells spec bounds acc iwd =
     bind_err (day_band bounds (fst iwd)) (\<lambda>band.
       let day_cells = filter (in_band band) cells
       in Inr (acc @ [(snd iwd, band, if day_cells = [] then [] else lane_columns (map xc day_cells) spec)]))"

definition ragged_step ::
  "rat list \<Rightarrow> weekday \<Rightarrow> rat list \<Rightarrow> (weekday \<times> int \<times> nat \<rightharpoonup> int) \<Rightarrow> sheet_word \<Rightarrow>
   py_error + (weekday \<times> int \<times> nat \<rightharpoonup> int)" where
  "ragged_step rows wd cols codes w =
     bind_err (py_int (sw_text w)) (\<lambda>code.
       Inr (codes((wd, int (nearest (xc w) cols) + 1, nearest (sw_top w) rows) \<mapsto> code)))"

definition ragged_day ::
  "sheet_word list \<Rightarrow> rat list \<Rightarrow> (weekday \<times> int \<times> nat \<rightharpoonup> int) \<Rightarrow> weekday \<times> (rat \<times> rat) \<times> rat list \<Rightarrow>
   py_error + (weekday \<times> int \<times> nat \<rightharpoonup> int)" where
  "ragged_day cells rows codes dayc =
     (case dayc of (wd, band, cols) \<Rightarrow>
        if cols = [] then Inr codes
        else fold_err (ragged_step rows wd cols) (filter (in_band band) cells) codes)"

definition ragged_grid ::
  "sheet_word list \<Rightarrow> time_range list \<Rightarrow> grid_spec \<Rightarrow> sheet_header \<Rightarrow> py_error + sheet_grid" where
  "ragged_grid cells slots spec header =
     (let rows = take (length slots) (cluster (map sw_top cells) (y_tol spec));
          bounds = weekday_bounds header
      in bind_err (fold_err (day_columns cells spec bounds) (enumerate 0 ALL_WEEKDAYS) []) (\<lambda>days.
           let counts = map (\<lambda>(wd, band, cols). (wd, int (length cols))) days;
               lanes = max (hdr_lane_count header) (max_first (\<lambda>n. n) 0 (map snd counts));
               ragged = (length (remdups (map snd counts)) > 1)
           in bind_err (fold_err (ragged_day cells rows) days Map.empty) (\<lambda>codes.
              Inr \<lparr>sg_codes = codes, sg_slots = slots, sg_lane_count = lanes,
                   sg_lanes_by_weekday = (if ragged then Some (map_of counts) else None)\<rparr>)))"

definition segment_grid ::
  "(rat \<Rightarrow> pystr) \<Rightarrow> sheet_word list \<Rightarrow> grid_spec \<Rightarrow> sheet_header \<Rightarrow> py_error + (sheet_grid, provider_error) result" where
  "segment_grid frepr words spec header =
     (let cells = cell_words words (hdr_grid_x_min header) (hdr_grid_x_max header) spec (hdr_bahnen_top header)
      in if cells = [] then Inr (mismatch (u ''no grid cells''))
         else let rows = cluster (map sw_top cells) (y_tol spec);
                  labels = time_labels words (hdr_grid_x_min header)
              in case pair_rows_to_labels frepr rows labels spec of
                   Err e \<Rightarrow> Inr (Err e)
                 | Ok slots \<Rightarrow>
                     let columns = cluster (map xc cells) (x_tol spec)
                     in if int (length columns) = 7 * hdr_lane_count header
                        then bind_err (uniform_grid cells columns slots spec header) (\<lambda>g. Inr (Ok g))
                        else bind_err (ragged_grid cells slots spec header) (\<lambda>g. Inr (Ok g)))"

lemma set_ALL_WEEKDAYS [simp]: "set ALL_WEEKDAYS = UNIV"
  by (simp add: ALL_WEEKDAYS_def UNIV_weekday)

lemma distinct_ALL_WEEKDAYS [simp]: "distinct ALL_WEEKDAYS"
  by (simp add: ALL_WEEKDAYS_def)

section \<open>Labels and slots are proper time ranges\<close>

lemma label_of_row_wf: "l \<in> set (label_of_row row) \<Longrightarrow> wf_time_range (tl_time l)"
  by (auto simp: label_of_row_def wf_time_range_def split: option.splits sum.splits if_splits)

lemma time_labels_wf: "l \<in> set (time_labels words x) \<Longrightarrow> wf_time_range (tl_time l)"
  by (auto simp: time_labels_def dest: label_of_row_wf)

lemma pair_loop_from_labels:
  "pair_loop frepr spec labels pitch rows claimed paired = Ok slots \<Longrightarrow> labels \<noteq> [] \<Longrightarrow>
     length slots = length paired + length rows \<and>
     set slots \<subseteq> set paired \<union> tl_time ` set labels"
proof (induction rows arbitrary: claimed paired)
  case (Cons row rows)
  have "nearest row (map tl_top labels) < length labels"
    using Cons.prems(2) nearest_less [of "map tl_top labels"] by simp
  with Cons show ?case by (fastforce simp: Let_def split: if_splits)
qed simp

lemma pair_rows_slots:
  assumes "pair_rows_to_labels frepr rows labels spec = Ok slots"
  shows "set slots \<subseteq> tl_time ` set labels" "length slots = length rows"
proof -
  have "set slots \<subseteq> tl_time ` set labels \<and> length slots = length rows"
  proof (cases "length labels < 2")
    case True
    with assms show ?thesis
      by (auto simp: pair_rows_to_labels_def split: if_splits intro: imageI dest!: in_set_takeD)
  next
    case False
    then have "labels \<noteq> []" by auto
    with False assms show ?thesis
      using pair_loop_from_labels [of frepr spec labels _ rows "[]" "[]" slots]
      by (auto simp: pair_rows_to_labels_def Let_def split: if_splits)
  qed
  then show "set slots \<subseteq> tl_time ` set labels" "length slots = length rows" by simp_all
qed

text \<open>No two rows claim one label, and each lies within the tolerance of the one it claims.\<close>

lemma pair_loop_sound:
  "pair_loop frepr spec labels pitch rows claimed paired = Ok slots \<Longrightarrow> labels \<noteq> [] \<Longrightarrow>
     \<exists>is. length is = length rows \<and> distinct is \<and> set is \<inter> set claimed = {} \<and> set is \<subseteq> {..<length labels} \<and>
       slots = paired @ map (\<lambda>i. tl_time (labels ! i)) is \<and>
       list_all2 (\<lambda>row i. \<bar>tl_top (labels ! i) - row\<bar> \<le> pitch * row_label_tol_ratio spec \<and>
         (\<forall>j < length labels. \<bar>tl_top (labels ! i) - row\<bar> \<le> \<bar>tl_top (labels ! j) - row\<bar>)) rows is"
proof (induction rows arbitrary: claimed paired)
  case (Cons row rows)
  let ?i = "nearest row (map tl_top labels)"
  have i: "?i < length labels" using Cons.prems(2) nearest_less [of "map tl_top labels"] by simp
  have near: "\<bar>tl_top (labels ! ?i) - row\<bar> \<le> \<bar>tl_top (labels ! j) - row\<bar>" if "j < length labels" for j
    using nearest_is_nearest [of j "map tl_top labels" row] that i by simp
  from Cons.prems(1) i have d: "\<bar>tl_top (labels ! ?i) - row\<bar> \<le> pitch * row_label_tol_ratio spec"
    and c: "?i \<notin> set claimed"
    and rest: "pair_loop frepr spec labels pitch rows (?i # claimed) (paired @ [tl_time (labels ! ?i)]) = Ok slots"
    by (auto simp: Let_def split: if_splits)
  from Cons.IH [OF rest Cons.prems(2)] obtain "is" where
    "length is = length rows" "distinct is" "set is \<inter> set (?i # claimed) = {}" "set is \<subseteq> {..<length labels}"
    "slots = (paired @ [tl_time (labels ! ?i)]) @ map (\<lambda>i. tl_time (labels ! i)) is"
    "list_all2 (\<lambda>row i. \<bar>tl_top (labels ! i) - row\<bar> \<le> pitch * row_label_tol_ratio spec \<and>
         (\<forall>j < length labels. \<bar>tl_top (labels ! i) - row\<bar> \<le> \<bar>tl_top (labels ! j) - row\<bar>)) rows is"
    by blast
  with d c near i show ?case by (intro exI [of _ "?i # is"]) auto
qed simp

end
