(* ===== verification/Sheet_Plan.thy ===== *)
theory Sheet_Plan
  imports Sheet_Grid Lane_Plan
begin

text \<open>
  \<open>src/swimzh/providers/belegungsplan.py\<close>, third part: from the grid of codes to the stored
  plan (run-length compression of every column, merging of equal blocks over lanes and
  weekdays, coverage, the two invariants), and the top-level parsers of single and of stacked
  sheets. What \<open>pdfplumber\<close> makes of the bytes of a file is an argument.
\<close>

section \<open>Run-length compression of one column\<close>

record run_state =
  rn_runs :: "(time_range \<times> session_access) list"
  rn_resolved :: int
  rn_unresolved :: bool
  rn_start :: "nat option"
  rn_current :: "session_access option"

definition flush_run :: "time_range list \<Rightarrow> run_state \<Rightarrow> nat \<Rightarrow> (time_range \<times> session_access) list" where
  "flush_run slots st end_row =
     (case (rn_start st, rn_current st) of
        (Some s, Some a) \<Rightarrow> rn_runs st @ [(TimeRange (tr_start (slots ! s)) (tr_end (slots ! end_row)), a)]
      | _ \<Rightarrow> rn_runs st)"

definition cell_access :: "sheet_grid \<Rightarrow> legend \<Rightarrow> weekday \<Rightarrow> int \<Rightarrow> nat \<Rightarrow> session_access option" where
  "cell_access grid leg wd lane row =
     (case sg_codes grid (wd, lane, row) of
        None \<Rightarrow> None
      | Some code \<Rightarrow>
          (case map_of leg code of None \<Rightarrow> None | Some name \<Rightarrow> if name = [] then None else Some (code_to_access name)))"

definition run_step :: "sheet_grid \<Rightarrow> legend \<Rightarrow> weekday \<Rightarrow> int \<Rightarrow> run_state \<Rightarrow> nat \<Rightarrow> run_state" where
  "run_step grid leg wd lane st row =
     (let slots = sg_slots grid
      in case cell_access grid leg wd lane row of
           None \<Rightarrow> \<lparr>rn_runs = flush_run slots st (row - 1), rn_resolved = rn_resolved st,
                    rn_unresolved = (rn_unresolved st \<or> sg_codes grid (wd, lane, row) \<noteq> None),
                    rn_start = None, rn_current = None\<rparr>
         | Some a \<Rightarrow>
             if rn_current st = Some a \<and> tr_start (slots ! row) = tr_end (slots ! (row - 1))
             then st\<lparr>rn_resolved := rn_resolved st + 1\<rparr>
             else \<lparr>rn_runs = flush_run slots st (row - 1), rn_resolved = rn_resolved st + 1,
                   rn_unresolved = rn_unresolved st, rn_start = Some row, rn_current = Some a\<rparr>)"

definition run_init :: run_state where
  "run_init = \<lparr>rn_runs = [], rn_resolved = 0, rn_unresolved = False, rn_start = None, rn_current = None\<rparr>"

definition column_runs ::
  "sheet_grid \<Rightarrow> legend \<Rightarrow> weekday \<Rightarrow> int \<Rightarrow> (time_range \<times> session_access) list \<times> int \<times> bool" where
  "column_runs grid leg wd lane =
     (let n = length (sg_slots grid); st = foldl (run_step grid leg wd lane) run_init [0..<n]
      in (flush_run (sg_slots grid) st (n - 1), rn_resolved st, rn_unresolved st))"

definition lanes_on :: "sheet_grid \<Rightarrow> weekday \<Rightarrow> int" where
  "lanes_on grid wd =
     (case sg_lanes_by_weekday grid of
        None \<Rightarrow> sg_lane_count grid
      | Some m \<Rightarrow> (case m wd of Some n \<Rightarrow> n | None \<Rightarrow> sg_lane_count grid))"

section \<open>Merging equal blocks\<close>

record resolved_grid =
  rg_reservations :: "lane_reservation list"
  rg_cells_total :: int
  rg_cells_resolved :: int
  rg_unresolved_lanes :: "int set"

type_synonym block_key = "time_range \<times> session_access \<times> pystr option"

definition grid_columns :: "sheet_grid \<Rightarrow> (weekday \<times> int) list" where
  "grid_columns grid = concat (map (\<lambda>wd. map (\<lambda>lane. (wd, lane)) [1..lanes_on grid wd]) ALL_WEEKDAYS)"

definition section_of :: "(int \<rightharpoonup> pystr) option \<Rightarrow> int \<Rightarrow> pystr option" where
  "section_of lane_sections lane = (case lane_sections of None \<Rightarrow> None | Some m \<Rightarrow> m lane)"

text \<open>\<open>per_day[weekday][(span, access, section)].add(lane)\<close>, in the order of the loops.\<close>

definition column_blocks ::
  "sheet_grid \<Rightarrow> legend \<Rightarrow> (int \<rightharpoonup> pystr) option \<Rightarrow> weekday \<times> int \<Rightarrow> (weekday \<times> block_key \<times> int) list" where
  "column_blocks grid leg lane_sections wl =
     map (\<lambda>(r, access). (fst wl, (r, access, section_of lane_sections (snd wl)), snd wl))
       (fst (column_runs grid leg (fst wl) (snd wl)))"

definition day_blocks :: "(weekday \<times> block_key \<times> int) list \<Rightarrow> (weekday \<times> (block_key \<times> int list) list) list" where
  "day_blocks entries = map (\<lambda>(wd, kls). (wd, group_pairs kls)) (group_pairs entries)"

definition merge_blocks ::
  "(weekday \<times> (block_key \<times> int list) list) list \<Rightarrow>
   ((time_range \<times> int set \<times> session_access \<times> pystr option) \<times> weekday list) list" where
  "merge_blocks per_day =
     group_pairs (concat (map (\<lambda>(wd, blocks).
       map (\<lambda>((r, access, section), lanes). ((r, set lanes, access, section), wd)) blocks) per_day))"

definition reservation_of ::
  "(time_range \<times> int set \<times> session_access \<times> pystr option) \<times> weekday list \<Rightarrow> lane_reservation" where
  "reservation_of m =
     (case m of ((r, lanes, access, section), wds) \<Rightarrow>
        \<lparr>lr_weekdays = set wds, lr_time = r, lr_lanes = lanes, lr_access = access, lr_section = section\<rparr>)"

definition resolve_grid :: "sheet_grid \<Rightarrow> legend \<Rightarrow> (int \<rightharpoonup> pystr) option \<Rightarrow> resolved_grid" where
  "resolve_grid grid leg lane_sections =
     (let columns = grid_columns grid;
          stats = map (\<lambda>(wd, lane). column_runs grid leg wd lane) columns
      in \<lparr>rg_reservations = map reservation_of (merge_blocks (day_blocks
              (concat (map (column_blocks grid leg lane_sections) columns)))),
          rg_cells_total = int (length (sg_slots grid)) * sum_list (map (lanes_on grid) ALL_WEEKDAYS),
          rg_cells_resolved = sum_list (map (\<lambda>s. fst (snd s)) stats),
          rg_unresolved_lanes = set (map fst (filter (\<lambda>(lane, s). snd (snd s)) (zip (map snd columns) stats)))\<rparr>)"

section \<open>Invariants\<close>

definition ranges_overlap :: "time_range \<Rightarrow> time_range \<Rightarrow> bool" where
  "ranges_overlap a b \<longleftrightarrow> tr_start a < tr_end b \<and> tr_start b < tr_end a"

definition clashes :: "lane_reservation \<Rightarrow> lane_reservation \<Rightarrow> bool" where
  "clashes a b \<longleftrightarrow> lr_weekdays a \<inter> lr_weekdays b \<noteq> {} \<and> ranges_overlap (lr_time a) (lr_time b) \<and>
     lr_lanes a \<inter> lr_lanes b \<noteq> {}"

fun find_clash :: "lane_reservation list \<Rightarrow> (lane_reservation \<times> lane_reservation) option" where
  "find_clash [] = None"
| "find_clash (a # rs) =
     (case find (clashes a) rs of Some b \<Rightarrow> Some (a, b) | None \<Rightarrow> find_clash rs)"

definition check_invariants :: "lane_reservation list \<Rightarrow> int \<Rightarrow> provider_error option" where
  "check_invariants rs lanes =
     (case find (\<lambda>r. \<not> lr_lanes r \<subseteq> {1..lanes}) rs of
        Some r \<Rightarrow> Some (ParseError PLAN_SOURCE
          (u ''lanes '' @ str_of_int_list (sorted_list_of_set (lr_lanes r - {1..lanes})) @ u '' outside 1..'' @ str_of_int lanes) [])
      | None \<Rightarrow>
          (case find_clash rs of
             Some (a, b) \<Rightarrow> Some (ParseError PLAN_SOURCE
               (u ''overlapping reservations share lanes '' @ str_of_int_list (sorted_list_of_set (lr_lanes a \<inter> lr_lanes b))) [])
           | None \<Rightarrow> None))"

section \<open>The plan of one grid\<close>

record parsed_plan =
  pp_basin_hint :: pystr
  pp_plan :: lane_plan
  pp_source_url :: pystr

definition plan_from_resolved :: "resolved_grid \<Rightarrow> int \<Rightarrow> date option \<Rightarrow> (weekday \<rightharpoonup> int) option \<Rightarrow> lane_plan" where
  "plan_from_resolved rg lanes valid_from by_weekday =
     (let complete = (rg_cells_resolved rg = rg_cells_total rg \<and> rg_unresolved_lanes rg = {})
      in \<lparr>lane_count = lanes, reservations = rg_reservations rg, lp_valid_from = valid_from,
          coverage = \<lparr>pc_confidence = (if complete then COMPLETE else PARTIAL), cells_total = rg_cells_total rg,
            cells_resolved = rg_cells_resolved rg, unresolved_lanes = rg_unresolved_lanes rg\<rparr>,
          lp_fetched_at = None, lanes_by_weekday = by_weekday\<rparr>)"

text \<open>The common tail of both paths: resolve, check, assemble.\<close>

definition plan_of_grid ::
  "sheet_grid \<Rightarrow> legend \<Rightarrow> (int \<rightharpoonup> pystr) option \<Rightarrow> pystr \<Rightarrow> date option \<Rightarrow> (weekday \<rightharpoonup> int) option \<Rightarrow>
   (parsed_plan, provider_error) result" where
  "plan_of_grid grid leg lane_sections hint valid_from by_weekday =
     (let rg = resolve_grid grid leg lane_sections
      in case check_invariants (rg_reservations rg) (sg_lane_count grid) of
           Some e \<Rightarrow> Err e
         | None \<Rightarrow> Ok \<lparr>pp_basin_hint = hint,
             pp_plan = plan_from_resolved rg (sg_lane_count grid) valid_from by_weekday, pp_source_url = []\<rparr>)"

definition parse_single_basin ::
  "(rat \<Rightarrow> pystr) \<Rightarrow> sheet_word list \<Rightarrow> grid_spec \<Rightarrow> rat \<Rightarrow> py_error + (parsed_plan, provider_error) result" where
  "parse_single_basin frepr words spec page_width =
     bind_err (parse_header words spec page_width) (\<lambda>hr.
       case hr of
         Err e \<Rightarrow> Inr (Err e)
       | Ok header \<Rightarrow>
           bind_err (parse_legend words (hdr_grid_x_max header) (hdr_weekday_top header)) (\<lambda>leg.
             if leg = [] then Inr (mismatch (u ''no legend''))
             else bind_err (segment_grid frepr words spec header) (\<lambda>gr. Inr (
               case gr of
                 Err e \<Rightarrow> Err e
               | Ok grid \<Rightarrow> plan_of_grid grid leg None (hdr_basin_hint header) (hdr_valid_from header)
                   (sg_lanes_by_weekday grid)))))"

section \<open>Reading the file\<close>

datatype pdf_outcome = PdfMissing | PdfUnreadable pystr | PdfEmpty | PdfPage "sheet_word list" rat

definition extract_words :: "('b \<Rightarrow> pdf_outcome) \<Rightarrow> 'b \<Rightarrow> (sheet_word list \<times> rat, provider_error) result" where
  "extract_words pdf raw =
     (case pdf raw of
        PdfMissing \<Rightarrow> Err (ProviderSpecific PLAN_SOURCE
          (JStr (u ''pdfplumber not installed '' @ 8212 # u '' install the 'pdf' extra to parse Belegungspl'' @ 228 # u ''ne'')))
      | PdfUnreadable exc \<Rightarrow> Err (ParseError PLAN_SOURCE (u ''unreadable PDF: '' @ exc) [])
      | PdfEmpty \<Rightarrow> Err (ParseError PLAN_SOURCE (u ''empty PDF'') [])
      | PdfPage words width \<Rightarrow>
          if words = [] then Err (ParseError PLAN_SOURCE (u ''unreadable PDF: no text'') [])
          else Ok (words, width))"

definition parse_belegungsplan ::
  "(rat \<Rightarrow> pystr) \<Rightarrow> ('b \<Rightarrow> pdf_outcome) \<Rightarrow> 'b \<Rightarrow> grid_spec \<Rightarrow> py_error + (parsed_plan, provider_error) result" where
  "parse_belegungsplan frepr pdf raw spec =
     (case extract_words pdf raw of
        Err e \<Rightarrow> Inr (Err e)
      | Ok (words, page_width) \<Rightarrow> parse_single_basin frepr words spec page_width)"

section \<open>Stacked sheets\<close>

definition GROUP_GAP_RATIO :: rat where
  "GROUP_GAP_RATIO = 13 / 10"

definition weekday_groups :: "sheet_word list \<Rightarrow> sheet_word list list" where
  "weekday_groups anchors =
     (let ordered = sort_key xc anchors
      in if length ordered < 2 then [ordered]
         else let gaps = map (\<lambda>(a, b). xc b - xc a) (pairwise ordered);
                  median = sort gaps ! (length gaps div 2)
              in foldl (\<lambda>groups (gap, w).
                   if gap > GROUP_GAP_RATIO * median then groups @ [[w]]
                   else butlast groups @ [last groups @ [w]]) [[hd ordered]] (zip gaps (tl ordered)))"

definition first_data_top :: "sheet_word list \<Rightarrow> rat \<Rightarrow> rat" where
  "first_data_top words grid_x_min = (case label_row_tops words grid_x_min of [] \<Rightarrow> 0 | t # _ \<Rightarrow> t)"

definition has_section_labels :: "sheet_word list \<Rightarrow> rat \<Rightarrow> rat \<Rightarrow> rat \<Rightarrow> rat \<Rightarrow> bool" where
  "has_section_labels words grid_x_min grid_x_max weekday_top data_top \<longleftrightarrow>
     (\<exists>w \<in> set words. py_lower (py_strip (sw_text w)) = u ''teil'' \<and> grid_x_min \<le> xc w \<and> xc w \<le> grid_x_max \<and>
        weekday_top < sw_top w \<and> sw_top w < data_top)"

record sheet_frame =
  fr_legend :: legend
  fr_valid_from :: "date option"
  fr_labels :: "time_label list"
  fr_data_top :: rat
  fr_data_bottom :: "rat option"

definition stacked_frame :: "sheet_word list \<Rightarrow> grid_spec \<Rightarrow> rat \<Rightarrow> rat \<Rightarrow> rat \<Rightarrow> legend \<Rightarrow> sheet_frame" where
  "stacked_frame words spec grid_x_max left_edge weekday_top leg =
     \<lparr>fr_legend = leg, fr_valid_from = header_valid_from words grid_x_max weekday_top,
      fr_labels = time_labels words left_edge, fr_data_top = first_data_top words left_edge,
      fr_data_bottom = grid_bottom words left_edge spec\<rparr>"

definition section_cells :: "sheet_word list \<Rightarrow> grid_spec \<Rightarrow> rat \<times> rat \<Rightarrow> sheet_frame \<Rightarrow> sheet_word list" where
  "section_cells words spec band frame =
     filter (\<lambda>w. py_isdigit (sw_text w) \<and> fst band < xc w \<and> xc w < snd band \<and>
       fr_data_top frame - y_tol spec \<le> sw_top w \<and> above_bottom (sw_top w) (fr_data_bottom frame)) words"

definition section_names :: "bool \<Rightarrow> int \<Rightarrow> (int \<rightharpoonup> pystr) option" where
  "section_names named n =
     (if named then Some (\<lambda>lane. if 1 \<le> lane \<and> lane \<le> n then Some (u ''Teil '' @ str_of_int lane) else None)
      else None)"

definition parse_sectioned_basin ::
  "(rat \<Rightarrow> pystr) \<Rightarrow> sheet_word list \<Rightarrow> sheet_frame \<Rightarrow> grid_spec \<Rightarrow> rat \<Rightarrow> sheet_word list \<Rightarrow>
   py_error + (parsed_plan, provider_error) result" where
  "parse_sectioned_basin frepr words frame spec page_width grp =
     (let band = grid_band grp spec page_width; weekday_top = min_top grp;
          cells = section_cells words spec band frame
      in if cells = [] then Inr (mismatch (u ''no grid cells''))
         else let columns = cluster (map xc cells) (x_tol spec); weekdays = length grp
         in if weekdays = 0 \<or> length columns mod weekdays \<noteq> 0
            then Inr (mismatch (str_of_int (int (length columns)) @ u '' section columns not a multiple of '' @
              str_of_int (int weekdays) @ u '' weekdays''))
            else let sections = int (length columns div weekdays)
            in if sections < 1 then Inr (mismatch (u ''no section columns''))
               else case pair_rows_to_labels frepr (cluster (map sw_top cells) (y_tol spec)) (fr_labels frame) spec of
                 Err e \<Rightarrow> Inr (Err e)
               | Ok slots \<Rightarrow>
                   let hint = basin_title words (fst band) (snd band) spec weekday_top
                   in if hint = [] then Inr (mismatch (u ''no basin title''))
                      else bind_err (uniform_grid cells columns slots spec
                          \<lparr>hdr_basin_hint = hint, hdr_lane_count = sections, hdr_valid_from = fr_valid_from frame,
                           hdr_weekday_top = weekday_top, hdr_bahnen_top = fr_data_top frame,
                           hdr_grid_x_min = fst band, hdr_grid_x_max = snd band,
                           hdr_weekday_centres = sort (map xc grp)\<rparr>) (\<lambda>grid.
                        Inr (plan_of_grid grid (fr_legend frame)
                          (section_names (has_section_labels words (fst band) (snd band) weekday_top (fr_data_top frame)) sections)
                          hint (fr_valid_from frame) None)))"

fun parse_groups ::
  "(sheet_word list \<Rightarrow> py_error + (parsed_plan, provider_error) result) \<Rightarrow> sheet_word list list \<Rightarrow>
   parsed_plan list \<Rightarrow> provider_error option \<Rightarrow> py_error + (parsed_plan list \<times> provider_error option)" where
  "parse_groups parse [] plans first_error = Inr (plans, first_error)"
| "parse_groups parse (g # gs) plans first_error =
     bind_err (parse g) (\<lambda>r. case r of
         Ok p \<Rightarrow> parse_groups parse gs (plans @ [p]) first_error
       | Err e \<Rightarrow> parse_groups parse gs plans (if first_error = None then Some e else first_error))"

definition parse_stacked ::
  "(rat \<Rightarrow> pystr) \<Rightarrow> sheet_word list \<Rightarrow> grid_spec \<Rightarrow> rat \<Rightarrow> sheet_word list \<Rightarrow> sheet_word list list \<Rightarrow>
   py_error + (parsed_plan list, provider_error) result" where
  "parse_stacked frepr words spec page_width anchors groups =
     (let weekday_top = min_top anchors;
          bands = map (\<lambda>g. grid_band g spec page_width) groups;
          grid_x_max = max_first (\<lambda>x. x) (snd (hd bands)) (map snd (tl bands));
          left_edge = min_first (\<lambda>x. x) (fst (hd bands)) (map fst (tl bands))
      in bind_err (parse_legend words grid_x_max weekday_top) (\<lambda>leg.
           if leg = [] then Inr (mismatch (u ''no legend''))
           else let frame = stacked_frame words spec grid_x_max left_edge weekday_top leg
           in if fr_labels frame = [] then Inr (mismatch (u ''no time labels''))
              else bind_err (parse_groups (parse_sectioned_basin frepr words frame spec page_width) groups [] None)
                   (\<lambda>(plans, first_error). Inr (
                      if plans = [] then
                        (case first_error of Some e \<Rightarrow> Err e | None \<Rightarrow> mismatch (u ''no basins parsed''))
                      else Ok plans))))"

definition parse_belegungsplan_sheet ::
  "(rat \<Rightarrow> pystr) \<Rightarrow> ('b \<Rightarrow> pdf_outcome) \<Rightarrow> 'b \<Rightarrow> grid_spec \<Rightarrow> py_error + (parsed_plan list, provider_error) result" where
  "parse_belegungsplan_sheet frepr pdf raw spec =
     (case extract_words pdf raw of
        Err e \<Rightarrow> Inr (Err e)
      | Ok (words, page_width) \<Rightarrow>
          let groups = (case weekday_row words of None \<Rightarrow> [] | Some anchors \<Rightarrow> weekday_groups anchors)
          in if length groups < 2
             then bind_err (parse_single_basin frepr words spec page_width) (\<lambda>r. Inr (fmap r (\<lambda>p. [p])))
             else (case weekday_row words of
                 None \<Rightarrow> Inr (mismatch (u ''no basins parsed''))
               | Some anchors \<Rightarrow> parse_stacked frepr words spec page_width anchors groups))"

end
