(* ===== verification/Sheet_Facts.thy ===== *)
theory Sheet_Facts
  imports Sheet_Plan
begin

text \<open>
  What the compression of a sheet preserves. One column: the runs cover exactly the cells
  with a known owner, moment by moment. The whole grid: grouping by day and merging over
  lanes and weekdays loses and invents nothing. The checks at the end establish the
  well-formedness the query side relies on.
\<close>

section \<open>One column\<close>

definition contiguous :: "time_range list \<Rightarrow> nat \<Rightarrow> nat \<Rightarrow> bool" where
  "contiguous slots s k \<longleftrightarrow> (\<forall>j. s < j \<and> j < k \<longrightarrow> tr_start (slots ! j) = tr_end (slots ! (j - 1)))"

definition open_run :: "time_range list \<Rightarrow> (nat \<Rightarrow> session_access option) \<Rightarrow> run_state \<Rightarrow> nat \<Rightarrow> bool" where
  "open_run slots cells st k \<longleftrightarrow>
     (case (rn_start st, rn_current st) of
        (None, None) \<Rightarrow> True
      | (Some s, Some a) \<Rightarrow> s < k \<and> (\<forall>j \<in> {s..<k}. cells j = Some a) \<and> contiguous slots s k
      | _ \<Rightarrow> False)"

lemma contiguous_span:
  assumes "contiguous slots s (Suc e)" "s \<le> e" "\<forall>j \<le> e. wf_time_range (slots ! j)"
  shows "tr_contains (TimeRange (tr_start (slots ! s)) (tr_end (slots ! e))) t \<longleftrightarrow>
      (\<exists>j \<in> {s..e}. tr_contains (slots ! j) t)"
    and "tr_start (slots ! s) < tr_end (slots ! e)"
proof -
  have "(tr_contains (TimeRange (tr_start (slots ! s)) (tr_end (slots ! e))) t \<longleftrightarrow>
      (\<exists>j \<in> {s..e}. tr_contains (slots ! j) t)) \<and> tr_start (slots ! s) < tr_end (slots ! e)"
    using assms
  proof (induction e)
    case 0
    then show ?case by (simp add: tr_contains_def wf_time_range_def)
  next
    case (Suc e)
    show ?case
    proof (cases "s = Suc e")
      case True
      with Suc.prems show ?thesis by (simp add: tr_contains_def wf_time_range_def)
    next
      case False
      then have s: "s \<le> e" using Suc.prems(2) by simp
      have c: "contiguous slots s (Suc e)" using Suc.prems(1) by (simp add: contiguous_def)
      have eq: "tr_start (slots ! Suc e) = tr_end (slots ! e)"
        using Suc.prems(1) s by (simp add: contiguous_def)
      have w: "tr_start (slots ! Suc e) < tr_end (slots ! Suc e)" using Suc.prems(3) by (simp add: wf_time_range_def)
      have IH: "tr_contains (TimeRange (tr_start (slots ! s)) (tr_end (slots ! e))) t \<longleftrightarrow>
          (\<exists>j \<in> {s..e}. tr_contains (slots ! j) t)" "tr_start (slots ! s) < tr_end (slots ! e)"
        using Suc.IH [OF c s] Suc.prems(3) by simp_all
      have split: "{s..Suc e} = insert (Suc e) {s..e}" using s by auto
      show ?thesis
        unfolding split using IH eq w by (auto simp: tr_contains_def)
    qed
  qed
  then show "tr_contains (TimeRange (tr_start (slots ! s)) (tr_end (slots ! e))) t \<longleftrightarrow>
      (\<exists>j \<in> {s..e}. tr_contains (slots ! j) t)" "tr_start (slots ! s) < tr_end (slots ! e)" by simp_all
qed

text \<open>Who holds a moment according to a list of runs, and according to the cells.\<close>

definition run_holds :: "(time_range \<times> session_access) list \<Rightarrow> session_access \<Rightarrow> time \<Rightarrow> bool" where
  "run_holds runs a t \<longleftrightarrow> (\<exists>r. (r, a) \<in> set runs \<and> tr_contains r t)"

definition cell_holds :: "time_range list \<Rightarrow> (nat \<Rightarrow> session_access option) \<Rightarrow> nat \<Rightarrow> nat \<Rightarrow> session_access \<Rightarrow> time \<Rightarrow> bool" where
  "cell_holds slots cells s k a t \<longleftrightarrow> (\<exists>j \<in> {s..<k}. cells j = Some a \<and> tr_contains (slots ! j) t)"

lemma cell_holds_Suc:
  "s \<le> k \<Longrightarrow> cell_holds slots cells s (Suc k) a t \<longleftrightarrow>
     cell_holds slots cells s k a t \<or> cells k = Some a \<and> tr_contains (slots ! k) t"
  by (auto simp: cell_holds_def less_Suc_eq)

lemma flush_run_holds:
  assumes "open_run slots cells st k" "\<forall>j < k. wf_time_range (slots ! j)"
  shows "run_holds (flush_run slots st (k - 1)) a t \<longleftrightarrow>
      run_holds (rn_runs st) a t \<or> (\<exists>s. rn_start st = Some s \<and> cell_holds slots cells s k a t)"
    and "(\<forall>p \<in> set (rn_runs st). wf_time_range (fst p)) \<Longrightarrow>
      \<forall>p \<in> set (flush_run slots st (k - 1)). wf_time_range (fst p)"
proof -
  consider (none) "rn_start st = None" "rn_current st = None"
    | (some) s b where "rn_start st = Some s" "rn_current st = Some b" "s < k"
        "\<forall>j \<in> {s..<k}. cells j = Some b" "contiguous slots s k"
    using assms(1) by (auto simp: open_run_def split: option.splits)
  then have "(run_holds (flush_run slots st (k - 1)) a t \<longleftrightarrow>
      run_holds (rn_runs st) a t \<or> (\<exists>s. rn_start st = Some s \<and> cell_holds slots cells s k a t)) \<and>
    ((\<forall>p \<in> set (rn_runs st). wf_time_range (fst p)) \<longrightarrow>
      (\<forall>p \<in> set (flush_run slots st (k - 1)). wf_time_range (fst p)))"
  proof cases
    case none
    then show ?thesis by (simp add: flush_run_def)
  next
    case some
    have k: "Suc (k - 1) = k" "{s..k - 1} = {s..<k}" using some(3) by auto
    have "contiguous slots s (Suc (k - 1))" "s \<le> k - 1" "\<forall>j \<le> k - 1. wf_time_range (slots ! j)"
      using some(3,5) assms(2) k by auto
    note sp = contiguous_span(1) [OF this, of t, unfolded k(2)] contiguous_span(2) [OF this]
    have "cell_holds slots cells s k a t \<longleftrightarrow> a = b \<and> (\<exists>j \<in> {s..<k}. tr_contains (slots ! j) t)"
      using some(4) by (auto simp: cell_holds_def)
    with sp some(1,2) show ?thesis
      by (auto simp: flush_run_def run_holds_def wf_time_range_def)
  qed
  then show "run_holds (flush_run slots st (k - 1)) a t \<longleftrightarrow>
      run_holds (rn_runs st) a t \<or> (\<exists>s. rn_start st = Some s \<and> cell_holds slots cells s k a t)"
    "(\<forall>p \<in> set (rn_runs st). wf_time_range (fst p)) \<Longrightarrow>
      \<forall>p \<in> set (flush_run slots st (k - 1)). wf_time_range (fst p)" by simp_all
qed

text \<open>The invariant of the loop over the rows.\<close>

definition run_invariant :: "sheet_grid \<Rightarrow> legend \<Rightarrow> weekday \<Rightarrow> int \<Rightarrow> run_state \<Rightarrow> nat \<Rightarrow> bool" where
  "run_invariant grid leg wd lane st k \<longleftrightarrow>
     (let slots = sg_slots grid; cells = cell_access grid leg wd lane
      in open_run slots cells st k \<and> (\<forall>p \<in> set (rn_runs st). wf_time_range (fst p)) \<and>
         (\<forall>a t. run_holds (rn_runs st) a t \<or> (\<exists>s. rn_start st = Some s \<and> cell_holds slots cells s k a t) \<longleftrightarrow>
            cell_holds slots cells 0 k a t) \<and>
         rn_resolved st = int (card {j. j < k \<and> cells j \<noteq> None}) \<and>
         (rn_unresolved st \<longleftrightarrow> (\<exists>j < k. sg_codes grid (wd, lane, j) \<noteq> None \<and> cells j = None)))"

lemma card_less_Suc_where:
  "card {j. j < Suc k \<and> P j} = card {j. j < k \<and> P j} + (if P k then 1 else 0)"
proof -
  have "{j. j < Suc k \<and> P j} = (if P k then insert k {j. j < k \<and> P j} else {j. j < k \<and> P j})"
    by (auto simp: less_Suc_eq)
  then show ?thesis by simp
qed

lemma run_step_invariant:
  assumes "run_invariant grid leg wd lane st k" "\<forall>j \<le> k. wf_time_range (sg_slots grid ! j)"
  shows "run_invariant grid leg wd lane (run_step grid leg wd lane st k) (Suc k)"
proof -
  let ?slots = "sg_slots grid" and ?cells = "cell_access grid leg wd lane"
  have op: "open_run ?slots ?cells st k" and wf: "\<forall>p \<in> set (rn_runs st). wf_time_range (fst p)"
    and ho: "\<And>a t. run_holds (rn_runs st) a t \<or> (\<exists>s. rn_start st = Some s \<and> cell_holds ?slots ?cells s k a t) \<longleftrightarrow>
        cell_holds ?slots ?cells 0 k a t"
    and re: "rn_resolved st = int (card {j. j < k \<and> ?cells j \<noteq> None})"
    and un: "rn_unresolved st \<longleftrightarrow> (\<exists>j < k. sg_codes grid (wd, lane, j) \<noteq> None \<and> ?cells j = None)"
    using assms(1) by (simp_all add: run_invariant_def Let_def)
  have wfk: "\<forall>j < k. wf_time_range (?slots ! j)" using assms(2) by simp
  note fl = flush_run_holds [OF op wfk]
  have flushed: "run_holds (flush_run ?slots st (k - 1)) a t \<longleftrightarrow> cell_holds ?slots ?cells 0 k a t" for a t
    using fl(1) [of a t] ho [of a t] by blast
  have wfl: "\<forall>p \<in> set (flush_run ?slots st (k - 1)). wf_time_range (fst p)" by (rule fl(2) [OF wf])
  note Sk = cell_holds_Suc [of 0 k ?slots ?cells, OF le0]
  show ?thesis
  proof (cases "?cells k")
    case None
    then have "run_step grid leg wd lane st k = \<lparr>rn_runs = flush_run ?slots st (k - 1), rn_resolved = rn_resolved st,
        rn_unresolved = (rn_unresolved st \<or> sg_codes grid (wd, lane, k) \<noteq> None), rn_start = None, rn_current = None\<rparr>"
      by (simp add: run_step_def)
    moreover have "rn_unresolved st \<or> sg_codes grid (wd, lane, k) \<noteq> None \<longleftrightarrow>
        (\<exists>j < Suc k. sg_codes grid (wd, lane, j) \<noteq> None \<and> ?cells j = None)"
      using un None by (auto simp: less_Suc_eq)
    ultimately show ?thesis
      using None flushed wfl re Sk
      by (simp add: run_invariant_def Let_def open_run_def card_less_Suc_where del: not_None_eq)
  next
    case (Some a)
    have un': "rn_unresolved st \<longleftrightarrow> (\<exists>j < Suc k. sg_codes grid (wd, lane, j) \<noteq> None \<and> ?cells j = None)"
      using un Some by (auto simp: less_Suc_eq)
    show ?thesis
    proof (cases "rn_current st = Some a \<and> tr_start (?slots ! k) = tr_end (?slots ! (k - 1))")
      case True
      then have st: "run_step grid leg wd lane st k = st\<lparr>rn_resolved := rn_resolved st + 1\<rparr>"
        using Some by (simp add: run_step_def)
      obtain s where s: "rn_start st = Some s" "s < k" "\<forall>j \<in> {s..<k}. ?cells j = Some a" "contiguous ?slots s k"
        using op True by (auto simp: open_run_def split: option.splits)
      have "open_run ?slots ?cells st (Suc k)"
        using s True Some by (auto simp: open_run_def contiguous_def less_Suc_eq)
      then have "open_run ?slots ?cells (st\<lparr>rn_resolved := rn_resolved st + 1\<rparr>) (Suc k)" by (simp add: open_run_def)
      moreover have "run_holds (rn_runs st) b t \<or> cell_holds ?slots ?cells s (Suc k) b t \<longleftrightarrow>
          cell_holds ?slots ?cells 0 (Suc k) b t" for b t
        using ho [of b t] s(1) Sk [of b t] cell_holds_Suc [of s k ?slots ?cells b t] s(2) by auto
      ultimately show ?thesis
        using wf un' re s(1) Some by (simp add: run_invariant_def st Let_def card_less_Suc_where del: not_None_eq)
    next
      case False
      then have st: "run_step grid leg wd lane st k = \<lparr>rn_runs = flush_run ?slots st (k - 1), rn_resolved = rn_resolved st + 1,
          rn_unresolved = rn_unresolved st, rn_start = Some k, rn_current = Some a\<rparr>"
        using Some by (auto simp: run_step_def Let_def)
      have one: "cell_holds ?slots ?cells k (Suc k) b t \<longleftrightarrow> ?cells k = Some b \<and> tr_contains (?slots ! k) t" for b t
        by (auto simp: cell_holds_def)
      have "contiguous ?slots k (Suc k)" by (auto simp: contiguous_def)
      then show ?thesis
        using flushed wfl un' re Some Sk one
        by (simp add: run_invariant_def st Let_def open_run_def card_less_Suc_where del: not_None_eq)
    qed
  qed
qed

lemma run_invariant_rows:
  assumes "\<forall>j < length (sg_slots grid). wf_time_range (sg_slots grid ! j)" "k \<le> length (sg_slots grid)"
  shows "run_invariant grid leg wd lane (foldl (run_step grid leg wd lane) run_init [0..<k]) k"
  using assms(2)
proof (induction k)
  case 0
  then show ?case
    by (simp add: run_invariant_def Let_def open_run_def run_init_def run_holds_def cell_holds_def)
next
  case (Suc k)
  then show ?case using run_step_invariant [of grid leg wd lane _ k] assms(1) by simp
qed

lemma column_runs_exact:
  assumes "\<forall>s \<in> set (sg_slots grid). wf_time_range s"
  shows "run_holds (fst (column_runs grid leg wd lane)) a t \<longleftrightarrow>
      cell_holds (sg_slots grid) (cell_access grid leg wd lane) 0 (length (sg_slots grid)) a t"
    and "\<forall>p \<in> set (fst (column_runs grid leg wd lane)). wf_time_range (fst p)"
    and "fst (snd (column_runs grid leg wd lane)) =
      int (card {j. j < length (sg_slots grid) \<and> cell_access grid leg wd lane j \<noteq> None})"
    and "snd (snd (column_runs grid leg wd lane)) \<longleftrightarrow>
      (\<exists>j < length (sg_slots grid). sg_codes grid (wd, lane, j) \<noteq> None \<and> cell_access grid leg wd lane j = None)"
proof -
  let ?n = "length (sg_slots grid)"
  have wf: "\<forall>j < ?n. wf_time_range (sg_slots grid ! j)" using assms by simp
  have inv: "run_invariant grid leg wd lane (foldl (run_step grid leg wd lane) run_init [0..<?n]) ?n"
    using run_invariant_rows [OF wf, of ?n] by simp
  note fl = flush_run_holds [OF _ wf, of "cell_access grid leg wd lane" "foldl (run_step grid leg wd lane) run_init [0..<?n]"]
  show "run_holds (fst (column_runs grid leg wd lane)) a t \<longleftrightarrow>
      cell_holds (sg_slots grid) (cell_access grid leg wd lane) 0 ?n a t"
    using fl(1) [of a t] inv by (simp add: run_invariant_def column_runs_def Let_def)
  show "\<forall>p \<in> set (fst (column_runs grid leg wd lane)). wf_time_range (fst p)"
    using fl(2) inv by (simp add: run_invariant_def column_runs_def Let_def)
  show "fst (snd (column_runs grid leg wd lane)) = int (card {j. j < ?n \<and> cell_access grid leg wd lane j \<noteq> None})"
    "snd (snd (column_runs grid leg wd lane)) \<longleftrightarrow>
      (\<exists>j < ?n. sg_codes grid (wd, lane, j) \<noteq> None \<and> cell_access grid leg wd lane j = None)"
    using inv by (simp_all add: run_invariant_def column_runs_def Let_def)
qed

section \<open>The whole grid\<close>

definition entry_of :: "lane_reservation \<Rightarrow> weekday \<Rightarrow> int \<Rightarrow> weekday \<times> block_key \<times> int" where
  "entry_of m wd lane = (wd, (lr_time m, lr_access m, lr_section m), lane)"

lemma day_blocks_mem:
  "(\<exists>blocks. (wd, blocks) \<in> set (day_blocks entries) \<and> (k, lanes) \<in> set blocks) \<longleftrightarrow>
     lanes = map snd (filter (\<lambda>p. fst p = k) (map snd (filter (\<lambda>p. fst p = wd) entries))) \<and> lanes \<noteq> []"
proof -
  have "(\<exists>blocks. (wd, blocks) \<in> set (day_blocks entries) \<and> (k, lanes) \<in> set blocks) \<longleftrightarrow>
      (\<exists>kls. (wd, kls) \<in> set (group_pairs entries) \<and> (k, lanes) \<in> set (group_pairs kls))"
    by (fastforce simp: day_blocks_def)
  also have "\<dots> \<longleftrightarrow> lanes = map snd (filter (\<lambda>p. fst p = k) (map snd (filter (\<lambda>p. fst p = wd) entries))) \<and> lanes \<noteq> []"
    by (auto simp: group_pairs_mem filter_empty_conv; force)
  finally show ?thesis .
qed

lemma merge_blocks_mem:
  "(\<exists>wds. ((r, L, a, sec), wds) \<in> set (merge_blocks per_day) \<and> wd \<in> set wds) \<longleftrightarrow>
     (\<exists>blocks lanes. (wd, blocks) \<in> set per_day \<and> ((r, a, sec), lanes) \<in> set blocks \<and> L = set lanes)"
proof -
  let ?ps = "concat (map (\<lambda>(wd, blocks). map (\<lambda>((r, access, section), lanes). ((r, set lanes, access, section), wd)) blocks) per_day)"
  have "(\<exists>wds. ((r, L, a, sec), wds) \<in> set (merge_blocks per_day) \<and> wd \<in> set wds) \<longleftrightarrow> ((r, L, a, sec), wd) \<in> set ?ps"
    (is "?lhs \<longleftrightarrow> ?rhs")
  proof
    assume ?lhs
    then obtain wds where "((r, L, a, sec), wds) \<in> set (group_pairs ?ps)" "wd \<in> set wds" unfolding merge_blocks_def by blast
    then show ?rhs by (rule group_pairs_value [THEN iffD1])
  next
    assume ?rhs
    then show ?lhs unfolding merge_blocks_def by (rule group_pairs_cover)
  qed
  also have "\<dots> \<longleftrightarrow> (\<exists>blocks lanes. (wd, blocks) \<in> set per_day \<and> ((r, a, sec), lanes) \<in> set blocks \<and> L = set lanes)"
  proof -
    have "((r, L, a, sec), wd) \<in> set (map (\<lambda>((r, access, section), lanes). ((r, set lanes, access, section), wd')) blocks) \<longleftrightarrow>
        wd = wd' \<and> (\<exists>lanes. ((r, a, sec), lanes) \<in> set blocks \<and> L = set lanes)" for wd' blocks
      by (force simp: image_iff)
    then have "((r, L, a, sec), wd) \<in> set ?ps \<longleftrightarrow> (\<exists>d \<in> set per_day. wd = fst d \<and>
        (\<exists>lanes. ((r, a, sec), lanes) \<in> set (snd d) \<and> L = set lanes))"
      by (simp only: set_concat set_map UN_iff bex_simps split_beta)
    also have "\<dots> \<longleftrightarrow> (\<exists>blocks lanes. (wd, blocks) \<in> set per_day \<and> ((r, a, sec), lanes) \<in> set blocks \<and> L = set lanes)"
      by (metis fst_conv prod.collapse snd_conv)
    finally show ?thesis .
  qed
  finally show ?thesis .
qed

lemma merged_reservations:
  "(\<exists>m \<in> set (map reservation_of (merge_blocks (day_blocks entries))).
      wd \<in> lr_weekdays m \<and> lane \<in> lr_lanes m \<and> lr_time m = r \<and> lr_access m = a \<and> lr_section m = sec) \<longleftrightarrow>
   (wd, (r, a, sec), lane) \<in> set entries"
proof -
  let ?k = "(r, a, sec)"
  let ?lanes = "map snd (filter (\<lambda>p. fst p = ?k) (map snd (filter (\<lambda>p. fst p = wd) entries)))"
  have mem: "x \<in> set ?lanes \<longleftrightarrow> (wd, ?k, x) \<in> set entries" for x by force
  have "(\<exists>m \<in> set (map reservation_of (merge_blocks (day_blocks entries))).
      wd \<in> lr_weekdays m \<and> lane \<in> lr_lanes m \<and> lr_time m = r \<and> lr_access m = a \<and> lr_section m = sec) \<longleftrightarrow>
    (\<exists>L. (\<exists>wds. ((r, L, a, sec), wds) \<in> set (merge_blocks (day_blocks entries)) \<and> wd \<in> set wds) \<and> lane \<in> L)"
    by (simp add: Bex_def reservation_of_def del: split_paired_Ex) (simp; blast)
  also have "\<dots> \<longleftrightarrow> (\<exists>lanes. (\<exists>blocks. (wd, blocks) \<in> set (day_blocks entries) \<and> (?k, lanes) \<in> set blocks) \<and> lane \<in> set lanes)"
    unfolding merge_blocks_mem by blast
  also have "\<dots> \<longleftrightarrow> lane \<in> set ?lanes"
    unfolding day_blocks_mem by (metis empty_iff empty_set)
  also note mem
  finally show ?thesis .
qed

lemma reservation_nonempty:
  assumes "m \<in> set (map reservation_of (merge_blocks (day_blocks entries)))"
  obtains wd lane where "wd \<in> lr_weekdays m" "lane \<in> lr_lanes m" "entry_of m wd lane \<in> set entries"
proof -
  obtain x where x: "x \<in> set (merge_blocks (day_blocks entries))" "m = reservation_of x" using assms by auto
  obtain r L a sec wds where p: "((r, L, a, sec), wds) \<in> set (merge_blocks (day_blocks entries))"
    and m: "m = \<lparr>lr_weekdays = set wds, lr_time = r, lr_lanes = L, lr_access = a, lr_section = sec\<rparr>"
  proof -
    obtain key wds where xe: "x = (key, wds)" by fastforce
    obtain r L a sec where "key = (r, L, a, sec)" by (cases key) auto
    with xe x that show ?thesis by (simp add: reservation_of_def)
  qed
  have "wds \<noteq> []" using p unfolding merge_blocks_def group_pairs_mem by blast
  then obtain wd where wd: "wd \<in> set wds" by (cases wds) auto
  with p obtain blocks lanes where "(wd, blocks) \<in> set (day_blocks entries)" "((r, a, sec), lanes) \<in> set blocks" "L = set lanes"
    using merge_blocks_mem [of r L a sec "day_blocks entries" wd] by blast
  then have "lanes \<noteq> []" "L = set lanes" using day_blocks_mem [of wd entries "(r, a, sec)" lanes] by blast+
  then obtain lane where lane: "lane \<in> L" by (cases lanes) auto
  have "\<exists>m \<in> set (map reservation_of (merge_blocks (day_blocks entries))).
      wd \<in> lr_weekdays m \<and> lane \<in> lr_lanes m \<and> lr_time m = r \<and> lr_access m = a \<and> lr_section m = sec"
    by (rule bexI [OF _ assms]) (simp add: m wd lane)
  then have "(wd, (r, a, sec), lane) \<in> set entries" unfolding merged_reservations .
  with m wd lane show ?thesis by (intro that [of wd lane]) (simp_all add: entry_of_def)
qed

lemma grid_columns_mem: "(wd, lane) \<in> set (grid_columns grid) \<longleftrightarrow> 1 \<le> lane \<and> lane \<le> lanes_on grid wd"
  by (auto simp: grid_columns_def image_iff)

definition grid_entries :: "sheet_grid \<Rightarrow> legend \<Rightarrow> (int \<rightharpoonup> pystr) option \<Rightarrow> (weekday \<times> block_key \<times> int) list" where
  "grid_entries grid leg ls = concat (map (column_blocks grid leg ls) (grid_columns grid))"

lemma grid_entries_mem:
  "(wd, (r, a, sec), lane) \<in> set (grid_entries grid leg ls) \<longleftrightarrow>
     1 \<le> lane \<and> lane \<le> lanes_on grid wd \<and> (r, a) \<in> set (fst (column_runs grid leg wd lane)) \<and> sec = section_of ls lane"
  using grid_columns_mem [of wd lane grid] by (force simp: grid_entries_def column_blocks_def)

lemma resolve_grid_reservations:
  "rg_reservations (resolve_grid grid leg ls) = map reservation_of (merge_blocks (day_blocks (grid_entries grid leg ls)))"
  by (simp add: resolve_grid_def grid_entries_def Let_def)

text \<open>The reservations say exactly what the cells say.\<close>

lemma resolve_grid_exact:
  assumes "\<forall>s \<in> set (sg_slots grid). wf_time_range s"
  shows "(\<exists>m \<in> set (rg_reservations (resolve_grid grid leg ls)).
      wd \<in> lr_weekdays m \<and> lane \<in> lr_lanes m \<and> lr_access m = a \<and> tr_contains (lr_time m) t) \<longleftrightarrow>
    1 \<le> lane \<and> lane \<le> lanes_on grid wd \<and>
    (\<exists>j < length (sg_slots grid). cell_access grid leg wd lane j = Some a \<and> tr_contains (sg_slots grid ! j) t)"
proof -
  let ?es = "grid_entries grid leg ls"
  have "(\<exists>m \<in> set (rg_reservations (resolve_grid grid leg ls)).
      wd \<in> lr_weekdays m \<and> lane \<in> lr_lanes m \<and> lr_access m = a \<and> tr_contains (lr_time m) t) \<longleftrightarrow>
    (\<exists>r sec. (\<exists>m \<in> set (map reservation_of (merge_blocks (day_blocks ?es))).
      wd \<in> lr_weekdays m \<and> lane \<in> lr_lanes m \<and> lr_time m = r \<and> lr_access m = a \<and> lr_section m = sec) \<and> tr_contains r t)"
    unfolding resolve_grid_reservations by blast
  also have "\<dots> \<longleftrightarrow> 1 \<le> lane \<and> lane \<le> lanes_on grid wd \<and> run_holds (fst (column_runs grid leg wd lane)) a t"
    unfolding merged_reservations grid_entries_mem run_holds_def by blast
  also have "\<dots> \<longleftrightarrow> 1 \<le> lane \<and> lane \<le> lanes_on grid wd \<and>
      (\<exists>j < length (sg_slots grid). cell_access grid leg wd lane j = Some a \<and> tr_contains (sg_slots grid ! j) t)"
    unfolding column_runs_exact(1) [OF assms] by (auto simp: cell_holds_def)
  finally show ?thesis .
qed

lemma resolve_grid_wf_ranges:
  assumes "\<forall>s \<in> set (sg_slots grid). wf_time_range s" "m \<in> set (rg_reservations (resolve_grid grid leg ls))"
  shows "wf_time_range (lr_time m)"
proof -
  from assms(2) obtain wd lane where "entry_of m wd lane \<in> set (grid_entries grid leg ls)"
    unfolding resolve_grid_reservations by (rule reservation_nonempty)
  then have "(lr_time m, lr_access m) \<in> set (fst (column_runs grid leg wd lane))"
    by (simp add: entry_of_def grid_entries_mem)
  with column_runs_exact(2) [OF assms(1)] show ?thesis by fastforce
qed

section \<open>Coverage\<close>

lemma sum_list_map_le: "(\<And>x. x \<in> set xs \<Longrightarrow> f x \<le> (g x :: int)) \<Longrightarrow> sum_list (map f xs) \<le> sum_list (map g xs)"
  by (induction xs) (auto intro: add_mono)

lemma sum_list_map_le_eq:
  assumes "\<And>x. x \<in> set xs \<Longrightarrow> f x \<le> (g x :: int)" "sum_list (map f xs) = sum_list (map g xs)" "x \<in> set xs"
  shows "f x = g x"
  using assms
proof (induction xs)
  case (Cons y ys)
  have "sum_list (map f ys) \<le> sum_list (map g ys)" by (rule sum_list_map_le) (use Cons.prems(1) in simp)
  moreover have "f y \<le> g y" using Cons.prems(1) by simp
  ultimately have eq: "f y = g y" "sum_list (map f ys) = sum_list (map g ys)" using Cons.prems(2) by simp_all
  with Cons.IH Cons.prems show ?case by (metis list.set_intros(2) set_ConsD)
qed simp

lemma resolved_column_le:
  "card {j. j < (n :: nat) \<and> P j} \<le> n"
  using card_mono [of "{..<n}" "{j. j < n \<and> P j}"] by fastforce

lemma sum_list_const_int: "sum_list (map (\<lambda>x. c) xs) = int (length xs) * (c :: int)"
  by (induction xs) (simp_all add: algebra_simps)

lemma cells_total_columns:
  assumes "\<forall>wd. 0 \<le> lanes_on grid wd"
  shows "rg_cells_total (resolve_grid grid leg ls) = sum_list (map (\<lambda>c. int (length (sg_slots grid))) (grid_columns grid))"
proof -
  have len: "int (length (grid_columns grid)) = sum_list (map (lanes_on grid) ALL_WEEKDAYS)"
    using assms by (simp add: grid_columns_def ALL_WEEKDAYS_def)
  show ?thesis by (simp add: resolve_grid_def Let_def sum_list_const_int len [symmetric] mult.commute del: length_concat)
qed

lemma cells_resolved_columns:
  "rg_cells_resolved (resolve_grid grid leg ls) =
     sum_list (map (\<lambda>c. fst (snd (column_runs grid leg (fst c) (snd c)))) (grid_columns grid))"
  by (simp add: resolve_grid_def Let_def comp_def split_def)

lemma coverage_honest:
  assumes "\<forall>s \<in> set (sg_slots grid). wf_time_range s" "\<forall>wd. 0 \<le> lanes_on grid wd"
  shows "0 \<le> rg_cells_resolved (resolve_grid grid leg ls)"
    and "rg_cells_resolved (resolve_grid grid leg ls) \<le> rg_cells_total (resolve_grid grid leg ls)"
    and "rg_cells_resolved (resolve_grid grid leg ls) = rg_cells_total (resolve_grid grid leg ls) \<longleftrightarrow>
      (\<forall>wd lane. 1 \<le> lane \<and> lane \<le> lanes_on grid wd \<longrightarrow>
         (\<forall>j < length (sg_slots grid). cell_access grid leg wd lane j \<noteq> None))"
proof -
  let ?n = "length (sg_slots grid)" and ?cs = "grid_columns grid"
  define f where "f = (\<lambda>c. int (card {j. j < ?n \<and> cell_access grid leg (fst c) (snd c) j \<noteq> None}))"
  have res: "rg_cells_resolved (resolve_grid grid leg ls) = sum_list (map f ?cs)"
    unfolding cells_resolved_columns f_def using column_runs_exact(3) [OF assms(1), of leg] by (simp add: case_prod_beta del: not_None_eq)
  note tot = cells_total_columns [OF assms(2), of leg ls]
  have le: "f c \<le> int ?n" for c using resolved_column_le by (simp add: f_def case_prod_beta)
  have full: "f (wd, lane) = int ?n \<longleftrightarrow> (\<forall>j < ?n. cell_access grid leg wd lane j \<noteq> None)" for wd lane
  proof
    assume "f (wd, lane) = int ?n"
    then have "card {j. j < ?n \<and> cell_access grid leg wd lane j \<noteq> None} = card {..<?n}" by (simp add: f_def)
    then have "{j. j < ?n \<and> cell_access grid leg wd lane j \<noteq> None} = {..<?n}"
      by (intro card_subset_eq) auto
    then show "\<forall>j < ?n. cell_access grid leg wd lane j \<noteq> None" by blast
  next
    assume "\<forall>j < ?n. cell_access grid leg wd lane j \<noteq> None"
    then have "{j. j < ?n \<and> cell_access grid leg wd lane j \<noteq> None} = {..<?n}" by blast
    then show "f (wd, lane) = int ?n" by (simp add: f_def)
  qed
  show "0 \<le> rg_cells_resolved (resolve_grid grid leg ls)"
    unfolding res by (rule sum_list_nonneg) (auto simp: f_def)
  show "rg_cells_resolved (resolve_grid grid leg ls) \<le> rg_cells_total (resolve_grid grid leg ls)"
    unfolding res tot by (rule sum_list_map_le) (rule le)
  show "rg_cells_resolved (resolve_grid grid leg ls) = rg_cells_total (resolve_grid grid leg ls) \<longleftrightarrow>
      (\<forall>wd lane. 1 \<le> lane \<and> lane \<le> lanes_on grid wd \<longrightarrow> (\<forall>j < ?n. cell_access grid leg wd lane j \<noteq> None))"
  proof
    assume eq: "rg_cells_resolved (resolve_grid grid leg ls) = rg_cells_total (resolve_grid grid leg ls)"
    have "f c = int ?n" if "c \<in> set ?cs" for c
      by (rule sum_list_map_le_eq [OF le eq [unfolded res tot] that])
    then show "\<forall>wd lane. 1 \<le> lane \<and> lane \<le> lanes_on grid wd \<longrightarrow> (\<forall>j < ?n. cell_access grid leg wd lane j \<noteq> None)"
      using full grid_columns_mem by blast
  next
    assume "\<forall>wd lane. 1 \<le> lane \<and> lane \<le> lanes_on grid wd \<longrightarrow> (\<forall>j < ?n. cell_access grid leg wd lane j \<noteq> None)"
    then have "f c = int ?n" if "c \<in> set ?cs" for c
      using full that grid_columns_mem by (cases c) metis
    then have "map f ?cs = map (\<lambda>c. int ?n) ?cs" by simp
    then show "rg_cells_resolved (resolve_grid grid leg ls) = rg_cells_total (resolve_grid grid leg ls)"
      unfolding res tot by (rule arg_cong)
  qed
qed

section \<open>The checks\<close>

lemma find_clash_None: "find_clash rs = None \<longleftrightarrow> sorted_wrt (\<lambda>a b. \<not> clashes a b) rs"
proof (induction rs)
  case (Cons a rs)
  show ?case
  proof (cases "find (clashes a) rs")
    case None
    with Cons show ?thesis by (simp add: find_None_iff_all [of "clashes a", symmetric])
  next
    case (Some b)
    from find_SomeD [OF this] show ?thesis by (auto simp: Some)
  qed
qed simp

lemma check_invariants_None:
  "check_invariants rs n = None \<longleftrightarrow>
     (\<forall>r \<in> set rs. lr_lanes r \<subseteq> {1..n}) \<and> sorted_wrt (\<lambda>a b. \<not> clashes a b) rs"
proof (cases "find (\<lambda>r. \<not> lr_lanes r \<subseteq> {1..n}) rs")
  case None
  then show ?thesis
    by (auto simp: check_invariants_def find_clash_None [symmetric] find_None_iff_all split: option.splits)
next
  case (Some r)
  from find_SomeD [OF this] show ?thesis by (auto simp: check_invariants_def Some)
qed

lemma clashes_no_clash: "\<not> clashes a b \<longleftrightarrow> no_clash a b"
  by (auto simp: clashes_def no_clash_def ranges_overlap_def overlap_def)

section \<open>Every plan a parser returns is well-formed\<close>

definition honest_coverage :: "lane_plan \<Rightarrow> bool" where
  "honest_coverage plan \<longleftrightarrow> 0 \<le> cells_resolved (coverage plan) \<and> cells_resolved (coverage plan) \<le> cells_total (coverage plan) \<and>
     (pc_confidence (coverage plan) = COMPLETE \<longleftrightarrow>
        cells_resolved (coverage plan) = cells_total (coverage plan) \<and> unresolved_lanes (coverage plan) = {})"

definition good_grid :: "sheet_grid \<Rightarrow> bool" where
  "good_grid grid \<longleftrightarrow> (\<forall>s \<in> set (sg_slots grid). wf_time_range s) \<and> 0 < sg_lane_count grid \<and> (\<forall>wd. 0 \<le> lanes_on grid wd)"

lemma plan_of_grid_ok:
  assumes "plan_of_grid grid leg ls hint vf bw = Ok p" "good_grid grid"
  shows "wf_plan (pp_plan p)" "0 < lane_count (pp_plan p)" "honest_coverage (pp_plan p)"
    "reservations (pp_plan p) = rg_reservations (resolve_grid grid leg ls)"
proof -
  let ?rg = "resolve_grid grid leg ls"
  have inv: "check_invariants (rg_reservations ?rg) (sg_lane_count grid) = None"
    and p: "p = \<lparr>pp_basin_hint = hint, pp_plan = plan_from_resolved ?rg (sg_lane_count grid) vf bw, pp_source_url = []\<rparr>"
    using assms(1) by (auto simp: plan_of_grid_def Let_def split: option.splits)
  have slots: "\<forall>s \<in> set (sg_slots grid). wf_time_range s" and lanes: "0 < sg_lane_count grid" "\<forall>wd. 0 \<le> lanes_on grid wd"
    using assms(2) by (simp_all add: good_grid_def)
  show "reservations (pp_plan p) = rg_reservations ?rg" by (simp add: p plan_from_resolved_def Let_def)
  show "0 < lane_count (pp_plan p)" by (simp add: p plan_from_resolved_def Let_def lanes)
  show "wf_plan (pp_plan p)"
    using inv resolve_grid_wf_ranges [OF slots, of _ leg ls]
    by (simp add: p plan_from_resolved_def Let_def wf_plan_def wf_ranges_def wf_lanes_def check_invariants_None clashes_no_clash)
  show "honest_coverage (pp_plan p)"
    using coverage_honest [OF slots lanes(2), of leg ls]
    by (simp add: p plan_from_resolved_def Let_def honest_coverage_def)
qed

end
