(* ===== verification/Sheet_Properties.thy ===== *)
theory Sheet_Properties
  imports Sheet_Facts
begin

text \<open>
  Properties of the lane-plan sheet parser: what comes out is a well-formed plan with honest
  coverage, reservations are exactly what the cells of the grid say, rows are paired with
  labels by geometry, and which exceptions can escape.
\<close>

section \<open>Grids are good\<close>

lemma uniform_grid_fields:
  assumes "uniform_grid cells columns slots spec header = Inr g"
  shows "sg_slots g = slots" "sg_lane_count g = hdr_lane_count header" "sg_lanes_by_weekday g = None"
  using assms by (auto simp: uniform_grid_def Let_def bind_err_Inr)

lemma uniform_grid_good:
  assumes "uniform_grid cells columns slots spec header = Inr g" "\<forall>s \<in> set slots. wf_time_range s" "0 < hdr_lane_count header"
  shows "good_grid g"
  using uniform_grid_fields [OF assms(1)] assms(2,3) by (simp add: good_grid_def lanes_on_def)

lemma ragged_grid_good:
  assumes "ragged_grid cells slots spec header = Inr g" "\<forall>s \<in> set slots. wf_time_range s" "0 < hdr_lane_count header"
  shows "good_grid g"
proof -
  obtain counts ragged where f: "sg_slots g = slots" "hdr_lane_count header \<le> sg_lane_count g"
    "sg_lanes_by_weekday g = (if ragged then Some (map_of counts) else None)" "\<forall>c \<in> set counts. 0 \<le> snd c"
    using assms(1) by (fastforce simp: ragged_grid_def Let_def bind_err_Inr)
  have "0 \<le> lanes_on g wd" for wd
    using f assms(3) by (auto simp: lanes_on_def split: option.splits) (fastforce dest: map_of_SomeD)
  with f assms(2,3) show ?thesis by (simp add: good_grid_def)
qed

lemma paired_slots_wf:
  assumes "pair_rows_to_labels frepr rows labels spec = Ok slots" "\<forall>l \<in> set labels. wf_time_range (tl_time l)"
  shows "\<forall>s \<in> set slots. wf_time_range s"
  using pair_rows_slots(1) [OF assms(1)] assms(2) by blast

lemma segment_grid_good:
  assumes "segment_grid frepr words spec header = Inr (Ok g)" "0 < hdr_lane_count header"
  shows "good_grid g"
proof -
  let ?cells = "cell_words words (hdr_grid_x_min header) (hdr_grid_x_max header) spec (hdr_bahnen_top header)"
  obtain slots where p: "pair_rows_to_labels frepr (cluster (map sw_top ?cells) (y_tol spec))
      (time_labels words (hdr_grid_x_min header)) spec = Ok slots"
    and g: "uniform_grid ?cells (cluster (map xc ?cells) (x_tol spec)) slots spec header = Inr g \<or>
      ragged_grid ?cells slots spec header = Inr g"
    using assms(1) unfolding segment_grid_def Let_def by (simp add: return_iff split: if_splits) blast+
  have "\<forall>s \<in> set slots. wf_time_range s"
    by (rule paired_slots_wf [OF p]) (auto intro: time_labels_wf)
  with g assms(2) show ?thesis using uniform_grid_good ragged_grid_good by blast
qed

lemma parse_header_lanes: "parse_header words spec width = Inr (Ok h) \<Longrightarrow> 0 < hdr_lane_count h"
  by (auto simp: parse_header_def Let_def bind_err_Inr split: option.splits prod.splits if_splits)

definition good_plan :: "parsed_plan \<Rightarrow> bool" where
  "good_plan p \<longleftrightarrow> wf_plan (pp_plan p) \<and> 0 < lane_count (pp_plan p) \<and> honest_coverage (pp_plan p)"

lemma plan_of_good_grid: "plan_of_grid grid leg ls hint vf bw = Ok p \<Longrightarrow> good_grid grid \<Longrightarrow> good_plan p"
  by (simp add: good_plan_def plan_of_grid_ok)

lemma parse_single_basin_good: "parse_single_basin frepr words spec width = Inr (Ok p) \<Longrightarrow> good_plan p"
  by (auto simp: parse_single_basin_def return_iff split: if_splits
      intro: plan_of_good_grid dest: segment_grid_good parse_header_lanes)

lemma parse_sectioned_basin_good:
  assumes "parse_sectioned_basin frepr words frame spec width grp = Inr (Ok p)"
    "\<forall>l \<in> set (fr_labels frame). wf_time_range (tl_time l)"
  shows "good_plan p"
proof -
  define cells where "cells = section_cells words spec (grid_band grp spec width) frame"
  define columns where "columns = cluster (map xc cells) (x_tol spec)"
  obtain slots grid header ls hint vf where pr: "pair_rows_to_labels frepr (cluster (map sw_top cells) (y_tol spec)) (fr_labels frame) spec = Ok slots"
    and g: "uniform_grid cells columns slots spec header = Inr grid" "hdr_lane_count header = int (length columns div length grp)"
    and n: "0 < length columns div length grp"
    and p: "plan_of_grid grid (fr_legend frame) ls hint vf None = Ok p"
    using assms(1) unfolding parse_sectioned_basin_def Let_def cells_def [symmetric] columns_def [symmetric]
    by (auto simp: return_iff split: if_splits)
  show ?thesis
    by (rule plan_of_good_grid [OF p uniform_grid_good [OF g(1) paired_slots_wf [OF pr assms(2)]]]) (use g(2) n in simp)
qed

lemma parse_groups_all:
  assumes "parse_groups parse gs plans fe = Inr (out, fe')" "\<forall>p \<in> set plans. P p"
    "\<And>g p. g \<in> set gs \<Longrightarrow> parse g = Inr (Ok p) \<Longrightarrow> P p"
  shows "\<forall>p \<in> set out. P p"
  using assms
proof (induction gs arbitrary: plans fe)
  case (Cons g gs)
  from Cons.prems(1) obtain r where r: "parse g = Inr r" by (auto simp: bind_err_Inr)
  obtain plans' fe1 where next_run: "parse_groups parse gs plans' fe1 = Inr (out, fe')" "\<forall>p \<in> set plans'. P p"
  proof (cases r)
    case (Ok p)
    have "parse_groups parse gs (plans @ [p]) fe = Inr (out, fe')" using Cons.prems(1) r Ok by simp
    moreover have "\<forall>p \<in> set (plans @ [p]). P p" using Cons.prems(2) Cons.prems(3) [of g p] r Ok by simp
    ultimately show ?thesis by (rule that)
  next
    case (Err e)
    with Cons.prems(1,2) r that show ?thesis by simp
  qed
  show ?case by (rule Cons.IH [OF next_run Cons.prems(3)]) simp_all
qed simp

lemma parse_stacked_good:
  assumes "parse_stacked frepr words spec width anchors groups = Inr (Ok plans)"
  shows "\<forall>p \<in> set plans. good_plan p"
proof -
  obtain x y t leg fe where g: "parse_groups (parse_sectioned_basin frepr words (stacked_frame words spec x y t leg) spec width)
      groups [] None = Inr (plans, fe)"
    using assms by (auto simp: parse_stacked_def Let_def return_iff split: if_splits option.splits)
  have l: "fr_labels (stacked_frame words spec x y t leg) = time_labels words y" by (simp add: stacked_frame_def)
  show ?thesis
  proof (rule parse_groups_all [OF g])
    show "good_plan p" if "parse_sectioned_basin frepr words (stacked_frame words spec x y t leg) spec width grp = Inr (Ok p)"
      for grp p
      by (rule parse_sectioned_basin_good [OF that]) (simp add: l time_labels_wf)
  qed simp
qed

section \<open>A sheet small enough to evaluate\<close>

text \<open>
  One lane, one half-hour label, two cells (public on Monday, a club on Tuesday); every stage
  of the parser is evaluated in turn.
\<close>

definition ex_word :: "pystr \<Rightarrow> rat \<Rightarrow> rat \<Rightarrow> sheet_word" where
  "ex_word s x y = \<lparr>sw_text = s, sw_x0 = x - 2, sw_x1 = x + 2, sw_top = y\<rparr>"
definition ex_words :: "sheet_word list" where
  "ex_words = [ex_word (u ''Bad'') 300 80,
     ex_word (u ''Mo'') 100 100, ex_word (u ''Di'') 200 100, ex_word (u ''Mi'') 300 100, ex_word (u ''Do'') 400 100,
     ex_word (u ''Fr'') 500 100, ex_word (u ''Sa'') 600 100, ex_word (u ''So'') 700 100,
     ex_word (u ''1'') 92 110, ex_word (u ''Bahnen'') 100 110,
     ex_word (u ''6.00-7.00'') 30 130, ex_word (u ''1'') 100 130, ex_word (u ''2'') 200 130,
     ex_word (u ''1'') 800 130, ex_word (246 # u ''ffentlich'') 820 130,
     ex_word (u ''2'') 800 140, ex_word (u ''SCZ'') 820 140]"

lemmas ex_word_simps = ex_words_def ex_word_def
lemma ex_weekday_row: "weekday_row ex_words = Some (map (\<lambda>i. ex_words ! i) [1..<8])"
  by (simp add: ex_word_simps weekday_row_def group_by_def group_pairs_def WEEKDAY_TOKENS_def u_def py_lower_def lower_cp_def py_strip_def strip_where_def is_space_def round_half_even_def min_top_def min_list.simps upt_rec Let_def)
lemma ex_grid_band: "grid_band (map (\<lambda>i. ex_words ! i) [1..<8]) DEFAULT_GRID_SPEC 842 = (368375 / 5262, 750)"
  by (simp add: ex_word_simps grid_band_def DEFAULT_GRID_SPEC_def DEFAULT_PAGE_WIDTH_def xc_def upt_rec Let_def)
lemma ex_time_labels: "time_labels ex_words (368375 / 5262) = [\<lparr>tl_top = 130, tl_time = TimeRange (hm 6 0) (hm 7 0)\<rparr>]"
  by (simp add: ex_word_simps time_labels_def gutter_rows_def group_by_def group_pairs_def label_of_row_def joined_row_def TIME_LABEL_RE_def rx_search_def rx_at_def u_def is_decimal_def xc_def  round_half_even_def min_top_def min_list.simps mk_time_def decimal_value_def group_def)
lemma ex_legend: "parse_legend ex_words 750 100 = Inr [(1, 246 # u ''ffentlich''), (2, u ''SCZ'')]"
  by (simp add: ex_word_simps parse_legend_def legend_step_def group_by_def group_pairs_def xc_def round_half_even_def u_def py_strip_def strip_where_def is_space_def py_isdigit_def is_decimal_def py_int_def decimal_value_def Let_def bind_err_def)

definition ex_header :: sheet_header where
  "ex_header = \<lparr>hdr_basin_hint = u ''Bad'', hdr_lane_count = 1, hdr_valid_from = None, hdr_weekday_top = 100, hdr_bahnen_top = 110,
     hdr_grid_x_min = 368375 / 5262, hdr_grid_x_max = 750, hdr_weekday_centres = [100, 200, 300, 400, 500, 600, 700]\<rparr>"
lemma ex_min_top: "min_top (map (\<lambda>i. ex_words ! i) [1..<8]) = 100"
  by (simp add: ex_word_simps min_top_def min_list.simps upt_rec)
lemma ex_centres: "sort (map xc (map (\<lambda>i. ex_words ! i) [1..<8])) = [100, 200, 300, 400, 500, 600, 700]"
  by (simp add: ex_word_simps xc_def upt_rec)
lemma ex_bahnen_tops: "map sw_top (filter (\<lambda>w. py_lower (sw_text w) = u ''bahnen'' \<and> sw_top w > 100) ex_words) = [110]"
  by (simp add: ex_word_simps u_def py_lower_def lower_cp_def)
lemma ex_lane_count: "lane_count_of ex_words 110 = Inr (Some 1)"
  by (simp add: ex_word_simps lane_count_of_def lane_count_step_def u_def py_lower_def lower_cp_def py_isdigit_def is_decimal_def py_int_def decimal_value_def Let_def)
lemma ex_title: "basin_title ex_words (368375 / 5262) 750 DEFAULT_GRID_SPEC 100 = u ''Bad''"
  by (simp add: ex_word_simps basin_title_def xc_def DEFAULT_GRID_SPEC_def cluster_def cluster_groups_def centre_def row_text_def u_def py_strip_def strip_where_def is_space_def)
lemma ex_valid_from: "header_valid_from ex_words 750 100 = None"
  by (simp add: ex_word_simps header_valid_from_def xc_def parse_valid_from_def row_text_def py_strip_def VALID_FROM_RE_def rx_search_def rx_at_def u_def)
lemma ex_parse_header: "parse_header ex_words DEFAULT_GRID_SPEC 842 = Inr (Ok ex_header)"
  by (simp only: parse_header_def ex_weekday_row option.case ex_min_top ex_grid_band Let_def prod.case ex_bahnen_tops ex_centres) (simp add: ex_lane_count ex_title ex_valid_from ex_header_def min_list.simps)
lemma ex_cells: "cell_words ex_words (368375 / 5262) 750 DEFAULT_GRID_SPEC 110 = [ex_word (u ''1'') 100 130, ex_word (u ''2'') 200 130]"
  by (simp add: ex_word_simps cell_words_def grid_bottom_def label_row_tops_def gutter_rows_def group_by_def group_pairs_def joined_row_def TIME_LABEL_RE_def rx_search_def rx_at_def u_def is_decimal_def xc_def  round_half_even_def min_top_def min_list.simps above_bottom_def py_isdigit_def DEFAULT_GRID_SPEC_def Let_def)
definition ex_grid :: sheet_grid where
  "ex_grid = \<lparr>sg_codes = [(MONDAY, 1, 0) \<mapsto> 1, (TUESDAY, 1, 0) \<mapsto> 2], sg_slots = [TimeRange (hm 6 0) (hm 7 0)], sg_lane_count = 1,
     sg_lanes_by_weekday = Some (map_of [(MONDAY, 1), (TUESDAY, 1), (WEDNESDAY, 0), (THURSDAY, 0), (FRIDAY, 0), (SATURDAY, 0), (SUNDAY, 0)])\<rparr>"
lemma ex_ragged_grid: "ragged_grid [ex_word (u ''1'') 100 130, ex_word (u ''2'') 200 130] [TimeRange (hm 6 0) (hm 7 0)] DEFAULT_GRID_SPEC ex_header = Inr ex_grid"
  by (simp add: ragged_grid_def ex_word_def ex_header_def weekday_bounds_def day_columns_def day_band_def in_band_def xc_def ALL_WEEKDAYS_def lane_columns_def cluster_counts_def
     cluster_groups_def cluster_def centre_def DEFAULT_GRID_SPEC_def ragged_day_def ragged_step_def py_int_def u_def is_decimal_def decimal_value_def nearest_def group_step_def ex_grid_def Let_def)

lemma ex_clusters: "cluster [130, 130] 6 = [130]" "cluster [100, 200] 5 = [100, 200]"
  by (simp_all add: cluster_def cluster_groups_def centre_def group_step_def)
lemma ex_spec_fields: "map sw_top [ex_word (u ''1'') 100 130, ex_word (u ''2'') 200 130] = [130, 130]"
   "map xc [ex_word (u ''1'') 100 130, ex_word (u ''2'') 200 130] = [100, 200]"
   "x_tol DEFAULT_GRID_SPEC = 5" "y_tol DEFAULT_GRID_SPEC = 6"
   "hdr_grid_x_min ex_header = 368375 / 5262" "hdr_grid_x_max ex_header = 750" "hdr_bahnen_top ex_header = 110" "hdr_lane_count ex_header = 1"
  by (simp_all add: ex_word_def xc_def DEFAULT_GRID_SPEC_def ex_header_def)
lemma ex_word_fields: "sw_top (ex_word s x y) = y" "xc (ex_word s x y) = x"
  by (simp_all add: ex_word_def xc_def)
lemma ex_paired: "pair_rows_to_labels fr [130] [\<lparr>tl_top = 130, tl_time = TimeRange (hm 6 0) (hm 7 0)\<rparr>] spec = Ok [TimeRange (hm 6 0) (hm 7 0)]"
  by (simp add: pair_rows_to_labels_def)
lemma ex_segment_grid: "segment_grid fr ex_words DEFAULT_GRID_SPEC ex_header = Inr (Ok ex_grid)"
  by (simp only: segment_grid_def ex_spec_fields ex_cells Let_def ex_time_labels ex_clusters ex_paired result.case) (simp add: ex_ragged_grid)
lemma ex_plan_of_grid: "\<exists>p. plan_of_grid ex_grid [(1, 246 # u ''ffentlich''), (2, u ''SCZ'')] None (u ''Bad'') None bw = Ok p"
  by (simp add: plan_of_grid_def resolve_grid_def ex_grid_def grid_columns_def ALL_WEEKDAYS_def lanes_on_def column_blocks_def column_runs_def
    run_step_def run_init_def cell_access_def flush_run_def code_to_access_def u_def py_lower_def lower_cp_def oeffentlich_def section_of_def
    day_blocks_def group_pairs_def merge_blocks_def reservation_of_def check_invariants_def clashes_def ranges_overlap_def upto.simps Let_def)
section \<open>Results\<close>

text \<open>
  C26: every plan the sheet parser returns satisfies what the query side relies on: its
  reservations have proper time ranges, name only lanes of the basin and never overlap on a
  lane; the lane count is positive; and its coverage is honest, with no more cells resolved
  than there are, and \<open>COMPLETE\<close> exactly when all are resolved and no lane is in doubt.
\<close>

theorem parsed_plans_are_well_formed:
  assumes "parse_belegungsplan_sheet frepr pdf raw spec = Inr (Ok plans)" "p \<in> set plans"
  shows "wf_plan (pp_plan p) \<and> 0 < lane_count (pp_plan p) \<and> honest_coverage (pp_plan p)"
proof -
  have "good_plan p"
    using assms
    by (auto simp: parse_belegungsplan_sheet_def Let_def return_iff split: if_splits option.splits
        dest: parse_stacked_good parse_single_basin_good)
  then show ?thesis by (simp add: good_plan_def)
qed

lemma ex_parse_sheet:
  "\<exists>p. parse_belegungsplan_sheet fr (\<lambda>raw. PdfPage ex_words 842) raw DEFAULT_GRID_SPEC = Inr (Ok [p])"
proof -
  have groups: "length (weekday_groups (map (\<lambda>i. ex_words ! i) [1..<8])) = 1"
    by (simp add: weekday_groups_def ex_word_simps xc_def upt_rec GROUP_GAP_RATIO_def Let_def)
  have ne: "extract_words (\<lambda>raw. PdfPage ex_words 842) raw = Ok (ex_words, 842)"
    by (simp add: extract_words_def ex_words_def)
  have hf: "hdr_weekday_top ex_header = 100" "hdr_basin_hint ex_header = u ''Bad''" "hdr_valid_from ex_header = None"
    by (simp_all add: ex_header_def)
  obtain p where "plan_of_grid ex_grid [(1, 246 # u ''ffentlich''), (2, u ''SCZ'')] None (u ''Bad'') None (sg_lanes_by_weekday ex_grid) = Ok p"
    using ex_plan_of_grid by blast
  then have single: "parse_single_basin fr ex_words DEFAULT_GRID_SPEC 842 = Inr (Ok p)"
    by (simp add: parse_single_basin_def ex_parse_header ex_spec_fields ex_legend ex_segment_grid hf)
  have "parse_belegungsplan_sheet fr (\<lambda>raw. PdfPage ex_words 842) raw DEFAULT_GRID_SPEC = Inr (Ok [p])"
    by (simp only: parse_belegungsplan_sheet_def ne ex_weekday_row groups Let_def option.case result.case prod.case single) simp
  then show ?thesis by blast
qed

theorem parsed_plans_are_well_formed_witness:
  "\<exists>p. parse_belegungsplan_sheet (\<lambda>x. []) (\<lambda>raw. PdfPage ex_words 842) () DEFAULT_GRID_SPEC = Inr (Ok [p]) \<and>
     wf_plan (pp_plan p) \<and> honest_coverage (pp_plan p)"
proof -
  obtain p where p: "parse_belegungsplan_sheet (\<lambda>x. []) (\<lambda>raw. PdfPage ex_words 842) () DEFAULT_GRID_SPEC = Inr (Ok [p])"
    using ex_parse_sheet [of "\<lambda>x. []" "()"] by blast
  have "wf_plan (pp_plan p) \<and> 0 < lane_count (pp_plan p) \<and> honest_coverage (pp_plan p)"
    by (rule parsed_plans_are_well_formed [OF p]) simp
  with p show ?thesis by blast
qed

text \<open>
  C27: the reservations of a plan say exactly what the cells of the sheet say: on a weekday a
  lane is held by an owner at a moment exactly when a cell of that weekday and lane, in the
  row of a time slot containing the moment, carries a code the legend gives that owner. The
  compression over rows, lanes and weekdays loses nothing, bridges no blank half-hour and
  invents no owner.
\<close>

theorem reservations_say_what_the_cells_say:
  assumes "segment_grid frepr words spec header = Inr (Ok grid)" "0 < hdr_lane_count header"
    "plan_of_grid grid leg names hint valid_from by_day = Ok p"
  shows "(\<exists>r \<in> set (reservations (pp_plan p)).
      wd \<in> lr_weekdays r \<and> lane \<in> lr_lanes r \<and> lr_access r = a \<and> tr_contains (lr_time r) t) \<longleftrightarrow>
    1 \<le> lane \<and> lane \<le> lanes_on grid wd \<and>
    (\<exists>row < length (sg_slots grid). cell_access grid leg wd lane row = Some a \<and> tr_contains (sg_slots grid ! row) t)"
proof -
  have g: "good_grid grid" by (rule segment_grid_good [OF assms(1,2)])
  then show ?thesis
    using plan_of_grid_ok(4) [OF assms(3) g] resolve_grid_exact [of grid leg names wd lane a t]
    by (simp add: good_grid_def)
qed

theorem reservations_say_what_the_cells_say_witness:
  "\<exists>p. plan_of_grid ex_grid [(1, 246 # u ''ffentlich''), (2, u ''SCZ'')] None (u ''Bad'') None None = Ok p \<and>
     (\<exists>r \<in> set (reservations (pp_plan p)). TUESDAY \<in> lr_weekdays r \<and> 1 \<in> lr_lanes r \<and>
        lr_access r = ClubReserved (u ''SCZ'') \<and> tr_contains (lr_time r) (hm 6 30))"
proof -
  obtain p where p: "plan_of_grid ex_grid [(1, 246 # u ''ffentlich''), (2, u ''SCZ'')] None (u ''Bad'') None None = Ok p"
    using ex_plan_of_grid by blast
  have lanes: "0 < hdr_lane_count ex_header" by (simp add: ex_header_def)
  have "cell_access ex_grid [(1, 246 # u ''ffentlich''), (2, u ''SCZ'')] TUESDAY 1 0 = Some (ClubReserved (u ''SCZ''))"
    by (simp add: cell_access_def ex_grid_def code_to_access_def u_def py_lower_def lower_cp_def oeffentlich_def)
  moreover have "lanes_on ex_grid TUESDAY = 1" "length (sg_slots ex_grid) = 1" "tr_contains (sg_slots ex_grid ! 0) (hm 6 30)"
    by (simp_all add: lanes_on_def ex_grid_def tr_contains_def)
  ultimately have "\<exists>r \<in> set (reservations (pp_plan p)). TUESDAY \<in> lr_weekdays r \<and> 1 \<in> lr_lanes r \<and>
      lr_access r = ClubReserved (u ''SCZ'') \<and> tr_contains (lr_time r) (hm 6 30)"
    by (subst reservations_say_what_the_cells_say [OF ex_segment_grid lanes p]) auto
  with p show ?thesis by blast
qed

text \<open>
  no lane is ever public by default: whenever the plan of a sheet counts a lane as public,
  a cell of the sheet covering that moment carries a code whose legend text says so
  ("oeffentlich" with an umlaut). Blank cells, unknown codes and unread columns never become public.
\<close>

theorem public_only_when_stated:
  assumes "segment_grid frepr words spec header = Inr (Ok grid)" "0 < hdr_lane_count header"
    "plan_of_grid grid leg names hint valid_from by_day = Ok p" "lane \<in> public_at (pp_plan p) wd t"
  shows "\<exists>row code name. row < length (sg_slots grid) \<and> tr_contains (sg_slots grid ! row) t \<and>
    sg_codes grid (wd, lane, row) = Some code \<and> map_of leg code = Some name \<and> contains oeffentlich (py_lower name)"
proof -
  have g: "good_grid grid" by (rule segment_grid_good [OF assms(1,2)])
  have "\<exists>r \<in> set (reservations (pp_plan p)). wd \<in> lr_weekdays r \<and> lane \<in> lr_lanes r \<and> lr_access r = PublicSwim \<and>
      tr_contains (lr_time r) t"
    using assms(4) by (auto simp: public_at_def active_reservations_def)
  then obtain row where "row < length (sg_slots grid)" "tr_contains (sg_slots grid ! row) t"
    "cell_access grid leg wd lane row = Some PublicSwim"
    using plan_of_grid_ok(4) [OF assms(3) g] resolve_grid_exact [of grid leg names wd lane PublicSwim t] g
    by (auto simp: good_grid_def)
  moreover from this(3) obtain code name where "sg_codes grid (wd, lane, row) = Some code" "map_of leg code = Some name"
    "contains oeffentlich (py_lower name)"
    by (auto simp: cell_access_def code_to_access_def Let_def split: option.splits if_splits)
  ultimately show ?thesis by blast
qed

theorem public_only_when_stated_witness:
  "\<exists>p. plan_of_grid ex_grid [(1, 246 # u ''ffentlich''), (2, u ''SCZ'')] None (u ''Bad'') None None = Ok p \<and>
     1 \<notin> public_at (pp_plan p) TUESDAY (hm 6 30)"
proof -
  obtain p where p: "plan_of_grid ex_grid [(1, 246 # u ''ffentlich''), (2, u ''SCZ'')] None (u ''Bad'') None None = Ok p"
    using ex_plan_of_grid by blast
  have lanes: "0 < hdr_lane_count ex_header" by (simp add: ex_header_def)
  have "1 \<notin> public_at (pp_plan p) TUESDAY (hm 6 30)"
  proof
    assume "1 \<in> public_at (pp_plan p) TUESDAY (hm 6 30)"
    from public_only_when_stated [OF ex_segment_grid lanes p this] show False
      by (auto simp: ex_grid_def u_def py_lower_def lower_cp_def oeffentlich_def)
  qed
  with p show ?thesis by blast
qed

text \<open>
  rows are paired with time labels by geometry, not by rank: when a sheet has at least two
  labels and its rows are accepted, every row sits under the label nearest to it, within half
  a pitch (the tolerance of the sheet family), and no two rows share a label; so a blank
  half-hour never shifts the rows below it.
\<close>

theorem rows_paired_by_geometry:
  assumes "pair_rows_to_labels frepr rows labels spec = Ok slots" "2 \<le> length labels"
  shows "\<exists>is. length is = length rows \<and> distinct is \<and> set is \<subseteq> {..<length labels} \<and>
    slots = map (\<lambda>i. tl_time (labels ! i)) is \<and>
    list_all2 (\<lambda>row i. \<bar>tl_top (labels ! i) - row\<bar> \<le>
         (tl_top (last labels) - tl_top (hd labels)) / (of_nat (length labels) - 1) * row_label_tol_ratio spec \<and>
       (\<forall>j < length labels. \<bar>tl_top (labels ! i) - row\<bar> \<le> \<bar>tl_top (labels ! j) - row\<bar>)) rows is"
proof -
  let ?pitch = "(tl_top (last labels) - tl_top (hd labels)) / (of_nat (length labels) - 1)"
  have "pair_loop frepr spec labels ?pitch rows [] [] = Ok slots" "labels \<noteq> []"
    using assms by (auto simp: pair_rows_to_labels_def Let_def split: if_splits)
  from pair_loop_sound [OF this] show ?thesis by auto
qed

theorem rows_paired_by_geometry_witness:
  "\<exists>is. distinct is \<and> [TimeRange (hm 7 0) (hm 7 30)] = map (\<lambda>i. tl_time
     ([\<lparr>tl_top = 100, tl_time = TimeRange (hm 6 30) (hm 7 0)\<rparr>, \<lparr>tl_top = 120, tl_time = TimeRange (hm 7 0) (hm 7 30)\<rparr>] ! i)) is"
proof -
  have "pair_rows_to_labels (\<lambda>x. []) [128]
      [\<lparr>tl_top = 100, tl_time = TimeRange (hm 6 30) (hm 7 0)\<rparr>, \<lparr>tl_top = 120, tl_time = TimeRange (hm 7 0) (hm 7 30)\<rparr>]
      DEFAULT_GRID_SPEC = Ok [TimeRange (hm 7 0) (hm 7 30)]"
    by (simp add: pair_rows_to_labels_def nearest_def DEFAULT_GRID_SPEC_def Let_def)
  from rows_paired_by_geometry [OF this] show ?thesis by auto
qed

section \<open>Exceptions that escape\<close>

lemma weekday_bounds_length:
  "length (weekday_bounds header) = (if hdr_weekday_centres header = [] then 2 else length (hdr_weekday_centres header) + 1)"
  by (cases "hdr_weekday_centres header") (simp_all add: weekday_bounds_def pairwise_def)

lemma fold_err_reaches_error:
  assumes "k < length xs" "\<And>i s. i < k \<Longrightarrow> \<exists>s'. f s (xs ! i) = Inr s'" "\<And>s. f s (xs ! k) = Inl e"
  shows "fold_err f xs s = Inl e"
  using assms
proof (induction xs arbitrary: k s)
  case (Cons x xs)
  show ?case
  proof (cases k)
    case 0
    with Cons.prems(3) show ?thesis by simp
  next
    case (Suc i)
    obtain s' where "f s x = Inr s'" using Cons.prems(2) [of 0 s] Suc by auto
    moreover have "fold_err f xs s' = Inl e"
      by (rule Cons.IH [of i]) (use Cons.prems Suc in \<open>force+\<close>)
    ultimately show ?thesis by simp
  qed
qed simp

text \<open>
  one failure is not a value: on a ragged sheet whose header row shows fewer than seven
  weekday names, looking up the band of the missing weekday raises \<open>IndexError\<close>, although
  the module promises that every failure is a typed error.
\<close>

theorem short_weekday_row_raises:
  assumes "cell_words words (hdr_grid_x_min header) (hdr_grid_x_max header) spec (hdr_bahnen_top header) = cells" "cells \<noteq> []"
    "pair_rows_to_labels frepr (cluster (map sw_top cells) (y_tol spec)) (time_labels words (hdr_grid_x_min header)) spec = Ok slots"
    "int (length (cluster (map xc cells) (x_tol spec))) \<noteq> 7 * hdr_lane_count header"
    "length (hdr_weekday_centres header) < 7" "hdr_weekday_centres header \<noteq> []"
  shows "segment_grid frepr words spec header = Inl IndexError"
proof -
  let ?b = "weekday_bounds header"
  have lb: "length ?b \<le> 7" "2 \<le> length ?b" using assms(5,6) by (simp_all add: weekday_bounds_length Suc_le_eq)
  have nth: "enumerate 0 ALL_WEEKDAYS ! i = (i, ALL_WEEKDAYS ! i)" if "i < 7" for i
  proof -
    have "i < length ALL_WEEKDAYS" using that by (simp add: ALL_WEEKDAYS_def)
    then show ?thesis by (simp only: nth_enumerate_eq) simp
  qed
  have "fold_err (day_columns cells spec ?b) (enumerate 0 ALL_WEEKDAYS) [] = Inl IndexError"
  proof (rule fold_err_reaches_error [where k = "length ?b - 1"])
    show "length ?b - 1 < length (enumerate 0 ALL_WEEKDAYS)" using lb by (simp add: ALL_WEEKDAYS_def)
    show "\<exists>s'. day_columns cells spec ?b s (enumerate 0 ALL_WEEKDAYS ! i) = Inr s'" if i: "i < length ?b - 1" for i s
    proof -
      have "i < 7" using i lb by simp
      then show ?thesis using i by (simp add: nth day_columns_def day_band_def Let_def)
    qed
    show "day_columns cells spec ?b s (enumerate 0 ALL_WEEKDAYS ! (length ?b - 1)) = Inl IndexError" for s
    proof -
      have "length ?b - 1 < 7" using lb by simp
      then show ?thesis using lb by (simp add: nth day_columns_def day_band_def)
    qed
  qed
  then show ?thesis using assms(1-4) by (simp add: segment_grid_def ragged_grid_def Let_def)
qed

theorem short_weekday_row_raises_witness:
  "segment_grid (\<lambda>x. []) ex_words DEFAULT_GRID_SPEC (ex_header\<lparr>hdr_weekday_centres := [100, 200, 300, 400, 500, 600]\<rparr>) = Inl IndexError"
  by (rule short_weekday_row_raises [of _ _ _ "[ex_word (u ''1'') 100 130, ex_word (u ''2'') 200 130]" "\<lambda>x. []" "[TimeRange (hm 6 0) (hm 7 0)]"])
    (simp_all add: ex_cells ex_word_fields ex_spec_fields(3-) ex_clusters ex_time_labels ex_paired)

end
