(* ===== verification/Bytes.thy ===== *)
theory Bytes
  imports PyDict "HOL-Library.Word"
begin

text \<open>
  Byte strings and the codecs of the runtime that the HTTP layer uses: UTF-8 (strict, and with
  replacement of what is malformed) and Base64 with validation. A byte is an 8-bit word. The
  locale \<open>codec\<close> states what an encoder and its decoder owe each other, and is interpreted
  on both.
\<close>

type_synonym byte = "8 word"

definition byte :: "nat \<Rightarrow> byte" where
  "byte n = word_of_nat n"

lemma unat_byte [simp]: "n < 256 \<Longrightarrow> unat (byte n) = n"
  by (simp add: byte_def unat_of_nat take_bit_eq_mod)

lemma byte_unat [simp]: "byte (unat b) = b"
  by (simp add: byte_def)

lemma unat_byte_less [simp]: "unat (b :: byte) < 256"
  using unsigned_less [of b] by simp

section \<open>The contract of a codec\<close>

locale codec =
  fixes encodable :: "'a \<Rightarrow> bool" and enc :: "'a \<Rightarrow> 'b" and dec :: "'b \<Rightarrow> 'a option"
  assumes dec_enc: "encodable x \<Longrightarrow> dec (enc x) = Some x"
begin

lemma enc_inj: "encodable x \<Longrightarrow> encodable y \<Longrightarrow> enc x = enc y \<Longrightarrow> x = y"
  by (metis dec_enc option.inject)

lemma inj_on_enc: "inj_on enc (Collect encodable)"
  by (rule inj_onI) (auto intro: enc_inj)

end

text \<open>A codec that also re-encodes whatever it decodes.\<close>

locale exact_codec = codec +
  assumes enc_dec: "dec y = Some x \<Longrightarrow> encodable x \<and> enc x = y"
begin

lemma dec_Some_iff: "dec y = Some x \<longleftrightarrow> encodable x \<and> enc x = y"
  using enc_dec dec_enc by blast

lemma dec_inj: "dec y = Some x \<Longrightarrow> dec z = Some x \<Longrightarrow> y = z"
  by (auto simp: dec_Some_iff)

end

section \<open>UTF-8\<close>

definition scalar :: "nat \<Rightarrow> bool" where
  "scalar c \<longleftrightarrow> c < 55296 \<or> 57344 \<le> c \<and> c < 1114112"

definition utf8_cp :: "nat \<Rightarrow> byte list" where
  "utf8_cp c =
     (if c < 128 then [byte c]
      else if c < 2048 then [byte (192 + c div 64), byte (128 + c mod 64)]
      else if c < 65536 then [byte (224 + c div 4096), byte (128 + c div 64 mod 64), byte (128 + c mod 64)]
      else [byte (240 + c div 262144), byte (128 + c div 4096 mod 64), byte (128 + c div 64 mod 64), byte (128 + c mod 64)])"

definition utf8 :: "pystr \<Rightarrow> byte list" where
  "utf8 s = concat (map utf8_cp s)"

text \<open>\<open>s.encode("utf-8")\<close> refuses surrogates.\<close>

definition encode_utf8 :: "pystr \<Rightarrow> py_error + byte list" where
  "encode_utf8 s = (if \<forall>c \<in> set s. scalar c then Inr (utf8 s) else Inl ValueError)"

definition cont :: "byte \<Rightarrow> bool" where
  "cont b \<longleftrightarrow> 128 \<le> unat b \<and> unat b < 192"

definition low6 :: "byte \<Rightarrow> nat" where
  "low6 b = unat b - 128"

text \<open>The second byte of a three- or four-byte sequence led by \<open>x\<close> (no overlong form, no surrogate).\<close>

definition second_ok :: "nat \<Rightarrow> byte \<Rightarrow> bool" where
  "second_ok x b \<longleftrightarrow> cont b \<and> (x = 224 \<longrightarrow> 160 \<le> unat b) \<and> (x = 237 \<longrightarrow> unat b < 160) \<and>
     (x = 240 \<longrightarrow> 144 \<le> unat b) \<and> (x = 244 \<longrightarrow> unat b < 144)"

text \<open>
  One step of the decoder: the code point at the front, or \<open>None\<close>, and how many bytes it
  takes; a malformed sequence takes its longest prefix that could have been well formed.
\<close>

definition utf8_two :: "nat \<Rightarrow> byte list \<Rightarrow> nat option \<times> nat" where
  "utf8_two x r = (case r of
     b1 # _ \<Rightarrow> if cont b1 then (Some ((x - 192) * 64 + low6 b1), 2) else (None, 1)
   | [] \<Rightarrow> (None, 1))"

definition utf8_three :: "nat \<Rightarrow> byte list \<Rightarrow> nat option \<times> nat" where
  "utf8_three x r = (case r of
     b1 # r1 \<Rightarrow> if \<not> second_ok x b1 then (None, 1) else (case r1 of
       b2 # _ \<Rightarrow> if cont b2 then (Some ((x - 224) * 4096 + low6 b1 * 64 + low6 b2), 3) else (None, 2)
     | [] \<Rightarrow> (None, 2))
   | [] \<Rightarrow> (None, 1))"

definition utf8_four :: "nat \<Rightarrow> byte list \<Rightarrow> nat option \<times> nat" where
  "utf8_four x r = (case r of
     b1 # r1 \<Rightarrow> if \<not> second_ok x b1 then (None, 1) else (case r1 of
       b2 # r2 \<Rightarrow> if \<not> cont b2 then (None, 2) else (case r2 of
         b3 # _ \<Rightarrow> if cont b3
           then (Some ((x - 240) * 262144 + low6 b1 * 4096 + low6 b2 * 64 + low6 b3), 4) else (None, 3)
       | [] \<Rightarrow> (None, 3))
     | [] \<Rightarrow> (None, 2))
   | [] \<Rightarrow> (None, 1))"

fun utf8_step :: "byte list \<Rightarrow> nat option \<times> nat" where
  "utf8_step [] = (None, 1)"
| "utf8_step (b # r) =
     (let x = unat b
      in if x < 128 then (Some x, 1)
         else if 194 \<le> x \<and> x < 224 then utf8_two x r
         else if 224 \<le> x \<and> x < 240 then utf8_three x r
         else if 240 \<le> x \<and> x < 245 then utf8_four x r
         else (None, 1))"

lemmas utf8_step_defs = utf8_two_def utf8_three_def utf8_four_def

lemma utf8_step_advances: "0 < snd (utf8_step bs)"
  by (cases bs) (auto simp: utf8_step_defs Let_def split: list.split)

function decode_utf8 :: "byte list \<Rightarrow> pystr option" where
  "decode_utf8 bs =
     (if bs = [] then Some []
      else case fst (utf8_step bs) of
        None \<Rightarrow> None
      | Some c \<Rightarrow> map_option (Cons c) (decode_utf8 (drop (snd (utf8_step bs)) bs)))"
  by auto
termination
  by (relation "measure length") (auto simp: utf8_step_advances)

function decode_utf8_replace :: "byte list \<Rightarrow> pystr" where
  "decode_utf8_replace bs =
     (if bs = [] then []
      else (case fst (utf8_step bs) of None \<Rightarrow> 65533 | Some c \<Rightarrow> c) #
        decode_utf8_replace (drop (snd (utf8_step bs)) bs))"
  by auto
termination
  by (relation "measure length") (auto simp: utf8_step_advances)

declare decode_utf8.simps [simp del] decode_utf8_replace.simps [simp del]

text \<open>A number in base 64.\<close>

lemma base64_digit: "l < 64 \<Longrightarrow> (q * 64 + l) div 64 = (q :: nat)" "l < 64 \<Longrightarrow> (q * 64 + l) mod 64 = l"
  by simp_all

lemma base64_div: "(c :: nat) div 4096 = c div 64 div 64" "c div 262144 = c div 64 div 64 div 64"
  by (simp_all add: div_mult2_eq [symmetric])

lemma base64_parts:
  "(c :: nat) div 64 * 64 + c mod 64 = c"
  "c div 64 = c div 4096 * 64 + c div 64 mod 64"
  "(c div 4096 * 64 + c div 64 mod 64) * 64 + c mod 64 = c"
  "((c div 262144 * 64 + c div 4096 mod 64) * 64 + c div 64 mod 64) * 64 + c mod 64 = c"
  by (simp_all add: base64_div)

lemma low6_byte [simp]: "n < 64 \<Longrightarrow> low6 (byte (128 + n)) = n"
  by (simp add: low6_def)

lemma cont_byte [simp]: "n < 64 \<Longrightarrow> cont (byte (128 + n))"
  by (simp add: cont_def)

lemma utf8_step_cp:
  assumes "scalar c"
  shows "utf8_step (utf8_cp c @ bs) = (Some c, length (utf8_cp c))"
proof -
  consider "c < 128" | "128 \<le> c" "c < 2048" | "2048 \<le> c" "c < 65536" | "65536 \<le> c" "c < 1114112"
    using assms unfolding scalar_def by linarith
  then show ?thesis
  proof cases
    case 1
    then show ?thesis by (simp add: utf8_cp_def)
  next
    case 2
    then have b: "2 \<le> c div 64" "c div 64 < 32" by simp_all
    with 2 show ?thesis by (simp add: utf8_cp_def utf8_two_def)
  next
    case 3
    let ?a = "c div 4096" and ?b = "c div 64 mod 64"
    have b: "?a < 16" using 3 by simp
    have v: "?a * 4096 + ?b * 64 + c mod 64 = c" using base64_parts(3) [of c] by (simp add: algebra_simps)
    have ok: "second_ok (224 + ?a) (byte (128 + ?b))"
    proof -
      have m: "c mod 64 < 64" "?b < 64" by simp_all
      have "?a = 0 \<longrightarrow> 32 \<le> ?b" using 3 v m by linarith
      moreover have "?a = 13 \<longrightarrow> ?b < 32" using assms v m unfolding scalar_def by linarith
      ultimately show ?thesis using b by (auto simp: second_ok_def)
    qed
    show ?thesis using 3 b v ok by (simp add: utf8_cp_def utf8_three_def)
  next
    case 4
    let ?a = "c div 262144" and ?b = "c div 4096 mod 64" and ?d = "c div 64 mod 64"
    have b: "?a < 5" using 4 by simp
    have v: "?a * 262144 + ?b * 4096 + ?d * 64 + c mod 64 = c" using base64_parts(4) [of c] by (simp add: algebra_simps)
    have ok: "second_ok (240 + ?a) (byte (128 + ?b))"
    proof -
      have m: "c mod 64 < 64" "?b < 64" "?d < 64" by simp_all
      have "?a = 0 \<longrightarrow> 16 \<le> ?b" using 4 v m by linarith
      moreover have "?a = 4 \<longrightarrow> ?b < 16" using 4 v m by linarith
      ultimately show ?thesis using b by (auto simp: second_ok_def)
    qed
    show ?thesis using 4 b v ok by (simp add: utf8_cp_def utf8_four_def)
  qed
qed

lemma utf8_cp_nonempty [simp]: "utf8_cp c \<noteq> []"
  by (simp add: utf8_cp_def)

lemma decode_utf8_cp: "scalar c \<Longrightarrow> decode_utf8 (utf8_cp c @ bs) = map_option (Cons c) (decode_utf8 bs)"
  by (subst decode_utf8.simps) (simp add: utf8_step_cp)

lemma decode_utf8_utf8: "\<forall>c \<in> set s. scalar c \<Longrightarrow> decode_utf8 (utf8 s) = Some s"
  by (induction s) (simp_all add: utf8_def decode_utf8_cp decode_utf8.simps [of "[]"])

text \<open>What the decoder accepts at the front is what the encoder writes for the code point.\<close>

lemma cont_cases:
  assumes "cont b" obtains n where "n < 64" "b = byte (128 + n)" "low6 b = n"
proof
  show "low6 b < 64" "b = byte (128 + low6 b)" "low6 b = low6 b"
    using assms by (auto simp: cont_def low6_def)
qed

lemma lead_byte: "k \<le> unat b \<Longrightarrow> b = byte (k + (unat b - k))"
  by simp

lemma utf8_step_sound:
  assumes "utf8_step bs = (Some c, n)"
  shows "scalar c \<and> bs = utf8_cp c @ drop n bs"
proof (cases bs)
  case Nil
  with assms show ?thesis by simp
next
  case (Cons b r)
  let ?x = "unat b"
  consider (one) "?x < 128" | (two) "194 \<le> ?x" "?x < 224" | (three) "224 \<le> ?x" "?x < 240" | (four) "240 \<le> ?x" "?x < 245"
    using assms Cons by (auto simp: Let_def split: if_splits)
  then show ?thesis
  proof cases
    case one
    with assms Cons show ?thesis by (auto simp: utf8_cp_def scalar_def)
  next
    case two
    with assms Cons have "utf8_two ?x r = (Some c, n)" by simp
    then obtain b1 r1 where r: "r = b1 # r1" "cont b1" "c = (?x - 192) * 64 + low6 b1" "n = 2"
      by (auto simp: utf8_two_def split: list.splits if_splits)
    obtain k where k: "k < 64" "b1 = byte (128 + k)" "low6 b1 = k" using cont_cases [OF r(2)] .
    have "c < 2048" "128 \<le> c" "c div 64 = ?x - 192" "c mod 64 = k" using two r(3) k by auto
    with two r k Cons show ?thesis by (simp add: utf8_cp_def scalar_def)
  next
    case three
    with assms Cons have "utf8_three ?x r = (Some c, n)" by simp
    then obtain b1 b2 r2 where r: "r = b1 # b2 # r2" "second_ok ?x b1" "cont b2"
        "c = (?x - 224) * 4096 + low6 b1 * 64 + low6 b2" "n = 3"
      by (auto simp: utf8_three_def split: list.splits if_splits)
    have "cont b1" using r(2) by (simp add: second_ok_def)
    obtain k where k: "k < 64" "b1 = byte (128 + k)" "low6 b1 = k" using cont_cases [OF \<open>cont b1\<close>] .
    obtain l where l: "l < 64" "b2 = byte (128 + l)" "low6 b2 = l" using cont_cases [OF r(3)] .
    have kx: "?x = 224 \<longrightarrow> 32 \<le> k" "?x = 237 \<longrightarrow> k < 32" using r(2) k by (auto simp: second_ok_def)
    obtain a where a: "?x = 224 + a" "a < 16"
    proof
      show "?x = 224 + (?x - 224)" "?x - 224 < 16" using three by simp_all
    qed
    have c: "c = (a * 64 + k) * 64 + l" using r(4) a k l by simp
    have cl: "c mod 64 = l" and ck: "c div 64 = a * 64 + k" using l c base64_digit [of l "a * 64 + k"] by simp_all
    have "c div 64 mod 64 = k" "c div 4096 = a" using k unfolding base64_div ck by (simp_all add: base64_digit)
    moreover note cl ck
    moreover have "c < 65536" "2048 \<le> c" using c a k l kx by (cases "a = 0"; simp)+
    moreover have "c < 55296 \<or> 57344 \<le> c" using c a k l kx by (cases a "13 :: nat" rule: linorder_cases) simp_all
    moreover have "b = byte (224 + a)" using a by (metis byte_unat)
    ultimately show ?thesis using r k l a Cons by (simp add: utf8_cp_def scalar_def)
  next
    case four
    with assms Cons have "utf8_four ?x r = (Some c, n)" by simp
    then obtain b1 b2 b3 r3 where r: "r = b1 # b2 # b3 # r3" "second_ok ?x b1" "cont b2" "cont b3"
        "c = (?x - 240) * 262144 + low6 b1 * 4096 + low6 b2 * 64 + low6 b3" "n = 4"
      by (auto simp: utf8_four_def split: list.splits if_splits)
    have "cont b1" using r(2) by (simp add: second_ok_def)
    obtain k where k: "k < 64" "b1 = byte (128 + k)" "low6 b1 = k" using cont_cases [OF \<open>cont b1\<close>] .
    obtain l where l: "l < 64" "b2 = byte (128 + l)" "low6 b2 = l" using cont_cases [OF r(3)] .
    obtain m where m: "m < 64" "b3 = byte (128 + m)" "low6 b3 = m" using cont_cases [OF r(4)] .
    have kx: "?x = 240 \<longrightarrow> 16 \<le> k" "?x = 244 \<longrightarrow> k < 16" using r(2) k by (auto simp: second_ok_def)
    obtain a where a: "?x = 240 + a" "a < 5"
    proof
      show "?x = 240 + (?x - 240)" "?x - 240 < 5" using four by simp_all
    qed
    have c: "c = ((a * 64 + k) * 64 + l) * 64 + m" using r(5) a k l m by simp
    have cm: "c mod 64 = m" and cd: "c div 64 = (a * 64 + k) * 64 + l" using m c base64_digit [of m "(a * 64 + k) * 64 + l"] by simp_all
    have cl: "c div 64 mod 64 = l" unfolding cd by (rule base64_digit(2) [OF l(1)])
    have ck: "c div 4096 = a * 64 + k" unfolding base64_div cd by (rule base64_digit(1) [OF l(1)])
    have cc: "c div 4096 mod 64 = k" "c div 262144 = a" using k ck unfolding base64_div by (simp_all add: base64_digit)
    have big: "65536 \<le> c" using c kx a by (cases "a = 0") simp_all
    then have enc: "utf8_cp c = [byte (240 + a), byte (128 + k), byte (128 + l), byte (128 + m)]"
      by (simp add: utf8_cp_def cm cl cc)
    have "c < 1114112" using c kx a k l m by (cases "a = 4") simp_all
    then have "scalar c" using big by (simp add: scalar_def)
    moreover have "b = byte (240 + a)" using a by (metis byte_unat)
    ultimately show ?thesis using Cons r(1,6) k(2) l(2) m(2) by (simp add: enc)
  qed
qed

lemma decode_utf8_sound: "decode_utf8 bs = Some s \<Longrightarrow> (\<forall>c \<in> set s. scalar c) \<and> utf8 s = bs"
proof (induction bs arbitrary: s rule: decode_utf8.induct)
  case (1 bs)
  show ?case
  proof (cases "bs = []")
    case True
    with 1 show ?thesis by (simp add: decode_utf8.simps [of "[]"] utf8_def)
  next
    case False
    with 1(2) obtain c n t where c: "utf8_step bs = (Some c, n)" "decode_utf8 (drop n bs) = Some t" "s = c # t"
      using decode_utf8.simps [of bs] by (cases "utf8_step bs") (auto split: option.splits)
    have "(\<forall>c \<in> set t. scalar c) \<and> utf8 t = drop n bs" using 1(1) [of c t] False c by simp
    with utf8_step_sound [OF c(1)] c(3) show ?thesis by (simp add: utf8_def)
  qed
qed

interpretation utf8_codec: exact_codec "\<lambda>s. \<forall>c \<in> set s. scalar c" utf8 decode_utf8
  by unfold_locales (simp_all add: decode_utf8_utf8 decode_utf8_sound)

section \<open>Base64\<close>

definition b64_char :: "nat \<Rightarrow> nat" where
  "b64_char v = (if v < 26 then 65 + v else if v < 52 then 97 + (v - 26) else if v < 62 then 48 + (v - 52)
     else if v = 62 then 43 else 47)"

definition b64_val :: "nat \<Rightarrow> nat option" where
  "b64_val c = (if 65 \<le> c \<and> c \<le> 90 then Some (c - 65) else if 97 \<le> c \<and> c \<le> 122 then Some (c - 97 + 26)
     else if 48 \<le> c \<and> c \<le> 57 then Some (c - 48 + 52) else if c = 43 then Some 62 else if c = 47 then Some 63 else None)"

text \<open>\<open>base64.b64encode(body).decode("ascii")\<close>.\<close>

fun b64encode :: "byte list \<Rightarrow> pystr" where
  "b64encode [] = []"
| "b64encode [a] = [b64_char (unat a div 4), b64_char (unat a mod 4 * 16), 61, 61]"
| "b64encode [a, b] = [b64_char (unat a div 4), b64_char (unat a mod 4 * 16 + unat b div 16), b64_char (unat b mod 16 * 4), 61]"
| "b64encode (a # b # c # r) =
     b64_char (unat a div 4) # b64_char (unat a mod 4 * 16 + unat b div 16) #
     b64_char (unat b mod 16 * 4 + unat c div 64) # b64_char (unat c mod 64) # b64encode r"

text \<open>\<open>base64.b64decode(s, validate=True)\<close>: \<open>None\<close> is \<open>binascii.Error\<close>, a \<open>ValueError\<close>.\<close>

definition b64_quad :: "nat \<Rightarrow> nat \<Rightarrow> nat \<Rightarrow> nat \<Rightarrow> bool \<Rightarrow> byte list option" where
  "b64_quad p q r s final =
     (case (b64_val p, b64_val q) of
        (Some a, Some b) \<Rightarrow>
          if final \<and> r = 61 \<and> s = 61 then Some [byte (a * 4 + b div 16)]
          else (case b64_val r of
             None \<Rightarrow> None
           | Some c \<Rightarrow>
               if final \<and> s = 61 then Some [byte (a * 4 + b div 16), byte (b mod 16 * 16 + c div 4)]
               else (case b64_val s of
                  None \<Rightarrow> None
                | Some d \<Rightarrow> Some [byte (a * 4 + b div 16), byte (b mod 16 * 16 + c div 4), byte (c mod 4 * 64 + d)]))
      | _ \<Rightarrow> None)"

fun b64decode :: "pystr \<Rightarrow> byte list option" where
  "b64decode [] = Some []"
| "b64decode (p # q # r # s # rest) =
     (case b64_quad p q r s (rest = []) of
        None \<Rightarrow> None
      | Some bs \<Rightarrow> map_option ((@) bs) (b64decode rest))"
| "b64decode _ = None"

lemma b64_val_char [simp]: "v < 64 \<Longrightarrow> b64_val (b64_char v) = Some v"
  by (auto simp: b64_val_def b64_char_def)

lemma b64_char_pad [simp]: "v < 64 \<Longrightarrow> b64_char v \<noteq> 61"
  by (auto simp: b64_char_def)

lemma b64_quad_chars:
  assumes "v < 64" "w < 64"
  shows "b64_quad (b64_char v) (b64_char w) 61 61 True = Some [byte (v * 4 + w div 16)]"
    "x < 64 \<Longrightarrow> b64_quad (b64_char v) (b64_char w) (b64_char x) 61 True =
       Some [byte (v * 4 + w div 16), byte (w mod 16 * 16 + x div 4)]"
    "x < 64 \<Longrightarrow> y < 64 \<Longrightarrow> b64_quad (b64_char v) (b64_char w) (b64_char x) (b64_char y) final =
       Some [byte (v * 4 + w div 16), byte (w mod 16 * 16 + x div 4), byte (x mod 4 * 64 + y)]"
  using assms by (simp_all add: b64_quad_def)

lemma byte_parts:
  "unat (a :: byte) div 4 < 64" "unat a mod 4 < 4" "unat a div 16 < 16" "unat a mod 16 < 16" "unat a div 64 < 4" "unat a mod 64 < 64"
  using unat_byte_less [of a] by (simp_all add: less_mult_imp_div_less)

lemma byte_sextets:
  "unat (a :: byte) mod 4 * 16 < 64" "unat a mod 4 * 16 + unat (b :: byte) div 16 < 64"
  "unat b mod 16 * 4 < 64" "unat b mod 16 * 4 + unat (c :: byte) div 64 < 64"
  using byte_parts [of a] byte_parts [of b] byte_parts [of c] by linarith+

lemma small_digit:
  "d < 16 \<Longrightarrow> (q * 16 + d) div 16 = (q :: nat)" "d < 16 \<Longrightarrow> (q * 16 + d) mod 16 = d"
  "d < 4 \<Longrightarrow> (q * 4 + d) div 4 = (q :: nat)" "d < 4 \<Longrightarrow> (q * 4 + d) mod 4 = d"
  by simp_all

lemma b64_quads:
  "b64_quad (b64_char (unat a div 4)) (b64_char (unat a mod 4 * 16)) 61 61 True = Some [a]"
  "b64_quad (b64_char (unat a div 4)) (b64_char (unat a mod 4 * 16 + unat b div 16)) (b64_char (unat b mod 16 * 4)) 61 True =
     Some [a, b]"
  "b64_quad (b64_char (unat a div 4)) (b64_char (unat a mod 4 * 16 + unat b div 16))
     (b64_char (unat b mod 16 * 4 + unat c div 64)) (b64_char (unat c mod 64)) final = Some [a, b, c]"
  by (simp_all only: b64_quad_chars byte_parts byte_sextets small_digit div_mult_mod_eq byte_unat
      nonzero_mult_div_cancel_right)

lemma b64decode_b64encode: "b64decode (b64encode bs) = Some bs"
  by (induction bs rule: b64encode.induct) (simp_all add: b64_quads)

interpretation base64_codec: codec "\<lambda>_. True" b64encode b64decode
  by unfold_locales (rule b64decode_b64encode)

end
