(* ===== verification/Http.thy ===== *)
theory Http
  imports Errors Cache_Tiers Bytes
begin

text \<open>
  \<open>src/swimzh/core/http.py\<close>: the HTTP client that returns errors as values, and its retry
  loop. The wrapped \<open>httpx\<close> client is a port: sending a request is the argument \<open>hc_send\<close>,
  which may change the world \<open>'w\<close> it acts on, and so is the injected \<open>sleep\<close>. Headers are
  the items of the response's header mapping.
\<close>

section \<open>Responses and what a send can end in\<close>

type_synonym headers = "(pystr \<times> pystr) list"

record http_response =
  rs_status :: int
  rs_headers :: headers
  rs_content :: "byte list"
  rs_extensions :: extensions

text \<open>Names of headers are compared without regard to case.\<close>

definition header_get :: "headers \<Rightarrow> pystr \<Rightarrow> pystr option" where
  "header_get hs name = map_option snd (find (\<lambda>h. py_lower (fst h) = py_lower name) hs)"

text \<open>A response, or the exception raised, in the order the handlers test for them.\<close>

datatype httpx_outcome =
    Responded http_response
  | TooManyRedirects "pystr option"
  | TimeoutException
  | DecodingError pystr
  | TransportError pystr
  | OtherRequestError pystr
  | OtherException py_error

definition DEFAULT_MAX_BYTES :: int where "DEFAULT_MAX_BYTES = 10000000"
definition SNIPPET_BYTES :: nat where "SNIPPET_BYTES = 200"

definition snippet :: "http_response \<Rightarrow> pystr" where
  "snippet resp = decode_utf8_replace (take SNIPPET_BYTES (rs_content resp))"

text \<open>\<open>float(raw)\<close> is the runtime's: \<open>None\<close> is its \<open>ValueError\<close>.\<close>

definition parse_retry_after :: "(pystr \<Rightarrow> rat option) \<Rightarrow> http_response \<Rightarrow> rat option" where
  "parse_retry_after read_float resp =
     (case header_get (rs_headers resp) (u ''retry-after'') of None \<Rightarrow> None | Some raw \<Rightarrow> read_float raw)"

section \<open>The client\<close>

record retry_policy =
  max_attempts :: int
  backoff_base_s :: rat

definition mk_retry_policy :: "int \<Rightarrow> rat \<Rightarrow> py_error + retry_policy" where
  "mk_retry_policy n base =
     (if n < 1 then Inl ValueError else Inr \<lparr>max_attempts = n, backoff_base_s = base\<rparr>)"

definition DEFAULT_RETRY :: retry_policy where
  "DEFAULT_RETRY = \<lparr>max_attempts = 3, backoff_base_s = 1 / 5\<rparr>"

datatype extensions_arg = NoExtensions | NotAMapping | Extensions extensions

record 'k request_kwargs =
  kw_extensions :: extensions_arg
  kw_others :: 'k

record ('w, 'k) http_client =
  hc_send :: "pystr \<Rightarrow> 'k request_kwargs \<Rightarrow> 'w \<Rightarrow> httpx_outcome \<times> 'w"
  hc_source :: pystr
  hc_timeout_s :: rat
  hc_max_bytes :: int
  hc_retry :: retry_policy
  hc_sleep :: "rat \<Rightarrow> 'w \<Rightarrow> 'w"
  hc_read_float :: "pystr \<Rightarrow> rat option"

definition stamp_cache_policy :: "('w, 'k) http_client \<Rightarrow> 'k request_kwargs \<Rightarrow> 'k request_kwargs" where
  "stamp_cache_policy hc kw =
     (case kw_extensions kw of
        NotAMapping \<Rightarrow> kw
      | NoExtensions \<Rightarrow> kw\<lparr>kw_extensions := Extensions (cache_extensions (hc_source hc))\<rparr>
      | Extensions caller \<Rightarrow> kw\<lparr>kw_extensions := Extensions (cache_extensions (hc_source hc) ++ caller)\<rparr>)"

definition classify :: "('w, 'k) http_client \<Rightarrow> pystr \<Rightarrow> http_response \<Rightarrow> (http_response, provider_error) result" where
  "classify hc url resp =
     (if int (length (rs_content resp)) > hc_max_bytes hc then Err (TooLarge url (hc_max_bytes hc))
      else let status = rs_status resp
      in if 200 \<le> status \<and> status < 300 then Ok resp
         else if status = 429 then Err (RateLimited url (parse_retry_after (hc_read_float hc) resp))
         else Err (HttpStatus url status (snippet resp)))"

definition get_once ::
  "('w, 'k) http_client \<Rightarrow> pystr \<Rightarrow> 'k request_kwargs \<Rightarrow> 'w \<Rightarrow>
   (py_error + (http_response, provider_error) result) \<times> 'w" where
  "get_once hc url kw w =
     (case hc_send hc url kw w of (outcome, w') \<Rightarrow>
        (case outcome of
           TooManyRedirects at_url \<Rightarrow>
             Inr (Err (Redirect url (case at_url of Some l \<Rightarrow> l | None \<Rightarrow> url) (- 1)))
         | TimeoutException \<Rightarrow> Inr (Err (Timeout url (hc_timeout_s hc)))
         | DecodingError exc \<Rightarrow> Inr (Err (DecodeError (hc_source hc) exc))
         | TransportError exc \<Rightarrow> Inr (Err (ConnectionFailed url exc))
         | OtherRequestError exc \<Rightarrow> Inr (Err (ConnectionFailed url exc))
         | OtherException e \<Rightarrow> Inl e
         | Responded resp \<Rightarrow> Inr (classify hc url resp), w'))"

definition backoff :: "('w, 'k) http_client \<Rightarrow> int \<Rightarrow> rat" where
  "backoff hc attempt = backoff_base_s (hc_retry hc) * 2 ^ nat (attempt - 1)"

function get_loop ::
  "('w, 'k) http_client \<Rightarrow> pystr \<Rightarrow> 'k request_kwargs \<Rightarrow> int \<Rightarrow> provider_error option \<Rightarrow> 'w \<Rightarrow>
   (py_error + (http_response, provider_error) result) \<times> 'w" where
  "get_loop hc url kw attempt last_error w =
     (if attempt > max_attempts (hc_retry hc) then
        (case last_error of None \<Rightarrow> Inl RuntimeError | Some e \<Rightarrow> Inr (Err e), w)
      else case get_once hc url kw w of
        (Inr (Err e), w') \<Rightarrow>
          if attempt < max_attempts (hc_retry hc) \<and> retriable e
          then get_loop hc url kw (attempt + 1) (Some e) (hc_sleep hc (backoff hc attempt) w')
          else (Inr (Err e), w')
      | other \<Rightarrow> other)"
  by pat_completeness auto
termination
  by (relation "measure (\<lambda>(hc, _, _, attempt, _, _). nat (max_attempts (hc_retry hc) + 1 - attempt))") auto

declare get_loop.simps [simp del]

definition http_get ::
  "('w, 'k) http_client \<Rightarrow> pystr \<Rightarrow> 'k request_kwargs \<Rightarrow> 'w \<Rightarrow>
   (py_error + (http_response, provider_error) result) \<times> 'w" where
  "http_get hc url kw w = get_loop hc url (stamp_cache_policy hc kw) 1 None w"

section \<open>The attempts one by one\<close>

text \<open>The world before attempt \<open>n\<close> (from 0), if all attempts before it were made.\<close>

primrec world_before ::
  "('w, 'k) http_client \<Rightarrow> pystr \<Rightarrow> 'k request_kwargs \<Rightarrow> 'w \<Rightarrow> nat \<Rightarrow> 'w" where
  "world_before hc url kw w 0 = w"
| "world_before hc url kw w (Suc n) =
     hc_sleep hc (backoff_base_s (hc_retry hc) * 2 ^ n) (snd (get_once hc url kw (world_before hc url kw w n)))"

definition nth_attempt ::
  "('w, 'k) http_client \<Rightarrow> pystr \<Rightarrow> 'k request_kwargs \<Rightarrow> 'w \<Rightarrow> nat \<Rightarrow>
   (py_error + (http_response, provider_error) result) \<times> 'w" where
  "nth_attempt hc url kw w n = get_once hc url kw (world_before hc url kw w n)"

definition retriable_failure :: "py_error + (http_response, provider_error) result \<Rightarrow> bool" where
  "retriable_failure r = (case r of Inr (Err e) \<Rightarrow> retriable e | _ \<Rightarrow> False)"

text \<open>From attempt \<open>n\<close> on, the loop ends with the first attempt that is final or the last allowed.\<close>

lemma get_loop_attempts:
  assumes "int n < max_attempts (hc_retry hc)"
  shows "\<exists>k. n \<le> k \<and> int k < max_attempts (hc_retry hc) \<and>
    get_loop hc url kw (int n + 1) last_error (world_before hc url kw w n) = nth_attempt hc url kw w k \<and>
    (\<forall>i. n \<le> i \<and> i < k \<longrightarrow> retriable_failure (fst (nth_attempt hc url kw w i))) \<and>
    (int k + 1 = max_attempts (hc_retry hc) \<or> \<not> retriable_failure (fst (nth_attempt hc url kw w k)))"
  using assms
proof (induction "nat (max_attempts (hc_retry hc)) - n" arbitrary: n last_error rule: less_induct)
  case less
  let ?max = "max_attempts (hc_retry hc)"
  let ?first = "nth_attempt hc url kw w n"
  show ?case
  proof (cases "retriable_failure (fst ?first) \<and> int n + 1 < ?max")
    case True
    then obtain e w' where f: "?first = (Inr (Err e), w')" "retriable e"
      by (cases ?first) (auto simp: retriable_failure_def split: sum.splits result.splits)
    have next_world: "world_before hc url kw w (Suc n) = hc_sleep hc (backoff hc (int n + 1)) w'"
      using f by (simp add: backoff_def nth_attempt_def)
    have step: "get_loop hc url kw (int n + 1) last_error (world_before hc url kw w n) =
        get_loop hc url kw (int (Suc n) + 1) (Some e) (world_before hc url kw w (Suc n))"
      using f True unfolding next_world nth_attempt_def by (subst get_loop.simps) (simp add: add.commute)
    have "n < nat ?max" using less.prems by simp
    then have "nat ?max - Suc n < nat ?max - n" "int (Suc n) < ?max" using True by simp_all
    from less.hyps [OF this, of "Some e"] obtain k where k: "Suc n \<le> k" "int k < ?max"
      "get_loop hc url kw (int n + 1) last_error (world_before hc url kw w n) = nth_attempt hc url kw w k"
      "\<forall>i. Suc n \<le> i \<and> i < k \<longrightarrow> retriable_failure (fst (nth_attempt hc url kw w i))"
      "int k + 1 = ?max \<or> \<not> retriable_failure (fst (nth_attempt hc url kw w k))"
      unfolding step by blast
    have "retriable_failure (fst (nth_attempt hc url kw w i))" if "n \<le> i" "i < k" for i
      using that k(4) True by (cases "i = n") simp_all
    with k show ?thesis by (intro exI [of _ k]) simp
  next
    case False
    have "get_loop hc url kw (int n + 1) last_error (world_before hc url kw w n) = ?first"
      using False less.prems unfolding nth_attempt_def
      by (subst get_loop.simps) (auto simp: retriable_failure_def split: prod.splits sum.splits result.splits)
    with False less.prems show ?thesis by (intro exI [of _ n]) auto
  qed
qed

lemma http_get_attempts:
  assumes "1 \<le> max_attempts (hc_retry hc)"
  shows "\<exists>k. int k < max_attempts (hc_retry hc) \<and>
    http_get hc url kw w = nth_attempt hc url (stamp_cache_policy hc kw) w k \<and>
    (\<forall>i < k. retriable_failure (fst (nth_attempt hc url (stamp_cache_policy hc kw) w i))) \<and>
    (int k + 1 = max_attempts (hc_retry hc) \<or> \<not> retriable_failure (fst (nth_attempt hc url (stamp_cache_policy hc kw) w k)))"
  using get_loop_attempts [of 0 hc url "stamp_cache_policy hc kw" None w] assms by (simp add: http_get_def)

lemma classify_Ok: "classify hc url resp = Ok r \<longleftrightarrow>
    r = resp \<and> 200 \<le> rs_status resp \<and> rs_status resp < 300 \<and> int (length (rs_content resp)) \<le> hc_max_bytes hc"
  by (auto simp: classify_def Let_def)

lemma get_once_Ok: "fst (get_once hc url kw w) = Inr (Ok r) \<longleftrightarrow>
    (\<exists>w'. hc_send hc url kw w = (Responded r, w')) \<and> classify hc url r = Ok r"
  by (auto simp: get_once_def classify_Ok split: prod.splits httpx_outcome.splits)

lemma get_once_Inl: "fst (get_once hc url kw w) = Inl e \<longleftrightarrow> (\<exists>w'. hc_send hc url kw w = (OtherException e, w'))"
  by (auto simp: get_once_def split: prod.splits httpx_outcome.splits)

end
