(* ===== verification/Http_Cache.thy ===== *)
theory Http_Cache
  imports Http Json Iso Atomic
begin

text \<open>
  \<open>src/swimzh/core/httpcache.py\<close>: the on-disk cache of HTTP responses and the transport
  that serves from it. The disk is a map from paths to texts; a stored entry is the JSON value
  of its text. What \<open>httpx\<close> and the runtime decide is collected in \<open>cache_env\<close>.
\<close>

record http_request =
  rq_method :: pystr
  rq_url :: pystr
  rq_host :: pystr
  rq_headers :: headers
  rq_extensions :: extensions

text \<open>
  \<open>ce_digest\<close> is SHA-256 in hexadecimal; \<open>ce_build\<close> is the constructor of \<open>httpx.Response\<close>
  over the items of a header mapping.
\<close>

record cache_env =
  ce_tzdb :: tzdb
  ce_other_iso :: "pystr \<Rightarrow> datetime option"
  ce_digest :: "byte list \<Rightarrow> pystr"
  ce_build :: "int \<Rightarrow> (json \<times> json) list \<Rightarrow> byte list \<Rightarrow> extensions \<Rightarrow> py_error + http_response"

definition DEFAULT_CACHE_ROOT :: pystr where "DEFAULT_CACHE_ROOT = u ''.cache/swimzh''"
definition KEY_LEN :: nat where "KEY_LEN = 16"

definition TEXT_MEDIA_TYPES :: "pystr list" where
  "TEXT_MEDIA_TYPES =
     [u ''application/json'', u ''application/xml'', u ''application/javascript'', u ''application/x-javascript'',
      u ''application/x-www-form-urlencoded'', u ''application/yaml'', u ''application/x-yaml'', u ''application/graphql'']"

definition TEXT_SUFFIXES :: "pystr list" where
  "TEXT_SUFFIXES = [u ''+json'', u ''+xml'']"

definition STRIPPED_HEADERS :: "pystr list" where
  "STRIPPED_HEADERS = [u ''content-encoding'', u ''content-length'', u ''transfer-encoding'']"

section \<open>Keys, tiers and TTLs\<close>

definition cache_key :: "cache_env \<Rightarrow> http_request \<Rightarrow> pystr" where
  "cache_key env req = take KEY_LEN (ce_digest env (utf8 (rq_method req @ u '' '' @ rq_url req)))"

definition request_tier :: "http_request \<Rightarrow> pystr" where
  "request_tier req =
     (case rq_extensions req TIER_EXTENSION of
        Some (ExtStr tier) \<Rightarrow> if tier \<noteq> [] then tier else DEFAULT_TIER
      | _ \<Rightarrow> DEFAULT_TIER)"

definition request_ttl_s :: "http_request \<Rightarrow> int" where
  "request_ttl_s req =
     (case rq_extensions req TTL_EXTENSION of
        Some (ExtInt ttl) \<Rightarrow> if ttl > 0 then ttl else DEFAULT_TTL_S
      | _ \<Rightarrow> DEFAULT_TTL_S)"

section \<open>Bodies\<close>

definition media_type :: "pystr \<Rightarrow> pystr" where
  "media_type content_type = py_lower (py_strip (takeWhile (\<lambda>c. c \<noteq> 59) content_type))"

definition starts_with :: "pystr \<Rightarrow> pystr \<Rightarrow> bool" where
  "starts_with p s \<longleftrightarrow> take (length p) s = p"

definition ends_with :: "pystr \<Rightarrow> pystr \<Rightarrow> bool" where
  "ends_with p s \<longleftrightarrow> starts_with (rev p) (rev s)"

definition is_text_media_type :: "pystr \<Rightarrow> bool" where
  "is_text_media_type mt \<longleftrightarrow>
     mt = [] \<or> starts_with (u ''text/'') mt \<or> (\<exists>p \<in> set TEXT_SUFFIXES. ends_with p mt) \<or> mt \<in> set TEXT_MEDIA_TYPES"

text \<open>The pair \<open>(body, body_base64)\<close>.\<close>

definition encode_body :: "byte list \<Rightarrow> pystr \<Rightarrow> pystr option \<times> pystr option" where
  "encode_body body mt =
     (case (if is_text_media_type mt then decode_utf8 body else None) of
        Some s \<Rightarrow> (Some s, None)
      | None \<Rightarrow> (None, Some (b64encode body)))"

definition json_opt :: "pystr option \<Rightarrow> json" where
  "json_opt x = (case x of None \<Rightarrow> JNull | Some s \<Rightarrow> JStr s)"

definition decode_body :: "json \<Rightarrow> py_error + byte list" where
  "decode_body payload =
     bind_err (get_item payload (u ''body_base64'')) (\<lambda>encoded.
       if encoded \<noteq> JNull then
         (case encoded of
            JStr s \<Rightarrow> (case b64decode s of Some b \<Rightarrow> Inr b | None \<Rightarrow> Inl ValueError)
          | _ \<Rightarrow> Inl TypeError)
       else bind_err (get_item payload (u ''body'')) (\<lambda>body.
         case body of JStr s \<Rightarrow> encode_utf8 s | _ \<Rightarrow> Inl TypeError))"

section \<open>Headers\<close>

definition kept_header :: "pystr \<Rightarrow> bool" where
  "kept_header k \<longleftrightarrow> py_lower k \<notin> set STRIPPED_HEADERS"

definition storable_headers :: "headers \<Rightarrow> headers" where
  "storable_headers hs = filter (\<lambda>h. kept_header (fst h)) hs"

text \<open>
  \<open>dict(x)\<close> of a decoded JSON value: an object gives its members, a list is read as a
  list of pairs.
\<close>

fun pair_of :: "json \<Rightarrow> py_error + json \<times> json" where
  "pair_of (JList [a, b]) = Inr (a, b)"
| "pair_of (JList _) = Inl ValueError"
| "pair_of (JStr [c, d]) = Inr (JStr [c], JStr [d])"
| "pair_of (JStr _) = Inl ValueError"
| "pair_of (JObj [(k, v), (l, w)]) = Inr (JStr k, JStr l)"
| "pair_of (JObj _) = Inl ValueError"
| "pair_of _ = Inl TypeError"

definition add_pair :: "(json \<times> json) list \<Rightarrow> json \<Rightarrow> py_error + (json \<times> json) list" where
  "add_pair d x =
     bind_err (pair_of x) (\<lambda>(k, v).
       case k of JList _ \<Rightarrow> Inl TypeError | JObj _ \<Rightarrow> Inl TypeError | _ \<Rightarrow> Inr (dict_set k v d))"

fun dict_of_json :: "json \<Rightarrow> py_error + (json \<times> json) list" where
  "dict_of_json (JObj ms) = Inr (map (\<lambda>(k, v). (JStr k, v)) ms)"
| "dict_of_json (JList xs) = fold_err add_pair xs []"
| "dict_of_json (JStr s) = (if s = [] then Inr [] else Inl ValueError)"
| "dict_of_json _ = Inl TypeError"

text \<open>The same comprehension on untyped items: \<open>k.lower()\<close> exists on strings only.\<close>

definition keep_item :: "(json \<times> json) list \<Rightarrow> json \<times> json \<Rightarrow> py_error + (json \<times> json) list" where
  "keep_item acc kv =
     (case fst kv of
        JStr k \<Rightarrow> Inr (if kept_header k then acc @ [kv] else acc)
      | _ \<Rightarrow> Inl AttributeError)"

definition storable_items :: "(json \<times> json) list \<Rightarrow> py_error + (json \<times> json) list" where
  "storable_items kvs = fold_err keep_item kvs []"

definition header_items :: "headers \<Rightarrow> (json \<times> json) list" where
  "header_items hs = map (\<lambda>(k, v). (JStr k, JStr v)) hs"

section \<open>Entries\<close>

definition parse_expiry :: "cache_env \<Rightarrow> json \<Rightarrow> py_error + datetime" where
  "parse_expiry env raw =
     (case raw of
        JStr s \<Rightarrow>
          (case fromisoformat (ce_other_iso env) s of
             None \<Rightarrow> Inl ValueError
           | Some x \<Rightarrow> if dt_tz x = None then Inl ValueError else Inr x)
      | _ \<Rightarrow> Inl TypeError)"

definition require_aware :: "datetime \<Rightarrow> py_error + unit" where
  "require_aware now = (if dt_tz now = None then Inl ValueError else Inr ())"

definition rebuild :: "cache_env \<Rightarrow> json \<Rightarrow> py_error + http_response" where
  "rebuild env payload =
     bind_err (bind_err (get_item payload (u ''status'')) int_json) (\<lambda>status.
     bind_err (bind_err (bind_err (get_item payload (u ''headers'')) dict_of_json) storable_items) (\<lambda>items.
     bind_err (decode_body payload) (\<lambda>body.
       ce_build env status items body Map.empty)))"

definition serialize ::
  "cache_env \<Rightarrow> http_request \<Rightarrow> http_response \<Rightarrow> pystr \<Rightarrow> int \<Rightarrow> datetime \<Rightarrow> py_error + json" where
  "serialize env req resp tier ttl_s now =
     (let content_type = (case header_get (rs_headers resp) (u ''content-type'') of Some c \<Rightarrow> c | None \<Rightarrow> []);
          (body, body_base64) = encode_body (rs_content resp) (media_type content_type)
      in bind_err (dt_add now (seconds ttl_s)) (\<lambda>expires. Inr (JObj
        [(u ''cache'', JObj
           [(u ''key'', JStr (cache_key env req)),
            (u ''tier'', JStr tier),
            (u ''fetched_at'', JStr (isoformat (ce_tzdb env) now)),
            (u ''ttl_s'', JInt ttl_s),
            (u ''expires_at'', JStr (isoformat (ce_tzdb env) expires))]),
         (u ''request'', JObj
           [(u ''method'', JStr (rq_method req)),
            (u ''url'', JStr (rq_url req)),
            (u ''headers'', JObj (map (map_prod id JStr) (storable_headers (rq_headers req))))]),
         (u ''response'', JObj
           [(u ''status'', JInt (rs_status resp)),
            (u ''content_type'', JStr content_type),
            (u ''headers'', JObj (map (map_prod id JStr) (storable_headers (rs_headers resp)))),
            (u ''body'', json_opt body),
            (u ''body_base64'', json_opt body_base64)])])))"

section \<open>The store\<close>

definition cache_path :: "cache_env \<Rightarrow> pystr \<Rightarrow> http_request \<Rightarrow> pystr \<Rightarrow> pystr" where
  "cache_path env root_dir req tier =
     py_join (u ''/'') [root_dir, tier, if rq_host req = [] then u ''unknown-host'' else rq_host req,
       cache_key env req @ u ''.json'']"

definition entry_response :: "cache_env \<Rightarrow> datetime \<Rightarrow> json \<Rightarrow> py_error + http_response option" where
  "entry_response env now document =
     bind_err (bind_err (bind_err (get_item document (u ''cache'')) (\<lambda>c. get_item c (u ''expires_at''))) (parse_expiry env)) (\<lambda>expires.
       if 0 \<le> dt_sub (ce_tzdb env) now expires then Inr None
       else bind_err (bind_err (get_item document (u ''response'')) (rebuild env)) (\<lambda>resp. Inr (Some resp)))"

definition MISS_ERRORS :: "py_error list" where
  "MISS_ERRORS = [OSError, ValueError, TypeError, KeyError, HTTPError]"

definition cache_fresh ::
  "cache_env \<Rightarrow> pystr \<Rightarrow> json_text fs \<Rightarrow> http_request \<Rightarrow> datetime \<Rightarrow> py_error + http_response option" where
  "cache_fresh env root_dir fs req now =
     bind_err (require_aware now) (\<lambda>_.
       case bind_err (bind_err (case fs (cache_path env root_dir req (request_tier req)) of
                None \<Rightarrow> Inl OSError | Some txt \<Rightarrow> read_text txt) loads) (entry_response env now) of
         Inr hit \<Rightarrow> Inr hit
       | Inl e \<Rightarrow> if e \<in> set MISS_ERRORS then Inr None else Inl e)"

record write_io =
  wr_prepare_ok :: bool
  wr_tmp_name :: pystr
  wr_write_ok :: bool
  wr_replace_ok :: bool

text \<open>Disk faults are swallowed; the staging file is removed.\<close>

definition write_atomic :: "write_io \<Rightarrow> pystr \<Rightarrow> json \<Rightarrow> json_text fs \<Rightarrow> json_text fs" where
  "write_atomic io path document fs =
     (if \<not> wr_prepare_ok io then fs
      else let tmp = wr_tmp_name io; staged = fs(tmp \<mapsto> BadText)
        in if \<not> wr_write_ok io then staged(tmp := None)
           else let written = staged(tmp \<mapsto> JsonText document)
             in if \<not> wr_replace_ok io then written(tmp := None)
                else (written(path := written tmp))(tmp := None))"

definition cache_put ::
  "cache_env \<Rightarrow> write_io \<Rightarrow> pystr \<Rightarrow> json_text fs \<Rightarrow> http_request \<Rightarrow> http_response \<Rightarrow> pystr \<Rightarrow> int \<Rightarrow> datetime \<Rightarrow>
   py_error + json_text fs" where
  "cache_put env io root_dir fs req resp tier ttl_s now =
     bind_err (require_aware now) (\<lambda>_.
     bind_err (serialize env req resp tier ttl_s now) (\<lambda>document.
       Inr (write_atomic io (cache_path env root_dir req tier) document fs)))"

section \<open>The transport\<close>

datatype cache_mode = USE | REFRESH | OFF

fun cache_mode_value :: "cache_mode \<Rightarrow> pystr" where
  "cache_mode_value USE = u ''use''"
| "cache_mode_value REFRESH = u ''refresh''"
| "cache_mode_value OFF = u ''off''"

text \<open>
  The inner transport (with its response read to the end), the clock and the disk's answers
  are ports over the world \<open>'w\<close>.
\<close>

record 'w disk_transport =
  dt_inner :: "http_request \<Rightarrow> 'w \<Rightarrow> httpx_outcome \<times> 'w"
  dt_root :: pystr
  dt_mode :: cache_mode
  dt_now :: "'w \<Rightarrow> datetime"
  dt_io :: "'w \<Rightarrow> write_io"

definition replay :: "cache_env \<Rightarrow> http_response \<Rightarrow> httpx_outcome" where
  "replay env resp =
     (case ce_build env (rs_status resp) (header_items (storable_headers (rs_headers resp))) (rs_content resp)
        (rs_extensions resp) of
        Inr r \<Rightarrow> Responded r
      | Inl e \<Rightarrow> OtherException e)"

definition fetch_and_store ::
  "cache_env \<Rightarrow> 'w disk_transport \<Rightarrow> http_request \<Rightarrow> json_text fs \<times> 'w \<Rightarrow> httpx_outcome \<times> json_text fs \<times> 'w" where
  "fetch_and_store env t req st =
     (case st of (fs, w) \<Rightarrow>
      case dt_inner t req w of
        (Responded resp, w') \<Rightarrow>
          (case cache_put env (dt_io t w') (dt_root t) fs req resp (request_tier req) (request_ttl_s req) (dt_now t w') of
             Inl e \<Rightarrow> (OtherException e, fs, w')
           | Inr fs' \<Rightarrow> (replay env resp, fs', w'))
      | (outcome, w') \<Rightarrow> (outcome, fs, w'))"

definition handle_request ::
  "cache_env \<Rightarrow> 'w disk_transport \<Rightarrow> http_request \<Rightarrow> json_text fs \<times> 'w \<Rightarrow> httpx_outcome \<times> json_text fs \<times> 'w" where
  "handle_request env t req st =
     (case dt_mode t of
        OFF \<Rightarrow> (case dt_inner t req (snd st) of (outcome, w') \<Rightarrow> (outcome, fst st, w'))
      | USE \<Rightarrow>
          (case cache_fresh env (dt_root t) (fst st) req (dt_now t (snd st)) of
             Inl e \<Rightarrow> (OtherException e, st)
           | Inr (Some hit) \<Rightarrow> (Responded hit, st)
           | Inr None \<Rightarrow> fetch_and_store env t req st)
      | REFRESH \<Rightarrow> fetch_and_store env t req st)"

end
