(* ===== verification/Http_Properties.thy ===== *)
theory Http_Properties
  imports Http_Cache
begin

text \<open>
  Properties of the HTTP layer: the retry loop, what counts as success, the stamping of the
  cache policy, and the disk cache (bodies come back byte for byte, an entry is served until
  it expires and not after, the disk changes only through a response).
\<close>

section \<open>Bodies and headers survive the disk\<close>

lemma decode_encoded_body:
  assumes "encode_body b mt = (plain, encoded)"
    "map_of ms (u ''body'') = Some (json_opt plain)" "map_of ms (u ''body_base64'') = Some (json_opt encoded)"
  shows "decode_body (JObj ms) = Inr b"
proof (cases "if is_text_media_type mt then decode_utf8 b else None")
  case None
  with assms show ?thesis
    by (auto simp: encode_body_def json_opt_def decode_body_def get_item_def base64_codec.dec_enc)
next
  case (Some s)
  then have "decode_utf8 b = Some s" by (simp split: if_splits)
  then have "(\<forall>c \<in> set s. scalar c) \<and> utf8 s = b" by (rule utf8_codec.enc_dec)
  moreover have "plain = Some s" "encoded = None" using assms(1) Some by (simp_all add: encode_body_def)
  ultimately show ?thesis
    using assms(2,3) by (simp add: json_opt_def decode_body_def get_item_def encode_utf8_def)
qed

lemma fold_keep_items:
  "fold_err keep_item (header_items hs) acc = Inr (acc @ header_items (storable_headers hs))"
  by (induction hs arbitrary: acc) (auto simp: header_items_def storable_headers_def keep_item_def)

lemma storable_headers_idem [simp]: "storable_headers (storable_headers hs) = storable_headers hs"
  by (simp add: storable_headers_def)

lemma stored_headers_round_trip:
  "bind_err (dict_of_json (JObj (map (map_prod id JStr) (storable_headers hs)))) storable_items =
     Inr (header_items (storable_headers hs))"
proof -
  have "dict_of_json (JObj (map (map_prod id JStr) (storable_headers hs))) = Inr (header_items (storable_headers hs))"
    by (simp add: header_items_def case_prod_beta)
  then show ?thesis using fold_keep_items [of "storable_headers hs" "[]"] by (simp add: storable_items_def)
qed

section \<open>An entry read back\<close>

definition served :: "py_error + http_response \<Rightarrow> py_error + http_response option" where
  "served built = bind_err built (\<lambda>resp. Inr (Some resp))"

lemma entry_of_serialized:
  assumes "serialize env req resp tier ttl now = Inr doc" "dt_tz now \<noteq> None"
    "dt_add now (seconds ttl) = Inr expires" "valid_datetime (ce_tzdb env) expires"
  shows "entry_response env later doc =
    (if 0 \<le> dt_sub (ce_tzdb env) later (fix_offset (ce_tzdb env) expires) then Inr None
     else served (ce_build env (rs_status resp) (header_items (storable_headers (rs_headers resp))) (rs_content resp) Map.empty))"
proof -
  obtain plain encoded where e: "encode_body (rs_content resp)
      (media_type (case header_get (rs_headers resp) (u ''content-type'') of Some c \<Rightarrow> c | None \<Rightarrow> [])) = (plain, encoded)"
    by fastforce
  have "dt_tz expires = dt_tz now" using assms(3) by (auto simp: dt_add_def Let_def split: if_splits)
  then have expiry: "parse_expiry env (JStr (isoformat (ce_tzdb env) expires)) = Inr (fix_offset (ce_tzdb env) expires)"
    using assms(2,4) by (auto simp: parse_expiry_def fromisoformat_isoformat fix_offset_def)
  have body: "decode_body (JObj [(u ''status'', s), (u ''content_type'', c), (u ''headers'', h),
      (u ''body'', json_opt plain), (u ''body_base64'', json_opt encoded)]) = Inr (rs_content resp)" for s c h
    by (rule decode_encoded_body [OF e]) simp_all
  have "rebuild env (JObj [(u ''status'', JInt (rs_status resp)), (u ''content_type'', c),
      (u ''headers'', JObj (map (map_prod id JStr) (storable_headers (rs_headers resp)))),
      (u ''body'', json_opt plain), (u ''body_base64'', json_opt encoded)]) =
    ce_build env (rs_status resp) (header_items (storable_headers (rs_headers resp))) (rs_content resp) Map.empty" for c
    using stored_headers_round_trip [of "rs_headers resp"]
    by (simp add: rebuild_def body) (simp add: get_item_def)
  with assms(1,3) e expiry show ?thesis
    by (auto simp: serialize_def entry_response_def served_def get_item_def)
qed

section \<open>The store\<close>

definition io_works :: "write_io \<Rightarrow> pystr \<Rightarrow> bool" where
  "io_works io path \<longleftrightarrow> wr_prepare_ok io \<and> wr_write_ok io \<and> wr_replace_ok io \<and> wr_tmp_name io \<noteq> path"

lemma write_atomic_other: "p \<noteq> path \<Longrightarrow> p \<noteq> wr_tmp_name io \<Longrightarrow> write_atomic io path doc fs p = fs p"
  by (simp add: write_atomic_def Let_def)

lemma write_atomic_works: "io_works io path \<Longrightarrow> write_atomic io path doc fs path = Some (JsonText doc)"
  by (auto simp: write_atomic_def io_works_def)

lemma cache_put_Inr:
  "cache_put env io root_dir fs req resp tier ttl now = Inr fs' \<longleftrightarrow>
     dt_tz now \<noteq> None \<and> (\<exists>doc. serialize env req resp tier ttl now = Inr doc \<and>
       fs' = write_atomic io (cache_path env root_dir req tier) doc fs)"
  by (auto simp: cache_put_def require_aware_def bind_err_Inr)

lemma serialize_expires: "serialize env req resp tier ttl now = Inr doc \<Longrightarrow> \<exists>x. dt_add now (seconds ttl) = Inr x"
  by (auto simp: serialize_def bind_err_Inr Let_def split: prod.splits)

definition miss_or_raise :: "py_error + http_response option \<Rightarrow> py_error + http_response option" where
  "miss_or_raise r = (case r of Inl e \<Rightarrow> if e \<in> set MISS_ERRORS then Inr None else Inl e | Inr hit \<Rightarrow> Inr hit)"

lemma fresh_after_put:
  assumes "cache_put env io root_dir fs req resp (request_tier req) ttl now = Inr fs'"
    "io_works io (cache_path env root_dir req (request_tier req))"
    "dt_add now (seconds ttl) = Inr expires" "valid_datetime (ce_tzdb env) expires" "dt_tz later \<noteq> None"
  shows "cache_fresh env root_dir fs' req later =
    (if 0 \<le> dt_sub (ce_tzdb env) later (fix_offset (ce_tzdb env) expires) then Inr None
     else miss_or_raise (served (ce_build env (rs_status resp) (header_items (storable_headers (rs_headers resp)))
       (rs_content resp) Map.empty)))"
proof -
  obtain doc where d: "serialize env req resp (request_tier req) ttl now = Inr doc" "dt_tz now \<noteq> None"
      "fs' (cache_path env root_dir req (request_tier req)) = Some (JsonText doc)"
    using assms(1,2) by (auto simp: cache_put_Inr write_atomic_works)
  from entry_of_serialized [OF d(1,2) assms(3,4), of later] d(3) assms(5) show ?thesis
    by (auto simp: cache_fresh_def require_aware_def miss_or_raise_def split: sum.splits)
qed

text \<open>What \<open>httpx\<close> documents of building a response: status and body are those given, the headers depend on the given ones only.\<close>

definition faithful_build :: "cache_env \<Rightarrow> bool" where
  "faithful_build env \<longleftrightarrow> (\<exists>framed. \<forall>status hs body ext. \<exists>r. ce_build env status (header_items hs) body ext = Inr r \<and>
     rs_status r = status \<and> rs_content r = body \<and> rs_headers r = framed hs body)"

section \<open>Concrete data\<close>

definition ex_now :: datetime where
  "ex_now = \<lparr>dt_date = Date 2026 8 12, dt_time = hm 9 0, dt_tz = Some (FixedOffset 0)\<rparr>"
definition ex_later :: datetime where
  "ex_later = \<lparr>dt_date = Date 2026 8 12, dt_time = hm 9 1, dt_tz = Some (FixedOffset 0)\<rparr>"
definition ex_expires :: datetime where
  "ex_expires = \<lparr>dt_date = Date 2026 8 12, dt_time = hm 9 2, dt_tz = Some (FixedOffset 0)\<rparr>"
definition ex_env :: cache_env where
  "ex_env = \<lparr>ce_tzdb = \<lparr>zurich_offset = \<lambda>d t. 0, zurich_from_utc = \<lambda>n. (Date 2026 1 1, hm 0 0)\<rparr>, ce_other_iso = \<lambda>s. None,
     ce_digest = \<lambda>bs. map unat bs,
     ce_build = \<lambda>status items body ext. Inr \<lparr>rs_status = status,
       rs_headers = map (\<lambda>(k, v). (case k of JStr s \<Rightarrow> s | _ \<Rightarrow> [], case v of JStr s \<Rightarrow> s | _ \<Rightarrow> [])) items,
       rs_content = body, rs_extensions = ext\<rparr>\<rparr>"
definition ex_req :: http_request where
  "ex_req = \<lparr>rq_method = u ''GET'', rq_url = u ''https://zh.ch/badi'', rq_host = u ''zh.ch'', rq_headers = [],
     rq_extensions = [TIER_EXTENSION \<mapsto> ExtStr TIER_LIVE, TTL_EXTENSION \<mapsto> ExtInt 120]\<rparr>"
definition ex_resp :: http_response where
  "ex_resp = \<lparr>rs_status = 200, rs_headers = [(u ''content-type'', u ''text/html''), (u ''content-encoding'', u ''gzip'')],
     rs_content = utf8 (u ''24 Grad''), rs_extensions = Map.empty\<rparr>"
definition ex_io :: write_io where
  "ex_io = \<lparr>wr_prepare_ok = True, wr_tmp_name = u ''tmp'', wr_write_ok = True, wr_replace_ok = True\<rparr>"

lemma ex_add: "dt_add ex_now (seconds 120) = Inr ex_expires"
  by (simp add: dt_add_def ex_now_def ex_expires_def seconds_def DAY_US_def time_us_def add_days_def time_of_us_def Let_def)

lemma ex_valid: "valid_datetime db ex_expires"
  by (simp add: valid_datetime_def ex_expires_def valid_date_def valid_time_def days_in_month_def)

lemma ex_sub: "dt_sub db ex_later (fix_offset db ex_expires) < 0"
  by (simp add: dt_sub_def fix_offset_def ex_later_def ex_expires_def wall_us_def time_us_def)

lemma ex_build: "faithful_build ex_env"
  unfolding faithful_build_def by (rule exI [of _ "\<lambda>hs body. hs"]) (simp add: ex_env_def header_items_def case_prod_beta comp_def)

lemma ex_tier_ttl: "request_tier ex_req = TIER_LIVE" "request_ttl_s ex_req = 120"
  using extension_keys by (simp_all add: request_tier_def request_ttl_s_def ex_req_def tier_constants)

lemma not_cache_path: "last s \<noteq> 110 \<Longrightarrow> s \<noteq> cache_path env root_dir req tier"
  by (auto simp: cache_path_def u_def)

lemma ex_path: "io_works ex_io (cache_path ex_env root_dir ex_req tier)"
proof -
  have "u ''tmp'' \<noteq> cache_path ex_env root_dir ex_req tier" by (rule not_cache_path) (simp add: u_def)
  then show ?thesis by (simp add: io_works_def ex_io_def)
qed

lemma ex_put: "\<exists>fs'. cache_put ex_env ex_io root_dir fs ex_req ex_resp (request_tier ex_req) 120 ex_now = Inr fs'"
proof -
  have "\<exists>doc. serialize ex_env ex_req ex_resp (request_tier ex_req) 120 ex_now = Inr doc"
    by (simp add: serialize_def ex_add Let_def split: prod.split)
  moreover have "dt_tz ex_now \<noteq> None" by (simp add: ex_now_def)
  ultimately show ?thesis by (auto simp: cache_put_Inr)
qed

section \<open>Results\<close>

text \<open>
  C28: a GET makes its attempts one after another, sleeping the doubled back-off between two of
  them, and stops at the first attempt that is final, a success or an error that a retry
  cannot cure, or when the allowed number of attempts is used up; its answer is that last
  attempt's own, never a leftover, and the loop's fallback branch is never reached.
\<close>

theorem retry_stops_at_first_final:
  assumes "mk_retry_policy n base = Inr (hc_retry hc)"
  shows "\<exists>k. int k < n \<and> http_get hc url kw w = nth_attempt hc url (stamp_cache_policy hc kw) w k \<and>
    (\<forall>i < k. retriable_failure (fst (nth_attempt hc url (stamp_cache_policy hc kw) w i))) \<and>
    (int k + 1 = n \<or> \<not> retriable_failure (fst (nth_attempt hc url (stamp_cache_policy hc kw) w k)))"
proof -
  have "1 \<le> n" "hc_retry hc = \<lparr>max_attempts = n, backoff_base_s = base\<rparr>"
    using assms by (auto simp: mk_retry_policy_def split: if_splits)
  with http_get_attempts [of hc url kw w] show ?thesis by simp
qed

definition ex_client :: "(nat, unit) http_client" where
  "ex_client = \<lparr>hc_send = \<lambda>url kw n. (if n < 1 then TimeoutException else Responded ex_resp, n + 1), hc_source = u ''baditicker'',
     hc_timeout_s = 10, hc_max_bytes = DEFAULT_MAX_BYTES, hc_retry = DEFAULT_RETRY, hc_sleep = \<lambda>s n. n, hc_read_float = \<lambda>s. None\<rparr>"

theorem retry_stops_at_first_final_witness:
  "\<exists>k. int k < 3 \<and> http_get ex_client (u ''x'') \<lparr>kw_extensions = NoExtensions, kw_others = ()\<rparr> 0 =
     nth_attempt ex_client (u ''x'') (stamp_cache_policy ex_client \<lparr>kw_extensions = NoExtensions, kw_others = ()\<rparr>) 0 k"
proof -
  have "mk_retry_policy 3 (1 / 5) = Inr (hc_retry ex_client)"
    by (simp add: mk_retry_policy_def ex_client_def DEFAULT_RETRY_def)
  from retry_stops_at_first_final [OF this] show ?thesis by blast
qed

text \<open>
  a GET that succeeds returns a response the server really sent in one of the attempts,
  with a status from 200 to 299 and a body within the size limit.
\<close>

theorem success_is_a_2xx_within_limit:
  assumes "1 \<le> max_attempts (hc_retry hc)" "http_get hc url kw w = (Inr (Ok resp), w')"
  shows "200 \<le> rs_status resp \<and> rs_status resp < 300 \<and> int (length (rs_content resp)) \<le> hc_max_bytes hc \<and>
    (\<exists>k. int k < max_attempts (hc_retry hc) \<and>
      hc_send hc url (stamp_cache_policy hc kw) (world_before hc url (stamp_cache_policy hc kw) w k) = (Responded resp, w'))"
proof -
  obtain k where k: "int k < max_attempts (hc_retry hc)" "nth_attempt hc url (stamp_cache_policy hc kw) w k = (Inr (Ok resp), w')"
    using http_get_attempts [OF assms(1), of url kw w] assms(2) by metis
  then have "fst (get_once hc url (stamp_cache_policy hc kw) (world_before hc url (stamp_cache_policy hc kw) w k)) = Inr (Ok resp)"
    by (simp add: nth_attempt_def)
  then obtain v where v: "hc_send hc url (stamp_cache_policy hc kw) (world_before hc url (stamp_cache_policy hc kw) w k) = (Responded resp, v)"
      "classify hc url resp = Ok resp"
    unfolding get_once_Ok by blast
  moreover from v(1) k(2) have "v = w'" by (simp add: nth_attempt_def get_once_def)
  ultimately show ?thesis using k(1) by (auto simp: classify_Ok)
qed

theorem success_is_a_2xx_within_limit_witness:
  "http_get ex_client (u ''x'') \<lparr>kw_extensions = NoExtensions, kw_others = ()\<rparr> 0 = (Inr (Ok ex_resp), 2) \<and> rs_status ex_resp < 300"
proof -
  have "classify ex_client (u ''x'') ex_resp = Ok ex_resp"
    by (simp add: classify_Ok ex_client_def DEFAULT_MAX_BYTES_def ex_resp_def u_def utf8_def utf8_cp_def)
  then have g: "http_get ex_client (u ''x'') \<lparr>kw_extensions = NoExtensions, kw_others = ()\<rparr> 0 = (Inr (Ok ex_resp), 2)"
    by (simp add: http_get_def get_loop.simps get_once_def ex_client_def DEFAULT_RETRY_def)
  have "1 \<le> max_attempts (hc_retry ex_client)" by (simp add: ex_client_def DEFAULT_RETRY_def)
  from success_is_a_2xx_within_limit [OF this g] g show ?thesis by blast
qed

text \<open>
  the policy table decides where and for how long a response is cached, unless the call
  site says otherwise: the transport reads from a stamped request exactly the tier and the
  TTL of the client's source, and a tier or TTL the caller passed wins, an unusable one
  falling back to the defaults.
\<close>

theorem stamp_decides_tier_and_ttl:
  assumes "kw_extensions (stamp_cache_policy hc kw) = Extensions (rq_extensions req)"
  shows "request_tier req =
      (case (case kw_extensions kw of Extensions c \<Rightarrow> c TIER_EXTENSION | _ \<Rightarrow> None) of
         None \<Rightarrow> cp_tier (policy_for (hc_source hc))
       | Some (ExtStr tier) \<Rightarrow> if tier = [] then DEFAULT_TIER else tier
       | Some _ \<Rightarrow> DEFAULT_TIER) \<and>
    request_ttl_s req =
      (case (case kw_extensions kw of Extensions c \<Rightarrow> c TTL_EXTENSION | _ \<Rightarrow> None) of
         None \<Rightarrow> cp_ttl_s (policy_for (hc_source hc))
       | Some (ExtInt ttl) \<Rightarrow> if ttl \<le> 0 then DEFAULT_TTL_S else ttl
       | Some _ \<Rightarrow> DEFAULT_TTL_S)"
proof -
  have "rq_extensions req = cache_extensions (hc_source hc) ++ (case kw_extensions kw of Extensions c \<Rightarrow> c | _ \<Rightarrow> Map.empty)"
    using assms by (cases "kw_extensions kw") (simp_all add: stamp_cache_policy_def)
  then show ?thesis
    using policy_facts [of "hc_source hc"] cache_extensions_at [of "hc_source hc"]
    by (auto simp: request_tier_def request_ttl_s_def map_add_def split: extensions_arg.splits option.splits ext_value.splits)
qed

theorem stamp_decides_tier_and_ttl_witness:
  "request_tier (ex_req\<lparr>rq_extensions := cache_extensions (u ''baditicker'')\<rparr>) = cp_tier (policy_for (u ''baditicker'')) \<and>
   request_ttl_s (ex_req\<lparr>rq_extensions := cache_extensions (u ''baditicker'')\<rparr>) = cp_ttl_s (policy_for (u ''baditicker''))"
proof -
  have "kw_extensions (stamp_cache_policy ex_client \<lparr>kw_extensions = NoExtensions, kw_others = ()\<rparr>) =
      Extensions (rq_extensions (ex_req\<lparr>rq_extensions := cache_extensions (u ''baditicker'')\<rparr>))"
    by (simp add: stamp_cache_policy_def ex_client_def)
  from stamp_decides_tier_and_ttl [OF this] show ?thesis by (simp add: ex_client_def)
qed

text \<open>
  C29: the disk keeps bodies byte for byte: whatever bytes a response has and whatever media type
  it declares, also one that lies about them, decoding the stored entry gives the same bytes.
\<close>

theorem cached_body_round_trip:
  "decode_body (JObj [(u ''status'', st), (u ''body'', json_opt (fst (encode_body b mt))),
     (u ''body_base64'', json_opt (snd (encode_body b mt)))]) = Inr b"
  by (rule decode_encoded_body [of b mt "fst (encode_body b mt)" "snd (encode_body b mt)"]) simp_all

text \<open>
  a cached response is served until its entry expires and never after: after a write at
  \<open>now\<close> with a TTL, a request of the same key gets the stored status and body before the
  expiry, which lies exactly the TTL after the wall clock of the write, and a miss from then on.
\<close>

theorem entry_served_until_expiry:
  assumes "cache_put env io root_dir fs req resp (request_tier req) ttl now = Inr fs'"
    "io_works io (cache_path env root_dir req (request_tier req))" "faithful_build env"
    "civil_date (dt_date now)" "0 \<le> ttl" "dt_add now (seconds ttl) = Inr expires"
    "valid_datetime (ce_tzdb env) expires" "dt_tz later \<noteq> None"
  shows "wall_us expires = wall_us now + 1000000 * ttl \<and>
    (0 \<le> dt_sub (ce_tzdb env) later (fix_offset (ce_tzdb env) expires) \<longrightarrow> cache_fresh env root_dir fs' req later = Inr None) \<and>
    (dt_sub (ce_tzdb env) later (fix_offset (ce_tzdb env) expires) < 0 \<longrightarrow>
      (\<exists>hit. cache_fresh env root_dir fs' req later = Inr (Some hit) \<and>
        rs_status hit = rs_status resp \<and> rs_content hit = rs_content resp))"
proof -
  have "0 \<le> seconds ttl" using assms(5) by (simp add: seconds_def)
  then have wall: "wall_us expires = wall_us now + 1000000 * ttl"
    using dt_add_exact(1) [OF assms(6,4)] by (simp add: seconds_def)
  obtain hit where hit: "ce_build env (rs_status resp) (header_items (storable_headers (rs_headers resp))) (rs_content resp) Map.empty = Inr hit"
      "rs_status hit = rs_status resp" "rs_content hit = rs_content resp"
    using assms(3) unfolding faithful_build_def by blast
  show ?thesis
    using fresh_after_put [OF assms(1,2,6,7,8)] wall hit
    by (simp add: served_def miss_or_raise_def)
qed

theorem entry_served_until_expiry_witness:
  "\<exists>fs' hit. cache_put ex_env ex_io (u ''c'') Map.empty ex_req ex_resp (request_tier ex_req) 120 ex_now = Inr fs' \<and>
     cache_fresh ex_env (u ''c'') fs' ex_req ex_later = Inr (Some hit) \<and> rs_content hit = rs_content ex_resp"
proof -
  obtain fs' where p: "cache_put ex_env ex_io (u ''c'') Map.empty ex_req ex_resp (request_tier ex_req) 120 ex_now = Inr fs'"
    using ex_put by blast
  have "civil_date (dt_date ex_now)" "dt_tz ex_later \<noteq> None"
    by (simp_all add: ex_now_def ex_later_def civil_date_def days_in_month_def)
  from entry_served_until_expiry [OF p ex_path ex_build this(1) _ ex_add ex_valid this(2)] ex_sub p show ?thesis by auto
qed

text \<open>
  C31: warm equals cold: after a miss has fetched a response, every request of the same key
  before the expiry is answered from the disk with the same status, headers and body; it
  makes no network call and changes nothing.
\<close>

theorem warm_request_makes_no_call:
  assumes "dt_mode t = USE" "cache_fresh env (dt_root t) fs req (dt_now t w) = Inr None"
    "dt_inner t req w = (Responded resp, w')" "handle_request env t req (fs, w) = (Responded cold, fs', w')"
    "io_works (dt_io t w') (cache_path env (dt_root t) req (request_tier req))" "faithful_build env"
    "dt_add (dt_now t w') (seconds (request_ttl_s req)) = Inr expires" "valid_datetime (ce_tzdb env) expires"
    "dt_tz (dt_now t v) \<noteq> None" "dt_sub (ce_tzdb env) (dt_now t v) (fix_offset (ce_tzdb env) expires) < 0"
  shows "\<exists>warm. handle_request env t req (fs', v) = (Responded warm, fs', v) \<and>
    rs_status warm = rs_status cold \<and> rs_headers warm = rs_headers cold \<and> rs_content warm = rs_content cold \<and>
    rs_content warm = rs_content resp"
proof -
  let ?items = "header_items (storable_headers (rs_headers resp))"
  have put: "cache_put env (dt_io t w') (dt_root t) fs req resp (request_tier req) (request_ttl_s req) (dt_now t w') = Inr fs'"
    and cold: "replay env resp = Responded cold"
    using assms(1-4) by (auto simp: handle_request_def fetch_and_store_def split: sum.splits)
  obtain framed where b: "\<And>status hs body ext. \<exists>r. ce_build env status (header_items hs) body ext = Inr r \<and>
      rs_status r = status \<and> rs_content r = body \<and> rs_headers r = framed hs body"
    using assms(6) unfolding faithful_build_def by blast
  obtain warm where w: "ce_build env (rs_status resp) ?items (rs_content resp) Map.empty = Inr warm" "rs_status warm = rs_status resp"
      "rs_content warm = rs_content resp" "rs_headers warm = framed (storable_headers (rs_headers resp)) (rs_content resp)"
    using b [of "rs_status resp" "storable_headers (rs_headers resp)" "rs_content resp" Map.empty] by blast
  have "rs_status cold = rs_status resp \<and> rs_content cold = rs_content resp \<and>
      rs_headers cold = framed (storable_headers (rs_headers resp)) (rs_content resp)"
    using b [of "rs_status resp" "storable_headers (rs_headers resp)" "rs_content resp" "rs_extensions resp"] cold
    by (auto simp: replay_def)
  moreover have "cache_fresh env (dt_root t) fs' req (dt_now t v) = Inr (Some warm)"
    using fresh_after_put [OF put assms(5,7,8,9)] assms(10) w(1) by (simp add: served_def miss_or_raise_def)
  then have "handle_request env t req (fs', v) = (Responded warm, fs', v)"
    using assms(1) by (simp add: handle_request_def)
  ultimately show ?thesis using w by auto
qed

definition ex_transport :: "nat disk_transport" where
  "ex_transport = \<lparr>dt_inner = \<lambda>req n. (Responded ex_resp, n + 1), dt_root = u ''c'', dt_mode = USE,
     dt_now = \<lambda>n. (if n \<le> 1 then ex_now else ex_later), dt_io = \<lambda>n. ex_io\<rparr>"

lemma ex_cold:
  "\<exists>fs' cold. handle_request ex_env ex_transport ex_req (Map.empty, 0) = (Responded cold, fs', 1)"
  "cache_fresh ex_env (dt_root ex_transport) Map.empty ex_req (dt_now ex_transport 0) = Inr None"
proof -
  show miss: "cache_fresh ex_env (dt_root ex_transport) Map.empty ex_req (dt_now ex_transport 0) = Inr None"
    by (simp add: cache_fresh_def require_aware_def ex_transport_def ex_now_def MISS_ERRORS_def)
  obtain fs' where "cache_put ex_env ex_io (u ''c'') Map.empty ex_req ex_resp (request_tier ex_req) 120 ex_now = Inr fs'"
    using ex_put by blast
  moreover obtain cold where "replay ex_env ex_resp = Responded cold" by (simp add: replay_def ex_env_def)
  ultimately show "\<exists>fs' cold. handle_request ex_env ex_transport ex_req (Map.empty, 0) = (Responded cold, fs', 1)"
    using miss by (simp add: handle_request_def fetch_and_store_def ex_transport_def ex_tier_ttl)
qed

theorem warm_request_makes_no_call_witness:
  "\<exists>fs' cold warm. handle_request ex_env ex_transport ex_req (Map.empty, 0) = (Responded cold, fs', 1) \<and>
     handle_request ex_env ex_transport ex_req (fs', 2) = (Responded warm, fs', 2) \<and> rs_content warm = rs_content cold"
proof -
  obtain fs' cold where c: "handle_request ex_env ex_transport ex_req (Map.empty, 0) = (Responded cold, fs', 1)"
    using ex_cold(1) by blast
  have "\<exists>warm. handle_request ex_env ex_transport ex_req (fs', 2) = (Responded warm, fs', 2) \<and>
      rs_status warm = rs_status cold \<and> rs_headers warm = rs_headers cold \<and> rs_content warm = rs_content cold \<and>
      rs_content warm = rs_content ex_resp"
    by (rule warm_request_makes_no_call [OF _ ex_cold(2) _ c _ ex_build])
      (use ex_path ex_add ex_valid ex_sub in \<open>auto simp: ex_transport_def ex_tier_ttl ex_later_def\<close>)
  with c show ?thesis by blast
qed

text \<open>
  the disk changes only through a response: a request changes stored files only when the
  cache is on and the inner transport really answered, it then touches nothing but its own
  entry and the staging file, and a transport failure passes through unchanged.
\<close>

theorem disk_changes_only_through_a_response:
  assumes "handle_request env t req (fs, w) = (outcome, fs', w')" "fs' \<noteq> fs"
  shows "dt_mode t \<noteq> OFF \<and> (\<exists>resp. dt_inner t req w = (Responded resp, w')) \<and>
    (\<forall>p. p \<noteq> cache_path env (dt_root t) req (request_tier req) \<and> p \<noteq> wr_tmp_name (dt_io t w') \<longrightarrow> fs' p = fs p)"
proof -
  have stored: "fetch_and_store env t req (fs, w) = (outcome, fs', w')" and on: "dt_mode t \<noteq> OFF"
    using assms by (auto simp: handle_request_def split: cache_mode.splits sum.splits option.splits prod.splits)
  obtain resp where r: "dt_inner t req w = (Responded resp, w')"
      "cache_put env (dt_io t w') (dt_root t) fs req resp (request_tier req) (request_ttl_s req) (dt_now t w') = Inr fs'"
    using stored assms(2) by (auto simp: fetch_and_store_def split: prod.splits httpx_outcome.splits sum.splits)
  with on show ?thesis by (auto simp: cache_put_Inr write_atomic_other)
qed

theorem disk_changes_only_through_a_response_witness:
  "\<exists>fs' cold. handle_request ex_env ex_transport ex_req (Map.empty, 0) = (Responded cold, fs', 1) \<and>
     fs' (u ''elsewhere'') = None"
proof -
  obtain fs' cold where c: "handle_request ex_env ex_transport ex_req (Map.empty, 0) = (Responded cold, fs', 1)"
    using ex_cold(1) by blast
  have "fs' (u ''elsewhere'') = None"
  proof (cases "fs' = Map.empty")
    case False
    have "u ''elsewhere'' \<noteq> cache_path ex_env (dt_root ex_transport) ex_req (request_tier ex_req)"
      by (rule not_cache_path) (simp add: u_def)
    with disk_changes_only_through_a_response [OF c False] show ?thesis by (simp add: ex_transport_def ex_io_def)
  qed simp
  with c show ?thesis by blast
qed



end
