(* ===== verification/Regex_Facts.thy ===== *)
theory Regex_Facts
  imports Regex PyDict
begin

text \<open>
  What a match tells of the text: the language of a pattern, the groups a successful match must
  have set and what they can hold. The scrapers rely on it wherever they turn a captured group
  into a number without a check. Also the loops \<open>re.findall\<close>, \<open>re.split\<close> and \<open>re.sub\<close>.
\<close>

section \<open>Loops\<close>

text \<open>
  The next search starts where the last match ended; after an empty match one character on. The
  patterns the program loops over never match the empty string, so one step of fuel for each
  character is enough.
\<close>

fun rx_findall_from :: "rx \<Rightarrow> nat \<Rightarrow> pystr \<Rightarrow> pystr \<Rightarrow> (nat \<rightharpoonup> pystr) list" where
  "rx_findall_from r 0 pre rest = []"
| "rx_findall_from r (Suc k) pre rest =
     (case rx_search_from r pre rest of
        None \<Rightarrow> []
      | Some (pre', rest', m) \<Rightarrow>
          m # (if group m 0 \<noteq> [] then rx_findall_from r k pre' rest'
               else case rest' of [] \<Rightarrow> [] | c # cs \<Rightarrow> rx_findall_from r k (c # pre') cs))"

definition rx_findall :: "rx \<Rightarrow> pystr \<Rightarrow> (nat \<rightharpoonup> pystr) list" where
  "rx_findall r s = rx_findall_from r (length s + 1) [] s"

text \<open>The pieces between the matches of a pattern that never matches the empty string.\<close>

fun rx_pieces :: "rx \<Rightarrow> nat \<Rightarrow> pystr \<Rightarrow> pystr \<Rightarrow> pystr list" where
  "rx_pieces r 0 pre rest = [rest]"
| "rx_pieces r (Suc k) pre rest =
     (case rx_search_from r pre rest of
        None \<Rightarrow> [rest]
      | Some (pre', rest', m) \<Rightarrow>
          if group m 0 = [] then [rest]
          else take (length rest - length rest' - length (group m 0)) rest # rx_pieces r k pre' rest')"

definition rx_split :: "rx \<Rightarrow> pystr \<Rightarrow> pystr list" where
  "rx_split r s = rx_pieces r (length s + 1) [] s"

text \<open>\<open>re.sub(pattern, text, s)\<close> with a plain replacement text.\<close>

definition rx_sub :: "rx \<Rightarrow> pystr \<Rightarrow> pystr \<Rightarrow> pystr" where
  "rx_sub r by_text s = py_join by_text (rx_split r s)"

section \<open>The language of a pattern\<close>

primrec accepts :: "rx \<Rightarrow> pystr \<Rightarrow> bool" where
  "accepts REmpty w \<longleftrightarrow> w = []"
| "accepts (RChar p) w \<longleftrightarrow> (\<exists>c. p c \<and> w = [c])"
| "accepts (RSeq a b) w \<longleftrightarrow> (\<exists>x y. w = x @ y \<and> accepts a x \<and> accepts b y)"
| "accepts (RAlt a b) w \<longleftrightarrow> accepts a w \<or> accepts b w"
| "accepts (RRep greedy least most r) w \<longleftrightarrow>
     (\<exists>ws. w = concat ws \<and> least \<le> length ws \<and> (\<forall>n. most = Some n \<longrightarrow> length ws \<le> n) \<and> (\<forall>v \<in> set ws. accepts r v))"
| "accepts (RGroup n r) w \<longleftrightarrow> accepts r w"
| "accepts (RNot r) w \<longleftrightarrow> w = []"
| "accepts RBegin w \<longleftrightarrow> w = []"
| "accepts REnd w \<longleftrightarrow> w = []"
| "accepts RWordB w \<longleftrightarrow> w = []"

definition consumed :: "rx_state \<Rightarrow> rx_state \<Rightarrow> pystr \<Rightarrow> bool" where
  "consumed s s' w \<longleftrightarrow> fst (snd s) = w @ fst (snd s') \<and> fst s' = rev w @ fst s"

lemma consumed_refl [simp]: "consumed s s []"
  by (simp add: consumed_def)

lemma consumed_trans: "consumed s t v \<Longrightarrow> consumed t s' w \<Longrightarrow> consumed s s' (v @ w)"
  by (simp add: consumed_def)

lemma rx_rep_accepts:
  assumes m: "\<And>s s'. s' \<in> set (m s) \<Longrightarrow> \<exists>w. consumed s s' w \<and> A w"
  shows "s' \<in> set (rx_rep m g least most k s) \<Longrightarrow>
    \<exists>ws. consumed s s' (concat ws) \<and> least \<le> length ws \<and> (\<forall>n. most = Some n \<longrightarrow> length ws \<le> n) \<and> (\<forall>v \<in> set ws. A v)"
proof (induction k arbitrary: least most s)
  case 0
  then show ?case by (intro exI [of _ "[]"]) (simp split: if_splits)
next
  case (Suc k)
  then consider "s' = s" "least = 0"
    | t where "most \<noteq> Some 0" "t \<in> set (m s)" "s' \<in> set (rx_rep m g (least - 1) (map_option (\<lambda>n. n - 1) most) k t)"
    by (auto simp: Let_def split: if_splits)
  then show ?case
  proof cases
    case 1
    then show ?thesis by (intro exI [of _ "[]"]) simp
  next
    case 2
    obtain v where v: "consumed s t v" "A v" using m [OF 2(2)] by blast
    obtain ws where ws: "consumed t s' (concat ws)" "least - 1 \<le> length ws"
      "\<forall>n. map_option (\<lambda>n. n - 1) most = Some n \<longrightarrow> length ws \<le> n" "\<forall>v \<in> set ws. A v"
      using Suc.IH [OF 2(3)] by blast
    have "\<forall>n. most = Some n \<longrightarrow> length (v # ws) \<le> n" using ws(3) 2(1) by (cases most) auto
    with v ws consumed_trans [OF v(1) ws(1)] show ?thesis by (intro exI [of _ "v # ws"]) auto
  qed
qed

lemma rx_match_accepts: "s' \<in> set (rx_match r s) \<Longrightarrow> \<exists>w. consumed s s' w \<and> accepts r w"
proof (induction r arbitrary: s s')
  case (RChar p)
  then show ?case by (cases s) (auto simp: consumed_def split: list.splits if_splits)
next
  case (RSeq a b)
  from RSeq.prems obtain t where "t \<in> set (rx_match a s)" "s' \<in> set (rx_match b t)" by auto
  with RSeq.IH show ?case by (metis accepts.simps(3) consumed_trans)
next
  case (RRep g least most r)
  have "s' \<in> set (rx_rep (rx_match r) g least most (length (fst (snd s)) + least + 1) s)"
    using RRep.prems by (simp del: rx_rep.simps)
  from rx_rep_accepts [of "rx_match r" "accepts r", OF RRep.IH this] show ?case
    by (simp del: rx_rep.simps) blast
next
  case (RAlt a b)
  then consider "s' \<in> set (rx_match a s)" | "s' \<in> set (rx_match b s)" by auto
  then show ?case
    by cases (simp, use RAlt.IH in blast)+
next
  case (RGroup n r)
  then obtain c where "(fst s', fst (snd s'), c) \<in> set (rx_match r s)" by auto
  from RGroup.IH [OF this] show ?case by (auto simp: consumed_def)
qed (auto split: if_splits)

section \<open>Captured groups\<close>

primrec caps_ok :: "(nat \<Rightarrow> pystr \<Rightarrow> bool) \<Rightarrow> rx \<Rightarrow> bool" where
  "caps_ok Q REmpty \<longleftrightarrow> True"
| "caps_ok Q (RChar p) \<longleftrightarrow> True"
| "caps_ok Q (RSeq a b) \<longleftrightarrow> caps_ok Q a \<and> caps_ok Q b"
| "caps_ok Q (RAlt a b) \<longleftrightarrow> caps_ok Q a \<and> caps_ok Q b"
| "caps_ok Q (RRep greedy least most r) \<longleftrightarrow> caps_ok Q r"
| "caps_ok Q (RGroup n r) \<longleftrightarrow> (\<forall>w. accepts r w \<longrightarrow> Q n w) \<and> caps_ok Q r"
| "caps_ok Q (RNot r) \<longleftrightarrow> True"
| "caps_ok Q RBegin \<longleftrightarrow> True"
| "caps_ok Q REnd \<longleftrightarrow> True"
| "caps_ok Q RWordB \<longleftrightarrow> True"

definition caps :: "(nat \<Rightarrow> pystr \<Rightarrow> bool) \<Rightarrow> rx_state \<Rightarrow> bool" where
  "caps Q s \<longleftrightarrow> (\<forall>n w. snd (snd s) n = Some w \<longrightarrow> Q n w)"

lemma rx_rep_preserves:
  assumes m: "\<And>s s'. P s \<Longrightarrow> s' \<in> set (m s) \<Longrightarrow> P s'"
  shows "P s \<Longrightarrow> s' \<in> set (rx_rep m g least most k s) \<Longrightarrow> P s'"
proof (induction k arbitrary: least most s)
  case (Suc k)
  then consider "s' = s" | t least' most' where "t \<in> set (m s)" "s' \<in> set (rx_rep m g least' most' k t)"
    by (auto simp: Let_def split: if_splits)
  then show ?case
    by cases (use Suc m in blast)+
qed (auto split: if_splits)

lemma rx_match_caps: "caps_ok Q r \<Longrightarrow> caps Q s \<Longrightarrow> s' \<in> set (rx_match r s) \<Longrightarrow> caps Q s'"
proof (induction r arbitrary: s s')
  case (RChar p)
  then show ?case by (cases s) (auto simp: caps_def split: list.splits if_splits)
next
  case (RSeq a b)
  from RSeq.prems obtain t where t: "t \<in> set (rx_match a s)" "s' \<in> set (rx_match b t)" by auto
  have "caps Q t" by (rule RSeq.IH(1) [OF _ _ t(1)]) (use RSeq.prems in simp_all)
  then show ?case by (rule RSeq.IH(2) [OF _ _ t(2), rotated]) (use RSeq.prems in simp)
next
  case (RRep g least most r)
  have "caps Q s'" if "caps Q s" "s' \<in> set (rx_match r s)" for s s' using RRep.IH RRep.prems(1) that by simp
  from rx_rep_preserves [of "caps Q" "rx_match r" s s' g least most "length (fst (snd s)) + least + 1", OF this] RRep.prems(2,3)
  show ?case by (simp del: rx_rep.simps)
next
  case (RGroup n r)
  then obtain t where t: "t \<in> set (rx_match r s)"
      "s' = (fst t, fst (snd t), (snd (snd t))(n \<mapsto> take (length (fst (snd s)) - length (fst (snd t))) (fst (snd s))))"
    by (auto split: prod.splits)
  obtain w where "consumed s t w" "accepts r w" using rx_match_accepts [OF t(1)] by blast
  then have "take (length (fst (snd s)) - length (fst (snd t))) (fst (snd s)) = w" by (simp add: consumed_def)
  with t RGroup \<open>accepts r w\<close> have "caps Q t" "Q n w" by auto
  with t(2) \<open>_ = w\<close> show ?case by (auto simp: caps_def)
next
  case (RAlt a b)
  from RAlt.prems(3) consider "s' \<in> set (rx_match a s)" | "s' \<in> set (rx_match b s)" by auto
  then show ?case
  proof cases
    case 1
    from RAlt.IH(1) [OF _ RAlt.prems(2) 1] RAlt.prems(1) show ?thesis by simp
  next
    case 2
    from RAlt.IH(2) [OF _ RAlt.prems(2) 2] RAlt.prems(1) show ?thesis by simp
  qed
qed (simp_all split: if_splits)

primrec sure :: "rx \<Rightarrow> nat \<Rightarrow> bool" where
  "sure REmpty n \<longleftrightarrow> False"
| "sure (RChar p) n \<longleftrightarrow> False"
| "sure (RSeq a b) n \<longleftrightarrow> sure a n \<or> sure b n"
| "sure (RAlt a b) n \<longleftrightarrow> sure a n \<and> sure b n"
| "sure (RRep greedy least most r) n \<longleftrightarrow> 0 < least \<and> sure r n"
| "sure (RGroup k r) n \<longleftrightarrow> k = n \<or> sure r n"
| "sure (RNot r) n \<longleftrightarrow> False"
| "sure RBegin n \<longleftrightarrow> False"
| "sure REnd n \<longleftrightarrow> False"
| "sure RWordB n \<longleftrightarrow> False"

lemma rx_match_keeps: "snd (snd s) n \<noteq> None \<Longrightarrow> s' \<in> set (rx_match r s) \<Longrightarrow> snd (snd s') n \<noteq> None"
proof (induction r arbitrary: s s')
  case (RChar p)
  then show ?case by (cases s) (auto split: list.splits if_splits)
next
  case (RSeq a b)
  from RSeq.prems obtain t where t: "t \<in> set (rx_match a s)" "s' \<in> set (rx_match b t)" by auto
  have "snd (snd t) n \<noteq> None" by (rule RSeq.IH(1) [OF _ t(1)]) (use RSeq.prems in simp)
  then show ?case by (rule RSeq.IH(2) [OF _ t(2)])
next
  case (RRep g least most r)
  have "snd (snd s') n \<noteq> None" if "snd (snd s) n \<noteq> None" "s' \<in> set (rx_match r s)" for s s' using RRep.IH that by simp
  from rx_rep_preserves [of "\<lambda>s. snd (snd s) n \<noteq> None" "rx_match r" s s' g least most "length (fst (snd s)) + least + 1", OF this] RRep.prems
  show ?case by (simp del: rx_rep.simps)
next
  case (RGroup k r)
  then obtain t where t: "t \<in> set (rx_match r s)" "snd (snd s') = (snd (snd t))(k \<mapsto> take (length (fst (snd s)) - length (fst (snd t))) (fst (snd s)))"
    by (auto split: prod.splits)
  with RGroup show ?case by auto
next
  case (RAlt a b)
  from RAlt.prems(2) consider "s' \<in> set (rx_match a s)" | "s' \<in> set (rx_match b s)" by auto
  then show ?case using RAlt.IH RAlt.prems(1) by cases blast+
qed (simp_all split: if_splits)

lemma rx_rep_first:
  assumes "s' \<in> set (rx_rep m g least most k s)" "0 < least"
  shows "\<exists>t least' most' k'. t \<in> set (m s) \<and> s' \<in> set (rx_rep m g least' most' k' t)"
proof (cases k)
  case (Suc j)
  with assms obtain t where "t \<in> set (m s)" "s' \<in> set (rx_rep m g (least - 1) (map_option (\<lambda>n. n - 1) most) j t)"
    by (auto simp: Let_def split: if_splits)
  then show ?thesis by blast
qed (use assms in simp)

lemma rx_match_sets: "sure r n \<Longrightarrow> s' \<in> set (rx_match r s) \<Longrightarrow> snd (snd s') n \<noteq> None"
proof (induction r arbitrary: s s')
  case (RSeq a b)
  from RSeq.prems obtain t where t: "t \<in> set (rx_match a s)" "s' \<in> set (rx_match b t)" by auto
  show ?case
  proof (cases "sure b n")
    case True
    with RSeq.IH(2) t(2) show ?thesis by blast
  next
    case False
    with RSeq have "snd (snd t) n \<noteq> None" using t(1) by simp
    then show ?thesis using rx_match_keeps t(2) by blast
  qed
next
  case (RRep g least most r)
  then obtain t least' most' k' where t: "t \<in> set (rx_match r s)" "s' \<in> set (rx_rep (rx_match r) g least' most' k' t)"
    using rx_rep_first [of s' "rx_match r" g least most "length (fst (snd s)) + least + 1" s]
    by (auto simp del: rx_rep.simps)
  with RRep have "snd (snd t) n \<noteq> None" by simp
  then show ?case
    using rx_rep_preserves [of "\<lambda>s. snd (snd s) n \<noteq> None" "rx_match r", OF _ _ t(2)] rx_match_keeps by blast
next
  case (RGroup k r)
  then obtain t where t: "t \<in> set (rx_match r s)" "snd (snd s') = (snd (snd t))(k \<mapsto> take (length (fst (snd s)) - length (fst (snd t))) (fst (snd s)))"
    by (auto split: prod.splits)
  with RGroup show ?case by (cases "k = n") auto
qed auto

section \<open>Searching\<close>

lemma rx_search_from_match:
  "rx_search_from r pre rest = Some s' \<Longrightarrow> \<exists>pre' rest'. s' \<in> set (rx_match (RGroup 0 r) (pre', rest', Map.empty))"
proof (induction r pre rest rule: rx_search_from.induct)
  case (1 r pre)
  then have "s' \<in> set (rx_match (RGroup 0 r) (pre, [], Map.empty))"
    by (auto simp: rx_at_def simp del: rx_match.simps split: list.splits)
  then show ?case by blast
next
  case (2 r pre c cs)
  show ?case
  proof (cases "rx_at r pre (c # cs)")
    case None
    with 2 show ?thesis by simp
  next
    case (Some x)
    then have "x \<in> set (rx_match (RGroup 0 r) (pre, c # cs, Map.empty))"
      by (auto simp: rx_at_def simp del: rx_match.simps split: list.splits)
    moreover have "s' = x" using "2.prems" Some by simp
    ultimately show ?thesis by blast
  qed
qed

lemma caps_empty [simp]: "caps Q (pre, rest, Map.empty)"
  by (simp add: caps_def)

text \<open>A group that every match sets holds what its pattern accepts.\<close>

lemma searched_group:
  assumes "rx_search_from r pre rest = Some (pre', rest', m)" "caps_ok Q (RGroup 0 r)" "sure (RGroup 0 r) n"
  shows "m n = Some (group m n) \<and> Q n (group m n)"
proof -
  obtain p q where s: "(pre', rest', m) \<in> set (rx_match (RGroup 0 r) (p, q, Map.empty))"
    using rx_search_from_match [OF assms(1)] by blast
  have "m n \<noteq> None" using rx_match_sets [OF assms(3) s] by simp
  moreover have "caps Q (pre', rest', m)" by (rule rx_match_caps [OF assms(2) _ s]) simp
  ultimately show ?thesis by (auto simp: caps_def group_def)
qed

lemma rx_search_group:
  assumes "rx_search r t = Some m" "caps_ok Q (RGroup 0 r)" "sure (RGroup 0 r) n"
  shows "m n = Some (group m n) \<and> Q n (group m n)"
  using assms(1) searched_group [OF _ assms(2,3)] by (auto simp: rx_search_def)

text \<open>A group that a match may leave unset holds, when set, what its pattern accepts.\<close>

lemma rx_search_optional:
  assumes "rx_search r t = Some m" "caps_ok Q (RGroup 0 r)" "m n = Some w"
  shows "Q n w"
proof -
  obtain pre' rest' where "rx_search_from r [] t = Some (pre', rest', m)" using assms(1) by (auto simp: rx_search_def)
  then obtain p q where s: "(pre', rest', m) \<in> set (rx_match (RGroup 0 r) (p, q, Map.empty))"
    using rx_search_from_match by blast
  have "caps Q (pre', rest', m)" by (rule rx_match_caps [OF assms(2) _ s]) simp
  with assms(3) show ?thesis by (simp add: caps_def)
qed

lemma rx_findall_from_group:
  "m \<in> set (rx_findall_from r k pre rest) \<Longrightarrow> caps_ok Q (RGroup 0 r) \<Longrightarrow> sure (RGroup 0 r) n \<Longrightarrow>
   m n = Some (group m n) \<and> Q n (group m n)"
proof (induction r k pre rest rule: rx_findall_from.induct)
  case (2 r k pre rest)
  note prems = 2
  show ?case
  proof (cases "rx_search_from r pre rest")
    case None
    with 2 show ?thesis by simp
  next
    case (Some t)
    obtain pre' rest' m' where t: "t = (pre', rest', m')" by (cases t) auto
    with "2.prems"(1) Some consider "m = m'" | "group m' 0 \<noteq> []" "m \<in> set (rx_findall_from r k pre' rest')"
      | c cs where "group m' 0 = []" "rest' = c # cs" "m \<in> set (rx_findall_from r k (c # pre') cs)"
      by (auto split: if_splits list.splits)
    then show ?thesis
    proof cases
      case 1
      with searched_group [OF _ "2.prems"(2,3)] Some t show ?thesis by simp
    next
      case 2
      from "2.IH"(1) [OF Some t [symmetric] refl 2 "2.prems"(2,3)] show ?thesis .
    next
      case 3
      from "2.IH"(2) [OF Some t [symmetric] refl _ 3(2,3) "2.prems"(2,3)] 3(1) show ?thesis by simp
    qed
  qed
qed simp

lemma rx_findall_group:
  "m \<in> set (rx_findall r s) \<Longrightarrow> caps_ok Q (RGroup 0 r) \<Longrightarrow> sure (RGroup 0 r) n \<Longrightarrow>
   m n = Some (group m n) \<and> Q n (group m n)"
  unfolding rx_findall_def by (rule rx_findall_from_group)

section \<open>Common languages\<close>

lemma accepts_chars: "accepts (RRep g least most (RChar p)) w \<Longrightarrow> (\<forall>c \<in> set w. p c) \<and> least \<le> length w"
proof -
  assume "accepts (RRep g least most (RChar p)) w"
  then obtain ws where ws: "w = concat ws" "least \<le> length ws" "\<forall>v \<in> set ws. \<exists>c. p c \<and> v = [c]" by auto
  have "length (concat vs) = length vs" if "\<forall>v \<in> set vs. \<exists>c. p c \<and> v = [c]" for vs
    using that by (induction vs) auto
  from this [OF ws(3)] ws show ?thesis by auto
qed

lemma accepts_opt: "accepts (RRep g 0 (Some (Suc 0)) r) w \<longleftrightarrow> w = [] \<or> accepts r w"
proof
  assume "accepts (RRep g 0 (Some (Suc 0)) r) w"
  then obtain ws where "w = concat ws" "length ws \<le> 1" "\<forall>v \<in> set ws. accepts r v" by auto
  then show "w = [] \<or> accepts r w" by (cases ws) auto
next
  assume "w = [] \<or> accepts r w"
  then show "accepts (RRep g 0 (Some (Suc 0)) r) w"
  proof
    assume "w = []"
    then show ?thesis by (auto intro: exI [of _ "[]"])
  next
    assume "accepts r w"
    then show ?thesis by (auto intro!: exI [of _ "[w]"])
  qed
qed

section \<open>Positions and splits\<close>

text \<open>
  More of \<open>re\<close> and \<open>str\<close>: matches with their positions, \<open>re.match\<close>, \<open>re.finditer\<close>,
  \<open>str.split\<close> on a separator and \<open>str.startswith\<close>.
\<close>

section \<open>Positions\<close>

text \<open>Start, end and groups of a match.\<close>

type_synonym rx_hit = "nat \<times> nat \<times> (nat \<rightharpoonup> pystr)"

definition hit_of :: "rx_state \<Rightarrow> rx_hit" where
  "hit_of x = (case x of (pre, rest, m) \<Rightarrow> (length pre - length (group m 0), length pre, m))"

definition rx_find :: "rx \<Rightarrow> pystr \<Rightarrow> rx_hit option" where
  "rx_find r s = map_option hit_of (rx_search_from r [] s)"

definition rx_prefix :: "rx \<Rightarrow> pystr \<Rightarrow> (nat \<rightharpoonup> pystr) option" where
  "rx_prefix r s = map_option (snd \<circ> snd) (rx_at r [] s)"

fun rx_finditer_from :: "rx \<Rightarrow> nat \<Rightarrow> pystr \<Rightarrow> pystr \<Rightarrow> rx_hit list" where
  "rx_finditer_from r 0 pre rest = []"
| "rx_finditer_from r (Suc k) pre rest =
     (case rx_search_from r pre rest of
        None \<Rightarrow> []
      | Some (pre', rest', m) \<Rightarrow>
          hit_of (pre', rest', m) #
            (if group m 0 \<noteq> [] then rx_finditer_from r k pre' rest'
             else case rest' of [] \<Rightarrow> [] | c # cs \<Rightarrow> rx_finditer_from r k (c # pre') cs))"

definition rx_finditer :: "rx \<Rightarrow> pystr \<Rightarrow> rx_hit list" where
  "rx_finditer r s = rx_finditer_from r (length s + 1) [] s"

text \<open>\<open>findall\<close> keeps the groups of the same matches.\<close>

lemma finditer_groups: "map (snd \<circ> snd) (rx_finditer_from r k pre rest) = rx_findall_from r k pre rest"
  by (induction r k pre rest rule: rx_finditer_from.induct)
     (auto simp: hit_of_def split: option.splits prod.splits list.splits)

lemma rx_finditer_groups: "map (snd \<circ> snd) (rx_finditer r s) = rx_findall r s"
  unfolding rx_finditer_def rx_findall_def by (rule finditer_groups)

definition py_slice :: "nat \<Rightarrow> nat \<Rightarrow> 'a list \<Rightarrow> 'a list" where
  "py_slice a b xs = take (b - a) (drop a xs)"

section \<open>Splitting\<close>

text \<open>\<open>s.split(sep)\<close> for a non-empty separator.\<close>

function split_str :: "pystr \<Rightarrow> pystr \<Rightarrow> pystr list" where
  "split_str sep [] = [[]]"
| "split_str sep (c # cs) =
     (if sep \<noteq> [] \<and> take (length sep) (c # cs) = sep then [] # split_str sep (drop (length sep) (c # cs))
      else case split_str sep cs of w # ws \<Rightarrow> (c # w) # ws | [] \<Rightarrow> [[c]])"
  by pat_completeness auto
termination
  by (relation "measure (\<lambda>(sep, s). length s)") (auto simp: Suc_diff_le intro: diff_less_Suc)

text \<open>\<open>re.split\<close> on a class of characters.\<close>

fun split_on :: "(nat \<Rightarrow> bool) \<Rightarrow> pystr \<Rightarrow> pystr list" where
  "split_on p [] = [[]]"
| "split_on p (c # cs) =
     (if p c then [] # split_on p cs
      else case split_on p cs of w # ws \<Rightarrow> (c # w) # ws | [] \<Rightarrow> [[c]])"

lemma split_on_ne [simp]: "split_on p s \<noteq> []"
  by (induction s) (auto split: list.splits)

lemma split_str_ne [simp]: "split_str sep s \<noteq> []"
  by (induction sep s rule: split_str.induct) (auto split: list.splits)

lemma split_str_join: "sep \<noteq> [] \<Longrightarrow> py_join sep (split_str sep s) = s"
proof (induction sep s rule: split_str.induct)
  case (2 sep c cs)
  show ?case
  proof (cases "take (length sep) (c # cs) = sep")
    case True
    obtain w ws where s: "split_str sep (drop (length sep) (c # cs)) = w # ws"
      using split_str_ne by (cases "split_str sep (drop (length sep) (c # cs))") blast
    have "py_join sep (split_str sep (drop (length sep) (c # cs))) = drop (length sep) (c # cs)"
      by (rule "2.IH"(1)) (use "2.prems" True in simp_all)
    with True "2.prems" s have "py_join sep (split_str sep (c # cs)) = sep @ drop (length sep) (c # cs)" by simp
    also have "\<dots> = c # cs" using True by (metis append_take_drop_id)
    finally show ?thesis .
  next
    case False
    obtain w ws where s: "split_str sep cs = w # ws" using split_str_ne by (cases "split_str sep cs") blast
    with 2 False have "py_join sep (w # ws) = cs" by simp
    with s False show ?thesis by (cases ws) simp_all
  qed
qed simp

section \<open>Patterns shared by the page parsers\<close>

text \<open>\<open><[^>]+>\<close>, white space, and a tag with its body.\<close>

definition PAGE_TAG_RE :: rx where
  "PAGE_TAG_RE = r_seq [RChar (\<lambda>c. c = 60), r_plus (RChar (\<lambda>c. c \<noteq> 62)), RChar (\<lambda>c. c = 62)]"

definition PAGE_WS_RE :: rx where
  "PAGE_WS_RE = r_plus r_space"

definition r_dot :: rx where
  "r_dot = RChar (\<lambda>c. True)"

definition page_text :: "pystr \<Rightarrow> pystr" where
  "page_text cell_html = py_strip (rx_sub PAGE_WS_RE [32] (rx_sub PAGE_TAG_RE [32] cell_html))"

section \<open>Month names\<close>

definition GERMAN_MONTHS :: "(pystr \<times> int) list" where
  "GERMAN_MONTHS = [(u ''januar'', 1), (u ''februar'', 2), ([109, 228] @ u ''rz'', 3), (u ''april'', 4), (u ''mai'', 5),
     (u ''juni'', 6), (u ''juli'', 7), (u ''august'', 8), (u ''september'', 9), (u ''oktober'', 10),
     (u ''november'', 11), (u ''dezember'', 12)]"

fun r_any_of :: "rx list \<Rightarrow> rx" where
  "r_any_of [] = RChar (\<lambda>c. False)"
| "r_any_of [r] = r"
| "r_any_of (r # s # rs) = RAlt r (r_any_of (s # rs))"

text \<open>\<open>sorted(_MONTHS, key=len, reverse=True)\<close>: longest first, ties in table order.\<close>

definition MONTH_ALT :: rx where
  "MONTH_ALT = r_any_of (map r_lit_ci (sort_key (\<lambda>m. - int (length m)) (map fst GERMAN_MONTHS)))"

end
