(* ===== verification/Lane_Fetch.thy ===== *)
theory Lane_Fetch
  imports Sheet_Plan Http Regex_Facts Bytes
begin

text \<open>
  \<open>src/swimzh/etl/lane_plans.py\<close> and the fetching half of \<open>providers/belegungsplan.py\<close>:
  which sheets are extracted (the links the pool pages advertise), the fetch of each, and what
  happens to a sheet that fails. A client is its \<open>get\<close>, over the world \<open>'w\<close>.
\<close>

type_synonym 'w getter = "pystr \<Rightarrow> 'w \<Rightarrow> (py_error + (http_response, provider_error) result) \<times> 'w"

section \<open>Fetching one sheet\<close>

definition fetch_plan :: "'w getter \<Rightarrow> pystr \<Rightarrow> 'w \<Rightarrow> (py_error + (byte list, provider_error) result) \<times> 'w" where
  "fetch_plan get url w =
     (case get url w of (r, w') \<Rightarrow> (bind_err r (\<lambda>r. Inr (fmap r rs_content)), w'))"

definition scrape_belegungsplan ::
  "(rat \<Rightarrow> pystr) \<Rightarrow> (byte list \<Rightarrow> pdf_outcome) \<Rightarrow> 'w getter \<Rightarrow> pystr \<Rightarrow> 'w \<Rightarrow>
   (py_error + (parsed_plan, provider_error) result) \<times> 'w" where
  "scrape_belegungsplan frepr pdf get url w =
     (case fetch_plan get url w of (r, w') \<Rightarrow>
       (bind_err r (\<lambda>r. case r of Err e \<Rightarrow> Inr (Err e)
          | Ok raw \<Rightarrow> parse_belegungsplan frepr pdf raw DEFAULT_GRID_SPEC), w'))"

definition scrape_belegungsplan_sheet ::
  "(rat \<Rightarrow> pystr) \<Rightarrow> (byte list \<Rightarrow> pdf_outcome) \<Rightarrow> 'w getter \<Rightarrow> pystr \<Rightarrow> 'w \<Rightarrow>
   (py_error + (parsed_plan list, provider_error) result) \<times> 'w" where
  "scrape_belegungsplan_sheet frepr pdf get url w =
     (case fetch_plan get url w of (r, w') \<Rightarrow>
       (bind_err r (\<lambda>r. case r of Err e \<Rightarrow> Inr (Err e)
          | Ok raw \<Rightarrow> parse_belegungsplan_sheet frepr pdf raw DEFAULT_GRID_SPEC), w'))"

section \<open>What is declared and what is advertised\<close>

record discovered_link =
  dl_pool :: pool_id
  dl_url :: pystr

record undiscovered_source =
  us_pool :: pool_id
  us_url :: pystr

text \<open>The declared lane-plan sources of all basins, in the order of the two loops.\<close>

definition declared_sources :: "facility list \<Rightarrow> ((pool_id \<times> basin_id) \<times> lane_plan_source) list" where
  "declared_sources facilities =
     concat (map (\<lambda>f. concat (map (\<lambda>b. case lane_plan_source_of b of
         None \<Rightarrow> []
       | Some src \<Rightarrow> [((facility_id (identity f), bn_id b), src)]) (basins f))) facilities)"

definition undiscovered_step ::
  "pystr set \<Rightarrow> undiscovered_source list \<Rightarrow> (pool_id \<times> basin_id) \<times> lane_plan_source \<Rightarrow> undiscovered_source list" where
  "undiscovered_step discovered out d =
     (let entry = \<lparr>us_pool = fst (fst d), us_url = lps_url (snd d)\<rparr>
      in if us_url entry \<in> discovered \<or> entry \<in> set out then out else out @ [entry])"

definition undiscovered_authored :: "facility list \<Rightarrow> discovered_link list \<Rightarrow> undiscovered_source list" where
  "undiscovered_authored facilities links =
     foldl (undiscovered_step (set (map dl_url links))) [] (declared_sources facilities)"

definition fetch_set :: "discovered_link list \<Rightarrow> pystr list" where
  "fetch_set links = foldl (\<lambda>seen l. if dl_url l \<in> set seen then seen else seen @ [dl_url l]) [] links"

section \<open>Extraction\<close>

record lane_plan_miss =
  lm_url :: pystr
  lm_cause :: provider_error

definition authored_lane_urls :: "facility list \<Rightarrow> pystr set" where
  "authored_lane_urls facilities = set (map (\<lambda>d. lps_url (snd d)) (declared_sources facilities))"

record split_misses_rec =
  sm_bound :: "lane_plan_miss list"
  sm_unbound :: "lane_plan_miss list"

definition split_misses :: "lane_plan_miss list \<Rightarrow> pystr set \<Rightarrow> split_misses_rec" where
  "split_misses misses authored =
     \<lparr>sm_bound = filter (\<lambda>m. lm_url m \<in> authored) misses, sm_unbound = filter (\<lambda>m. lm_url m \<notin> authored) misses\<rparr>"

record lane_plan_report =
  rp_plans :: "parsed_plan list"
  rp_misses :: "lane_plan_miss list"

fun scrape_urls ::
  "(pystr \<Rightarrow> 'w \<Rightarrow> (py_error + (parsed_plan list, provider_error) result) \<times> 'w) \<Rightarrow> pystr list \<Rightarrow> lane_plan_report \<Rightarrow> 'w \<Rightarrow>
   (py_error + lane_plan_report) \<times> 'w" where
  "scrape_urls scrape [] report w = (Inr report, w)"
| "scrape_urls scrape (url # urls) report w =
     (case scrape url w of
        (Inl e, w') \<Rightarrow> (Inl e, w')
      | (Inr (Ok parsed), w') \<Rightarrow>
          scrape_urls scrape urls (report\<lparr>rp_plans := rp_plans report @ map (\<lambda>p. p\<lparr>pp_source_url := url\<rparr>) parsed\<rparr>) w'
      | (Inr (Err cause), w') \<Rightarrow>
          scrape_urls scrape urls (report\<lparr>rp_misses := rp_misses report @ [\<lparr>lm_url = url, lm_cause = cause\<rparr>]\<rparr>) w')"

definition scrape_lane_plans ::
  "(rat \<Rightarrow> pystr) \<Rightarrow> (byte list \<Rightarrow> pdf_outcome) \<Rightarrow> 'w getter \<Rightarrow> discovered_link list \<Rightarrow> 'w \<Rightarrow>
   (py_error + lane_plan_report) \<times> 'w" where
  "scrape_lane_plans frepr pdf get links w =
     scrape_urls (scrape_belegungsplan_sheet frepr pdf get) (fetch_set links) \<lparr>rp_plans = [], rp_misses = []\<rparr> w"

section \<open>Facts\<close>

lemma fetch_set_fold:
  "distinct seen \<Longrightarrow>
   distinct (foldl (\<lambda>seen l. if dl_url l \<in> set seen then seen else seen @ [dl_url l]) seen links) \<and>
   set (foldl (\<lambda>seen l. if dl_url l \<in> set seen then seen else seen @ [dl_url l]) seen links) =
     set seen \<union> dl_url ` set links"
proof (induction links arbitrary: seen)
  case (Cons l links)
  show ?case using Cons.prems Cons.IH [of "if dl_url l \<in> set seen then seen else seen @ [dl_url l]"] by auto
qed simp

lemma fetch_set_facts: "distinct (fetch_set links)" "set (fetch_set links) = dl_url ` set links"
  using fetch_set_fold [of "[]" links] by (simp_all add: fetch_set_def)

lemma undiscovered_fold:
  "distinct out \<Longrightarrow>
   distinct (foldl (undiscovered_step disc) out ds) \<and>
   set (foldl (undiscovered_step disc) out ds) =
     set out \<union> (\<lambda>d. \<lparr>us_pool = fst (fst d), us_url = lps_url (snd d)\<rparr>) ` {d \<in> set ds. lps_url (snd d) \<notin> disc}"
proof (induction ds arbitrary: out)
  case (Cons d ds)
  have "distinct (undiscovered_step disc out d)"
    "set (undiscovered_step disc out d) = set out \<union>
      (if lps_url (snd d) \<in> disc then {} else {\<lparr>us_pool = fst (fst d), us_url = lps_url (snd d)\<rparr>})"
    using Cons.prems by (auto simp: undiscovered_step_def Let_def)
  with Cons.IH [of "undiscovered_step disc out d"] show ?case by auto
qed simp

lemma scrape_urls_accounts:
  assumes "scrape_urls scrape urls report w = (Inr out, w')"
  shows "\<exists>new_plans new_misses. rp_plans out = rp_plans report @ new_plans \<and> rp_misses out = rp_misses report @ new_misses \<and>
    pp_source_url ` set new_plans \<subseteq> set urls \<and>
    set (map lm_url new_misses) \<subseteq> set urls \<and>
    (distinct urls \<longrightarrow> pp_source_url ` set new_plans \<inter> lm_url ` set new_misses = {} \<and> distinct (map lm_url new_misses)) \<and>
    (\<forall>url \<in> set urls. url \<in> lm_url ` set new_misses \<or>
       (\<exists>v v' parsed. scrape url v = (Inr (Ok parsed), v') \<and> set (map (\<lambda>p. p\<lparr>pp_source_url := url\<rparr>) parsed) \<subseteq> set new_plans))"
  using assms
proof (induction urls arbitrary: report w)
  case (Cons url urls)
  obtain r v where s: "scrape url w = (r, v)" by fastforce
  show ?case
  proof (cases r)
    case (Inl e)
    with s Cons.prems show ?thesis by simp
  next
    case (Inr q)
    show ?thesis
    proof (cases q)
      case (Ok parsed)
      let ?new = "map (\<lambda>p. p\<lparr>pp_source_url := url\<rparr>) parsed"
      have "scrape_urls scrape urls (report\<lparr>rp_plans := rp_plans report @ ?new\<rparr>) v = (Inr out, w')"
        using Cons.prems s Inr Ok by simp
      from Cons.IH [OF this] obtain ps ms where h: "rp_plans out = rp_plans report @ ?new @ ps" "rp_misses out = rp_misses report @ ms"
        "pp_source_url ` set ps \<subseteq> set urls" "set (map lm_url ms) \<subseteq> set urls"
        "distinct urls \<longrightarrow> pp_source_url ` set ps \<inter> lm_url ` set ms = {} \<and> distinct (map lm_url ms)"
        "\<forall>x \<in> set urls. x \<in> lm_url ` set ms \<or>
          (\<exists>v v' parsed. scrape x v = (Inr (Ok parsed), v') \<and> set (map (\<lambda>p. p\<lparr>pp_source_url := x\<rparr>) parsed) \<subseteq> set ps)"
        by auto
      have "pp_source_url ` set (?new @ ps) \<subseteq> set (url # urls)" using h(3) by auto
      moreover have "distinct (url # urls) \<longrightarrow> pp_source_url ` set (?new @ ps) \<inter> lm_url ` set ms = {} \<and> distinct (map lm_url ms)"
        using h(4,5) by auto
      moreover have "\<forall>x \<in> set (url # urls). x \<in> lm_url ` set ms \<or>
          (\<exists>v v' parsed. scrape x v = (Inr (Ok parsed), v') \<and> set (map (\<lambda>p. p\<lparr>pp_source_url := x\<rparr>) parsed) \<subseteq> set (?new @ ps))"
        using h(6) s Inr Ok by (fastforce simp del: set_map)
      ultimately show ?thesis using h(1,2,4)
        by (intro exI [of _ "?new @ ps"] exI [of _ ms]) auto
    next
      case (Err cause)
      let ?m = "\<lparr>lm_url = url, lm_cause = cause\<rparr>"
      have "scrape_urls scrape urls (report\<lparr>rp_misses := rp_misses report @ [?m]\<rparr>) v = (Inr out, w')"
        using Cons.prems s Inr Err by simp
      from Cons.IH [OF this] obtain ps ms where h: "rp_plans out = rp_plans report @ ps" "rp_misses out = rp_misses report @ ?m # ms"
        "pp_source_url ` set ps \<subseteq> set urls" "set (map lm_url ms) \<subseteq> set urls"
        "distinct urls \<longrightarrow> pp_source_url ` set ps \<inter> lm_url ` set ms = {} \<and> distinct (map lm_url ms)"
        "\<forall>x \<in> set urls. x \<in> lm_url ` set ms \<or>
          (\<exists>v v' parsed. scrape x v = (Inr (Ok parsed), v') \<and> set (map (\<lambda>p. p\<lparr>pp_source_url := x\<rparr>) parsed) \<subseteq> set ps)"
        by auto
      show ?thesis using h
        by (intro exI [of _ ps] exI [of _ "?m # ms"]) auto
    qed
  qed
qed simp

section \<open>Discovering the sheets\<close>

text \<open>
  \<open>src/swimzh/providers/page_provider.py\<close>: the discovery hop, from a pool's official page to
  the lane-plan sheets it links. \<open>html.unescape\<close> and \<open>urljoin\<close> are the runtime's and
  arguments (\<open>page_env\<close>).
\<close>

section \<open>Links\<close>

definition is_quote :: "nat \<Rightarrow> bool" where
  "is_quote c \<longleftrightarrow> c = 34 \<or> c = 39"

definition BELEGUNGSPLAN_HREF :: rx where
  "BELEGUNGSPLAN_HREF = r_seq [r_lit_ci (u ''href''), r_star r_space, r_lit (u ''=''), r_star r_space,
     RChar is_quote,
     RGroup 1 (r_seq [r_star (RChar (\<lambda>c. \<not> is_quote c)), r_lit_ci (u ''belegungsplaene/''),
       RRep False 1 None (RChar (\<lambda>c. \<not> is_quote c)), r_lit_ci (u ''.pdf'')]),
     RChar is_quote]"

record page_env =
  pg_unescape :: "pystr \<Rightarrow> pystr"
  pg_urljoin :: "pystr \<Rightarrow> pystr \<Rightarrow> pystr"

record page_doc =
  pd_pool :: pool_id
  pd_links :: "discovered_link list"

record page_miss =
  pm_pool :: pool_id
  pm_url :: pystr
  pm_cause :: provider_error

record discovery_report =
  dr_links :: "discovered_link list"
  dr_misses :: "page_miss list"

definition discover_links :: "page_env \<Rightarrow> pystr \<Rightarrow> pool_id \<Rightarrow> pystr \<Rightarrow> discovered_link list" where
  "discover_links env page_html pool page_url =
     (let seen = foldl (\<lambda>seen href.
            let url = pg_urljoin env page_url (py_strip href)
            in if url \<in> set seen then seen else seen @ [url])
          [] (map (\<lambda>m. group m 1) (rx_findall BELEGUNGSPLAN_HREF (pg_unescape env page_html)))
      in map (\<lambda>url. \<lparr>dl_pool = pool, dl_url = url\<rparr>) seen)"

definition fetch_page_doc ::
  "page_env \<Rightarrow> 'w getter \<Rightarrow> pool_id \<Rightarrow> pystr \<Rightarrow> 'w \<Rightarrow> (py_error + (page_doc, provider_error) result) \<times> 'w" where
  "fetch_page_doc env get pool page_url w =
     (case get page_url w of (r, w') \<Rightarrow>
       (bind_err r (\<lambda>r. Inr (fmap r (\<lambda>resp.
          \<lparr>pd_pool = pool, pd_links = discover_links env (decode_utf8_replace (rs_content resp)) pool page_url\<rparr>))), w'))"

fun discover_loop ::
  "page_env \<Rightarrow> 'w getter \<Rightarrow> (pool_id \<times> pystr) list \<Rightarrow> discovery_report \<Rightarrow> 'w \<Rightarrow> (py_error + discovery_report) \<times> 'w" where
  "discover_loop env get [] rep w = (Inr rep, w)"
| "discover_loop env get ((pool, url) # pages) rep w =
     (case fetch_page_doc env get pool url w of
        (Inl e, w') \<Rightarrow> (Inl e, w')
      | (Inr (Ok doc), w') \<Rightarrow> discover_loop env get pages (rep\<lparr>dr_links := dr_links rep @ pd_links doc\<rparr>) w'
      | (Inr (Err cause), w') \<Rightarrow>
          discover_loop env get pages (rep\<lparr>dr_misses := dr_misses rep @ [\<lparr>pm_pool = pool, pm_url = url, pm_cause = cause\<rparr>]\<rparr>) w')"

definition discover_pages ::
  "page_env \<Rightarrow> 'w getter \<Rightarrow> (pool_id \<times> pystr) list \<Rightarrow> 'w \<Rightarrow> (py_error + discovery_report) \<times> 'w" where
  "discover_pages env get pages w = discover_loop env get pages \<lparr>dr_links = [], dr_misses = []\<rparr> w"

end
