(* ===== verification/Silver.thy ===== *)
theory Silver
  imports Lane_Fetch Normalize
begin

text \<open>
  \<open>src/swimzh/etl/silver.py\<close>: the join of parsed lane plans to the basins that declared
  their source, by URL and, on a stacked sheet, by section token. \<open>srepr\<close> is the
  runtime's \<open>repr\<close> of a string.
\<close>

definition SILVER_SOURCE :: pystr where
  "SILVER_SOURCE = u ''silver''"

type_synonym basin_ref = "pool_id \<times> basin_id"

record plan_binding =
  bd_pool :: pool_id
  bd_basin :: basin_id
  bd_section :: "pystr option"

record bound_plan =
  bp_pool :: pool_id
  bp_basin :: basin_id
  bp_plan :: lane_plan

record unbound_plan =
  ub_source_url :: pystr
  ub_basin_hint :: pystr
  ub_reason :: pystr

record unmatched_section =
  um_source_url :: pystr
  um_section :: pystr
  um_pool :: pool_id
  um_basin :: basin_id

section \<open>The index of declared sources\<close>

definition ref_text :: "(pystr \<Rightarrow> pystr) \<Rightarrow> basin_ref \<Rightarrow> pystr" where
  "ref_text srepr ref = u ''('' @ srepr (fst ref) @ u '', '' @ srepr (snd ref) @ u '')''"

definition opt_text :: "(pystr \<Rightarrow> pystr) \<Rightarrow> pystr option \<Rightarrow> pystr" where
  "opt_text srepr x = (case x of None \<Rightarrow> u ''None'' | Some s \<Rightarrow> srepr s)"

definition duplicate_detail :: "(pystr \<Rightarrow> pystr) \<Rightarrow> lane_plan_source \<Rightarrow> basin_ref \<Rightarrow> basin_ref \<Rightarrow> pystr" where
  "duplicate_detail srepr src existing ref =
     u ''duplicate lane_plan_source binding (url='' @ srepr (lps_url src) @ u '', section='' @
     opt_text srepr (lps_section src) @ u '') claimed by basins '' @ ref_text srepr existing @ u '' and '' @ ref_text srepr ref"

definition source_key :: "lane_plan_source \<Rightarrow> pystr \<times> pystr option" where
  "source_key src = (lps_url src, lps_section src)"

definition binding_of :: "basin_ref \<Rightarrow> lane_plan_source \<Rightarrow> plan_binding" where
  "binding_of ref src = \<lparr>bd_pool = fst ref, bd_basin = snd ref, bd_section = lps_section src\<rparr>"

type_synonym url_bindings = "(pystr \<times> plan_binding list) list"

fun index_sources ::
  "(pystr \<Rightarrow> pystr) \<Rightarrow> (basin_ref \<times> lane_plan_source) list \<Rightarrow> url_bindings \<Rightarrow>
   ((pystr \<times> pystr option) \<times> basin_ref) list \<Rightarrow> (url_bindings, provider_error) result" where
  "index_sources srepr [] bindings seen = Ok bindings"
| "index_sources srepr ((ref, src) # ds) bindings seen =
     (case map_of seen (source_key src) of
        Some existing \<Rightarrow> Err (SchemaMismatch SILVER_SOURCE (duplicate_detail srepr src existing ref))
      | None \<Rightarrow> index_sources srepr ds (dict_append (lps_url src) (binding_of ref src) bindings)
          (dict_set (source_key src) ref seen))"

definition build_url_bindings :: "(pystr \<Rightarrow> pystr) \<Rightarrow> facility list \<Rightarrow> (url_bindings, provider_error) result" where
  "build_url_bindings srepr facilities = index_sources srepr (declared_sources facilities) [] []"

section \<open>Binding\<close>

type_synonym bind_state = "bound_plan list \<times> unbound_plan list"

definition bound_to :: "plan_binding \<Rightarrow> parsed_plan \<Rightarrow> bound_plan" where
  "bound_to b p = \<lparr>bp_pool = bd_pool b, bp_basin = bd_basin b, bp_plan = pp_plan p\<rparr>"

definition unbound_for :: "pystr \<Rightarrow> pystr \<Rightarrow> parsed_plan \<Rightarrow> unbound_plan" where
  "unbound_for url reason p = \<lparr>ub_source_url = url, ub_basin_hint = pp_basin_hint p, ub_reason = reason\<rparr>"

definition split_reason :: "parsed_plan list \<Rightarrow> pystr" where
  "split_reason plans = u ''single-basin source split into '' @ str_of_int (int (length plans)) @ u '' parsed sections''"

definition bind_single :: "pystr \<Rightarrow> parsed_plan list \<Rightarrow> plan_binding \<Rightarrow> bind_state \<Rightarrow> bind_state" where
  "bind_single url plans b st =
     (if length plans = 1 then (fst st @ [bound_to b (hd plans)], snd st)
      else (fst st, snd st @ map (unbound_for url (split_reason plans)) plans))"

definition section_tokens :: "plan_binding list \<Rightarrow> (pystr \<times> plan_binding) list" where
  "section_tokens bindings =
     concat (map (\<lambda>b. case bd_section b of None \<Rightarrow> [] | Some s \<Rightarrow> [(normalize s, b)]) bindings)"

definition section_matches :: "(pystr \<times> plan_binding) list \<Rightarrow> parsed_plan \<Rightarrow> plan_binding list" where
  "section_matches tokens p =
     map snd (filter (\<lambda>(token, b). token \<noteq> [] \<and> contains token (normalize (pp_basin_hint p))) tokens)"

definition stacked_step :: "pystr \<Rightarrow> (pystr \<times> plan_binding) list \<Rightarrow> bind_state \<Rightarrow> parsed_plan \<Rightarrow> bind_state" where
  "stacked_step url tokens st p =
     (case section_matches tokens p of
        [] \<Rightarrow> (fst st, snd st @ [unbound_for url (u ''no declared section token matches this parsed header'') p])
      | [b] \<Rightarrow> (fst st @ [bound_to b p], snd st)
      | _ \<Rightarrow> (fst st, snd st @ [unbound_for url (u ''parsed header matches multiple section tokens (ambiguous)'') p]))"

definition bind_stacked :: "pystr \<Rightarrow> parsed_plan list \<Rightarrow> plan_binding list \<Rightarrow> bind_state \<Rightarrow> bind_state" where
  "bind_stacked url plans bindings st = foldl (stacked_step url (section_tokens bindings)) st plans"

definition bindings_at :: "url_bindings \<Rightarrow> pystr \<Rightarrow> plan_binding list" where
  "bindings_at ub url = (case map_of ub url of Some bs \<Rightarrow> bs | None \<Rightarrow> [])"

definition bind_url :: "url_bindings \<Rightarrow> bind_state \<Rightarrow> pystr \<times> parsed_plan list \<Rightarrow> bind_state" where
  "bind_url ub st up =
     (case up of (url, plans) \<Rightarrow>
        let bindings = bindings_at ub url
        in if bindings = [] then (fst st, snd st @ map (unbound_for url (u ''no basin declares this source url'')) plans)
           else if length bindings = 1 \<and> bd_section (hd bindings) = None then bind_single url plans (hd bindings) st
           else bind_stacked url plans bindings st)"

definition bind_plans :: "parsed_plan list \<Rightarrow> url_bindings \<Rightarrow> bind_state" where
  "bind_plans parsed ub = foldl (bind_url ub) ([], []) (group_by pp_source_url parsed)"

section \<open>Attachment\<close>

record lane_plan_attachment =
  at_facilities :: "facility list"
  at_warnings :: "pystr list"
  at_unbound :: "unbound_plan list"
  at_unmatched :: "unmatched_section list"

fun index_bound ::
  "(pystr \<Rightarrow> pystr) \<Rightarrow> bound_plan list \<Rightarrow> (basin_ref \<times> lane_plan) list \<Rightarrow>
   ((basin_ref \<times> lane_plan) list, provider_error) result" where
  "index_bound srepr [] by_basin = Ok by_basin"
| "index_bound srepr (b # bs) by_basin =
     (let ref = (bp_pool b, bp_basin b)
      in if map_of by_basin ref \<noteq> None
         then Err (SchemaMismatch SILVER_SOURCE (u ''two lane plans bound to one basin '' @ ref_text srepr ref))
         else index_bound srepr bs (dict_set ref (bp_plan b) by_basin))"

definition index_bound_plans ::
  "(pystr \<Rightarrow> pystr) \<Rightarrow> bound_plan list \<Rightarrow> ((basin_ref \<times> lane_plan) list, provider_error) result" where
  "index_bound_plans srepr bound = index_bound srepr bound []"

definition unmatched_of :: "pystr list \<Rightarrow> pystr \<Rightarrow> plan_binding \<Rightarrow> unmatched_section list" where
  "unmatched_of headers url b =
     (case bd_section b of
        None \<Rightarrow> []
      | Some s \<Rightarrow>
          let token = normalize s
          in if token \<noteq> [] \<and> \<not> (\<exists>h \<in> set headers. contains token h)
             then [\<lparr>um_source_url = url, um_section = s, um_pool = bd_pool b, um_basin = bd_basin b\<rparr>] else [])"

definition find_unmatched_sections :: "url_bindings \<Rightarrow> parsed_plan list \<Rightarrow> unmatched_section list" where
  "find_unmatched_sections ub parsed =
     (let headers_by_url = group_pairs (map (\<lambda>p. (pp_source_url p, normalize (pp_basin_hint p))) parsed)
      in concat (map (\<lambda>(url, bindings).
           case map_of headers_by_url url of
             None \<Rightarrow> []
           | Some headers \<Rightarrow> concat (map (unmatched_of headers url) bindings)) ub))"

definition staleness_warning :: "facility \<Rightarrow> basin \<Rightarrow> date option \<Rightarrow> pystr option" where
  "staleness_warning f b plan_valid_from =
     (case (plan_valid_from, pv_valid_as_of (provenance_of f)) of
        (Some from, Some as_of) \<Rightarrow>
          if from < as_of
          then Some (pid_name (identity f) @ u '' / '' @ bn_name b @ u '': lane plan valid_from '' @ iso_date from @
            u '' predates schedule valid_as_of '' @ iso_date as_of @ u '' (lane data may be stale)'')
          else None
      | _ \<Rightarrow> None)"

definition attach_basin ::
  "(basin_ref \<times> lane_plan) list \<Rightarrow> datetime \<Rightarrow> facility \<Rightarrow> basin \<Rightarrow> basin \<times> pystr list \<times> bool" where
  "attach_basin by_basin fetched_at f b =
     (case map_of by_basin (facility_id (identity f), bn_id b) of
        None \<Rightarrow> (b, [], False)
      | Some p \<Rightarrow>
          let plan = p\<lparr>lp_fetched_at := Some fetched_at\<rparr>
          in (b\<lparr>lane_plan_of := Some (Parsed plan)\<rparr>,
              (case staleness_warning f b (lp_valid_from plan) of None \<Rightarrow> [] | Some wa \<Rightarrow> [wa]), True))"

definition attach_facility ::
  "(basin_ref \<times> lane_plan) list \<Rightarrow> datetime \<Rightarrow> facility \<Rightarrow> facility \<times> pystr list" where
  "attach_facility by_basin fetched_at f =
     (let rs = map (attach_basin by_basin fetched_at f) (basins f)
      in (if \<exists>r \<in> set rs. snd (snd r) then f\<lparr>basins := map fst rs\<rparr> else f, concat (map (\<lambda>r. fst (snd r)) rs)))"

definition attach_lane_plans ::
  "(pystr \<Rightarrow> pystr) \<Rightarrow> facility list \<Rightarrow> parsed_plan list \<Rightarrow> datetime \<Rightarrow> (lane_plan_attachment, provider_error) result" where
  "attach_lane_plans srepr facilities parsed fetched_at =
     (case build_url_bindings srepr facilities of
        Err e \<Rightarrow> Err e
      | Ok ub \<Rightarrow>
          let (bound, unbound) = bind_plans parsed ub; unmatched = find_unmatched_sections ub parsed
          in case index_bound_plans srepr bound of
               Err e \<Rightarrow> Err e
             | Ok by_basin \<Rightarrow>
                 let rs = map (attach_facility by_basin fetched_at) facilities
                 in Ok \<lparr>at_facilities = map fst rs, at_warnings = concat (map snd rs),
                        at_unbound = unbound, at_unmatched = unmatched\<rparr>)"

end
