(* ===== verification/Silver_Properties.thy ===== *)
theory Silver_Properties
  imports Silver Day_Properties Lane_Properties
begin

text \<open>
  Properties of the lane-plan join: what the loops over URLs, plans and bindings compute is
  \<open>claim_of\<close>, one plan at a time; every plan is bound or reported, a plan reaches only the
  basin that declared its sheet, and the join fails exactly on ambiguity.
\<close>

section \<open>The index of declared sources\<close>

lemma index_sources_Ok:
  "index_sources srepr ds bindings seen = Ok ub \<longleftrightarrow>
     distinct (map (\<lambda>d. source_key (snd d)) ds) \<and> (\<forall>d \<in> set ds. map_of seen (source_key (snd d)) = None) \<and>
     ub = foldl (\<lambda>d (k, v). dict_append k v d) bindings (map (\<lambda>(ref, src). (lps_url src, binding_of ref src)) ds)"
proof (induction srepr ds bindings seen rule: index_sources.induct)
  case (2 srepr ref src ds bindings seen)
  show ?case
  proof (cases "map_of seen (source_key src)")
    case None
    have "(\<forall>d \<in> set ds. map_of (dict_set (source_key src) ref seen) (source_key (snd d)) = None) \<longleftrightarrow>
        source_key src \<notin> (\<lambda>d. source_key (snd d)) ` set ds \<and> (\<forall>d \<in> set ds. map_of seen (source_key (snd d)) = None)"
      by (auto simp: image_iff)
    with 2 None show ?thesis by simp blast
  qed auto
qed auto

lemma build_url_bindings_Ok:
  "build_url_bindings srepr facilities = Ok ub \<longleftrightarrow>
     distinct (map (\<lambda>d. source_key (snd d)) (declared_sources facilities)) \<and>
     ub = group_pairs (map (\<lambda>(ref, src). (lps_url src, binding_of ref src)) (declared_sources facilities))"
  by (simp add: build_url_bindings_def index_sources_Ok group_pairs_def)

lemma bindings_at_declared:
  assumes "build_url_bindings srepr facilities = Ok ub"
  shows "bindings_at ub url = map (\<lambda>(ref, src). binding_of ref src) (filter (\<lambda>d. lps_url (snd d) = url) (declared_sources facilities))"
proof -
  have g: "ub = group_pairs (map (\<lambda>(ref, src). (lps_url src, binding_of ref src)) (declared_sources facilities))"
    using assms by (simp add: build_url_bindings_Ok)
  have "map snd (filter (\<lambda>p. fst p = url) (map (\<lambda>(ref, src). (lps_url src, binding_of ref src)) ds)) =
      map (\<lambda>(ref, src). binding_of ref src) (filter (\<lambda>d. lps_url (snd d) = url) ds)" for ds
    by (induction ds) auto
  then show ?thesis unfolding g bindings_at_def map_of_group_pairs by (simp add: Let_def split: if_splits)
qed

section \<open>What one plan is bound to\<close>

definition claim_of :: "url_bindings \<Rightarrow> parsed_plan list \<Rightarrow> parsed_plan \<Rightarrow> plan_binding option" where
  "claim_of ub parsed p =
     (let bindings = bindings_at ub (pp_source_url p)
      in if bindings = [] then None
         else if length bindings = 1 \<and> bd_section (hd bindings) = None then
           (if length (filter (\<lambda>q. pp_source_url q = pp_source_url p) parsed) = 1 then Some (hd bindings) else None)
         else case section_matches (section_tokens bindings) p of [b] \<Rightarrow> Some b | _ \<Rightarrow> None)"

definition bound_list :: "url_bindings \<Rightarrow> parsed_plan list \<Rightarrow> parsed_plan list \<Rightarrow> bound_plan list" where
  "bound_list ub parsed plans = List.map_filter (\<lambda>p. map_option (\<lambda>b. bound_to b p) (claim_of ub parsed p)) plans"

definition reported :: "unbound_plan \<Rightarrow> pystr \<times> pystr" where
  "reported v = (ub_source_url v, ub_basin_hint v)"

definition unclaimed :: "url_bindings \<Rightarrow> parsed_plan list \<Rightarrow> parsed_plan list \<Rightarrow> (pystr \<times> pystr) list" where
  "unclaimed ub parsed plans =
     map (\<lambda>p. (pp_source_url p, pp_basin_hint p)) (filter (\<lambda>p. claim_of ub parsed p = None) plans)"

lemma bound_list_simps [simp]:
  "bound_list ub parsed [] = []"
  "bound_list ub parsed (p # ps) =
     (case claim_of ub parsed p of None \<Rightarrow> bound_list ub parsed ps | Some b \<Rightarrow> bound_to b p # bound_list ub parsed ps)"
  by (simp_all add: bound_list_def List.map_filter_simps split: option.split)

lemma bound_list_append: "bound_list ub parsed (xs @ ys) = bound_list ub parsed xs @ bound_list ub parsed ys"
  by (induction xs) (simp_all split: option.split)

lemma unclaimed_append: "unclaimed ub parsed (xs @ ys) = unclaimed ub parsed xs @ unclaimed ub parsed ys"
  by (simp add: unclaimed_def)

lemma stacked_fold:
  assumes "\<forall>p \<in> set plans. pp_source_url p = url \<and>
    claim_of ub parsed p = (case section_matches tokens p of [b] \<Rightarrow> Some b | _ \<Rightarrow> None)"
  shows "fst (foldl (stacked_step url tokens) st plans) = fst st @ bound_list ub parsed plans \<and>
    map reported (snd (foldl (stacked_step url tokens) st plans)) = map reported (snd st) @ unclaimed ub parsed plans"
  using assms
proof (induction plans arbitrary: st)
  case (Cons p plans)
  have "fst (stacked_step url tokens st p) = fst st @ bound_list ub parsed [p]"
    "map reported (snd (stacked_step url tokens st p)) = map reported (snd st) @ unclaimed ub parsed [p]"
    using Cons.prems by (auto simp: stacked_step_def unclaimed_def reported_def unbound_for_def split: list.splits)
  with Cons.IH [of "stacked_step url tokens st p"] Cons.prems show ?case
    using bound_list_append [of ub parsed "[p]" plans] unclaimed_append [of ub parsed "[p]" plans] by simp
qed (simp add: unclaimed_def)

lemma all_unclaimed:
  assumes "\<forall>p \<in> set plans. pp_source_url p = url \<and> claim_of ub parsed p = None"
  shows "bound_list ub parsed plans = []" "unclaimed ub parsed plans = map (\<lambda>p. (url, pp_basin_hint p)) plans"
  using assms by (induction plans) (simp_all add: unclaimed_def)

lemma bind_url_exact:
  assumes "plans = filter (\<lambda>p. pp_source_url p = url) parsed" "plans \<noteq> []"
  shows "fst (bind_url ub st (url, plans)) = fst st @ bound_list ub parsed plans \<and>
    map reported (snd (bind_url ub st (url, plans))) = map reported (snd st) @ unclaimed ub parsed plans"
proof -
  let ?bs = "bindings_at ub url"
  have url: "\<forall>p \<in> set plans. pp_source_url p = url" using assms(1) by auto
  have rep: "map reported (map (unbound_for url reason) ps) = map (\<lambda>p. (url, pp_basin_hint p)) ps" for reason ps
    by (simp add: reported_def unbound_for_def)
  consider (none) "?bs = []" | (single) "length ?bs = 1" "bd_section (hd ?bs) = None" "?bs \<noteq> []"
    | (stacked) "?bs \<noteq> []" "\<not> (length ?bs = 1 \<and> bd_section (hd ?bs) = None)" by argo
  then show ?thesis
  proof cases
    case none
    have "\<forall>p \<in> set plans. pp_source_url p = url \<and> claim_of ub parsed p = None" using url none by (simp add: claim_of_def)
    from all_unclaimed [OF this] none rep show ?thesis by (simp add: bind_url_def)
  next
    case single
    show ?thesis
    proof (cases "length plans = 1")
      case True
      then obtain p where p: "plans = [p]" by (metis One_nat_def length_0_conv length_Suc_conv)
      have "claim_of ub parsed p = Some (hd ?bs)"
        using single url p assms(1) True by (simp add: claim_of_def)
      then show ?thesis using single p by (simp add: bind_url_def bind_single_def unclaimed_def)
    next
      case False
      have "\<forall>p \<in> set plans. pp_source_url p = url \<and> claim_of ub parsed p = None"
        using url single False assms(1) by (simp add: claim_of_def)
      from all_unclaimed [OF this] single False rep show ?thesis by (simp add: bind_url_def bind_single_def)
    qed
  next
    case stacked
    have "\<forall>p \<in> set plans. pp_source_url p = url \<and>
        claim_of ub parsed p = (case section_matches (section_tokens ?bs) p of [b] \<Rightarrow> Some b | _ \<Rightarrow> None)"
      using url stacked by (auto simp: claim_of_def Let_def)
    from stacked_fold [OF this, of st] stacked show ?thesis by (auto simp: bind_url_def bind_stacked_def Let_def)
  qed
qed

lemma bind_groups_exact:
  assumes "\<forall>(url, plans) \<in> set groups. plans = filter (\<lambda>p. pp_source_url p = url) parsed \<and> plans \<noteq> []"
  shows "fst (foldl (bind_url ub) st groups) = fst st @ bound_list ub parsed (concat (map snd groups)) \<and>
    map reported (snd (foldl (bind_url ub) st groups)) = map reported (snd st) @ unclaimed ub parsed (concat (map snd groups))"
  using assms
proof (induction groups arbitrary: st)
  case (Cons g groups)
  obtain url plans where g: "g = (url, plans)" by fastforce
  have "plans = filter (\<lambda>p. pp_source_url p = url) parsed" "plans \<noteq> []" using Cons.prems g by auto
  from bind_url_exact [OF this, of ub st] Cons.IH [of "bind_url ub st g"] Cons.prems show ?case
    by (simp add: g bound_list_append unclaimed_append)
qed (simp add: unclaimed_def)

lemma bind_plans_exact:
  "fst (bind_plans parsed ub) = bound_list ub parsed (concat (map snd (group_by pp_source_url parsed))) \<and>
   map reported (snd (bind_plans parsed ub)) = unclaimed ub parsed (concat (map snd (group_by pp_source_url parsed)))"
proof -
  have "\<forall>(url, plans) \<in> set (group_by pp_source_url parsed). plans = filter (\<lambda>p. pp_source_url p = url) parsed \<and> plans \<noteq> []"
    by (auto simp: group_by_mem)
  from bind_groups_exact [OF this, of ub "([], [])"] show ?thesis by (simp add: bind_plans_def)
qed

lemma map_filter_mset: "mset (List.map_filter f xs) = image_mset (\<lambda>x. the (f x)) (filter_mset (\<lambda>x. f x \<noteq> None) (mset xs))"
  by (induction xs) (auto simp: List.map_filter_simps split: option.split)

lemma bound_list_mset: "mset xs = mset ys \<Longrightarrow> mset (bound_list ub parsed xs) = mset (bound_list ub parsed ys)"
  by (simp add: bound_list_def map_filter_mset)

lemma unclaimed_mset: "mset xs = mset ys \<Longrightarrow> mset (unclaimed ub parsed xs) = mset (unclaimed ub parsed ys)"
  by (simp add: unclaimed_def)

lemma set_bound_list: "set (bound_list ub parsed ps) = {bound_to b p | b p. p \<in> set ps \<and> claim_of ub parsed p = Some b}"
  by (induction ps) (auto split: option.splits)

lemma set_bound: "set (fst (bind_plans parsed ub)) = {bound_to b p | b p. p \<in> set parsed \<and> claim_of ub parsed p = Some b}"
proof -
  have "set (concat (map snd (group_by pp_source_url parsed))) = set parsed"
    using group_by_values by (metis set_mset_mset)
  then show ?thesis using bind_plans_exact [of parsed ub] by (simp only: set_bound_list)
qed

section \<open>The index of bound plans\<close>

definition bound_ref :: "bound_plan \<Rightarrow> basin_ref" where
  "bound_ref b = (bp_pool b, bp_basin b)"

lemma index_bound_Ok:
  "index_bound srepr bs d = Ok d' \<longleftrightarrow>
     distinct (map bound_ref bs) \<and> (\<forall>b \<in> set bs. map_of d (bound_ref b) = None) \<and>
     d' = foldl (\<lambda>d b. dict_set (bound_ref b) (bp_plan b) d) d bs"
proof (induction srepr bs d rule: index_bound.induct)
  case (2 srepr b bs d)
  show ?case
  proof (cases "map_of d (bound_ref b)")
    case None
    have "(\<forall>c \<in> set bs. map_of (dict_set (bound_ref b) (bp_plan b) d) (bound_ref c) = None) \<longleftrightarrow>
        bound_ref b \<notin> bound_ref ` set bs \<and> (\<forall>c \<in> set bs. map_of d (bound_ref c) = None)"
      by (auto simp: image_iff)
    with 2 None show ?thesis by (simp add: bound_ref_def [symmetric] Let_def) blast
  qed (auto simp: bound_ref_def [symmetric] Let_def)
qed auto

lemma index_bound_lookup:
  "distinct (map bound_ref bs) \<Longrightarrow>
   map_of (foldl (\<lambda>d b. dict_set (bound_ref b) (bp_plan b) d) d bs) ref = Some p \<longleftrightarrow>
     (\<exists>b \<in> set bs. bound_ref b = ref \<and> bp_plan b = p) \<or> (ref \<notin> bound_ref ` set bs \<and> map_of d ref = Some p)"
proof (induction bs arbitrary: d)
  case (Cons b bs)
  have "map_of (foldl (\<lambda>d b. dict_set (bound_ref b) (bp_plan b) d) d (b # bs)) ref = Some p \<longleftrightarrow>
      (\<exists>c \<in> set bs. bound_ref c = ref \<and> bp_plan c = p) \<or>
      (ref \<notin> bound_ref ` set bs \<and> map_of (dict_set (bound_ref b) (bp_plan b) d) ref = Some p)"
    using Cons.IH [of "dict_set (bound_ref b) (bp_plan b) d"] Cons.prems by simp
  with Cons.prems show ?case by (cases "bound_ref b = ref") auto
qed simp

lemma index_bound_plans_Ok:
  assumes "index_bound_plans srepr bound = Ok by_basin"
  shows "map_of by_basin ref = Some p \<longleftrightarrow> (\<exists>b \<in> set bound. bound_ref b = ref \<and> bp_plan b = p)"
  using assms index_bound_lookup [of bound "[]" ref p] by (simp add: index_bound_plans_def index_bound_Ok)

lemma attach_Ok:
  "attach_lane_plans srepr facilities parsed fetched_at = Ok att \<longleftrightarrow>
     (\<exists>ub by_basin. build_url_bindings srepr facilities = Ok ub \<and> index_bound_plans srepr (fst (bind_plans parsed ub)) = Ok by_basin \<and>
       att = \<lparr>at_facilities = map (\<lambda>f. fst (attach_facility by_basin fetched_at f)) facilities,
         at_warnings = concat (map (\<lambda>f. snd (attach_facility by_basin fetched_at f)) facilities),
         at_unbound = snd (bind_plans parsed ub), at_unmatched = find_unmatched_sections ub parsed\<rparr>)"
  by (auto simp: attach_lane_plans_def Let_def comp_def split: result.splits prod.splits)

text \<open>A claim rests on a declared source with the plan's URL and, on a stacked sheet, on its section token.\<close>

definition declares :: "facility list \<Rightarrow> basin_ref \<Rightarrow> parsed_plan \<Rightarrow> bool" where
  "declares facilities ref p \<longleftrightarrow>
     (\<exists>src. (ref, src) \<in> set (declared_sources facilities) \<and> lps_url src = pp_source_url p \<and>
       (case lps_section src of None \<Rightarrow> True
        | Some s \<Rightarrow> normalize s \<noteq> [] \<and> contains (normalize s) (normalize (pp_basin_hint p))))"

lemma section_matches_mem:
  "b \<in> set (section_matches (section_tokens bs) p) \<longleftrightarrow>
     b \<in> set bs \<and> (\<exists>s. bd_section b = Some s \<and> normalize s \<noteq> [] \<and> contains (normalize s) (normalize (pp_basin_hint p)))"
  by (force simp: section_matches_def section_tokens_def split: option.splits)

lemma claim_declared:
  assumes "build_url_bindings srepr facilities = Ok ub" "claim_of ub parsed p = Some b"
  shows "declares facilities (bd_pool b, bd_basin b) p"
proof -
  let ?bs = "bindings_at ub (pp_source_url p)"
  have b: "b \<in> set ?bs" "\<forall>s. bd_section b = Some s \<longrightarrow> normalize s \<noteq> [] \<and> contains (normalize s) (normalize (pp_basin_hint p))"
  proof -
    consider "b = hd ?bs" "?bs \<noteq> []" "bd_section b = None" | "section_matches (section_tokens ?bs) p = [b]"
      using assms(2) by (auto simp: claim_of_def Let_def split: if_splits list.splits)
    then have "b \<in> set ?bs \<and> (\<forall>s. bd_section b = Some s \<longrightarrow> normalize s \<noteq> [] \<and> contains (normalize s) (normalize (pp_basin_hint p)))"
    proof cases
      case 2
      then have "b \<in> set (section_matches (section_tokens ?bs) p)" by simp
      then show ?thesis unfolding section_matches_mem by auto
    qed simp
    then show "b \<in> set ?bs" "\<forall>s. bd_section b = Some s \<longrightarrow> normalize s \<noteq> [] \<and> contains (normalize s) (normalize (pp_basin_hint p))"
      by blast+
  qed
  from b(1) obtain ref src where "(ref, src) \<in> set (declared_sources facilities)" "lps_url src = pp_source_url p" "b = binding_of ref src"
    unfolding bindings_at_declared [OF assms(1)] by auto
  with b(2) show ?thesis unfolding declares_def
    by (intro exI [of _ src]) (auto simp: binding_of_def split: option.splits)
qed

definition attached :: "lane_plan \<Rightarrow> datetime \<Rightarrow> basin \<Rightarrow> basin" where
  "attached p fetched_at b = b\<lparr>lane_plan_of := Some (Parsed (p\<lparr>lp_fetched_at := Some fetched_at\<rparr>))\<rparr>"

lemma attach_basin_fst:
  "fst (attach_basin by_basin fetched_at f b) =
     (case map_of by_basin (facility_id (identity f), bn_id b) of None \<Rightarrow> b | Some p \<Rightarrow> attached p fetched_at b)"
  by (simp add: attach_basin_def attached_def Let_def split: option.split)

lemma attach_facility_fst:
  "fst (attach_facility by_basin fetched_at f) = f\<lparr>basins := map (\<lambda>b. fst (attach_basin by_basin fetched_at f b)) (basins f)\<rparr>"
proof -
  have "map (\<lambda>b. fst (attach_basin by_basin fetched_at f b)) bs = bs"
    if "\<not> (\<exists>r \<in> set (map (attach_basin by_basin fetched_at f) bs). snd (snd r))" for bs
    using that by (induction bs) (auto simp: attach_basin_def Let_def split: option.splits)
  from this [of "basins f"] show ?thesis by (auto simp: attach_facility_def Let_def comp_def)
qed

section \<open>A concrete join\<close>

definition ex_sheet_basin :: basin where
  "ex_sheet_basin = \<lparr>bn_id = u ''b'', bn_name = u ''Becken'', bn_rules = [], bn_exceptions = [], bn_kind = LAP,
     bn_dimensions = None, bn_lanes = None, nominal_temp_c = None, measured_temp_c = None,
     diving_platforms_m = [], physical_source = CURATED_PHYSICALS,
     lane_plan_source_of = Some \<lparr>lps_url = u ''a.pdf'', lps_section = None\<rparr>, lane_plan_of = None\<rparr>"

definition ex_run_time :: datetime where
  "ex_run_time = \<lparr>dt_date = Date 2026 8 12, dt_time = hm 9 0, dt_tz = Some Zurich\<rparr>"

definition ex_parsed :: parsed_plan where
  "ex_parsed = \<lparr>pp_basin_hint = u ''City'', pp_plan = ex_plan, pp_source_url = u ''a.pdf''\<rparr>"

lemma ex_declared: "declared_sources [ex_facility (u ''p'') [ex_sheet_basin]] =
    [((u ''p'', u ''b''), \<lparr>lps_url = u ''a.pdf'', lps_section = None\<rparr>)]"
  by (simp add: declared_sources_def ex_facility_def ex_identity_def ex_sheet_basin_def)

lemma ex_bindings: "build_url_bindings srepr [ex_facility (u ''p'') [ex_sheet_basin]] =
    Ok [(u ''a.pdf'', [\<lparr>bd_pool = u ''p'', bd_basin = u ''b'', bd_section = None\<rparr>])]"
  by (simp add: build_url_bindings_Ok ex_declared group_pairs_def binding_of_def)

lemma ex_bound: "bind_plans [ex_parsed] [(u ''a.pdf'', [\<lparr>bd_pool = u ''p'', bd_basin = u ''b'', bd_section = None\<rparr>])] =
    ([\<lparr>bp_pool = u ''p'', bp_basin = u ''b'', bp_plan = ex_plan\<rparr>], [])"
  by (simp add: bind_plans_def group_by_def group_pairs_def ex_parsed_def bind_url_def bindings_at_def bind_single_def bound_to_def)

lemma ex_attached: "\<exists>att. attach_lane_plans srepr [ex_facility (u ''p'') [ex_sheet_basin]] [ex_parsed] now = Ok att \<and>
    at_facilities att = [ex_facility (u ''p'') [attached ex_plan now ex_sheet_basin]]"
  unfolding attach_Ok
  by (simp add: ex_bindings ex_bound index_bound_plans_def attach_facility_fst attach_basin_fst)
    (simp add: ex_facility_def ex_identity_def ex_sheet_basin_def)

section \<open>Results\<close>

text \<open>
  C33: every parsed plan is bound or reported, exactly once: the join computes, plan by plan, the
  one binding the plan's URL and header determine; the bound plans are exactly the plans that
  have one, each under that binding, and the plans that have none are exactly those reported
  as unbound with their URL and header.
\<close>

theorem every_plan_bound_or_reported:
  "mset (fst (bind_plans parsed ub)) =
     mset (List.map_filter (\<lambda>p. map_option (\<lambda>b. bound_to b p) (claim_of ub parsed p)) parsed) \<and>
   mset (map (\<lambda>v. (ub_source_url v, ub_basin_hint v)) (snd (bind_plans parsed ub))) =
     mset (map (\<lambda>p. (pp_source_url p, pp_basin_hint p)) (filter (\<lambda>p. claim_of ub parsed p = None) parsed))"
proof -
  have "mset (concat (map snd (group_by pp_source_url parsed))) = mset parsed" by (rule group_by_values)
  from bound_list_mset [OF this, of ub parsed] unclaimed_mset [OF this, of ub parsed] bind_plans_exact [of parsed ub]
  show ?thesis by (simp add: bound_list_def unclaimed_def reported_def [abs_def])
qed

text \<open>
  C34: a lane plan reaches only a basin that declared it: attaching changes nothing of a facility
  but the lane plans of its basins, and a basin's plan only to one parsed from the very URL a
  source of that pool and basin declares, whose header contains the declared section token
  when there is one, stamped with the time of the run.
\<close>

theorem plans_reach_only_declaring_basins:
  assumes "attach_lane_plans srepr facilities parsed fetched_at = Ok att"
  shows "list_all2 (\<lambda>f f'. f' = f\<lparr>basins := basins f'\<rparr> \<and>
      list_all2 (\<lambda>b b'. b' = b \<or> (\<exists>p \<in> set parsed. declares facilities (facility_id (identity f), bn_id b) p \<and>
        b' = b\<lparr>lane_plan_of := Some (Parsed (pp_plan p\<lparr>lp_fetched_at := Some fetched_at\<rparr>))\<rparr>)) (basins f) (basins f'))
    facilities (at_facilities att)"
proof -
  obtain ub by_basin where ub: "build_url_bindings srepr facilities = Ok ub"
      and ix: "index_bound_plans srepr (fst (bind_plans parsed ub)) = Ok by_basin"
      and fs: "at_facilities att = map (\<lambda>f. fst (attach_facility by_basin fetched_at f)) facilities"
    using assms unfolding attach_Ok by auto
  have basin: "fst (attach_basin by_basin fetched_at f b) = b \<or> (\<exists>p \<in> set parsed. declares facilities (facility_id (identity f), bn_id b) p \<and>
      fst (attach_basin by_basin fetched_at f b) = b\<lparr>lane_plan_of := Some (Parsed (pp_plan p\<lparr>lp_fetched_at := Some fetched_at\<rparr>))\<rparr>)" for f b
  proof (cases "map_of by_basin (facility_id (identity f), bn_id b)")
    case None
    then show ?thesis by (simp add: attach_basin_fst)
  next
    case (Some plan)
    then obtain bp where bp: "bp \<in> set (fst (bind_plans parsed ub))" "bound_ref bp = (facility_id (identity f), bn_id b)" "bp_plan bp = plan"
      using index_bound_plans_Ok [OF ix] by blast
    then obtain c p where c: "p \<in> set parsed" "claim_of ub parsed p = Some c" "bp = bound_to c p" unfolding set_bound by blast
    have "declares facilities (facility_id (identity f), bn_id b) p"
      using claim_declared [OF ub c(2)] bp(2) c(3) by (simp add: bound_ref_def bound_to_def)
    moreover have "plan = pp_plan p" using bp(3) c(3) by (simp add: bound_to_def)
    ultimately show ?thesis using Some c(1) by (auto simp: attach_basin_fst attached_def)
  qed
  show ?thesis unfolding fs list_all2_conv_all_nth by (auto simp: attach_facility_fst basin)
qed

theorem plans_reach_only_declaring_basins_witness:
  "\<exists>p \<in> {ex_parsed}. declares [ex_facility (u ''p'') [ex_sheet_basin]] (u ''p'', u ''b'') p \<and>
     attached ex_plan ex_run_time ex_sheet_basin = attached (pp_plan p) ex_run_time ex_sheet_basin"
proof -
  obtain att where att: "attach_lane_plans (\<lambda>s. s) [ex_facility (u ''p'') [ex_sheet_basin]] [ex_parsed] ex_run_time = Ok att"
      "at_facilities att = [ex_facility (u ''p'') [attached ex_plan ex_run_time ex_sheet_basin]]"
    using ex_attached by blast
  have changed: "attached ex_plan ex_run_time ex_sheet_basin \<noteq> ex_sheet_basin" by (simp add: attached_def ex_sheet_basin_def)
  have fields: "facility_id (identity (ex_facility (u ''p'') [ex_sheet_basin])) = u ''p''" "bn_id ex_sheet_basin = u ''b''"
      "basins (ex_facility (u ''p'') bs) = bs" for bs
    by (simp_all add: ex_facility_def ex_identity_def ex_sheet_basin_def)
  from plans_reach_only_declaring_basins [OF att(1)] changed show ?thesis
    unfolding att(2) attached_def by (simp add: fields)
qed

text \<open>
  the join fails exactly on ambiguity: attaching returns an attachment when, and only when, no two
  basins declare the same section of the same sheet and no two parsed plans are bound to the
  same basin, and an error otherwise; it never overwrites one plan with another.
\<close>

theorem attach_fails_iff_ambiguous:
  "(\<exists>att. attach_lane_plans srepr facilities parsed fetched_at = Ok att) \<longleftrightarrow>
     distinct (map (\<lambda>d. (lps_url (snd d), lps_section (snd d))) (declared_sources facilities)) \<and>
     (\<exists>ub. build_url_bindings srepr facilities = Ok ub \<and>
       distinct (map (\<lambda>b. (bp_pool b, bp_basin b)) (fst (bind_plans parsed ub))))"
proof -
  have key: "(\<lambda>d. source_key (snd d)) = (\<lambda>d :: basin_ref \<times> lane_plan_source. (lps_url (snd d), lps_section (snd d)))"
    by (simp add: source_key_def)
  have "distinct (map (\<lambda>d. source_key (snd d)) (declared_sources facilities))" if "build_url_bindings srepr facilities = Ok ub" for ub
    using that by (simp add: build_url_bindings_Ok)
  then show ?thesis
    unfolding attach_Ok key [symmetric] bound_ref_def [abs_def, symmetric] by (auto simp: index_bound_plans_def index_bound_Ok)
qed

text \<open>
  every advertised sheet is accounted for: extraction visits each discovered URL once; a URL
  that yields no plan list is listed as a miss with its cause, exactly once, no URL is both a
  miss and the source of plans, and every plan carries the discovered URL it came from.
\<close>

theorem extraction_accounts_for_every_link:
  assumes "scrape_lane_plans frepr pdf get links w = (Inr report, w')"
  shows "pp_source_url ` set (rp_plans report) \<subseteq> dl_url ` set links \<and> lm_url ` set (rp_misses report) \<subseteq> dl_url ` set links \<and>
    pp_source_url ` set (rp_plans report) \<inter> lm_url ` set (rp_misses report) = {} \<and> distinct (map lm_url (rp_misses report)) \<and>
    (\<forall>l \<in> set links. dl_url l \<in> lm_url ` set (rp_misses report) \<or>
      (\<exists>v v' parsed. scrape_belegungsplan_sheet frepr pdf get (dl_url l) v = (Inr (Ok parsed), v') \<and>
        set (map (\<lambda>p. p\<lparr>pp_source_url := dl_url l\<rparr>) parsed) \<subseteq> set (rp_plans report)))"
proof -
  obtain ps ms where h: "rp_plans report = ps" "rp_misses report = ms" "pp_source_url ` set ps \<subseteq> set (fetch_set links)"
    "set (map lm_url ms) \<subseteq> set (fetch_set links)"
    "pp_source_url ` set ps \<inter> lm_url ` set ms = {} \<and> distinct (map lm_url ms)"
    "\<forall>url \<in> set (fetch_set links). url \<in> lm_url ` set ms \<or>
       (\<exists>v v' parsed. scrape_belegungsplan_sheet frepr pdf get url v = (Inr (Ok parsed), v') \<and>
         set (map (\<lambda>p. p\<lparr>pp_source_url := url\<rparr>) parsed) \<subseteq> set ps)"
    using scrape_urls_accounts [OF assms [unfolded scrape_lane_plans_def]] fetch_set_facts(1) [of links] by auto
  moreover from h(4) have "lm_url ` set ms \<subseteq> dl_url ` set links" by (simp add: fetch_set_facts(2))
  ultimately show ?thesis by (simp add: fetch_set_facts(2) del: set_map)
qed

theorem extraction_accounts_for_every_link_witness:
  "\<exists>report. scrape_lane_plans (\<lambda>x. []) (\<lambda>raw. PdfEmpty) (\<lambda>url n. (Inr (Err (Timeout url 10)), n + 1))
     [\<lparr>dl_pool = u ''p'', dl_url = u ''a.pdf''\<rparr>, \<lparr>dl_pool = u ''q'', dl_url = u ''a.pdf''\<rparr>] (0 :: nat) = (Inr report, 1) \<and>
     distinct (map lm_url (rp_misses report))"
proof -
  have run: "scrape_lane_plans (\<lambda>x. []) (\<lambda>raw. PdfEmpty) (\<lambda>url n. (Inr (Err (Timeout url 10)), n + 1))
     [\<lparr>dl_pool = u ''p'', dl_url = u ''a.pdf''\<rparr>, \<lparr>dl_pool = u ''q'', dl_url = u ''a.pdf''\<rparr>] (0 :: nat) =
     (Inr \<lparr>rp_plans = [], rp_misses = [\<lparr>lm_url = u ''a.pdf'', lm_cause = Timeout (u ''a.pdf'') 10\<rparr>]\<rparr>, 1)"
    by (simp add: scrape_lane_plans_def fetch_set_def scrape_belegungsplan_sheet_def fetch_plan_def)
  from extraction_accounts_for_every_link [OF this] run show ?thesis by blast
qed

end
