(* ===== verification/Tokens.thy ===== *)
theory Tokens
  imports Models PyDict
begin

text \<open>
  The token tables of \<open>src/swimzh/boundary/mapping.py\<close> and \<open>storage/codec.py\<close>: each
  enumeration's wire values and the dictionaries that translate them in both directions.
  A lookup is \<open>table[key]\<close> and raises \<open>KeyError\<close> on an unknown key. The locale
  \<open>wire\<close> states what a pair of conversions owes its callers; its lemmas carry it from a
  type to the lists and the optional values of that type.
\<close>

section \<open>Comprehensions over conversions that may raise\<close>

fun map_err :: "('a \<Rightarrow> py_error + 'b) \<Rightarrow> 'a list \<Rightarrow> py_error + 'b list" where
  "map_err f [] = Inr []"
| "map_err f (x # xs) = bind_err (f x) (\<lambda>y. bind_err (map_err f xs) (\<lambda>ys. Inr (y # ys)))"

definition opt_err :: "('a \<Rightarrow> py_error + 'b) \<Rightarrow> 'a option \<Rightarrow> py_error + 'b option" where
  "opt_err f x = (case x of None \<Rightarrow> Inr None | Some v \<Rightarrow> bind_err (f v) (\<lambda>y. Inr (Some y)))"

definition dict_at :: "('k \<times> 'v) list \<Rightarrow> 'k \<Rightarrow> py_error + 'v" where
  "dict_at table k = (case map_of table k of None \<Rightarrow> Inl KeyError | Some v \<Rightarrow> Inr v)"

text \<open>\<open>{x.value: x for x in Enum}\<close> and \<open>{v: k for k, v in table.items()}\<close>.\<close>

definition by_value :: "('e \<Rightarrow> 'k) \<Rightarrow> 'e list \<Rightarrow> ('k \<times> 'e) list" where
  "by_value f xs = map (\<lambda>x. (f x, x)) xs"

definition inverted :: "('k \<times> 'v) list \<Rightarrow> ('v \<times> 'k) list" where
  "inverted table = map (\<lambda>(k, v). (v, k)) table"

lemma opt_err_simps [simp]:
  "opt_err f None = Inr None" "opt_err f (Some v) = bind_err (f v) (\<lambda>y. Inr (Some y))"
  by (simp_all add: opt_err_def)

lemma map_err_Inr: "map_err f xs = Inr ys \<longleftrightarrow> list_all2 (\<lambda>x y. f x = Inr y) xs ys"
proof (induction xs arbitrary: ys)
  case (Cons x xs)
  then show ?case by (cases ys) (auto simp: bind_err_Inr)
qed auto

lemma map_err_pure [simp]: "map_err (\<lambda>x. Inr (f x)) xs = Inr (map f xs)"
  by (induction xs) simp_all

section \<open>The contract of a pair of conversions\<close>

locale wire =
  fixes good :: "'a \<Rightarrow> bool" and enc :: "'a \<Rightarrow> py_error + 'b" and dec :: "'b \<Rightarrow> py_error + 'a"
  assumes there_and_back: "good x \<Longrightarrow> \<exists>y. enc x = Inr y \<and> dec y = Inr x"
begin

lemma enc_total: "good x \<Longrightarrow> \<exists>y. enc x = Inr y"
  using there_and_back by blast

lemma dec_enc: "good x \<Longrightarrow> enc x = Inr y \<Longrightarrow> dec y = Inr x"
  using there_and_back by fastforce

lemma enc_inj: "good x \<Longrightarrow> good x' \<Longrightarrow> enc x = Inr y \<Longrightarrow> enc x' = Inr y \<Longrightarrow> x = x'"
  by (metis dec_enc sum.inject(2))

lemma list_there_and_back:
  "\<forall>x \<in> set xs. good x \<Longrightarrow> \<exists>ys. map_err enc xs = Inr ys \<and> map_err dec ys = Inr xs"
proof (induction xs)
  case (Cons x xs)
  moreover obtain y where "enc x = Inr y" "dec y = Inr x" using there_and_back [of x] Cons.prems by auto
  ultimately show ?case by (auto simp: bind_err_Inr)
qed simp

lemma option_there_and_back:
  "\<forall>x. v = Some x \<longrightarrow> good x \<Longrightarrow> \<exists>y. opt_err enc v = Inr y \<and> opt_err dec y = Inr v"
  using there_and_back by (cases v) fastforce+

end

text \<open>Conversions that never raise.\<close>

locale total_wire =
  fixes enc :: "'a \<Rightarrow> 'b" and dec :: "'b \<Rightarrow> 'a"
  assumes dec_of_enc: "dec (enc x) = x"

sublocale total_wire \<subseteq> wire "\<lambda>_. True" "\<lambda>x. Inr (enc x)" "\<lambda>y. Inr (dec y)"
  by unfold_locales (simp add: dec_of_enc)

section \<open>Wire values of the enumerations\<close>

fun day_scope_value :: "day_scope \<Rightarrow> pystr" where
  "day_scope_value ALWAYS = u ''always''"
| "day_scope_value SCHOOL_TERM = u ''school_term''"
| "day_scope_value SCHOOL_HOLIDAY = u ''school_holiday''"

fun holiday_policy_value :: "holiday_policy \<Rightarrow> pystr" where
  "holiday_policy_value NORMAL = u ''normal''"
| "holiday_policy_value SUNDAY_SCHEDULE = u ''sunday_schedule''"
| "holiday_policy_value POLICY_CLOSED = u ''closed''"

fun pool_kind_value :: "pool_kind \<Rightarrow> pystr" where
  "pool_kind_value INDOOR = u ''indoor''"
| "pool_kind_value OUTDOOR_POOL = u ''outdoor''"
| "pool_kind_value RIVER = u ''river''"
| "pool_kind_value LAKE = u ''lake''"
| "pool_kind_value SCHOOL = u ''school''"
| "pool_kind_value PADDLING = u ''paddling''"
| "pool_kind_value THERMAL = u ''thermal''"

fun price_category_value :: "price_category \<Rightarrow> pystr" where
  "price_category_value CHILD = u ''child''"
| "price_category_value YOUTH = u ''youth''"
| "price_category_value ADULT = u ''adult''"

fun basin_kind_value :: "basin_kind \<Rightarrow> pystr" where
  "basin_kind_value LAP = u ''lap''"
| "basin_kind_value NON_SWIMMER = u ''non_swimmer''"
| "basin_kind_value DIVING = u ''diving''"
| "basin_kind_value VARIO = u ''vario''"
| "basin_kind_value TEACHING = u ''teaching''"
| "basin_kind_value CHILDREN = u ''children''"
| "basin_kind_value OUTDOOR_BASIN = u ''outdoor''"
| "basin_kind_value BASIN_OTHER = u ''other''"

fun basin_source_value :: "basin_source \<Rightarrow> pystr" where
  "basin_source_value CURATED_PHYSICALS = u ''curated''"
| "basin_source_value PARSED_PROSE = u ''parsed_prose''"

fun plan_confidence_value :: "plan_confidence \<Rightarrow> pystr" where
  "plan_confidence_value COMPLETE = u ''complete''"
| "plan_confidence_value PARTIAL = u ''partial''"

fun feature_kind_value :: "feature_kind \<Rightarrow> pystr" where
  "feature_kind_value SAUNA = u ''sauna''"
| "feature_kind_value STEAM_BATH = u ''steam_bath''"
| "feature_kind_value WELLNESS = u ''wellness''"
| "feature_kind_value SLIDE = u ''slide''"
| "feature_kind_value HOT_TUB = u ''hot_tub''"
| "feature_kind_value TERRACE = u ''terrace''"
| "feature_kind_value REST = u ''rest''"
| "feature_kind_value GASTRONOMY = u ''gastronomy''"

fun locker_category_value :: "locker_category \<Rightarrow> pystr" where
  "locker_category_value WARDROBE = u ''wardrobe''"
| "locker_category_value VALUABLES = u ''valuables''"
| "locker_category_value LAUNDRY = u ''laundry''"

fun locker_mechanism_value :: "locker_mechanism \<Rightarrow> pystr" where
  "locker_mechanism_value COIN = u ''coin''"
| "locker_mechanism_value KEY = u ''key''"
| "locker_mechanism_value CHIP = u ''chip''"
| "locker_mechanism_value WRISTBAND = u ''wristband''"
| "locker_mechanism_value MECH_OTHER = u ''other''"

fun rental_kind_value :: "rental_kind \<Rightarrow> pystr" where
  "rental_kind_value TOWEL = u ''towel''"
| "rental_kind_value SWIMWEAR = u ''swimwear''"
| "rental_kind_value GOGGLES = u ''goggles''"
| "rental_kind_value CABIN = u ''cabin''"
| "rental_kind_value SUNLOUNGER = u ''sunlounger''"
| "rental_kind_value PARASOL = u ''parasol''"
| "rental_kind_value RENTAL_OTHER = u ''other''"

section \<open>The dictionaries\<close>

definition WEEKDAY_FROM :: "(pystr \<times> weekday) list" where
  "WEEKDAY_FROM = [(u ''mon'', MONDAY), (u ''tue'', TUESDAY), (u ''wed'', WEDNESDAY),
     (u ''thu'', THURSDAY), (u ''fri'', FRIDAY), (u ''sat'', SATURDAY), (u ''sun'', SUNDAY)]"

definition WEEKDAY_TO :: "(weekday \<times> pystr) list" where
  "WEEKDAY_TO = inverted WEEKDAY_FROM"

definition SCOPE_FROM :: "(pystr \<times> day_scope) list" where
  "SCOPE_FROM = by_value day_scope_value [ALWAYS, SCHOOL_TERM, SCHOOL_HOLIDAY]"

definition SCOPE_TO :: "(day_scope \<times> pystr) list" where
  "SCOPE_TO = [(ALWAYS, u ''always''), (SCHOOL_TERM, u ''school_term''), (SCHOOL_HOLIDAY, u ''school_holiday'')]"

definition PRECISION_FROM :: "(pystr \<times> date_precision) list" where
  "PRECISION_FROM = by_value date_precision_value [PRECISION_DAY, PRECISION_MONTH]"

definition PRECISION_TO :: "(date_precision \<times> pystr) list" where
  "PRECISION_TO = [(PRECISION_DAY, u ''day''), (PRECISION_MONTH, u ''month'')]"

definition WEATHER_FROM :: "(pystr \<times> weather) list" where
  "WEATHER_FROM = by_value weather_value [ANY, FAIR_ONLY]"

definition WEATHER_TO :: "(weather \<times> pystr) list" where
  "WEATHER_TO = [(ANY, u ''any''), (FAIR_ONLY, u ''fair_only'')]"

definition CATEGORY_FROM :: "(pystr \<times> price_category) list" where
  "CATEGORY_FROM = by_value price_category_value [CHILD, YOUTH, ADULT]"

definition CATEGORY_TO :: "(price_category \<times> pystr) list" where
  "CATEGORY_TO = [(CHILD, u ''child''), (YOUTH, u ''youth''), (ADULT, u ''adult'')]"

definition BASIN_KIND_FROM :: "(pystr \<times> basin_kind) list" where
  "BASIN_KIND_FROM = by_value basin_kind_value
     [LAP, NON_SWIMMER, DIVING, VARIO, TEACHING, CHILDREN, OUTDOOR_BASIN, BASIN_OTHER]"

definition BASIN_KIND_TO :: "(basin_kind \<times> pystr) list" where
  "BASIN_KIND_TO = [(LAP, u ''lap''), (NON_SWIMMER, u ''non_swimmer''), (DIVING, u ''diving''),
     (VARIO, u ''vario''), (TEACHING, u ''teaching''), (CHILDREN, u ''children''),
     (OUTDOOR_BASIN, u ''outdoor''), (BASIN_OTHER, u ''other'')]"

definition BASIN_SOURCE_FROM :: "(pystr \<times> basin_source) list" where
  "BASIN_SOURCE_FROM = by_value basin_source_value [CURATED_PHYSICALS, PARSED_PROSE]"

definition BASIN_SOURCE_TO :: "(basin_source \<times> pystr) list" where
  "BASIN_SOURCE_TO = [(CURATED_PHYSICALS, u ''curated''), (PARSED_PROSE, u ''parsed_prose'')]"

definition PLAN_CONFIDENCE_FROM :: "(pystr \<times> plan_confidence) list" where
  "PLAN_CONFIDENCE_FROM = by_value plan_confidence_value [COMPLETE, PARTIAL]"

definition PLAN_CONFIDENCE_TO :: "(plan_confidence \<times> pystr) list" where
  "PLAN_CONFIDENCE_TO = [(COMPLETE, u ''complete''), (PARTIAL, u ''partial'')]"

definition FEATURE_KIND_FROM :: "(pystr \<times> feature_kind) list" where
  "FEATURE_KIND_FROM = by_value feature_kind_value
     [SAUNA, STEAM_BATH, WELLNESS, SLIDE, HOT_TUB, TERRACE, REST, GASTRONOMY]"

definition FEATURE_KIND_TO :: "(feature_kind \<times> pystr) list" where
  "FEATURE_KIND_TO = [(SAUNA, u ''sauna''), (STEAM_BATH, u ''steam_bath''), (WELLNESS, u ''wellness''),
     (SLIDE, u ''slide''), (HOT_TUB, u ''hot_tub''), (TERRACE, u ''terrace''), (REST, u ''rest''),
     (GASTRONOMY, u ''gastronomy'')]"

definition LOCKER_CATEGORY_FROM :: "(pystr \<times> locker_category) list" where
  "LOCKER_CATEGORY_FROM = by_value locker_category_value [WARDROBE, VALUABLES, LAUNDRY]"

definition LOCKER_CATEGORY_TO :: "(locker_category \<times> pystr) list" where
  "LOCKER_CATEGORY_TO = [(WARDROBE, u ''wardrobe''), (VALUABLES, u ''valuables''), (LAUNDRY, u ''laundry'')]"

definition LOCKER_MECHANISM_FROM :: "(pystr \<times> locker_mechanism) list" where
  "LOCKER_MECHANISM_FROM = by_value locker_mechanism_value [COIN, KEY, CHIP, WRISTBAND, MECH_OTHER]"

definition LOCKER_MECHANISM_TO :: "(locker_mechanism \<times> pystr) list" where
  "LOCKER_MECHANISM_TO = [(COIN, u ''coin''), (KEY, u ''key''), (CHIP, u ''chip''),
     (WRISTBAND, u ''wristband''), (MECH_OTHER, u ''other'')]"

definition RENTAL_KIND_FROM :: "(pystr \<times> rental_kind) list" where
  "RENTAL_KIND_FROM = by_value rental_kind_value
     [TOWEL, SWIMWEAR, GOGGLES, CABIN, SUNLOUNGER, PARASOL, RENTAL_OTHER]"

text \<open>\<open>_rental_kind_to_dto\<close> is a \<open>match\<close>, not a dictionary.\<close>

fun rental_kind_to_dto :: "rental_kind \<Rightarrow> pystr" where
  "rental_kind_to_dto TOWEL = u ''towel''"
| "rental_kind_to_dto SWIMWEAR = u ''swimwear''"
| "rental_kind_to_dto GOGGLES = u ''goggles''"
| "rental_kind_to_dto CABIN = u ''cabin''"
| "rental_kind_to_dto SUNLOUNGER = u ''sunlounger''"
| "rental_kind_to_dto PARASOL = u ''parasol''"
| "rental_kind_to_dto RENTAL_OTHER = u ''other''"

text \<open>The two tables of \<open>storage/codec.py\<close>.\<close>

definition KIND_TO :: "(pool_kind \<times> pystr) list" where
  "KIND_TO = [(INDOOR, u ''indoor''), (OUTDOOR_POOL, u ''outdoor''), (RIVER, u ''river''), (LAKE, u ''lake''),
     (SCHOOL, u ''school''), (PADDLING, u ''paddling''), (THERMAL, u ''thermal'')]"

definition KIND_FROM :: "(pystr \<times> pool_kind) list" where
  "KIND_FROM = by_value pool_kind_value [INDOOR, OUTDOOR_POOL, RIVER, LAKE, SCHOOL, PADDLING, THERMAL]"

definition POLICY_TO :: "(holiday_policy \<times> pystr) list" where
  "POLICY_TO = [(NORMAL, u ''normal''), (SUNDAY_SCHEDULE, u ''sunday_schedule''), (POLICY_CLOSED, u ''closed'')]"

definition POLICY_FROM :: "(pystr \<times> holiday_policy) list" where
  "POLICY_FROM = by_value holiday_policy_value [NORMAL, SUNDAY_SCHEDULE, POLICY_CLOSED]"

section \<open>Every table translates every member, and back\<close>

named_theorems table_simps \<open>the entries of the token tables\<close>

lemmas [table_simps] = dict_at_def by_value_def inverted_def

interpretation weekday_token: wire "\<lambda>_. True" "dict_at WEEKDAY_TO" "dict_at WEEKDAY_FROM"
proof unfold_locales
  fix x show "\<exists>y. dict_at WEEKDAY_TO x = Inr y \<and> dict_at WEEKDAY_FROM y = Inr x"
    by (cases x) (simp_all add: table_simps WEEKDAY_TO_def WEEKDAY_FROM_def)
qed

interpretation scope_token: wire "\<lambda>_. True" "dict_at SCOPE_TO" "dict_at SCOPE_FROM"
proof unfold_locales
  fix x show "\<exists>y. dict_at SCOPE_TO x = Inr y \<and> dict_at SCOPE_FROM y = Inr x"
    by (cases x) (simp_all add: table_simps SCOPE_TO_def SCOPE_FROM_def)
qed

interpretation precision_token: wire "\<lambda>_. True" "dict_at PRECISION_TO" "dict_at PRECISION_FROM"
proof unfold_locales
  fix x show "\<exists>y. dict_at PRECISION_TO x = Inr y \<and> dict_at PRECISION_FROM y = Inr x"
    by (cases x) (simp_all add: table_simps PRECISION_TO_def PRECISION_FROM_def)
qed

interpretation weather_token: wire "\<lambda>_. True" "dict_at WEATHER_TO" "dict_at WEATHER_FROM"
proof unfold_locales
  fix x show "\<exists>y. dict_at WEATHER_TO x = Inr y \<and> dict_at WEATHER_FROM y = Inr x"
    by (cases x) (simp_all add: table_simps WEATHER_TO_def WEATHER_FROM_def)
qed

interpretation category_token: wire "\<lambda>_. True" "dict_at CATEGORY_TO" "dict_at CATEGORY_FROM"
proof unfold_locales
  fix x show "\<exists>y. dict_at CATEGORY_TO x = Inr y \<and> dict_at CATEGORY_FROM y = Inr x"
    by (cases x) (simp_all add: table_simps CATEGORY_TO_def CATEGORY_FROM_def)
qed

interpretation basin_kind_token: wire "\<lambda>_. True" "dict_at BASIN_KIND_TO" "dict_at BASIN_KIND_FROM"
proof unfold_locales
  fix x show "\<exists>y. dict_at BASIN_KIND_TO x = Inr y \<and> dict_at BASIN_KIND_FROM y = Inr x"
    by (cases x) (simp_all add: table_simps BASIN_KIND_TO_def BASIN_KIND_FROM_def)
qed

interpretation basin_source_token: wire "\<lambda>_. True" "dict_at BASIN_SOURCE_TO" "dict_at BASIN_SOURCE_FROM"
proof unfold_locales
  fix x show "\<exists>y. dict_at BASIN_SOURCE_TO x = Inr y \<and> dict_at BASIN_SOURCE_FROM y = Inr x"
    by (cases x) (simp_all add: table_simps BASIN_SOURCE_TO_def BASIN_SOURCE_FROM_def)
qed

interpretation plan_confidence_token: wire "\<lambda>_. True" "dict_at PLAN_CONFIDENCE_TO" "dict_at PLAN_CONFIDENCE_FROM"
proof unfold_locales
  fix x show "\<exists>y. dict_at PLAN_CONFIDENCE_TO x = Inr y \<and> dict_at PLAN_CONFIDENCE_FROM y = Inr x"
    by (cases x) (simp_all add: table_simps PLAN_CONFIDENCE_TO_def PLAN_CONFIDENCE_FROM_def)
qed

interpretation feature_kind_token: wire "\<lambda>_. True" "dict_at FEATURE_KIND_TO" "dict_at FEATURE_KIND_FROM"
proof unfold_locales
  fix x show "\<exists>y. dict_at FEATURE_KIND_TO x = Inr y \<and> dict_at FEATURE_KIND_FROM y = Inr x"
    by (cases x) (simp_all add: table_simps FEATURE_KIND_TO_def FEATURE_KIND_FROM_def)
qed

interpretation locker_category_token: wire "\<lambda>_. True" "dict_at LOCKER_CATEGORY_TO" "dict_at LOCKER_CATEGORY_FROM"
proof unfold_locales
  fix x show "\<exists>y. dict_at LOCKER_CATEGORY_TO x = Inr y \<and> dict_at LOCKER_CATEGORY_FROM y = Inr x"
    by (cases x) (simp_all add: table_simps LOCKER_CATEGORY_TO_def LOCKER_CATEGORY_FROM_def)
qed

interpretation locker_mechanism_token: wire "\<lambda>_. True" "dict_at LOCKER_MECHANISM_TO" "dict_at LOCKER_MECHANISM_FROM"
proof unfold_locales
  fix x show "\<exists>y. dict_at LOCKER_MECHANISM_TO x = Inr y \<and> dict_at LOCKER_MECHANISM_FROM y = Inr x"
    by (cases x) (simp_all add: table_simps LOCKER_MECHANISM_TO_def LOCKER_MECHANISM_FROM_def)
qed

interpretation rental_kind_token: wire "\<lambda>_. True" "\<lambda>k. Inr (rental_kind_to_dto k)" "dict_at RENTAL_KIND_FROM"
proof unfold_locales
  fix x show "\<exists>y. Inr (rental_kind_to_dto x) = Inr y \<and> dict_at RENTAL_KIND_FROM y = Inr x"
    by (cases x) (simp_all add: table_simps RENTAL_KIND_FROM_def)
qed

interpretation kind_token: wire "\<lambda>_. True" "dict_at KIND_TO" "dict_at KIND_FROM"
proof unfold_locales
  fix x show "\<exists>y. dict_at KIND_TO x = Inr y \<and> dict_at KIND_FROM y = Inr x"
    by (cases x) (simp_all add: table_simps KIND_TO_def KIND_FROM_def)
qed

interpretation policy_token: wire "\<lambda>_. True" "dict_at POLICY_TO" "dict_at POLICY_FROM"
proof unfold_locales
  fix x show "\<exists>y. dict_at POLICY_TO x = Inr y \<and> dict_at POLICY_FROM y = Inr x"
    by (cases x) (simp_all add: table_simps POLICY_TO_def POLICY_FROM_def)
qed

end
