(* ===== verification/Curated_Dto.thy ===== *)
theory Curated_Dto
  imports Models
begin

text \<open>
  \<open>src/swimzh/boundary/curated_dto.py\<close>: the shapes that cross the boundary, in the store and
  in the hand-written files. A \<open>Literal\<close> field is a string here (the tokens are those of
  \<open>Tokens\<close>), a discriminated union a datatype; the numeric bounds of \<open>SeasonDTO\<close> are
  checked by its constructor. The serialisers that drop defaulted keys take the members that
  pydantic's own serialiser (\<open>handler\<close>) produced.
\<close>

section \<open>Access\<close>

datatype access_dto =
    PublicDTO
  | LaneSwimDTO pystr
  | FamilyDTO pystr
  | WomenOnlyDTO pystr
  | SeniorsOnlyDTO int
  | SchoolReservedDTO
  | ClubReservedDTO pystr
  | AdultsOnlyDTO int pystr
  | GirlsOnlyDTO
  | GenderDiverseDTO int
  | AccompaniedChildrenDTO

text \<open>The discriminator \<open>type\<close>.\<close>

fun access_dto_type :: "access_dto \<Rightarrow> pystr" where
  "access_dto_type PublicDTO = u ''public''"
| "access_dto_type (LaneSwimDTO _) = u ''lane_swim''"
| "access_dto_type (FamilyDTO _) = u ''family''"
| "access_dto_type (WomenOnlyDTO _) = u ''women_only''"
| "access_dto_type (SeniorsOnlyDTO _) = u ''seniors_only''"
| "access_dto_type SchoolReservedDTO = u ''school_reserved''"
| "access_dto_type (ClubReservedDTO _) = u ''club_reserved''"
| "access_dto_type (AdultsOnlyDTO _ _) = u ''adults_only''"
| "access_dto_type GirlsOnlyDTO = u ''girls_only''"
| "access_dto_type (GenderDiverseDTO _) = u ''gender_diverse''"
| "access_dto_type AccompaniedChildrenDTO = u ''accompanied_children''"

section \<open>Schedule\<close>

record season_dto =
  start_month :: int
  start_day :: int
  end_month :: int
  end_day :: int
  sed_precision :: pystr

text \<open>\<open>Field(ge=..., le=...)\<close>; pydantic's \<open>ValidationError\<close> is a \<open>ValueError\<close>.\<close>

definition mk_season_dto :: "int \<Rightarrow> int \<Rightarrow> int \<Rightarrow> int \<Rightarrow> pystr \<Rightarrow> py_error + season_dto" where
  "mk_season_dto sm sd em ed precision =
     (if 1 \<le> sm \<and> sm \<le> 12 \<and> 1 \<le> sd \<and> sd \<le> 31 \<and> 1 \<le> em \<and> em \<le> 12 \<and> 1 \<le> ed \<and> ed \<le> 31
      then Inr \<lparr>start_month = sm, start_day = sd, end_month = em, end_day = ed, sed_precision = precision\<rparr>
      else Inl ValueError)"

record operating_season_dto =
  osd_window :: season_dto
  osd_weather :: pystr

record rule_dto =
  rud_weekdays :: "pystr list"
  rud_start :: time
  rud_end :: time
  rud_access :: access_dto
  rud_scope :: pystr
  rud_source_text :: pystr
  rud_season :: "season_dto option"
  rud_weather :: pystr

record resolved_session_dto =
  rsd_start :: time
  rsd_end :: time
  rsd_access :: access_dto
  rsd_weather :: pystr

record exception_dto =
  exd_date :: date
  exd_closed :: bool
  exd_reason :: pystr
  exd_sessions :: "resolved_session_dto list"

record closure_dto =
  cld_start :: date
  cld_end :: date
  cld_reason :: pystr

record dimensions_dto =
  did_length_m :: rat
  did_width_m :: "rat option"

section \<open>Provider errors\<close>

datatype provider_error_dto =
    TimeoutDTO pystr rat
  | ConnectionFailedDTO pystr pystr
  | HttpStatusDTO pystr int pystr
  | RateLimitedDTO pystr "rat option"
  | DecodeErrorDTO pystr pystr
  | ParseErrorDTO pystr pystr pystr
  | SchemaMismatchDTO pystr pystr
  | TooLargeDTO pystr int
  | RedirectDTO pystr pystr int
  | ProviderSpecificDTO pystr json

section \<open>Lane plans\<close>

record lane_plan_source_dto =
  lsd_url :: pystr
  lsd_section :: "pystr option"

record lane_plan_unavailable_dto =
  lud_source_url :: pystr
  lud_cause :: provider_error_dto
  lud_observed_at :: datetime
  lud_section :: "pystr option"

record lane_reservation_dto =
  lrd_weekdays :: "pystr list"
  lrd_start :: time
  lrd_end :: time
  lrd_lanes :: "int list"
  lrd_access :: access_dto
  lrd_section :: "pystr option"

record plan_coverage_dto =
  pcd_confidence :: pystr
  pcd_cells_total :: int
  pcd_cells_resolved :: int
  pcd_unresolved_lanes :: "int list"

record lane_plan_dto =
  lpd_lane_count :: int
  lpd_reservations :: "lane_reservation_dto list"
  lpd_valid_from :: "date option"
  lpd_coverage :: plan_coverage_dto
  lpd_fetched_at :: "datetime option"
  lpd_lanes_by_weekday :: "(pystr \<times> int) list option"

datatype lane_plan_union = PlanDTO lane_plan_dto | UnavailableDTO lane_plan_unavailable_dto

section \<open>Basins, features, lockers, rentals\<close>

record basin_dto =
  bad_basin_id :: pystr
  bad_name :: pystr
  bad_rules :: "rule_dto list"
  bad_exceptions :: "exception_dto list"
  bad_kind :: pystr
  bad_dimensions :: "dimensions_dto option"
  bad_lanes :: "int option"
  bad_nominal_temp_c :: "rat option"
  bad_measured_temp_c :: "rat option"
  bad_diving_platforms_m :: "rat list"
  bad_physical_source :: pystr
  bad_lane_plan_source :: "lane_plan_source_dto option"
  bad_lane_plan :: "lane_plan_union option"

record feature_dto =
  fed_kind :: pystr
  fed_name :: pystr
  fed_hours :: "rule_dto list"
  fed_surcharge_chf :: "rat option"
  fed_temp_c :: "rat option"
  fed_note :: pystr

record locker_option_dto =
  lod_category :: pystr
  lod_fee_chf :: "rat option"
  lod_deposit_chf :: "rat option"
  lod_period :: "pystr option"
  lod_mechanism :: "pystr option"
  lod_raw :: pystr

record rental_item_dto =
  rid_kind :: pystr
  rid_fee_chf :: "rat option"
  rid_fee_state :: "pystr option"
  rid_deposit_chf :: "rat option"
  rid_period :: "pystr option"
  rid_raw :: pystr

section \<open>Prices, location, calendar\<close>

record price_entry_dto =
  ped_category :: pystr
  ped_amount_chf :: rat
  ped_display :: pystr
  ped_min_age :: "int option"

record price_table_dto =
  ptd_entries :: "price_entry_dto list"
  ptd_valid_as_of :: "date option"
  ptd_source_url :: "pystr option"

record geo_dto =
  ged_lat :: real
  ged_lon :: real

record public_holiday_dto =
  phd_date :: date
  phd_name :: pystr

record school_holiday_dto =
  shd_name :: pystr
  shd_start :: date
  shd_end :: date

record calendar_dto =
  cad_known_years :: "int list"
  cad_public_holidays :: "public_holiday_dto list"
  cad_school_holidays :: "school_holiday_dto list"

section \<open>Serialisers that drop defaulted keys\<close>

type_synonym members = "(pystr \<times> json) list"

definition pop_key :: "pystr \<Rightarrow> members \<Rightarrow> members" where
  "pop_key k ms = filter (\<lambda>(k', v). k' \<noteq> k) ms"

definition pop_when :: "bool \<Rightarrow> pystr \<Rightarrow> members \<Rightarrow> members" where
  "pop_when c k ms = (if c then pop_key k ms else ms)"

definition rule_serialize :: "(rule_dto \<Rightarrow> members) \<Rightarrow> rule_dto \<Rightarrow> members" where
  "rule_serialize handler d =
     pop_when (rud_weather d = u ''any'') (u ''weather'')
       (pop_when (rud_season d = None) (u ''season'')
         (pop_when (rud_source_text d = []) (u ''source_text'') (handler d)))"

definition resolved_session_serialize :: "(resolved_session_dto \<Rightarrow> members) \<Rightarrow> resolved_session_dto \<Rightarrow> members" where
  "resolved_session_serialize handler d = pop_when (rsd_weather d = u ''any'') (u ''weather'') (handler d)"

definition lane_plan_source_serialize :: "(lane_plan_source_dto \<Rightarrow> members) \<Rightarrow> lane_plan_source_dto \<Rightarrow> members" where
  "lane_plan_source_serialize handler d = pop_when (lsd_section d = None) (u ''section'') (handler d)"

definition lane_plan_unavailable_serialize ::
  "(lane_plan_unavailable_dto \<Rightarrow> members) \<Rightarrow> lane_plan_unavailable_dto \<Rightarrow> members" where
  "lane_plan_unavailable_serialize handler d = pop_when (lud_section d = None) (u ''section'') (handler d)"

definition lane_reservation_serialize :: "(lane_reservation_dto \<Rightarrow> members) \<Rightarrow> lane_reservation_dto \<Rightarrow> members" where
  "lane_reservation_serialize handler d = pop_when (lrd_section d = None) (u ''section'') (handler d)"

definition lane_plan_serialize :: "(lane_plan_dto \<Rightarrow> members) \<Rightarrow> lane_plan_dto \<Rightarrow> members" where
  "lane_plan_serialize handler d = pop_when (lpd_lanes_by_weekday d = None) (u ''lanes_by_weekday'') (handler d)"

definition basin_serialize :: "(basin_dto \<Rightarrow> members) \<Rightarrow> basin_dto \<Rightarrow> members" where
  "basin_serialize handler d =
     pop_when (bad_lane_plan_source d = None) (u ''lane_plan_source'')
       (pop_when (bad_diving_platforms_m d = []) (u ''diving_platforms_m'')
         (pop_when (bad_measured_temp_c d = None) (u ''measured_temp_c'') (handler d)))"

definition rental_item_serialize :: "(rental_item_dto \<Rightarrow> members) \<Rightarrow> rental_item_dto \<Rightarrow> members" where
  "rental_item_serialize handler d = pop_when (rid_fee_state d = None) (u ''fee_state'') (handler d)"

definition price_entry_serialize :: "(price_entry_dto \<Rightarrow> members) \<Rightarrow> price_entry_dto \<Rightarrow> members" where
  "price_entry_serialize handler d = pop_when (ped_min_age d = None) (u ''min_age'') (handler d)"

lemma map_of_pop_key: "map_of (pop_key k ms) k' = (if k' = k then None else map_of ms k')"
  by (induction ms) (auto simp: pop_key_def)

lemma map_of_pop_when: "map_of (pop_when c k ms) k' = (if c \<and> k' = k then None else map_of ms k')"
  by (simp add: pop_when_def map_of_pop_key)

end
