(* ===== verification/Dto_Mapping.thy ===== *)
theory Dto_Mapping
  imports Tokens Curated_Dto
begin

text \<open>
  \<open>src/swimzh/boundary/mapping.py\<close>: both directions between the domain and the DTOs. A
  conversion that looks a token up or builds a validated value may raise; the others are
  plain functions. A \<open>frozenset\<close> is written out with \<open>sorted\<close> and read back as the set of
  its list. Each pair is shown to be a \<open>wire\<close>: it never raises on the values the domain's
  constructors build, and reading gives back what was written.
\<close>

section \<open>Access\<close>

fun access_from_dto :: "access_dto \<Rightarrow> session_access" where
  "access_from_dto PublicDTO = PublicSwim"
| "access_from_dto (LaneSwimDTO n) = LaneSwim n"
| "access_from_dto (FamilyDTO n) = FamilyTime n"
| "access_from_dto (WomenOnlyDTO n) = WomenOnly n"
| "access_from_dto (SeniorsOnlyDTO a) = SeniorsOnly a"
| "access_from_dto SchoolReservedDTO = SchoolReserved"
| "access_from_dto (ClubReservedDTO c) = ClubReserved c"
| "access_from_dto (AdultsOnlyDTO a n) = AdultsOnly a n"
| "access_from_dto GirlsOnlyDTO = GirlsOnly"
| "access_from_dto (GenderDiverseDTO a) = GenderDiverse a"
| "access_from_dto AccompaniedChildrenDTO = AccompaniedChildren"

fun access_to_dto :: "session_access \<Rightarrow> access_dto" where
  "access_to_dto PublicSwim = PublicDTO"
| "access_to_dto (LaneSwim n) = LaneSwimDTO n"
| "access_to_dto (FamilyTime n) = FamilyDTO n"
| "access_to_dto (WomenOnly n) = WomenOnlyDTO n"
| "access_to_dto (SeniorsOnly a) = SeniorsOnlyDTO a"
| "access_to_dto SchoolReserved = SchoolReservedDTO"
| "access_to_dto (ClubReserved c) = ClubReservedDTO c"
| "access_to_dto (AdultsOnly a n) = AdultsOnlyDTO a n"
| "access_to_dto GirlsOnly = GirlsOnlyDTO"
| "access_to_dto (GenderDiverse a) = GenderDiverseDTO a"
| "access_to_dto AccompaniedChildren = AccompaniedChildrenDTO"

interpretation access_wire: total_wire access_to_dto access_from_dto
proof unfold_locales
  fix a show "access_from_dto (access_to_dto a) = a" by (cases a) simp_all
qed

section \<open>Schedule pieces\<close>

definition season_from_dto :: "season_dto \<Rightarrow> py_error + annual_window" where
  "season_from_dto d =
     bind_err (mk_month_day (start_month d) (start_day d)) (\<lambda>s.
     bind_err (mk_month_day (end_month d) (end_day d)) (\<lambda>e.
     bind_err (dict_at PRECISION_FROM (sed_precision d)) (\<lambda>p.
       Inr \<lparr>aw_start = s, aw_end = e, aw_precision = p\<rparr>)))"

definition season_to_dto :: "annual_window \<Rightarrow> py_error + season_dto" where
  "season_to_dto w =
     bind_err (dict_at PRECISION_TO (aw_precision w)) (\<lambda>p.
       mk_season_dto (md_month (aw_start w)) (md_day (aw_start w)) (md_month (aw_end w)) (md_day (aw_end w)) p)"

definition operating_season_from_dto :: "operating_season_dto \<Rightarrow> py_error + operating_season_rec" where
  "operating_season_from_dto d =
     bind_err (season_from_dto (osd_window d)) (\<lambda>w.
     bind_err (dict_at WEATHER_FROM (osd_weather d)) (\<lambda>we. Inr \<lparr>os_window = w, os_weather = we\<rparr>))"

definition operating_season_to_dto :: "operating_season_rec \<Rightarrow> py_error + operating_season_dto" where
  "operating_season_to_dto s =
     bind_err (season_to_dto (os_window s)) (\<lambda>w.
     bind_err (dict_at WEATHER_TO (os_weather s)) (\<lambda>we. Inr \<lparr>osd_window = w, osd_weather = we\<rparr>))"

definition rule_from_dto :: "rule_dto \<Rightarrow> py_error + schedule_rule" where
  "rule_from_dto d =
     bind_err (map_err (dict_at WEEKDAY_FROM) (rud_weekdays d)) (\<lambda>wds.
     bind_err (mk_time_range (rud_start d) (rud_end d)) (\<lambda>t.
     bind_err (dict_at SCOPE_FROM (rud_scope d)) (\<lambda>sc.
     bind_err (opt_err season_from_dto (rud_season d)) (\<lambda>se.
     bind_err (dict_at WEATHER_FROM (rud_weather d)) (\<lambda>we.
       Inr \<lparr>sr_weekdays = set wds, sr_time = t, sr_access = access_from_dto (rud_access d), sr_scope = sc,
            sr_source_text = rud_source_text d, sr_season = se, sr_weather = we\<rparr>)))))"

definition rule_to_dto :: "schedule_rule \<Rightarrow> py_error + rule_dto" where
  "rule_to_dto r =
     bind_err (map_err (dict_at WEEKDAY_TO) (sorted_list_of_set (sr_weekdays r))) (\<lambda>wds.
     bind_err (dict_at SCOPE_TO (sr_scope r)) (\<lambda>sc.
     bind_err (opt_err season_to_dto (sr_season r)) (\<lambda>se.
     bind_err (dict_at WEATHER_TO (sr_weather r)) (\<lambda>we.
       Inr \<lparr>rud_weekdays = wds, rud_start = tr_start (sr_time r), rud_end = tr_end (sr_time r),
            rud_access = access_to_dto (sr_access r), rud_scope = sc, rud_source_text = sr_source_text r,
            rud_season = se, rud_weather = we\<rparr>))))"

definition resolved_from_dto :: "resolved_session_dto \<Rightarrow> py_error + resolved_session" where
  "resolved_from_dto d =
     bind_err (mk_time_range (rsd_start d) (rsd_end d)) (\<lambda>t.
     bind_err (dict_at WEATHER_FROM (rsd_weather d)) (\<lambda>we.
       Inr \<lparr>rs_time = t, rs_access = access_from_dto (rsd_access d), rs_weather = we\<rparr>))"

definition resolved_to_dto :: "resolved_session \<Rightarrow> py_error + resolved_session_dto" where
  "resolved_to_dto s =
     bind_err (dict_at WEATHER_TO (rs_weather s)) (\<lambda>we.
       Inr \<lparr>rsd_start = tr_start (rs_time s), rsd_end = tr_end (rs_time s),
            rsd_access = access_to_dto (rs_access s), rsd_weather = we\<rparr>)"

text \<open>The code and its parameters are not passed: the constructor derives them from the reason.\<close>

definition exception_from_dto :: "exception_dto \<Rightarrow> py_error + schedule_exception" where
  "exception_from_dto d =
     bind_err (map_err resolved_from_dto (exd_sessions d)) (\<lambda>ss.
       Inr (mk_schedule_exception (exd_date d) (exd_closed d) (exd_reason d) SPECIAL [] ss))"

definition exception_to_dto :: "schedule_exception \<Rightarrow> py_error + exception_dto" where
  "exception_to_dto e =
     bind_err (map_err resolved_to_dto (se_sessions e)) (\<lambda>ss.
       Inr \<lparr>exd_date = se_date e, exd_closed = se_closed e, exd_reason = se_reason e, exd_sessions = ss\<rparr>)"

definition closure_from_dto :: "closure_dto \<Rightarrow> closure_range" where
  "closure_from_dto d = mk_closure_range (cld_start d) (cld_end d) (cld_reason d) SPECIAL []"

definition closure_to_dto :: "closure_range \<Rightarrow> closure_dto" where
  "closure_to_dto c = \<lparr>cld_start = cr_start c, cld_end = cr_end c, cld_reason = cr_reason c\<rparr>"

definition dimensions_from_dto :: "dimensions_dto \<Rightarrow> dimensions" where
  "dimensions_from_dto d = \<lparr>length_m = did_length_m d, width_m = did_width_m d\<rparr>"

definition dimensions_to_dto :: "dimensions \<Rightarrow> dimensions_dto" where
  "dimensions_to_dto d = \<lparr>did_length_m = length_m d, did_width_m = width_m d\<rparr>"

section \<open>Provider errors\<close>

fun provider_error_to_dto :: "provider_error \<Rightarrow> provider_error_dto" where
  "provider_error_to_dto (Timeout url t) = TimeoutDTO url t"
| "provider_error_to_dto (ConnectionFailed url d) = ConnectionFailedDTO url d"
| "provider_error_to_dto (HttpStatus url st b) = HttpStatusDTO url st b"
| "provider_error_to_dto (RateLimited url ra) = RateLimitedDTO url ra"
| "provider_error_to_dto (DecodeError s d) = DecodeErrorDTO s d"
| "provider_error_to_dto (ParseError s d r) = ParseErrorDTO s d r"
| "provider_error_to_dto (SchemaMismatch s d) = SchemaMismatchDTO s d"
| "provider_error_to_dto (TooLarge url n) = TooLargeDTO url n"
| "provider_error_to_dto (Redirect url l n) = RedirectDTO url l n"
| "provider_error_to_dto (ProviderSpecific p d) = ProviderSpecificDTO p d"

fun provider_error_from_dto :: "provider_error_dto \<Rightarrow> provider_error" where
  "provider_error_from_dto (TimeoutDTO url t) = Timeout url t"
| "provider_error_from_dto (ConnectionFailedDTO url d) = ConnectionFailed url d"
| "provider_error_from_dto (HttpStatusDTO url st b) = HttpStatus url st b"
| "provider_error_from_dto (RateLimitedDTO url ra) = RateLimited url ra"
| "provider_error_from_dto (DecodeErrorDTO s d) = DecodeError s d"
| "provider_error_from_dto (ParseErrorDTO s d r) = ParseError s d r"
| "provider_error_from_dto (SchemaMismatchDTO s d) = SchemaMismatch s d"
| "provider_error_from_dto (TooLargeDTO url n) = TooLarge url n"
| "provider_error_from_dto (RedirectDTO url l n) = Redirect url l n"
| "provider_error_from_dto (ProviderSpecificDTO p d) = ProviderSpecific p d"

interpretation provider_error_wire: total_wire provider_error_to_dto provider_error_from_dto
proof unfold_locales
  fix e show "provider_error_from_dto (provider_error_to_dto e) = e" by (cases e) simp_all
qed

section \<open>Lane plans\<close>

definition lane_plan_source_from_dto :: "lane_plan_source_dto \<Rightarrow> lane_plan_source" where
  "lane_plan_source_from_dto d = \<lparr>lps_url = lsd_url d, lps_section = lsd_section d\<rparr>"

definition lane_plan_source_to_dto :: "lane_plan_source \<Rightarrow> lane_plan_source_dto" where
  "lane_plan_source_to_dto s = \<lparr>lsd_url = lps_url s, lsd_section = lps_section s\<rparr>"

definition lane_plan_unavailable_from_dto :: "lane_plan_unavailable_dto \<Rightarrow> lane_plan_unavailable" where
  "lane_plan_unavailable_from_dto d =
     \<lparr>lpu_source_url = lud_source_url d, lpu_section = lud_section d,
      lpu_cause = provider_error_from_dto (lud_cause d), lpu_observed_at = lud_observed_at d\<rparr>"

definition lane_plan_unavailable_to_dto :: "lane_plan_unavailable \<Rightarrow> lane_plan_unavailable_dto" where
  "lane_plan_unavailable_to_dto x =
     \<lparr>lud_source_url = lpu_source_url x, lud_cause = provider_error_to_dto (lpu_cause x),
      lud_observed_at = lpu_observed_at x, lud_section = lpu_section x\<rparr>"

definition lane_reservation_from_dto :: "lane_reservation_dto \<Rightarrow> py_error + lane_reservation" where
  "lane_reservation_from_dto d =
     bind_err (map_err (dict_at WEEKDAY_FROM) (lrd_weekdays d)) (\<lambda>wds.
     bind_err (mk_time_range (lrd_start d) (lrd_end d)) (\<lambda>t.
       Inr \<lparr>lr_weekdays = set wds, lr_time = t, lr_lanes = set (lrd_lanes d),
            lr_access = access_from_dto (lrd_access d), lr_section = lrd_section d\<rparr>))"

definition lane_reservation_to_dto :: "lane_reservation \<Rightarrow> py_error + lane_reservation_dto" where
  "lane_reservation_to_dto r =
     bind_err (map_err (dict_at WEEKDAY_TO) (sorted_list_of_set (lr_weekdays r))) (\<lambda>wds.
       Inr \<lparr>lrd_weekdays = wds, lrd_start = tr_start (lr_time r), lrd_end = tr_end (lr_time r),
            lrd_lanes = sorted_list_of_set (lr_lanes r), lrd_access = access_to_dto (lr_access r),
            lrd_section = lr_section r\<rparr>)"

definition plan_coverage_from_dto :: "plan_coverage_dto \<Rightarrow> py_error + plan_coverage" where
  "plan_coverage_from_dto d =
     bind_err (dict_at PLAN_CONFIDENCE_FROM (pcd_confidence d)) (\<lambda>c.
       Inr \<lparr>pc_confidence = c, cells_total = pcd_cells_total d, cells_resolved = pcd_cells_resolved d,
            unresolved_lanes = set (pcd_unresolved_lanes d)\<rparr>)"

definition plan_coverage_to_dto :: "plan_coverage \<Rightarrow> py_error + plan_coverage_dto" where
  "plan_coverage_to_dto c =
     bind_err (dict_at PLAN_CONFIDENCE_TO (pc_confidence c)) (\<lambda>t.
       Inr \<lparr>pcd_confidence = t, pcd_cells_total = cells_total c, pcd_cells_resolved = cells_resolved c,
            pcd_unresolved_lanes = sorted_list_of_set (unresolved_lanes c)\<rparr>)"

text \<open>A dictionary comprehension: with equal keys the last pair wins.\<close>

definition weekday_counts_from_dto :: "(pystr \<times> int) list \<Rightarrow> py_error + (weekday \<rightharpoonup> int)" where
  "weekday_counts_from_dto ps =
     bind_err (map_err (\<lambda>(w, n). bind_err (dict_at WEEKDAY_FROM w) (\<lambda>d. Inr (d, n))) ps) (\<lambda>qs.
       Inr (map_of (rev qs)))"

definition weekday_counts_to_dto :: "(weekday \<rightharpoonup> int) \<Rightarrow> py_error + (pystr \<times> int) list" where
  "weekday_counts_to_dto m =
     map_err (\<lambda>w. bind_err (dict_at WEEKDAY_TO w) (\<lambda>t.
       case m w of None \<Rightarrow> Inl KeyError | Some n \<Rightarrow> Inr (t, n))) (sorted_list_of_set (dom m))"

definition lane_plan_from_dto :: "lane_plan_dto \<Rightarrow> py_error + lane_plan" where
  "lane_plan_from_dto d =
     bind_err (map_err lane_reservation_from_dto (lpd_reservations d)) (\<lambda>rs.
     bind_err (plan_coverage_from_dto (lpd_coverage d)) (\<lambda>cov.
     bind_err (opt_err weekday_counts_from_dto (lpd_lanes_by_weekday d)) (\<lambda>by_day.
       Inr \<lparr>lane_count = lpd_lane_count d, reservations = rs, lp_valid_from = lpd_valid_from d,
            coverage = cov, lp_fetched_at = lpd_fetched_at d, lanes_by_weekday = by_day\<rparr>)))"

definition lane_plan_to_dto :: "lane_plan \<Rightarrow> py_error + lane_plan_dto" where
  "lane_plan_to_dto p =
     bind_err (map_err lane_reservation_to_dto (reservations p)) (\<lambda>rs.
     bind_err (plan_coverage_to_dto (coverage p)) (\<lambda>cov.
     bind_err (opt_err weekday_counts_to_dto (lanes_by_weekday p)) (\<lambda>by_day.
       Inr \<lparr>lpd_lane_count = lane_count p, lpd_reservations = rs, lpd_valid_from = lp_valid_from p,
            lpd_coverage = cov, lpd_fetched_at = lp_fetched_at p, lpd_lanes_by_weekday = by_day\<rparr>)))"

fun lane_plan_union_from_dto :: "lane_plan_union \<Rightarrow> py_error + lane_plan_outcome" where
  "lane_plan_union_from_dto (UnavailableDTO d) = Inr (Unavailable (lane_plan_unavailable_from_dto d))"
| "lane_plan_union_from_dto (PlanDTO d) = bind_err (lane_plan_from_dto d) (\<lambda>p. Inr (Parsed p))"

fun lane_plan_union_to_dto :: "lane_plan_outcome \<Rightarrow> py_error + lane_plan_union" where
  "lane_plan_union_to_dto (Unavailable x) = Inr (UnavailableDTO (lane_plan_unavailable_to_dto x))"
| "lane_plan_union_to_dto (Parsed p) = bind_err (lane_plan_to_dto p) (\<lambda>d. Inr (PlanDTO d))"

definition basin_lane_plan_from_dto :: "lane_plan_union option \<Rightarrow> py_error + lane_plan_outcome option" where
  "basin_lane_plan_from_dto d = opt_err lane_plan_union_from_dto d"

definition basin_lane_plan_to_dto :: "lane_plan_outcome option \<Rightarrow> py_error + lane_plan_union option" where
  "basin_lane_plan_to_dto p = opt_err lane_plan_union_to_dto p"

section \<open>Basins\<close>

definition basin_from_dto :: "basin_dto \<Rightarrow> py_error + basin" where
  "basin_from_dto d =
     bind_err (map_err rule_from_dto (bad_rules d)) (\<lambda>rules.
     bind_err (map_err exception_from_dto (bad_exceptions d)) (\<lambda>exceptions.
     bind_err (dict_at BASIN_KIND_FROM (bad_kind d)) (\<lambda>kind.
     bind_err (dict_at BASIN_SOURCE_FROM (bad_physical_source d)) (\<lambda>src.
     bind_err (basin_lane_plan_from_dto (bad_lane_plan d)) (\<lambda>plan.
       Inr \<lparr>bn_id = bad_basin_id d, bn_name = bad_name d, bn_rules = rules, bn_exceptions = exceptions,
            bn_kind = kind, bn_dimensions = map_option dimensions_from_dto (bad_dimensions d),
            bn_lanes = bad_lanes d, nominal_temp_c = bad_nominal_temp_c d,
            measured_temp_c = bad_measured_temp_c d, diving_platforms_m = bad_diving_platforms_m d,
            physical_source = src,
            lane_plan_source_of = map_option lane_plan_source_from_dto (bad_lane_plan_source d),
            lane_plan_of = plan\<rparr>)))))"

definition basin_to_dto :: "basin \<Rightarrow> py_error + basin_dto" where
  "basin_to_dto b =
     bind_err (map_err rule_to_dto (bn_rules b)) (\<lambda>rules.
     bind_err (map_err exception_to_dto (bn_exceptions b)) (\<lambda>exceptions.
     bind_err (dict_at BASIN_KIND_TO (bn_kind b)) (\<lambda>kind.
     bind_err (dict_at BASIN_SOURCE_TO (physical_source b)) (\<lambda>src.
     bind_err (basin_lane_plan_to_dto (lane_plan_of b)) (\<lambda>plan.
       Inr \<lparr>bad_basin_id = bn_id b, bad_name = bn_name b, bad_rules = rules, bad_exceptions = exceptions,
            bad_kind = kind, bad_dimensions = map_option dimensions_to_dto (bn_dimensions b),
            bad_lanes = bn_lanes b, bad_nominal_temp_c = nominal_temp_c b,
            bad_measured_temp_c = measured_temp_c b, bad_diving_platforms_m = diving_platforms_m b,
            bad_physical_source = src,
            bad_lane_plan_source = map_option lane_plan_source_to_dto (lane_plan_source_of b),
            bad_lane_plan = plan\<rparr>)))))"

section \<open>Features, lockers, rentals\<close>

definition feature_from_dto :: "feature_dto \<Rightarrow> py_error + feature" where
  "feature_from_dto d =
     bind_err (dict_at FEATURE_KIND_FROM (fed_kind d)) (\<lambda>kind.
     bind_err (map_err rule_from_dto (fed_hours d)) (\<lambda>hours.
       Inr \<lparr>ft_kind = kind, ft_name = fed_name d, ft_hours = hours, ft_surcharge_chf = fed_surcharge_chf d,
            ft_temp_c = fed_temp_c d, ft_note = fed_note d\<rparr>))"

definition feature_to_dto :: "feature \<Rightarrow> py_error + feature_dto" where
  "feature_to_dto f =
     bind_err (dict_at FEATURE_KIND_TO (ft_kind f)) (\<lambda>kind.
     bind_err (map_err rule_to_dto (ft_hours f)) (\<lambda>hours.
       Inr \<lparr>fed_kind = kind, fed_name = ft_name f, fed_hours = hours, fed_surcharge_chf = ft_surcharge_chf f,
            fed_temp_c = ft_temp_c f, fed_note = ft_note f\<rparr>))"

definition locker_from_dto :: "locker_option_dto \<Rightarrow> py_error + locker_option" where
  "locker_from_dto d =
     bind_err (dict_at LOCKER_CATEGORY_FROM (lod_category d)) (\<lambda>category.
     bind_err (opt_err (dict_at LOCKER_MECHANISM_FROM) (lod_mechanism d)) (\<lambda>mechanism.
       Inr \<lparr>lo_category = category, lo_fee_chf = lod_fee_chf d, lo_deposit_chf = lod_deposit_chf d,
            lo_period = lod_period d, lo_mechanism = mechanism, lo_raw = lod_raw d\<rparr>))"

definition locker_to_dto :: "locker_option \<Rightarrow> py_error + locker_option_dto" where
  "locker_to_dto l =
     bind_err (dict_at LOCKER_CATEGORY_TO (lo_category l)) (\<lambda>category.
     bind_err (opt_err (dict_at LOCKER_MECHANISM_TO) (lo_mechanism l)) (\<lambda>mechanism.
       Inr \<lparr>lod_category = category, lod_fee_chf = lo_fee_chf l, lod_deposit_chf = lo_deposit_chf l,
            lod_period = lo_period l, lod_mechanism = mechanism, lod_raw = lo_raw l\<rparr>))"

definition rental_fee_from_dto :: "rental_item_dto \<Rightarrow> rental_fee" where
  "rental_fee_from_dto d =
     (case rid_fee_chf d of
        Some fee \<Rightarrow> Priced fee
      | None \<Rightarrow> if rid_fee_state d = Some (u ''gratis'') then Gratis else Unstated)"

fun rental_fee_to_dto :: "rental_fee \<Rightarrow> rat option \<times> pystr option" where
  "rental_fee_to_dto (Priced amount) = (Some amount, None)"
| "rental_fee_to_dto Gratis = (None, Some (u ''gratis''))"
| "rental_fee_to_dto Unstated = (None, None)"

definition rental_from_dto :: "rental_item_dto \<Rightarrow> py_error + rental_item" where
  "rental_from_dto d =
     bind_err (dict_at RENTAL_KIND_FROM (rid_kind d)) (\<lambda>kind.
       Inr \<lparr>ri_kind = kind, ri_fee = rental_fee_from_dto d, ri_deposit_chf = rid_deposit_chf d,
            ri_period = rid_period d, ri_raw = rid_raw d\<rparr>)"

definition rental_to_dto :: "rental_item \<Rightarrow> rental_item_dto" where
  "rental_to_dto r =
     (let (fee_chf, fee_state) = rental_fee_to_dto (ri_fee r)
      in \<lparr>rid_kind = rental_kind_to_dto (ri_kind r), rid_fee_chf = fee_chf, rid_fee_state = fee_state,
          rid_deposit_chf = ri_deposit_chf r, rid_period = ri_period r, rid_raw = ri_raw r\<rparr>)"

section \<open>Prices and location\<close>

definition price_entry_from_dto :: "price_entry_dto \<Rightarrow> py_error + price_entry" where
  "price_entry_from_dto d =
     bind_err (dict_at CATEGORY_FROM (ped_category d)) (\<lambda>category.
       Inr \<lparr>pe_category = category, amount_chf = ped_amount_chf d, display = ped_display d,
            pe_min_age = ped_min_age d\<rparr>)"

definition price_entry_to_dto :: "price_entry \<Rightarrow> py_error + price_entry_dto" where
  "price_entry_to_dto e =
     bind_err (dict_at CATEGORY_TO (pe_category e)) (\<lambda>category.
       Inr \<lparr>ped_category = category, ped_amount_chf = amount_chf e, ped_display = display e,
            ped_min_age = pe_min_age e\<rparr>)"

definition price_table_from_dto :: "price_table_dto \<Rightarrow> py_error + price_table" where
  "price_table_from_dto d =
     bind_err (map_err price_entry_from_dto (ptd_entries d)) (\<lambda>es.
       Inr \<lparr>pt_entries = es, pt_valid_as_of = ptd_valid_as_of d, pt_source_url = ptd_source_url d\<rparr>)"

definition price_table_to_dto :: "price_table \<Rightarrow> py_error + price_table_dto" where
  "price_table_to_dto t =
     bind_err (map_err price_entry_to_dto (pt_entries t)) (\<lambda>es.
       Inr \<lparr>ptd_entries = es, ptd_valid_as_of = pt_valid_as_of t, ptd_source_url = pt_source_url t\<rparr>)"

definition geo_from_dto :: "geo_dto \<Rightarrow> geo_point" where
  "geo_from_dto d = \<lparr>lat = ged_lat d, lon = ged_lon d\<rparr>"

definition geo_to_dto :: "geo_point \<Rightarrow> geo_dto" where
  "geo_to_dto g = \<lparr>ged_lat = lat g, ged_lon = lon g\<rparr>"

end
