(* ===== verification/Dto_Facts.thy ===== *)
theory Dto_Facts
  imports Dto_Mapping
begin

text \<open>
  The pairs of conversions of \<open>Dto_Mapping\<close> keep the contract \<open>wire\<close>, under what the domain's
  constructors guarantee of their values: time ranges in order, months and days in range,
  closure codes derived from the printed reason, finite sets of lanes.
\<close>

section \<open>What the constructors guarantee\<close>

definition good_month_day :: "month_day \<Rightarrow> bool" where
  "good_month_day d \<longleftrightarrow> mk_month_day (md_month d) (md_day d) = Inr d"

definition good_window :: "annual_window \<Rightarrow> bool" where
  [wf_simps]: "good_window w \<longleftrightarrow> good_month_day (aw_start w) \<and> good_month_day (aw_end w)"

definition good_season :: "operating_season_rec \<Rightarrow> bool" where
  [wf_simps]: "good_season s \<longleftrightarrow> good_window (os_window s)"

definition good_rule :: "schedule_rule \<Rightarrow> bool" where
  "good_rule r \<longleftrightarrow> wf_time_range (sr_time r) \<and> (\<forall>w. sr_season r = Some w \<longrightarrow> good_window w)"

definition good_session :: "resolved_session \<Rightarrow> bool" where
  "good_session s \<longleftrightarrow> wf_time_range (rs_time s)"

definition good_exception :: "schedule_exception \<Rightarrow> bool" where
  "good_exception e \<longleftrightarrow> (\<forall>s \<in> set (se_sessions e). good_session s) \<and>
     derive_closure (se_reason e) SPECIAL [] = (se_code e, se_params e)"

definition good_closure :: "closure_range \<Rightarrow> bool" where
  "good_closure c \<longleftrightarrow> derive_closure (cr_reason c) SPECIAL [] = (cr_code c, cr_params c)"

definition good_reservation :: "lane_reservation \<Rightarrow> bool" where
  "good_reservation r \<longleftrightarrow> wf_time_range (lr_time r) \<and> finite (lr_lanes r)"

definition good_coverage :: "plan_coverage \<Rightarrow> bool" where
  "good_coverage c \<longleftrightarrow> finite (unresolved_lanes c)"

definition storable_plan :: "lane_plan \<Rightarrow> bool" where
  "storable_plan p \<longleftrightarrow> (\<forall>r \<in> set (reservations p). good_reservation r) \<and> good_coverage (coverage p)"

fun good_outcome :: "lane_plan_outcome \<Rightarrow> bool" where
  "good_outcome (Parsed p) = storable_plan p"
| "good_outcome (Unavailable x) = True"

definition good_basin :: "basin \<Rightarrow> bool" where
  "good_basin b \<longleftrightarrow> (\<forall>r \<in> set (bn_rules b). good_rule r) \<and> (\<forall>e \<in> set (bn_exceptions b). good_exception e) \<and>
     (\<forall>p. lane_plan_of b = Some p \<longrightarrow> good_outcome p)"

definition good_feature :: "feature \<Rightarrow> bool" where
  "good_feature f \<longleftrightarrow> (\<forall>r \<in> set (ft_hours f). good_rule r)"

section \<open>Schedule pieces\<close>

lemma wf_time_range_mk: "wf_time_range r \<Longrightarrow> mk_time_range (tr_start r) (tr_end r) = Inr r"
  by (simp add: mk_time_range_iff)

lemma py_index_mem: "py_index vs k = Inr v \<Longrightarrow> v \<in> set vs"
  using nth_mem [of "nat k" vs] nth_mem [of "nat (- k - 1)" "rev vs"] by (auto simp: py_index_def split: if_splits)

lemma DAYS_IN_MONTH_at_most: "py_index DAYS_IN_MONTH k = Inr n \<Longrightarrow> n \<le> 31"
  by (drule py_index_mem) (auto simp: DAYS_IN_MONTH_def)

lemma good_month_day_bounds:
  "good_month_day d \<Longrightarrow> 1 \<le> md_month d \<and> md_month d \<le> 12 \<and> 1 \<le> md_day d \<and> md_day d \<le> 31"
  by (auto simp: good_month_day_def mk_month_day_def split: if_splits sum.splits dest!: DAYS_IN_MONTH_at_most)

interpretation season_wire: wire good_window season_to_dto season_from_dto
proof unfold_locales
  fix w :: annual_window
  assume good: "good_window w"
  obtain p where p: "dict_at PRECISION_TO (aw_precision w) = Inr p" "dict_at PRECISION_FROM p = Inr (aw_precision w)"
    using precision_token.there_and_back by blast
  have "mk_month_day (md_month (aw_start w)) (md_day (aw_start w)) = Inr (aw_start w)"
       "mk_month_day (md_month (aw_end w)) (md_day (aw_end w)) = Inr (aw_end w)"
    using good by (simp_all add: good_window_def good_month_day_def)
  with p good_month_day_bounds [of "aw_start w"] good_month_day_bounds [of "aw_end w"] good
  show "\<exists>d. season_to_dto w = Inr d \<and> season_from_dto d = Inr w"
    by (simp add: season_to_dto_def season_from_dto_def mk_season_dto_def good_window_def)
qed

interpretation operating_season_wire: wire good_season operating_season_to_dto operating_season_from_dto
proof unfold_locales
  fix s :: operating_season_rec
  assume "good_season s"
  then obtain w where "season_to_dto (os_window s) = Inr w" "season_from_dto w = Inr (os_window s)"
    using season_wire.there_and_back by (auto simp: good_season_def)
  moreover obtain t where "dict_at WEATHER_TO (os_weather s) = Inr t" "dict_at WEATHER_FROM t = Inr (os_weather s)"
    using weather_token.there_and_back by blast
  ultimately show "\<exists>d. operating_season_to_dto s = Inr d \<and> operating_season_from_dto d = Inr s"
    by (simp add: operating_season_to_dto_def operating_season_from_dto_def)
qed

lemma weekdays_there_and_back:
  obtains ts where "map_err (dict_at WEEKDAY_TO) (sorted_list_of_set W) = Inr ts"
    "map_err (dict_at WEEKDAY_FROM) ts = Inr (sorted_list_of_set W)"
  using weekday_token.list_there_and_back [of "sorted_list_of_set W"] by blast

interpretation rule_wire: wire good_rule rule_to_dto rule_from_dto
proof unfold_locales
  fix r :: schedule_rule
  assume good: "good_rule r"
  obtain ts where ts: "map_err (dict_at WEEKDAY_TO) (sorted_list_of_set (sr_weekdays r)) = Inr ts"
    "map_err (dict_at WEEKDAY_FROM) ts = Inr (sorted_list_of_set (sr_weekdays r))"
    by (rule weekdays_there_and_back)
  obtain sc where sc: "dict_at SCOPE_TO (sr_scope r) = Inr sc" "dict_at SCOPE_FROM sc = Inr (sr_scope r)"
    using scope_token.there_and_back by blast
  obtain we where we: "dict_at WEATHER_TO (sr_weather r) = Inr we" "dict_at WEATHER_FROM we = Inr (sr_weather r)"
    using weather_token.there_and_back by blast
  obtain se where se: "opt_err season_to_dto (sr_season r) = Inr se" "opt_err season_from_dto se = Inr (sr_season r)"
    using season_wire.option_there_and_back [of "sr_season r"] good by (auto simp: good_rule_def)
  have t: "mk_time_range (tr_start (sr_time r)) (tr_end (sr_time r)) = Inr (sr_time r)"
    using good by (simp add: good_rule_def wf_time_range_mk)
  show "\<exists>d. rule_to_dto r = Inr d \<and> rule_from_dto d = Inr r"
    by (simp add: rule_to_dto_def rule_from_dto_def ts sc we se t access_wire.dec_of_enc)
qed

interpretation resolved_wire: wire good_session resolved_to_dto resolved_from_dto
proof unfold_locales
  fix s :: resolved_session
  assume good: "good_session s"
  obtain we where "dict_at WEATHER_TO (rs_weather s) = Inr we" "dict_at WEATHER_FROM we = Inr (rs_weather s)"
    using weather_token.there_and_back by blast
  with good show "\<exists>d. resolved_to_dto s = Inr d \<and> resolved_from_dto d = Inr s"
    by (simp add: resolved_to_dto_def resolved_from_dto_def wf_time_range_mk good_session_def access_wire.dec_of_enc)
qed

interpretation exception_wire: wire good_exception exception_to_dto exception_from_dto
proof unfold_locales
  fix e :: schedule_exception
  assume good: "good_exception e"
  obtain ss where "map_err resolved_to_dto (se_sessions e) = Inr ss" "map_err resolved_from_dto ss = Inr (se_sessions e)"
    using resolved_wire.list_there_and_back [of "se_sessions e"] good by (auto simp: good_exception_def)
  with good show "\<exists>d. exception_to_dto e = Inr d \<and> exception_from_dto d = Inr e"
    by (simp add: exception_to_dto_def exception_from_dto_def mk_schedule_exception_def good_exception_def)
qed

lemma closure_there_and_back: "good_closure c \<Longrightarrow> closure_from_dto (closure_to_dto c) = c"
  by (simp add: closure_from_dto_def closure_to_dto_def mk_closure_range_def good_closure_def)

interpretation closure_wire: wire good_closure "\<lambda>c. Inr (closure_to_dto c)" "\<lambda>d. Inr (closure_from_dto d)"
  by unfold_locales (simp add: closure_there_and_back)

interpretation dimensions_wire: total_wire dimensions_to_dto dimensions_from_dto
  by unfold_locales (simp add: dimensions_to_dto_def dimensions_from_dto_def)

section \<open>Lane plans\<close>

interpretation lane_plan_source_wire: total_wire lane_plan_source_to_dto lane_plan_source_from_dto
  by unfold_locales (simp add: lane_plan_source_to_dto_def lane_plan_source_from_dto_def)

interpretation lane_plan_unavailable_wire: total_wire lane_plan_unavailable_to_dto lane_plan_unavailable_from_dto
  by unfold_locales
    (simp add: lane_plan_unavailable_to_dto_def lane_plan_unavailable_from_dto_def provider_error_wire.dec_of_enc)

interpretation lane_reservation_wire: wire good_reservation lane_reservation_to_dto lane_reservation_from_dto
proof unfold_locales
  fix r :: lane_reservation
  assume good: "good_reservation r"
  obtain ts where "map_err (dict_at WEEKDAY_TO) (sorted_list_of_set (lr_weekdays r)) = Inr ts"
    "map_err (dict_at WEEKDAY_FROM) ts = Inr (sorted_list_of_set (lr_weekdays r))"
    by (rule weekdays_there_and_back)
  with good show "\<exists>d. lane_reservation_to_dto r = Inr d \<and> lane_reservation_from_dto d = Inr r"
    by (simp add: lane_reservation_to_dto_def lane_reservation_from_dto_def wf_time_range_mk good_reservation_def
        access_wire.dec_of_enc)
qed

interpretation plan_coverage_wire: wire good_coverage plan_coverage_to_dto plan_coverage_from_dto
proof unfold_locales
  fix c :: plan_coverage
  assume good: "good_coverage c"
  obtain t where "dict_at PLAN_CONFIDENCE_TO (pc_confidence c) = Inr t" "dict_at PLAN_CONFIDENCE_FROM t = Inr (pc_confidence c)"
    using plan_confidence_token.there_and_back by blast
  with good show "\<exists>d. plan_coverage_to_dto c = Inr d \<and> plan_coverage_from_dto d = Inr c"
    by (simp add: plan_coverage_to_dto_def plan_coverage_from_dto_def good_coverage_def)
qed

lemma map_of_graph: "map_of (map (\<lambda>w. (w, the (m w))) ws) = m |` set ws" if "set ws \<subseteq> dom m"
  using that by (induction ws) (auto simp: restrict_map_insert restrict_map_def fun_eq_iff domIff)

interpretation weekday_counts_wire: wire "\<lambda>_. True" weekday_counts_to_dto weekday_counts_from_dto
proof unfold_locales
  fix m :: "weekday \<rightharpoonup> int"
  let ?ws = "sorted_list_of_set (dom m)"
  define tok where "tok w = (SOME t. dict_at WEEKDAY_TO w = Inr t \<and> dict_at WEEKDAY_FROM t = Inr w)" for w
  have tok: "dict_at WEEKDAY_TO w = Inr (tok w) \<and> dict_at WEEKDAY_FROM (tok w) = Inr w" for w
    unfolding tok_def by (rule someI_ex [OF weekday_token.there_and_back]) simp
  have mem: "set ?ws = dom m" by simp
  have there: "weekday_counts_to_dto m = Inr (map (\<lambda>w. (tok w, the (m w))) ?ws)"
    unfolding weekday_counts_to_dto_def map_err_Inr list_all2_map2 list_all2_same
    using mem by (auto simp: tok split: option.splits)
  have "map_err (\<lambda>(t, n). bind_err (dict_at WEEKDAY_FROM t) (\<lambda>d. Inr (d, n))) (map (\<lambda>w. (tok w, the (m w))) ?ws) =
      Inr (map (\<lambda>w. (w, the (m w))) ?ws)"
    unfolding map_err_Inr by (simp add: list_all2_map1 list_all2_map2 tok list.rel_refl)
  then have "weekday_counts_from_dto (map (\<lambda>w. (tok w, the (m w))) ?ws) = Inr (map_of (map (\<lambda>w. (w, the (m w))) (rev ?ws)))"
    by (simp add: weekday_counts_from_dto_def rev_map)
  also have "map_of (map (\<lambda>w. (w, the (m w))) (rev ?ws)) = m"
    by (subst map_of_graph) (simp_all add: restrict_map_def fun_eq_iff domIff)
  finally show "\<exists>d. weekday_counts_to_dto m = Inr d \<and> weekday_counts_from_dto d = Inr m" using there by blast
qed

interpretation lane_plan_wire: wire storable_plan lane_plan_to_dto lane_plan_from_dto
proof unfold_locales
  fix p :: lane_plan
  assume good: "storable_plan p"
  obtain rs where "map_err lane_reservation_to_dto (reservations p) = Inr rs" "map_err lane_reservation_from_dto rs = Inr (reservations p)"
    using lane_reservation_wire.list_there_and_back [of "reservations p"] good by (auto simp: storable_plan_def)
  moreover obtain c where "plan_coverage_to_dto (coverage p) = Inr c" "plan_coverage_from_dto c = Inr (coverage p)"
    using plan_coverage_wire.there_and_back good by (auto simp: storable_plan_def)
  moreover obtain l where "opt_err weekday_counts_to_dto (lanes_by_weekday p) = Inr l" "opt_err weekday_counts_from_dto l = Inr (lanes_by_weekday p)"
    using weekday_counts_wire.option_there_and_back by blast
  ultimately show "\<exists>d. lane_plan_to_dto p = Inr d \<and> lane_plan_from_dto d = Inr p"
    by (simp add: lane_plan_to_dto_def lane_plan_from_dto_def)
qed

interpretation lane_plan_union_wire: wire good_outcome lane_plan_union_to_dto lane_plan_union_from_dto
proof unfold_locales
  fix x :: lane_plan_outcome
  assume good: "good_outcome x"
  show "\<exists>d. lane_plan_union_to_dto x = Inr d \<and> lane_plan_union_from_dto d = Inr x"
  proof (cases x)
    case (Parsed p)
    with good obtain d where "lane_plan_to_dto p = Inr d" "lane_plan_from_dto d = Inr p"
      using lane_plan_wire.there_and_back by auto
    with Parsed show ?thesis by simp
  qed (simp add: lane_plan_unavailable_wire.dec_of_enc)
qed

section \<open>Basins, features, lockers, rentals\<close>

interpretation basin_wire: wire good_basin basin_to_dto basin_from_dto
proof unfold_locales
  fix b :: basin
  assume good: "good_basin b"
  obtain rs where "map_err rule_to_dto (bn_rules b) = Inr rs" "map_err rule_from_dto rs = Inr (bn_rules b)"
    using rule_wire.list_there_and_back [of "bn_rules b"] good by (auto simp: good_basin_def)
  moreover obtain es where "map_err exception_to_dto (bn_exceptions b) = Inr es" "map_err exception_from_dto es = Inr (bn_exceptions b)"
    using exception_wire.list_there_and_back [of "bn_exceptions b"] good by (auto simp: good_basin_def)
  moreover obtain k where "dict_at BASIN_KIND_TO (bn_kind b) = Inr k" "dict_at BASIN_KIND_FROM k = Inr (bn_kind b)"
    using basin_kind_token.there_and_back by blast
  moreover obtain s where "dict_at BASIN_SOURCE_TO (physical_source b) = Inr s" "dict_at BASIN_SOURCE_FROM s = Inr (physical_source b)"
    using basin_source_token.there_and_back by blast
  moreover obtain p where "basin_lane_plan_to_dto (lane_plan_of b) = Inr p" "basin_lane_plan_from_dto p = Inr (lane_plan_of b)"
    using lane_plan_union_wire.option_there_and_back [of "lane_plan_of b"] good
    by (auto simp: good_basin_def basin_lane_plan_to_dto_def basin_lane_plan_from_dto_def)
  ultimately show "\<exists>d. basin_to_dto b = Inr d \<and> basin_from_dto d = Inr b"
    by (simp add: basin_to_dto_def basin_from_dto_def option.map_comp comp_def option.map_ident
        dimensions_wire.dec_of_enc lane_plan_source_wire.dec_of_enc)
qed

interpretation feature_wire: wire good_feature feature_to_dto feature_from_dto
proof unfold_locales
  fix f :: feature
  assume good: "good_feature f"
  obtain rs where "map_err rule_to_dto (ft_hours f) = Inr rs" "map_err rule_from_dto rs = Inr (ft_hours f)"
    using rule_wire.list_there_and_back [of "ft_hours f"] good by (auto simp: good_feature_def)
  moreover obtain k where "dict_at FEATURE_KIND_TO (ft_kind f) = Inr k" "dict_at FEATURE_KIND_FROM k = Inr (ft_kind f)"
    using feature_kind_token.there_and_back by blast
  ultimately show "\<exists>d. feature_to_dto f = Inr d \<and> feature_from_dto d = Inr f"
    by (simp add: feature_to_dto_def feature_from_dto_def)
qed

interpretation locker_wire: wire "\<lambda>_. True" locker_to_dto locker_from_dto
proof unfold_locales
  fix l :: locker_option
  obtain c where "dict_at LOCKER_CATEGORY_TO (lo_category l) = Inr c" "dict_at LOCKER_CATEGORY_FROM c = Inr (lo_category l)"
    using locker_category_token.there_and_back by blast
  moreover obtain m where "opt_err (dict_at LOCKER_MECHANISM_TO) (lo_mechanism l) = Inr m"
      "opt_err (dict_at LOCKER_MECHANISM_FROM) m = Inr (lo_mechanism l)"
    using locker_mechanism_token.option_there_and_back by blast
  ultimately show "\<exists>d. locker_to_dto l = Inr d \<and> locker_from_dto d = Inr l"
    by (simp add: locker_to_dto_def locker_from_dto_def)
qed

interpretation rental_wire: wire "\<lambda>_. True" "\<lambda>r. Inr (rental_to_dto r)" rental_from_dto
proof unfold_locales
  fix r :: rental_item
  have "dict_at RENTAL_KIND_FROM (rental_kind_to_dto (ri_kind r)) = Inr (ri_kind r)"
    using rental_kind_token.there_and_back by blast
  then show "\<exists>d. Inr (rental_to_dto r) = Inr d \<and> rental_from_dto d = Inr r"
    by (cases "ri_fee r") (simp_all add: rental_to_dto_def rental_from_dto_def rental_fee_from_dto_def)
qed

section \<open>Prices and location\<close>

interpretation price_entry_wire: wire "\<lambda>_. True" price_entry_to_dto price_entry_from_dto
proof unfold_locales
  fix e :: price_entry
  obtain c where "dict_at CATEGORY_TO (pe_category e) = Inr c" "dict_at CATEGORY_FROM c = Inr (pe_category e)"
    using category_token.there_and_back by blast
  then show "\<exists>d. price_entry_to_dto e = Inr d \<and> price_entry_from_dto d = Inr e"
    by (simp add: price_entry_to_dto_def price_entry_from_dto_def)
qed

interpretation price_table_wire: wire "\<lambda>_. True" price_table_to_dto price_table_from_dto
proof unfold_locales
  fix t :: price_table
  obtain es where "map_err price_entry_to_dto (pt_entries t) = Inr es" "map_err price_entry_from_dto es = Inr (pt_entries t)"
    using price_entry_wire.list_there_and_back [of "pt_entries t"] by auto
  then show "\<exists>d. price_table_to_dto t = Inr d \<and> price_table_from_dto d = Inr t"
    by (simp add: price_table_to_dto_def price_table_from_dto_def)
qed

interpretation geo_wire: total_wire geo_to_dto geo_from_dto
  by unfold_locales (simp add: geo_to_dto_def geo_from_dto_def)

end
