(* ===== verification/Codec.thy ===== *)
theory Codec
  imports Dto_Facts Json Schedule Catalog Lane_Fetch
begin

text \<open>
  \<open>src/swimzh/storage/codec.py\<close>, \<open>calendar_codec.py\<close>, \<open>catalog_json.py\<close> and
  \<open>src/swimzh/etl/silver_codec.py\<close>: what the store and the lake write for a facility, a
  calendar, a catalog and the output of each provider phase, and how they read it back.
  Pydantic's serialiser and validator of each model are the record \<open>models\<close>; JSON text is
  represented by the value it decodes to (\<open>Json\<close>).
\<close>

section \<open>The stored models\<close>

record notice_dto =
  nod_text :: pystr
  nod_active_from :: "date option"
  nod_active_to :: "date option"

record stored_facility =
  sf_facility_id :: pystr
  sf_name :: pystr
  sf_kind :: pystr
  sf_address :: pystr
  sf_source :: pystr
  sf_curated :: bool
  sf_valid_as_of :: "date option"
  sf_fetched_at :: "datetime option"
  sf_geo_sport_id :: "pystr option"
  sf_crowdmonitor_keys :: "pystr list"
  sf_baditicker_poiid :: "pystr option"
  sf_aliases :: "pystr list"
  sf_geo :: "geo_dto option"
  sf_public_holiday_policy :: "pystr option"
  sf_prices :: "price_table_dto option"
  sf_admission_state :: "pystr option"
  sf_operating_season :: "operating_season_dto option"
  sf_closures :: "closure_dto list"
  sf_basins :: "basin_dto list"
  sf_notices :: "notice_dto list"
  sf_features :: "feature_dto list"
  sf_lockers :: "locker_option_dto list"
  sf_rentals :: "rental_item_dto list"
  sf_last_admission_before :: "int option"

definition stored_serialize :: "(stored_facility \<Rightarrow> members) \<Rightarrow> stored_facility \<Rightarrow> members" where
  "stored_serialize handler d =
     pop_when (sf_rentals d = []) (u ''rentals'')
       (pop_when (sf_operating_season d = None) (u ''operating_season'')
         (pop_when (sf_admission_state d = None) (u ''admission_state'') (handler d)))"

record entry_dto =
  end_pool_id :: pystr
  end_name :: pystr
  end_kind :: pystr
  end_address :: pystr
  end_lat :: "real option"
  end_lon :: "real option"
  end_url :: "pystr option"
  end_description :: "pystr option"
  end_phone :: "pystr option"
  end_poi_id :: "pystr option"

record catalog_dto =
  ctd_generated_at :: datetime
  ctd_count :: int
  ctd_entries :: "entry_dto list"

text \<open>\<open>model_dump(mode="json")\<close> and \<open>model_validate\<close> of each pydantic model.\<close>

record models =
  dump_stored :: "stored_facility \<Rightarrow> json"
  validate_stored :: "json \<Rightarrow> py_error + stored_facility"
  dump_calendar :: "calendar_dto \<Rightarrow> json"
  validate_calendar :: "json \<Rightarrow> py_error + calendar_dto"
  dump_catalog :: "catalog_dto \<Rightarrow> json"
  validate_catalog :: "json \<Rightarrow> py_error + catalog_dto"
  dump_price_table :: "price_table_dto \<Rightarrow> json"
  validate_price_table :: "json \<Rightarrow> py_error + price_table_dto"
  dump_lane_plan :: "lane_plan_dto \<Rightarrow> json"
  validate_lane_plan :: "json \<Rightarrow> py_error + lane_plan_dto"

section \<open>storage/codec.py\<close>

fun admission_to_stored :: "admission \<Rightarrow> py_error + price_table_dto option \<times> pystr option" where
  "admission_to_stored (Tariff table) = bind_err (price_table_to_dto table) (\<lambda>d. Inr (Some d, None))"
| "admission_to_stored Free = Inr (None, Some (u ''free''))"
| "admission_to_stored Unknown = Inr (None, None)"

definition admission_from_stored :: "stored_facility \<Rightarrow> py_error + admission" where
  "admission_from_stored s =
     (case sf_prices s of
        Some d \<Rightarrow> bind_err (price_table_from_dto d) (\<lambda>t. Inr (Tariff t))
      | None \<Rightarrow> Inr (if sf_admission_state s = Some (u ''free'') then Free else Unknown))"

definition notice_to_dto :: "notice \<Rightarrow> notice_dto" where
  "notice_to_dto n = \<lparr>nod_text = no_text n, nod_active_from = active_from n, nod_active_to = active_to n\<rparr>"

definition notice_from_dto :: "notice_dto \<Rightarrow> notice" where
  "notice_from_dto d = \<lparr>no_text = nod_text d, active_from = nod_active_from d, active_to = nod_active_to d\<rparr>"

definition to_stored :: "facility \<Rightarrow> py_error + stored_facility" where
  "to_stored f =
     (let ident = identity f; prov = provenance_of f
      in bind_err (admission_to_stored (admission_of f)) (\<lambda>(prices, state).
         bind_err (dict_at KIND_TO (pid_kind ident)) (\<lambda>kind.
         bind_err (opt_err (dict_at POLICY_TO) (public_holiday_policy f)) (\<lambda>policy.
         bind_err (opt_err operating_season_to_dto (operating_season f)) (\<lambda>season.
         bind_err (map_err basin_to_dto (basins f)) (\<lambda>bs.
         bind_err (map_err feature_to_dto (features f)) (\<lambda>fs.
         bind_err (map_err locker_to_dto (lockers f)) (\<lambda>ls.
           Inr \<lparr>sf_facility_id = facility_id ident, sf_name = pid_name ident, sf_kind = kind,
                sf_address = address f, sf_source = pv_source prov, sf_curated = pv_curated prov,
                sf_valid_as_of = pv_valid_as_of prov, sf_fetched_at = pv_fetched_at prov,
                sf_geo_sport_id = geo_sport_id ident, sf_crowdmonitor_keys = crowdmonitor_keys ident,
                sf_baditicker_poiid = baditicker_poiid ident, sf_aliases = aliases ident,
                sf_geo = map_option geo_to_dto (geo f), sf_public_holiday_policy = policy,
                sf_prices = prices, sf_admission_state = state, sf_operating_season = season,
                sf_closures = map closure_to_dto (closures f), sf_basins = bs,
                sf_notices = map notice_to_dto (notices f), sf_features = fs, sf_lockers = ls,
                sf_rentals = map rental_to_dto (rentals f),
                sf_last_admission_before = last_admission_before f\<rparr>))))))))"

definition from_stored :: "stored_facility \<Rightarrow> py_error + facility" where
  "from_stored s =
     bind_err (dict_at KIND_FROM (sf_kind s)) (\<lambda>kind.
     bind_err (map_err basin_from_dto (sf_basins s)) (\<lambda>bs.
     bind_err (opt_err (dict_at POLICY_FROM) (sf_public_holiday_policy s)) (\<lambda>policy.
     bind_err (opt_err operating_season_from_dto (sf_operating_season s)) (\<lambda>season.
     bind_err (admission_from_stored s) (\<lambda>admission.
     bind_err (map_err feature_from_dto (sf_features s)) (\<lambda>fs.
     bind_err (map_err locker_from_dto (sf_lockers s)) (\<lambda>ls.
     bind_err (map_err rental_from_dto (sf_rentals s)) (\<lambda>rs.
       Inr \<lparr>identity = \<lparr>facility_id = reconstruct_pool_id (sf_facility_id s), pid_name = sf_name s, pid_kind = kind,
                        geo_sport_id = sf_geo_sport_id s, crowdmonitor_keys = sf_crowdmonitor_keys s,
                        baditicker_poiid = sf_baditicker_poiid s, aliases = sf_aliases s\<rparr>,
            address = sf_address s,
            provenance_of = \<lparr>pv_source = sf_source s, pv_curated = sf_curated s,
                             pv_valid_as_of = sf_valid_as_of s, pv_fetched_at = sf_fetched_at s\<rparr>,
            basins = bs, geo = map_option geo_from_dto (sf_geo s),
            closures = map closure_from_dto (sf_closures s), public_holiday_policy = policy,
            operating_season = season, admission_of = admission, notices = map notice_from_dto (sf_notices s),
            features = fs, lockers = ls, rentals = rs,
            last_admission_before = sf_last_admission_before s\<rparr>))))))))"

definition facility_dumps :: "models \<Rightarrow> facility \<Rightarrow> py_error + json_text" where
  "facility_dumps m f = bind_err (to_stored f) (\<lambda>s. Inr (JsonText (dump_stored m s)))"

definition facility_loads :: "models \<Rightarrow> json_text \<Rightarrow> py_error + facility" where
  "facility_loads m text =
     bind_err (loads text) (\<lambda>j. bind_err (validate_stored m j) from_stored)"

definition schedule_freshness_of_doc :: "models \<Rightarrow> json_text option \<Rightarrow> py_error + schedule_freshness" where
  "schedule_freshness_of_doc m doc =
     (case doc of
        None \<Rightarrow> Inr NO_SOURCE
      | Some text \<Rightarrow> bind_err (facility_loads m text) (\<lambda>f. Inr (freshness_of f)))"

section \<open>storage/calendar\_codec.py\<close>

definition calendar_to_dto :: "zurich_calendar \<Rightarrow> calendar_dto" where
  "calendar_to_dto c =
     \<lparr>cad_known_years = sorted_list_of_set (cal_known_years c),
      cad_public_holidays =
        map (\<lambda>d. \<lparr>phd_date = d, phd_name = the (cal_public c d)\<rparr>) (sorted_list_of_set (dom (cal_public c))),
      cad_school_holidays =
        map (\<lambda>r. \<lparr>shd_name = hr_name r, shd_start = hr_start r, shd_end = hr_end r\<rparr>) (cal_school c)\<rparr>"

definition calendar_from_dto :: "calendar_dto \<Rightarrow> zurich_calendar" where
  "calendar_from_dto d =
     \<lparr>cal_public = map_of (rev (map (\<lambda>h. (phd_date h, phd_name h)) (cad_public_holidays d))),
      cal_school = map (\<lambda>r. \<lparr>hr_name = shd_name r, hr_start = shd_start r, hr_end = shd_end r\<rparr>) (cad_school_holidays d),
      cal_known_years = set (cad_known_years d)\<rparr>"

definition calendar_dumps :: "models \<Rightarrow> zurich_calendar \<Rightarrow> json_text" where
  "calendar_dumps m c = JsonText (dump_calendar m (calendar_to_dto c))"

definition calendar_loads :: "models \<Rightarrow> json_text \<Rightarrow> py_error + zurich_calendar" where
  "calendar_loads m text =
     bind_err (loads text) (\<lambda>j. bind_err (validate_calendar m j) (\<lambda>d. Inr (calendar_from_dto d)))"

section \<open>storage/catalog\_json.py\<close>

definition entry_to_dto :: "pool_catalog_entry \<Rightarrow> py_error + entry_dto" where
  "entry_to_dto e =
     bind_err (dict_at KIND_TO (pce_kind e)) (\<lambda>kind.
       Inr \<lparr>end_pool_id = pce_pool_id e, end_name = pce_name e, end_kind = kind, end_address = pce_address e,
            end_lat = map_option lat (pce_geo e), end_lon = map_option lon (pce_geo e),
            end_url = pce_url e, end_description = pce_description e, end_phone = pce_phone e,
            end_poi_id = pce_poi_id e\<rparr>)"

definition entry_from_dto :: "entry_dto \<Rightarrow> py_error + pool_catalog_entry" where
  "entry_from_dto d =
     (let g = (case (end_lat d, end_lon d) of (Some la, Some lo) \<Rightarrow> Some \<lparr>lat = la, lon = lo\<rparr> | _ \<Rightarrow> None)
      in bind_err (dict_at KIND_FROM (end_kind d)) (\<lambda>kind.
           Inr \<lparr>pce_pool_id = end_pool_id d, pce_name = end_name d, pce_kind = kind, pce_address = end_address d,
                pce_geo = g, pce_url = end_url d, pce_description = end_description d,
                pce_phone = end_phone d, pce_poi_id = end_poi_id d\<rparr>))"

definition catalog_of :: "pool_catalog_entry list \<Rightarrow> datetime \<Rightarrow> py_error + catalog_dto" where
  "catalog_of entries generated_at =
     bind_err (map_err entry_to_dto entries) (\<lambda>ds.
       Inr \<lparr>ctd_generated_at = generated_at, ctd_count = int (length entries), ctd_entries = ds\<rparr>)"

definition catalog_dumps :: "models \<Rightarrow> pool_catalog_entry list \<Rightarrow> datetime \<Rightarrow> py_error + json_text" where
  "catalog_dumps m entries generated_at =
     bind_err (catalog_of entries generated_at) (\<lambda>d. Inr (JsonText (dump_catalog m d)))"

definition catalog_loads :: "models \<Rightarrow> json_text \<Rightarrow> py_error + pool_catalog_entry list" where
  "catalog_loads m text =
     bind_err (loads text) (\<lambda>j. bind_err (validate_catalog m j) (\<lambda>d. map_err entry_from_dto (ctd_entries d)))"

section \<open>etl/silver\_codec.py\<close>

definition encode_roster :: "models \<Rightarrow> pool_catalog_entry list \<Rightarrow> datetime \<Rightarrow> py_error + json" where
  "encode_roster m entries fetched_at = bind_err (catalog_dumps m entries fetched_at) loads"

definition decode_roster :: "models \<Rightarrow> json \<Rightarrow> py_error + pool_catalog_entry list" where
  "decode_roster m payload = catalog_loads m (JsonText payload)"

record city_tariffs =
  general_tariff :: price_table
  school_tariff :: price_table

definition encode_prices :: "models \<Rightarrow> city_tariffs \<Rightarrow> py_error + json" where
  "encode_prices m t =
     bind_err (price_table_to_dto (general_tariff t)) (\<lambda>g.
     bind_err (price_table_to_dto (school_tariff t)) (\<lambda>s.
       Inr (JObj [(u ''general'', dump_price_table m g), (u ''school'', dump_price_table m s)])))"

definition price_table_at :: "models \<Rightarrow> json \<Rightarrow> pystr \<Rightarrow> py_error + price_table" where
  "price_table_at m payload k =
     bind_err (get_item payload k) (\<lambda>j. bind_err (validate_price_table m j) price_table_from_dto)"

definition decode_prices :: "models \<Rightarrow> json \<Rightarrow> py_error + city_tariffs" where
  "decode_prices m payload =
     bind_err (price_table_at m payload (u ''general'')) (\<lambda>g.
     bind_err (price_table_at m payload (u ''school'')) (\<lambda>s.
       Inr \<lparr>general_tariff = g, school_tariff = s\<rparr>))"

text \<open>What a \<open>for\<close> loop over a decoded JSON value visits.\<close>

fun iterate :: "json \<Rightarrow> py_error + json list" where
  "iterate (JList xs) = Inr xs"
| "iterate (JStr s) = Inr (map (\<lambda>c. JStr [c]) s)"
| "iterate (JObj ms) = Inr (map (\<lambda>m. JStr (fst m)) ms)"
| "iterate JNull = Inl TypeError"
| "iterate (JBool b) = Inl TypeError"
| "iterate (JInt n) = Inl TypeError"
| "iterate (JFloat x) = Inl TypeError"

record scraped_schedules =
  ss_facilities :: "facility list"
  ss_unresolved :: "pystr list"
  ss_notes :: "pystr list"

definition encode_schedules :: "models \<Rightarrow> scraped_schedules \<Rightarrow> py_error + json" where
  "encode_schedules m s =
     bind_err (map_err (\<lambda>f. bind_err (facility_dumps m f) loads) (ss_facilities s)) (\<lambda>docs.
       Inr (JObj [(u ''facilities'', JList docs), (u ''unresolved'', JList (map JStr (ss_unresolved s))),
                  (u ''notes'', JList (map JStr (ss_notes s)))]))"

definition strings_at :: "(json \<Rightarrow> pystr) \<Rightarrow> json \<Rightarrow> pystr \<Rightarrow> py_error + pystr list" where
  "strings_at repr payload k =
     bind_err (get_default payload k (JList [])) (\<lambda>j.
     bind_err (iterate j) (\<lambda>xs. Inr (map (str_json repr) xs)))"

definition decode_schedules :: "models \<Rightarrow> (json \<Rightarrow> pystr) \<Rightarrow> json \<Rightarrow> py_error + scraped_schedules" where
  "decode_schedules m repr payload =
     bind_err (get_item payload (u ''facilities'')) (\<lambda>j.
     bind_err (iterate j) (\<lambda>docs.
     bind_err (map_err (\<lambda>d. facility_loads m (JsonText d)) docs) (\<lambda>fs.
     bind_err (strings_at repr payload (u ''unresolved'')) (\<lambda>un.
     bind_err (strings_at repr payload (u ''notes'')) (\<lambda>ns.
       Inr \<lparr>ss_facilities = fs, ss_unresolved = un, ss_notes = ns\<rparr>)))))"

record scraped_lane_plans =
  sl_links :: "discovered_link list"
  sl_plans :: "parsed_plan list"

definition encode_link :: "discovered_link \<Rightarrow> json" where
  "encode_link l = JObj [(u ''pool_id'', JStr (dl_pool l)), (u ''url'', JStr (dl_url l))]"

definition encode_plan :: "models \<Rightarrow> parsed_plan \<Rightarrow> py_error + json" where
  "encode_plan m p =
     bind_err (lane_plan_to_dto (pp_plan p)) (\<lambda>d.
       Inr (JObj [(u ''basin_hint'', JStr (pp_basin_hint p)), (u ''source_url'', JStr (pp_source_url p)),
                  (u ''plan'', dump_lane_plan m d)]))"

definition encode_lane_plans :: "models \<Rightarrow> scraped_lane_plans \<Rightarrow> py_error + json" where
  "encode_lane_plans m s =
     bind_err (map_err (encode_plan m) (sl_plans s)) (\<lambda>ps.
       Inr (JObj [(u ''links'', JList (map encode_link (sl_links s))), (u ''plans'', JList ps)]))"

definition decode_link :: "(json \<Rightarrow> pystr) \<Rightarrow> json \<Rightarrow> py_error + discovered_link" where
  "decode_link repr j =
     bind_err (get_item j (u ''pool_id'')) (\<lambda>p.
     bind_err (get_item j (u ''url'')) (\<lambda>url.
       Inr \<lparr>dl_pool = reconstruct_pool_id (str_json repr p), dl_url = str_json repr url\<rparr>))"

definition decode_plan :: "models \<Rightarrow> (json \<Rightarrow> pystr) \<Rightarrow> json \<Rightarrow> py_error + parsed_plan" where
  "decode_plan m repr j =
     bind_err (get_item j (u ''basin_hint'')) (\<lambda>hint.
     bind_err (get_item j (u ''plan'')) (\<lambda>pj.
     bind_err (validate_lane_plan m pj) (\<lambda>d.
     bind_err (lane_plan_from_dto d) (\<lambda>plan.
     bind_err (get_item j (u ''source_url'')) (\<lambda>url.
       Inr \<lparr>pp_basin_hint = str_json repr hint, pp_plan = plan, pp_source_url = str_json repr url\<rparr>)))))"

definition decode_lane_plans :: "models \<Rightarrow> (json \<Rightarrow> pystr) \<Rightarrow> json \<Rightarrow> py_error + scraped_lane_plans" where
  "decode_lane_plans m repr payload =
     bind_err (get_item payload (u ''links'')) (\<lambda>lj.
     bind_err (iterate lj) (\<lambda>ls.
     bind_err (map_err (decode_link repr) ls) (\<lambda>links.
     bind_err (get_item payload (u ''plans'')) (\<lambda>pj.
     bind_err (iterate pj) (\<lambda>ps.
     bind_err (map_err (decode_plan m repr) ps) (\<lambda>plans.
       Inr \<lparr>sl_links = links, sl_plans = plans\<rparr>))))))"

end
