(* ===== verification/Codec_Properties.thy ===== *)
theory Codec_Properties
  imports Codec Silver_Properties Lake_Properties
begin

text \<open>
  Properties of the stored forms: whatever the constructors of the domain can build, the
  encoders write without raising and the decoders read back exactly; the derived freshness
  of the stored blob is the facility's own.
\<close>

section \<open>Facilities\<close>

definition storable :: "facility \<Rightarrow> bool" where
  "storable f \<longleftrightarrow> (\<forall>b \<in> set (basins f). good_basin b) \<and> (\<forall>c \<in> set (closures f). good_closure c) \<and>
     (\<forall>s. operating_season f = Some s \<longrightarrow> good_season s) \<and> (\<forall>x \<in> set (features f). good_feature x)"

interpretation notice_wire: total_wire notice_to_dto notice_from_dto
  by unfold_locales (simp add: notice_to_dto_def notice_from_dto_def)

lemma total_list: "(\<And>x. from_dto (to_dto x) = x) \<Longrightarrow> map (\<lambda>x. from_dto (to_dto x)) xs = xs"
  by (simp add: map_idI)

lemma closures_there_and_back:
  "\<forall>c \<in> set cs. good_closure c \<Longrightarrow> map (\<lambda>c. closure_from_dto (closure_to_dto c)) cs = cs"
  by (simp add: map_idI closure_there_and_back)

lemma admission_there_and_back:
  obtains prices state where "admission_to_stored a = Inr (prices, state)"
    "\<forall>s. sf_prices s = prices \<longrightarrow> sf_admission_state s = state \<longrightarrow> admission_from_stored s = Inr a"
proof (cases a)
  case (Tariff t)
  obtain d where "price_table_to_dto t = Inr d" "price_table_from_dto d = Inr t"
    using price_table_wire.there_and_back by blast
  with Tariff that show ?thesis by (simp add: admission_from_stored_def)
qed (use that in \<open>simp_all add: admission_from_stored_def\<close>)

lemma facility_there_and_back:
  assumes good: "storable f"
  shows "\<exists>d. to_stored f = Inr d \<and> from_stored d = Inr f"
proof -
  obtain prices state where adm: "admission_to_stored (admission_of f) = Inr (prices, state)"
    "\<forall>s. sf_prices s = prices \<longrightarrow> sf_admission_state s = state \<longrightarrow> admission_from_stored s = Inr (admission_of f)"
    by (rule admission_there_and_back [of "admission_of f"])
  obtain k where k: "dict_at KIND_TO (pid_kind (identity f)) = Inr k" "dict_at KIND_FROM k = Inr (pid_kind (identity f))"
    using kind_token.there_and_back by blast
  obtain p where p: "opt_err (dict_at POLICY_TO) (public_holiday_policy f) = Inr p"
      "opt_err (dict_at POLICY_FROM) p = Inr (public_holiday_policy f)"
    using policy_token.option_there_and_back by blast
  obtain se where se: "opt_err operating_season_to_dto (operating_season f) = Inr se"
      "opt_err operating_season_from_dto se = Inr (operating_season f)"
    using operating_season_wire.option_there_and_back [of "operating_season f"] good by (auto simp: storable_def)
  obtain bs where bs: "map_err basin_to_dto (basins f) = Inr bs" "map_err basin_from_dto bs = Inr (basins f)"
    using basin_wire.list_there_and_back [of "basins f"] good by (auto simp: storable_def)
  obtain fs where fs: "map_err feature_to_dto (features f) = Inr fs" "map_err feature_from_dto fs = Inr (features f)"
    using feature_wire.list_there_and_back [of "features f"] good by (auto simp: storable_def)
  obtain ls where ls: "map_err locker_to_dto (lockers f) = Inr ls" "map_err locker_from_dto ls = Inr (lockers f)"
    using locker_wire.list_there_and_back [of "lockers f"] by auto
  have rs: "map_err rental_from_dto (map rental_to_dto (rentals f)) = Inr (rentals f)"
    using rental_wire.list_there_and_back [of "rentals f"] by simp
  have cs: "map (\<lambda>c. closure_from_dto (closure_to_dto c)) (closures f) = closures f"
    using good by (simp add: storable_def closures_there_and_back)
  have "\<And>s. sf_prices s = prices \<Longrightarrow> sf_admission_state s = state \<Longrightarrow> admission_from_stored s = Inr (admission_of f)"
    using adm(2) by blast
  then show ?thesis
    by (simp add: to_stored_def from_stored_def Let_def adm(1) k p se bs fs ls rs cs comp_def total_list
        notice_wire.dec_of_enc geo_wire.dec_of_enc option.map_comp option.map_ident reconstruct_pool_id_def)
qed

interpretation facility_wire: wire storable to_stored from_stored
  by unfold_locales (rule facility_there_and_back)

section \<open>Calendars\<close>

lemma holiday_range_eta: "\<lparr>hr_name = hr_name r, hr_start = hr_start r, hr_end = hr_end r\<rparr> = r"
  by (cases r) simp

lemma calendar_there_and_back:
  assumes "finite (cal_known_years c)" "finite (dom (cal_public c))"
  shows "calendar_from_dto (calendar_to_dto c) = c"
proof -
  have "map_of (map (\<lambda>d. (d, the (cal_public c d))) (rev (sorted_list_of_set (dom (cal_public c))))) = cal_public c"
    using assms(2) by (subst map_of_graph) (auto simp: restrict_map_def fun_eq_iff domIff)
  with assms(1) show ?thesis
    by (cases c) (simp add: calendar_to_dto_def calendar_from_dto_def comp_def rev_map holiday_range_eta)
qed

section \<open>Catalog entries\<close>

interpretation entry_wire: wire "\<lambda>_. True" entry_to_dto entry_from_dto
proof unfold_locales
  fix e :: pool_catalog_entry
  obtain k where "dict_at KIND_TO (pce_kind e) = Inr k" "dict_at KIND_FROM k = Inr (pce_kind e)"
    using kind_token.there_and_back by blast
  then show "\<exists>d. entry_to_dto e = Inr d \<and> entry_from_dto d = Inr e"
    by (cases "pce_geo e") (simp_all add: entry_to_dto_def entry_from_dto_def)
qed

section \<open>What pydantic must grant\<close>

text \<open>
  Pydantic reads back the document it wrote for this value, whatever the order of the members:
  the documents pass through files whose members the lake sorts.
\<close>

definition reads_back :: "('d \<Rightarrow> json) \<Rightarrow> (json \<Rightarrow> py_error + 'd) \<Rightarrow> 'd \<Rightarrow> bool" where
  "reads_back dump validate d \<longleftrightarrow> validate (dump d) = Inr d \<and> validate (sort_keys (dump d)) = Inr d"

definition facility_reads_back :: "models \<Rightarrow> facility \<Rightarrow> bool" where
  "facility_reads_back m f \<longleftrightarrow> (\<forall>d. to_stored f = Inr d \<longrightarrow> reads_back (dump_stored m) (validate_stored m) d)"

definition plan_reads_back :: "models \<Rightarrow> lane_plan \<Rightarrow> bool" where
  "plan_reads_back m p \<longleftrightarrow> (\<forall>d. lane_plan_to_dto p = Inr d \<longrightarrow> reads_back (dump_lane_plan m) (validate_lane_plan m) d)"

section \<open>The payloads of the lake\<close>

lemma sort_keys_list: "sort_keys (JList xs) = JList (map sort_keys xs)"
  by simp

lemma str_json_sorted [simp]: "str_json repr (sort_keys (JStr s)) = s" "str_json repr (JStr s) = s"
  by (simp_all add: str_json_def)

lemma facility_doc:
  assumes "storable f" "facility_reads_back m f"
  shows "\<exists>j. facility_dumps m f = Inr (JsonText j) \<and> facility_loads m (JsonText j) = Inr f \<and>
    facility_loads m (JsonText (sort_keys j)) = Inr f"
proof -
  obtain d where "to_stored f = Inr d" "from_stored d = Inr f" using facility_wire.there_and_back [OF assms(1)] by blast
  with assms(2) show ?thesis by (simp add: facility_dumps_def facility_loads_def facility_reads_back_def reads_back_def)
qed

lemma facility_docs:
  assumes "\<forall>f \<in> set fs. storable f \<and> facility_reads_back m f"
  shows "\<exists>js. map_err (\<lambda>f. bind_err (facility_dumps m f) loads) fs = Inr js \<and>
    map_err (\<lambda>d. facility_loads m (JsonText d)) (map sort_keys js) = Inr fs"
  using assms
proof (induction fs)
  case (Cons f fs)
  obtain j where "facility_dumps m f = Inr (JsonText j)" "facility_loads m (JsonText (sort_keys j)) = Inr f"
    using facility_doc Cons.prems by fastforce
  moreover obtain js where "map_err (\<lambda>f. bind_err (facility_dumps m f) loads) fs = Inr js"
    "map_err (\<lambda>d. facility_loads m (JsonText d)) (map sort_keys js) = Inr fs" using Cons by auto
  ultimately show ?case by (intro exI [of _ "j # js"]) simp
qed simp

lemma schedules_payload:
  assumes "\<forall>f \<in> set (ss_facilities s). storable f \<and> facility_reads_back m f"
  shows "\<exists>p. encode_schedules m s = Inr (JObj p) \<and> decode_schedules m repr (sort_keys (JObj p)) = Inr s"
proof -
  obtain js where js: "map_err (\<lambda>f. bind_err (facility_dumps m f) loads) (ss_facilities s) = Inr js"
    "map_err (\<lambda>d. facility_loads m (JsonText d)) (map sort_keys js) = Inr (ss_facilities s)"
    using facility_docs [OF assms] by blast
  let ?p = "[(u ''facilities'', JList js), (u ''unresolved'', JList (map JStr (ss_unresolved s))),
                  (u ''notes'', JList (map JStr (ss_notes s)))]"
  have distinct: "distinct (map fst ?p)" by simp
  have "encode_schedules m s = Inr (JObj ?p)" by (simp add: encode_schedules_def js)
  moreover have "decode_schedules m repr (sort_keys (JObj ?p)) = Inr s"
    unfolding decode_schedules_def strings_at_def get_item_sorted [OF distinct] get_default_sorted [OF distinct]
    by (simp add: js comp_def)
  ultimately show ?thesis by blast
qed

lemma link_doc: "decode_link repr (sort_keys (encode_link l)) = Inr l"
proof -
  have "distinct (map fst [(u ''pool_id'', JStr (dl_pool l)), (u ''url'', JStr (dl_url l))])" by simp
  from get_item_sorted [OF this] show ?thesis
    by (simp add: decode_link_def encode_link_def reconstruct_pool_id_def str_json_def del: sort_keys.simps(7))
qed

lemma plan_doc:
  assumes "storable_plan (pp_plan p)" "plan_reads_back m (pp_plan p)"
  shows "\<exists>j. encode_plan m p = Inr j \<and> decode_plan m repr (sort_keys j) = Inr p"
proof -
  obtain d where d: "lane_plan_to_dto (pp_plan p) = Inr d" "lane_plan_from_dto d = Inr (pp_plan p)"
    using lane_plan_wire.there_and_back [OF assms(1)] by blast
  let ?ms = "[(u ''basin_hint'', JStr (pp_basin_hint p)), (u ''source_url'', JStr (pp_source_url p)), (u ''plan'', dump_lane_plan m d)]"
  have "distinct (map fst ?ms)" by simp
  from get_item_sorted [OF this] d assms(2) show ?thesis
    by (intro exI [of _ "JObj ?ms"])
      (simp add: encode_plan_def decode_plan_def plan_reads_back_def reads_back_def str_json_def del: sort_keys.simps(7))
qed

lemma plan_docs:
  assumes "\<forall>p \<in> set ps. storable_plan (pp_plan p) \<and> plan_reads_back m (pp_plan p)"
  shows "\<exists>js. map_err (encode_plan m) ps = Inr js \<and> map_err (decode_plan m repr) (map sort_keys js) = Inr ps"
  using assms
proof (induction ps)
  case (Cons p ps)
  obtain j where "encode_plan m p = Inr j" "decode_plan m repr (sort_keys j) = Inr p" using plan_doc Cons.prems by fastforce
  moreover obtain js where "map_err (encode_plan m) ps = Inr js" "map_err (decode_plan m repr) (map sort_keys js) = Inr ps"
    using Cons by auto
  ultimately show ?case by (intro exI [of _ "j # js"]) simp
qed simp

lemma link_docs: "map_err (decode_link repr) (map (\<lambda>l. sort_keys (encode_link l)) ls) = Inr ls"
  by (induction ls) (simp_all add: link_doc)

lemma lane_plans_payload:
  assumes "\<forall>p \<in> set (sl_plans s). storable_plan (pp_plan p) \<and> plan_reads_back m (pp_plan p)"
  shows "\<exists>p. encode_lane_plans m s = Inr (JObj p) \<and> decode_lane_plans m repr (sort_keys (JObj p)) = Inr s"
proof -
  obtain js where js: "map_err (encode_plan m) (sl_plans s) = Inr js" "map_err (decode_plan m repr) (map sort_keys js) = Inr (sl_plans s)"
    using plan_docs [OF assms] by blast
  let ?p = "[(u ''links'', JList (map encode_link (sl_links s))), (u ''plans'', JList js)]"
  have distinct: "distinct (map fst ?p)" by simp
  have "encode_lane_plans m s = Inr (JObj ?p)" by (simp add: encode_lane_plans_def js)
  moreover have "decode_lane_plans m repr (sort_keys (JObj ?p)) = Inr s"
    unfolding decode_lane_plans_def get_item_sorted [OF distinct] by (simp add: js comp_def link_docs)
  ultimately show ?thesis by blast
qed

section \<open>Results\<close>


definition ex_stored_facility :: facility where
  "ex_stored_facility = ex_facility (u ''p'') [ex_sheet_basin]"

definition ex_models :: models where
  "ex_models =
     \<lparr>dump_stored = (\<lambda>_. JNull), validate_stored = (\<lambda>_. to_stored ex_stored_facility),
      dump_calendar = (\<lambda>_. JNull), validate_calendar = (\<lambda>_. Inl ValueError),
      dump_catalog = (\<lambda>_. JNull), validate_catalog = (\<lambda>_. Inl ValueError),
      dump_price_table = (\<lambda>_. JNull), validate_price_table = (\<lambda>_. Inl ValueError),
      dump_lane_plan = (\<lambda>_. JNull), validate_lane_plan = (\<lambda>_. lane_plan_to_dto ex_plan)\<rparr>"

lemma ex_storable: "storable ex_stored_facility"
  by (simp add: storable_def ex_stored_facility_def ex_facility_def ex_sheet_basin_def good_basin_def)

lemma ex_reads_back: "facility_reads_back ex_models ex_stored_facility"
  by (simp add: facility_reads_back_def reads_back_def ex_models_def)


lemma lake_payload_sorted:
  assumes "usable io lake_root fs" "good_time rt t" "lake_write rt lake_root io src p t fs = (Inr d, fs')"
  shows "\<exists>d'. lake_read rt lake_root fs' src = Inr (Some d') \<and> JObj (sd_payload d') = sort_keys (JObj p)"
  using silver_lake.write_read [OF assms] silver_lake.write_doc [OF assms(3)] by (auto simp: canon_def)

text \<open>
  The lake hands the scrape back: what the schedule phase encoded and the lake wrote, the next
  run reads from the lake and decodes to the same facilities, unresolved labels and notes,
  although the lake has reordered the members of every object on the way.
\<close>

theorem lake_hands_back_schedules:
  assumes "\<forall>f \<in> set (ss_facilities s). storable f \<and> facility_reads_back m f"
    and "encode_schedules m s = Inr (JObj p)"
    and "usable io lake_root fs" "good_time rt t" "lake_write rt lake_root io src p t fs = (Inr d, fs')"
  shows "\<exists>d'. lake_read rt lake_root fs' src = Inr (Some d') \<and> decode_schedules m repr (JObj (sd_payload d')) = Inr s"
  using schedules_payload [OF assms(1), of repr] lake_payload_sorted [OF assms(3-5)] assms(2) by fastforce

theorem lake_hands_back_schedules_witness:
  "\<exists>d' fs'. lake_read ex_rt (u ''lake'') fs' (u ''schedules'') = Inr (Some d') \<and>
     decode_schedules ex_models (\<lambda>_. []) (JObj (sd_payload d')) =
       Inr \<lparr>ss_facilities = [ex_stored_facility], ss_unresolved = [u ''x''], ss_notes = []\<rparr>"
proof -
  let ?s = "\<lparr>ss_facilities = [ex_stored_facility], ss_unresolved = [u ''x''], ss_notes = []\<rparr>"
  have good: "\<forall>f \<in> set (ss_facilities ?s). storable f \<and> facility_reads_back ex_models f"
    by (simp add: ex_storable ex_reads_back)
  obtain p where p: "encode_schedules ex_models ?s = Inr (JObj p)" using schedules_payload [OF good] by blast
  obtain d fs' where w: "lake_write ex_rt (u ''lake'') ex_io (u ''schedules'') p (ex_at 10) Map.empty = (Inr d, fs')"
    by (rule ex_write)
  from lake_hands_back_schedules [OF good p ex_usable ex_good_time w, of "\<lambda>_. []"] show ?thesis by auto
qed

text \<open>
  The lake hands the lane plans back: the links and plans the lane phase encoded and the lake
  wrote are, read from the lake and decoded, the same links and the same plans, every
  reservation, weekday count and coverage figure included.
\<close>

theorem lake_hands_back_lane_plans:
  assumes "\<forall>p \<in> set (sl_plans s). storable_plan (pp_plan p) \<and> plan_reads_back m (pp_plan p)"
    and "encode_lane_plans m s = Inr (JObj p)"
    and "usable io lake_root fs" "good_time rt t" "lake_write rt lake_root io src p t fs = (Inr d, fs')"
  shows "\<exists>d'. lake_read rt lake_root fs' src = Inr (Some d') \<and> decode_lane_plans m repr (JObj (sd_payload d')) = Inr s"
  using lane_plans_payload [OF assms(1), of repr] lake_payload_sorted [OF assms(3-5)] assms(2) by fastforce

theorem lake_hands_back_lane_plans_witness:
  "\<exists>d' fs'. lake_read ex_rt (u ''lake'') fs' (u ''lane_plans'') = Inr (Some d') \<and>
     decode_lane_plans ex_models (\<lambda>_. []) (JObj (sd_payload d')) =
       Inr \<lparr>sl_links = [\<lparr>dl_pool = u ''p'', dl_url = u ''a.pdf''\<rparr>], sl_plans = [ex_parsed]\<rparr>"
proof -
  let ?s = "\<lparr>sl_links = [\<lparr>dl_pool = u ''p'', dl_url = u ''a.pdf''\<rparr>], sl_plans = [ex_parsed]\<rparr>"
  have good: "\<forall>p \<in> set (sl_plans ?s). storable_plan (pp_plan p) \<and> plan_reads_back ex_models (pp_plan p)"
    using ex_plan_wf_ranges
    by (auto simp: ex_parsed_def storable_plan_def plan_reads_back_def reads_back_def ex_models_def good_coverage_def
        good_reservation_def ex_plan_def wf_ranges_def ex_reservation_def)
  obtain p where p: "encode_lane_plans ex_models ?s = Inr (JObj p)" using lane_plans_payload [OF good] by blast
  obtain d fs' where w: "lake_write ex_rt (u ''lake'') ex_io (u ''lane_plans'') p (ex_at 10) Map.empty = (Inr d, fs')"
    by (rule ex_write)
  from lake_hands_back_lane_plans [OF good p ex_usable ex_good_time w, of "\<lambda>_. []"] show ?thesis by auto
qed

text \<open>
  Calendars and catalogs: the stored calendar decodes to an equal calendar, whatever the order
  in which its holidays were inserted, and the roster payload to the same entries.
\<close>

theorem calendar_and_roster_round_trip:
  assumes "finite (cal_known_years c)" "finite (dom (cal_public c))"
    and "validate_calendar m (dump_calendar m (calendar_to_dto c)) = Inr (calendar_to_dto c)"
    and "\<forall>d. catalog_of entries t = Inr d \<longrightarrow> validate_catalog m (dump_catalog m d) = Inr d"
  shows "calendar_loads m (calendar_dumps m c) = Inr c \<and>
    (\<exists>j. encode_roster m entries t = Inr j \<and> decode_roster m j = Inr entries)"
proof -
  obtain ds where "map_err entry_to_dto entries = Inr ds" "map_err entry_from_dto ds = Inr entries"
    using entry_wire.list_there_and_back [of entries] by auto
  with assms(4) have "\<exists>j. encode_roster m entries t = Inr j \<and> decode_roster m j = Inr entries"
    by (simp add: encode_roster_def decode_roster_def catalog_dumps_def catalog_loads_def catalog_of_def)
  with assms(1-3) show ?thesis by (simp add: calendar_loads_def calendar_dumps_def calendar_there_and_back)
qed

end
