(* ===== verification/Url.thy ===== *)
theory Url
  imports PyDict
begin

text \<open>
  The part of \<open>urllib.parse\<close> the program uses: \<open>urlsplit\<close>, the \<open>hostname\<close> of its result
  and \<open>urlunsplit\<close>. Two checks of \<open>urlsplit\<close> on the network location are the runtime's and an
  argument: whether a bracketed host is an IP literal, and whether normalisation of a
  non-ASCII host introduces a delimiter; both raise \<open>ValueError\<close>.
\<close>

section \<open>Splitting strings\<close>

text \<open>\<open>s.partition(sep)\<close> on one character: before, whether found, after.\<close>

fun partition_at :: "nat \<Rightarrow> pystr \<Rightarrow> pystr \<times> bool \<times> pystr" where
  "partition_at sep [] = ([], False, [])"
| "partition_at sep (c # cs) =
     (if c = sep then ([], True, cs) else case partition_at sep cs of (a, found, b) \<Rightarrow> (c # a, found, b))"

text \<open>\<open>s.rpartition(sep)[2]\<close>: what follows the last separator, all of \<open>s\<close> when there is none.\<close>

fun after_last :: "nat \<Rightarrow> pystr \<Rightarrow> pystr" where
  "after_last sep [] = []"
| "after_last sep (c # cs) = (if sep \<in> set (c # cs) then after_last sep cs else c # cs)"

definition starts :: "pystr \<Rightarrow> pystr \<Rightarrow> bool" where
  "starts p s \<longleftrightarrow> take (length p) s = p"

definition ends :: "pystr \<Rightarrow> pystr \<Rightarrow> bool" where
  "ends p s \<longleftrightarrow> length p \<le> length s \<and> drop (length s - length p) s = p"

section \<open>urlsplit\<close>

record split_url =
  su_scheme :: pystr
  su_netloc :: pystr
  su_path :: pystr
  su_query :: pystr
  su_fragment :: pystr

definition is_ascii_alpha :: "nat \<Rightarrow> bool" where
  "is_ascii_alpha c \<longleftrightarrow> (65 \<le> c \<and> c \<le> 90) \<or> (97 \<le> c \<and> c \<le> 122)"

definition scheme_char :: "nat \<Rightarrow> bool" where
  "scheme_char c \<longleftrightarrow> is_ascii_alpha c \<or> (48 \<le> c \<and> c \<le> 57) \<or> c \<in> {43, 45, 46}"

text \<open>Leading control characters and spaces go, tabs and line ends go everywhere.\<close>

definition clean_url :: "pystr \<Rightarrow> pystr" where
  "clean_url s = filter (\<lambda>c. c \<notin> {9, 10, 13}) (dropWhile (\<lambda>c. c \<le> 32) s)"

definition split_scheme :: "pystr \<Rightarrow> pystr \<times> pystr" where
  "split_scheme s =
     (case partition_at 58 s of (a, found, b) \<Rightarrow>
        if found \<and> a \<noteq> [] \<and> is_ascii_alpha (hd a) \<and> list_all scheme_char a then (py_lower a, b) else ([], s))"

definition split_netloc :: "pystr \<Rightarrow> pystr \<times> pystr" where
  "split_netloc s =
     (if starts [47, 47] s
      then (takeWhile (\<lambda>c. c \<notin> {47, 63, 35}) (drop 2 s), dropWhile (\<lambda>c. c \<notin> {47, 63, 35}) (drop 2 s))
      else ([], s))"

definition urlsplit :: "(pystr \<Rightarrow> bool) \<Rightarrow> pystr \<Rightarrow> py_error + split_url" where
  "urlsplit netloc_rejected raw =
     (let (scheme, s1) = split_scheme (clean_url raw);
          (netloc, s2) = split_netloc s1;
          (s3, has_fragment, fragment) = partition_at 35 s2;
          (path, has_query, query) = partition_at 63 s3
      in if (91 \<in> set netloc) \<noteq> (93 \<in> set netloc) then Inl ValueError
         else if netloc_rejected netloc then Inl ValueError
         else Inr \<lparr>su_scheme = scheme, su_netloc = netloc, su_path = path, su_query = query,
                   su_fragment = fragment\<rparr>)"

definition hostname_of :: "split_url \<Rightarrow> pystr option" where
  "hostname_of parts =
     (let hostinfo = after_last 64 (su_netloc parts);
          (pre, bracket, bracketed) = partition_at 91 hostinfo;
          host = (if bracket then fst (partition_at 93 bracketed) else fst (partition_at 58 hostinfo))
      in if host = [] then None
         else (case partition_at 37 host of (h, percent, zone) \<Rightarrow>
                 Some (py_lower h @ (if percent then 37 # zone else []))))"

text \<open>\<open>urlunsplit\<close> of a result with a network location, the only ones the program passes.\<close>

definition urlunsplit :: "split_url \<Rightarrow> pystr" where
  "urlunsplit p =
     (let path = su_path p;
          s1 = u ''//'' @ su_netloc p @ (if path \<noteq> [] \<and> hd path \<noteq> 47 then 47 # path else path);
          s2 = (if su_scheme p \<noteq> [] then su_scheme p @ u '':'' @ s1 else s1);
          s3 = (if su_query p \<noteq> [] then s2 @ u ''?'' @ su_query p else s2)
      in if su_fragment p \<noteq> [] then s3 @ u ''#'' @ su_fragment p else s3)"

lemma partition_at_parts: "partition_at sep s = (a, found, b) \<Longrightarrow>
    sep \<notin> set a \<and> (if found then s = a @ sep # b else s = a \<and> b = [])"
proof (induction s arbitrary: a)
  case (Cons c cs)
  show ?case
  proof (cases "c = sep")
    case False
    obtain a' where "partition_at sep cs = (a', found, b)" "a = c # a'"
      using Cons.prems False by (auto split: prod.splits)
    with Cons.IH False show ?thesis by auto
  qed (use Cons.prems in auto)
qed simp

end
