(* ===== verification/Geo_Sport.thy ===== *)
theory Geo_Sport
  imports Catalog Url Bytes Json Http
begin

text \<open>
  \<open>src/swimzh/providers/geo_sport.py\<close>, \<open>boundary/geo_sport_dto.py\<close>, \<open>etl/catalog.py\<close> and
  \<open>etl/roster.py\<close>: the pool locations of the city's feature service and the roster of
  catalog entries built from them. Reading JSON from bytes, the text of its errors, pydantic's
  validation of the collection and \<open>urlsplit\<close>'s host check are the record \<open>geo_env\<close>; a
  client is its \<open>get\<close> with query parameters, over the world \<open>'w\<close>.
\<close>

definition GEO_SOURCE :: pystr where
  "GEO_SOURCE = u ''geo_sport''"

definition WFS_URL :: pystr where
  "WFS_URL = u ''https://www.ogd.stadt-zuerich.ch/wfs/geoportal/Sport''"

definition POOL_LAYERS :: "(pystr \<times> pool_kind) list" where
  "POOL_LAYERS = [(u ''poi_hallenbad_view'', INDOOR), (u ''poi_freibad_view'', OUTDOOR_POOL),
     (u ''poi_flussbad_view'', RIVER), (u ''poi_seebad_view'', LAKE),
     (u ''poi_schulschwimmanlage_view'', SCHOOL), (u ''poi_planschbecken_view'', PADDLING)]"

definition INDOOR_LAYER :: pystr where
  "INDOOR_LAYER = u ''poi_hallenbad_view''"

definition layer_params :: "pystr \<Rightarrow> (pystr \<times> pystr) list" where
  "layer_params typename =
     [(u ''SERVICE'', u ''WFS''), (u ''REQUEST'', u ''GetFeature''), (u ''VERSION'', u ''1.1.0''),
      (u ''TYPENAME'', typename), (u ''OUTPUTFORMAT'', u ''application/json'')]"

section \<open>The validated collection\<close>

record point_dto =
  pt_coordinates :: "real list"

record properties_dto =
  pr_name :: pystr
  pr_namenzus :: "pystr option"
  pr_strasse :: "pystr option"
  pr_hausnummer :: "pystr option"
  pr_plz :: "pystr option"
  pr_ort :: "pystr option"
  pr_www :: "pystr option"
  pr_tel :: "pystr option"
  pr_poi_id :: "pystr option"
  pr_kategorie :: "pystr option"
  pr_infrastruktur :: "pystr option"
  pr_bemerkung :: "pystr option"

record geo_feature_dto =
  gf_id :: pystr
  gf_geometry :: point_dto
  gf_properties :: properties_dto

record feature_collection_dto =
  fc_features :: "geo_feature_dto list"

record geo_pool =
  gp_source_id :: pystr
  gp_poi_id :: "pystr option"
  gp_name :: pystr
  gp_kind :: pool_kind
  gp_address :: pystr
  gp_geo :: geo_point
  gp_url :: "pystr option"
  gp_category :: "pystr option"
  gp_description :: "pystr option"
  gp_phone :: "pystr option"

record geo_env =
  ge_json :: "byte list \<Rightarrow> json_text"
  ge_json_detail :: "byte list \<Rightarrow> pystr"
  ge_validate :: "json \<Rightarrow> pystr + feature_collection_dto"
  ge_netloc_rejected :: "pystr \<Rightarrow> bool"

section \<open>Fields\<close>

definition NULL_SENTINEL :: pystr where
  "NULL_SENTINEL = u ''NULL''"

definition absent_if_null :: "pystr option \<Rightarrow> pystr option" where
  "absent_if_null v = (if v = Some NULL_SENTINEL then None else v)"

text \<open>\<open>sep.join(part for part in parts if part)\<close>.\<close>

definition join_present :: "pystr \<Rightarrow> pystr option list \<Rightarrow> pystr" where
  "join_present sep parts =
     py_join sep (concat (map (\<lambda>p. case p of Some s \<Rightarrow> if s = [] then [] else [s] | None \<Rightarrow> []) parts))"

definition address_of :: "geo_feature_dto \<Rightarrow> pystr" where
  "address_of f =
     (let p = gf_properties f;
          street = join_present (u '' '') [absent_if_null (pr_strasse p), absent_if_null (pr_hausnummer p)];
          town = join_present (u '' '') [absent_if_null (pr_plz p), absent_if_null (pr_ort p)]
      in join_present (u '', '') [Some street, Some town])"

definition clean_text :: "pystr option \<Rightarrow> pystr option" where
  "clean_text t =
     (case t of
        None \<Rightarrow> None
      | Some s \<Rightarrow>
          let cleaned = py_strip (py_join (u '' '') (py_split (map (\<lambda>c. if c = 59 then 32 else c) s)))
          in absent_if_null (if cleaned = [] then None else Some cleaned))"

definition BROKEN_TLS_HOSTS :: "pystr set" where
  "BROKEN_TLS_HOSTS = {u ''sportamt.ch'', u ''www.sportamt.ch''}"

definition SPORTAMT_SLUG_REPAIRS :: "(pystr \<times> pystr) list" where
  "SPORTAMT_SLUG_REPAIRS = [(u ''/freibad-zwischen-hoelzern'', u ''/freibad-zwischen-den-hoelzern'')]"

definition repaired :: "split_url \<Rightarrow> split_url" where
  "repaired parts =
     parts\<lparr>su_scheme := (if su_scheme parts = u ''https'' then u ''http'' else su_scheme parts),
           su_path := (case map_of SPORTAMT_SLUG_REPAIRS (su_path parts) of Some p \<Rightarrow> p | None \<Rightarrow> su_path parts)\<rparr>"

definition normalize_roster_url :: "(pystr \<Rightarrow> bool) \<Rightarrow> pystr option \<Rightarrow> pystr option" where
  "normalize_roster_url netloc_rejected raw =
     (case raw of
        None \<Rightarrow> None
      | Some s \<Rightarrow>
          (case urlsplit netloc_rejected s of
             Inl e \<Rightarrow> Some s
           | Inr parts \<Rightarrow>
               (case hostname_of parts of
                  None \<Rightarrow> Some s
                | Some host \<Rightarrow>
                    if py_lower host \<notin> BROKEN_TLS_HOSTS then Some s
                    else if (su_scheme (repaired parts), su_path (repaired parts)) = (su_scheme parts, su_path parts) then Some s
                    else Some (urlunsplit (repaired parts)))))"

section \<open>Parsing one layer\<close>

definition to_geo_pool :: "(pystr \<Rightarrow> bool) \<Rightarrow> pool_kind \<Rightarrow> geo_feature_dto \<Rightarrow> py_error + geo_pool" where
  "to_geo_pool netloc_rejected kind f =
     bind_err (py_index (pt_coordinates (gf_geometry f)) 0) (\<lambda>lo.
     bind_err (py_index (pt_coordinates (gf_geometry f)) 1) (\<lambda>la.
       let p = gf_properties f;
           namenzus = absent_if_null (pr_namenzus p);
           name = (case namenzus of Some z \<Rightarrow> if z = [] then pr_name p else pr_name p @ u '' '' @ z | None \<Rightarrow> pr_name p)
       in Inr \<lparr>gp_source_id = gf_id f, gp_poi_id = absent_if_null (pr_poi_id p), gp_name = name, gp_kind = kind,
               gp_address = address_of f, gp_geo = \<lparr>lat = la, lon = lo\<rparr>,
               gp_url = normalize_roster_url netloc_rejected (absent_if_null (pr_www p)),
               gp_category = absent_if_null (pr_kategorie p), gp_description = clean_text (pr_infrastruktur p),
               gp_phone = absent_if_null (pr_tel p)\<rparr>))"

fun all_pools :: "(pystr \<Rightarrow> bool) \<Rightarrow> pool_kind \<Rightarrow> geo_feature_dto list \<Rightarrow> py_error + geo_pool list" where
  "all_pools netloc_rejected kind [] = Inr []"
| "all_pools netloc_rejected kind (f # fs) =
     bind_err (to_geo_pool netloc_rejected kind f) (\<lambda>p.
     bind_err (all_pools netloc_rejected kind fs) (\<lambda>ps. Inr (p # ps)))"

text \<open>Only \<open>JSONDecodeError\<close> and \<open>ValidationError\<close> are caught; bytes that are no text raise.\<close>

definition parse_pools ::
  "geo_env \<Rightarrow> byte list \<Rightarrow> pool_kind \<Rightarrow> py_error + (geo_pool list, provider_error) result" where
  "parse_pools env raw kind =
     (case ge_json env raw of
        NotUtf8 \<Rightarrow> Inl ValueError
      | BadText \<Rightarrow> Inr (Err (ParseError GEO_SOURCE (ge_json_detail env raw) (decode_utf8_replace (take 200 raw))))
      | JsonText payload \<Rightarrow>
          (case ge_validate env payload of
             Inl detail \<Rightarrow> Inr (Err (SchemaMismatch GEO_SOURCE detail))
           | Inr collection \<Rightarrow> bind_err (all_pools (ge_netloc_rejected env) kind (fc_features collection)) (\<lambda>ps. Inr (Ok ps))))"

section \<open>Fetching\<close>

type_synonym 'w param_getter =
  "pystr \<Rightarrow> (pystr \<times> pystr) list \<Rightarrow> 'w \<Rightarrow> (py_error + (http_response, provider_error) result) \<times> 'w"

definition fetch_raw :: "'w param_getter \<Rightarrow> pystr \<Rightarrow> 'w \<Rightarrow> (py_error + (byte list, provider_error) result) \<times> 'w" where
  "fetch_raw get typename w =
     (case get WFS_URL (layer_params typename) w of (r, w') \<Rightarrow> (bind_err r (\<lambda>r. Inr (fmap r rs_content)), w'))"

definition fetch_layer ::
  "geo_env \<Rightarrow> 'w param_getter \<Rightarrow> pystr \<Rightarrow> pool_kind \<Rightarrow> 'w \<Rightarrow>
   (py_error + (geo_pool list, provider_error) result) \<times> 'w" where
  "fetch_layer env get typename kind w =
     (case fetch_raw get typename w of (r, w') \<Rightarrow>
       (bind_err r (\<lambda>r. case r of Err e \<Rightarrow> Inr (Err e) | Ok raw \<Rightarrow> parse_pools env raw kind), w'))"

definition fetch_indoor_pools ::
  "geo_env \<Rightarrow> 'w param_getter \<Rightarrow> 'w \<Rightarrow> (py_error + (geo_pool list, provider_error) result) \<times> 'w" where
  "fetch_indoor_pools env get w = fetch_layer env get INDOOR_LAYER INDOOR w"

fun fetch_layers ::
  "geo_env \<Rightarrow> 'w param_getter \<Rightarrow> (pystr \<times> pool_kind) list \<Rightarrow> geo_pool list \<Rightarrow> 'w \<Rightarrow>
   (py_error + (geo_pool list, provider_error) result) \<times> 'w" where
  "fetch_layers env get [] pools w = (Inr (Ok pools), w)"
| "fetch_layers env get ((typename, kind) # layers) pools w =
     (case fetch_layer env get typename kind w of
        (Inl e, w') \<Rightarrow> (Inl e, w')
      | (Inr (Err e), w') \<Rightarrow> (Inr (Err e), w')
      | (Inr (Ok layer_pools), w') \<Rightarrow> fetch_layers env get layers (pools @ layer_pools) w')"

definition fetch_all_pools ::
  "geo_env \<Rightarrow> 'w param_getter \<Rightarrow> 'w \<Rightarrow> (py_error + (geo_pool list, provider_error) result) \<times> 'w" where
  "fetch_all_pools env get w = fetch_layers env get POOL_LAYERS [] w"

section \<open>The catalog\<close>

definition entry_for_pool :: "pystr \<Rightarrow> geo_pool \<Rightarrow> pool_catalog_entry" where
  "entry_for_pool pool_id p =
     \<lparr>pce_pool_id = pool_id, pce_name = gp_name p, pce_kind = gp_kind p, pce_address = gp_address p,
      pce_geo = Some (gp_geo p), pce_url = gp_url p, pce_description = gp_description p,
      pce_phone = gp_phone p, pce_poi_id = gp_poi_id p\<rparr>"

definition catalog_id :: "pystr \<Rightarrow> nat \<Rightarrow> pystr" where
  "catalog_id base n = (if n = 0 then base else base @ u ''-'' @ str_of_int (int n + 1))"

definition catalog_step ::
  "(pystr \<rightharpoonup> nat) \<times> pool_catalog_entry list \<Rightarrow> geo_pool \<Rightarrow> (pystr \<rightharpoonup> nat) \<times> pool_catalog_entry list" where
  "catalog_step st p =
     (let (seen, entries) = st; base = slug (gp_name p);
          n = (case seen base of Some k \<Rightarrow> k | None \<Rightarrow> 0)
      in (seen(base \<mapsto> n + 1), entries @ [entry_for_pool (catalog_id base n) p]))"

definition build_catalog :: "geo_pool list \<Rightarrow> pool_catalog_entry list" where
  "build_catalog pools = snd (foldl catalog_step (Map.empty, []) pools)"

definition fetch_roster ::
  "geo_env \<Rightarrow> 'w param_getter \<Rightarrow> 'w \<Rightarrow> (py_error + (pool_catalog_entry list, provider_error) result) \<times> 'w" where
  "fetch_roster env get w =
     (case fetch_all_pools env get w of (r, w') \<Rightarrow> (bind_err r (\<lambda>r. Inr (fmap r build_catalog)), w'))"

end
