(* ===== verification/Reconcile.thy ===== *)
theory Reconcile
  imports Registry Errors
begin

text \<open>
  \<open>src/swimzh/build/reconcile.py\<close>: the seam that turns what a provider knows of a pool (an
  external key or a display name) into the canonical id, by lookup in the crosswalk and never
  by guessing. \<open>srepr\<close> is the runtime's \<open>repr\<close> of a string.
\<close>

definition RECONCILE_SOURCE :: pystr where
  "RECONCILE_SOURCE = u ''reconcile''"

datatype source_ref = Xref (xr_namespace: pystr) (xr_ext_id: pystr) | Name (nm_display: pystr)

record crosswalk =
  cw_xref :: "(pystr \<times> pystr) \<rightharpoonup> pool_id"
  cw_alias :: "pystr \<rightharpoonup> pool_id"

datatype resolution = Matched pool_id | NotFound provider_error

definition classify_ref :: "(pystr \<Rightarrow> pystr) \<Rightarrow> source_ref \<Rightarrow> crosswalk \<Rightarrow> resolution" where
  "classify_ref srepr r cw =
     (case r of
        Xref ns ext \<Rightarrow>
          (case cw_xref cw (ns, ext) of
             None \<Rightarrow> NotFound (SchemaMismatch RECONCILE_SOURCE
               (u ''unresolved xref: namespace='' @ srepr ns @ u '' ext_id='' @ srepr ext))
           | Some p \<Rightarrow> Matched p)
      | Name shown \<Rightarrow>
          (case cw_alias cw (normalize shown) of
             None \<Rightarrow> NotFound (SchemaMismatch RECONCILE_SOURCE (u ''unresolved name (no alias): '' @ srepr shown))
           | Some p \<Rightarrow> Matched p))"

definition resolve_ref :: "(pystr \<Rightarrow> pystr) \<Rightarrow> source_ref \<Rightarrow> crosswalk \<Rightarrow> (pool_id, provider_error) result" where
  "resolve_ref srepr r cw = (case classify_ref srepr r cw of Matched p \<Rightarrow> Ok p | NotFound e \<Rightarrow> Err e)"

fun ref_label :: "source_ref \<Rightarrow> pystr" where
  "ref_label (Xref ns ext) = ns @ u '':'' @ ext"
| "ref_label (Name shown) = shown"

record 'p reconcile_outcome =
  ro_resolved :: "(pool_id \<times> 'p) list"
  ro_unresolved :: "pystr list"

definition resolve_step ::
  "(pystr \<Rightarrow> pystr) \<Rightarrow> crosswalk \<Rightarrow> 'p reconcile_outcome \<Rightarrow> source_ref \<times> 'p \<Rightarrow> 'p reconcile_outcome" where
  "resolve_step srepr cw out x =
     (case classify_ref srepr (fst x) cw of
        Matched p \<Rightarrow> out\<lparr>ro_resolved := ro_resolved out @ [(p, snd x)]\<rparr>
      | NotFound e \<Rightarrow> out\<lparr>ro_unresolved := ro_unresolved out @ [ref_label (fst x)]\<rparr>)"

definition resolve_all ::
  "(pystr \<Rightarrow> pystr) \<Rightarrow> (source_ref \<times> 'p) list \<Rightarrow> crosswalk \<Rightarrow> ('p reconcile_outcome, provider_error) result" where
  "resolve_all srepr extracts cw =
     Ok (foldl (resolve_step srepr cw) \<lparr>ro_resolved = [], ro_unresolved = []\<rparr> extracts)"

text \<open>Dictionary comprehensions: of rows with the same key the last one wins.\<close>

definition crosswalk_from_rows :: "(pystr \<times> pystr) list \<Rightarrow> (pystr \<times> pystr \<times> pystr) list \<Rightarrow> crosswalk" where
  "crosswalk_from_rows alias_rows xref_rows =
     \<lparr>cw_xref = map_of (rev (map (\<lambda>(ns, ext, p). ((ns, ext), p)) xref_rows)),
      cw_alias = map_of (rev alias_rows)\<rparr>"

section \<open>What a batch resolves to\<close>

lemma resolve_fold:
  "foldl (resolve_step srepr cw) out xs =
     out\<lparr>ro_resolved := ro_resolved out @ List.map_filter (\<lambda>x. case classify_ref srepr (fst x) cw of
              Matched p \<Rightarrow> Some (p, snd x) | NotFound e \<Rightarrow> None) xs,
         ro_unresolved := ro_unresolved out @ map (ref_label \<circ> fst)
           (filter (\<lambda>x. \<exists>e. classify_ref srepr (fst x) cw = NotFound e) xs)\<rparr>"
proof (induction xs arbitrary: out)
  case (Cons x xs)
  then show ?case
    by (cases "classify_ref srepr (fst x) cw") (simp_all add: resolve_step_def map_filter_simps)
qed (simp add: map_filter_simps)

lemma resolve_ref_Ok: "resolve_ref srepr r cw = Ok p \<longleftrightarrow>
    (case r of Xref ns ext \<Rightarrow> cw_xref cw (ns, ext) = Some p | Name shown \<Rightarrow> cw_alias cw (normalize shown) = Some p)"
  by (cases r) (auto simp: resolve_ref_def classify_ref_def split: option.splits)

lemma resolve_all_Ok: "resolve_all srepr xs cw =
    Ok \<lparr>ro_resolved = List.map_filter (\<lambda>x. case resolve_ref srepr (fst x) cw of Ok p \<Rightarrow> Some (p, snd x) | Err e \<Rightarrow> None) xs,
        ro_unresolved = map (ref_label \<circ> fst) (filter (\<lambda>x. \<exists>e. resolve_ref srepr (fst x) cw = Err e) xs)\<rparr>"
proof -
  have "(case classify_ref srepr (fst x) cw of Matched p \<Rightarrow> Some (p, snd x) | NotFound e \<Rightarrow> None) =
      (case resolve_ref srepr (fst x) cw of Ok p \<Rightarrow> Some (p, snd x) | Err e \<Rightarrow> None)"
    "(\<exists>e. classify_ref srepr (fst x) cw = NotFound e) \<longleftrightarrow> (\<exists>e. resolve_ref srepr (fst x) cw = Err e)" for x :: "source_ref \<times> 'a"
    by (simp_all add: resolve_ref_def split: resolution.split)
  then show ?thesis by (simp add: resolve_all_def resolve_fold)
qed

end
