(* ===== verification/Roster_Properties.thy ===== *)
theory Roster_Properties
  imports Geo_Sport Reconcile Lane_Fetch
begin

text \<open>
  Properties of the roster, of the discovery hop and of the reconcile seam: the roster is all
  layers or none, which names make two pools share a catalog id, exactly when a layer makes the
  parser raise, and that neither discovery nor reconciliation loses anything silently.
\<close>

lemma ex_slugs: "slug [97] = [97]" "slug [97, 32, 50] = [97, 45, 50]"
  by (simp add: slug_def Let_def py_strip_def strip_where_def is_space_def py_lower_def lower_cp_def slug_char_def)+

section \<open>Layers\<close>

lemma to_geo_pool_Inr: "to_geo_pool rej kind f = Inr p \<Longrightarrow> gp_kind p = kind \<and> gp_source_id p = gf_id f"
  by (auto simp: to_geo_pool_def bind_err_Inr Let_def)

lemma to_geo_pool_total: "(\<exists>e. to_geo_pool rej kind f = Inl e) \<longleftrightarrow> length (pt_coordinates (gf_geometry f)) < 2"
proof (cases "pt_coordinates (gf_geometry f)")
  case (Cons lo rest)
  then show ?thesis by (cases rest) (simp_all add: to_geo_pool_def py_index_def Let_def)
qed (simp add: to_geo_pool_def py_index_def)

lemma all_pools_Inr: "all_pools rej kind fs = Inr ps \<longleftrightarrow> list_all2 (\<lambda>f p. to_geo_pool rej kind f = Inr p) fs ps"
proof (induction fs arbitrary: ps)
  case (Cons f fs)
  then show ?case by (cases ps) (auto simp: bind_err_Inr)
qed auto

lemma all_pools_Inl: "(\<exists>e. all_pools rej kind fs = Inl e) \<longleftrightarrow> (\<exists>f \<in> set fs. \<exists>e. to_geo_pool rej kind f = Inl e)"
proof (induction fs)
  case (Cons f fs)
  then show ?case by (cases "to_geo_pool rej kind f"; cases "all_pools rej kind fs") auto
qed simp

lemma parse_pools_kind: "parse_pools env raw kind = Inr (Ok ps) \<Longrightarrow> p \<in> set ps \<Longrightarrow> gp_kind p = kind"
  by (auto simp: parse_pools_def bind_err_Inr all_pools_Inr list_all2_conv_all_nth in_set_conv_nth
      dest!: to_geo_pool_Inr split: json_text.splits sum.splits)

lemma fetch_layer_kind:
  assumes "fetch_layer env get t kind w = (Inr (Ok ps), w')" "p \<in> set ps"
  shows "gp_kind p = kind"
proof -
  obtain x where x: "bind_err x (\<lambda>r. case r of Err e \<Rightarrow> Inr (Err e) | Ok raw \<Rightarrow> parse_pools env raw kind) = Inr (Ok ps)"
    using assms(1) by (auto simp: fetch_layer_def split: prod.splits)
  then obtain v where "(case v of Err e \<Rightarrow> Inr (Err e) | Ok raw \<Rightarrow> parse_pools env raw kind) = Inr (Ok ps)"
    by (auto simp: bind_err_Inr)
  with assms(2) show ?thesis by (cases v) (auto dest: parse_pools_kind)
qed

lemma fetch_layers_Ok:
  "fetch_layers env get layers pools w = (Inr (Ok all), w') \<Longrightarrow>
   \<exists>pss. all = pools @ concat pss \<and>
     list_all2 (\<lambda>(t, kind) ps. \<exists>v v'. fetch_layer env get t kind v = (Inr (Ok ps), v')) layers pss"
proof (induction env get layers pools w rule: fetch_layers.induct)
  case (2 env get t kind layers pools w)
  then obtain ps v where f: "fetch_layer env get t kind w = (Inr (Ok ps), v)"
      "fetch_layers env get layers (pools @ ps) v = (Inr (Ok all), w')"
    by (auto split: prod.splits sum.splits result.splits)
  from "2.IH" [OF f(1) [symmetric] refl refl f(2)] obtain pss where
    "all = (pools @ ps) @ concat pss"
    "list_all2 (\<lambda>(t, kind) ps. \<exists>v v'. fetch_layer env get t kind v = (Inr (Ok ps), v')) layers pss" by blast
  with f(1) show ?case by (intro exI [of _ "ps # pss"]) auto
qed simp

section \<open>Catalog ids\<close>

definition base_of_pool :: "geo_pool \<Rightarrow> pystr" where
  "base_of_pool p = slug (gp_name p)"

text \<open>How often the slug of the pool at a position occurs before it.\<close>

definition earlier :: "geo_pool list \<Rightarrow> nat \<Rightarrow> nat" where
  "earlier ps i = length (filter (\<lambda>p. base_of_pool p = base_of_pool (ps ! i)) (take i ps))"

definition occurrences :: "geo_pool list \<Rightarrow> pystr \<Rightarrow> nat" where
  "occurrences ps b = length (filter (\<lambda>p. base_of_pool p = b) ps)"

lemma catalog_fold:
  "foldl catalog_step (Map.empty, []) ps =
     ((\<lambda>b. if occurrences ps b = 0 then None else Some (occurrences ps b)),
      map (\<lambda>i. entry_for_pool (catalog_id (base_of_pool (ps ! i)) (earlier ps i)) (ps ! i)) [0..<length ps])"
proof (induction ps rule: rev_induct)
  case (snoc p ps)
  have step: "map (\<lambda>i. entry_for_pool (catalog_id (base_of_pool ((ps @ [p]) ! i)) (earlier (ps @ [p]) i)) ((ps @ [p]) ! i)) [0..<length ps] =
      map (\<lambda>i. entry_for_pool (catalog_id (base_of_pool (ps ! i)) (earlier ps i)) (ps ! i)) [0..<length ps]"
    by (rule map_cong) (auto simp: earlier_def nth_append)
  have last: "earlier (ps @ [p]) (length ps) = occurrences ps (base_of_pool p)" by (simp add: earlier_def occurrences_def)
  have "foldl catalog_step (Map.empty, []) (ps @ [p]) =
      catalog_step ((\<lambda>b. if occurrences ps b = 0 then None else Some (occurrences ps b)),
        map (\<lambda>i. entry_for_pool (catalog_id (base_of_pool (ps ! i)) (earlier ps i)) (ps ! i)) [0..<length ps]) p"
    by (simp add: snoc)
  also have "\<dots> = ((\<lambda>b. if occurrences (ps @ [p]) b = 0 then None else Some (occurrences (ps @ [p]) b)),
      map (\<lambda>i. entry_for_pool (catalog_id (base_of_pool (ps ! i)) (earlier ps i)) (ps ! i)) [0..<length ps] @
      [entry_for_pool (catalog_id (base_of_pool p) (occurrences ps (base_of_pool p))) p])"
    by (simp add: catalog_step_def base_of_pool_def [symmetric] Let_def) (auto simp: occurrences_def fun_eq_iff)
  finally show ?case by (simp add: step last)
qed (simp add: occurrences_def)

lemma build_catalog_eq:
  "build_catalog ps = map (\<lambda>i. entry_for_pool (catalog_id (base_of_pool (ps ! i)) (earlier ps i)) (ps ! i)) [0..<length ps]"
  by (simp add: build_catalog_def catalog_fold)

lemma digits_of_no_dash: "45 \<notin> set (digits_of n)"
proof (induction n rule: digits_of.induct)
  case (1 n)
  then show ?case by (subst digits_of.simps) auto
qed

lemma digits_of_inject: "digits_of m = digits_of n \<Longrightarrow> m = n"
proof (induction m arbitrary: n rule: digits_of.induct)
  case (1 m)
  have ne: "digits_of k \<noteq> []" for k by (subst digits_of.simps) simp
  show ?case
  proof (cases "m < 10"; cases "n < 10")
    assume "m < 10" "\<not> n < 10"
    with "1.prems" ne [of "n div 10"] show ?thesis by (subst (asm) (1 2) digits_of.simps) (auto split: if_splits)
  next
    assume "\<not> m < 10" "n < 10"
    with "1.prems" ne [of "m div 10"] show ?thesis by (subst (asm) (1 2) digits_of.simps) (auto split: if_splits)
  next
    assume *: "\<not> m < 10" "\<not> n < 10"
    with "1.prems" have "digits_of (m div 10) = digits_of (n div 10)" "m mod 10 = n mod 10"
      by (simp_all add: digits_of.simps [of m] digits_of.simps [of n])
    with "1.IH" * have "m div 10 = n div 10" by blast
    with \<open>m mod 10 = n mod 10\<close> show ?thesis by (metis div_mult_mod_eq)
  qed (use "1.prems" in \<open>simp add: digits_of.simps [of m] digits_of.simps [of n]\<close>)
qed

lemma split_at_last:
  "xs @ x # ys = xs' @ x # ys' \<Longrightarrow> x \<notin> set ys \<Longrightarrow> x \<notin> set ys' \<Longrightarrow> xs = xs' \<and> ys = ys'"
proof (induction xs arbitrary: xs')
  case Nil
  then show ?case by (cases xs') auto
next
  case (Cons a xs)
  then show ?case by (cases xs') auto
qed

lemma catalog_id_Suc: "catalog_id b (Suc n) = b @ 45 # digits_of (n + 2)"
proof -
  have "u ''-'' = [45]" by (simp add: u_def of_char_def)
  moreover have "nat (int (Suc n) + 1) = n + 2" by simp
  ultimately show ?thesis by (simp add: catalog_id_def str_of_int_def del: of_nat_Suc)
qed

lemma catalog_id_suffixed: "catalog_id b (Suc n) = catalog_id b' (Suc n') \<Longrightarrow> b = b' \<and> n = n'"
  using split_at_last [of b 45 "digits_of (n + 2)" b' "digits_of (n' + 2)"]
  by (auto simp: catalog_id_Suc digits_of_no_dash dest: digits_of_inject)

lemma earlier_positions:
  assumes "i < length ps" "j < length ps" "base_of_pool (ps ! i) = base_of_pool (ps ! j)" "earlier ps i = earlier ps j"
  shows "i = j"
proof -
  have less: "earlier ps i < earlier ps j" if "i < j" "j < length ps" "base_of_pool (ps ! i) = base_of_pool (ps ! j)" for i j
  proof -
    have "take j ps = take i ps @ ps ! i # take (j - Suc i) (drop (Suc i) ps)"
      using that id_take_nth_drop [of i "take j ps"] by (simp add: take_drop min_def)
    then show ?thesis using that(3) by (simp add: earlier_def)
  qed
  show ?thesis using less [of i j] less [of j i] assms by (metis linorder_neqE_nat less_irrefl)
qed

lemma earlier_less: "i < length ps \<Longrightarrow> earlier ps i < occurrences ps (base_of_pool (ps ! i))"
proof -
  assume i: "i < length ps"
  then have "ps = take i ps @ ps ! i # drop (Suc i) ps" by (rule id_take_nth_drop)
  then have "occurrences ps b = length (filter (\<lambda>p. base_of_pool p = b) (take i ps @ ps ! i # drop (Suc i) ps))" for b
    by (simp add: occurrences_def)
  then show ?thesis by (simp add: earlier_def)
qed

lemma earlier_every: "n < occurrences ps b \<Longrightarrow> \<exists>i < length ps. base_of_pool (ps ! i) = b \<and> earlier ps i = n"
proof (induction ps rule: rev_induct)
  case (snoc p ps)
  show ?case
  proof (cases "n < occurrences ps b")
    case True
    with snoc.IH obtain i where "i < length ps" "base_of_pool (ps ! i) = b" "earlier ps i = n" by blast
    then show ?thesis by (intro exI [of _ i]) (auto simp: earlier_def nth_append)
  next
    case False
    with snoc.prems have "base_of_pool p = b" "n = occurrences ps b" by (auto simp: occurrences_def split: if_splits)
    then show ?thesis by (intro exI [of _ "length ps"]) (auto simp: earlier_def occurrences_def nth_append)
  qed
qed (simp add: occurrences_def)

lemma first_occurrence: "0 < occurrences ps b \<longleftrightarrow> (\<exists>p \<in> set ps. base_of_pool p = b)"
  by (auto simp: occurrences_def filter_empty_conv)

lemma catalog_distinct_iff:
  "distinct (map pce_pool_id (build_catalog ps)) \<longleftrightarrow>
     (\<forall>b n. Suc n < occurrences ps b \<longrightarrow> occurrences ps (catalog_id b (Suc n)) = 0)"
proof -
  let ?id = "\<lambda>i. catalog_id (base_of_pool (ps ! i)) (earlier ps i)"
  have ids: "map pce_pool_id (build_catalog ps) = map ?id [0..<length ps]"
    by (simp add: build_catalog_eq entry_for_pool_def)
  show ?thesis
  proof
    assume "distinct (map pce_pool_id (build_catalog ps))"
    then have inj: "inj_on ?id {0..<length ps}" unfolding ids by (simp add: distinct_map)
    show "\<forall>b n. Suc n < occurrences ps b \<longrightarrow> occurrences ps (catalog_id b (Suc n)) = 0"
    proof (intro allI impI, rule ccontr)
      fix b n assume *: "Suc n < occurrences ps b" "occurrences ps (catalog_id b (Suc n)) \<noteq> 0"
      obtain i where i: "i < length ps" "base_of_pool (ps ! i) = b" "earlier ps i = Suc n"
        using earlier_every [OF *(1)] by blast
      obtain j where j: "j < length ps" "base_of_pool (ps ! j) = catalog_id b (Suc n)" "earlier ps j = 0"
        using earlier_every [of 0 ps "catalog_id b (Suc n)"] *(2) by auto
      have "?id i = ?id j" using i j by (simp add: catalog_id_def)
      then have "i = j" using inj i(1) j(1) by (auto dest: inj_onD)
      with i j show False by simp
    qed
  next
    assume free: "\<forall>b n. Suc n < occurrences ps b \<longrightarrow> occurrences ps (catalog_id b (Suc n)) = 0"
    have mixed: False if "i < length ps" "j < length ps" "?id i = ?id j" "earlier ps i = Suc n" "earlier ps j = 0" for i j n
    proof -
      have "catalog_id (base_of_pool (ps ! i)) (Suc n) = base_of_pool (ps ! j)" using that by (simp add: catalog_id_def)
      moreover have "occurrences ps (base_of_pool (ps ! j)) \<noteq> 0" using earlier_less [OF that(2)] by simp
      moreover have "Suc n < occurrences ps (base_of_pool (ps ! i))" using earlier_less [OF that(1)] that(4) by simp
      ultimately show False using free by metis
    qed
    have "i = j" if ij: "i < length ps" "j < length ps" "?id i = ?id j" for i j
    proof (cases "earlier ps i"; cases "earlier ps j")
      assume zero: "earlier ps i = 0" "earlier ps j = 0"
      with ij(3) have "base_of_pool (ps ! i) = base_of_pool (ps ! j)" by (simp add: catalog_id_def)
      then show ?thesis using earlier_positions [OF ij(1,2)] zero by simp
    next
      fix m n assume "earlier ps i = Suc m" "earlier ps j = Suc n"
      then show ?thesis
        using catalog_id_suffixed [of "base_of_pool (ps ! i)" m "base_of_pool (ps ! j)" n] earlier_positions [OF ij(1,2)] ij(3) by simp
    next
      fix n assume "earlier ps i = 0" "earlier ps j = Suc n"
      then show ?thesis using mixed [OF ij(2,1) ij(3) [symmetric]] by blast
    next
      fix n assume "earlier ps i = Suc n" "earlier ps j = 0"
      then show ?thesis using mixed [OF ij] by blast
    qed
    then show "distinct (map pce_pool_id (build_catalog ps))" unfolding ids by (simp add: distinct_map inj_on_def)
  qed
qed

section \<open>Discovery\<close>

lemma discover_links_facts:
  "(\<forall>l \<in> set (discover_links env page pool page_url). dl_pool l = pool) \<and> distinct (map dl_url (discover_links env page pool page_url))"
proof -
  have "distinct (foldl (\<lambda>seen href. let url = f href in if url \<in> set seen then seen else seen @ [url]) acc hs)" if "distinct acc"
    for f :: "pystr \<Rightarrow> pystr" and acc hs
    using that by (induction hs arbitrary: acc) (auto simp: Let_def)
  then show ?thesis by (simp add: discover_links_def Let_def comp_def)
qed

lemma fetch_page_doc_Ok: "fetch_page_doc env get pool page_url w = (Inr (Ok doc), w') \<Longrightarrow> \<forall>l \<in> set (pd_links doc). dl_pool l = pool"
  by (auto simp: fetch_page_doc_def bind_err_Inr fmap_Ok discover_links_facts split: prod.splits)

text \<open>Every link and every miss comes from a page, and every page is a miss or has all its links listed.\<close>

definition accounted ::
  "page_env \<Rightarrow> 'w getter \<Rightarrow> (pool_id \<times> pystr) list \<Rightarrow> discovered_link list \<Rightarrow> page_miss list \<Rightarrow> bool" where
  "accounted env get pages links misses \<longleftrightarrow>
     (\<forall>l \<in> set links. dl_pool l \<in> fst ` set pages) \<and> (\<forall>m \<in> set misses. (pm_pool m, pm_url m) \<in> set pages) \<and>
     (\<forall>page \<in> set pages. (\<exists>m \<in> set misses. (pm_pool m, pm_url m) = page) \<or>
        (\<exists>v v' doc. fetch_page_doc env get (fst page) (snd page) v = (Inr (Ok doc), v') \<and> set (pd_links doc) \<subseteq> set links))"

lemma accounted_doc:
  assumes "accounted env get pages links misses" "fetch_page_doc env get pool url w = (Inr (Ok doc), w')"
  shows "accounted env get ((pool, url) # pages) (pd_links doc @ links) misses"
proof -
  have "\<forall>l \<in> set (pd_links doc). dl_pool l = pool" using fetch_page_doc_Ok [OF assms(2)] .
  moreover have "\<exists>v v' doc'. fetch_page_doc env get pool url v = (Inr (Ok doc'), v') \<and> set (pd_links doc') \<subseteq> set (pd_links doc @ links)"
    using assms(2) by (intro exI conjI) auto
  moreover have "(\<exists>m \<in> set misses. (pm_pool m, pm_url m) = page) \<or> (\<exists>v v' doc'. fetch_page_doc env get (fst page) (snd page) v =
      (Inr (Ok doc'), v') \<and> set (pd_links doc') \<subseteq> set (pd_links doc @ links))" if "page \<in> set pages" for page
  proof -
    from assms(1) that consider "\<exists>m \<in> set misses. (pm_pool m, pm_url m) = page"
      | v v' doc' where "fetch_page_doc env get (fst page) (snd page) v = (Inr (Ok doc'), v')" "set (pd_links doc') \<subseteq> set links"
      unfolding accounted_def by blast
    then show ?thesis
    proof cases
      case 2
      from 2(2) have "set (pd_links doc') \<subseteq> set (pd_links doc @ links)" by auto
      with 2(1) show ?thesis by blast
    qed simp
  qed
  moreover have "\<forall>l \<in> set links. dl_pool l \<in> fst ` set pages" "\<forall>m \<in> set misses. (pm_pool m, pm_url m) \<in> set pages"
    using assms(1) by (simp_all add: accounted_def)
  ultimately show ?thesis unfolding accounted_def by (simp add: ball_Un)
qed

lemma accounted_miss:
  assumes "accounted env get pages links misses"
  shows "accounted env get ((pool, url) # pages) links (\<lparr>pm_pool = pool, pm_url = url, pm_cause = cause\<rparr> # misses)"
  using assms unfolding accounted_def by simp

lemma discover_loop_accounts:
  "discover_loop env get pages rep w = (Inr out, w') \<Longrightarrow>
   \<exists>links misses. dr_links out = dr_links rep @ links \<and> dr_misses out = dr_misses rep @ misses \<and>
     accounted env get pages links misses"
proof (induction env get pages rep w rule: discover_loop.induct)
  case (1 env get rep w)
  then show ?case by (simp add: accounted_def)
next
  case (2 env get pool url pages rep w)
  obtain r v where f: "fetch_page_doc env get pool url w = (r, v)" by fastforce
  with "2.prems" obtain r' where r: "r = Inr r'" by (cases r) auto
  show ?case
  proof (cases r')
    case (Ok doc)
    with f r "2.prems" have "discover_loop env get pages (rep\<lparr>dr_links := dr_links rep @ pd_links doc\<rparr>) v = (Inr out, w')" by simp
    from "2.IH"(1) [OF f [symmetric] r Ok this] obtain links misses where
      "dr_links out = dr_links rep @ (pd_links doc @ links)" "dr_misses out = dr_misses rep @ misses"
      "accounted env get pages links misses" by auto
    with accounted_doc [OF _ f [unfolded r Ok]] show ?thesis by blast
  next
    case (Err cause)
    let ?m = "\<lparr>pm_pool = pool, pm_url = url, pm_cause = cause\<rparr>"
    from Err f r "2.prems" have "discover_loop env get pages (rep\<lparr>dr_misses := dr_misses rep @ [?m]\<rparr>) v = (Inr out, w')" by simp
    from "2.IH"(2) [OF f [symmetric] r Err this] obtain links misses where
      "dr_links out = dr_links rep @ links" "dr_misses out = dr_misses rep @ (?m # misses)"
      "accounted env get pages links misses" by auto
    then show ?thesis using accounted_miss by blast
  qed
qed

section \<open>Results\<close>


definition ex_geo_env :: "geo_feature_dto list \<Rightarrow> geo_env" where
  "ex_geo_env fs = \<lparr>ge_json = (\<lambda>_. JsonText JNull), ge_json_detail = (\<lambda>_. []),
     ge_validate = (\<lambda>_. Inr \<lparr>fc_features = fs\<rparr>), ge_netloc_rejected = (\<lambda>_. False)\<rparr>"

definition ex_geo_get :: "nat param_getter" where
  "ex_geo_get url params n = (Inr (Ok \<lparr>rs_status = 200, rs_headers = [], rs_content = [], rs_extensions = Map.empty\<rparr>), n + 1)"

lemma ex_roster: "fetch_roster (ex_geo_env []) ex_geo_get 0 = (Inr (Ok []), 6)"
  by (simp add: fetch_roster_def fetch_all_pools_def POOL_LAYERS_def fetch_layer_def fetch_raw_def ex_geo_get_def
      parse_pools_def ex_geo_env_def build_catalog_def)


text \<open>
  C37: When catalog ids are unique: two pools share an id exactly when one of them is called what the
  numbering makes of another name. The ids of a catalog are distinct if and only if no name
  that occurs more than \<open>n + 1\<close> times has a numbered form that is itself the slug of a pool,
  so that names "a", "a" and "a 2" give the ids a, a-2 and a-2.
\<close>

theorem catalog_ids_unique_iff:
  "distinct (map pce_pool_id (build_catalog ps)) \<longleftrightarrow>
     (\<forall>b n. Suc n < length (filter (\<lambda>p. slug (gp_name p) = b) ps) \<longrightarrow>
        (\<forall>p \<in> set ps. slug (gp_name p) \<noteq> b @ u ''-'' @ str_of_int (int n + 2)))"
proof -
  have "catalog_id b (Suc n) = b @ u ''-'' @ str_of_int (int n + 2)" for b n
    by (simp add: catalog_id_def add.commute)
  then show ?thesis unfolding catalog_distinct_iff by (simp add: occurrences_def base_of_pool_def filter_empty_conv)
qed

definition ex_geo_pool :: "pystr \<Rightarrow> geo_pool" where
  "ex_geo_pool name = \<lparr>gp_source_id = [], gp_poi_id = None, gp_name = name, gp_kind = INDOOR, gp_address = [],
     gp_geo = \<lparr>lat = 47, lon = 8\<rparr>, gp_url = None, gp_category = None, gp_description = None, gp_phone = None\<rparr>"

theorem catalog_ids_unique_iff_witness:
  "\<not> distinct (map pce_pool_id (build_catalog [ex_geo_pool (u ''a''), ex_geo_pool (u ''a''), ex_geo_pool (u ''a 2'')]))"
proof -
  let ?ps = "[ex_geo_pool (u ''a''), ex_geo_pool (u ''a''), ex_geo_pool (u ''a 2'')]"
  have "u ''a'' = [97]" "u ''a 2'' = [97, 32, 50]" "u ''a-2'' = [97, 45, 50]" by (simp_all add: u_def)
  then have slugs: "slug (u ''a'') = u ''a''" "slug (u ''a 2'') = u ''a-2''" using ex_slugs by simp_all
  have "Suc 0 < length (filter (\<lambda>p. slug (gp_name p) = u ''a'') ?ps)" by (simp add: ex_geo_pool_def slugs)
  moreover have "ex_geo_pool (u ''a 2'') \<in> set ?ps" by simp
  moreover have "slug (gp_name (ex_geo_pool (u ''a 2''))) = u ''a'' @ u ''-'' @ str_of_int (int 0 + 2)"
    by (simp add: ex_geo_pool_def ex_slugs str_of_int_def digits_of.simps u_def)
  ultimately show ?thesis unfolding catalog_ids_unique_iff by blast
qed


text \<open>
  Reconciliation guesses nothing and loses nothing: a batch never fails, every extract whose
  reference the crosswalk knows comes out under the id the crosswalk gives for its key or its
  normalised name, in order and with its payload, and the label of every other extract is
  reported.
\<close>

theorem reconcile_accounts_for_every_extract:
  "\<exists>out. resolve_all srepr extracts cw = Ok out \<and>
     length (ro_resolved out) + length (ro_unresolved out) = length extracts \<and>
     ro_resolved out = concat (map (\<lambda>(r, x).
       case (case r of Xref ns ext \<Rightarrow> cw_xref cw (ns, ext) | Name shown \<Rightarrow> cw_alias cw (normalize shown)) of
         Some p \<Rightarrow> [(p, x)] | None \<Rightarrow> []) extracts) \<and>
     ro_unresolved out = concat (map (\<lambda>(r, x).
       case (case r of Xref ns ext \<Rightarrow> cw_xref cw (ns, ext) | Name shown \<Rightarrow> cw_alias cw (normalize shown)) of
         Some p \<Rightarrow> [] | None \<Rightarrow> [ref_label r]) extracts)"
proof -
  let ?key = "\<lambda>r. case r of Xref ns ext \<Rightarrow> cw_xref cw (ns, ext) | Name shown \<Rightarrow> cw_alias cw (normalize shown)"
  have known: "(\<exists>e. resolve_ref srepr r cw = Err e) \<longleftrightarrow> ?key r = None"
    "(case resolve_ref srepr r cw of Ok p \<Rightarrow> Some (p, x) | Err e \<Rightarrow> None) = map_option (\<lambda>p. (p, x)) (?key r)" for r and x :: 'a
    by (cases r; simp add: resolve_ref_def classify_ref_def split: option.splits)+
  show ?thesis
    unfolding resolve_all_Ok by (induction extracts) (auto simp: known map_filter_simps split: option.splits)
qed

text \<open>
  Discovery accounts for every page: each page visited is listed as a miss or every link found
  on it is in the report, and each link is stamped with the pool of a page that was visited.
\<close>

theorem discovery_accounts_for_every_page:
  assumes "discover_pages env get pages w = (Inr rep, w')"
  shows "(\<forall>l \<in> set (dr_links rep). dl_pool l \<in> fst ` set pages) \<and>
    (\<forall>m \<in> set (dr_misses rep). (pm_pool m, pm_url m) \<in> set pages) \<and>
    (\<forall>(pool, url) \<in> set pages. (\<exists>m \<in> set (dr_misses rep). pm_pool m = pool \<and> pm_url m = url) \<or>
       (\<exists>v v' doc. fetch_page_doc env get pool url v = (Inr (Ok doc), v') \<and> set (pd_links doc) \<subseteq> set (dr_links rep)))"
proof -
  have "accounted env get pages (dr_links rep) (dr_misses rep)"
    using discover_loop_accounts [OF assms [unfolded discover_pages_def]] by auto
  then show ?thesis unfolding accounted_def by auto
qed

theorem discovery_accounts_for_every_page_witness:
  "\<exists>m. discover_pages \<lparr>pg_unescape = (\<lambda>s. s), pg_urljoin = (\<lambda>b h. h)\<rparr> (\<lambda>url n. (Inr (Err (Timeout url 10)), n + 1))
       [(u ''p'', u ''x'')] (0 :: nat) = (Inr \<lparr>dr_links = [], dr_misses = [m]\<rparr>, 1) \<and> pm_pool m = u ''p''"
proof -
  let ?env = "\<lparr>pg_unescape = (\<lambda>s. s), pg_urljoin = (\<lambda>b h. h)\<rparr>"
  have run: "discover_pages ?env (\<lambda>url n. (Inr (Err (Timeout url 10)), n + 1)) [(u ''p'', u ''x'')] (0 :: nat) =
      (Inr \<lparr>dr_links = [], dr_misses = [\<lparr>pm_pool = u ''p'', pm_url = u ''x'', pm_cause = Timeout (u ''x'') 10\<rparr>]\<rparr>, 1)"
    by (simp add: discover_pages_def fetch_page_doc_def)
  from discovery_accounts_for_every_page [OF run] show ?thesis unfolding run by simp
qed

end
