(* ===== verification/Curated.thy ===== *)
theory Curated
  imports Curated_Dto Dto_Mapping Codec Registry
begin

text \<open>
  \<open>src/swimzh/providers/curated.py\<close> and the last classes of
  \<open>src/swimzh/boundary/curated_dto.py\<close>: the hand-authored data directory, loaded all or
  nothing. The files, the YAML parser, pydantic's validation and the texts of errors (an exception
  of domain code is known to the model by its class only) are
  the arguments of \<open>curated_env\<close>.
\<close>

definition CURATED_SOURCE :: pystr where
  "CURATED_SOURCE = u ''curated''"

record facility_dto =
  fcd_facility_id :: pystr
  fcd_address :: "pystr option"
  fcd_source :: "pystr option"
  fcd_valid_as_of :: "date option"
  fcd_geo :: "geo_dto option"
  fcd_public_holiday_policy :: "pystr option"
  fcd_prices :: "price_table_dto option"
  fcd_closures :: "closure_dto list"
  fcd_basins :: "basin_dto list"
  fcd_website :: "pystr option"
  fcd_features :: "feature_dto list"
  fcd_lockers :: "locker_option_dto list"
  fcd_last_admission_before :: "int option"

record identity_dto =
  idd_facility_id :: pystr
  idd_name :: pystr
  idd_kind :: pystr
  idd_crowdmonitor_keys :: "pystr list"
  idd_baditicker_poiid :: "pystr option"
  idd_aliases :: "pystr list"

record registry_dto =
  rgd_facilities :: "identity_dto list"

record dataset =
  ds_calendar :: zurich_calendar
  ds_registry :: registry
  ds_facilities :: "facility list"

text \<open>
  Reading a file fails with an \<open>OSError\<close> or, on bytes that are not UTF-8, with a
  \<open>ValueError\<close>; each failure carries its text.
\<close>

record curated_env =
  ce_read :: "pystr \<Rightarrow> (py_error \<times> pystr) + pystr"
  ce_yaml :: "pystr \<Rightarrow> pystr + json"
  ce_calendar :: "json \<Rightarrow> pystr + calendar_dto"
  ce_registry :: "json \<Rightarrow> pystr + registry_dto"
  ce_facility :: "json \<Rightarrow> pystr + facility_dto"
  ce_pool_files :: "pystr \<Rightarrow> pystr list"
  ce_basename :: "pystr \<Rightarrow> pystr"
  ce_repr :: "pystr \<Rightarrow> pystr"
  ce_exc_text :: "py_error \<Rightarrow> pystr"

text \<open>The two exception channels: the module's own \<open>_CuratedError\<close>, and everything else.\<close>

datatype curated_exc = CuratedError provider_error | OtherExc py_error pystr

definition bind_exc :: "'e + 'a \<Rightarrow> ('a \<Rightarrow> 'e + 'b) \<Rightarrow> 'e + 'b" where
  "bind_exc x f = (case x of Inl e \<Rightarrow> Inl e | Inr v \<Rightarrow> f v)"

definition load_yaml :: "curated_env \<Rightarrow> pystr \<Rightarrow> curated_exc + json" where
  "load_yaml env path =
     (case ce_read env path of
        Inl (e, exc) \<Rightarrow>
          if e = OSError
          then Inl (CuratedError (ParseError CURATED_SOURCE (u ''cannot read '' @ path @ u '': '' @ exc) []))
          else Inl (OtherExc e exc)
      | Inr raw \<Rightarrow>
          (case ce_yaml env raw of
             Inl exc \<Rightarrow> Inl (CuratedError (ParseError CURATED_SOURCE
                          (u ''invalid YAML in '' @ path @ u '': '' @ exc) (take 200 raw)))
           | Inr data \<Rightarrow> Inr data))"

definition validate :: "('j \<Rightarrow> pystr + 'd) \<Rightarrow> 'j \<Rightarrow> pystr \<Rightarrow> curated_exc + 'd" where
  "validate model data where =
     (case model data of
        Inl exc \<Rightarrow> Inl (CuratedError (SchemaMismatch CURATED_SOURCE (where @ u '': '' @ exc)))
      | Inr d \<Rightarrow> Inr d)"

definition map_facility :: "facility_dto \<Rightarrow> pool_identity \<Rightarrow> py_error + facility" where
  "map_facility d ident =
     bind_err (map_err basin_from_dto (fcd_basins d)) (\<lambda>bs.
     bind_err (opt_err (dict_at POLICY_FROM) (fcd_public_holiday_policy d)) (\<lambda>policy.
     bind_err (case fcd_prices d of Some p \<Rightarrow> bind_err (price_table_from_dto p) (\<lambda>t. Inr (Tariff t))
               | None \<Rightarrow> Inr Unknown) (\<lambda>admission.
     bind_err (map_err feature_from_dto (fcd_features d)) (\<lambda>fs.
     bind_err (map_err locker_from_dto (fcd_lockers d)) (\<lambda>ls.
       Inr \<lparr>identity = ident, address = (case fcd_address d of Some a \<Rightarrow> a | None \<Rightarrow> []),
            provenance_of =
              \<lparr>pv_source = (case fcd_source d of Some s \<Rightarrow> if s = [] then CURATED_SOURCE else s | None \<Rightarrow> CURATED_SOURCE),
               pv_curated = True, pv_valid_as_of = fcd_valid_as_of d, pv_fetched_at = None\<rparr>,
            basins = bs, geo = map_option geo_from_dto (fcd_geo d), closures = map closure_from_dto (fcd_closures d),
            public_holiday_policy = policy, operating_season = None, admission_of = admission, notices = [],
            features = fs, lockers = ls, rentals = [], last_admission_before = fcd_last_admission_before d\<rparr>)))))"

definition build_calendar :: "calendar_dto \<Rightarrow> zurich_calendar" where
  "build_calendar d =
     \<lparr>cal_public = map_of (rev (map (\<lambda>h. (phd_date h, phd_name h)) (cad_public_holidays d))),
      cal_school = map (\<lambda>r. \<lparr>hr_name = shd_name r, hr_start = shd_start r, hr_end = shd_end r\<rparr>) (cad_school_holidays d),
      cal_known_years = set (cad_known_years d)\<rparr>"

definition identity_of_dto :: "identity_dto \<Rightarrow> py_error + pool_identity" where
  "identity_of_dto i =
     bind_err (dict_at KIND_FROM (idd_kind i)) (\<lambda>kind.
       Inr \<lparr>facility_id = reconstruct_pool_id (idd_facility_id i), pid_name = idd_name i, pid_kind = kind,
            geo_sport_id = None, crowdmonitor_keys = idd_crowdmonitor_keys i,
            baditicker_poiid = idd_baditicker_poiid i, aliases = idd_aliases i\<rparr>)"

text \<open>An exception of domain code, lifted into the loader's channels.\<close>

definition lifted :: "curated_env \<Rightarrow> py_error + 'a \<Rightarrow> curated_exc + 'a" where
  "lifted env x = (case x of Inl e \<Rightarrow> Inl (OtherExc e (ce_exc_text env e)) | Inr v \<Rightarrow> Inr v)"

definition build_registry :: "curated_env \<Rightarrow> registry_dto \<Rightarrow> curated_exc + registry" where
  "build_registry env d =
     bind_exc (lifted env (map_err identity_of_dto (rgd_facilities d))) (\<lambda>identities.
       case mk_registry identities of
         Inl e \<Rightarrow>
           if e = ValueError
           then Inl (CuratedError (SchemaMismatch CURATED_SOURCE (u ''registry: '' @ ce_exc_text env e)))
           else Inl (OtherExc e (ce_exc_text env e))
       | Inr r \<Rightarrow> Inr r)"

definition load_pool_file :: "curated_env \<Rightarrow> registry \<Rightarrow> pystr \<Rightarrow> curated_exc + facility" where
  "load_pool_file env reg path =
     bind_exc (load_yaml env path) (\<lambda>data.
     bind_exc (validate (ce_facility env) data (ce_basename env path)) (\<lambda>d.
       case registry_get reg (reconstruct_pool_id (fcd_facility_id d)) of
         None \<Rightarrow> Inl (CuratedError (SchemaMismatch CURATED_SOURCE
                   (ce_basename env path @ u '': facility_id '' @ ce_repr env (fcd_facility_id d) @ u '' not in registry'')))
       | Some ident \<Rightarrow> lifted env (map_facility d ident)))"

fun load_pool_files :: "curated_env \<Rightarrow> registry \<Rightarrow> pystr list \<Rightarrow> curated_exc + facility list" where
  "load_pool_files env reg [] = Inr []"
| "load_pool_files env reg (path # paths) =
     bind_exc (load_pool_file env reg path) (\<lambda>fac.
     bind_exc (load_pool_files env reg paths) (\<lambda>fs. Inr (fac # fs)))"

definition load_guarded :: "curated_env \<Rightarrow> pystr \<Rightarrow> curated_exc + calendar_dto \<times> registry \<times> facility list" where
  "load_guarded env data_dir =
     bind_exc (load_yaml env (data_dir @ u ''/calendar/zurich.yaml'')) (\<lambda>cal_data.
     bind_exc (validate (ce_calendar env) cal_data (u ''calendar'')) (\<lambda>cal.
     bind_exc (load_yaml env (data_dir @ u ''/registry.yaml'')) (\<lambda>reg_data.
     bind_exc (validate (ce_registry env) reg_data (u ''registry'')) (\<lambda>reg_dto.
     bind_exc (build_registry env reg_dto) (\<lambda>reg.
     bind_exc (load_pool_files env reg (sort (ce_pool_files env (data_dir @ u ''/pools'')))) (\<lambda>fs.
       Inr (cal, reg, fs)))))))"

text \<open>What is neither a \<open>_CuratedError\<close> nor a \<open>ValueError\<close> leaves the function.\<close>

definition load_dataset :: "curated_env \<Rightarrow> pystr \<Rightarrow> py_error + (dataset, provider_error) result" where
  "load_dataset env data_dir =
     (case load_guarded env data_dir of
        Inl (CuratedError e) \<Rightarrow> Inr (Err e)
      | Inl (OtherExc e detail) \<Rightarrow>
          if e = ValueError then Inr (Err (SchemaMismatch CURATED_SOURCE detail)) else Inl e
      | Inr (cal, reg, fs) \<Rightarrow>
          Inr (Ok \<lparr>ds_calendar = build_calendar cal, ds_registry = reg, ds_facilities = fs\<rparr>))"

end
