(* ===== verification/Infrastruktur.thy ===== *)
theory Infrastruktur
  imports Models Tokens Regex_Facts
begin

text \<open>
  \<open>src/swimzh/providers/infrastruktur.py\<close>: the best-effort parser of the geoportal's prose
  about a pool's basins and amenities. \<open>Decimal(text)\<close> and \<open>int(text)\<close> raise on a text
  that is no number; that no captured group is one is a theorem, not part of the definitions.
\<close>

section \<open>Decimal of a text\<close>

text \<open>
  The grammar of \<open>decimal.Decimal\<close>: white space and underscores are dropped, then a sign,
  digits with an optional point and an optional exponent. The special values (infinities and
  NaNs) have no number.
\<close>

definition split_sign :: "pystr \<Rightarrow> rat \<times> pystr" where
  "split_sign s = (case s of c # cs \<Rightarrow> if c = 45 then (-1, cs) else if c = 43 then (1, cs) else (1, s) | [] \<Rightarrow> (1, s))"

definition exponent_of :: "pystr \<Rightarrow> int option" where
  "exponent_of s =
     (case s of
        [] \<Rightarrow> Some 0
      | c # cs \<Rightarrow>
          if lower_cp c \<noteq> 101 then None
          else (case split_sign cs of (sg, ds) \<Rightarrow>
                  if ds \<noteq> [] \<and> (\<forall>d \<in> set ds. is_decimal d)
                  then Some (if sg < 0 then - decimal_value ds else decimal_value ds) else None))"

definition shifted :: "int \<Rightarrow> int \<Rightarrow> rat" where
  "shifted m e = (if 0 \<le> e then of_int m * 10 ^ nat e else of_int m / 10 ^ nat (- e))"

definition unsigned_decimal :: "pystr \<Rightarrow> rat option" where
  "unsigned_decimal s =
     (let ip = takeWhile is_decimal s; rest = dropWhile is_decimal s;
          fp = (case rest of [] \<Rightarrow> [] | c # cs \<Rightarrow> if c = 46 then takeWhile is_decimal cs else []);
          tail = (case rest of [] \<Rightarrow> [] | c # cs \<Rightarrow> if c = 46 then dropWhile is_decimal cs else rest)
      in if ip = [] \<and> fp = [] then None
         else map_option (\<lambda>e. shifted (decimal_value (ip @ fp)) (e - int (length fp))) (exponent_of tail))"

definition is_nan_text :: "pystr \<Rightarrow> bool" where
  "is_nan_text s \<longleftrightarrow>
     (let t = (case s of c # cs \<Rightarrow> if c = 115 then cs else s | [] \<Rightarrow> s)
      in take 3 t = u ''nan'' \<and> (\<forall>d \<in> set (drop 3 t). is_decimal d))"

definition py_decimal :: "pystr \<Rightarrow> py_error + py_decimal" where
  "py_decimal text =
     (let s = filter (\<lambda>c. c \<noteq> 95) (py_strip text)
      in case split_sign s of (sg, body) \<Rightarrow>
           case unsigned_decimal body of
             Some v \<Rightarrow> Inr (Finite (sg * v))
           | None \<Rightarrow>
               if py_lower body \<in> {u ''inf'', u ''infinity''} then Inr (Infinite (sg < 0))
               else if is_nan_text (py_lower body) then Inr NotANumber
               else Inl InvalidOperation)"

text \<open>
  Measures are finite numbers in the model: a special value, which no pattern of this module
  can capture, is an error here.
\<close>

definition finite_decimal :: "pystr \<Rightarrow> py_error + rat" where
  "finite_decimal text =
     bind_err (py_decimal text) (\<lambda>d. case d of Finite v \<Rightarrow> Inr v | _ \<Rightarrow> Inl InvalidOperation)"

section \<open>The patterns\<close>

definition PROSE_SEGMENT_RE :: rx where
  "PROSE_SEGMENT_RE = RAlt (RChar (\<lambda>c. c = 59 \<or> c = 10)) (RSeq (RChar (\<lambda>c. c = 44)) (RNot r_digit))"

definition NUM_RE :: rx where
  "NUM_RE = RSeq (r_plus r_digit) (r_opt (RSeq (RChar (\<lambda>c. c = 46 \<or> c = 44)) (r_plus r_digit)))"

definition DIMENSIONS_RE :: rx where
  "DIMENSIONS_RE =
     r_seq [RGroup 1 NUM_RE, r_star r_space, RChar (\<lambda>c. lower_cp c = 120 \<or> c = 215), r_star r_space,
            RGroup 2 NUM_RE, r_star r_space, r_lit_ci (u ''m''), RWordB]"

definition LENGTH_RE :: rx where
  "LENGTH_RE =
     r_seq [RGroup 1 NUM_RE, r_star r_space, r_lit_ci (u ''m''), RWordB,
            RNot (RSeq (r_star r_space) (RAlt (RChar (\<lambda>c. c = 178)) (RSeq (RChar (\<lambda>c. c = 50)) RWordB)))]"

definition LANES_RE :: rx where
  "LANES_RE = r_seq [RGroup 1 (r_plus r_digit), r_star r_space, r_lit_ci (u ''Bahnen'')]"

definition TEMP_RE :: rx where
  "TEMP_RE = r_seq [RGroup 1 NUM_RE, r_star r_space, RChar (\<lambda>c. c = 176), r_star r_space, r_lit_ci (u ''C'')]"

definition BASIN_NAME_RE :: rx where
  "BASIN_NAME_RE = RSeq RBegin (r_star (RChar (\<lambda>c. \<not> is_decimal c \<and> c \<noteq> 40 \<and> c \<noteq> 8230)))"

definition PLATFORM_RE :: rx where
  "PLATFORM_RE =
     r_seq [RGroup 1 (RSeq NUM_RE (r_plus (r_seq [r_star r_space, RChar (\<lambda>c. c = 47), r_star r_space, NUM_RE]))),
            r_star r_space, r_lit_ci (u ''m''), RWordB]"

section \<open>One basin segment\<close>

definition KIND_KEYWORDS :: "(pystr \<times> basin_kind) list" where
  "KIND_KEYWORDS =
    [(u ''nichtschwimmer'', NON_SWIMMER), (u ''schwimmerbecken'', LAP), (u ''sportbecken'', LAP),
     (u ''sprungbecken'', DIVING), (u ''tauchbecken'', DIVING), (u ''variobecken'', VARIO),
     (u ''lehrschwimmbecken'', TEACHING), (u ''lernschwimmbecken'', TEACHING), (u ''kinderbecken'', CHILDREN),
     (u ''planschbecken'', CHILDREN), (u ''aussenbecken'', OUTDOOR_BASIN),
     (u ''au'' @ [223] @ u ''enbecken'', OUTDOOR_BASIN)]"

record parsed_basin_physical =
  pp_name :: pystr
  pp_kind :: basin_kind
  pp_dimensions :: "dimensions option"
  pp_lanes :: "int option"
  pp_nominal_temp_c :: "rat option"
  pp_raw :: pystr
  pp_diving_platforms_m :: "rat list"

definition prose_decimal :: "pystr \<Rightarrow> py_error + rat" where
  "prose_decimal token = finite_decimal (replace_all [44] [46] token)"

definition kind_of :: "pystr \<Rightarrow> basin_kind" where
  "kind_of lowered =
     (case find (\<lambda>(keyword, k). contains keyword lowered) KIND_KEYWORDS of
        Some (_, k) \<Rightarrow> k
      | None \<Rightarrow> BASIN_OTHER)"

definition dimensions_of :: "pystr \<Rightarrow> py_error + dimensions option" where
  "dimensions_of segment =
     (case rx_search DIMENSIONS_RE segment of
        Some m \<Rightarrow> bind_err (prose_decimal (group m 1)) (\<lambda>l. bind_err (prose_decimal (group m 2)) (\<lambda>w.
                    Inr (Some \<lparr>length_m = l, width_m = Some w\<rparr>)))
      | None \<Rightarrow>
          (case rx_search LENGTH_RE segment of
             Some m \<Rightarrow> bind_err (prose_decimal (group m 1)) (\<lambda>l. Inr (Some \<lparr>length_m = l, width_m = None\<rparr>))
           | None \<Rightarrow> Inr None))"

definition name_of :: "pystr \<Rightarrow> pystr" where
  "name_of segment =
     (let name = (case rx_at BASIN_NAME_RE [] segment of
                    Some s \<Rightarrow> strip_where (\<lambda>c. c \<in> {32, 46, 45, 8211, 8212, 58}) (group (snd (snd s)) 0)
                  | None \<Rightarrow> [])
      in if name = [] then segment else name)"

text \<open>\<open>s.split(c)\<close> for a one-character separator.\<close>

fun split_char :: "nat \<Rightarrow> pystr \<Rightarrow> pystr list" where
  "split_char sep [] = [[]]"
| "split_char sep (c # cs) =
     (if c = sep then [] # split_char sep cs
      else case split_char sep cs of w # ws \<Rightarrow> (c # w) # ws | [] \<Rightarrow> [[c]])"

definition diving_platforms_of :: "pystr \<Rightarrow> py_error + rat list" where
  "diving_platforms_of segment =
     (case rx_search PLATFORM_RE segment of
        None \<Rightarrow> Inr []
      | Some m \<Rightarrow> map_err (\<lambda>tok. prose_decimal (py_strip tok)) (split_char 47 (group m 1)))"

definition captured :: "(pystr \<Rightarrow> py_error + 'a) \<Rightarrow> rx \<Rightarrow> pystr \<Rightarrow> py_error + 'a option" where
  "captured conv r s =
     (case rx_search r s of Some m \<Rightarrow> bind_err (conv (group m 1)) (\<lambda>v. Inr (Some v)) | None \<Rightarrow> Inr None)"

definition parse_segment :: "pystr \<Rightarrow> py_error + parsed_basin_physical option" where
  "parse_segment segment =
     (let lowered = py_lower segment
      in if \<not> contains (u ''becken'') lowered then Inr None
         else
           bind_err (diving_platforms_of segment) (\<lambda>platforms.
           bind_err (if platforms \<noteq> [] then Inr None else dimensions_of segment) (\<lambda>dims.
           bind_err (captured py_int LANES_RE segment) (\<lambda>lanes.
           bind_err (captured prose_decimal TEMP_RE segment) (\<lambda>temp.
             Inr (Some \<lparr>pp_name = name_of segment, pp_kind = kind_of lowered, pp_dimensions = dims,
               pp_lanes = lanes, pp_nominal_temp_c = temp, pp_raw = segment, pp_diving_platforms_m = platforms\<rparr>))))))"

section \<open>The whole prose\<close>

definition prose_segments :: "pystr \<Rightarrow> pystr list" where
  "prose_segments prose = filter (\<lambda>s. s \<noteq> []) (map py_strip (rx_split PROSE_SEGMENT_RE prose))"

definition parse_infrastruktur :: "pystr \<Rightarrow> py_error + parsed_basin_physical list" where
  "parse_infrastruktur prose =
     bind_err (map_err parse_segment (prose_segments prose)) (\<lambda>ps. Inr (List.map_filter id ps))"

definition apply_physicals :: "basin \<Rightarrow> parsed_basin_physical \<Rightarrow> basin" where
  "apply_physicals b p =
     b\<lparr>bn_kind := pp_kind p, bn_dimensions := pp_dimensions p, bn_lanes := pp_lanes p,
       nominal_temp_c := pp_nominal_temp_c p, diving_platforms_m := pp_diving_platforms_m p,
       physical_source := PARSED_PROSE\<rparr>"

definition basin_from_physical :: "parsed_basin_physical \<Rightarrow> basin_id \<Rightarrow> basin" where
  "basin_from_physical p bid =
     \<lparr>bn_id = bid, bn_name = pp_name p, bn_rules = [], bn_exceptions = [], bn_kind = pp_kind p,
      bn_dimensions = pp_dimensions p, bn_lanes = pp_lanes p, nominal_temp_c = pp_nominal_temp_c p,
      measured_temp_c = None, diving_platforms_m = pp_diving_platforms_m p, physical_source = PARSED_PROSE,
      lane_plan_source_of = None, lane_plan_of = None\<rparr>"

definition FEATURE_KEYWORDS :: "(pystr \<times> feature_kind \<times> pystr) list" where
  "FEATURE_KEYWORDS =
    [(u ''dampfbad'', STEAM_BATH, u ''Dampfbad''), (u ''sauna'', SAUNA, u ''Sauna''),
     (u ''rutschbahn'', SLIDE, u ''Rutschbahn''), (u ''rutsche'', SLIDE, u ''Rutschbahn''),
     (u ''sprudel'', HOT_TUB, u ''Sprudelbad''),
     (u ''massaged'' @ [252] @ u ''sen'', HOT_TUB, u ''Massagebad''),
     (u ''whirlpool'', HOT_TUB, u ''Whirlpool''), (u ''sonnenterrasse'', TERRACE, u ''Sonnenterrasse''),
     (u ''terrasse'', TERRACE, u ''Terrasse''), (u ''restaurant'', GASTRONOMY, u ''Restaurant''),
     (u ''kiosk'', GASTRONOMY, u ''Kiosk''), (u ''liegewiese'', REST, u ''Liegewiese''),
     (u ''sandstrand'', REST, u ''Sandstrand'')]"

definition feature_for :: "pystr \<Rightarrow> py_error + feature option" where
  "feature_for segment =
     (let lowered = py_lower segment
      in if contains (u ''becken'') lowered then Inr None
         else
           (case find (\<lambda>(keyword, k, label). contains keyword lowered) FEATURE_KEYWORDS of
              None \<Rightarrow> Inr None
            | Some (_, k, label) \<Rightarrow>
                bind_err (captured prose_decimal TEMP_RE segment) (\<lambda>temp.
                  Inr (Some \<lparr>ft_kind = k, ft_name = label, ft_hours = [], ft_surcharge_chf = None,
                    ft_temp_c = temp, ft_note = segment\<rparr>))))"

definition parse_features :: "pystr \<Rightarrow> py_error + feature list" where
  "parse_features prose =
     bind_err (map_err feature_for (prose_segments prose)) (\<lambda>fs. Inr (List.map_filter id fs))"

end
