(* ===== verification/Seed.thy ===== *)
theory Seed
  imports Codec Reconcile Infrastruktur
begin

text \<open>
  \<open>src/swimzh/storage/rows.py\<close> and \<open>src/swimzh/build/seed.py\<close>: the identity spine of the
  store. Every catalog pool becomes one row that carries its facility document; its names and
  its external keys become alias and cross-reference rows, each key written once. Sets of keys
  already seen are lists read with membership.
\<close>

section \<open>Rows\<close>

record pool_row =
  pr_id :: pool_id
  pr_name :: pystr
  pr_kind :: pool_kind
  pr_address :: pystr
  pr_geo :: "geo_point option"
  pr_url :: "pystr option"
  pr_description :: "pystr option"
  pr_phone :: "pystr option"
  pr_facility_doc :: "json_text option"

record pool_alias_row =
  al_pool_id :: pool_id
  al_alias :: pystr
  al_norm :: pystr

record pool_xref_row =
  xr_pool_id :: pool_id
  xr_ns :: pystr
  xr_ext :: pystr

record pool_spine =
  sp_pools :: "pool_row list"
  sp_aliases :: "pool_alias_row list"
  sp_xrefs :: "pool_xref_row list"

definition PROSE_SOURCE :: pystr where
  "PROSE_SOURCE = u ''infrastruktur''"

definition LOCATION_SOURCE :: pystr where
  "LOCATION_SOURCE = u ''catalog''"

section \<open>Facilities without a curated schedule\<close>

definition location_only_facility ::
  "pool_catalog_entry \<Rightarrow> pool_id \<Rightarrow> pool_kind \<Rightarrow> pool_identity option \<Rightarrow> py_error + facility" where
  "location_only_facility entry pool_id kind ident =
     bind_err (case pce_description entry of Some prose \<Rightarrow> parse_infrastruktur prose | None \<Rightarrow> Inr []) (\<lambda>physicals.
     bind_err (case pce_description entry of Some prose \<Rightarrow> parse_features prose | None \<Rightarrow> Inr []) (\<lambda>fs.
       let bs = map (\<lambda>(i, p). basin_from_physical p (pce_pool_id entry @ u ''-prose-'' @ str_of_int (int i)))
                    (enumerate 0 physicals);
           mint_identity = (case ident of
               Some i \<Rightarrow> i
             | None \<Rightarrow> \<lparr>facility_id = pool_id, pid_name = pce_name entry, pid_kind = kind,
                        geo_sport_id = pce_poi_id entry, crowdmonitor_keys = [], baditicker_poiid = None, aliases = []\<rparr>);
           source = (if bs \<noteq> [] \<or> fs \<noteq> [] then PROSE_SOURCE else LOCATION_SOURCE)
       in Inr \<lparr>identity = mint_identity, address = pce_address entry,
               provenance_of = \<lparr>pv_source = source, pv_curated = False, pv_valid_as_of = None, pv_fetched_at = None\<rparr>,
               basins = bs, geo = pce_geo entry, closures = [], public_holiday_policy = None,
               operating_season = None, admission_of = Unknown, notices = [], features = fs, lockers = [],
               rentals = [], last_admission_before = None\<rparr>))"

section \<open>Physicals of curated basins\<close>

definition needs_physicals :: "basin \<Rightarrow> bool" where
  "needs_physicals b \<longleftrightarrow>
     physical_source b = CURATED_PHYSICALS \<and> bn_dimensions b = None \<and> bn_lanes b = None \<and>
     nominal_temp_c b = None \<and> bn_kind b = BASIN_OTHER \<and> diving_platforms_m b = []"

definition match_physical ::
  "basin \<Rightarrow> (pystr \<rightharpoonup> parsed_basin_physical) \<Rightarrow> parsed_basin_physical option" where
  "match_physical b physicals = physicals (normalize (bn_name b))"

text \<open>A dictionary comprehension: of segments with the same name the last one wins.\<close>

definition physicals_by_name :: "parsed_basin_physical list \<Rightarrow> pystr \<rightharpoonup> parsed_basin_physical" where
  "physicals_by_name ps = map_of (rev (map (\<lambda>p. (normalize (pp_name p), p)) ps))"

definition enrich_step ::
  "(pystr \<rightharpoonup> parsed_basin_physical) \<Rightarrow> bool \<times> basin list \<Rightarrow> basin \<Rightarrow> bool \<times> basin list" where
  "enrich_step physicals st b =
     (case (if needs_physicals b then match_physical b physicals else None) of
        Some p \<Rightarrow> (True, snd st @ [apply_physicals b p])
      | None \<Rightarrow> (fst st, snd st @ [b]))"

definition apply_prose_physicals :: "facility \<Rightarrow> pystr option \<Rightarrow> py_error + facility" where
  "apply_prose_physicals fac prose =
     (case prose of
        None \<Rightarrow> Inr fac
      | Some t \<Rightarrow>
          bind_err (parse_infrastruktur t) (\<lambda>ps.
            if ps = [] then Inr fac
            else (case foldl (enrich_step (physicals_by_name ps)) (False, []) (basins fac) of
                    (changed, bs) \<Rightarrow> Inr (if changed then fac\<lparr>basins := bs\<rparr> else fac))))"

section \<open>The spine\<close>

definition stamp_facility :: "pool_catalog_entry \<Rightarrow> facility \<Rightarrow> py_error + facility" where
  "stamp_facility entry fac =
     apply_prose_physicals
       (fac\<lparr>geo := (case pce_geo entry of Some g \<Rightarrow> Some g | None \<Rightarrow> geo fac),
            identity := (identity fac)\<lparr>geo_sport_id := pce_poi_id entry\<rparr>,
            address := (if address fac \<noteq> [] then address fac else pce_address entry)\<rparr>)
       (pce_description entry)"

definition alias_step :: "pool_id \<Rightarrow> pystr list \<times> pool_alias_row list \<Rightarrow> pystr \<Rightarrow> pystr list \<times> pool_alias_row list" where
  "alias_step pid st term =
     (let key = normalize term
      in if key \<in> set (fst st) then st
         else (fst st @ [key], snd st @ [\<lparr>al_pool_id = pid, al_alias = term, al_norm = key\<rparr>]))"

definition xref_step ::
  "pool_id \<Rightarrow> (pystr \<times> pystr) list \<times> pool_xref_row list \<Rightarrow> pystr \<times> pystr \<Rightarrow> (pystr \<times> pystr) list \<times> pool_xref_row list" where
  "xref_step pid st key =
     (if key \<in> set (fst st) then st
      else (fst st @ [key], snd st @ [\<lparr>xr_pool_id = pid, xr_ns = fst key, xr_ext = snd key\<rparr>]))"

definition alias_terms :: "pool_catalog_entry \<Rightarrow> pool_identity option \<Rightarrow> pystr list" where
  "alias_terms entry ident =
     pce_name entry # (case ident of Some i \<Rightarrow> pid_name i # aliases i | None \<Rightarrow> [])"

definition external_keys :: "pool_catalog_entry \<Rightarrow> pool_identity option \<Rightarrow> (pystr \<times> pystr) list" where
  "external_keys entry ident =
     (case ident of
        None \<Rightarrow> []
      | Some i \<Rightarrow>
          (case pce_poi_id entry of Some p \<Rightarrow> [(u ''geo_sport'', p)] | None \<Rightarrow> []) @
          map (\<lambda>k. (u ''crowdmonitor'', k)) (crowdmonitor_keys i))"

record spine_state =
  ss_pools :: "pool_row list"
  ss_aliases :: "pystr list \<times> pool_alias_row list"
  ss_xrefs :: "(pystr \<times> pystr) list \<times> pool_xref_row list"

text \<open>The registry's identity of a catalog pool, its \<open>geo_sport_id\<close> taken from the roster.\<close>

definition spine_identity :: "registry \<Rightarrow> pool_catalog_entry \<Rightarrow> pool_identity option" where
  "spine_identity reg entry =
     map_option (\<lambda>i. i\<lparr>geo_sport_id := pce_poi_id entry\<rparr>) (registry_get reg (pce_pool_id entry))"

definition spine_kind :: "registry \<Rightarrow> pool_catalog_entry \<Rightarrow> pool_kind" where
  "spine_kind reg entry = (case spine_identity reg entry of Some i \<Rightarrow> pid_kind i | None \<Rightarrow> pce_kind entry)"

text \<open>The facility whose document a catalog entry's row carries.\<close>

definition spine_facility ::
  "(pool_id \<rightharpoonup> facility) \<Rightarrow> registry \<Rightarrow> pool_catalog_entry \<Rightarrow> py_error + facility" where
  "spine_facility curated reg entry =
     (case curated (pce_pool_id entry) of
        Some fac \<Rightarrow> stamp_facility entry fac
      | None \<Rightarrow> location_only_facility entry (pce_pool_id entry) (spine_kind reg entry) (spine_identity reg entry))"

definition spine_step ::
  "models \<Rightarrow> (pool_id \<rightharpoonup> facility) \<Rightarrow> registry \<Rightarrow> spine_state \<Rightarrow> pool_catalog_entry \<Rightarrow> py_error + spine_state" where
  "spine_step m curated reg st entry =
     (let pid = pce_pool_id entry; ident = spine_identity reg entry
      in bind_err (spine_facility curated reg entry) (\<lambda>fac.
         bind_err (facility_dumps m fac) (\<lambda>doc.
           Inr \<lparr>ss_pools = ss_pools st @
                  [\<lparr>pr_id = pid, pr_name = pce_name entry, pr_kind = spine_kind reg entry, pr_address = pce_address entry,
                    pr_geo = pce_geo entry, pr_url = pce_url entry, pr_description = pce_description entry,
                    pr_phone = pce_phone entry, pr_facility_doc = Some doc\<rparr>],
                ss_aliases = foldl (alias_step pid) (ss_aliases st) (alias_terms entry ident),
                ss_xrefs = foldl (xref_step pid) (ss_xrefs st) (external_keys entry ident)\<rparr>)))"

definition curated_by_id :: "facility list \<Rightarrow> pool_id \<rightharpoonup> facility" where
  "curated_by_id fs = map_of (rev (map (\<lambda>f. (facility_id (identity f), f)) fs))"

definition build_spine ::
  "models \<Rightarrow> pool_catalog_entry list \<Rightarrow> facility list \<Rightarrow> registry \<Rightarrow> py_error + pool_spine" where
  "build_spine m catalog fs reg =
     bind_err (fold_err (spine_step m (curated_by_id fs) reg) (sort_key pce_pool_id catalog)
                 \<lparr>ss_pools = [], ss_aliases = ([], []), ss_xrefs = ([], [])\<rparr>)
       (\<lambda>st. Inr \<lparr>sp_pools = ss_pools st, sp_aliases = snd (ss_aliases st), sp_xrefs = snd (ss_xrefs st)\<rparr>)"

definition build_crosswalk :: "pool_spine \<Rightarrow> crosswalk" where
  "build_crosswalk sp =
     \<lparr>cw_xref = map_of (rev (map (\<lambda>x. ((xr_ns x, xr_ext x), xr_pool_id x)) (sp_xrefs sp))),
      cw_alias = map_of (rev (map (\<lambda>a. (al_norm a, al_pool_id a)) (sp_aliases sp)))\<rparr>"

end
