(* ===== verification/Gold.thy ===== *)
theory Gold
  imports Seed Lake
begin

text \<open>
  \<open>src/swimzh/storage/sqlite_repo.py\<close>: the gold store. A database is its tables, each the
  list of its rows in insertion order; what the schema's \<open>PRIMARY KEY\<close>, \<open>UNIQUE\<close> and
  \<open>REFERENCES\<close> clauses refuse is an \<open>IntegrityError\<close>. A function that raises does not
  commit, so it returns no database. Text is compared by code point (SQLite compares the UTF-8
  bytes, which order the same way).
\<close>

section \<open>Tables\<close>

record pool_tuple =
  pt_id :: pystr
  pt_name :: pystr
  pt_kind :: pystr
  pt_address :: pystr
  pt_lat :: "real option"
  pt_lon :: "real option"
  pt_url :: "pystr option"
  pt_description :: "pystr option"
  pt_phone :: "pystr option"
  pt_doc :: "json_text option"

record alias_tuple =
  at_pool_id :: pystr
  at_alias :: pystr
  at_norm :: pystr

record xref_tuple =
  xt_pool_id :: pystr
  xt_namespace :: pystr
  xt_ext_id :: pystr

record freshness_tuple =
  ftt_source :: pystr
  ftt_fetched_at :: pystr
  ftt_status :: pystr
  ftt_content_sha :: pystr
  ftt_built_at :: pystr

record gold_db =
  gd_pool :: "pool_tuple list"
  gd_alias :: "alias_tuple list"
  gd_xref :: "xref_tuple list"
  gd_calendar :: "json_text option"
  gd_freshness :: "freshness_tuple list"

definition empty_db :: gold_db where
  "empty_db = \<lparr>gd_pool = [], gd_alias = [], gd_xref = [], gd_calendar = None, gd_freshness = []\<rparr>"

definition insert_pool :: "gold_db \<Rightarrow> pool_tuple \<Rightarrow> py_error + gold_db" where
  "insert_pool db t =
     (if pt_id t \<in> pt_id ` set (gd_pool db) then Inl IntegrityError
      else Inr (db\<lparr>gd_pool := gd_pool db @ [t]\<rparr>))"

definition insert_alias :: "gold_db \<Rightarrow> alias_tuple \<Rightarrow> py_error + gold_db" where
  "insert_alias db t =
     (if at_norm t \<in> at_norm ` set (gd_alias db) \<or> at_pool_id t \<notin> pt_id ` set (gd_pool db) then Inl IntegrityError
      else Inr (db\<lparr>gd_alias := gd_alias db @ [t]\<rparr>))"

definition insert_xref :: "gold_db \<Rightarrow> xref_tuple \<Rightarrow> py_error + gold_db" where
  "insert_xref db t =
     (if (xt_namespace t, xt_ext_id t) \<in> (\<lambda>x. (xt_namespace x, xt_ext_id x)) ` set (gd_xref db) \<or>
         xt_pool_id t \<notin> pt_id ` set (gd_pool db) then Inl IntegrityError
      else Inr (db\<lparr>gd_xref := gd_xref db @ [t]\<rparr>))"

definition insert_freshness :: "gold_db \<Rightarrow> freshness_tuple \<Rightarrow> py_error + gold_db" where
  "insert_freshness db t =
     (if ftt_source t \<in> ftt_source ` set (gd_freshness db) then Inl IntegrityError
      else Inr (db\<lparr>gd_freshness := gd_freshness db @ [t]\<rparr>))"

text \<open>\<open>DELETE FROM pool\<close> cascades to every row, for each refers to a pool.\<close>

definition delete_pools :: "gold_db \<Rightarrow> gold_db" where
  "delete_pools db = db\<lparr>gd_pool := [], gd_alias := [], gd_xref := []\<rparr>"

section \<open>Writing\<close>

definition pool_tuple_of :: "pool_row \<Rightarrow> pool_tuple" where
  "pool_tuple_of p =
     \<lparr>pt_id = pr_id p, pt_name = pr_name p, pt_kind = pool_kind_value (pr_kind p), pt_address = pr_address p,
      pt_lat = map_option lat (pr_geo p), pt_lon = map_option lon (pr_geo p), pt_url = pr_url p,
      pt_description = pr_description p, pt_phone = pr_phone p, pt_doc = None\<rparr>"

definition alias_tuple_of :: "pool_alias_row \<Rightarrow> alias_tuple" where
  "alias_tuple_of a = \<lparr>at_pool_id = al_pool_id a, at_alias = al_alias a, at_norm = al_norm a\<rparr>"

definition xref_tuple_of :: "pool_xref_row \<Rightarrow> xref_tuple" where
  "xref_tuple_of x = \<lparr>xt_pool_id = xr_pool_id x, xt_namespace = xr_ns x, xt_ext_id = xr_ext x\<rparr>"

definition write_pools :: "pool_spine \<Rightarrow> gold_db \<Rightarrow> py_error + gold_db" where
  "write_pools sp db =
     bind_err (fold_err insert_pool (map pool_tuple_of (sp_pools sp)) (delete_pools db)) (\<lambda>db1.
     bind_err (fold_err insert_alias (map alias_tuple_of (sp_aliases sp)) db1) (\<lambda>db2.
       fold_err insert_xref (map xref_tuple_of (sp_xrefs sp)) db2))"

definition update_doc :: "gold_db \<Rightarrow> pystr \<times> json_text \<Rightarrow> gold_db" where
  "update_doc db x =
     db\<lparr>gd_pool := map (\<lambda>t. if pt_id t = fst x then t\<lparr>pt_doc := Some (snd x)\<rparr> else t) (gd_pool db)\<rparr>"

definition write_schedules :: "models \<Rightarrow> (pool_id \<times> facility) list \<Rightarrow> gold_db \<Rightarrow> py_error + gold_db" where
  "write_schedules m keyed db =
     bind_err (map_err (\<lambda>(pid, fac). bind_err (facility_dumps m fac) (\<lambda>doc. Inr (pid, doc))) keyed) (\<lambda>rows.
       Inr (foldl update_doc db rows))"

definition write_calendar :: "models \<Rightarrow> zurich_calendar \<Rightarrow> gold_db \<Rightarrow> gold_db" where
  "write_calendar m cal db = db\<lparr>gd_calendar := Some (calendar_dumps m cal)\<rparr>"

definition freshness_tuple_of :: "runtime \<Rightarrow> datetime \<Rightarrow> silver_header \<Rightarrow> freshness_tuple" where
  "freshness_tuple_of rt built_at h =
     \<lparr>ftt_source = sh_source h, ftt_fetched_at = isoformat (rt_tzdb rt) (sh_fetched_at h),
      ftt_status = silver_status_value (sh_status h), ftt_content_sha = content_sha h,
      ftt_built_at = isoformat (rt_tzdb rt) built_at\<rparr>"

definition write_source_freshness ::
  "runtime \<Rightarrow> silver_header list \<Rightarrow> datetime \<Rightarrow> gold_db \<Rightarrow> py_error + gold_db" where
  "write_source_freshness rt headers built_at db =
     fold_err insert_freshness (map (freshness_tuple_of rt built_at) headers) (db\<lparr>gd_freshness := []\<rparr>)"

section \<open>Reading\<close>

definition load_alias_rows :: "gold_db \<Rightarrow> (pystr \<times> pystr) list" where
  "load_alias_rows db = map (\<lambda>t. (at_norm t, at_pool_id t)) (gd_alias db)"

definition load_xref_rows :: "gold_db \<Rightarrow> (pystr \<times> pystr \<times> pystr) list" where
  "load_xref_rows db = map (\<lambda>t. (xt_namespace t, xt_ext_id t, xt_pool_id t)) (gd_xref db)"

definition catalog_entry_of :: "pool_tuple \<Rightarrow> py_error + pool_catalog_entry" where
  "catalog_entry_of t =
     (let g = (case (pt_lat t, pt_lon t) of (Some la, Some lo) \<Rightarrow> Some \<lparr>lat = la, lon = lo\<rparr> | _ \<Rightarrow> None)
      in bind_err (dict_at KIND_FROM (pt_kind t)) (\<lambda>kind.
           Inr \<lparr>pce_pool_id = pt_id t, pce_name = pt_name t, pce_kind = kind, pce_address = pt_address t,
                pce_geo = g, pce_url = pt_url t, pce_description = pt_description t, pce_phone = pt_phone t,
                pce_poi_id = None\<rparr>))"

definition roster_entry_of :: "models \<Rightarrow> pool_tuple \<Rightarrow> py_error + roster_entry" where
  "roster_entry_of m t =
     bind_err (catalog_entry_of t) (\<lambda>e. bind_err (schedule_freshness_of_doc m (pt_doc t)) (\<lambda>fr.
       Inr \<lparr>re_entry = e, re_freshness = fr\<rparr>))"

definition load_roster :: "models \<Rightarrow> gold_db \<Rightarrow> py_error + roster_entry list" where
  "load_roster m db = map_err (roster_entry_of m) (sort_key pt_id (gd_pool db))"

definition load_calendar :: "models \<Rightarrow> gold_db \<Rightarrow> py_error + zurich_calendar" where
  "load_calendar m db = (case gd_calendar db of None \<Rightarrow> Inl LookupError | Some doc \<Rightarrow> calendar_loads m doc)"

definition gold_load_all :: "models \<Rightarrow> gold_db \<Rightarrow> py_error + facility list" where
  "gold_load_all m db = map_err (facility_loads m) (List.map_filter pt_doc (sort_key pt_id (gd_pool db)))"

definition gold_get :: "models \<Rightarrow> gold_db \<Rightarrow> pool_id \<Rightarrow> py_error + facility option" where
  "gold_get m db pid =
     (case find (\<lambda>t. pt_id t = pid \<and> pt_doc t \<noteq> None) (gd_pool db) of
        None \<Rightarrow> Inr None
      | Some t \<Rightarrow> (case pt_doc t of None \<Rightarrow> Inr None | Some doc \<Rightarrow> bind_err (facility_loads m doc) (\<lambda>f. Inr (Some f))))"

definition gold_count :: "gold_db \<Rightarrow> nat" where
  "gold_count db = length (filter (\<lambda>t. pt_doc t \<noteq> None) (gd_pool db))"

section \<open>Provenance rows\<close>

record source_freshness_rec =
  sof_header :: silver_header
  sof_built_at :: datetime

definition age_days :: "tzdb \<Rightarrow> source_freshness_rec \<Rightarrow> rat" where
  "age_days db s = of_int (dt_sub db (sof_built_at s) (sh_fetched_at (sof_header s))) / 1000000 / 86400"

definition parsed_time :: "runtime \<Rightarrow> pystr \<Rightarrow> py_error + datetime" where
  "parsed_time rt s = (case fromisoformat (rt_other_iso rt) s of None \<Rightarrow> Inl ValueError | Some t \<Rightarrow> Inr t)"

definition freshness_of_tuple :: "runtime \<Rightarrow> freshness_tuple \<Rightarrow> py_error + pystr \<times> source_freshness_rec" where
  "freshness_of_tuple rt t =
     bind_err (parsed_time rt (ftt_fetched_at t)) (\<lambda>fetched.
     bind_err (silver_status_of (ftt_status t)) (\<lambda>st.
     bind_err (parsed_time rt (ftt_built_at t)) (\<lambda>built.
       Inr (ftt_source t,
            \<lparr>sof_header = \<lparr>sh_source = ftt_source t, sh_fetched_at = fetched, sh_status = st,
                           content_sha = ftt_content_sha t, sh_schema = SILVER_SCHEMA\<rparr>,
             sof_built_at = built\<rparr>))))"

definition load_source_freshness :: "runtime \<Rightarrow> gold_db \<Rightarrow> py_error + source_freshness_rec list" where
  "load_source_freshness rt db =
     bind_err (map_err (freshness_of_tuple rt) (gd_freshness db)) (\<lambda>rows.
       Inr (List.map_filter (map_of (rev rows)) SILVER_SOURCES @
            map snd (sort_key fst (filter (\<lambda>(k, v). k \<notin> set SILVER_SOURCES) rows))))"

end
