(* ===== verification/Build.thy ===== *)
theory Build
  imports Curated Gold
begin

text \<open>
  \<open>src/swimzh/etl/build.py\<close>: the one path from the roster and the curated data to the gold
  store. The lines the audit prints to the error stream are part of the result.
\<close>

record curated_assembly =
  cas_spine :: pool_spine
  cas_calendar :: zurich_calendar
  cas_authored :: "facility list"

definition keyed_schedules :: "models \<Rightarrow> pool_spine \<Rightarrow> py_error + (pool_id \<times> facility) list" where
  "keyed_schedules m sp =
     map_err (\<lambda>(pid, doc). bind_err (facility_loads m doc) (\<lambda>f. Inr (pid, f)))
       (List.map_filter (\<lambda>p. map_option (Pair (pr_id p)) (pr_facility_doc p)) (sp_pools sp))"

definition assembly_facilities :: "models \<Rightarrow> curated_assembly \<Rightarrow> py_error + facility list" where
  "assembly_facilities m a = bind_err (keyed_schedules m (cas_spine a)) (\<lambda>kfs. Inr (map snd kfs))"

definition unmapped_closures :: "facility list \<Rightarrow> (pystr \<times> pystr) list" where
  "unmapped_closures fs =
     concat (map (\<lambda>f.
       map (\<lambda>c. (pid_name (identity f), cr_reason c)) (filter (\<lambda>c. is_unmapped (cr_code c)) (closures f)) @
       concat (map (\<lambda>b. map (\<lambda>e. (pid_name (identity f), se_reason e))
                           (filter (\<lambda>e. is_unmapped (se_code e)) (bn_exceptions b))) (basins f))) fs)"

definition unmapped_line :: "(pystr \<Rightarrow> pystr) \<Rightarrow> pystr \<times> pystr \<Rightarrow> pystr" where
  "unmapped_line srepr x = u ''unmapped closure reason: '' @ fst x @ u '': '' @ srepr (snd x)"

definition assemble_curated ::
  "curated_env \<Rightarrow> models \<Rightarrow> pystr \<Rightarrow> pool_catalog_entry list \<Rightarrow> py_error + (curated_assembly, provider_error) result" where
  "assemble_curated env m data_dir roster =
     bind_err (load_dataset env data_dir) (\<lambda>loaded.
       case loaded of
         Err e \<Rightarrow> Inr (Err e)
       | Ok ds \<Rightarrow>
           bind_err (build_spine m roster (ds_facilities ds) (ds_registry ds)) (\<lambda>sp.
             Inr (Ok \<lparr>cas_spine = sp, cas_calendar = ds_calendar ds, cas_authored = ds_facilities ds\<rparr>)))"

definition write_curated_store ::
  "(pystr \<Rightarrow> pystr) \<Rightarrow> models \<Rightarrow> curated_assembly \<Rightarrow> gold_db \<Rightarrow> py_error + gold_db \<times> pystr list" where
  "write_curated_store srepr m a db =
     bind_err (write_pools (cas_spine a) db) (\<lambda>db1.
     bind_err (keyed_schedules m (cas_spine a)) (\<lambda>keyed.
     bind_err (write_schedules m keyed db1) (\<lambda>db2.
       Inr (write_calendar m (cas_calendar a) db2, map (unmapped_line srepr) (unmapped_closures (cas_authored a))))))"

definition build_store ::
  "curated_env \<Rightarrow> models \<Rightarrow> pystr \<Rightarrow> pool_catalog_entry list \<Rightarrow> gold_db \<Rightarrow>
   py_error + (gold_db \<times> pystr list, provider_error) result" where
  "build_store env m data_dir roster db =
     bind_err (assemble_curated env m data_dir roster) (\<lambda>r.
       case r of
         Err e \<Rightarrow> Inr (Err e)
       | Ok a \<Rightarrow> bind_err (write_curated_store (ce_repr env) m a db) (\<lambda>out. Inr (Ok out)))"

end
