(* ===== verification/Prose_Facts.thy ===== *)
theory Prose_Facts
  imports Infrastruktur
begin

text \<open>
  The prose parsers never raise: what their patterns capture is always a decimal numeral. Each
  segment of the prose is read as a basin or as an amenity, never as both.
\<close>

section \<open>Numerals\<close>

definition numeral_text :: "pystr \<Rightarrow> bool" where
  "numeral_text w \<longleftrightarrow> w \<noteq> [] \<and> (\<forall>c \<in> set w. is_decimal c)"

definition measure_text :: "pystr \<Rightarrow> bool" where
  "measure_text w \<longleftrightarrow>
     (\<exists>a b. numeral_text a \<and> (w = a \<or> (\<exists>c. (c = 44 \<or> c = 46) \<and> numeral_text b \<and> w = a @ c # b)))"

lemma accepts_digits: "accepts (r_plus r_digit) w \<Longrightarrow> numeral_text w"
  using accepts_chars [of True 1 None is_decimal w] by (cases w) (auto simp: numeral_text_def)

lemma accepts_NUM: "accepts NUM_RE w \<Longrightarrow> measure_text w"
proof -
  assume "accepts NUM_RE w"
  then obtain a t where w: "w = a @ t" "accepts (r_plus r_digit) a"
    and t: "accepts (r_opt (RSeq (RChar (\<lambda>c. c = 46 \<or> c = 44)) (r_plus r_digit))) t"
    unfolding NUM_RE_def accepts.simps(3) by (elim exE conjE)
  from w(2) have a: "numeral_text a" by (rule accepts_digits)
  show ?thesis
  proof (cases "t = []")
    case True
    with w a show ?thesis by (auto simp: measure_text_def)
  next
    case False
    with t have "accepts (RSeq (RChar (\<lambda>c. c = 46 \<or> c = 44)) (r_plus r_digit)) t"
      unfolding One_nat_def accepts_opt by blast
    then obtain c b where "t = c # b" "c = 46 \<or> c = 44" "accepts (r_plus r_digit) b"
      unfolding accepts.simps(2,3) by (elim exE conjE) simp
    with w a accepts_digits show ?thesis unfolding measure_text_def by blast
  qed
qed

lemma is_decimal_facts: "is_decimal c \<Longrightarrow> \<not> is_space c \<and> c \<noteq> 95 \<and> c \<noteq> 43 \<and> c \<noteq> 44 \<and> c \<noteq> 45 \<and> c \<noteq> 46 \<and> c \<noteq> 47"
  by (auto simp: is_decimal_def is_space_def)

lemma replace_char: "replace_all [a] [b] s = map (\<lambda>c. if c = a then b else c) s"
  by (induction s) simp_all

lemma py_int_numeral: "numeral_text w \<Longrightarrow> py_int w = Inr (decimal_value w)"
  by (simp add: py_int_def numeral_text_def)

lemma numeral_hd: "numeral_text a \<Longrightarrow> \<exists>c cs. a = c # cs \<and> is_decimal c"
  by (cases a) (auto simp: numeral_text_def)

lemma numeral_spans:
  assumes "numeral_text a"
  shows "takeWhile is_decimal (a @ 46 # b) = a" "dropWhile is_decimal (a @ 46 # b) = 46 # b"
    "takeWhile is_decimal a = a" "dropWhile is_decimal a = []"
proof -
  have "\<forall>c \<in> set a. is_decimal c" using assms by (simp add: numeral_text_def)
  moreover have "\<not> is_decimal 46" by (simp add: is_decimal_def)
  ultimately show "takeWhile is_decimal (a @ 46 # b) = a" "dropWhile is_decimal (a @ 46 # b) = 46 # b"
    "takeWhile is_decimal a = a" "dropWhile is_decimal a = []"
    by (simp_all add: takeWhile_append2 dropWhile_append2)
qed

lemma py_decimal_plain:
  assumes "hd s \<noteq> 45" "hd s \<noteq> 43" "s \<noteq> []" "\<forall>c \<in> set s. \<not> is_space c \<and> c \<noteq> 95" "unsigned_decimal s = Some v"
  shows "py_decimal s = Inr (Finite v)"
proof -
  have "py_strip s = s" using assms(4) by (simp add: py_strip_def strip_where_all)
  moreover have "filter (\<lambda>c. c \<noteq> 95) s = s" using assms(4) by (simp add: filter_id_conv)
  moreover have "split_sign s = (1, s)" using assms(1-3) by (cases s) (simp_all add: split_sign_def)
  ultimately show ?thesis using assms(5) by (simp add: py_decimal_def Let_def)
qed

text \<open>The German decimal comma: \<open>10,5\<close> is ten and a half.\<close>

lemma prose_decimal_whole: "numeral_text a \<Longrightarrow> prose_decimal a = Inr (of_int (decimal_value a))"
proof -
  assume a: "numeral_text a"
  then have all: "\<forall>c \<in> set a. is_decimal c" and ne: "a \<noteq> []" by (simp_all add: numeral_text_def)
  have id: "replace_all [44] [46] a = a"
    unfolding replace_char by (rule map_idI) (use all is_decimal_facts in auto)
  have "unsigned_decimal a = Some (of_int (decimal_value a))"
    using ne by (simp add: unsigned_decimal_def Let_def numeral_spans [OF a] exponent_of_def shifted_def)
  moreover have "hd a \<noteq> 45" "hd a \<noteq> 43" using all ne is_decimal_facts by (meson hd_in_set)+
  moreover have "\<forall>c \<in> set a. \<not> is_space c \<and> c \<noteq> 95" using all is_decimal_facts by blast
  ultimately have "py_decimal a = Inr (Finite (of_int (decimal_value a)))" using ne by (intro py_decimal_plain)
  with id show ?thesis by (simp add: prose_decimal_def finite_decimal_def)
qed

lemma prose_decimal_fraction:
  assumes "numeral_text a" "numeral_text b" "c = 44 \<or> c = 46"
  shows "prose_decimal (a @ c # b) = Inr (of_int (decimal_value (a @ b)) / 10 ^ length b)"
proof -
  have all: "\<forall>c \<in> set a. is_decimal c" "\<forall>c \<in> set b. is_decimal c" and ne: "a \<noteq> []" "b \<noteq> []"
    using assms(1,2) by (simp_all add: numeral_text_def)
  have "map (\<lambda>c. if c = 44 then 46 else c) a = a" "map (\<lambda>c. if c = 44 then 46 else c) b = b"
    by (rule map_idI, use all is_decimal_facts in auto)+
  with assms(3) have rep: "replace_all [44] [46] (a @ c # b) = a @ 46 # b" by (auto simp: replace_char)
  have "unsigned_decimal (a @ 46 # b) = Some (of_int (decimal_value (a @ b)) / 10 ^ length b)"
    using ne by (simp add: unsigned_decimal_def Let_def numeral_spans [OF assms(1)] numeral_spans [OF assms(2)]
        exponent_of_def shifted_def)
  moreover have "is_decimal (hd (a @ 46 # b))" using all(1) ne(1) by simp
  then have "hd (a @ 46 # b) \<noteq> 45" "hd (a @ 46 # b) \<noteq> 43" using is_decimal_facts by blast+
  moreover have "\<forall>c \<in> set (a @ 46 # b). \<not> is_space c \<and> c \<noteq> 95"
    using all is_decimal_facts by (auto simp: is_space_def)
  ultimately have "py_decimal (a @ 46 # b) = Inr (Finite (of_int (decimal_value (a @ b)) / 10 ^ length b))"
    by (intro py_decimal_plain) simp_all
  with rep show ?thesis by (simp add: prose_decimal_def finite_decimal_def)
qed

lemma prose_decimal_measure: "measure_text w \<Longrightarrow> \<exists>v. prose_decimal w = Inr v"
  unfolding measure_text_def using prose_decimal_whole prose_decimal_fraction by blast

section \<open>What the patterns capture\<close>

lemma TEMP_captures: "rx_search TEMP_RE s = Some m \<Longrightarrow> measure_text (group m 1)"
  using rx_search_group [of TEMP_RE s m "\<lambda>n w. n = 1 \<longrightarrow> measure_text w" 1]
  by (auto simp: TEMP_RE_def accepts_NUM u_def simp del: accepts.simps) (auto simp: NUM_RE_def)

lemma LANES_captures: "rx_search LANES_RE s = Some m \<Longrightarrow> numeral_text (group m 1)"
  using rx_search_group [of LANES_RE s m "\<lambda>n w. n = 1 \<longrightarrow> numeral_text w" 1]
  by (auto simp: LANES_RE_def accepts_digits u_def simp del: accepts.simps)

lemma LENGTH_captures: "rx_search LENGTH_RE s = Some m \<Longrightarrow> measure_text (group m 1)"
  using rx_search_group [of LENGTH_RE s m "\<lambda>n w. n = 1 \<longrightarrow> measure_text w" 1]
  by (auto simp: LENGTH_RE_def accepts_NUM u_def simp del: accepts.simps) (auto simp: NUM_RE_def)

lemma DIMENSIONS_captures:
  "rx_search DIMENSIONS_RE s = Some m \<Longrightarrow> measure_text (group m 1) \<and> measure_text (group m 2)"
  using rx_search_group [of DIMENSIONS_RE s m "\<lambda>n w. n = 1 \<or> n = 2 \<longrightarrow> measure_text w" 1]
    rx_search_group [of DIMENSIONS_RE s m "\<lambda>n w. n = 1 \<or> n = 2 \<longrightarrow> measure_text w" 2]
  by (auto simp: DIMENSIONS_RE_def accepts_NUM u_def simp del: accepts.simps) (auto simp: NUM_RE_def)

text \<open>A slash list splits into numerals.\<close>

lemma split_char_word: "sep \<notin> set v \<Longrightarrow> split_char sep v = [v]"
  by (induction v) simp_all

lemma split_char_append: "sep \<notin> set v \<Longrightarrow> split_char sep (v @ sep # w) = v # split_char sep w"
  by (induction v) simp_all

lemma strip_spaces:
  assumes "\<forall>c \<in> set x. is_space c" "\<forall>c \<in> set y. is_space c" "w \<noteq> []" "\<not> is_space (hd w)" "\<not> is_space (last w)"
  shows "py_strip (x @ w @ y) = w"
proof -
  obtain h t where w: "w = h # t" using assms(3) by (cases w) auto
  have "dropWhile is_space (x @ w @ y) = w @ y"
    using assms(1,4) w by (simp add: dropWhile_append2)
  moreover have "dropWhile is_space (rev y @ rev w) = rev w"
  proof -
    have "\<not> is_space (hd (rev w))" "rev w \<noteq> []" using assms(3,5) by (simp_all add: hd_rev)
    then have "dropWhile is_space (rev w) = rev w" by (cases "rev w") simp_all
    moreover have "dropWhile is_space (rev y @ rev w) = dropWhile is_space (rev w)"
      by (rule dropWhile_append2) (use assms(2) in simp)
    ultimately show ?thesis by simp
  qed
  ultimately show ?thesis by (simp add: py_strip_def strip_where_def)
qed

lemma measure_chars:
  assumes "measure_text w"
  shows "47 \<notin> set w" "w \<noteq> []" "\<not> is_space (hd w)" "\<not> is_space (last w)"
proof -
  have "\<forall>c \<in> set w. is_decimal c \<or> c = 44 \<or> c = 46" "w \<noteq> []"
    using assms by (auto simp: measure_text_def numeral_text_def)
  moreover have "\<not> is_space c \<and> c \<noteq> 47" if "is_decimal c \<or> c = 44 \<or> c = 46" for c
    using that by (auto simp: is_decimal_def is_space_def)
  ultimately show "47 \<notin> set w" "w \<noteq> []" "\<not> is_space (hd w)" "\<not> is_space (last w)"
    using hd_in_set last_in_set by blast+
qed

definition spaces :: "pystr \<Rightarrow> bool" where
  "spaces x \<longleftrightarrow> (\<forall>c \<in> set x. is_space c)"

lemma spaces_no_slash: "spaces x \<Longrightarrow> 47 \<notin> set x"
  by (auto simp: spaces_def is_space_def)

lemma strip_measure: "spaces x \<Longrightarrow> spaces y \<Longrightarrow> measure_text w \<Longrightarrow> py_strip (x @ w @ y) = w"
  by (rule strip_spaces) (simp_all add: spaces_def measure_chars)

lemma slash_list:
  assumes "\<forall>v \<in> set vs. \<exists>x y w. spaces x \<and> spaces y \<and> measure_text w \<and> v = x @ 47 # y @ w"
    "spaces y" "measure_text w"
  shows "\<forall>tok \<in> set (split_char 47 (y @ w @ concat vs)). measure_text (py_strip tok)"
  using assms
proof (induction vs arbitrary: y w)
  case Nil
  have "47 \<notin> set (y @ w)" using Nil spaces_no_slash measure_chars(1) by auto
  moreover have "py_strip (y @ w) = w" using strip_measure [of y "[]" w] Nil by (simp add: spaces_def)
  ultimately show ?case using Nil by (simp add: split_char_word)
next
  case (Cons v vs)
  then obtain x' y' w' where v: "spaces x'" "spaces y'" "measure_text w'" "v = x' @ 47 # y' @ w'" by auto
  have IH: "\<forall>tok \<in> set (split_char 47 (y' @ w' @ concat vs)). measure_text (py_strip tok)"
    by (rule Cons.IH) (use Cons.prems v in auto)
  have "47 \<notin> set (y @ w @ x')" using Cons.prems v spaces_no_slash measure_chars(1) by auto
  then have "split_char 47 (y @ w @ concat (v # vs)) = (y @ w @ x') # split_char 47 (y' @ w' @ concat vs)"
    using split_char_append [of 47 "y @ w @ x'"] v(4) by simp
  moreover have "py_strip (y @ w @ x') = w" using strip_measure Cons.prems v by blast
  ultimately show ?case using IH Cons.prems by simp
qed

lemma accepts_spaces: "accepts (r_star r_space) w \<Longrightarrow> spaces w"
  using accepts_chars [of True 0 None is_space w] by (simp add: spaces_def)

lemma PLATFORM_captures:
  assumes "rx_search PLATFORM_RE s = Some m" "tok \<in> set (split_char 47 (group m 1))"
  shows "measure_text (py_strip tok)"
proof -
  let ?slash = "r_seq [r_star r_space, RChar (\<lambda>c. c = 47), r_star r_space, NUM_RE]"
  let ?list = "RSeq NUM_RE (r_plus ?slash)"
  have "accepts ?list (group m 1)"
    using rx_search_group [of PLATFORM_RE s m "\<lambda>n w. n = 1 \<longrightarrow> accepts ?list w" 1] assms(1)
    by (auto simp: PLATFORM_RE_def u_def simp del: accepts.simps) (auto simp: NUM_RE_def)
  then obtain w t where w: "group m 1 = w @ t" "accepts NUM_RE w" "accepts (r_plus ?slash) t"
    unfolding accepts.simps(3) by (elim exE conjE)
  from w(3) obtain vs where vs: "t = concat vs" "\<forall>v \<in> set vs. accepts ?slash v"
    unfolding accepts.simps(5) by (elim exE conjE)
  have "\<exists>x y w. spaces x \<and> spaces y \<and> measure_text w \<and> v = x @ 47 # y @ w" if "v \<in> set vs" for v
  proof -
    from vs(2) that obtain x y w where "accepts (r_star r_space) x" "accepts (r_star r_space) y" "accepts NUM_RE w"
      "v = x @ [47] @ y @ w"
      unfolding r_seq.simps accepts.simps(2,3) by blast
    then have "spaces x" "spaces y" "measure_text w" "v = x @ 47 # y @ w"
      using accepts_spaces accepts_NUM by (simp_all del: accepts.simps)
    then show ?thesis by blast
  qed
  then have "\<forall>tok \<in> set (split_char 47 ([] @ w @ concat vs)). measure_text (py_strip tok)"
    by (intro slash_list) (use w accepts_NUM in \<open>auto simp: spaces_def\<close>)
  with assms(2) w(1) vs(1) show ?thesis by simp
qed

section \<open>The parsers return\<close>

lemma map_err_total: "(\<And>x. x \<in> set xs \<Longrightarrow> \<exists>y. f x = Inr y) \<Longrightarrow> \<exists>ys. map_err f xs = Inr ys"
proof (induction xs)
  case (Cons x xs)
  then obtain y ys where "f x = Inr y" "map_err f xs = Inr ys" by (metis list.set_intros)
  then show ?case by simp
qed simp

lemma temp_total: "\<exists>t. captured prose_decimal TEMP_RE s = Inr t"
proof (cases "rx_search TEMP_RE s")
  case (Some m)
  then obtain v where "prose_decimal (group m 1) = Inr v" using TEMP_captures prose_decimal_measure by blast
  with Some show ?thesis by (simp add: captured_def)
qed (simp add: captured_def)

lemma lanes_total: "\<exists>n. captured py_int LANES_RE s = Inr n"
  using LANES_captures py_int_numeral by (auto simp: captured_def split: option.splits)

lemma platforms_total: "\<exists>ps. diving_platforms_of s = Inr ps"
proof (cases "rx_search PLATFORM_RE s")
  case (Some m)
  have "\<exists>ps. map_err (\<lambda>tok. prose_decimal (py_strip tok)) (split_char 47 (group m 1)) = Inr ps"
    using PLATFORM_captures [OF Some] prose_decimal_measure by (intro map_err_total) blast
  with Some show ?thesis by (simp add: diving_platforms_of_def)
qed (simp add: diving_platforms_of_def)

lemma dimensions_total: "\<exists>d. dimensions_of s = Inr d"
proof (cases "rx_search DIMENSIONS_RE s")
  case (Some m)
  then obtain a b where "prose_decimal (group m 1) = Inr a" "prose_decimal (group m 2) = Inr b"
    using DIMENSIONS_captures prose_decimal_measure by blast
  with Some show ?thesis by (simp add: dimensions_of_def)
next
  case no_area: None
  show ?thesis
  proof (cases "rx_search LENGTH_RE s")
    case (Some m)
    then obtain a where "prose_decimal (group m 1) = Inr a" using LENGTH_captures prose_decimal_measure by blast
    with Some no_area show ?thesis by (simp add: dimensions_of_def)
  qed (simp add: dimensions_of_def no_area)
qed

definition basin_segment :: "pystr \<Rightarrow> bool" where
  "basin_segment s \<longleftrightarrow> contains (u ''becken'') (py_lower s)"

definition amenity_segment :: "pystr \<Rightarrow> bool" where
  "amenity_segment s \<longleftrightarrow> \<not> basin_segment s \<and> (\<exists>(keyword, k, label) \<in> set FEATURE_KEYWORDS. contains keyword (py_lower s))"

lemma parse_segment_cases:
  "if basin_segment s then \<exists>p. parse_segment s = Inr (Some p) \<and> pp_raw p = s else parse_segment s = Inr None"
proof -
  obtain ps d n t where "diving_platforms_of s = Inr ps" "dimensions_of s = Inr d"
    "captured py_int LANES_RE s = Inr n" "captured prose_decimal TEMP_RE s = Inr t"
    using platforms_total dimensions_total lanes_total temp_total by metis
  then show ?thesis by (simp add: parse_segment_def basin_segment_def Let_def)
qed

lemma feature_for_cases:
  "if amenity_segment s then \<exists>f. feature_for s = Inr (Some f) \<and> ft_note f = s else feature_for s = Inr None"
proof -
  obtain t where t: "captured prose_decimal TEMP_RE s = Inr t" using temp_total by blast
  show ?thesis
  proof (cases "find (\<lambda>(keyword, k, label). contains keyword (py_lower s)) FEATURE_KEYWORDS")
    case None
    then have "\<not> amenity_segment s" by (auto simp: amenity_segment_def find_None_iff_all)
    with None show ?thesis by (simp add: feature_for_def Let_def)
  next
    case (Some x)
    obtain kw k label where x: "x = (kw, k, label)" by (cases x) auto
    with find_SomeD [OF Some] have "amenity_segment s \<longleftrightarrow> \<not> basin_segment s" by (auto simp: amenity_segment_def)
    with t x Some show ?thesis by (simp add: feature_for_def basin_segment_def Let_def)
  qed
qed

lemma map_err_partition:
  assumes "\<And>s. if P s then \<exists>p. f s = Inr (Some p) \<and> raw p = s else f s = Inr None"
  shows "\<exists>ys. map_err f xs = Inr ys \<and> map raw (List.map_filter id ys) = filter P xs"
proof (induction xs)
  case (Cons x xs)
  then obtain ys where ys: "map_err f xs = Inr ys" "map raw (List.map_filter id ys) = filter P xs" by blast
  show ?case
  proof (cases "P x")
    case True
    then obtain p where "f x = Inr (Some p)" "raw p = x" using assms [of x] by auto
    with ys True show ?thesis by (simp add: List.map_filter_simps id_def)
  next
    case False
    then have "f x = Inr None" using assms [of x] by simp
    with ys False show ?thesis by (simp add: List.map_filter_simps id_def)
  qed
qed (simp add: List.map_filter_simps)

lemma parse_infrastruktur_spec:
  "\<exists>ps. parse_infrastruktur t = Inr ps \<and> map pp_raw ps = filter basin_segment (prose_segments t)"
  using map_err_partition [of basin_segment parse_segment pp_raw "prose_segments t", OF parse_segment_cases]
  by (auto simp: parse_infrastruktur_def)

lemma parse_features_spec:
  "\<exists>fs. parse_features t = Inr fs \<and> map ft_note fs = filter amenity_segment (prose_segments t)"
  using map_err_partition [of amenity_segment feature_for ft_note "prose_segments t", OF feature_for_cases]
  by (auto simp: parse_features_def)

text \<open>
  The prose parsers are total on every text: what their patterns capture always is a number,
  so no \<open>Decimal\<close> or \<open>int\<close> call raises. The segments read as basins are, in order,
  those that name a basin; the amenities are, in order, segments that do not.
\<close>

theorem prose_is_read_without_errors:
  "\<exists>ps fs. parse_infrastruktur t = Inr ps \<and> parse_features t = Inr fs \<and>
     map pp_raw ps = filter basin_segment (prose_segments t) \<and>
     map ft_note fs = filter amenity_segment (prose_segments t) \<and>
     set (map pp_raw ps) \<inter> set (map ft_note fs) = {}"
proof -
  obtain ps where ps: "parse_infrastruktur t = Inr ps" "map pp_raw ps = filter basin_segment (prose_segments t)"
    using parse_infrastruktur_spec by blast
  obtain fs where fs: "parse_features t = Inr fs" "map ft_note fs = filter amenity_segment (prose_segments t)"
    using parse_features_spec by blast
  have "set (filter basin_segment (prose_segments t)) \<inter> set (filter amenity_segment (prose_segments t)) = {}"
    by (auto simp: amenity_segment_def)
  with ps fs show ?thesis by (intro exI [of _ ps] exI [of _ fs]) (simp only: simp_thms)
qed

end
