(* ===== verification/Gold_Facts.thy ===== *)
theory Gold_Facts
  imports Build Codec_Properties Prose_Facts
begin

text \<open>
  The spine builder writes each key once and points every key at a pool it wrote, which is
  what the tables' constraints ask; what the tables then hold is what the spine says.
\<close>

section \<open>A table with a unique key\<close>

locale keyed_table =
  fixes insert_row :: "'db \<Rightarrow> 'r \<Rightarrow> py_error + 'db" and rows :: "'db \<Rightarrow> 'r list" and key :: "'r \<Rightarrow> 'k"
    and refers :: "'db \<Rightarrow> 'r \<Rightarrow> bool" and add_rows :: "'r list \<Rightarrow> 'db \<Rightarrow> 'db"
  assumes insert_row: "insert_row db r =
      (if key r \<in> key ` set (rows db) \<or> \<not> refers db r then Inl IntegrityError else Inr (add_rows [r] db))"
    and rows_add: "rows (add_rows rs db) = rows db @ rs"
    and refers_add: "refers (add_rows rs db) r = refers db r"
    and add_Nil: "add_rows [] db = db"
    and add_Cons: "add_rows rs (add_rows [r] db) = add_rows (r # rs) db"
begin

lemma insert_all:
  "fold_err insert_row rs db =
     (if distinct (map key rs) \<and> key ` set rs \<inter> key ` set (rows db) = {} \<and> (\<forall>r \<in> set rs. refers db r)
      then Inr (add_rows rs db) else Inl IntegrityError)"
proof (induction rs arbitrary: db)
  case Nil
  show ?case by (simp add: add_Nil)
next
  case (Cons r rs)
  show ?case
  proof (cases "key r \<in> key ` set (rows db) \<or> \<not> refers db r")
    case True
    then have "insert_row db r = Inl IntegrityError" by (simp add: insert_row)
    with True show ?thesis by auto
  next
    case False
    then have "insert_row db r = Inr (add_rows [r] db)" by (simp add: insert_row)
    with False Cons.IH [of "add_rows [r] db"] show ?thesis
      by (auto simp: rows_add refers_add add_Cons)
  qed
qed

end

interpretation pools: keyed_table insert_pool gd_pool pt_id "\<lambda>db t. True" "\<lambda>ts db. db\<lparr>gd_pool := gd_pool db @ ts\<rparr>"
  by unfold_locales (simp_all add: insert_pool_def)

interpretation alias_table: keyed_table insert_alias gd_alias at_norm "\<lambda>db t. at_pool_id t \<in> pt_id ` set (gd_pool db)"
  "\<lambda>ts db. db\<lparr>gd_alias := gd_alias db @ ts\<rparr>"
  by unfold_locales (simp_all add: insert_alias_def)

interpretation xref_table: keyed_table insert_xref gd_xref "\<lambda>x. (xt_namespace x, xt_ext_id x)"
  "\<lambda>db t. xt_pool_id t \<in> pt_id ` set (gd_pool db)" "\<lambda>ts db. db\<lparr>gd_xref := gd_xref db @ ts\<rparr>"
  by unfold_locales (simp_all add: insert_xref_def)

interpretation freshness_table: keyed_table insert_freshness gd_freshness ftt_source "\<lambda>db t. True"
  "\<lambda>ts db. db\<lparr>gd_freshness := gd_freshness db @ ts\<rparr>"
  by unfold_locales (simp_all add: insert_freshness_def)

section \<open>What the store accepts\<close>

definition spine_ok :: "pool_spine \<Rightarrow> bool" where
  "spine_ok sp \<longleftrightarrow>
     distinct (map pr_id (sp_pools sp)) \<and> distinct (map al_norm (sp_aliases sp)) \<and>
     distinct (map (\<lambda>x. (xr_ns x, xr_ext x)) (sp_xrefs sp)) \<and>
     al_pool_id ` set (sp_aliases sp) \<union> xr_pool_id ` set (sp_xrefs sp) \<subseteq> pr_id ` set (sp_pools sp)"

lemma write_pools_eq:
  "write_pools sp db =
     (if spine_ok sp
      then Inr (db\<lparr>gd_pool := map pool_tuple_of (sp_pools sp), gd_alias := map alias_tuple_of (sp_aliases sp),
                   gd_xref := map xref_tuple_of (sp_xrefs sp)\<rparr>)
      else Inl IntegrityError)"
proof -
  have ids: "map pt_id (map pool_tuple_of ps) = map pr_id ps" for ps by (simp add: pool_tuple_of_def)
  have norms: "map at_norm (map alias_tuple_of as) = map al_norm as" for as by (simp add: alias_tuple_of_def)
  have exts: "map (\<lambda>x. (xt_namespace x, xt_ext_id x)) (map xref_tuple_of xs) = map (\<lambda>x. (xr_ns x, xr_ext x)) xs" for xs
    by (simp add: xref_tuple_of_def)
  have id_set: "pt_id ` set (map pool_tuple_of ps) = pr_id ` set ps" for ps
    using ids [of ps] by (metis set_map)
  show ?thesis
    unfolding write_pools_def pools.insert_all ids
    by (simp add: alias_table.insert_all xref_table.insert_all delete_pools_def norms exts spine_ok_def
        pool_tuple_of_def alias_tuple_of_def xref_tuple_of_def comp_def image_image) blast
qed

section \<open>The spine builder\<close>

text \<open>A loop that emits a row for each key it has not seen.\<close>

locale emit_once =
  fixes step :: "'k list \<times> 'r list \<Rightarrow> 'x \<Rightarrow> 'k list \<times> 'r list" and key_of :: "'x \<Rightarrow> 'k"
    and row_of :: "'x \<Rightarrow> 'r" and key :: "'r \<Rightarrow> 'k"
  assumes step: "step st x = (if key_of x \<in> set (fst st) then st else (fst st @ [key_of x], snd st @ [row_of x]))"
    and key_row: "key (row_of x) = key_of x"
begin

lemma emitted:
  "fst st = map key (snd st) \<Longrightarrow> distinct (fst st) \<Longrightarrow>
   fst (foldl step st xs) = map key (snd (foldl step st xs)) \<and> distinct (fst (foldl step st xs)) \<and>
   set (snd (foldl step st xs)) \<subseteq> set (snd st) \<union> row_of ` set xs \<and>
   set (fst (foldl step st xs)) = set (fst st) \<union> key_of ` set xs"
proof (induction xs arbitrary: st)
  case (Cons x xs)
  show ?case
  proof (cases "key_of x \<in> set (fst st)")
    case True
    then have "step st x = st" by (simp add: step)
    with Cons.IH [OF Cons.prems] True show ?thesis by auto
  next
    case False
    then have s: "step st x = (fst st @ [key_of x], snd st @ [row_of x])" by (simp add: step)
    have "fst (step st x) = map key (snd (step st x))" "distinct (fst (step st x))"
      using Cons.prems False by (simp_all add: s key_row)
    from Cons.IH [OF this] show ?thesis by (auto simp: s)
  qed
qed simp

end

interpretation alias_rows: emit_once "alias_step pid" normalize
  "\<lambda>t. \<lparr>al_pool_id = pid, al_alias = t, al_norm = normalize t\<rparr>" al_norm for pid
  by unfold_locales (simp_all add: alias_step_def Let_def)

interpretation xref_rows: emit_once "xref_step pid" "\<lambda>k. k"
  "\<lambda>k. \<lparr>xr_pool_id = pid, xr_ns = fst k, xr_ext = snd k\<rparr>" "\<lambda>x. (xr_ns x, xr_ext x)" for pid
  by unfold_locales (simp_all add: xref_step_def)

text \<open>The row of a catalog entry.\<close>

definition row_for :: "models \<Rightarrow> (pool_id \<rightharpoonup> facility) \<Rightarrow> registry \<Rightarrow> pool_catalog_entry \<Rightarrow> pool_row \<Rightarrow> bool" where
  "row_for m curated reg e p \<longleftrightarrow>
     (\<exists>fac doc. spine_facility curated reg e = Inr fac \<and> facility_dumps m fac = Inr doc \<and>
        p = \<lparr>pr_id = pce_pool_id e, pr_name = pce_name e, pr_kind = spine_kind reg e, pr_address = pce_address e,
             pr_geo = pce_geo e, pr_url = pce_url e, pr_description = pce_description e,
             pr_phone = pce_phone e, pr_facility_doc = Some doc\<rparr>)"

definition spine_inv ::
  "models \<Rightarrow> (pool_id \<rightharpoonup> facility) \<Rightarrow> registry \<Rightarrow> pool_catalog_entry list \<Rightarrow> spine_state \<Rightarrow> bool" where
  "spine_inv m curated reg es st \<longleftrightarrow>
     list_all2 (row_for m curated reg) es (ss_pools st) \<and>
     fst (ss_aliases st) = map al_norm (snd (ss_aliases st)) \<and> distinct (fst (ss_aliases st)) \<and>
     fst (ss_xrefs st) = map (\<lambda>x. (xr_ns x, xr_ext x)) (snd (ss_xrefs st)) \<and> distinct (fst (ss_xrefs st)) \<and>
     al_pool_id ` set (snd (ss_aliases st)) \<union> xr_pool_id ` set (snd (ss_xrefs st)) \<subseteq> pce_pool_id ` set es \<and>
     set (fst (ss_aliases st)) = normalize ` (\<Union>e \<in> set es. set (alias_terms e (spine_identity reg e))) \<and>
     set (fst (ss_xrefs st)) = (\<Union>e \<in> set es. set (external_keys e (spine_identity reg e)))"

lemma spine_step_inv:
  assumes "spine_inv m curated reg es st" "spine_step m curated reg st e = Inr st'"
  shows "spine_inv m curated reg (es @ [e]) st'"
proof -
  obtain fac doc where f: "spine_facility curated reg e = Inr fac" "facility_dumps m fac = Inr doc"
    using assms(2) by (auto simp: spine_step_def Let_def bind_err_Inr)
  let ?ident = "spine_identity reg e"
  let ?row = "\<lparr>pr_id = pce_pool_id e, pr_name = pce_name e, pr_kind = spine_kind reg e, pr_address = pce_address e,
             pr_geo = pce_geo e, pr_url = pce_url e, pr_description = pce_description e,
             pr_phone = pce_phone e, pr_facility_doc = Some doc\<rparr>"
  have st': "st' = \<lparr>ss_pools = ss_pools st @ [?row],
      ss_aliases = foldl (alias_step (pce_pool_id e)) (ss_aliases st) (alias_terms e ?ident),
      ss_xrefs = foldl (xref_step (pce_pool_id e)) (ss_xrefs st) (external_keys e ?ident)\<rparr>"
    using assms(2) f by (simp add: spine_step_def Let_def)
  have row: "row_for m curated reg e ?row" using f by (auto simp: row_for_def)
  have inv: "list_all2 (row_for m curated reg) es (ss_pools st)"
    "fst (ss_aliases st) = map al_norm (snd (ss_aliases st))" "distinct (fst (ss_aliases st))"
    "fst (ss_xrefs st) = map (\<lambda>x. (xr_ns x, xr_ext x)) (snd (ss_xrefs st))" "distinct (fst (ss_xrefs st))"
    "al_pool_id ` set (snd (ss_aliases st)) \<union> xr_pool_id ` set (snd (ss_xrefs st)) \<subseteq> pce_pool_id ` set es"
    "set (fst (ss_aliases st)) = normalize ` (\<Union>e \<in> set es. set (alias_terms e (spine_identity reg e)))"
    "set (fst (ss_xrefs st)) = (\<Union>e \<in> set es. set (external_keys e (spine_identity reg e)))"
    using assms(1) unfolding spine_inv_def by - (elim conjE, assumption)+
  have pools: "list_all2 (row_for m curated reg) (es @ [e]) (ss_pools st @ [?row])"
    using inv(1) row by (simp add: list_all2_appendI)
  let ?a = "foldl (alias_step (pce_pool_id e)) (ss_aliases st) (alias_terms e ?ident)"
  let ?x = "foldl (xref_step (pce_pool_id e)) (ss_xrefs st) (external_keys e ?ident)"
  note a = alias_rows.emitted [OF inv(2,3), of "pce_pool_id e" "alias_terms e ?ident"]
  note x = xref_rows.emitted [OF inv(4,5), of "pce_pool_id e" "external_keys e ?ident"]
  have "al_pool_id ` set (snd ?a) \<subseteq> insert (pce_pool_id e) (al_pool_id ` set (snd (ss_aliases st)))"
    "xr_pool_id ` set (snd ?x) \<subseteq> insert (pce_pool_id e) (xr_pool_id ` set (snd (ss_xrefs st)))"
    using a x by fastforce+
  then have refs: "al_pool_id ` set (snd ?a) \<union> xr_pool_id ` set (snd ?x) \<subseteq> pce_pool_id ` set (es @ [e])"
    using inv(6) unfolding set_append image_Un list.set image_insert image_empty by blast
  have keys: "set (fst ?a) = normalize ` (\<Union>e \<in> set (es @ [e]). set (alias_terms e (spine_identity reg e)))"
    "set (fst ?x) = (\<Union>e \<in> set (es @ [e]). set (external_keys e (spine_identity reg e)))"
  proof -
    have "set (fst ?a) = set (fst (ss_aliases st)) \<union> normalize ` set (alias_terms e ?ident)"
      "set (fst ?x) = set (fst (ss_xrefs st)) \<union> (\<lambda>k. k) ` set (external_keys e ?ident)"
      using a x by - (elim conjE, assumption)+
    then show "set (fst ?a) = normalize ` (\<Union>e \<in> set (es @ [e]). set (alias_terms e (spine_identity reg e)))"
      "set (fst ?x) = (\<Union>e \<in> set (es @ [e]). set (external_keys e (spine_identity reg e)))"
      unfolding inv(7,8) by auto
  qed
  show ?thesis unfolding spine_inv_def st' spine_state.simps
    using pools a x refs keys by (intro conjI) (elim conjE, assumption)+
qed

lemma spine_fold_inv:
  "fold_err (spine_step m curated reg) new st = Inr st' \<Longrightarrow> spine_inv m curated reg es st \<Longrightarrow>
   spine_inv m curated reg (es @ new) st'"
proof (induction new arbitrary: es st)
  case (Cons e new)
  then obtain t where "spine_step m curated reg st e = Inr t" "fold_err (spine_step m curated reg) new t = Inr st'"
    by (auto simp: bind_err_Inr)
  with Cons.IH [of t "es @ [e]"] spine_step_inv [OF Cons.prems(2)] show ?case by simp
qed simp

lemma spine_step_total:
  assumes "spine_facility curated reg e = Inr fac" "facility_dumps m fac = Inr doc"
  shows "\<exists>st'. spine_step m curated reg st e = Inr st'"
  using assms by (simp add: spine_step_def Let_def)

lemma build_spine_inv:
  assumes "build_spine m catalog fs reg = Inr sp"
  shows "\<exists>st. spine_inv m (curated_by_id fs) reg (sort_key pce_pool_id catalog) st \<and>
    sp = \<lparr>sp_pools = ss_pools st, sp_aliases = snd (ss_aliases st), sp_xrefs = snd (ss_xrefs st)\<rparr>"
proof -
  let ?st0 = "\<lparr>ss_pools = [], ss_aliases = ([], []), ss_xrefs = ([], [])\<rparr>"
  obtain st where st: "fold_err (spine_step m (curated_by_id fs) reg) (sort_key pce_pool_id catalog) ?st0 = Inr st"
    "sp = \<lparr>sp_pools = ss_pools st, sp_aliases = snd (ss_aliases st), sp_xrefs = snd (ss_xrefs st)\<rparr>"
    using assms by (auto simp: build_spine_def bind_err_Inr)
  have "spine_inv m (curated_by_id fs) reg [] ?st0" by (simp add: spine_inv_def)
  from spine_fold_inv [OF st(1) this] st(2) show ?thesis by auto
qed

lemma row_for_id: "list_all2 (row_for m curated reg) es ps \<Longrightarrow> map pr_id ps = map pce_pool_id es"
  by (induction rule: list_all2_induct) (auto simp: row_for_def)

definition built_from ::
  "models \<Rightarrow> (pool_id \<rightharpoonup> facility) \<Rightarrow> registry \<Rightarrow> pool_catalog_entry list \<Rightarrow> pool_spine \<Rightarrow> bool" where
  "built_from m curated reg es sp \<longleftrightarrow>
     list_all2 (row_for m curated reg) es (sp_pools sp) \<and> map pr_id (sp_pools sp) = map pce_pool_id es \<and>
     distinct (map al_norm (sp_aliases sp)) \<and> distinct (map (\<lambda>x. (xr_ns x, xr_ext x)) (sp_xrefs sp)) \<and>
     al_pool_id ` set (sp_aliases sp) \<union> xr_pool_id ` set (sp_xrefs sp) \<subseteq> pr_id ` set (sp_pools sp) \<and>
     al_norm ` set (sp_aliases sp) = normalize ` (\<Union>e \<in> set es. set (alias_terms e (spine_identity reg e))) \<and>
     (\<lambda>x. (xr_ns x, xr_ext x)) ` set (sp_xrefs sp) = (\<Union>e \<in> set es. set (external_keys e (spine_identity reg e)))"

lemma build_spine_built:
  assumes "build_spine m catalog fs reg = Inr sp"
  shows "built_from m (curated_by_id fs) reg (sort_key pce_pool_id catalog) sp"
proof -
  obtain st where inv: "spine_inv m (curated_by_id fs) reg (sort_key pce_pool_id catalog) st"
    and sp: "sp = \<lparr>sp_pools = ss_pools st, sp_aliases = snd (ss_aliases st), sp_xrefs = snd (ss_xrefs st)\<rparr>"
    using build_spine_inv [OF assms] by blast
  have ids: "map pr_id (ss_pools st) = map pce_pool_id (sort_key pce_pool_id catalog)"
    by (rule row_for_id [of m "curated_by_id fs" reg]) (rule inv [unfolded spine_inv_def, THEN conjunct1])
  then have id_set: "pr_id ` set (ss_pools st) = pce_pool_id ` set (sort_key pce_pool_id catalog)"
    by (metis set_map)
  from inv have facts: "list_all2 (row_for m (curated_by_id fs) reg) (sort_key pce_pool_id catalog) (ss_pools st)"
    "fst (ss_aliases st) = map al_norm (snd (ss_aliases st))" "distinct (fst (ss_aliases st))"
    "fst (ss_xrefs st) = map (\<lambda>x. (xr_ns x, xr_ext x)) (snd (ss_xrefs st))" "distinct (fst (ss_xrefs st))"
    "al_pool_id ` set (snd (ss_aliases st)) \<union> xr_pool_id ` set (snd (ss_xrefs st)) \<subseteq> pce_pool_id ` set (sort_key pce_pool_id catalog)"
    "set (fst (ss_aliases st)) = normalize ` (\<Union>e \<in> set (sort_key pce_pool_id catalog). set (alias_terms e (spine_identity reg e)))"
    "set (fst (ss_xrefs st)) = (\<Union>e \<in> set (sort_key pce_pool_id catalog). set (external_keys e (spine_identity reg e)))"
    unfolding spine_inv_def by - (elim conjE, assumption)+
  show ?thesis unfolding built_from_def sp pool_spine.simps
    by (intro conjI)
      (rule facts(1) ids facts(3) [unfolded facts(2)] facts(5) [unfolded facts(4)] facts(6) [folded id_set]
        facts(7) [unfolded facts(2) set_map] facts(8) [unfolded facts(4) set_map])+
qed

text \<open>Reading a table with distinct keys as a dictionary gives the row of a key.\<close>

lemma map_of_rev_distinct: "distinct (map fst xs) \<Longrightarrow> map_of (rev xs) = map_of xs"
  by (rule map_of_inject_set [THEN iffD2]) (simp_all add: rev_map [symmetric])

lemma crosswalk_round_trip:
  "gd_alias db = map alias_tuple_of (sp_aliases sp) \<Longrightarrow> gd_xref db = map xref_tuple_of (sp_xrefs sp) \<Longrightarrow>
   crosswalk_from_rows (load_alias_rows db) (load_xref_rows db) = build_crosswalk sp"
  by (simp add: crosswalk_from_rows_def load_alias_rows_def load_xref_rows_def build_crosswalk_def
      alias_tuple_of_def xref_tuple_of_def comp_def)

lemma build_crosswalk_alias:
  assumes "distinct (map al_norm (sp_aliases sp))"
  shows "cw_alias (build_crosswalk sp) k = Some p \<longleftrightarrow> (\<exists>a \<in> set (sp_aliases sp). al_norm a = k \<and> al_pool_id a = p)"
proof -
  let ?xs = "map (\<lambda>a. (al_norm a, al_pool_id a)) (sp_aliases sp)"
  have d: "distinct (map fst ?xs)" using assms by (simp add: comp_def)
  have "cw_alias (build_crosswalk sp) = map_of ?xs"
    unfolding build_crosswalk_def crosswalk.simps by (rule map_of_rev_distinct [OF d])
  with map_of_eq_Some_iff [OF d] show ?thesis by auto
qed

end
