(* ===== verification/Gold_Properties.thy ===== *)
theory Gold_Properties
  imports Gold_Facts Query_Facts Roster_Properties
begin

text \<open>
  The build from end to end: what the spine holds, what the store accepts, what it serves; the
  prose never overwrites what an author wrote; the curated directory is loaded all or nothing.
\<close>

section \<open>Layering the blobs\<close>

lemma update_docs:
  "foldl update_doc db rows =
     db\<lparr>gd_pool := map (\<lambda>t. case map_of (rev rows) (pt_id t) of Some d \<Rightarrow> t\<lparr>pt_doc := Some d\<rparr> | None \<Rightarrow> t) (gd_pool db)\<rparr>"
proof (induction rows arbitrary: db)
  case (Cons x rows)
  let ?g = "\<lambda>t. if pt_id t = fst x then t\<lparr>pt_doc := Some (snd x)\<rparr> else t"
  let ?f = "\<lambda>rows t. case map_of (rev rows) (pt_id t) of Some d \<Rightarrow> t\<lparr>pt_doc := Some d\<rparr> | None \<Rightarrow> t"
  have "?f rows (?g t) = ?f (x # rows) t" for t
    by (cases x) (auto simp: map_add_def split: option.splits)
  then have "?f rows \<circ> ?g = ?f (x # rows)" by (intro ext) (simp only: comp_apply)
  then have "map (?f rows) (map ?g (gd_pool db)) = map (?f (x # rows)) (gd_pool db)"
    unfolding map_map by (rule arg_cong [of _ _ "\<lambda>h. map h (gd_pool db)"])
  then show ?case unfolding foldl.simps Cons.IH by (simp add: update_doc_def)
qed simp

definition stored_tuple :: "pool_row \<Rightarrow> pool_tuple" where
  "stored_tuple p = (pool_tuple_of p)\<lparr>pt_doc := pr_facility_doc p\<rparr>"

lemma layered:
  assumes "distinct (map pr_id ps)" "\<forall>p \<in> set ps. pr_facility_doc p \<noteq> None"
  shows "map (\<lambda>t. case map_of (rev (map (\<lambda>p. (pr_id p, the (pr_facility_doc p))) ps)) (pt_id t) of
            Some d \<Rightarrow> t\<lparr>pt_doc := Some d\<rparr> | None \<Rightarrow> t) (map pool_tuple_of ps) = map stored_tuple ps"
proof -
  let ?rows = "map (\<lambda>p. (pr_id p, the (pr_facility_doc p))) ps"
  have d: "distinct (map fst ?rows)" using assms(1) by (simp add: comp_def)
  have "map_of (rev ?rows) (pr_id p) = Some (the (pr_facility_doc p))" if "p \<in> set ps" for p
    unfolding map_of_rev_distinct [OF d] by (rule map_of_is_SomeI [OF d]) (use that in auto)
  then show ?thesis using assms(2) by (auto simp: stored_tuple_def pool_tuple_of_def)
qed

section \<open>Results\<close>

text \<open>
  The gold store refuses an ambiguous spine: \<open>write_pools\<close> succeeds exactly when no two
  pools share an id, no two aliases a normalised name, no two external keys a namespace and id, and
  every key points at a pool of the spine; otherwise it raises and nothing is committed.
\<close>

theorem store_accepts_iff_unambiguous:
  "(\<exists>db'. write_pools sp db = Inr db') \<longleftrightarrow>
     distinct (map pr_id (sp_pools sp)) \<and> distinct (map al_norm (sp_aliases sp)) \<and>
     distinct (map (\<lambda>x. (xr_ns x, xr_ext x)) (sp_xrefs sp)) \<and>
     al_pool_id ` set (sp_aliases sp) \<union> xr_pool_id ` set (sp_xrefs sp) \<subseteq> pr_id ` set (sp_pools sp)"
  by (simp add: write_pools_eq spine_ok_def)


text \<open>What the domain's constructors guarantee of every facility of the spine.\<close>

definition servable :: "models \<Rightarrow> (pool_id \<rightharpoonup> facility) \<Rightarrow> registry \<Rightarrow> pool_catalog_entry list \<Rightarrow> bool" where
  "servable m curated reg catalog \<longleftrightarrow>
     (\<forall>e \<in> set catalog. \<forall>f. spine_facility curated reg e = Inr f \<longrightarrow> storable f \<and> facility_reads_back m f)"

lemma served_docs:
  assumes "list_all2 (row_for m curated reg) es ps" "servable m curated reg es"
  shows "\<exists>facs. map_err (spine_facility curated reg) es = Inr facs \<and>
    list_all2 (\<lambda>f p. \<exists>doc. pr_facility_doc p = Some doc \<and> facility_dumps m f = Inr doc \<and> facility_loads m doc = Inr f) facs ps"
  using assms
proof (induction es ps rule: list_all2_induct)
  case (Cons e es p ps)
  then obtain facs where facs: "map_err (spine_facility curated reg) es = Inr facs"
    "list_all2 (\<lambda>f p. \<exists>doc. pr_facility_doc p = Some doc \<and> facility_dumps m f = Inr doc \<and> facility_loads m doc = Inr f) facs ps"
    by (auto simp: servable_def)
  obtain fac doc where f: "spine_facility curated reg e = Inr fac" "facility_dumps m fac = Inr doc" "pr_facility_doc p = Some doc"
    using Cons.hyps(1) by (auto simp: row_for_def)
  with Cons.prems have "storable fac" "facility_reads_back m fac" by (auto simp: servable_def)
  from facility_doc [OF this] f(2) have "facility_loads m doc = Inr fac" by auto
  with f facs show ?case by auto
qed simp

lemma keyed_docs:
  assumes "list_all2 (\<lambda>f p. \<exists>doc. pr_facility_doc p = Some doc \<and> facility_dumps m f = Inr doc \<and> facility_loads m doc = Inr f) facs ps"
  shows "map_err (\<lambda>(pid, doc). bind_err (facility_loads m doc) (\<lambda>f. Inr (pid, f)))
        (List.map_filter (\<lambda>p. map_option (Pair (pr_id p)) (pr_facility_doc p)) ps) = Inr (zip (map pr_id ps) facs)"
    "map_err (\<lambda>(pid, fac). bind_err (facility_dumps m fac) (\<lambda>doc. Inr (pid, doc))) (zip (map pr_id ps) facs) =
       Inr (map (\<lambda>p. (pr_id p, the (pr_facility_doc p))) ps)"
    "\<forall>p \<in> set ps. pr_facility_doc p \<noteq> None"
    "map_err (facility_loads m) (List.map_filter pr_facility_doc ps) = Inr facs"
  using assms by (induction facs ps rule: list_all2_induct) (auto simp: map_filter_simps)

text \<open>Reading the layered table.\<close>

lemma stored_fields: "pt_id (stored_tuple p) = pr_id p" "pt_doc (stored_tuple p) = pr_facility_doc p"
  by (simp_all add: stored_tuple_def pool_tuple_of_def)

lemma stored_sorted:
  assumes "sorted (map pr_id ps)"
  shows "sort_key pt_id (map stored_tuple ps) = map stored_tuple ps"
  by (rule sort_key_id_if_sorted) (use assms in \<open>simp add: comp_def stored_fields\<close>)

lemma find_stored:
  assumes "distinct (map pr_id ps)" "p \<in> set ps" "pr_facility_doc p \<noteq> None"
  shows "find (\<lambda>t. pt_id t = pr_id p \<and> pt_doc t \<noteq> None) (map stored_tuple ps) = Some (stored_tuple p)"
  using assms
proof (induction ps)
  case (Cons q ps)
  show ?case
  proof (cases "p = q")
    case True
    with Cons.prems(3) show ?thesis by (simp add: stored_fields)
  next
    case False
    with Cons.prems have "pr_id q \<noteq> pr_id p" by auto
    with Cons False show ?thesis by (simp add: stored_fields)
  qed
qed simp

lemma gets_stored:
  assumes "distinct (map pr_id ps)" "gd_pool db = map stored_tuple ps"
    "list_all2 (\<lambda>f p. \<exists>doc. pr_facility_doc p = Some doc \<and> facility_dumps m f = Inr doc \<and> facility_loads m doc = Inr f) facs ps"
  shows "map_err (gold_get m db) (map pr_id ps) = Inr (map Some facs)"
proof -
  have "gold_get m db (pr_id p) = Inr (Some f)"
    if "p \<in> set ps" "pr_facility_doc p = Some doc" "facility_loads m doc = Inr f" for p f doc
    using find_stored [OF assms(1) that(1)] that by (simp add: gold_get_def assms(2) stored_fields)
  then have "list_all2 (\<lambda>p f. gold_get m db (pr_id p) = Inr (Some f)) ps facs"
    using assms(3) by (fastforce simp: list_all2_conv_all_nth)
  then show ?thesis by (simp add: map_err_Inr list_all2_map1 list_all2_map2)
qed

lemma kind_of_value: "dict_at KIND_FROM (pool_kind_value k) = Inr k"
  by (cases k) (simp_all add: table_simps KIND_FROM_def)

lemma roster_stored:
  assumes "pr_facility_doc p = Some doc" "facility_loads m doc = Inr f"
  shows "\<exists>r. roster_entry_of m (stored_tuple p) = Inr r \<and> pce_pool_id (re_entry r) = pr_id p \<and> re_freshness r = freshness_of f"
  using assms
  by (simp add: roster_entry_of_def catalog_entry_of_def kind_of_value schedule_freshness_of_doc_def
      stored_tuple_def pool_tuple_of_def Let_def)

lemma rosters_stored:
  assumes "list_all2 (\<lambda>f p. \<exists>doc. pr_facility_doc p = Some doc \<and> facility_dumps m f = Inr doc \<and> facility_loads m doc = Inr f) facs ps"
  shows "\<exists>rs. map_err (roster_entry_of m) (map stored_tuple ps) = Inr rs \<and>
    map (pce_pool_id \<circ> re_entry) rs = map pr_id ps \<and> map re_freshness rs = map freshness_of facs"
  using assms
proof (induction facs ps rule: list_all2_induct)
  case (Cons f facs p ps)
  then obtain doc rs where "pr_facility_doc p = Some doc" "facility_loads m doc = Inr f"
    and rs: "map_err (roster_entry_of m) (map stored_tuple ps) = Inr rs"
    "map (pce_pool_id \<circ> re_entry) rs = map pr_id ps" "map re_freshness rs = map freshness_of facs" by blast
  from roster_stored [OF this(1,2)] obtain r where
    "roster_entry_of m (stored_tuple p) = Inr r" "pce_pool_id (re_entry r) = pr_id p" "re_freshness r = freshness_of f" by blast
  with rs show ?case by (intro exI [of _ "r # rs"]) (simp add: comp_def)
qed simp

text \<open>
  C38: The gold store serves what the spine says, whatever it held before. With distinct pool ids the
  curated build cannot fail on a constraint; then every pool's facility is read back, by id and in id
  order, the derived curation state of the roster is that of the facility, and the crosswalk read
  from the tables is the crosswalk of the spine.
\<close>

theorem store_serves_the_spine:
  assumes "build_spine m catalog fs reg = Inr (cas_spine a)" "distinct (map pce_pool_id catalog)"
    "servable m (curated_by_id fs) reg catalog"
  shows "\<exists>facs db printed roster.
    map_err (spine_facility (curated_by_id fs) reg) (sort_key pce_pool_id catalog) = Inr facs \<and>
    write_curated_store srepr m a db0 = Inr (db, printed) \<and> gold_load_all m db = Inr facs \<and>
    map_err (gold_get m db) (sort (map pce_pool_id catalog)) = Inr (map Some facs) \<and>
    load_roster m db = Inr roster \<and> map (pce_pool_id \<circ> re_entry) roster = sort (map pce_pool_id catalog) \<and>
    map re_freshness roster = map freshness_of facs \<and>
    crosswalk_from_rows (load_alias_rows db) (load_xref_rows db) = build_crosswalk (cas_spine a)"
proof -
  let ?sp = "cas_spine a" let ?es = "sort_key pce_pool_id catalog" let ?ps = "sp_pools ?sp"
  have b: "built_from m (curated_by_id fs) reg ?es ?sp" by (rule build_spine_built [OF assms(1)])
  have rows: "list_all2 (row_for m (curated_by_id fs) reg) ?es ?ps" and ids: "map pr_id ?ps = map pce_pool_id ?es"
    using b by (simp_all add: built_from_def)
  have es: "map pce_pool_id ?es = sort (map pce_pool_id catalog)" by (rule properties_for_sort [symmetric]) simp_all
  have dist: "distinct (map pr_id ?ps)" unfolding ids es using assms(2) by simp
  have ok: "spine_ok ?sp" using b dist by (simp add: built_from_def spine_ok_def)
  have "servable m (curated_by_id fs) reg ?es" using assms(3) by (simp add: servable_def)
  from served_docs [OF rows this] obtain facs where facs: "map_err (spine_facility (curated_by_id fs) reg) ?es = Inr facs"
    and docs: "list_all2 (\<lambda>f p. \<exists>doc. pr_facility_doc p = Some doc \<and> facility_dumps m f = Inr doc \<and> facility_loads m doc = Inr f) facs ?ps"
    by blast
  note k = keyed_docs [OF docs]
  let ?db = "db0\<lparr>gd_pool := map stored_tuple ?ps, gd_alias := map alias_tuple_of (sp_aliases ?sp),
      gd_xref := map xref_tuple_of (sp_xrefs ?sp), gd_calendar := Some (calendar_dumps m (cas_calendar a))\<rparr>"
  have "write_curated_store srepr m a db0 = Inr (?db, map (unmapped_line srepr) (unmapped_closures (cas_authored a)))"
    unfolding write_curated_store_def write_pools_eq keyed_schedules_def k(1) write_schedules_def
    by (simp add: ok k(2) update_docs layered [OF dist k(3)] write_calendar_def del: map_map)
  moreover have "crosswalk_from_rows (load_alias_rows ?db) (load_xref_rows ?db) = build_crosswalk ?sp"
    by (rule crosswalk_round_trip) simp_all
  moreover have pool: "gd_pool ?db = map stored_tuple ?ps" by simp
  have sorted: "sort_key pt_id (gd_pool ?db) = map stored_tuple ?ps"
    unfolding pool by (rule stored_sorted) (simp add: ids)
  have "gold_load_all m ?db = Inr facs"
    unfolding gold_load_all_def sorted using k(4) by (simp add: List.map_filter_def stored_fields filter_map comp_def)
  moreover have "map_err (gold_get m ?db) (sort (map pce_pool_id catalog)) = Inr (map Some facs)"
    unfolding es [symmetric] ids [symmetric] by (rule gets_stored [OF dist pool docs])
  moreover obtain rs where "load_roster m ?db = Inr rs"
    "map (pce_pool_id \<circ> re_entry) rs = map pr_id ?ps" "map re_freshness rs = map freshness_of facs"
    using rosters_stored [OF docs] unfolding load_roster_def sorted by blast
  ultimately show ?thesis using facs ids es by (intro exI conjI) (assumption | simp only:)+
qed

section \<open>A concrete store\<close>

definition ex_pin :: pool_catalog_entry where
  "ex_pin = \<lparr>pce_pool_id = u ''p'', pce_name = u ''P'', pce_kind = OUTDOOR_POOL, pce_address = [], pce_geo = None,
     pce_url = None, pce_description = None, pce_phone = None, pce_poi_id = None\<rparr>"

definition ex_pin_facility :: facility where
  "ex_pin_facility =
     \<lparr>identity = \<lparr>facility_id = u ''p'', pid_name = u ''P'', pid_kind = OUTDOOR_POOL, geo_sport_id = None,
        crowdmonitor_keys = [], baditicker_poiid = None, aliases = []\<rparr>, address = [],
      provenance_of = \<lparr>pv_source = LOCATION_SOURCE, pv_curated = False, pv_valid_as_of = None, pv_fetched_at = None\<rparr>,
      basins = [], geo = None, closures = [], public_holiday_policy = None, operating_season = None,
      admission_of = Unknown, notices = [], features = [], lockers = [], rentals = [], last_admission_before = None\<rparr>"

definition ex_gold_models :: models where
  "ex_gold_models = ex_models\<lparr>validate_stored := (\<lambda>_. to_stored ex_pin_facility)\<rparr>"

lemma ex_pin_facility: "spine_facility (curated_by_id []) empty_registry ex_pin = Inr ex_pin_facility"
  by (simp add: spine_facility_def curated_by_id_def location_only_facility_def ex_pin_def ex_pin_facility_def
      spine_kind_def spine_identity_def registry_get_def empty_registry_def Let_def)

lemma ex_pin_servable: "servable ex_gold_models (curated_by_id []) empty_registry [ex_pin]"
  by (auto simp: servable_def ex_pin_facility storable_def facility_reads_back_def reads_back_def ex_gold_models_def
      ex_models_def ex_pin_facility_def)

lemma ex_pin_doc: "\<exists>doc. facility_dumps ex_gold_models ex_pin_facility = Inr doc"
proof -
  have "storable ex_pin_facility" by (simp add: storable_def ex_pin_facility_def)
  then obtain d where "to_stored ex_pin_facility = Inr d" using facility_wire.there_and_back by blast
  then show ?thesis by (simp add: facility_dumps_def)
qed

lemma ex_spine: "\<exists>sp. build_spine ex_gold_models [ex_pin] [] empty_registry = Inr sp"
proof -
  obtain doc where "facility_dumps ex_gold_models ex_pin_facility = Inr doc" using ex_pin_doc by blast
  from spine_step_total [OF ex_pin_facility this] obtain st where
    "spine_step ex_gold_models (curated_by_id []) empty_registry \<lparr>ss_pools = [], ss_aliases = ([], []), ss_xrefs = ([], [])\<rparr> ex_pin = Inr st"
    by blast
  then show ?thesis by (simp add: build_spine_def)
qed


theorem store_serves_the_spine_witness:
  "\<exists>a db printed. write_curated_store (\<lambda>s. s) ex_gold_models a empty_db = Inr (db, printed) \<and>
     gold_load_all ex_gold_models db = Inr [ex_pin_facility] \<and>
     map_err (gold_get ex_gold_models db) [u ''p''] = Inr [Some ex_pin_facility]"
proof -
  obtain sp where sp: "build_spine ex_gold_models [ex_pin] [] empty_registry = Inr sp" using ex_spine by blast
  let ?a = "\<lparr>cas_spine = sp, cas_calendar = build_calendar \<lparr>cad_known_years = [], cad_public_holidays = [], cad_school_holidays = []\<rparr>,
      cas_authored = []\<rparr>"
  have "build_spine ex_gold_models [ex_pin] [] empty_registry = Inr (cas_spine ?a)" using sp by simp
  from store_serves_the_spine [OF this _ ex_pin_servable, of "\<lambda>s. s" empty_db] show ?thesis
    by (auto simp: ex_pin_facility) (auto simp: ex_pin_def)
qed

section \<open>Prose and authored physicals\<close>

definition enriched :: "(pystr \<rightharpoonup> parsed_basin_physical) \<Rightarrow> basin \<Rightarrow> basin" where
  "enriched physicals b =
     (case (if needs_physicals b then match_physical b physicals else None) of
        Some p \<Rightarrow> apply_physicals b p | None \<Rightarrow> b)"

lemma enrich_fold:
  "snd (foldl (enrich_step ph) st bs) = snd st @ map (enriched ph) bs \<and>
   (\<not> fst (foldl (enrich_step ph) st bs) \<longrightarrow> \<not> fst st \<and> map (enriched ph) bs = bs)"
proof (induction bs arbitrary: st)
  case (Cons b bs)
  have step: "snd (enrich_step ph st b) = snd st @ [enriched ph b]"
    "\<not> fst (enrich_step ph st b) \<longrightarrow> \<not> fst st \<and> enriched ph b = b"
    by (auto simp: enrich_step_def enriched_def split: option.splits)
  from Cons.IH [of "enrich_step ph st b"] step show ?case by auto
qed simp

lemma apply_prose_eq:
  "\<exists>ph. apply_prose_physicals fac prose = Inr (fac\<lparr>basins := map (enriched ph) (basins fac)\<rparr>)"
proof -
  have none: "map (enriched Map.empty) bs = bs" for bs
    by (rule map_idI) (simp add: enriched_def match_physical_def)
  show ?thesis
  proof (cases prose)
    case None
    then show ?thesis by (intro exI [of _ Map.empty]) (simp add: apply_prose_physicals_def none)
  next
    case (Some t)
    obtain ps where ps: "parse_infrastruktur t = Inr ps" using parse_infrastruktur_spec by blast
    show ?thesis
    proof (cases "ps = []")
      case True
      with Some ps show ?thesis by (intro exI [of _ Map.empty]) (simp add: apply_prose_physicals_def none)
    next
      case False
      obtain c bs where f: "foldl (enrich_step (physicals_by_name ps)) (False, []) (basins fac) = (c, bs)" by (cases "foldl (enrich_step (physicals_by_name ps)) (False, []) (basins fac)") auto
      with enrich_fold [of "physicals_by_name ps" "(False, [])" "basins fac"]
      have "bs = map (enriched (physicals_by_name ps)) (basins fac)" "\<not> c \<longrightarrow> bs = basins fac" by auto
      with Some ps False f show ?thesis
        by (intro exI [of _ "physicals_by_name ps"]) (auto simp: apply_prose_physicals_def)
    qed
  qed
qed

text \<open>
  Prose fills blanks and overwrites nothing: enriching a curated facility never fails, keeps its
  basins and their order, and changes only basins that carry no authored physicals, only in their
  physical facts, and marks each as parsed from prose.
\<close>

theorem prose_fills_only_blank_basins:
  "\<exists>bs. apply_prose_physicals fac prose = Inr (fac\<lparr>basins := bs\<rparr>) \<and>
     list_all2 (\<lambda>b b'. b' = b \<or> needs_physicals b \<and> physical_source b' = PARSED_PROSE \<and>
       (\<exists>k d n t ds. b' = b\<lparr>bn_kind := k, bn_dimensions := d, bn_lanes := n, nominal_temp_c := t,
          diving_platforms_m := ds, physical_source := PARSED_PROSE\<rparr>)) (basins fac) bs"
proof -
  obtain ph where "apply_prose_physicals fac prose = Inr (fac\<lparr>basins := map (enriched ph) (basins fac)\<rparr>)"
    using apply_prose_eq by blast
  moreover have "enriched ph b = b \<or> needs_physicals b \<and> physical_source (enriched ph b) = PARSED_PROSE \<and>
       (\<exists>k d n t ds. enriched ph b = b\<lparr>bn_kind := k, bn_dimensions := d, bn_lanes := n, nominal_temp_c := t,
          diving_platforms_m := ds, physical_source := PARSED_PROSE\<rparr>)" for b
  proof (cases "if needs_physicals b then match_physical b ph else None")
    case (Some p)
    then have "needs_physicals b" "enriched ph b = apply_physicals b p" by (auto simp: enriched_def split: if_splits)
    then show ?thesis unfolding apply_physicals_def by (intro disjI2 conjI exI) (assumption | simp)+
  qed (simp add: enriched_def)
  ultimately show ?thesis by (intro exI conjI) (assumption, simp add: list_all2_map2 list_all2_same)
qed

text \<open>
  A pool without a curated schedule gets a viewable facility and nothing more: minting it never
  fails, its basins are distinct, carry no rule and are marked as parsed from prose, so its derived
  state is not \<open>scraped\<close> and no query finds a swim in it.
\<close>

theorem location_only_pool_has_no_schedule:
  "\<exists>f. location_only_facility e pid kind ident = Inr f \<and> \<not> has_rules f \<and> freshness_of f \<noteq> SCRAPED \<and>
     distinct (map bn_id (basins f)) \<and> list_all (\<lambda>b. physical_source b = PARSED_PROSE \<and> bn_rules b = []) (basins f) \<and>
     facility_options q m cal occ f = []"
proof -
  obtain ps where ps: "(case pce_description e of Some prose \<Rightarrow> parse_infrastruktur prose | None \<Rightarrow> Inr []) = Inr ps"
    using parse_infrastruktur_spec by (cases "pce_description e") auto
  obtain fs where fs: "(case pce_description e of Some prose \<Rightarrow> parse_features prose | None \<Rightarrow> Inr []) = Inr fs"
    using parse_features_spec by (cases "pce_description e") auto
  obtain f where f: "location_only_facility e pid kind ident = Inr f"
    "basins f = map (\<lambda>(i, p). basin_from_physical p (pce_pool_id e @ u ''-prose-'' @ str_of_int (int i))) (enumerate 0 ps)"
    by (simp add: location_only_facility_def ps fs Let_def)
  have ruleless: "list_all (\<lambda>b. physical_source b = PARSED_PROSE \<and> bn_rules b = []) (basins f)"
    by (auto simp: f(2) list_all_iff basin_from_physical_def)
  have ids: "map bn_id (basins f) = map (\<lambda>i. pce_pool_id e @ u ''-prose-'' @ str_of_int (int i)) [0..<length ps]"
    unfolding f(2) map_map by (rule nth_equalityI) (simp_all add: basin_from_physical_def nth_enumerate_eq)
  have "distinct (map bn_id (basins f))"
    unfolding ids by (auto simp: distinct_map inj_on_def str_of_int_def dest: digits_of_inject)
  moreover have "\<not> has_rules f" using ruleless by (auto simp: has_rules_def list_all_iff)
  moreover then have "freshness_of f \<noteq> SCRAPED" by (simp add: freshness_of_def)
  ultimately show ?thesis using f(1) ruleless
    by (auto simp: facility_options_Nil_iff list_all_iff basin_days_def)
qed

section \<open>Loading the curated directory\<close>

lemma bind_exc_Inr [return_iff]: "bind_exc x f = Inr y \<longleftrightarrow> (\<exists>v. x = Inr v \<and> f v = Inr y)"
  by (cases x) (simp_all add: bind_exc_def)

lemma lifted_Inr [return_iff]: "lifted env x = Inr y \<longleftrightarrow> x = Inr y"
  by (simp add: lifted_def split: sum.split)

lemma map_facility_identity: "map_facility d i = Inr f \<Longrightarrow> identity f = i \<and> pv_curated (provenance_of f)"
  by (auto simp: map_facility_def bind_err_Inr)

lemma load_pool_file_registered:
  "load_pool_file env reg path = Inr f \<Longrightarrow> (\<exists>fid. registry_get reg fid = Some (identity f)) \<and> pv_curated (provenance_of f)"
  by (auto simp: load_pool_file_def return_iff split: option.splits dest!: map_facility_identity)

lemma load_pool_files_all:
  "load_pool_files env reg paths = Inr fs \<Longrightarrow> list_all2 (\<lambda>p f. load_pool_file env reg p = Inr f) paths fs"
  by (induction paths arbitrary: fs) (auto simp: return_iff)

lemma build_registry_inv: "build_registry env d = Inr reg \<Longrightarrow> \<exists>is. registry_inv reg is"
proof -
  assume "build_registry env d = Inr reg"
  then obtain ids where ids: "(case mk_registry ids of
         Inl e \<Rightarrow>
           if e = ValueError
           then Inl (CuratedError (SchemaMismatch CURATED_SOURCE (u ''registry: '' @ ce_exc_text env e)))
           else Inl (OtherExc e (ce_exc_text env e))
       | Inr r \<Rightarrow> Inr r) = Inr reg"
    unfolding build_registry_def bind_exc_Inr by blast
  then have "mk_registry ids = Inr reg" by (cases "mk_registry ids") (simp_all split: if_splits)
  then show ?thesis using register_all_inv [OF registry_inv_empty] by (auto simp: mk_registry_def)
qed

text \<open>
  C40: The curated directory is loaded all or nothing, and only against its registry: when the load
  succeeds there is one facility for each pool file, in file order, each marked curated, and its
  identity is the registry's entry for its own id.
\<close>

theorem curated_load_is_all_or_nothing:
  assumes "load_dataset env dir = Inr (Ok ds)"
  shows "list_all2 (\<lambda>p f. load_pool_file env (ds_registry ds) p = Inr f)
      (sort (ce_pool_files env (dir @ u ''/pools''))) (ds_facilities ds) \<and>
    (\<forall>f \<in> set (ds_facilities ds). pv_curated (provenance_of f) \<and>
       registry_get (ds_registry ds) (facility_id (identity f)) = Some (identity f))"
proof -
  obtain cal_dto reg_dto where reg: "build_registry env reg_dto = Inr (ds_registry ds)"
    and files: "load_pool_files env (ds_registry ds) (sort (ce_pool_files env (dir @ u ''/pools''))) = Inr (ds_facilities ds)"
    using assms by (auto simp: load_dataset_def load_guarded_def return_iff split: sum.splits curated_exc.splits if_splits)
  obtain "is" where inv: "registry_inv (ds_registry ds) is" using build_registry_inv [OF reg] by blast
  note all = load_pool_files_all [OF files]
  have "pv_curated (provenance_of f) \<and> registry_get (ds_registry ds) (facility_id (identity f)) = Some (identity f)"
    if "f \<in> set (ds_facilities ds)" for f
  proof -
    from all that obtain p where "load_pool_file env (ds_registry ds) p = Inr f"
      by (auto simp: list_all2_conv_all_nth in_set_conv_nth)
    from load_pool_file_registered [OF this] obtain fid where
      "registry_get (ds_registry ds) fid = Some (identity f)" "pv_curated (provenance_of f)" by blast
    with inv show ?thesis by (simp add: registry_inv_def registry_get_def)
  qed
  with all show ?thesis by blast
qed

definition ex_facility_dto :: facility_dto where
  "ex_facility_dto = \<lparr>fcd_facility_id = u ''p'', fcd_address = None, fcd_source = None, fcd_valid_as_of = None,
     fcd_geo = None, fcd_public_holiday_policy = None, fcd_prices = None, fcd_closures = [], fcd_basins = [],
     fcd_website = None, fcd_features = [], fcd_lockers = [], fcd_last_admission_before = None\<rparr>"

definition ex_curated_env :: curated_env where
  "ex_curated_env = \<lparr>ce_read = (\<lambda>_. Inr []), ce_yaml = (\<lambda>_. Inr JNull),
     ce_calendar = (\<lambda>_. Inr \<lparr>cad_known_years = [], cad_public_holidays = [], cad_school_holidays = []\<rparr>),
     ce_registry = (\<lambda>_. Inr \<lparr>rgd_facilities = [\<lparr>idd_facility_id = u ''p'', idd_name = u ''P'', idd_kind = u ''indoor'',
       idd_crowdmonitor_keys = [], idd_baditicker_poiid = None, idd_aliases = []\<rparr>]\<rparr>),
     ce_facility = (\<lambda>_. Inr ex_facility_dto), ce_pool_files = (\<lambda>_. [u ''p.yaml'']), ce_basename = (\<lambda>p. p),
     ce_repr = (\<lambda>s. s), ce_exc_text = (\<lambda>_. [])\<rparr>"

theorem curated_load_is_all_or_nothing_witness:
  "\<exists>ds f. load_dataset ex_curated_env [] = Inr (Ok ds) \<and> ds_facilities ds = [f] \<and>
     facility_id (identity f) = u ''p'' \<and> registry_get (ds_registry ds) (u ''p'') = Some (identity f)"
proof -
  have "\<exists>ds f. load_dataset ex_curated_env [] = Inr (Ok ds) \<and> ds_facilities ds = [f] \<and> facility_id (identity f) = u ''p''"
    by (simp add: load_dataset_def load_guarded_def load_yaml_def validate_def ex_curated_env_def ex_facility_dto_def
        build_registry_def identity_of_dto_def mk_registry_def register_def empty_registry_def registry_get_def
        load_pool_file_def lifted_def bind_exc_def map_facility_def reconstruct_pool_id_def table_simps KIND_FROM_def Let_def)
  then obtain ds f where ds: "load_dataset ex_curated_env [] = Inr (Ok ds)" "ds_facilities ds = [f]"
    "facility_id (identity f) = u ''p''" by blast
  from curated_load_is_all_or_nothing [OF ds(1)] ds show ?thesis by auto
qed

section \<open>Provenance rows\<close>

text \<open>
  The provenance the store keeps is the provenance it was given: headers of known sources come
  back in the fixed source order, with source, state, hash and schema equal and both time stamps the
  same instant; only the zone is now a fixed offset.
\<close>

theorem source_freshness_round_trip:
  assumes "distinct (map sh_source hs)" "sh_source ` set hs \<subseteq> set SILVER_SOURCES"
    "\<forall>h \<in> set hs. valid_datetime (rt_tzdb rt) (sh_fetched_at h) \<and> sh_schema h = SILVER_SCHEMA"
    "valid_datetime (rt_tzdb rt) built_at"
  shows "\<exists>db'. write_source_freshness rt hs built_at db = Inr db' \<and>
    load_source_freshness rt db' = Inr (map
      (\<lambda>h. \<lparr>sof_header = h\<lparr>sh_fetched_at := fix_offset (rt_tzdb rt) (sh_fetched_at h)\<rparr>,
            sof_built_at = fix_offset (rt_tzdb rt) built_at\<rparr>)
      (List.map_filter (\<lambda>s. find (\<lambda>h. sh_source h = s) hs) SILVER_SOURCES))"
proof -
  let ?rec = "\<lambda>h. \<lparr>sof_header = h\<lparr>sh_fetched_at := fix_offset (rt_tzdb rt) (sh_fetched_at h)\<rparr>,
            sof_built_at = fix_offset (rt_tzdb rt) built_at\<rparr>"
  let ?db = "db\<lparr>gd_freshness := map (freshness_tuple_of rt built_at) hs\<rparr>"
  have keys: "map ftt_source (map (freshness_tuple_of rt built_at) hs) = map sh_source hs"
    by (simp add: freshness_tuple_of_def)
  have w: "write_source_freshness rt hs built_at db = Inr ?db"
    unfolding write_source_freshness_def freshness_table.insert_all keys using assms(1) by simp
  have row: "freshness_of_tuple rt (freshness_tuple_of rt built_at h) = Inr (sh_source h, ?rec h)" if "h \<in> set hs" for h
    using assms(3,4) that
    by (cases "sh_status h") (simp_all add: freshness_of_tuple_def freshness_tuple_of_def parsed_time_def
        fromisoformat_isoformat silver_status_of_def)
  then have rows: "map_err (freshness_of_tuple rt) (gd_freshness ?db) = Inr (map (\<lambda>h. (sh_source h, ?rec h)) hs)"
    by (simp add: map_err_Inr list_all2_map1 list_all2_map2 list_all2_same)
  have d: "distinct (map fst (map (\<lambda>h. (sh_source h, ?rec h)) hs))" using assms(1) by (simp add: comp_def)
  have look: "map_of (rev (map (\<lambda>h. (sh_source h, ?rec h)) hs)) s = map_option ?rec (find (\<lambda>h. sh_source h = s) hs)" for s
    unfolding map_of_rev_distinct [OF d] by (induction hs) auto
  have none: "filter (\<lambda>(k, v). k \<notin> set SILVER_SOURCES) (map (\<lambda>h. (sh_source h, ?rec h)) hs) = []"
    using assms(2) by (auto simp: filter_empty_conv)
  have mf: "List.map_filter (\<lambda>s. map_option g (f s)) xs = map g (List.map_filter f xs)" for f :: "pystr \<Rightarrow> 'a option" and g :: "'a \<Rightarrow> 'b" and xs
    by (induction xs) (auto simp: map_filter_simps split: option.splits)
  have "load_source_freshness rt ?db = Inr (map ?rec (List.map_filter (\<lambda>s. find (\<lambda>h. sh_source h = s) hs) SILVER_SOURCES))"
    unfolding load_source_freshness_def rows bind_err_simps none look [abs_def] by (simp add: mf look)
  with w show ?thesis by blast
qed

definition ex_fresh_header :: silver_header where
  "ex_fresh_header = \<lparr>sh_source = u ''prices'', sh_fetched_at = ex_at 10, sh_status = FRESH, content_sha = [],
     sh_schema = SILVER_SCHEMA\<rparr>"

theorem source_freshness_round_trip_witness:
  "\<exists>db'. write_source_freshness ex_rt [ex_fresh_header] (ex_at 12) empty_db = Inr db' \<and>
     load_source_freshness ex_rt db' =
       Inr [\<lparr>sof_header = ex_fresh_header\<lparr>sh_fetched_at := fix_offset (rt_tzdb ex_rt) (sh_fetched_at ex_fresh_header)\<rparr>,
             sof_built_at = fix_offset (rt_tzdb ex_rt) (ex_at 12)\<rparr>]"
proof -
  have "valid_datetime (rt_tzdb ex_rt) (ex_at 10)" "valid_datetime (rt_tzdb ex_rt) (ex_at 12)"
    using ex_good_time [of 10] ex_good_time [of 12] by (simp_all add: good_time_def)
  moreover have "List.map_filter (\<lambda>s. find (\<lambda>h. sh_source h = s) [ex_fresh_header]) SILVER_SOURCES = [ex_fresh_header]"
    by (simp add: SILVER_SOURCES_def ex_fresh_header_def map_filter_simps)
  ultimately show ?thesis
    using source_freshness_round_trip [of "[ex_fresh_header]" ex_rt "ex_at 12" empty_db]
    by (simp add: ex_fresh_header_def SILVER_SOURCES_def)
qed

end
