(* ===== verification/Schedule_Cells.thy ===== *)
theory Schedule_Cells
  imports Models Tokens Regex_Facts Json Sheet_Grid
begin

text \<open>
  \<open>src/swimzh/providers/schedule_scraper.py\<close>, the cell parsers: days, hours, seasons,
  categories, and the rules of weekly and of seasonal timetable rows. A constructor that
  validates may raise; only the time-range parser catches.
\<close>

definition SCHEDULE_SOURCE :: pystr where
  "SCHEDULE_SOURCE = u ''schedule_scraper''"

definition DAYS_FULL :: "(pystr \<times> weekday) list" where
  "DAYS_FULL = [(u ''montag'', MONDAY), (u ''dienstag'', TUESDAY), (u ''mittwoch'', WEDNESDAY),
     (u ''donnerstag'', THURSDAY), (u ''freitag'', FRIDAY), (u ''samstag'', SATURDAY), (u ''sonntag'', SUNDAY)]"

definition DAYS_ABBR :: "(pystr \<times> weekday) list" where
  "DAYS_ABBR = [(u ''mo'', MONDAY), (u ''di'', TUESDAY), (u ''mi'', WEDNESDAY), (u ''do'', THURSDAY),
     (u ''fr'', FRIDAY), (u ''sa'', SATURDAY), (u ''so'', SUNDAY)]"

definition is_dash :: "nat \<Rightarrow> bool" where
  "is_dash c \<longleftrightarrow> c = 8211 \<or> c = 45"

record scraped_schedule =
  scs_rules :: "schedule_rule list"
  scs_holiday_policy :: "holiday_policy option"
  scs_last_admission_before :: "int option"

section \<open>Days\<close>

definition lookup_day :: "pystr \<Rightarrow> weekday option" where
  "lookup_day token =
     (let key = py_lower (py_strip token)
      in case map_of DAYS_FULL key of Some w \<Rightarrow> Some w | None \<Rightarrow> map_of DAYS_ABBR key)"

definition DAY_QUALIFIER_RE :: rx where
  "DAY_QUALIFIER_RE = r_seq [RChar (\<lambda>c. c = 40), r_star (RChar (\<lambda>c. c \<noteq> 41)), RChar (\<lambda>c. c = 41)]"

definition BR_RE :: rx where
  "BR_RE = r_seq [r_lit_ci (u ''<br''), r_star r_space, r_opt (r_lit (u ''/'')), r_lit (u ''>'')]"

definition clean_day_cell :: "pystr \<Rightarrow> pystr" where
  "clean_day_cell cell =
     (let t1 = replace_all [160] [32] cell;
          t2 = rx_sub BR_RE [44] t1;
          t3 = rx_sub DAY_QUALIFIER_RE [32] t2;
          t4 = rx_sub PAGE_TAG_RE [32] t3;
          t5 = rx_sub (r_plus r_digit) [32] t4
      in py_lower (py_strip (rx_sub PAGE_WS_RE [32] t5)))"

definition all_weekdays :: "weekday list" where
  "all_weekdays = [MONDAY, TUESDAY, WEDNESDAY, THURSDAY, FRIDAY, SATURDAY, SUNDAY]"

definition span_days :: "weekday \<Rightarrow> weekday \<Rightarrow> weekday set" where
  "span_days s e =
     (if s \<le> e then set (filter (\<lambda>w. s \<le> w \<and> w \<le> e) all_weekdays)
      else set (filter (\<lambda>w. w \<ge> s \<or> w \<le> e) all_weekdays))"

definition day_letter :: "nat \<Rightarrow> bool" where
  "day_letter c \<longleftrightarrow> (97 \<le> c \<and> c \<le> 122) \<or> c \<in> {228, 246, 252}"

definition DAY_SPAN_RE :: rx where
  "DAY_SPAN_RE = r_seq [RGroup 1 (r_plus (RChar day_letter)), r_star r_space, RChar is_dash, r_star r_space,
     RGroup 2 (r_plus (RChar day_letter)), REnd]"

definition days_listed :: "pystr \<Rightarrow> weekday set" where
  "days_listed s = set (List.map_filter lookup_day (split_on (\<lambda>c. c = 44 \<or> c = 47) s))"

definition parse_days :: "pystr \<Rightarrow> weekday set" where
  "parse_days cell =
     (let s = clean_day_cell cell
      in case rx_prefix DAY_SPAN_RE s of
           None \<Rightarrow> days_listed s
         | Some m \<Rightarrow>
             (case (lookup_day (group m 1), lookup_day (group m 2)) of
                (Some a, Some b) \<Rightarrow> span_days a b
              | _ \<Rightarrow> days_listed s))"

section \<open>Hours\<close>

definition py_int_text :: "pystr \<Rightarrow> py_error + int" where
  "py_int_text s = (case int_of_str s of Some n \<Rightarrow> Inr n | None \<Rightarrow> Inl ValueError)"

text \<open>
  \<open>datetime.time\<close> takes C integers: a number that is none raises \<open>OverflowError\<close>, before the
  ranges are checked.
\<close>

definition c_int :: "int \<Rightarrow> bool" where
  "c_int n \<longleftrightarrow> - 2147483648 \<le> n \<and> n \<le> 2147483647"

definition clock_time :: "int \<Rightarrow> int \<Rightarrow> py_error + time" where
  "clock_time h m = (if c_int h \<and> c_int m then mk_time h m else Inl OverflowError)"

definition parse_clock :: "pystr \<Rightarrow> py_error + time" where
  "parse_clock tok =
     (let t = replace_all [104] [46] (replace_all [58] [46] (py_strip tok))
      in if 46 \<in> set t
         then (let h_text = takeWhile (\<lambda>c. c \<noteq> 46) t; m_text = tl (dropWhile (\<lambda>c. c \<noteq> 46) t)
               in bind_err (py_int_text h_text) (\<lambda>h.
                  bind_err (if m_text = [] then Inr 0 else py_int_text m_text) (\<lambda>m. clock_time h m)))
         else bind_err (py_int_text t) (\<lambda>h. clock_time h 0))"

text \<open>The handler catches \<open>ValueError\<close> and \<open>IndexError\<close> only.\<close>

definition parse_time_range :: "pystr \<Rightarrow> py_error + time_range option" where
  "parse_time_range cell =
     (case split_on is_dash (py_strip (replace_all (u ''Uhr'') [] (rx_sub PAGE_TAG_RE [] cell))) of
        [a, b] \<Rightarrow>
          (case bind_err (parse_clock a) (\<lambda>s. bind_err (parse_clock b) (\<lambda>e. mk_time_range s e)) of
             Inr r \<Rightarrow> Inr (Some r)
           | Inl e \<Rightarrow> if e \<in> {ValueError, IndexError} then Inr None else Inl e)
      | _ \<Rightarrow> Inr None)"

section \<open>Seasons\<close>

definition SEASON_RE :: rx where
  "SEASON_RE =
     r_seq [r_opt (RChar (\<lambda>c. c = 40)), r_star r_space,
            r_opt (r_seq [RGroup 1 (r_times 1 2 r_digit), r_lit (u ''.''), r_star r_space]),
            RWordB, RGroup 2 MONTH_ALT, RWordB, r_star r_space, RChar is_dash, r_star r_space,
            r_opt (r_seq [RGroup 3 (r_times 1 2 r_digit), r_lit (u ''.''), r_star r_space]),
            RWordB, RGroup 4 MONTH_ALT, RWordB, r_star r_space, r_opt (RChar (\<lambda>c. c = 41)), r_star r_space, REnd]"

definition day_window :: "int \<Rightarrow> pystr \<Rightarrow> int \<Rightarrow> pystr \<Rightarrow> py_error + annual_window" where
  "day_window start_month start_day end_month end_day =
     bind_err (py_int_text start_day) (\<lambda>sd. bind_err (mk_month_day start_month sd) (\<lambda>s.
     bind_err (py_int_text end_day) (\<lambda>ed. bind_err (mk_month_day end_month ed) (\<lambda>e.
       Inr \<lparr>aw_start = s, aw_end = e, aw_precision = PRECISION_DAY\<rparr>))))"

definition split_season :: "pystr \<Rightarrow> py_error + pystr \<times> annual_window option" where
  "split_season cell =
     (case rx_find SEASON_RE cell of
        None \<Rightarrow> Inr (cell, None)
      | Some (start_at, end_at, m) \<Rightarrow>
          bind_err (dict_at GERMAN_MONTHS (py_lower (group m 2))) (\<lambda>sm.
          bind_err (dict_at GERMAN_MONTHS (py_lower (group m 4))) (\<lambda>em.
            let rest = take start_at cell
            in case (m 1, m 3) of
                 (Some sd, Some ed) \<Rightarrow> bind_err (day_window sm sd em ed) (\<lambda>w. Inr (rest, Some w))
               | _ \<Rightarrow> bind_err (whole_months sm em) (\<lambda>w. Inr (rest, Some w)))))"

definition ZEITRAUM_RE :: rx where
  "ZEITRAUM_RE =
     r_seq [RBegin, RGroup 1 (r_times 1 2 r_digit), r_lit (u ''.''), r_star r_space,
            r_opt (RSeq (RGroup 2 MONTH_ALT) (r_star r_space)), RChar is_dash, r_star r_space,
            RGroup 3 (r_times 1 2 r_digit), r_lit (u ''.''), r_star r_space, RGroup 4 MONTH_ALT, REnd]"

definition parse_zeitraum :: "pystr \<Rightarrow> py_error + annual_window option" where
  "parse_zeitraum cell =
     (case rx_prefix ZEITRAUM_RE (page_text cell) of
        None \<Rightarrow> Inr None
      | Some m \<Rightarrow>
          bind_err (dict_at GERMAN_MONTHS (py_lower (group m 4))) (\<lambda>em.
          bind_err (case m 2 of Some g \<Rightarrow> dict_at GERMAN_MONTHS (py_lower g) | None \<Rightarrow> Inr em) (\<lambda>sm.
          bind_err (day_window sm (group m 1) em (group m 3)) (\<lambda>w. Inr (Some w)))))"

definition TRAILING_PAREN_RE :: rx where
  "TRAILING_PAREN_RE =
     r_seq [RChar (\<lambda>c. c = 40), RGroup 1 (r_star (RChar (\<lambda>c. c \<noteq> 40 \<and> c \<noteq> 41))), RChar (\<lambda>c. c = 41), REnd]"

definition split_weekdays :: "pystr \<Rightarrow> pystr \<times> weekday set" where
  "split_weekdays cell =
     (let s = py_strip cell
      in case rx_find TRAILING_PAREN_RE s of
           None \<Rightarrow> (s, set all_weekdays)
         | Some (start_at, end_at, m) \<Rightarrow>
             (let days = parse_days (group m 1)
              in if days \<noteq> {} then (take start_at s, days) else (s, set all_weekdays)))"

section \<open>Categories\<close>

definition MIN_AGE_RE :: rx where
  "MIN_AGE_RE = r_seq [RWordB, r_lit_ci (u ''ab''), r_plus r_space, RGroup 1 (r_times 1 2 r_digit), r_star r_space,
     r_lit_ci (u ''jahr'')]"

definition parse_category :: "pystr \<Rightarrow> py_error + session_access" where
  "parse_category cell =
     (let lowered = py_lower (py_strip (replace_all [160] [32] cell));
          adults = (if contains (u ''erwachsene'') lowered then AdultsOnly 18 [] else PublicSwim)
      in if contains (u ''frau'') lowered then Inr (WomenOnly [])
         else if contains (u ''senior'') lowered then Inr (SeniorsOnly 60)
         else if contains (u ''schul'') lowered then Inr SchoolReserved
         else if contains (u ''kinder nur mit erwachsenen'') lowered then Inr AccompaniedChildren
         else if contains (u ''erwachsene und kinder'') lowered then Inr PublicSwim
         else if contains ([109, 228] @ u ''dchen'') lowered then Inr GirlsOnly
         else if contains (u ''trans'') lowered \<or> contains (u ''nicht-bin'' @ [228] @ u ''r'') lowered
         then (case rx_search MIN_AGE_RE lowered of
                 Some m \<Rightarrow> bind_err (py_int_text (group m 1)) (\<lambda>n. Inr (GenderDiverse n))
               | None \<Rightarrow> Inr adults)
         else Inr adults)"

section \<open>Weekly rows\<close>

record time_slot =
  sl_time :: time_range
  sl_access :: session_access
  sl_source_text :: pystr
  sl_season :: "annual_window option"

definition BR :: pystr where
  "BR = u ''<br>''"

definition slot_step :: "pystr list \<Rightarrow> time_slot list \<Rightarrow> nat \<times> pystr \<Rightarrow> py_error + time_slot list" where
  "slot_step categories out x =
     (case x of (i, part) \<Rightarrow>
        bind_err (split_season part) (\<lambda>(hour_text, season).
        bind_err (parse_time_range hour_text) (\<lambda>range.
          case range of
            None \<Rightarrow> Inr out
          | Some r \<Rightarrow>
              (let category = (if i < length categories then categories ! i
                               else if categories \<noteq> [] then last categories else [])
               in bind_err (parse_category category) (\<lambda>acc.
                    Inr (out @ [\<lparr>sl_time = r, sl_access = acc, sl_source_text = category, sl_season = season\<rparr>]))))))"

definition slots :: "pystr \<Rightarrow> pystr option \<Rightarrow> py_error + time_slot list" where
  "slots hours_cell category_cell =
     (let hours = filter (\<lambda>h. py_strip h \<noteq> []) (split_str BR hours_cell);
          categories = split_str BR (case category_cell of Some c \<Rightarrow> c | None \<Rightarrow> [])
      in fold_err (slot_step categories) (enumerate 0 hours) [])"

fun holiday_policy_of :: "pystr list list \<Rightarrow> py_error + holiday_policy option" where
  "holiday_policy_of [] = Inr None"
| "holiday_policy_of (row # rows) =
     bind_err (py_index row 0) (\<lambda>cell.
       if contains (u ''feiertag'') (py_casefold cell) \<and> SUNDAY \<in> parse_days cell then Inr (Some SUNDAY_SCHEDULE)
       else holiday_policy_of rows)"

definition rule_of_slot :: "weekday set \<Rightarrow> time_slot \<Rightarrow> schedule_rule" where
  "rule_of_slot days s =
     \<lparr>sr_weekdays = days, sr_time = sl_time s, sr_access = sl_access s, sr_scope = ALWAYS,
      sr_source_text = sl_source_text s, sr_season = sl_season s, sr_weather = ANY\<rparr>"

definition row_step ::
  "weekday set \<times> schedule_rule list \<Rightarrow> pystr list \<Rightarrow> py_error + weekday set \<times> schedule_rule list" where
  "row_step st row =
     bind_err (py_index row 0) (\<lambda>cell.
       let days = (if parse_days cell \<noteq> {} then parse_days cell else fst st)
       in if days = {} then Inr (days, snd st)
          else bind_err (py_index row 1) (\<lambda>hours.
               bind_err (slots hours (if 3 \<le> length row then Some (row ! 2) else None)) (\<lambda>ss.
                 Inr (days, snd st @ map (rule_of_slot days) ss))))"

definition rules_from_rows :: "pystr list list \<Rightarrow> py_error + schedule_rule list" where
  "rules_from_rows rows = bind_err (fold_err row_step rows ({}, [])) (\<lambda>st. Inr (snd st))"

section \<open>Seasonal rows\<close>

definition SUP_RE :: rx where
  "SUP_RE = r_seq [r_lit_ci (u ''<sup''), RWordB, r_star (RChar (\<lambda>c. c \<noteq> 62)), r_lit (u ''>''), r_lazy r_dot,
     r_lit_ci (u ''</sup>'')]"

definition weather_of :: "pystr \<Rightarrow> weather" where
  "weather_of header =
     (if contains (u ''sch'' @ [246] @ u ''nem wetter'') (py_casefold header) then FAIR_ONLY else ANY)"

definition season_part :: "annual_window \<Rightarrow> weather \<Rightarrow> pystr \<Rightarrow> py_error + schedule_rule list" where
  "season_part season wx part =
     (if py_strip part = [] then Inr []
      else case split_weekdays part of (hours, days) \<Rightarrow>
             bind_err (parse_time_range hours) (\<lambda>range.
               case range of
                 None \<Rightarrow> Inr []
               | Some r \<Rightarrow> Inr [\<lparr>sr_weekdays = days, sr_time = r, sr_access = PublicSwim, sr_scope = ALWAYS,
                                sr_source_text = py_strip part, sr_season = Some season, sr_weather = wx\<rparr>]))"

definition season_rules_from_cell :: "pystr \<Rightarrow> annual_window \<Rightarrow> weather \<Rightarrow> py_error + schedule_rule list" where
  "season_rules_from_cell cell season wx =
     bind_err (map_err (season_part season wx) (split_str BR (rx_sub SUP_RE [] cell))) (\<lambda>rs. Inr (concat rs))"

definition season_row_step ::
  "weather list \<Rightarrow> annual_window option \<times> schedule_rule list \<Rightarrow> pystr list \<Rightarrow>
   py_error + annual_window option \<times> schedule_rule list" where
  "season_row_step weathers st row =
     bind_err (if row \<noteq> [] then parse_zeitraum (hd row) else Inr None) (\<lambda>own.
       case (case own of Some w \<Rightarrow> Some w | None \<Rightarrow> fst st) of
         None \<Rightarrow> Inr (None, snd st)
       | Some carried \<Rightarrow>
           bind_err (map_err (\<lambda>(i, wx). if i < length row then season_rules_from_cell (row ! i) carried wx else Inr [])
                       (enumerate 1 weathers)) (\<lambda>rs.
             Inr (Some carried, snd st @ concat rs)))"

definition rules_from_season_rows :: "pystr list \<Rightarrow> pystr list list \<Rightarrow> py_error + schedule_rule list" where
  "rules_from_season_rows columns rows =
     bind_err (fold_err (season_row_step (map weather_of (drop 1 columns))) rows (None, [])) (\<lambda>st. Inr (snd st))"

section \<open>Last admission\<close>

definition LAST_ADMISSION_RE :: rx where
  "LAST_ADMISSION_RE =
     r_seq [r_lit_ci (u ''Einlass''), r_plus r_space, r_lit_ci (u ''erfolgt''), r_plus r_space,
            RAlt (r_lit_ci (u ''bis'')) (r_lit_ci ([115, 112, 228] @ u ''testens'')), r_plus r_space,
            RGroup 1 (r_times 1 3 r_digit), r_star r_space, r_lit_ci (u ''Minuten''), r_plus r_space,
            r_lit_ci (u ''vor'')]"

definition last_admission :: "pystr \<Rightarrow> py_error + int option" where
  "last_admission decoded_html =
     (case rx_search LAST_ADMISSION_RE (page_text decoded_html) of
        None \<Rightarrow> Inr None
      | Some m \<Rightarrow> bind_err (py_int_text (group m 1)) (\<lambda>n. Inr (Some (n * 60000000))))"

end
