(* ===== verification/Schedule_Scraper.thy ===== *)
theory Schedule_Scraper
  imports Schedule_Cells Lane_Fetch Url Bytes Iso
begin

text \<open>
  \<open>src/swimzh/providers/schedule_scraper.py\<close>, the page parsers: the tables of a city page and
  of a plain page, the choice of the pool's own table by its heading, notices, and the fetch.
  \<open>html.unescape\<close>, the JSON parser (\<open>None\<close> is a \<open>JSONDecodeError\<close>), \<open>str\<close> of a value that is no
  string, the spellings of a date other than \<open>YYYY-MM-DD\<close> and the host checks of
  \<open>urlsplit\<close> are the arguments of \<open>scrape_env\<close>. A back reference to a tag name is written as one alternative for each name.
\<close>

record scrape_env =
  sx_unescape :: "pystr \<Rightarrow> pystr"
  sx_json :: "pystr \<Rightarrow> json option"
  sx_repr :: "json \<Rightarrow> pystr"
  sx_other_date :: "pystr \<Rightarrow> date option"
  sx_netloc_rejected :: "pystr \<Rightarrow> bool"

section \<open>Headings\<close>

definition HEADING_WINDOW :: nat where
  "HEADING_WINDOW = 400"

definition POOL_HEADINGS :: "pystr list" where
  "POOL_HEADINGS = [u ''hallenbad'', u ''schwimmbad'', u ''freibad'', u ''schwimm'', u ''becken'', u ''badi'']"

definition NOT_POOL_HEADINGS :: "pystr list" where
  "NOT_POOL_HEADINGS = [u ''sauna'', u ''wellness'', u ''dampfbad'', u ''fitness'', u ''solarium'', u ''restaurant'']"

definition POOL_TABLE :: nat where "POOL_TABLE = 0"
definition UNLABELLED_TABLE :: nat where "UNLABELLED_TABLE = 1"
definition NOT_POOL_TABLE :: nat where "NOT_POOL_TABLE = 2"

definition classify_heading :: "pystr \<Rightarrow> nat" where
  "classify_heading heading =
     (let lowered = py_casefold heading
      in if \<exists>w \<in> set POOL_HEADINGS. contains w lowered then POOL_TABLE
         else if \<exists>w \<in> set NOT_POOL_HEADINGS. contains w lowered then NOT_POOL_TABLE
         else UNLABELLED_TABLE)"

definition last_n :: "nat \<Rightarrow> 'a list \<Rightarrow> 'a list" where
  "last_n n xs = drop (length xs - n) xs"

definition table_priority :: "pystr \<Rightarrow> nat" where
  "table_priority preceding_html = classify_heading (page_text (last_n HEADING_WINDOW preceding_html))"

definition HEADING_NAMES :: "pystr list" where
  "HEADING_NAMES = [u ''h1'', u ''h2'', u ''h3'', u ''h4'', u ''h5'', u ''h6'', u ''stzh-heading'']"

definition HEADING_TAG_RE :: rx where
  "HEADING_TAG_RE = r_any_of (map (\<lambda>name.
     r_seq [r_lit (u ''<''), RGroup 1 (r_lit_ci name), RWordB, r_star (RChar (\<lambda>c. c \<noteq> 62)), r_lit (u ''>''),
            RGroup 2 (r_lazy r_dot), r_lit (u ''</''), r_lit_ci name, r_lit (u ''>'')]) HEADING_NAMES)"

definition nearest_heading :: "pystr \<Rightarrow> pystr" where
  "nearest_heading preceding_html =
     (case rx_findall HEADING_TAG_RE preceding_html of [] \<Rightarrow> [] | ms \<Rightarrow> page_text (group (last ms) 2))"

section \<open>Tables of a city page\<close>

definition DATATABLE_RE :: rx where
  "DATATABLE_RE = RSeq (r_lit_ci (u ''<stzh-datatable'')) RWordB"

definition attr_re :: "pystr \<Rightarrow> pystr \<Rightarrow> rx" where
  "attr_re name opening =
     r_seq [r_lit (name @ u ''=\"''), RGroup 1 (RSeq (r_lit opening) (r_star (RChar (\<lambda>c. c \<noteq> 34)))), r_lit [34]]"

definition COLUMNS_ATTR_RE :: rx where
  "COLUMNS_ATTR_RE = attr_re (u ''columns'') (u ''[{'')"

definition ROWS_ATTR_RE :: rx where
  "ROWS_ATTR_RE = attr_re (u ''rows'') (u ''[['')"

definition SECTION_TOKEN_RE :: rx where
  "SECTION_TOKEN_RE = r_seq [r_lit (u ''<''), r_opt (r_lit (u ''/'')), r_lit_ci (u ''stzh-section''), RWordB]"

definition WEEKLY_HEADER :: pystr where
  "WEEKLY_HEADER = u ''wochentag''"

definition SEASONAL_HEADER :: pystr where
  "SEASONAL_HEADER = u ''zeitraum''"

record data_table =
  dt_columns :: "pystr list"
  dt_rows :: "pystr list list"
  dt_heading_bound :: nat

definition attr_json :: "scrape_env \<Rightarrow> pystr \<Rightarrow> rx \<Rightarrow> json option" where
  "attr_json env region pattern =
     (case rx_search pattern region of None \<Rightarrow> None | Some m \<Rightarrow> sx_json env (sx_unescape env (group m 1)))"

definition member_text :: "scrape_env \<Rightarrow> pystr \<Rightarrow> json \<Rightarrow> pystr" where
  "member_text env key c =
     (case c of
        JObj ms \<Rightarrow> str_json (sx_repr env) (case map_of ms key of Some v \<Rightarrow> v | None \<Rightarrow> JStr [])
      | _ \<Rightarrow> [])"

definition table_headers :: "scrape_env \<Rightarrow> json option \<Rightarrow> pystr list" where
  "table_headers env parsed = (case parsed of Some (JList cs) \<Rightarrow> map (member_text env (u ''text'')) cs | _ \<Rightarrow> [])"

definition table_cells :: "scrape_env \<Rightarrow> json option \<Rightarrow> pystr list list" where
  "table_cells env parsed =
     (case parsed of
        Some (JList rows) \<Rightarrow>
          List.map_filter (\<lambda>row. case row of JList cs \<Rightarrow> Some (map (member_text env (u ''value'')) cs) | _ \<Rightarrow> None) rows
      | _ \<Rightarrow> [])"

fun heading_bound_go :: "nat \<Rightarrow> int \<Rightarrow> int option \<Rightarrow> rx_hit list \<Rightarrow> nat option" where
  "heading_bound_go pos depth target [] = None"
| "heading_bound_go pos depth target ((start_at, end_at, m) # hits) =
     (let delta = (if starts (u ''</'') (group m 0) then -1 else 1)
      in if start_at < pos then heading_bound_go pos (depth + delta) target hits
         else
           (case (case target of Some t \<Rightarrow> Some t | None \<Rightarrow> if depth \<le> 0 then None else Some depth) of
              None \<Rightarrow> None
            | Some t \<Rightarrow> if depth + delta < t then Some end_at else heading_bound_go pos (depth + delta) (Some t) hits))"

definition heading_bound :: "pystr \<Rightarrow> nat \<Rightarrow> nat option" where
  "heading_bound page_html pos = heading_bound_go pos 0 None (rx_finditer SECTION_TOKEN_RE page_html)"

definition data_table_at :: "scrape_env \<Rightarrow> pystr \<Rightarrow> nat \<times> nat \<Rightarrow> data_table option" where
  "data_table_at env page_html x =
     (case x of (start_at, region_end) \<Rightarrow>
        let region = py_slice start_at region_end page_html;
            columns = table_headers env (attr_json env region COLUMNS_ATTR_RE);
            rows = table_cells env (attr_json env region ROWS_ATTR_RE)
        in if columns = [] \<or> rows = [] then None
           else Some \<lparr>dt_columns = columns, dt_rows = rows,
             dt_heading_bound = (case heading_bound page_html start_at of Some b \<Rightarrow> b | None \<Rightarrow> region_end)\<rparr>)"

definition data_tables :: "scrape_env \<Rightarrow> pystr \<Rightarrow> data_table list" where
  "data_tables env page_html =
     (let boundaries = map fst (rx_finditer DATATABLE_RE page_html) @ [length page_html]
      in List.map_filter (data_table_at env page_html) (zip boundaries (tl boundaries)))"

record city_state =
  cst_rules :: "schedule_rule list"
  cst_weekly :: "pystr list list"
  cst_previous :: nat

definition hours_rows_of :: "data_table \<Rightarrow> pystr list list" where
  "hours_rows_of t = filter (\<lambda>r. 2 \<le> length r \<and> contains (u ''Uhr'') (r ! 1)) (dt_rows t)"

definition city_step :: "pystr \<Rightarrow> city_state \<Rightarrow> data_table \<Rightarrow> py_error + city_state" where
  "city_step page_html st t =
     (let heading = nearest_heading (py_slice (cst_previous st) (dt_heading_bound t) page_html);
          st1 = st\<lparr>cst_previous := dt_heading_bound t\<rparr>
      in if classify_heading heading = NOT_POOL_TABLE then Inr st1
         else
           bind_err (py_index (dt_columns t) 0) (\<lambda>first.
             let kind = py_casefold (py_strip first)
             in if kind = WEEKLY_HEADER
                then bind_err (rules_from_rows (hours_rows_of t)) (\<lambda>rs.
                       Inr (st1\<lparr>cst_rules := cst_rules st @ rs, cst_weekly := cst_weekly st @ hours_rows_of t\<rparr>))
                else if kind = SEASONAL_HEADER
                then bind_err (rules_from_season_rows (dt_columns t) (dt_rows t)) (\<lambda>rs.
                       Inr (st1\<lparr>cst_rules := cst_rules st @ rs\<rparr>))
                else Inr st1))"

definition parse_stadtzurich :: "scrape_env \<Rightarrow> pystr \<Rightarrow> py_error + (scraped_schedule, provider_error) result" where
  "parse_stadtzurich env page_html =
     bind_err (fold_err (city_step page_html) (data_tables env page_html)
                 \<lparr>cst_rules = [], cst_weekly = [], cst_previous = 0\<rparr>) (\<lambda>st.
       if cst_rules st = [] then Inr (Err (ParseError SCHEDULE_SOURCE (u ''no stadt-zuerich timetable'') []))
       else bind_err (holiday_policy_of (cst_weekly st)) (\<lambda>policy.
            bind_err (last_admission (sx_unescape env page_html)) (\<lambda>la.
              Inr (Ok \<lparr>scs_rules = cst_rules st, scs_holiday_policy = policy, scs_last_admission_before = la\<rparr>))))"

section \<open>Tables of a plain page\<close>

definition element_re :: "pystr \<Rightarrow> rx \<Rightarrow> rx" where
  "element_re name rest_of_name =
     r_seq [r_lit_ci (60 # name), rest_of_name, r_star (RChar (\<lambda>c. c \<noteq> 62)), r_lit (u ''>''),
            RGroup 1 (r_lazy r_dot), r_lit_ci (u ''</'' @ name), rest_of_name, r_lit (u ''>'')]"

definition TABLE_RE :: rx where
  "TABLE_RE = element_re (u ''table'') REmpty"

definition TR_RE :: rx where
  "TR_RE = element_re (u ''tr'') REmpty"

definition TD_RE :: rx where
  "TD_RE = element_re (u ''t'') (RChar (\<lambda>c. lower_cp c = 100 \<or> lower_cp c = 104))"

definition TIME_RE :: rx where
  "TIME_RE =
     r_seq [r_times 1 2 r_digit, RChar (\<lambda>c. c = 46 \<or> c = 58), r_times 2 2 r_digit, r_star r_space, RChar is_dash,
            r_star r_space, r_times 1 2 r_digit, RChar (\<lambda>c. c = 46 \<or> c = 58), r_times 2 2 r_digit]"

definition table_rows :: "pystr \<Rightarrow> pystr list list" where
  "table_rows body =
     map (\<lambda>tr. map (\<lambda>td. page_text (group td 1)) (rx_findall TD_RE (group tr 1))) (rx_findall TR_RE body)"

definition hours_row :: "pystr list \<Rightarrow> bool" where
  "hours_row r \<longleftrightarrow> 2 \<le> length r \<and> parse_days (r ! 0) \<noteq> {} \<and> rx_search TIME_RE (r ! 1) \<noteq> None"

fun table_candidates ::
  "pystr \<Rightarrow> nat \<Rightarrow> (nat \<times> rx_hit) list \<Rightarrow> (nat \<times> nat \<times> pystr list list) list" where
  "table_candidates decoded previous [] = []"
| "table_candidates decoded previous ((order, start_at, end_at, m) # hits) =
     (let hours_rows = filter hours_row (table_rows (group m 1));
          priority = table_priority (py_slice previous start_at decoded)
      in (if hours_rows \<noteq> [] \<and> priority \<noteq> NOT_POOL_TABLE then [(priority, order, hours_rows)] else [])
         @ table_candidates decoded end_at hits)"

fun first_with_rules ::
  "(nat \<times> nat \<times> pystr list list) list \<Rightarrow> py_error + (scraped_schedule, provider_error) result" where
  "first_with_rules [] = Inr (Err (ParseError SCHEDULE_SOURCE (u ''no HTML schedule table'') []))"
| "first_with_rules ((priority, order, hours_rows) # cs) =
     bind_err (rules_from_rows hours_rows) (\<lambda>rs.
       if rs \<noteq> []
       then bind_err (holiday_policy_of hours_rows) (\<lambda>policy.
              Inr (Ok \<lparr>scs_rules = rs, scs_holiday_policy = policy, scs_last_admission_before = None\<rparr>))
       else first_with_rules cs)"

definition parse_html_table :: "scrape_env \<Rightarrow> pystr \<Rightarrow> py_error + (scraped_schedule, provider_error) result" where
  "parse_html_table env page_html =
     (let decoded = sx_unescape env page_html;
          candidates = table_candidates decoded 0 (enumerate 0 (rx_finditer TABLE_RE decoded))
      in first_with_rules (sort_key (\<lambda>(priority, order, rows). (priority, order)) candidates))"

section \<open>The parser registry\<close>

definition PARSERS :: "(scrape_env \<Rightarrow> pystr \<Rightarrow> py_error + (scraped_schedule, provider_error) result) list" where
  "PARSERS = [parse_stadtzurich, parse_html_table]"

fun try_parsers ::
  "scrape_env \<Rightarrow> pystr \<Rightarrow> (scraped_schedule, provider_error) result \<Rightarrow>
   (scrape_env \<Rightarrow> pystr \<Rightarrow> py_error + (scraped_schedule, provider_error) result) list \<Rightarrow>
   py_error + (scraped_schedule, provider_error) result" where
  "try_parsers env page_html final [] = Inr final"
| "try_parsers env page_html final (parser # parsers) =
     bind_err (parser env page_html) (\<lambda>r.
       case r of Ok v \<Rightarrow> Inr (Ok v) | Err e \<Rightarrow> try_parsers env page_html (Err e) parsers)"

definition parse_schedule :: "scrape_env \<Rightarrow> pystr \<Rightarrow> py_error + (scraped_schedule, provider_error) result" where
  "parse_schedule env page_html =
     try_parsers env page_html
       (Err (ParseError SCHEDULE_SOURCE (u ''no parser matched'') (take 200 (sx_unescape env page_html)))) PARSERS"

section \<open>Notices\<close>

definition SHOW_RE :: rx where
  "SHOW_RE = r_seq [r_lit_ci (u ''<stzh-show''), RWordB, RGroup 1 (r_star (RChar (\<lambda>c. c \<noteq> 62))), r_lit (u ''>''),
     RGroup 2 (r_lazy r_dot), r_lit_ci (u ''</stzh-show>'')]"

definition LABEL_RE :: rx where
  "LABEL_RE = r_seq [r_lit_ci (u ''<stzh-clamp''), r_star (RChar (\<lambda>c. c \<noteq> 62)), r_lit_ci (u ''slot=\"label\"''),
     r_star (RChar (\<lambda>c. c \<noteq> 62)), r_lit (u ''>''), RGroup 1 (r_lazy r_dot), r_lit_ci (u ''</stzh-clamp>'')]"

definition attr_value :: "pystr \<Rightarrow> pystr \<Rightarrow> pystr option" where
  "attr_value attrs name =
     (case rx_search (r_seq [r_lit (name @ u ''=\"''), RGroup 1 (r_star (RChar (\<lambda>c. c \<noteq> 34))), r_lit [34]]) attrs of
        Some m \<Rightarrow> Some (group m 1)
      | None \<Rightarrow> None)"

definition iso_date_value :: "scrape_env \<Rightarrow> pystr option \<Rightarrow> date option" where
  "iso_date_value env value =
     (case value of
        None \<Rightarrow> None
      | Some v \<Rightarrow>
          if v = [] then None
          else (case parse_date (take 10 v) of
                  Some (d, []) \<Rightarrow> if valid_date d then Some d else None
                | _ \<Rightarrow> sx_other_date env (take 10 v)))"

definition notice_of_match :: "scrape_env \<Rightarrow> (nat \<rightharpoonup> pystr) \<Rightarrow> notice option" where
  "notice_of_match env m =
     (case rx_search LABEL_RE (group m 2) of
        None \<Rightarrow> None
      | Some l \<Rightarrow>
          (let txt = page_text (group l 1)
           in if txt = [] then None
              else Some \<lparr>no_text = txt,
                active_from = iso_date_value env (attr_value (group m 1) (u ''show-from-date'')),
                active_to = iso_date_value env (attr_value (group m 1) (u ''hide-from-date''))\<rparr>))"

definition parse_notices :: "scrape_env \<Rightarrow> pystr \<Rightarrow> notice list" where
  "parse_notices env page_html =
     foldl (\<lambda>seen n. if n \<in> set seen then seen else seen @ [n]) []
       (List.map_filter (notice_of_match env) (rx_findall SHOW_RE (sx_unescape env page_html)))"

section \<open>Fetching\<close>

definition fetch_page :: "'w getter \<Rightarrow> pystr \<Rightarrow> 'w \<Rightarrow> (py_error + (byte list, provider_error) result) \<times> 'w" where
  "fetch_page get url w = (case get url w of (r, w') \<Rightarrow> (bind_err r (\<lambda>r. Inr (fmap r rs_content)), w'))"

definition scrape_schedule ::
  "scrape_env \<Rightarrow> 'w getter \<Rightarrow> pystr \<Rightarrow> 'w \<Rightarrow> (py_error + (scraped_schedule, provider_error) result) \<times> 'w" where
  "scrape_schedule env get url w =
     (case fetch_page get url w of (r, w') \<Rightarrow>
        (bind_err r (\<lambda>r. case r of Err e \<Rightarrow> Inr (Err e) | Ok raw \<Rightarrow> parse_schedule env (decode_utf8_replace raw)), w'))"

end
