(* ===== verification/Price_Scraper.thy ===== *)
theory Price_Scraper
  imports Schedule_Scraper Codec Infrastruktur
begin

text \<open>
  \<open>src/swimzh/providers/price_scraper.py\<close>: the two single-entry tariffs of the city's price
  page, and what a pool's own page states about admission. Iterating a JSON value that is no
  array, or asking one that is no object for a member, raises as in Python. A \<open>Decimal\<close> that
  is also printed is a value with its text.
\<close>

definition PRICE_SOURCE :: pystr where
  "PRICE_SOURCE = u ''price_scraper''"

definition PRICES_URL :: pystr where
  "PRICES_URL = u ''https://www.stadt-zuerich.ch/web/de/stadtleben/sport-und-erholung/sport-und-badeanlagen/preise-abos.html''"

definition TABLE_SPLIT :: pystr where
  "TABLE_SPLIT = u ''<stzh-datatable''"

definition price_attr_re :: "pystr \<Rightarrow> rx" where
  "price_attr_re name =
     r_seq [r_space, r_lit (name @ u ''=\"''), RGroup 1 (r_star (RChar (\<lambda>c. c \<noteq> 34))), r_lit [34]]"

definition COLUMNS_ATTR :: rx where
  "COLUMNS_ATTR = price_attr_re (u ''columns'')"

definition ROWS_ATTR :: rx where
  "ROWS_ATTR = price_attr_re (u ''rows'')"

definition PRICE_MIN_AGE_RE :: rx where
  "PRICE_MIN_AGE_RE = r_seq [RWordB, r_lit_ci (u ''ab''), r_plus r_space, RGroup 1 (r_times 1 2 r_digit), r_star r_space,
     r_lit_ci (u ''J'')]"

definition COLUMN_CATEGORIES :: "price_category list" where
  "COLUMN_CATEGORIES = [ADULT, YOUTH, CHILD]"

definition TARIFF_PATH_TAIL :: pystr where
  "TARIFF_PATH_TAIL = u ''/sport-und-badeanlagen/preise-abos.html''"

definition HREF_RE :: rx where
  "HREF_RE = r_seq [r_lit_ci (u ''href''), r_star r_space, r_lit (u ''=''), r_star r_space, RChar (\<lambda>c. c = 34 \<or> c = 39),
     RGroup 1 (r_plus (RChar (\<lambda>c. c \<noteq> 34 \<and> c \<noteq> 39))), RChar (\<lambda>c. c = 34 \<or> c = 39)]"

definition FREE_SENTENCE_RE :: rx where
  "FREE_SENTENCE_RE =
     RAlt (r_seq [r_lit (u ''Der Eintritt''), r_times 0 80 (RChar (\<lambda>c. c \<noteq> 46 \<and> c \<noteq> 60)), r_lit (u ''ist''),
                  r_plus r_space, r_lit (u ''gratis'')])
          (r_seq [r_lit (u ''ist''), r_plus r_space, r_opt (RSeq (r_lit (u ''es'')) (r_plus r_space)), r_lit (u ''ein''),
                  r_plus r_space, r_lit (u ''Gratisbad'')])"

definition SCHOOL_SECTION :: pystr where
  "SCHOOL_SECTION = u ''eintritte schulschwimmanlagen''"

definition SINGLE_ENTRY :: pystr where
  "SINGLE_ENTRY = u ''einzeleintritt''"

section \<open>What a page states\<close>

text \<open>\<open>any\<close> over conversions that may raise: it stops at the first hit.\<close>

fun any_err :: "('a \<Rightarrow> py_error + bool) \<Rightarrow> 'a list \<Rightarrow> py_error + bool" where
  "any_err f [] = Inr False"
| "any_err f (x # xs) = bind_err (f x) (\<lambda>b. if b then Inr True else any_err f xs)"

definition is_tariff_link :: "scrape_env \<Rightarrow> (nat \<rightharpoonup> pystr) \<Rightarrow> py_error + bool" where
  "is_tariff_link env m =
     bind_err (urlsplit (sx_netloc_rejected env) (sx_unescape env (group m 1))) (\<lambda>parts.
       Inr (ends TARIFF_PATH_TAIL (su_path parts)))"

definition states_city_tariff :: "scrape_env \<Rightarrow> pystr \<Rightarrow> py_error + bool" where
  "states_city_tariff env page_html = any_err (is_tariff_link env) (rx_findall HREF_RE page_html)"

definition states_free_admission :: "pystr \<Rightarrow> bool" where
  "states_free_admission page_html \<longleftrightarrow> rx_search FREE_SENTENCE_RE page_html \<noteq> None"

section \<open>Amounts\<close>

definition MONEY_RE :: rx where
  "MONEY_RE = RSeq (RGroup 1 (r_plus r_digit))
     (r_opt (RSeq (RChar (\<lambda>c. c = 46 \<or> c = 44)) (RGroup 2 (RAlt (r_times 2 2 r_digit) (RChar is_dash)))))"

definition decimal_text :: "pystr \<Rightarrow> pystr \<Rightarrow> pystr" where
  "decimal_text whole cents =
     (let w = dropWhile (\<lambda>c. c = 48) whole in (if w = [] then [48] else w) @ [46] @ cents)"

definition money :: "pystr \<Rightarrow> py_error + (rat \<times> pystr) option" where
  "money cell =
     (let tok = py_strip (replace_all [160] [32] (replace_all (u ''Fr.'') [] cell))
      in case rx_prefix MONEY_RE tok of
           None \<Rightarrow> Inr None
         | Some m \<Rightarrow>
             (let cents = (case m 2 of None \<Rightarrow> u ''00'' | Some f \<Rightarrow> if f = [8211] \<or> f = [45] then u ''00'' else f)
              in bind_err (finite_decimal (group m 1 @ [46] @ cents)) (\<lambda>v.
                   Inr (Some (v, decimal_text (group m 1) cents)))))"

section \<open>The escaped tables\<close>

fun json_iter :: "json \<Rightarrow> py_error + json list" where
  "json_iter (JList xs) = Inr xs"
| "json_iter (JObj ms) = Inr (map (\<lambda>(k, v). JStr k) ms)"
| "json_iter (JStr s) = Inr (map (\<lambda>c. JStr [c]) s)"
| "json_iter _ = Inl TypeError"

definition cell_text :: "scrape_env \<Rightarrow> pystr \<Rightarrow> json \<Rightarrow> py_error + pystr" where
  "cell_text env key c = bind_err (get_default c key (JStr [])) (\<lambda>v. Inr (page_text (str_json (sx_repr env) v)))"

definition price_cells :: "scrape_env \<Rightarrow> pystr \<Rightarrow> py_error + pystr list list option" where
  "price_cells env attr =
     (case sx_json env (sx_unescape env attr) of
        None \<Rightarrow> Inr None
      | Some payload \<Rightarrow>
          bind_err (json_iter payload) (\<lambda>rows.
          bind_err (map_err (\<lambda>row. bind_err (json_iter row) (map_err (cell_text env (u ''value'')))) rows) (\<lambda>cells.
            Inr (Some cells))))"

definition price_headers :: "scrape_env \<Rightarrow> pystr \<Rightarrow> py_error + pystr list option" where
  "price_headers env attr =
     (case sx_json env (sx_unescape env attr) of
        None \<Rightarrow> Inr None
      | Some payload \<Rightarrow>
          bind_err (json_iter payload) (\<lambda>columns.
          bind_err (map_err (cell_text env (u ''text'')) columns) (\<lambda>hs. Inr (Some hs))))"

record tariffed =
  tf_headers :: "pystr list"
  tf_general :: "pystr list"
  tf_school :: "pystr list"

definition section_step ::
  "pystr option \<times> (pystr option \<times> pystr list) list \<Rightarrow> pystr list \<Rightarrow> pystr option \<times> (pystr option \<times> pystr list) list" where
  "section_step st row =
     (if length row < 4 then st
      else if \<forall>c \<in> set (tl row). c = [] then (Some (hd row), snd st)
      else (fst st, snd st @ [(fst st, row)]))"

definition sectioned :: "pystr list list \<Rightarrow> (pystr option \<times> pystr list) list" where
  "sectioned rows = snd (foldl section_step (None, []) rows)"

definition in_section :: "pystr option \<Rightarrow> pystr \<Rightarrow> bool" where
  "in_section row_section section = (case row_section of None \<Rightarrow> False | Some s \<Rightarrow> py_lower s = section)"

definition single_entry_row :: "(pystr option \<times> pystr list) list \<Rightarrow> pystr option \<Rightarrow> pystr list option" where
  "single_entry_row rows section =
     map_option snd (find (\<lambda>(row_section, row).
       (case section of None \<Rightarrow> row_section = None | Some s \<Rightarrow> in_section row_section s) \<and>
       starts SINGLE_ENTRY (py_lower (hd row))) rows)"

text \<open>One chunk of the page, from one table element to the next: \<open>None\<close> goes on to the next chunk.\<close>

definition tariff_chunk :: "scrape_env \<Rightarrow> pystr \<Rightarrow> py_error + tariffed option" where
  "tariff_chunk env chunk =
     (case (rx_search COLUMNS_ATTR chunk, rx_search ROWS_ATTR chunk) of
        (Some columns, Some rows) \<Rightarrow>
          bind_err (price_headers env (group columns 1)) (\<lambda>headers.
          bind_err (price_cells env (group rows 1)) (\<lambda>decoded.
            case (headers, decoded) of
              (Some hs, Some ds) \<Rightarrow>
                if length hs < 4 then Inr None
                else (case (single_entry_row (sectioned ds) None, single_entry_row (sectioned ds) (Some SCHOOL_SECTION)) of
                        (Some g, Some s) \<Rightarrow> Inr (Some \<lparr>tf_headers = hs, tf_general = g, tf_school = s\<rparr>)
                      | _ \<Rightarrow> Inr None)
            | _ \<Rightarrow> Inr None))
      | _ \<Rightarrow> Inr None)"

fun first_tariffed :: "scrape_env \<Rightarrow> pystr list \<Rightarrow> py_error + tariffed option" where
  "first_tariffed env [] = Inr None"
| "first_tariffed env (chunk # chunks) =
     bind_err (tariff_chunk env chunk) (\<lambda>t. case t of Some x \<Rightarrow> Inr (Some x) | None \<Rightarrow> first_tariffed env chunks)"

definition tariff_table :: "scrape_env \<Rightarrow> pystr \<Rightarrow> py_error + tariffed option" where
  "tariff_table env page_html = first_tariffed env (tl (split_str TABLE_SPLIT page_html))"

section \<open>The tariffs\<close>

definition str_repr :: "scrape_env \<Rightarrow> pystr \<Rightarrow> pystr" where
  "str_repr env s = sx_repr env (JStr s)"

fun price_entries ::
  "scrape_env \<Rightarrow> pystr list \<Rightarrow> pystr list \<Rightarrow> (nat \<times> price_category) list \<Rightarrow>
   py_error + (price_entry list, provider_error) result" where
  "price_entries env headers row [] = Inr (Ok [])"
| "price_entries env headers row ((i, category) # cs) =
     bind_err (py_index headers (int i)) (\<lambda>header.
     bind_err (py_index row (int i)) (\<lambda>cell.
     bind_err (money cell) (\<lambda>amount.
       case (amount, rx_search PRICE_MIN_AGE_RE header) of
         (Some (v, shown), Some bound) \<Rightarrow>
           bind_err (py_int_text (group bound 1)) (\<lambda>age_bound.
           bind_err (price_entries env headers row cs) (\<lambda>more.
             Inr (fmap more (\<lambda>es. \<lparr>pe_category = category, amount_chf = v, display = header @ u '' Fr. '' @ shown,
                pe_min_age = Some age_bound\<rparr> # es))))
       | _ \<Rightarrow> Inr (Err (ParseError PRICE_SOURCE
                (u ''unbounded or unparseable price column: '' @ str_repr env header @ u '' / '' @ str_repr env cell) [])))))"

definition price_table_of ::
  "scrape_env \<Rightarrow> pystr list \<Rightarrow> pystr list \<Rightarrow> date \<Rightarrow> py_error + (price_table, provider_error) result" where
  "price_table_of env headers row valid_as_of =
     bind_err (price_entries env headers row (enumerate 1 COLUMN_CATEGORIES)) (\<lambda>r.
       Inr (fmap r (\<lambda>es. \<lparr>pt_entries = es, pt_valid_as_of = Some valid_as_of, pt_source_url = Some PRICES_URL\<rparr>)))"

definition parse_prices :: "scrape_env \<Rightarrow> pystr \<Rightarrow> date \<Rightarrow> py_error + (city_tariffs, provider_error) result" where
  "parse_prices env page_html valid_as_of =
     bind_err (tariff_table env page_html) (\<lambda>found.
       case found of
         None \<Rightarrow> Inr (Err (ParseError PRICE_SOURCE
           (u ''no <stzh-datatable> carrying both an unsectioned Einzeleintritte row and an '' @ str_repr env SCHOOL_SECTION
              @ u '' one'') (take 200 page_html)))
       | Some t \<Rightarrow>
           bind_err (price_table_of env (tf_headers t) (tf_general t) valid_as_of) (\<lambda>general.
             case general of
               Err e \<Rightarrow> Inr (Err e)
             | Ok g \<Rightarrow>
                 bind_err (price_table_of env (tf_headers t) (tf_school t) valid_as_of) (\<lambda>school.
                   case school of
                     Err e \<Rightarrow> Inr (Err e)
                   | Ok s \<Rightarrow> Inr (Ok \<lparr>general_tariff = g, school_tariff = s\<rparr>))))"

definition scrape_prices ::
  "scrape_env \<Rightarrow> 'w getter \<Rightarrow> date \<Rightarrow> 'w \<Rightarrow> (py_error + (city_tariffs, provider_error) result) \<times> 'w" where
  "scrape_prices env get valid_as_of w =
     (case fetch_page get PRICES_URL w of (r, w') \<Rightarrow>
        (bind_err r (\<lambda>r. case r of Err e \<Rightarrow> Inr (Err e) | Ok raw \<Rightarrow> parse_prices env (decode_utf8_replace raw) valid_as_of), w'))"

section \<open>Lockers and rentals\<close>

text \<open>
  \<open>src/swimzh/providers/mietobjekt.py\<close>: the \<open>Mietobjekt | Preis\<close> table of a pool page, routed
  to lockers and rentals. An amount is a rational: nothing prints it here.
\<close>

definition MIET_SOURCE :: pystr where
  "MIET_SOURCE = u ''mietobjekt''"

definition MIETOBJEKT_HEADER :: pystr where
  "MIETOBJEKT_HEADER = u ''Mietobjekt''"

definition FR_TOKEN :: rx where
  "FR_TOKEN = RSeq (r_opt (RGroup 1 (RSeq (r_lit (u ''Depot'')) (r_plus r_space)))) (r_lit (u ''Fr.''))"

definition LABEL_SUFFIX :: rx where
  "LABEL_SUFFIX =
     r_seq [RBegin, RGroup 1 (RSeq (r_star (RChar (\<lambda>c. c \<noteq> 10))) (RChar (\<lambda>c. \<not> is_space c))), r_star r_space,
            RChar (\<lambda>c. c = 40), RGroup 2 (r_plus (RChar (\<lambda>c. c \<noteq> 41))), RChar (\<lambda>c. c = 41), REnd]"

definition GRATIS_RE :: rx where
  "GRATIS_RE = r_seq [RBegin, r_lit_ci (u ''gratis''), RWordB]"

record mietobjekt_table =
  mt_lockers :: "locker_option list"
  mt_rentals :: "rental_item list"

record rental_cost =
  rc_fee :: rental_fee
  rc_deposit :: "rat option"

section \<open>Costs\<close>

definition no_amount :: "scrape_env \<Rightarrow> pystr \<Rightarrow> provider_error" where
  "no_amount env cell = ParseError MIET_SOURCE (u ''Fr. token with no parseable amount: '' @ str_repr env cell) cell"

text \<open>The amounts of a cell so far: the first fee and the first deposit.\<close>

fun cost_tokens ::
  "scrape_env \<Rightarrow> pystr \<Rightarrow> rat option \<times> rat option \<Rightarrow> rx_hit list \<Rightarrow>
   py_error + (rat option \<times> rat option, provider_error) result" where
  "cost_tokens env cell st [] = Inr (Ok st)"
| "cost_tokens env cell (fee, deposit) ((start_at, end_at, m) # hits) =
     bind_err (money (drop end_at cell)) (\<lambda>a.
       case a of
         None \<Rightarrow> Inr (Err (no_amount env cell))
       | Some (v, v_text) \<Rightarrow>
           cost_tokens env cell
             (if m 1 \<noteq> None then (fee, if deposit = None then Some v else deposit)
              else (if fee = None then Some v else fee, deposit)) hits)"

definition cost :: "scrape_env \<Rightarrow> pystr \<Rightarrow> py_error + (rental_cost, provider_error) result" where
  "cost env cell =
     bind_err (cost_tokens env cell (None, None) (rx_finditer FR_TOKEN cell)) (\<lambda>r.
       case r of
         Err e \<Rightarrow> Inr (Err e)
       | Ok (fee, deposit) \<Rightarrow>
           Inr (Ok \<lparr>rc_fee = (case fee of
                       Some v \<Rightarrow> Priced v
                     | None \<Rightarrow> if rx_prefix GRATIS_RE (py_strip cell) \<noteq> None then Gratis else Unstated),
                    rc_deposit = deposit\<rparr>))"

definition fee_chf :: "rental_fee \<Rightarrow> rat option" where
  "fee_chf fee = (case fee of Priced v \<Rightarrow> Some v | Gratis \<Rightarrow> None | Unstated \<Rightarrow> None)"

section \<open>Routing\<close>

definition split_label :: "pystr \<Rightarrow> pystr \<times> pystr option" where
  "split_label label =
     (case rx_prefix LABEL_SUFFIX label of None \<Rightarrow> (label, None) | Some m \<Rightarrow> (group m 1, Some (group m 2)))"

definition miet_locker :: "locker_category \<Rightarrow> pystr option \<Rightarrow> rental_cost \<Rightarrow> pystr \<Rightarrow> locker_option" where
  "miet_locker category period c raw =
     \<lparr>lo_category = category, lo_fee_chf = fee_chf (rc_fee c), lo_deposit_chf = rc_deposit c, lo_period = period,
      lo_mechanism = None, lo_raw = raw\<rparr>"

definition drop_last :: "nat \<Rightarrow> 'a list \<Rightarrow> 'a list" where
  "drop_last n xs = take (length xs - n) xs"

definition WERTSACHENFACH :: pystr where
  "WERTSACHENFACH = u ''Wertsachenfach''"

definition WAESCHEFACH :: pystr where
  "WAESCHEFACH = [87, 228] @ u ''schefach''"

definition locker_of :: "pystr \<Rightarrow> pystr option \<Rightarrow> rental_cost \<Rightarrow> pystr \<Rightarrow> locker_option option" where
  "locker_of base suffix c raw =
     (let lowered = py_lower base
      in if ends (u ''kasten'') lowered
         then Some (miet_locker WARDROBE
                (case suffix of Some s \<Rightarrow> Some s
                 | None \<Rightarrow> if lowered \<noteq> u ''garderobenkasten'' then Some (drop_last 6 base) else None) c raw)
         else if base = WERTSACHENFACH then Some (miet_locker VALUABLES suffix c raw)
         else if base = WAESCHEFACH then Some (miet_locker LAUNDRY suffix c raw)
         else None)"

definition miet_rental :: "rental_kind \<Rightarrow> pystr option \<Rightarrow> rental_cost \<Rightarrow> pystr \<Rightarrow> rental_item" where
  "miet_rental kind period c raw =
     \<lparr>ri_kind = kind, ri_fee = rc_fee c, ri_deposit_chf = rc_deposit c, ri_period = period, ri_raw = raw\<rparr>"

definition rental_of :: "pystr \<Rightarrow> pystr option \<Rightarrow> rental_cost \<Rightarrow> pystr \<Rightarrow> rental_item" where
  "rental_of base suffix c raw =
     (if base = u ''Badetuch'' then miet_rental TOWEL suffix c raw
      else if base = u ''Badebekleidung'' \<or> base = u ''Badehosen'' then miet_rental SWIMWEAR suffix c raw
      else if base = u ''Schwimmbrille'' then miet_rental GOGGLES suffix c raw
      else if ends (u ''kabine'') (py_lower base)
      then miet_rental CABIN (case suffix of Some s \<Rightarrow> Some s | None \<Rightarrow> Some (drop_last 6 base)) c raw
      else if base = u ''Liegestuhl'' then miet_rental SUNLOUNGER suffix c raw
      else if base = u ''Sonnenschirm'' then miet_rental PARASOL suffix c raw
      else miet_rental RENTAL_OTHER None c raw)"

section \<open>The table\<close>

definition row_raw :: "pystr list \<Rightarrow> pystr" where
  "row_raw row = hd row @ u '' | '' @ (if 1 < length row then row ! 1 else [])"

text \<open>Rows with a label are routed; the first cell that does not parse ends the page.\<close>

fun miet_rows ::
  "scrape_env \<Rightarrow> mietobjekt_table \<Rightarrow> pystr list list \<Rightarrow> py_error + (mietobjekt_table, provider_error) result" where
  "miet_rows env t [] = Inr (Ok t)"
| "miet_rows env t (row # rows) =
     (if row = [] \<or> hd row = [] then miet_rows env t rows
      else
        bind_err (cost env (if 1 < length row then row ! 1 else [])) (\<lambda>r.
          case r of
            Err e \<Rightarrow> Inr (Err e)
          | Ok c \<Rightarrow>
              (case split_label (hd row) of (base, suffix) \<Rightarrow>
                 miet_rows env
                   (case locker_of base suffix c (row_raw row) of
                      Some l \<Rightarrow> t\<lparr>mt_lockers := mt_lockers t @ [l]\<rparr>
                    | None \<Rightarrow> t\<lparr>mt_rentals := mt_rentals t @ [rental_of base suffix c (row_raw row)]\<rparr>) rows)))"

fun miet_chunks ::
  "scrape_env \<Rightarrow> mietobjekt_table \<Rightarrow> pystr list \<Rightarrow> py_error + (mietobjekt_table, provider_error) result" where
  "miet_chunks env t [] = Inr (Ok t)"
| "miet_chunks env t (chunk # chunks) =
     (case (rx_search COLUMNS_ATTR chunk, rx_search ROWS_ATTR chunk) of
        (Some columns, Some rows) \<Rightarrow>
          if \<not> contains MIETOBJEKT_HEADER (group columns 1) then miet_chunks env t chunks
          else
            bind_err (price_headers env (group columns 1)) (\<lambda>headers.
            bind_err (price_cells env (group rows 1)) (\<lambda>decoded.
              case (headers, decoded) of
                (Some hs, Some ds) \<Rightarrow>
                  if hs = [] \<or> hd hs \<noteq> MIETOBJEKT_HEADER then miet_chunks env t chunks
                  else bind_err (miet_rows env t ds) (\<lambda>r.
                         case r of Err e \<Rightarrow> Inr (Err e) | Ok t' \<Rightarrow> miet_chunks env t' chunks)
              | _ \<Rightarrow> Inr (Err (ParseError MIET_SOURCE
                     (u ''Mietobjekt-anchored <stzh-datatable> whose columns=/rows= attribute failed to decode'')
                     (take 200 chunk)))))
      | _ \<Rightarrow> miet_chunks env t chunks)"

definition parse_mietobjekte :: "scrape_env \<Rightarrow> pystr \<Rightarrow> py_error + (mietobjekt_table, provider_error) result" where
  "parse_mietobjekte env page_html =
     miet_chunks env \<lparr>mt_lockers = [], mt_rentals = []\<rparr> (tl (split_str TABLE_SPLIT page_html))"

end
