(* ===== verification/Operator_Pages.thy ===== *)
theory Operator_Pages
  imports Schedule_Scraper
begin

text \<open>
  The two parsers of prose: \<open>src/swimzh/providers/operator_pages.py\<close> (maintenance shutdowns on the
  pages of private operators) and \<open>src/swimzh/providers/planschbecken.py\<close> (the facts the shared
  overview page of the paddling pools states). A back reference to a tag name is one alternative
  for each name.
\<close>

section \<open>Operator pages\<close>

definition OPERATOR_MONTHS :: "(pystr \<times> int) list" where
  "OPERATOR_MONTHS = [(u ''januar'', 1), (u ''februar'', 2), ([109, 228] @ u ''rz'', 3), (u ''maerz'', 3), (u ''april'', 4),
     (u ''mai'', 5), (u ''juni'', 6), (u ''juli'', 7), (u ''august'', 8), (u ''september'', 9), (u ''oktober'', 10),
     (u ''november'', 11), (u ''dezember'', 12)]"

definition OPERATOR_MONTH_ALT :: rx where
  "OPERATOR_MONTH_ALT = r_any_of (map (r_lit_ci \<circ> fst) OPERATOR_MONTHS)"

definition MAINTENANCE_WORDS :: "pystr list" where
  "MAINTENANCE_WORDS = [u ''revision'', u ''betriebsferien'']"

definition WINDOW :: nat where
  "WINDOW = 320"

definition umlaut_letter :: "nat \<Rightarrow> bool" where
  "umlaut_letter c \<longleftrightarrow> (65 \<le> c \<and> c \<le> 90) \<or> (97 \<le> c \<and> c \<le> 122) \<or> c \<in> {196, 214, 220, 228, 246, 252}"

definition RANGE_RE :: rx where
  "RANGE_RE =
     r_seq [RGroup 1 (r_times 1 2 r_digit), r_lit (u ''.''), r_star r_space, RGroup 2 OPERATOR_MONTH_ALT,
            r_opt (r_lit (u ''.'')),
            r_opt (RSeq (r_plus r_space) (RGroup 3 (r_times 4 4 r_digit))),
            r_star r_space,
            RAlt (RChar (\<lambda>c. c = 8211)) (RAlt (RChar (\<lambda>c. c = 8212)) (RAlt (RChar (\<lambda>c. c = 45))
              (RSeq (r_lit_ci (u ''bis''))
                 (r_opt (r_seq [r_plus r_space, r_lit_ci (u ''und''), r_plus r_space, r_lit_ci (u ''mit'')]))))),
            r_star r_space,
            r_opt (r_seq [r_plus (RChar umlaut_letter), r_star r_space, r_lit (u '',''), r_star r_space]),
            RGroup 4 (r_times 1 2 r_digit), r_lit (u ''.''), r_star r_space, RGroup 5 OPERATOR_MONTH_ALT,
            r_opt (r_lit (u ''.'')),
            r_plus r_space, RGroup 6 (r_times 4 4 r_digit)]"

definition tag_body_re :: "pystr \<Rightarrow> rx" where
  "tag_body_re name =
     r_seq [r_lit_ci (60 # name), RWordB, r_lazy r_dot, r_lit_ci (u ''</'' @ name @ u ''>'')]"

definition SCRIPT_RE :: rx where
  "SCRIPT_RE = RAlt (tag_body_re (u ''script'')) (tag_body_re (u ''style''))"

definition operator_text :: "scrape_env \<Rightarrow> pystr \<Rightarrow> pystr" where
  "operator_text env page_html = page_text (sx_unescape env (rx_sub SCRIPT_RE [32] page_html))"

definition to_date :: "pystr \<Rightarrow> pystr \<Rightarrow> pystr \<Rightarrow> py_error + date option" where
  "to_date day_text month_text year_text =
     (case map_of OPERATOR_MONTHS (py_casefold month_text) of
        None \<Rightarrow> Inr None
      | Some m \<Rightarrow>
          (case bind_err (py_int_text year_text) (\<lambda>y. bind_err (py_int_text day_text) (\<lambda>d.
                  if \<not> (c_int y \<and> c_int d) then Inl OverflowError
                  else if valid_date (Date y m d) then Inr (Date y m d) else Inl ValueError)) of
             Inr x \<Rightarrow> Inr (Some x)
           | Inl e \<Rightarrow> if e = ValueError then Inr None else Inl e))"

text \<open>Where a word occurs: the positions \<open>str.find\<close> reports, each search starting one after the last.\<close>

definition word_positions :: "pystr \<Rightarrow> pystr \<Rightarrow> nat list" where
  "word_positions w s = filter (\<lambda>i. take (length w) (drop i s) = w) [0..<length s]"

definition windows :: "pystr \<Rightarrow> pystr list" where
  "windows s =
     concat (map (\<lambda>w. map (\<lambda>i. py_slice (i - WINDOW) (i + WINDOW) s) (word_positions w (py_casefold s))) MAINTENANCE_WORDS)"

definition operator_reason :: "pystr \<Rightarrow> pystr" where
  "operator_reason window = (if contains (u ''betriebsferien'') (py_casefold window) then u ''Betriebsferien'' else u ''Revision'')"

text \<open>The closures found so far; the pairs of dates seen are those of the closures.\<close>

definition range_step :: "pystr \<Rightarrow> closure_range list \<Rightarrow> (nat \<rightharpoonup> pystr) \<Rightarrow> py_error + closure_range list" where
  "range_step reason out m =
     bind_err (to_date (group m 1) (group m 2) (if group m 3 \<noteq> [] then group m 3 else group m 6)) (\<lambda>s.
     bind_err (to_date (group m 4) (group m 5) (group m 6)) (\<lambda>e.
       case (s, e) of
         (Some a, Some b) \<Rightarrow>
           if b < a \<or> (\<exists>c \<in> set out. cr_start c = a \<and> cr_end c = b) then Inr out
           else Inr (out @ [mk_closure_range a b reason SPECIAL []])
       | _ \<Rightarrow> Inr out))"

definition window_closures :: "closure_range list \<Rightarrow> pystr \<Rightarrow> py_error + closure_range list" where
  "window_closures out window = fold_err (range_step (operator_reason window)) (rx_findall RANGE_RE window) out"

definition parse_maintenance_closures :: "scrape_env \<Rightarrow> pystr \<Rightarrow> py_error + closure_range list" where
  "parse_maintenance_closures env page_html =
     bind_err (fold_err window_closures (windows (operator_text env page_html)) []) (\<lambda>cs.
       Inr (sort_key (\<lambda>c. (cr_start c, cr_end c)) cs))"

section \<open>The shared page of the paddling pools\<close>

definition PADDLING_SOURCE :: pystr where
  "PADDLING_SOURCE = u ''planschbecken''"

record shared_facts =
  sf_operating_season :: "operating_season_rec option"
  sf_admission :: admission

definition SEASON_SENTENCE_RE :: rx where
  "SEASON_SENTENCE_RE =
     RGroup 1 (r_seq [r_lazy (RChar (\<lambda>c. c \<noteq> 46)), RWordB, r_lit_ci (u ''von''), r_plus r_space, RGroup 2 MONTH_ALT,
       r_plus r_space, r_lit_ci (u ''bis''), r_plus r_space, RGroup 3 MONTH_ALT, r_plus r_space, r_lit_ci (u ''in''),
       r_plus r_space, r_lit_ci (u ''Betrieb''), r_star (RChar (\<lambda>c. c \<noteq> 46))])"

definition WEATHER_PHRASE :: pystr where
  "WEATHER_PHRASE = u ''je nach wetter''"

definition PADDLING_FREE_RE :: rx where
  "PADDLING_FREE_RE =
     r_seq [RWordB, r_lit_ci (u ''Nutzung''), RWordB, r_star (RChar (\<lambda>c. c \<noteq> 46)), RWordB, r_lit_ci (u ''kostenlos''), RWordB]"

definition ACCORDION_ITEM_RE :: rx where
  "ACCORDION_ITEM_RE = tag_body_re (u ''stzh-accordion-item'')"

definition page_level_text :: "scrape_env \<Rightarrow> pystr \<Rightarrow> pystr" where
  "page_level_text env page_html =
     (let without_accordions = rx_sub ACCORDION_ITEM_RE [32] page_html;
          without_scripts = rx_sub SCRIPT_RE [32] without_accordions
      in py_strip (rx_sub PAGE_WS_RE [32] (sx_unescape env (rx_sub PAGE_TAG_RE [32] without_scripts))))"

definition shared_facts_of :: "pystr \<Rightarrow> (nat \<rightharpoonup> pystr) \<Rightarrow> annual_window \<Rightarrow> shared_facts" where
  "shared_facts_of txt m window =
     \<lparr>sf_operating_season = Some \<lparr>os_window = window,
        os_weather = (if contains WEATHER_PHRASE (py_casefold (group m 1)) then FAIR_ONLY else ANY)\<rparr>,
      sf_admission = (if rx_search PADDLING_FREE_RE txt \<noteq> None then Free else Unknown)\<rparr>"

definition parse_planschbecken :: "scrape_env \<Rightarrow> pystr \<Rightarrow> py_error + (shared_facts, provider_error) result" where
  "parse_planschbecken env page_html =
     (let txt = page_level_text env page_html
      in case rx_search SEASON_SENTENCE_RE txt of
           None \<Rightarrow> Inr (Err (ParseError PADDLING_SOURCE
             (u ''season sentence ('' @ [39] @ u ''von <Monat> bis <Monat> in Betrieb'' @ [39] @ u '') not found'') (take 200 txt)))
         | Some m \<Rightarrow>
             bind_err (dict_at GERMAN_MONTHS (py_casefold (group m 2))) (\<lambda>sm.
             bind_err (dict_at GERMAN_MONTHS (py_casefold (group m 3))) (\<lambda>em.
             bind_err (whole_months sm em) (\<lambda>w. Inr (Ok (shared_facts_of txt m w))))))"

end
