(* ===== verification/Scrape.thy ===== *)
theory Scrape
  imports Price_Scraper Operator_Pages Compose Reconcile
begin

text \<open>
  \<open>src/swimzh/etl/scrape.py\<close>: which pages are scraped, what one page yields, and the two phases: every
  declared source, and every shared page with a registered parser. A getter threads the world; an
  exception of a parser ends the phase.
\<close>

section \<open>Declared sources\<close>

definition CLOSURE_WORDS :: "pystr list" where
  "CLOSURE_WORDS = [u ''geschlossen'', u ''revision'', u ''gesperrt'', u ''betriebsferien'']"

definition SCRAPEABLE_KINDS :: "pool_kind list" where
  "SCRAPEABLE_KINDS = [INDOOR, THERMAL, SCHOOL, OUTDOOR_POOL, LAKE, RIVER]"

definition UNPARSEABLE_OPERATOR_PAGES :: "pystr set" where
  "UNPARSEABLE_OPERATOR_PAGES = {u ''seebad-enge'', u ''dolder-wellenbad''}"

definition OPERATOR_CLOSURES :: "(pystr \<times> (scrape_env \<Rightarrow> pystr \<Rightarrow> py_error + closure_range list)) list" where
  "OPERATOR_CLOSURES = [(u ''hallenbad-altstetten'', parse_maintenance_closures)]"

type_synonym scrape_extract = "source_ref \<times> scraped_aspects"

record declared_source =
  ds_entry :: pool_catalog_entry
  ds_url :: pystr

record scrape_failure =
  scf_name :: pystr
  scf_url :: pystr
  scf_cause :: provider_error

record scrape_report =
  sr_extracts :: "scrape_extract list"
  sr_failures :: "scrape_failure list"
  sr_notes :: "pystr list"

text \<open>\<open>Counter(e.url for e in catalog if e.url)\<close>.\<close>

definition url_count :: "pool_catalog_entry list \<Rightarrow> pystr \<Rightarrow> nat" where
  "url_count catalog url = length (filter (\<lambda>e. pce_url e = Some url \<and> url \<noteq> []) catalog)"

definition declares_page :: "pool_catalog_entry list \<Rightarrow> pool_catalog_entry \<Rightarrow> declared_source option" where
  "declares_page catalog e =
     (case pce_url e of
        None \<Rightarrow> None
      | Some url \<Rightarrow>
          if pce_kind e \<in> set SCRAPEABLE_KINDS \<and> pce_pool_id e \<notin> UNPARSEABLE_OPERATOR_PAGES \<and> url_count catalog url = 1
          then Some \<lparr>ds_entry = e, ds_url = url\<rparr> else None)"

definition scrape_sources :: "pool_catalog_entry list \<Rightarrow> declared_source list" where
  "scrape_sources catalog = List.map_filter (declares_page catalog) catalog"

section \<open>One page\<close>

definition closures_from_notices :: "notice list \<Rightarrow> closure_range list" where
  "closures_from_notices ns =
     List.map_filter (\<lambda>n. case (active_from n, active_to n) of
         (Some a, Some b) \<Rightarrow>
           if \<exists>w \<in> set CLOSURE_WORDS. contains w (py_lower (no_text n))
           then Some (mk_closure_range a b (no_text n) SPECIAL []) else None
       | _ \<Rightarrow> None) ns"

definition main_basin :: "pool_catalog_entry \<Rightarrow> schedule_rule list \<Rightarrow> basin" where
  "main_basin e rules =
     \<lparr>bn_id = pce_pool_id e @ u ''-main'', bn_name = u ''Hauptbecken'', bn_rules = rules, bn_exceptions = [],
      bn_kind = BASIN_OTHER, bn_dimensions = None, bn_lanes = None, nominal_temp_c = None, measured_temp_c = None,
      diving_platforms_m = [], physical_source = CURATED_PHYSICALS, lane_plan_source_of = None, lane_plan_of = None\<rparr>"

definition page_aspects ::
  "pool_catalog_entry \<Rightarrow> scraped_schedule \<Rightarrow> notice list \<Rightarrow> closure_range list \<Rightarrow> admission \<Rightarrow> mietobjekt_table \<Rightarrow>
   datetime \<Rightarrow> scraped_aspects" where
  "page_aspects e schedule ns cs adm miet fetched_at =
     \<lparr>sa_name = pce_name e, sa_kind = pce_kind e, sa_address = pce_address e, sa_geo = pce_geo e,
      sa_basins = [main_basin e (scs_rules schedule)], sa_closures = cs, sa_notices = ns, sa_admission = adm,
      sa_fetched_at = fetched_at, sa_features = [], sa_lockers = mt_lockers miet, sa_rentals = mt_rentals miet,
      sa_public_holiday_policy = scs_holiday_policy schedule,
      sa_last_admission_before = scs_last_admission_before schedule, sa_operating_season = None\<rparr>"

definition admission_for ::
  "scrape_env \<Rightarrow> declared_source \<Rightarrow> pystr \<Rightarrow> city_tariffs \<Rightarrow> py_error + admission" where
  "admission_for env source page tariffs =
     bind_err (states_city_tariff env page) (\<lambda>linked.
       Inr (if linked
            then Tariff (if pce_kind (ds_entry source) = SCHOOL then school_tariff tariffs else general_tariff tariffs)
            else if states_free_admission page then Free else Unknown))"

definition admission_notes :: "declared_source \<Rightarrow> pystr \<Rightarrow> admission \<Rightarrow> pystr list" where
  "admission_notes source page adm =
     (let who = pce_pool_id (ds_entry source) @ u '' ('' @ ds_url source @ u '')''
      in case adm of
           Unknown \<Rightarrow> [u ''no city tariff stated: '' @ who]
         | Tariff t \<Rightarrow>
             if states_free_admission page
             then [u ''contradiction: '' @ who @ u '' links the city tariff but also states free admission''] else []
         | Free \<Rightarrow> [])"

definition page_closures :: "scrape_env \<Rightarrow> pystr \<Rightarrow> pystr \<Rightarrow> notice list \<Rightarrow> py_error + closure_range list" where
  "page_closures env pid page ns =
     (case map_of OPERATOR_CLOSURES pid of
        None \<Rightarrow> Inr (closures_from_notices ns)
      | Some operator \<Rightarrow> bind_err (operator env page) (\<lambda>cs. Inr (closures_from_notices ns @ cs)))"

text \<open>What a page yields: its aspects and the notes, or the cause of its failure.\<close>

definition scrape_page ::
  "scrape_env \<Rightarrow> city_tariffs \<Rightarrow> datetime \<Rightarrow> declared_source \<Rightarrow> pystr \<Rightarrow>
   py_error + (scraped_aspects \<times> pystr list, provider_error) result" where
  "scrape_page env tariffs fetched_at source page =
     bind_err (parse_schedule env page) (\<lambda>schedule.
       case schedule of
         Err e \<Rightarrow> Inr (Err e)
       | Ok s \<Rightarrow>
           bind_err (parse_mietobjekte env page) (\<lambda>miet.
             case miet of
               Err e \<Rightarrow> Inr (Err e)
             | Ok m \<Rightarrow>
                 (let ns = parse_notices env page
                  in bind_err (admission_for env source page tariffs) (\<lambda>adm.
                     bind_err (page_closures env (pce_pool_id (ds_entry source)) page ns) (\<lambda>cs.
                       Inr (Ok (page_aspects (ds_entry source) s ns cs adm m fetched_at,
                                admission_notes source page adm)))))))"

section \<open>The declared phase\<close>

definition add_outcome ::
  "scrape_report \<Rightarrow> declared_source \<Rightarrow> (scraped_aspects \<times> pystr list, provider_error) result \<Rightarrow> scrape_report" where
  "add_outcome rep source outcome =
     (case outcome of
        Err e \<Rightarrow> rep\<lparr>sr_failures := sr_failures rep @
                  [\<lparr>scf_name = pce_name (ds_entry source), scf_url = ds_url source, scf_cause = e\<rparr>]\<rparr>
      | Ok (a, notes) \<Rightarrow> rep\<lparr>sr_extracts := sr_extracts rep @ [(Name (pce_name (ds_entry source)), a)],
                           sr_notes := sr_notes rep @ notes\<rparr>)"

definition EMPTY_REPORT :: scrape_report where
  "EMPTY_REPORT = \<lparr>sr_extracts = [], sr_failures = [], sr_notes = []\<rparr>"

fun scrape_loop ::
  "scrape_env \<Rightarrow> 'w getter \<Rightarrow> city_tariffs \<Rightarrow> datetime \<Rightarrow> scrape_report \<Rightarrow> declared_source list \<Rightarrow> 'w \<Rightarrow>
   (py_error + scrape_report) \<times> 'w" where
  "scrape_loop env get tariffs fetched_at rep [] w = (Inr rep, w)"
| "scrape_loop env get tariffs fetched_at rep (source # sources) w =
     (case fetch_page get (ds_url source) w of (r, w') \<Rightarrow>
        (case bind_err r (\<lambda>r. case r of
                 Err e \<Rightarrow> Inr (Err e)
               | Ok raw \<Rightarrow> scrape_page env tariffs fetched_at source (decode_utf8_replace raw)) of
           Inl e \<Rightarrow> (Inl e, w')
         | Inr outcome \<Rightarrow> scrape_loop env get tariffs fetched_at (add_outcome rep source outcome) sources w'))"

definition scrape_declared_sources ::
  "scrape_env \<Rightarrow> 'w getter \<Rightarrow> pool_catalog_entry list \<Rightarrow> datetime \<Rightarrow> city_tariffs \<Rightarrow> 'w \<Rightarrow>
   (py_error + scrape_report) \<times> 'w" where
  "scrape_declared_sources env get catalog fetched_at tariffs w =
     scrape_loop env get tariffs fetched_at EMPTY_REPORT (scrape_sources catalog) w"

section \<open>The shared phase\<close>

type_synonym shared_parser = "scrape_env \<Rightarrow> pystr \<Rightarrow> py_error + (shared_facts, provider_error) result"

definition PADDLING_URL :: pystr where
  "PADDLING_URL =
     u ''https://www.stadt-zuerich.ch/de/stadtleben/sport-und-erholung/sport-und-badeanlagen/sommerbaeder/planschbecken.html''"

definition SHARED_PAGE_PARSERS :: "(pystr \<times> shared_parser) list" where
  "SHARED_PAGE_PARSERS = [(PADDLING_URL, parse_planschbecken)]"

record shared_source =
  ss_url :: pystr
  ss_members :: "pool_catalog_entry list"
  ss_parse :: shared_parser

text \<open>The entries of each URL in first-seen order; then the admitted ones, by URL.\<close>

definition by_url :: "pool_catalog_entry list \<Rightarrow> (pystr \<times> pool_catalog_entry list) list" where
  "by_url catalog = group_pairs (List.map_filter (\<lambda>e. map_option (\<lambda>url. (url, e)) (pce_url e)) catalog)"

definition shared_sources :: "pool_catalog_entry list \<Rightarrow> shared_source list" where
  "shared_sources catalog =
     List.map_filter (\<lambda>(url, members).
         case map_of SHARED_PAGE_PARSERS url of
           None \<Rightarrow> None
         | Some p \<Rightarrow> if 1 < length members then Some \<lparr>ss_url = url, ss_members = members, ss_parse = p\<rparr> else None)
       (sort_key fst (by_url catalog))"

definition shared_aspects :: "pool_catalog_entry \<Rightarrow> shared_facts \<Rightarrow> datetime \<Rightarrow> scraped_aspects" where
  "shared_aspects e facts fetched_at =
     \<lparr>sa_name = pce_name e, sa_kind = pce_kind e, sa_address = pce_address e, sa_geo = pce_geo e, sa_basins = [],
      sa_closures = [], sa_notices = [], sa_admission = sf_admission facts, sa_fetched_at = fetched_at,
      sa_features = [], sa_lockers = [], sa_rentals = [], sa_public_holiday_policy = None,
      sa_last_admission_before = None, sa_operating_season = sf_operating_season facts\<rparr>"

definition inert_notes :: "pool_catalog_entry list \<Rightarrow> pystr list" where
  "inert_notes catalog =
     List.map_filter (\<lambda>(url, p).
       if url_count catalog url < 2
       then Some (u ''registered shared page has '' @ str_of_int (int (url_count catalog url))
                    @ u '' roster sharer(s); fan-out inert: '' @ url)
       else None) SHARED_PAGE_PARSERS"

definition add_shared :: "datetime \<Rightarrow> scrape_report \<Rightarrow> shared_source \<Rightarrow> (shared_facts, provider_error) result \<Rightarrow> scrape_report" where
  "add_shared fetched_at rep source outcome =
     (case outcome of
        Err e \<Rightarrow> rep\<lparr>sr_failures := sr_failures rep @
                  [\<lparr>scf_name = u ''shared page ('' @ str_of_int (int (length (ss_members source))) @ u '' pools)'',
                    scf_url = ss_url source, scf_cause = e\<rparr>]\<rparr>
      | Ok facts \<Rightarrow>
          rep\<lparr>sr_extracts := sr_extracts rep @ map (\<lambda>e. (Name (pce_name e), shared_aspects e facts fetched_at)) (ss_members source),
              sr_notes := sr_notes rep @
                (case sf_admission facts of Unknown \<Rightarrow> [u ''no admission stated on shared page: '' @ ss_url source] | _ \<Rightarrow> [])\<rparr>)"

fun shared_loop ::
  "scrape_env \<Rightarrow> 'w getter \<Rightarrow> datetime \<Rightarrow> scrape_report \<Rightarrow> shared_source list \<Rightarrow> 'w \<Rightarrow> (py_error + scrape_report) \<times> 'w" where
  "shared_loop env get fetched_at rep [] w = (Inr rep, w)"
| "shared_loop env get fetched_at rep (source # sources) w =
     (case fetch_page get (ss_url source) w of (r, w') \<Rightarrow>
        (case bind_err r (\<lambda>r. case r of
                 Err e \<Rightarrow> Inr (Err e)
               | Ok raw \<Rightarrow> ss_parse source env (decode_utf8_replace raw)) of
           Inl e \<Rightarrow> (Inl e, w')
         | Inr outcome \<Rightarrow> shared_loop env get fetched_at (add_shared fetched_at rep source outcome) sources w'))"

definition scrape_shared_sources ::
  "scrape_env \<Rightarrow> 'w getter \<Rightarrow> pool_catalog_entry list \<Rightarrow> datetime \<Rightarrow> 'w \<Rightarrow> (py_error + scrape_report) \<times> 'w" where
  "scrape_shared_sources env get catalog fetched_at w =
     shared_loop env get fetched_at (EMPTY_REPORT\<lparr>sr_notes := inert_notes catalog\<rparr>) (shared_sources catalog) w"

end
