(* ===== verification/Page_Facts.thy ===== *)
theory Page_Facts
  imports Scrape Dto_Facts
begin

text \<open>
  What the parsers of a pool's page can return: times in order, seasons in the calendar, rules with days, and
  closures whose code is the one their printed reason gives.
\<close>

section \<open>Windows and times\<close>

lemma mk_month_day_good: "mk_month_day m d = Inr x \<Longrightarrow> good_month_day x"
  by (auto simp: mk_month_day_def good_month_day_def split: if_splits sum.splits)

lemma whole_months_good: "whole_months sm em = Inr w \<Longrightarrow> good_window w"
  by (auto simp: whole_months_def good_window_def mk_month_day_good split: sum.splits)

lemma day_window_good: "day_window sm sd em ed = Inr w \<Longrightarrow> good_window w"
  by (auto simp: day_window_def bind_err_Inr good_window_def mk_month_day_good)

lemma split_season_good: "split_season cell = Inr (rest, Some w) \<Longrightarrow> good_window w"
proof (cases "rx_find SEASON_RE cell")
  case (Some hit)
  obtain i j m where hit: "hit = (i, j, m)" by (cases hit)
  assume "split_season cell = Inr (rest, Some w)"
  with Some hit show ?thesis
    by (cases "m 1"; cases "m 3") (auto simp: split_season_def bind_err_Inr Let_def intro: day_window_good whole_months_good)
qed (simp add: split_season_def)

lemma parse_zeitraum_good: "parse_zeitraum cell = Inr (Some w) \<Longrightarrow> good_window w"
  by (auto simp: parse_zeitraum_def bind_err_Inr day_window_good split: option.splits)

lemma parse_time_range_wf: "parse_time_range cell = Inr (Some r) \<Longrightarrow> wf_time_range r"
  by (auto simp: parse_time_range_def bind_err_Inr mk_time_range_iff split: list.splits sum.splits if_splits)

section \<open>Rules\<close>

definition page_rule :: "schedule_rule \<Rightarrow> bool" where
  "page_rule r \<longleftrightarrow> good_rule r \<and> sr_weekdays r \<noteq> {} \<and> sr_scope r = ALWAYS"

definition good_slot :: "time_slot \<Rightarrow> bool" where
  "good_slot s \<longleftrightarrow> wf_time_range (sl_time s) \<and> (\<forall>w. sl_season s = Some w \<longrightarrow> good_window w)"

lemma slot_step_good:
  assumes "slot_step cats out (i, part) = Inr out'" "list_all good_slot out"
  shows "list_all good_slot out'"
proof -
  obtain hours season range where parts: "split_season part = Inr (hours, season)" "parse_time_range hours = Inr range"
    using assms(1) by (auto simp: slot_step_def bind_err_Inr)
  show ?thesis
  proof (cases range)
    case (Some r)
    have "wf_time_range r" "season = Some w \<Longrightarrow> good_window w" for w
      using parts Some by (auto intro: parse_time_range_wf split_season_good)
    with assms parts Some show ?thesis by (auto simp: slot_step_def bind_err_Inr good_slot_def Let_def)
  qed (use assms parts in \<open>simp add: slot_step_def\<close>)
qed

lemma slots_good: "slots h c = Inr ss \<Longrightarrow> list_all good_slot ss"
  unfolding slots_def Let_def by (erule fold_err_invariant) (auto intro: slot_step_good)

lemma rule_of_slot_good: "good_slot s \<Longrightarrow> days \<noteq> {} \<Longrightarrow> page_rule (rule_of_slot days s)"
  by (simp add: page_rule_def good_rule_def good_slot_def rule_of_slot_def)

lemma rules_from_rows_good: "rules_from_rows rows = Inr rs \<Longrightarrow> list_all page_rule rs"
proof -
  assume "rules_from_rows rows = Inr rs"
  then obtain st where st: "fold_err row_step rows ({}, []) = Inr st" "rs = snd st"
    by (auto simp: rules_from_rows_def bind_err_Inr)
  from st(1) have "list_all page_rule (snd st)"
  proof (rule fold_err_invariant)
    fix s row s' assume s: "list_all page_rule (snd s)" "row_step s row = Inr s'"
    then obtain cell where cell: "py_index row 0 = Inr cell" by (auto simp: row_step_def bind_err_Inr)
    define days where "days = (if parse_days cell \<noteq> {} then parse_days cell else fst s)"
    have step: "row_step s row = (if days = {} then Inr (days, snd s) else bind_err (py_index row 1) (\<lambda>hours.
        bind_err (slots hours (if 3 \<le> length row then Some (row ! 2) else None)) (\<lambda>ss. Inr (days, snd s @ map (rule_of_slot days) ss))))"
      unfolding days_def by (simp add: row_step_def cell Let_def del: if_split)
    show "list_all page_rule (snd s')"
    proof (cases "days = {}")
      case True
      with s step show ?thesis by auto
    next
      case False
      with s(2) obtain hours category ss where "slots hours category = Inr ss" "s' = (days, snd s @ map (rule_of_slot days) ss)"
        unfolding step if_not_P [OF False] bind_err_Inr by blast
      with s(1) slots_good [of hours category ss] rule_of_slot_good [OF _ False] show ?thesis by (auto simp: list_all_iff)
    qed
  qed simp
  with st(2) show ?thesis by simp
qed

lemma season_part_good: "season_part w wx part = Inr rs \<Longrightarrow> good_window w \<Longrightarrow> list_all page_rule rs"
proof -
  have days: "snd (split_weekdays c) \<noteq> {}" for c
    by (auto simp: split_weekdays_def all_weekdays_def Let_def split: option.splits)
  assume part: "season_part w wx part = Inr rs" and w: "good_window w"
  show "list_all page_rule rs"
  proof (cases "py_strip part = []")
    case False
    obtain hours days where split: "split_weekdays part = (hours, days)" by fastforce
    then have "days \<noteq> {}" using days [of part] by simp
    from part False split obtain range where range: "parse_time_range hours = Inr range" by (auto simp: season_part_def bind_err_Inr)
    with part False split w \<open>days \<noteq> {}\<close> parse_time_range_wf [of hours] show ?thesis
      by (cases range) (auto simp: season_part_def page_rule_def good_rule_def)
  qed (use part in \<open>simp add: season_part_def\<close>)
qed

lemma map_err_list_all: "map_err f xs = Inr ys \<Longrightarrow> (\<And>x y. x \<in> set xs \<Longrightarrow> f x = Inr y \<Longrightarrow> P y) \<Longrightarrow> list_all P ys"
  unfolding map_err_Inr by (induction rule: list_all2_induct) auto

lemma season_cell_good: "season_rules_from_cell cell w wx = Inr rs \<Longrightarrow> good_window w \<Longrightarrow> list_all page_rule rs"
  by (auto simp: season_rules_from_cell_def bind_err_Inr list_all_iff
      dest!: map_err_list_all [where P = "list_all page_rule"] intro: season_part_good)

lemma season_rows_good: "rules_from_season_rows cols rows = Inr rs \<Longrightarrow> list_all page_rule rs"
proof -
  assume "rules_from_season_rows cols rows = Inr rs"
  then obtain st where st: "fold_err (season_row_step (map weather_of (drop 1 cols))) rows (None, []) = Inr st" "rs = snd st"
    by (auto simp: rules_from_season_rows_def bind_err_Inr)
  let ?P = "\<lambda>st. list_all page_rule (snd st) \<and> (\<forall>w. fst st = Some w \<longrightarrow> good_window w)"
  from st(1) have "?P st"
  proof (rule fold_err_invariant)
    fix s row s' assume s: "?P s" "season_row_step (map weather_of (drop 1 cols)) s row = Inr s'"
    then obtain own where own: "(if row \<noteq> [] then parse_zeitraum (hd row) else Inr None) = Inr own"
      by (auto simp: season_row_step_def bind_err_Inr)
    then have g: "own = Some w \<Longrightarrow> good_window w" for w by (auto split: if_splits dest: parse_zeitraum_good)
    show "?P s'"
    proof (cases "case own of Some w \<Rightarrow> Some w | None \<Rightarrow> fst s")
      case None
      with s own show ?thesis by (auto simp: season_row_step_def)
    next
      case (Some w)
      then have w: "good_window w" using g s(1) by (auto split: option.splits)
      from s(2) own Some obtain rss where
        "map_err (\<lambda>(i, wx). if i < length row then season_rules_from_cell (row ! i) w wx else Inr [])
           (enumerate 1 (map weather_of (drop 1 cols))) = Inr rss" "s' = (Some w, snd s @ concat rss)"
        by (auto simp: season_row_step_def bind_err_Inr)
      moreover from this(1) have "list_all (list_all page_rule) rss"
        by (rule map_err_list_all) (auto split: if_splits intro: season_cell_good [OF _ w])
      ultimately show ?thesis using s(1) w by (auto simp: list_all_iff)
    qed
  qed simp
  with st(2) show ?thesis by simp
qed


section \<open>Pages\<close>

lemma city_rules_good:
  assumes "parse_stadtzurich env page = Inr (Ok s)"
  shows "list_all page_rule (scs_rules s) \<and> scs_rules s \<noteq> []"
proof -
  obtain st where st: "fold_err (city_step page) (data_tables env page) \<lparr>cst_rules = [], cst_weekly = [], cst_previous = 0\<rparr> = Inr st"
    "scs_rules s = cst_rules st" "cst_rules st \<noteq> []"
    using assms by (auto simp: parse_stadtzurich_def bind_err_Inr split: if_splits)
  from st(1) have "list_all page_rule (cst_rules st)"
  proof (rule fold_err_invariant)
    fix s t s' assume "list_all page_rule (cst_rules s)" "city_step page s t = Inr s'"
    then show "list_all page_rule (cst_rules s')"
      by (auto simp: city_step_def bind_err_Inr Let_def dest: rules_from_rows_good season_rows_good split: if_splits)
  qed simp
  with st show ?thesis by simp
qed

lemma table_rules_good: "first_with_rules cs = Inr (Ok s) \<Longrightarrow> list_all page_rule (scs_rules s) \<and> scs_rules s \<noteq> []"
  by (induction cs rule: first_with_rules.induct) (auto simp: bind_err_Inr dest: rules_from_rows_good split: if_splits)

lemma parse_schedule_good:
  assumes "parse_schedule env page = Inr (Ok s)"
  shows "list_all page_rule (scs_rules s) \<and> scs_rules s \<noteq> []"
proof -
  have "parse_stadtzurich env page = Inr (Ok s) \<or> parse_html_table env page = Inr (Ok s)"
    using assms by (cases "parse_stadtzurich env page"; cases "parse_html_table env page")
      (auto simp: parse_schedule_def PARSERS_def split: result.splits)
  then show ?thesis
    by (auto simp: parse_html_table_def Let_def dest!: city_rules_good table_rules_good)
qed

section \<open>Closures and seasons\<close>

lemma mk_closure_range_good: "good_closure (mk_closure_range a b reason SPECIAL [])"
  by (simp add: good_closure_def mk_closure_range_def split: prod.split)

lemma notice_closures_good: "list_all good_closure (closures_from_notices ns)"
  by (auto simp: closures_from_notices_def list_all_iff map_filter_def mk_closure_range_good split: option.splits if_splits)

lemma range_step_good:
  assumes "range_step reason out m = Inr out'" "list_all good_closure out"
  shows "list_all good_closure out'"
proof -
  obtain a b where "to_date (group m 1) (group m 2) (if group m 3 \<noteq> [] then group m 3 else group m 6) = Inr a"
    "to_date (group m 4) (group m 5) (group m 6) = Inr b"
    using assms(1) unfolding range_step_def bind_err_Inr by blast
  with assms show ?thesis
    by (cases a; cases b) (auto simp: range_step_def mk_closure_range_good split: if_splits)
qed

lemma operator_closures_good: "parse_maintenance_closures env page = Inr cs \<Longrightarrow> list_all good_closure cs"
proof -
  assume "parse_maintenance_closures env page = Inr cs"
  then obtain cs' where cs: "fold_err window_closures (windows (operator_text env page)) [] = Inr cs'" "set cs = set cs'"
    by (auto simp: parse_maintenance_closures_def bind_err_Inr)
  from cs(1) have "list_all good_closure cs'"
  proof (rule fold_err_invariant)
    fix out window out' assume "list_all good_closure out" "window_closures out window = Inr out'"
    from this(2,1) show "list_all good_closure out'" unfolding window_closures_def
      by (rule fold_err_invariant) (rule range_step_good)
  qed simp
  with cs(2) show ?thesis by (simp add: list_all_iff)
qed

lemma page_closures_good: "page_closures env pid page ns = Inr cs \<Longrightarrow> list_all good_closure cs"
  using notice_closures_good [of ns]
  by (auto simp: page_closures_def OPERATOR_CLOSURES_def bind_err_Inr dest: operator_closures_good split: if_splits)

lemma shared_season_good: "parse_planschbecken env page = Inr (Ok facts) \<Longrightarrow> sf_operating_season facts = Some x \<Longrightarrow> good_season x"
  by (auto simp: parse_planschbecken_def shared_facts_of_def bind_err_Inr good_season_def Let_def whole_months_good split: option.splits)

end
