(* ===== verification/Scrape_Properties.thy ===== *)
theory Scrape_Properties
  imports Page_Facts Codec_Properties Compose_Properties
begin

text \<open>
  What the scrape phases promise: no page is read twice or by both phases, every source ends up as an extract
  or as a failure, and what was read can be composed and stored.
\<close>

section \<open>Which pages are read\<close>

lemma scrape_sources_mem:
  "s \<in> set (scrape_sources catalog) \<longleftrightarrow> (\<exists>e \<in> set catalog. declares_page catalog e = Some s)"
  by (force simp: scrape_sources_def map_filter_def)

lemma declares_pageD:
  "declares_page catalog e = Some s \<Longrightarrow>
     ds_entry s = e \<and> pce_url e = Some (ds_url s) \<and> url_count catalog (ds_url s) = 1 \<and> pce_kind e \<in> set SCRAPEABLE_KINDS"
  by (auto simp: declares_page_def split: option.splits if_splits)

definition carriers :: "pool_catalog_entry list \<Rightarrow> pystr \<Rightarrow> pool_catalog_entry list" where
  "carriers catalog url = filter (\<lambda>e. pce_url e = Some url) catalog"

lemma url_count_carriers: "url_count catalog url = (if url = [] then 0 else length (carriers catalog url))"
  by (simp add: url_count_def carriers_def)

lemma by_url_members: "(url, ms) \<in> set (by_url catalog) \<Longrightarrow> ms = carriers catalog url"
proof -
  have "map snd (filter (\<lambda>p. fst p = url) (List.map_filter (\<lambda>e. map_option (\<lambda>url. (url, e)) (pce_url e)) catalog)) =
      carriers catalog url"
    by (induction catalog) (auto simp: map_filter_simps carriers_def split: option.splits)
  then show "(url, ms) \<in> set (by_url catalog) \<Longrightarrow> ms = carriers catalog url"
    by (simp add: by_url_def group_pairs_mem)
qed

lemma shared_sourcesD:
  "s \<in> set (shared_sources catalog) \<Longrightarrow> ss_members s = carriers catalog (ss_url s) \<and> 1 < length (ss_members s)"
  by (auto simp: shared_sources_def map_filter_def dest!: by_url_members split: if_splits option.splits)

lemma map_filter_keys_distinct:
  assumes "distinct (map key xs)" "\<And>x y. x \<in> set xs \<Longrightarrow> f x = Some y \<Longrightarrow> key' y = key x"
  shows "distinct (map key' (List.map_filter f xs))"
  using assms
proof (induction xs)
  case (Cons x xs)
  have keys: "key' ` set (List.map_filter f xs) \<subseteq> key ` set xs"
    using Cons.prems(2) by (force simp: map_filter_def)
  have "distinct (map key' (List.map_filter f xs))" using Cons by simp
  moreover have "key' y \<notin> key' ` set (List.map_filter f xs)" if "f x = Some y" for y
    using keys Cons.prems(1) Cons.prems(2) [of x y] that by auto
  ultimately show ?case by (cases "f x") (simp_all add: map_filter_simps)
qed (simp add: map_filter_simps)

lemma shared_urls_distinct: "distinct (map ss_url (shared_sources catalog))"
  unfolding shared_sources_def
proof (rule map_filter_keys_distinct [where key = fst])
  show "distinct (map fst (sort_key fst (by_url catalog)))"
    using group_pairs_distinct by (simp add: distinct_map by_url_def inj_on_def)
qed (auto split: option.splits if_splits)

lemma declared_urls_distinct: "distinct (map ds_url (scrape_sources catalog))"
proof -
  have "distinct (map ds_url (List.map_filter (declares_page catalog) xs))"
    if "\<And>url. length (carriers xs url) \<le> length (carriers catalog url)" for xs
    using that
  proof (induction xs)
    case (Cons e xs)
    have "length (carriers xs url) \<le> length (carriers catalog url)" for url
      using Cons.prems [of url] by (simp add: carriers_def split: if_splits)
    note IH = Cons.IH [OF this]
    show ?case
    proof (cases "declares_page catalog e")
      case (Some s)
      note e = declares_pageD [OF Some]
      have "s' \<notin> set (List.map_filter (declares_page catalog) xs)" if "ds_url s' = ds_url s" for s'
      proof
        assume "s' \<in> set (List.map_filter (declares_page catalog) xs)"
        then obtain e' where "e' \<in> set xs" "declares_page catalog e' = Some s'" by (auto simp: map_filter_def)
        then have "e' \<in> set xs" "pce_url e' = Some (ds_url s)" using that declares_pageD by metis+
        then have "0 < length (carriers xs (ds_url s))" by (auto simp: carriers_def filter_empty_conv)
        moreover have "length (carriers catalog (ds_url s)) = 1" using e by (simp add: url_count_carriers split: if_splits)
        ultimately show False using Cons.prems [of "ds_url s"] e by (simp add: carriers_def)
      qed
      then show ?thesis using IH Some by (auto simp: map_filter_simps)
    qed (simp add: map_filter_simps IH)
  qed (simp add: map_filter_simps)
  then show ?thesis by (simp add: scrape_sources_def)
qed

section \<open>The loops\<close>

text \<open>A report with the outcomes of the pages added in order.\<close>

lemma scrape_loop_outcomes:
  "scrape_loop env get tariffs t rep ss w = (Inr rep', w') \<Longrightarrow>
     \<exists>outs. length outs = length ss \<and> rep' = foldl (\<lambda>r (s, out). add_outcome r s out) rep (zip ss outs) \<and>
       (\<forall>(s, out) \<in> set (zip ss outs). \<forall>a ns. out = Ok (a, ns) \<longrightarrow>
          (\<exists>page. scrape_page env tariffs t s page = Inr (Ok (a, ns))))"
proof (induction ss arbitrary: rep w)
  case (Cons s ss)
  obtain r w1 where r: "fetch_page get (ds_url s) w = (r, w1)" by fastforce
  let ?out = "bind_err r (\<lambda>r. case r of Err e \<Rightarrow> Inr (Err e) | Ok raw \<Rightarrow> scrape_page env tariffs t s (decode_utf8_replace raw))"
  from Cons.prems r obtain out where out: "?out = Inr out" "scrape_loop env get tariffs t (add_outcome rep s out) ss w1 = (Inr rep', w')"
    by (cases ?out) auto
  from Cons.IH [OF out(2)] obtain outs where outs: "length outs = length ss"
    "rep' = foldl (\<lambda>r (s, out). add_outcome r s out) (add_outcome rep s out) (zip ss outs)"
    "\<forall>(s, out) \<in> set (zip ss outs). \<forall>a ns. out = Ok (a, ns) \<longrightarrow> (\<exists>page. scrape_page env tariffs t s page = Inr (Ok (a, ns)))"
    by blast
  have "\<exists>page. scrape_page env tariffs t s page = Inr (Ok (a, ns))" if "out = Ok (a, ns)" for a ns
    using out(1) that by (cases r) (auto split: result.splits)
  with outs show ?case by (intro exI [of _ "out # outs"]) auto
qed auto


lemma shared_loop_outcomes:
  "shared_loop env get t rep ss w = (Inr rep', w') \<Longrightarrow>
     \<exists>outs. length outs = length ss \<and> rep' = foldl (\<lambda>r (s, out). add_shared t r s out) rep (zip ss outs)"
proof (induction ss arbitrary: rep w)
  case (Cons s ss)
  obtain r w1 where r: "fetch_page get (ss_url s) w = (r, w1)" by fastforce
  let ?out = "bind_err r (\<lambda>r. case r of Err e \<Rightarrow> Inr (Err e) | Ok raw \<Rightarrow> ss_parse s env (decode_utf8_replace raw))"
  from Cons.prems r obtain out where "?out = Inr out" "shared_loop env get t (add_shared t rep s out) ss w1 = (Inr rep', w')"
    by (cases ?out) auto
  from Cons.IH [OF this(2)] obtain outs where "length outs = length ss"
    "rep' = foldl (\<lambda>r (s, out). add_shared t r s out) (add_shared t rep s out) (zip ss outs)" by blast
  then show ?case by (intro exI [of _ "out # outs"]) simp
qed simp

section \<open>Every source is accounted for\<close>

definition read_ok :: "('s \<times> ('a, 'e) result) list \<Rightarrow> 's list" where
  "read_ok outs = List.map_filter (\<lambda>(s, out). case out of Ok v \<Rightarrow> Some s | Err e \<Rightarrow> None) outs"

definition read_failed :: "('s \<times> ('a, 'e) result) list \<Rightarrow> 's list" where
  "read_failed outs = List.map_filter (\<lambda>(s, out). case out of Ok v \<Rightarrow> None | Err e \<Rightarrow> Some s) outs"

lemma read_simps [simp]:
  "read_ok [] = []" "read_failed [] = []" "read_ok ((s, Ok v) # outs) = s # read_ok outs" "read_ok ((s, Err e) # outs) = read_ok outs"
  "read_failed ((s, Ok v) # outs) = read_failed outs" "read_failed ((s, Err e) # outs) = s # read_failed outs"
  by (simp_all add: read_ok_def read_failed_def map_filter_simps)

lemma read_partition: "length outs = length ss \<Longrightarrow> mset (read_ok (zip ss outs)) + mset (read_failed (zip ss outs)) = mset ss"
proof (induction rule: list_induct2)
  case (Cons out outs s ss)
  then show ?case by (cases out) simp_all
qed simp

text \<open>What an extract says of the pool's entry in the roster.\<close>

definition stated_entry :: "scrape_extract \<Rightarrow> source_ref \<times> pool_kind \<times> pystr \<times> geo_point option" where
  "stated_entry x = (fst x, sa_kind (snd x), sa_address (snd x), sa_geo (snd x))"

definition entry_facts :: "pool_catalog_entry \<Rightarrow> source_ref \<times> pool_kind \<times> pystr \<times> geo_point option" where
  "entry_facts e = (Name (pce_name e), pce_kind e, pce_address e, pce_geo e)"

lemma err_first_Inr:
  "(case v of Err e \<Rightarrow> Inr (Err e) | Ok x \<Rightarrow> f x) = Inr (Ok y) \<longleftrightarrow> (\<exists>x. v = Ok x \<and> f x = Inr (Ok y))"
  by (cases v) auto

lemma page_states_entry:
  "scrape_page env tariffs t s page = Inr (Ok (a, ns)) \<Longrightarrow>
     stated_entry (Name (pce_name (ds_entry s)), a) = entry_facts (ds_entry s)"
  by (auto simp: scrape_page_def bind_err_Inr err_first_Inr Let_def page_aspects_def stated_entry_def entry_facts_def)

lemma declared_report:
  assumes "\<forall>(s, out) \<in> set outs. \<forall>a ns. out = Ok (a, ns) \<longrightarrow> (\<exists>page. scrape_page env tariffs t s page = Inr (Ok (a, ns)))"
  shows "map stated_entry (sr_extracts (foldl (\<lambda>r (s, out). add_outcome r s out) rep outs)) =
     map stated_entry (sr_extracts rep) @ map (entry_facts \<circ> ds_entry) (read_ok outs)"
    "map scf_url (sr_failures (foldl (\<lambda>r (s, out). add_outcome r s out) rep outs)) = map scf_url (sr_failures rep) @ map ds_url (read_failed outs)"
  using assms
proof (induction outs arbitrary: rep)
  case (Cons x outs)
  obtain s out where x: "x = (s, out)" by (cases x)
  { case 1
    then show ?case using Cons.IH(1) by (cases out) (auto simp: x add_outcome_def page_states_entry) }
  { case 2
    then show ?case using Cons.IH(2) by (cases out) (auto simp: x add_outcome_def) }
qed simp_all

lemma shared_report:
  "map stated_entry (sr_extracts (foldl (\<lambda>r (s, out). add_shared t r s out) rep outs)) =
     map stated_entry (sr_extracts rep) @ concat (map (\<lambda>s. map entry_facts (ss_members s)) (read_ok outs))"
  "map scf_url (sr_failures (foldl (\<lambda>r (s, out). add_shared t r s out) rep outs)) = map scf_url (sr_failures rep) @ map ss_url (read_failed outs)"
  by (induction outs arbitrary: rep) (auto simp: add_shared_def comp_def stated_entry_def entry_facts_def shared_aspects_def split: result.splits)


lemma phases_disjoint: "set (map ds_url (scrape_sources catalog)) \<inter> set (map ss_url (shared_sources catalog)) = {}"
proof -
  have False if "s \<in> set (scrape_sources catalog)" "s' \<in> set (shared_sources catalog)" "ds_url s = ss_url s'" for s s'
  proof -
    from that(1) have "url_count catalog (ds_url s) = 1" by (auto simp: scrape_sources_mem dest: declares_pageD)
    moreover have "1 < length (carriers catalog (ss_url s'))" using shared_sourcesD [OF that(2)] by metis
    ultimately show False using that(3) by (simp add: url_count_carriers split: if_splits)
  qed
  then show ?thesis by auto
qed

lemma scrape_phases_account:
  assumes "scrape_declared_sources env get catalog t tariffs w = (Inr rep, w1)"
    and "scrape_shared_sources env get catalog t w2 = (Inr shared, w3)"
  shows "distinct (map ds_url (scrape_sources catalog) @ map ss_url (shared_sources catalog)) \<and>
    (\<exists>ok bad. mset ok + mset bad = mset (scrape_sources catalog) \<and>
       map stated_entry (sr_extracts rep) = map (entry_facts \<circ> ds_entry) ok \<and> map scf_url (sr_failures rep) = map ds_url bad) \<and>
    (\<exists>ok bad. mset ok + mset bad = mset (shared_sources catalog) \<and>
       map stated_entry (sr_extracts shared) = concat (map (\<lambda>s. map entry_facts (ss_members s)) ok) \<and>
       map scf_url (sr_failures shared) = map ss_url bad)"
proof (intro conjI)
  show "distinct (map ds_url (scrape_sources catalog) @ map ss_url (shared_sources catalog))"
    unfolding distinct_append using declared_urls_distinct shared_urls_distinct phases_disjoint by blast
  from scrape_loop_outcomes [OF assms(1) [unfolded scrape_declared_sources_def]] obtain outs where
    outs: "length outs = length (scrape_sources catalog)"
    "rep = foldl (\<lambda>r (s, out). add_outcome r s out) EMPTY_REPORT (zip (scrape_sources catalog) outs)"
    and pages: "\<forall>(s, out) \<in> set (zip (scrape_sources catalog) outs). \<forall>a ns. out = Ok (a, ns) \<longrightarrow>
       (\<exists>page. scrape_page env tariffs t s page = Inr (Ok (a, ns)))" by blast
  show "\<exists>ok bad. mset ok + mset bad = mset (scrape_sources catalog) \<and>
       map stated_entry (sr_extracts rep) = map (entry_facts \<circ> ds_entry) ok \<and> map scf_url (sr_failures rep) = map ds_url bad"
    unfolding outs(2) declared_report [OF pages]
    by (rule exI, rule exI, rule conjI [OF read_partition [OF outs(1)]]) (simp add: EMPTY_REPORT_def)
  from shared_loop_outcomes [OF assms(2) [unfolded scrape_shared_sources_def]] obtain souts where
    souts: "length souts = length (shared_sources catalog)"
    "shared = foldl (\<lambda>r (s, out). add_shared t r s out) (EMPTY_REPORT\<lparr>sr_notes := inert_notes catalog\<rparr>)
       (zip (shared_sources catalog) souts)" by blast
  show "\<exists>ok bad. mset ok + mset bad = mset (shared_sources catalog) \<and>
       map stated_entry (sr_extracts shared) = concat (map (\<lambda>s. map entry_facts (ss_members s)) ok) \<and>
       map scf_url (sr_failures shared) = map ss_url bad"
    unfolding souts(2) shared_report
    by (rule exI, rule exI, rule conjI [OF read_partition [OF souts(1)]]) (simp add: EMPTY_REPORT_def)
qed

text \<open>
  No page is read twice: the pages of the two phases are pairwise different. Each phase accounts for every page:
  one read without an error contributes exactly its pools, each under its own name with the kind, the address and
  the position the roster gives it; of every other page exactly one failure names the URL.
\<close>

theorem scrape_accounts_for_every_page:
  assumes "scrape_declared_sources env get catalog t tariffs w = (Inr rep, w1)"
    and "scrape_shared_sources env get catalog t w2 = (Inr shared, w3)"
  shows "distinct (map ds_url (scrape_sources catalog) @ map ss_url (shared_sources catalog)) \<and>
    (\<exists>ok bad. mset ok + mset bad = mset (scrape_sources catalog) \<and>
       map stated_entry (sr_extracts rep) = map (entry_facts \<circ> ds_entry) ok \<and> map scf_url (sr_failures rep) = map ds_url bad) \<and>
    (\<exists>ok bad. mset ok + mset bad = mset (shared_sources catalog) \<and>
       map stated_entry (sr_extracts shared) = concat (map (\<lambda>s. map entry_facts (ss_members s)) ok) \<and>
       map scf_url (sr_failures shared) = map ss_url bad)"
  by (rule scrape_phases_account [OF assms])

section \<open>What a page yields can be stored\<close>

definition storable_aspects :: "scraped_aspects \<Rightarrow> bool" where
  "storable_aspects a \<longleftrightarrow> (\<forall>b \<in> set (sa_basins a). good_basin b) \<and> (\<forall>c \<in> set (sa_closures a). good_closure c) \<and>
     (\<forall>s. sa_operating_season a = Some s \<longrightarrow> good_season s) \<and> (\<forall>x \<in> set (sa_features a). good_feature x) \<and>
     length (filter (\<lambda>b. bn_rules b \<noteq> []) (sa_basins a)) \<le> 1"

lemma main_basin_good: "list_all page_rule rs \<Longrightarrow> good_basin (main_basin e rs)"
  by (simp add: main_basin_def good_basin_def list_all_iff page_rule_def)

lemma scrape_page_storable: "scrape_page env tariffs t s page = Inr (Ok (a, ns)) \<Longrightarrow> storable_aspects a"
  by (auto simp: scrape_page_def bind_err_Inr err_first_Inr Let_def page_aspects_def storable_aspects_def
      dest!: parse_schedule_good page_closures_good intro!: main_basin_good simp: list_all_iff)

lemma shared_aspects_storable:
  "parse_planschbecken env page = Inr (Ok facts) \<Longrightarrow> storable_aspects (shared_aspects e facts t)"
  by (auto simp: shared_aspects_def storable_aspects_def dest: shared_season_good)

lemma declared_extracts:
  "(\<forall>(s, out) \<in> set outs. \<forall>a ns. out = Ok (a, ns) \<longrightarrow> P a) \<Longrightarrow> (\<forall>x \<in> set (sr_extracts rep). P (snd x)) \<Longrightarrow>
     \<forall>x \<in> set (sr_extracts (foldl (\<lambda>r (s, out). add_outcome r s out) rep outs)). P (snd x)"
proof (induction outs arbitrary: rep)
  case (Cons x outs)
  obtain s out where x: "x = (s, out)" by (cases x)
  have "\<forall>y \<in> set (sr_extracts (add_outcome rep s out)). P (snd y)"
    using Cons.prems by (cases out) (auto simp: x add_outcome_def)
  with Cons.IH [of "add_outcome rep s out"] Cons.prems(1) show ?case by (simp add: x)
qed simp

lemma shared_parser_of: "s \<in> set (shared_sources catalog) \<Longrightarrow> ss_parse s = parse_planschbecken"
  by (auto simp: shared_sources_def map_filter_def SHARED_PAGE_PARSERS_def split: if_splits option.splits)

lemma shared_loop_storable:
  "shared_loop env get t rep ss w = (Inr rep', w') \<Longrightarrow> \<forall>s \<in> set ss. ss_parse s = parse_planschbecken \<Longrightarrow>
     \<forall>x \<in> set (sr_extracts rep). storable_aspects (snd x) \<Longrightarrow> \<forall>x \<in> set (sr_extracts rep'). storable_aspects (snd x)"
proof (induction ss arbitrary: rep w)
  case (Cons s ss)
  obtain r w1 where r: "fetch_page get (ss_url s) w = (r, w1)" by fastforce
  let ?out = "bind_err r (\<lambda>r. case r of Err e \<Rightarrow> Inr (Err e) | Ok raw \<Rightarrow> ss_parse s env (decode_utf8_replace raw))"
  from Cons.prems(1) r obtain out where out: "?out = Inr out" "shared_loop env get t (add_shared t rep s out) ss w1 = (Inr rep', w')"
    by (cases ?out) auto
  have "storable_aspects (shared_aspects e facts t)" if "out = Ok facts" for e facts
    using out(1) that Cons.prems(2) by (cases r) (auto split: result.splits intro: shared_aspects_storable)
  then have "\<forall>x \<in> set (sr_extracts (add_shared t rep s out)). storable_aspects (snd x)"
    using Cons.prems(3) by (cases out) (auto simp: add_shared_def)
  with Cons.IH [OF out(2)] Cons.prems(2) show ?case by simp
qed auto

section \<open>Composition keeps what can be stored\<close>

lemma scraped_facility_storable: "storable_aspects a \<Longrightarrow> storable (scraped_facility pid a)"
  by (simp add: storable_def scraped_facility_def storable_aspects_def)

definition one_schedule :: "facility \<Rightarrow> bool" where
  "one_schedule f \<longleftrightarrow> length (filter (\<lambda>b. bn_rules b \<noteq> []) (basins f)) \<le> 1"

lemma scraped_one_schedule: "storable_aspects a \<Longrightarrow> one_schedule (scraped_facility pid a)"
  by (simp add: one_schedule_def scraped_facility_def storable_aspects_def)

lemma good_basin_rules: "good_basin b \<Longrightarrow> good_basin r \<Longrightarrow> good_basin (b\<lparr>bn_rules := bn_rules r\<rparr>)"
  by (simp add: good_basin_def)

lemma merge_basins_good:
  assumes "\<forall>b \<in> set (source_basins bs CURATED). good_basin b" "\<forall>b \<in> set (source_basins bs SCRAPED). good_basin b"
    and "length (filter (\<lambda>b. bn_rules b \<noteq> []) (source_basins bs SCRAPED)) \<le> 1"
  shows "\<exists>bsn bn sc. merge_basins bs = Inr (bsn, bn, sc) \<and> (\<forall>b \<in> set bsn. good_basin b)"
proof -
  let ?rb = "filter (\<lambda>b. bn_rules b \<noteq> []) (source_basins bs SCRAPED)"
  have "set (bound_basins (source_basins bs SCRAPED) (source_basins bs CURATED)) \<subseteq> set (source_basins bs CURATED)"
    by (auto simp: bound_basins_def Let_def)
  moreover have "\<forall>r \<in> set ?rb. good_basin r" using assms(2) by simp
  ultimately have "\<exists>ms. carry_bindings (source_basins bs SCRAPED) (source_basins bs CURATED) = Inr ms \<and> (\<forall>b \<in> set ms. good_basin b)"
    using assms by (cases ?rb) (auto simp: carry_bindings_def Let_def intro!: good_basin_rules)
  with assms show ?thesis by (auto simp: merge_basins_def Let_def)
qed

lemma fold_pool_storable:
  assumes "base_of bs = Inr base" "\<And>s f. bs s = Some f \<Longrightarrow> storable f" "\<And>f. bs SCRAPED = Some f \<Longrightarrow> one_schedule f"
  shows "\<exists>f ns. fold_pool bs = Inr (f, ns) \<and> storable f"
proof -
  have "\<forall>b \<in> set (source_basins bs s). good_basin b" for s
    using assms(2) [of s] by (cases "bs s") (auto simp: source_basins_def storable_def)
  moreover have "length (filter (\<lambda>b. bn_rules b \<noteq> []) (source_basins bs SCRAPED)) \<le> 1"
    using assms(3) by (auto simp: source_basins_def one_schedule_def split: option.splits)
  ultimately obtain bsn bn sc where m: "merge_basins bs = Inr (bsn, bn, sc)" "\<forall>b \<in> set bsn. good_basin b"
    using merge_basins_good [of bs] by blast
  have base: "storable base" using assms(1,2) by (auto simp: base_of_def split: option.splits)
  have merged: "storable ((fold (apply_aspect bs) ASPECTS base)\<lparr>basins := bsn\<rparr>)"
    using base m(2) assms(2) [of CURATED] assms(2) [of SCRAPED]
    by (auto simp: storable_def fold_aspects_eq merged_value_def split: option.splits if_splits)
  then have "storable ((fold (apply_aspect bs) ASPECTS base)\<lparr>basins := bsn, provenance_of := p\<rparr>)" for p
    by (simp add: storable_def)
  with merged show ?thesis using assms(1) m(1) by (auto simp: fold_pool_def Let_def split: option.splits)
qed

lemma compose_storable:
  assumes "list_all storable curated" "list_all storable scraped" "list_all one_schedule scraped"
  shows "\<exists>c. compose_facilities curated scraped = Inr c \<and> list_all storable (co_facilities c)"
proof -
  have "\<exists>c. fold_pools curated scraped ks = Inr c \<and> list_all storable (co_facilities c)"
    if "set ks \<subseteq> set (pool_keys curated scraped)" for ks
    using that
  proof (induction ks)
    case (Cons k ks)
    then obtain base where base: "base_of (pool_sources curated scraped k) = Inr base" using base_of_pool by (metis list.set_intros(1) subsetD)
    have "\<exists>f ns. fold_pool (pool_sources curated scraped k) = Inr (f, ns) \<and> storable f"
    proof (rule fold_pool_storable [OF base])
      show "storable f" if "pool_sources curated scraped k s = Some f" for s f
        using that assms(1,2) by (auto simp: pool_sources_def list_all_iff dest!: dict_by_id_Some split: source.splits)
      show "one_schedule f" if "pool_sources curated scraped k SCRAPED = Some f" for f
        using that assms(3) by (auto simp: pool_sources_def list_all_iff dest!: dict_by_id_Some)
    qed
    with Cons show ?case by force
  qed simp
  then show ?thesis by (simp add: compose_facilities_def)
qed


section \<open>From the pages to the store\<close>

text \<open>An extract of the first phase has one basin, with a timetable that states days and hours.\<close>

definition states_timetable :: "scraped_aspects \<Rightarrow> bool" where
  "states_timetable a \<longleftrightarrow> (\<exists>b. sa_basins a = [b] \<and> bn_rules b \<noteq> [] \<and> list_all page_rule (bn_rules b))"

lemma scrape_page_timetable: "scrape_page env tariffs t s page = Inr (Ok (a, ns)) \<Longrightarrow> states_timetable a"
  by (auto simp: scrape_page_def bind_err_Inr err_first_Inr Let_def page_aspects_def states_timetable_def main_basin_def
      dest!: parse_schedule_good)

lemma declared_extracts_good:
  assumes "scrape_declared_sources env get catalog t tariffs w = (Inr rep, w1)"
    and "\<And>s page a ns. scrape_page env tariffs t s page = Inr (Ok (a, ns)) \<Longrightarrow> P a"
  shows "\<forall>x \<in> set (sr_extracts rep). P (snd x)"
proof -
  from scrape_loop_outcomes [OF assms(1) [unfolded scrape_declared_sources_def]] obtain outs where
    rep: "rep = foldl (\<lambda>r (s, out). add_outcome r s out) EMPTY_REPORT (zip (scrape_sources catalog) outs)"
    and pages: "\<forall>(s, out) \<in> set (zip (scrape_sources catalog) outs). \<forall>a ns. out = Ok (a, ns) \<longrightarrow>
       (\<exists>page. scrape_page env tariffs t s page = Inr (Ok (a, ns)))" by blast
  show ?thesis unfolding rep
    by (rule declared_extracts) (use pages assms(2) in \<open>fastforce simp: EMPTY_REPORT_def\<close>)+
qed


section \<open>A concrete catalog\<close>

definition ex_declaring :: "pystr \<Rightarrow> pystr \<Rightarrow> pool_kind \<Rightarrow> pool_catalog_entry" where
  "ex_declaring pid url kind = \<lparr>pce_pool_id = pid, pce_name = pid, pce_kind = kind, pce_address = [], pce_geo = None,
     pce_url = Some url, pce_description = None, pce_phone = None, pce_poi_id = None\<rparr>"

definition ex_site :: "pool_catalog_entry list" where
  "ex_site = [ex_declaring (u ''a'') (u ''own'') INDOOR, ex_declaring (u ''b'') PADDLING_URL PADDLING,
     ex_declaring (u ''c'') PADDLING_URL PADDLING]"

definition ex_offline :: "unit getter" where
  "ex_offline = (\<lambda>url w. (Inr (Err (ConnectionFailed url [])), w))"


lemma ex_site_declared:
  "scrape_declared_sources env ex_offline ex_site t tariffs () =
     (Inr \<lparr>sr_extracts = [], sr_failures = [\<lparr>scf_name = u ''a'', scf_url = u ''own'', scf_cause = ConnectionFailed (u ''own'') []\<rparr>],
        sr_notes = []\<rparr>, ())"
  by (simp add: scrape_declared_sources_def scrape_sources_def declares_page_def url_count_def ex_site_def ex_declaring_def
      map_filter_simps SCRAPEABLE_KINDS_def UNPARSEABLE_OPERATOR_PAGES_def PADDLING_URL_def fetch_page_def ex_offline_def
      EMPTY_REPORT_def add_outcome_def)

lemma paddling_not_own: "PADDLING_URL \<noteq> u ''own''"
  by (simp add: PADDLING_URL_def)

lemma shared_label: "u ''shared page ('' @ str_of_int 2 @ u '' pools)'' = u ''shared page (2 pools)''"
  by (simp add: str_of_int_def digits_of.simps [of 2] u_def)

lemma ex_site_shared: "\<exists>notes_of. scrape_shared_sources env ex_offline ex_site t () =
     (Inr \<lparr>sr_extracts = [], sr_failures = [\<lparr>scf_name = u ''shared page (2 pools)'', scf_url = PADDLING_URL,
        scf_cause = ConnectionFailed PADDLING_URL []\<rparr>], sr_notes = notes_of\<rparr>, ())"
  by (simp add: scrape_shared_sources_def shared_sources_def by_url_def group_pairs_def ex_site_def ex_declaring_def
      map_filter_simps SHARED_PAGE_PARSERS_def fetch_page_def ex_offline_def EMPTY_REPORT_def add_shared_def paddling_not_own shared_label)


theorem scrape_accounts_for_every_page_witness:
  "\<exists>bad. mset bad = mset (scrape_sources ex_site) \<and> [u ''own''] = map ds_url bad"
proof -
  fix env :: scrape_env and tariffs t
  obtain ns where "scrape_shared_sources env ex_offline ex_site t () =
     (Inr \<lparr>sr_extracts = [], sr_failures = [\<lparr>scf_name = u ''shared page (2 pools)'', scf_url = PADDLING_URL,
        scf_cause = ConnectionFailed PADDLING_URL []\<rparr>], sr_notes = ns\<rparr>, ())" using ex_site_shared by blast
  from scrape_accounts_for_every_page [OF ex_site_declared this] show ?thesis by auto
qed


end
