(* ===== verification/Baditicker.thy ===== *)
theory Baditicker
  imports Regex_Facts Bytes Live Lane_Fetch Infrastruktur
begin

text \<open>
  \<open>src/swimzh/providers/baditicker.py\<close>: the feed of water temperatures and the provider that caches
  it for a while. \<open>repr\<close> of a string and the detail of an undecodable body are arguments.
\<close>

definition FEED_SOURCE :: pystr where
  "FEED_SOURCE = u ''baditicker''"

definition FEED_URL :: pystr where
  "FEED_URL = u ''https://www.stadt-zuerich.ch/stzh/bathdatadownload''"

definition DEFAULT_TTL :: int where
  "DEFAULT_TTL = 120 * 1000000"

definition feed_element_re :: "pystr \<Rightarrow> rx" where
  "feed_element_re name =
     r_seq [r_lit_ci (60 # name), RWordB, r_star (RChar (\<lambda>c. c \<noteq> 62)), r_lit (u ''>''), RGroup 1 (r_lazy r_dot),
            r_lit_ci (u ''</'' @ name @ u ''>'')]"

definition BATH_RE :: rx where
  "BATH_RE = feed_element_re (u ''bath'')"

definition POIID_RE :: rx where
  "POIID_RE = feed_element_re (u ''poiid'')"

definition FEED_TEMP_RE :: rx where
  "FEED_TEMP_RE = feed_element_re (u ''temperatureWater'')"

definition FEED_DATE_RE :: rx where
  "FEED_DATE_RE = feed_element_re (u ''dateModified'')"

definition FEED_OPEN_RE :: rx where
  "FEED_OPEN_RE = feed_element_re (u ''openClosedTextPlain'')"

definition CDATA_RE :: rx where
  "CDATA_RE = r_seq [RBegin, r_lit (u ''<![CDATA[''), RGroup 1 (r_lazy r_dot), r_lit (u '']]>''), REnd]"

definition DATE_TOKEN_RE :: rx where
  "DATE_TOKEN_RE =
     r_seq [RGroup 1 (r_times 2 2 r_digit), r_lit (u ''.''), RGroup 2 (r_times 2 2 r_digit), r_lit (u ''.''),
            RGroup 3 (r_times 4 4 r_digit), r_plus r_space, RGroup 4 (r_times 1 2 r_digit), r_lit (u '':''),
            RGroup 5 (r_times 2 2 r_digit)]"

record feed_env =
  fe_repr :: "pystr \<Rightarrow> pystr"
  fe_decode_detail :: "byte list \<Rightarrow> pystr"

section \<open>One bath\<close>

definition feed_cell :: "pystr \<Rightarrow> rx \<Rightarrow> pystr option" where
  "feed_cell block pattern =
     (case rx_search pattern block of
        None \<Rightarrow> None
      | Some m \<Rightarrow>
          (let inner = py_strip (group m 1)
           in Some (py_strip (case rx_prefix CDATA_RE inner of Some c \<Rightarrow> group c 1 | None \<Rightarrow> inner))))"

definition feed_date :: "pystr option \<Rightarrow> datetime option" where
  "feed_date txt =
     (case txt of
        None \<Rightarrow> None
      | Some s \<Rightarrow>
          (case rx_search DATE_TOKEN_RE s of
             None \<Rightarrow> None
           | Some m \<Rightarrow>
               (let d = Date (decimal_value (group m 3)) (decimal_value (group m 2)) (decimal_value (group m 1));
                    t = Time (nat (decimal_value (group m 4))) (nat (decimal_value (group m 5))) 0 0
                in if valid_date d \<and> valid_time t then Some \<lparr>dt_date = d, dt_time = t, dt_tz = Some Zurich\<rparr> else None)))"

text \<open>\<open>Decimal(text)\<close> where only \<open>InvalidOperation\<close> is caught.\<close>

definition feed_celsius :: "pystr option \<Rightarrow> py_error + py_decimal option" where
  "feed_celsius txt =
     (case txt of
        None \<Rightarrow> Inr None
      | Some s \<Rightarrow> if s = [] then Inr None else bind_err (py_decimal s) (\<lambda>d. Inr (Some d)))"

definition feed_open :: "pystr option \<Rightarrow> bool option" where
  "feed_open txt =
     (let open_cell = py_strip (case txt of Some s \<Rightarrow> s | None \<Rightarrow> [])
      in if open_cell \<noteq> [] then Some (py_lower open_cell = u ''offen'') else None)"

definition parse_bath :: "feed_env \<Rightarrow> pystr \<Rightarrow> py_error + (pystr \<times> temp_reading, provider_error) result" where
  "parse_bath env block =
     (case feed_cell block POIID_RE of
        None \<Rightarrow> Inr (Err (SchemaMismatch FEED_SOURCE (u ''bath entry missing <poiid>'')))
      | Some poiid \<Rightarrow>
          if poiid = [] then Inr (Err (SchemaMismatch FEED_SOURCE (u ''bath entry missing <poiid>'')))
          else
            (let temp_text = feed_cell block FEED_TEMP_RE
             in case feed_celsius temp_text of
                  Inl e \<Rightarrow>
                    if e = InvalidOperation
                    then Inr (Err (ParseError FEED_SOURCE
                      (u ''non-numeric temperatureWater '' @ fe_repr env (case temp_text of Some s \<Rightarrow> s | None \<Rightarrow> [])
                         @ u '' for poiid '' @ fe_repr env poiid) (take 200 block)))
                    else Inl e
                | Inr c \<Rightarrow>
                    (case feed_date (feed_cell block FEED_DATE_RE) of
                       None \<Rightarrow> Inr (Err (ParseError FEED_SOURCE
                         (u ''unparseable dateModified for poiid '' @ fe_repr env poiid) (take 200 block)))
                     | Some measured \<Rightarrow>
                         bind_err (mk_temp_reading measured c (feed_open (feed_cell block FEED_OPEN_RE)) FEED_SOURCE)
                           (\<lambda>r. Inr (Ok (poiid, r))))))"

section \<open>The feed\<close>

fun parse_baths ::
  "feed_env \<Rightarrow> (pystr \<times> temp_reading) list \<Rightarrow> pystr list \<Rightarrow> py_error + ((pystr \<times> temp_reading) list, provider_error) result" where
  "parse_baths env readings [] = Inr (Ok readings)"
| "parse_baths env readings (block # blocks) =
     bind_err (parse_bath env block) (\<lambda>r.
       case r of
         Err e \<Rightarrow> Inr (Err e)
       | Ok (poiid, reading) \<Rightarrow> parse_baths env (dict_set poiid reading readings) blocks)"

definition parse_feed :: "feed_env \<Rightarrow> byte list \<Rightarrow> py_error + ((pystr \<times> temp_reading) list, provider_error) result" where
  "parse_feed env raw =
     (case decode_utf8 raw of
        None \<Rightarrow> Inr (Err (ParseError FEED_SOURCE (fe_decode_detail env raw) (decode_utf8_replace (take 200 raw))))
      | Some txt \<Rightarrow>
          if \<not> contains (u ''<baths'') txt then Inr (Err (SchemaMismatch FEED_SOURCE (u ''feed has no <baths> element'')))
          else parse_baths env [] (map (\<lambda>m. group m 1) (rx_findall BATH_RE txt)))"

definition fetch_feed :: "'w getter \<Rightarrow> pystr \<Rightarrow> 'w \<Rightarrow> (py_error + (byte list, provider_error) result) \<times> 'w" where
  "fetch_feed get url w = (case get url w of (r, w') \<Rightarrow> (bind_err r (\<lambda>r. Inr (fmap r rs_content)), w'))"

section \<open>The provider\<close>

text \<open>The snapshot the provider object keeps, if it has one, and when it was taken.\<close>

record feed_provider =
  fp_url :: pystr
  fp_ttl :: int
  fp_cached :: "(pystr \<times> temp_reading) list option"
  fp_cached_at :: "datetime option"

definition new_provider :: "pystr \<Rightarrow> int \<Rightarrow> feed_provider" where
  "new_provider url ttl = \<lparr>fp_url = url, fp_ttl = ttl, fp_cached = None, fp_cached_at = None\<rparr>"

definition fresh_snapshot :: "tzdb \<Rightarrow> feed_provider \<Rightarrow> datetime \<Rightarrow> (pystr \<times> temp_reading) list option" where
  "fresh_snapshot db p now =
     (case (fp_cached p, fp_cached_at p) of
        (Some readings, Some taken) \<Rightarrow> if dt_sub db now taken < fp_ttl p then Some readings else None
      | _ \<Rightarrow> None)"

definition snapshot ::
  "feed_env \<Rightarrow> tzdb \<Rightarrow> 'w getter \<Rightarrow> datetime \<Rightarrow> feed_provider \<times> 'w \<Rightarrow>
   (py_error + ((pystr \<times> temp_reading) list, provider_error) result) \<times> feed_provider \<times> 'w" where
  "snapshot env db get now st =
     (case st of (p, w) \<Rightarrow>
        (case fresh_snapshot db p now of
           Some readings \<Rightarrow> (Inr (Ok readings), p, w)
         | None \<Rightarrow>
             (case fetch_feed get (fp_url p) w of (r, w') \<Rightarrow>
                (case bind_err r (\<lambda>r. case r of Err e \<Rightarrow> Inr (Err e) | Ok raw \<Rightarrow> parse_feed env raw) of
                   Inr (Ok readings) \<Rightarrow> (Inr (Ok readings), p\<lparr>fp_cached := Some readings, fp_cached_at := Some now\<rparr>, w')
                 | x \<Rightarrow> (x, p, w')))))"

definition feed_read ::
  "feed_env \<Rightarrow> tzdb \<Rightarrow> 'w getter \<Rightarrow> datetime \<Rightarrow> pystr \<Rightarrow> feed_provider \<times> 'w \<Rightarrow>
   (py_error + (temp_reading, provider_error) result) \<times> feed_provider \<times> 'w" where
  "feed_read env db get now poiid st =
     (case snapshot env db get now st of (r, p', w') \<Rightarrow>
        (bind_err r (\<lambda>r. case r of
             Err e \<Rightarrow> Inr (Err e)
           | Ok readings \<Rightarrow>
               (case map_of readings poiid of
                  None \<Rightarrow> Inr (Err (ProviderSpecific FEED_SOURCE (JStr (u ''no reading for poiid '' @ fe_repr env poiid))))
                | Some reading \<Rightarrow> Inr (Ok reading))), p', w'))"

end
