(* ===== verification/Ios_Rows.thy ===== *)
theory Ios_Rows
  imports Query Tokens Lane_Views Gold
begin

text \<open>
  \<open>src/swimzh/etl/ios_export.py\<close>, the rows of the exported store: what is known of a pool on every
  day, and the answer of the live query for each day of the horizon. A text column that holds
  canonical JSON is the value it was dumped from, with its members sorted; the float of a \<open>Decimal\<close> is the number it
  stands for. Integers of the columns fit 64 bits.
\<close>

definition SCHEMA_VERSION :: int where
  "SCHEMA_VERSION = 2"

definition DEFAULT_DAYS :: int where
  "DEFAULT_DAYS = 400"

definition WARNING_CALENDAR_COVERAGE :: pystr where
  "WARNING_CALENDAR_COVERAGE = u ''calendar_coverage''"

definition WARNING_HOLIDAY_HOURS_UNVERIFIED :: pystr where
  "WARNING_HOLIDAY_HOURS_UNVERIFIED = u ''holiday_hours_unverified''"

datatype ios_cell = CText pystr | CInt int | CFloat real | CDoc json | CNull

type_synonym ios_row = "ios_cell list"
type_synonym ios_tables = "(pystr \<times> ios_row list) list"

section \<open>The schema\<close>

datatype ios_type = TEXT | INTEGER | REAL

text \<open>A column with its type and whether it may be absent; then the columns of the primary key, if the table has one.\<close>

record ios_table =
  it_columns :: "(pystr \<times> ios_type \<times> bool) list"
  it_key :: "pystr list"

definition IOS_SCHEMA :: "(pystr \<times> ios_table) list" where
  "IOS_SCHEMA =
    [(u ''pool'', \<lparr>it_columns =
        [(u ''pool_id'', TEXT, False), (u ''name'', TEXT, False), (u ''kind'', TEXT, False), (u ''address'', TEXT, True),
         (u ''lat'', REAL, True), (u ''lon'', REAL, True), (u ''url'', TEXT, True), (u ''description'', TEXT, True),
         (u ''phone'', TEXT, True), (u ''freshness'', TEXT, False), (u ''admission_state'', TEXT, False),
         (u ''prices_doc'', TEXT, True), (u ''source'', TEXT, True), (u ''curated'', INTEGER, True),
         (u ''valid_as_of'', TEXT, True), (u ''last_admission_before_s'', INTEGER, True),
         (u ''operating_season'', TEXT, True), (u ''baditicker_poiid'', TEXT, True)], it_key = [u ''pool_id'']\<rparr>),
     (u ''pool_basin'', \<lparr>it_columns =
        [(u ''pool_id'', TEXT, False), (u ''basin_id'', TEXT, False), (u ''name'', TEXT, False), (u ''kind'', TEXT, False),
         (u ''length_m'', REAL, True), (u ''width_m'', REAL, True), (u ''lanes'', INTEGER, True),
         (u ''nominal_temp_c'', REAL, True), (u ''measured_temp_c'', REAL, True), (u ''diving_platforms_m'', TEXT, False),
         (u ''physical_source'', TEXT, False), (u ''lane_plan_url'', TEXT, True)], it_key = [u ''basin_id'']\<rparr>),
     (u ''pool_locker'', \<lparr>it_columns =
        [(u ''pool_id'', TEXT, False), (u ''ord'', INTEGER, False), (u ''doc'', TEXT, False)],
        it_key = [u ''pool_id'', u ''ord'']\<rparr>),
     (u ''pool_rental'', \<lparr>it_columns =
        [(u ''pool_id'', TEXT, False), (u ''ord'', INTEGER, False), (u ''doc'', TEXT, False)],
        it_key = [u ''pool_id'', u ''ord'']\<rparr>),
     (u ''pool_feature'', \<lparr>it_columns =
        [(u ''pool_id'', TEXT, False), (u ''feature_key'', TEXT, False), (u ''doc'', TEXT, False)],
        it_key = [u ''pool_id'', u ''feature_key'']\<rparr>),
     (u ''day'', \<lparr>it_columns =
        [(u ''pool_id'', TEXT, False), (u ''date'', TEXT, False), (u ''status'', TEXT, False), (u ''detail_code'', TEXT, False),
         (u ''closure_code'', TEXT, True), (u ''detail_params'', TEXT, False)], it_key = [u ''pool_id'', u ''date'']\<rparr>),
     (u ''session'', \<lparr>it_columns =
        [(u ''pool_id'', TEXT, False), (u ''date'', TEXT, False), (u ''basin_id'', TEXT, False), (u ''basin_name'', TEXT, False),
         (u ''length_m'', REAL, True), (u ''lanes'', INTEGER, True), (u ''start'', TEXT, False), (u ''end'', TEXT, False),
         (u ''access_kind'', TEXT, False), (u ''access_params'', TEXT, False), (u ''weather'', TEXT, False)], it_key = []\<rparr>),
     (u ''day_notice'', \<lparr>it_columns =
        [(u ''pool_id'', TEXT, False), (u ''date'', TEXT, False), (u ''text'', TEXT, False)], it_key = []\<rparr>),
     (u ''day_warning'', \<lparr>it_columns =
        [(u ''date'', TEXT, False), (u ''code'', TEXT, False), (u ''params'', TEXT, False)], it_key = []\<rparr>),
     (u ''lane_day'', \<lparr>it_columns =
        [(u ''basin_id'', TEXT, False), (u ''weekday'', INTEGER, False), (u ''lane_count'', INTEGER, False),
         (u ''strips'', TEXT, False), (u ''unresolved_lanes'', TEXT, False), (u ''confidence'', TEXT, False)],
        it_key = [u ''basin_id'', u ''weekday'']\<rparr>),
     (u ''alias'', \<lparr>it_columns = [(u ''pool_id'', TEXT, False), (u ''norm'', TEXT, False)], it_key = []\<rparr>)]"

definition TABLE_NAMES :: "pystr list" where
  "TABLE_NAMES = map fst IOS_SCHEMA"

section \<open>Cells\<close>

definition ios_doc :: "json \<Rightarrow> ios_cell" where
  "ios_doc j = CDoc (sort_keys j)"

definition text_or_null :: "pystr option \<Rightarrow> ios_cell" where
  "text_or_null x = (case x of Some s \<Rightarrow> CText s | None \<Rightarrow> CNull)"

definition int_or_null :: "int option \<Rightarrow> ios_cell" where
  "int_or_null x = (case x of Some n \<Rightarrow> CInt n | None \<Rightarrow> CNull)"

definition num_cell :: "rat option \<Rightarrow> ios_cell" where
  "num_cell x = (case x of Some v \<Rightarrow> CFloat (of_rat v) | None \<Rightarrow> CNull)"

definition num_json :: "rat option \<Rightarrow> json" where
  "num_json x = (case x of Some v \<Rightarrow> JFloat v | None \<Rightarrow> JNull)"

definition str_or_null :: "pystr option \<Rightarrow> json" where
  "str_or_null x = (case x of Some s \<Rightarrow> JStr s | None \<Rightarrow> JNull)"

definition int_json_or_null :: "int option \<Rightarrow> json" where
  "int_json_or_null x = (case x of Some n \<Rightarrow> JInt n | None \<Rightarrow> JNull)"

definition hhmm :: "time \<Rightarrow> pystr" where
  "hhmm t = d2 (hour t) @ [58] @ d2 (minute t)"

fun access_fields :: "session_access \<Rightarrow> (pystr \<times> json) list" where
  "access_fields PublicSwim = []"
| "access_fields (LaneSwim n) = [(u ''note'', JStr n)]"
| "access_fields (FamilyTime n) = [(u ''note'', JStr n)]"
| "access_fields (WomenOnly n) = [(u ''note'', JStr n)]"
| "access_fields (SeniorsOnly a) = [(u ''min_age'', JInt a)]"
| "access_fields SchoolReserved = []"
| "access_fields (ClubReserved c) = [(u ''club'', JStr c)]"
| "access_fields (AdultsOnly a n) = [(u ''min_age'', JInt a), (u ''note'', JStr n)]"
| "access_fields GirlsOnly = []"
| "access_fields (GenderDiverse a) = [(u ''min_age'', JInt a)]"
| "access_fields AccompaniedChildren = []"

definition access_doc :: "session_access \<Rightarrow> pystr \<times> ios_cell" where
  "access_doc a = (access_type_name a, ios_doc (JObj (access_fields a)))"

section \<open>Facility rows\<close>

definition price_doc :: "price_table \<Rightarrow> ios_cell" where
  "price_doc t = ios_doc (JObj
     [(u ''entries'', JList (map (\<lambda>e. JObj
         [(u ''category'', JStr (price_category_value (pe_category e))), (u ''amount_chf'', JFloat (amount_chf e)),
          (u ''display'', JStr (display e)), (u ''min_age'', int_json_or_null (pe_min_age e))]) (pt_entries t))),
      (u ''valid_as_of'', str_or_null (map_option isoformat_date (pt_valid_as_of t))),
      (u ''source_url'', str_or_null (pt_source_url t))])"

definition admission_doc :: "admission \<Rightarrow> pystr \<times> ios_cell" where
  "admission_doc a =
     (case a of
        Tariff t \<Rightarrow> (u ''tariff'', price_doc t)
      | Free \<Rightarrow> (u ''free'', CNull)
      | Unknown \<Rightarrow> (u ''unknown'', CNull))"

definition season_doc :: "operating_season_rec \<Rightarrow> ios_cell" where
  "season_doc s =
     (let w = os_window s; is_day = (aw_precision w = PRECISION_DAY)
      in ios_doc (JObj
           [(u ''start_month'', JInt (md_month (aw_start w))), (u ''end_month'', JInt (md_month (aw_end w))),
            (u ''precision'', JStr (date_precision_value (aw_precision w))), (u ''weather'', JStr (weather_value (os_weather s))),
            (u ''start_day'', if is_day then JInt (md_day (aw_start w)) else JNull),
            (u ''end_day'', if is_day then JInt (md_day (aw_end w)) else JNull)]))"

text \<open>\<open>int(d.total_seconds())\<close> of a duration.\<close>

definition whole_seconds :: "int \<Rightarrow> int" where
  "whole_seconds us = (if us < 0 then - (- us div 1000000) else us div 1000000)"

definition ios_pool_row :: "roster_entry \<Rightarrow> facility option \<Rightarrow> ios_row" where
  "ios_pool_row row fac =
     (let e = re_entry row;
          adm = (case fac of Some f \<Rightarrow> admission_doc (admission_of f) | None \<Rightarrow> (u ''unknown'', CNull));
          pv = map_option provenance_of fac
      in [CText (pce_pool_id e), CText (pce_name e), CText (pool_kind_value (pce_kind e)),
          (if pce_address e = [] then CNull else CText (pce_address e)),
          (case pce_geo e of Some g \<Rightarrow> CFloat (lat g) | None \<Rightarrow> CNull),
          (case pce_geo e of Some g \<Rightarrow> CFloat (lon g) | None \<Rightarrow> CNull),
          text_or_null (pce_url e), text_or_null (pce_description e), text_or_null (pce_phone e),
          CText (freshness_value (re_freshness row)), CText (fst adm), snd adm,
          text_or_null (map_option pv_source pv),
          (case pv of Some p \<Rightarrow> CInt (if pv_curated p then 1 else 0) | None \<Rightarrow> CNull),
          text_or_null (case pv of Some p \<Rightarrow> map_option isoformat_date (pv_valid_as_of p) | None \<Rightarrow> None),
          int_or_null (case fac of
              Some f \<Rightarrow> map_option whole_seconds (last_admission_before f) | None \<Rightarrow> None),
          (case fac of Some f \<Rightarrow> (case operating_season f of Some s \<Rightarrow> season_doc s | None \<Rightarrow> CNull) | None \<Rightarrow> CNull),
          text_or_null (case fac of Some f \<Rightarrow> baditicker_poiid (identity f) | None \<Rightarrow> None)])"

definition ios_basin_row :: "facility \<Rightarrow> basin \<Rightarrow> ios_row" where
  "ios_basin_row fac b =
     [CText (facility_id (identity fac)), CText (bn_id b), CText (bn_name b), CText (basin_kind_value (bn_kind b)),
      num_cell (map_option length_m (bn_dimensions b)),
      num_cell (case bn_dimensions b of Some d \<Rightarrow> width_m d | None \<Rightarrow> None),
      int_or_null (bn_lanes b), num_cell (nominal_temp_c b), num_cell (measured_temp_c b),
      ios_doc (JList (map JFloat (diving_platforms_m b))), CText (basin_source_value (physical_source b)),
      text_or_null (map_option lps_url (lane_plan_source_of b))]"

definition locker_doc :: "locker_option \<Rightarrow> ios_cell" where
  "locker_doc l = ios_doc (JObj
     [(u ''category'', JStr (locker_category_value (lo_category l))), (u ''fee_chf'', num_json (lo_fee_chf l)),
      (u ''deposit_chf'', num_json (lo_deposit_chf l)), (u ''period'', str_or_null (lo_period l)),
      (u ''mechanism'', str_or_null (map_option locker_mechanism_value (lo_mechanism l))), (u ''raw'', JStr (lo_raw l))])"

definition numbered :: "facility \<Rightarrow> ios_cell list \<Rightarrow> ios_row list" where
  "numbered fac docs = map (\<lambda>(i, d). [CText (facility_id (identity fac)), CInt (int i), d]) (enumerate 0 docs)"

definition ios_locker_rows :: "facility \<Rightarrow> ios_row list" where
  "ios_locker_rows fac = numbered fac (map locker_doc (lockers fac))"

fun fee_fields :: "rental_fee \<Rightarrow> pystr \<times> rat option" where
  "fee_fields (Priced a) = (u ''priced'', Some a)"
| "fee_fields Gratis = (u ''gratis'', None)"
| "fee_fields Unstated = (u ''unstated'', None)"

definition rental_doc :: "rental_item \<Rightarrow> ios_cell" where
  "rental_doc r = ios_doc (JObj
     [(u ''kind'', JStr (rental_kind_value (ri_kind r))), (u ''fee'', JStr (fst (fee_fields (ri_fee r)))),
      (u ''fee_chf'', num_json (snd (fee_fields (ri_fee r)))), (u ''deposit_chf'', num_json (ri_deposit_chf r)),
      (u ''period'', str_or_null (ri_period r)), (u ''raw'', JStr (ri_raw r))])"

definition ios_rental_rows :: "facility \<Rightarrow> ios_row list" where
  "ios_rental_rows fac = numbered fac (map rental_doc (rentals fac))"

definition feature_day_doc :: "day_schedule \<Rightarrow> json" where
  "feature_day_doc s =
     (case s of
        OpenDay sessions uv \<Rightarrow> JObj
          [(u ''windows'', JList (map (\<lambda>x. JList [JStr (hhmm (tr_start (rs_time x))), JStr (hhmm (tr_end (rs_time x)))]) sessions)),
           (u ''closed_reason'', JNull)]
      | ClosedDay code ps \<Rightarrow> JObj [(u ''windows'', JList []), (u ''closed_reason'', JStr (closure_code_value code))]
      | OpenUnscheduledDay wx \<Rightarrow> JObj [(u ''windows'', JList []), (u ''closed_reason'', JNull)])"

definition feature_day_docs :: "facility \<Rightarrow> feature \<Rightarrow> date list \<Rightarrow> zurich_calendar \<Rightarrow> json" where
  "feature_day_docs fac f days cal =
     JObj (map (\<lambda>d. (isoformat_date d, feature_day_doc (resolve_hours fac (ft_hours f) [] d cal))) days)"

definition feature_doc :: "facility \<Rightarrow> date list \<Rightarrow> zurich_calendar \<Rightarrow> feature \<Rightarrow> ios_cell" where
  "feature_doc fac days cal f = ios_doc (JObj
     [(u ''kind'', JStr (feature_kind_value (ft_kind f))), (u ''name'', JStr (ft_name f)),
      (u ''surcharge_chf'', num_json (ft_surcharge_chf f)), (u ''temp_c'', num_json (ft_temp_c f)),
      (u ''note'', JStr (ft_note f)),
      (u ''hours'', JList (map (\<lambda>r. JObj
          [(u ''weekdays'', JList (map JInt (sort (map weekday_value (sorted_list_of_set (sr_weekdays r)))))),
           (u ''start'', JStr (hhmm (tr_start (sr_time r)))), (u ''end'', JStr (hhmm (tr_end (sr_time r))))]) (ft_hours f))),
      (u ''days'', if ft_hours f \<noteq> [] then feature_day_docs fac f days cal else JObj [])])"

text \<open>The key of the next feature, given the kinds of the features before it.\<close>

definition feature_key :: "feature \<Rightarrow> feature_kind list \<Rightarrow> pystr" where
  "feature_key f before =
     (let ordinal = length (filter (\<lambda>k. k = ft_kind f) before) + 1
      in if ordinal = 1 then feature_kind_value (ft_kind f)
         else feature_kind_value (ft_kind f) @ u ''#'' @ str_of_int (int ordinal))"

fun feature_keys :: "feature_kind list \<Rightarrow> feature list \<Rightarrow> pystr list" where
  "feature_keys before [] = []"
| "feature_keys before (f # fs) = feature_key f before # feature_keys (before @ [ft_kind f]) fs"

definition ios_feature_rows :: "facility \<Rightarrow> date list \<Rightarrow> zurich_calendar \<Rightarrow> ios_row list" where
  "ios_feature_rows fac days cal =
     map (\<lambda>(k, d). [CText (facility_id (identity fac)), CText k, d])
       (zip (feature_keys [] (features fac)) (map (feature_doc fac days cal) (features fac)))"

definition segment_doc :: "lane_segment \<Rightarrow> json" where
  "segment_doc s = JObj
     [(u ''start'', JStr (hhmm (tr_start (ls_time s)))), (u ''end'', JStr (hhmm (tr_end (ls_time s)))),
      (u ''access'', JStr (access_type_name (ls_access s))),
      (u ''owner'', if ls_access s = PublicSwim then JNull else JStr (owner_label (ls_access s)))]"

definition strip_doc :: "lane_strip \<Rightarrow> json" where
  "strip_doc s = JObj [(u ''lane'', JInt (strip_lane s)), (u ''segments'', JList (map segment_doc (strip_segments s)))]"

definition lane_day_row :: "basin \<Rightarrow> lane_plan \<Rightarrow> weekday \<Rightarrow> ios_row" where
  "lane_day_row b plan wd =
     (let view = lane_day_view plan wd
      in [CText (bn_id b), CInt (weekday_value wd), CInt (ldv_lane_count view),
          ios_doc (JList (map strip_doc (strips view))),
          ios_doc (JList (map JInt (sorted_list_of_set (unresolved_lanes (coverage plan))))),
          CText (plan_confidence_value (pc_confidence (coverage plan)))])"

definition WEEK :: "weekday list" where
  "WEEK = [MONDAY, TUESDAY, WEDNESDAY, THURSDAY, FRIDAY, SATURDAY, SUNDAY]"

definition lane_day_rows :: "facility \<Rightarrow> ios_row list" where
  "lane_day_rows fac =
     concat (map (\<lambda>b. case lane_plan_of b of
         Some (Parsed plan) \<Rightarrow> map (lane_day_row b plan) WEEK
       | _ \<Rightarrow> []) (basins fac))"

section \<open>Rows of a day\<close>

fun status_code_value :: "status_code \<Rightarrow> pystr" where
  "status_code_value CLOSED_REASON = u ''closed_reason''"
| "status_code_value CODE_AWAITING_SCRAPE = u ''awaiting_scrape''"
| "status_code_value CODE_NO_SOURCE = u ''no_source''"
| "status_code_value OPEN_UNSCHEDULED = u ''open_unscheduled''"

definition status_row :: "facility_status \<Rightarrow> date \<Rightarrow> ios_row" where
  "status_row s d =
     [CText (fs_facility_id s), CText (isoformat_date d), CText (fs_status s), CText (status_code_value (fs_code s)),
      text_or_null (map_option closure_code_value (fs_closure s)),
      ios_doc (JObj (map (map_prod id JStr) (fs_params s)))]"

definition session_row :: "date \<Rightarrow> swim_option \<Rightarrow> ios_row" where
  "session_row d opt =
     (let acc = access_doc (rs_access (so_session opt))
      in [CText (so_facility_id opt), CText (isoformat_date d), CText (so_basin_id opt), CText (so_basin_name opt),
          num_cell (so_basin_length_m opt), int_or_null (so_lanes opt), CText (hhmm (tr_start (rs_time (so_session opt)))),
          CText (hhmm (tr_end (rs_time (so_session opt)))), CText (fst acc), snd acc,
          CText (weather_value (rs_weather (so_session opt)))])"

definition session_rows :: "query_result \<Rightarrow> date \<Rightarrow> ios_row list" where
  "session_rows r d = map (session_row d) (qr_options r)"

definition notice_row :: "date \<Rightarrow> facility_notice \<Rightarrow> ios_row" where
  "notice_row d n = [CText (fn_facility_id n), CText (isoformat_date d), CText (fn_text n)]"

text \<open>The decomposed warnings: a code and its parameters.\<close>

definition warning_param :: "(pystr \<rightharpoonup> pystr) \<Rightarrow> pystr \<Rightarrow> py_error + pystr" where
  "warning_param ps k = (case ps k of Some v \<Rightarrow> Inr v | None \<Rightarrow> Inl KeyError)"

definition render_warning :: "pystr \<Rightarrow> (pystr \<rightharpoonup> pystr) \<Rightarrow> py_error + pystr" where
  "render_warning code ps =
     (if code = WARNING_CALENDAR_COVERAGE
      then bind_err (warning_param ps (u ''year'')) (\<lambda>y.
             Inr (u ''calendar data not available for '' @ y @ u ''; holiday-dependent schedules may be inaccurate''))
      else bind_err (warning_param ps (u ''date'')) (\<lambda>d. bind_err (warning_param ps (u ''pools'')) (\<lambda>names.
             Inr (d @ u '' is a public holiday and these pools do not publish their '' @
               u ''holiday hours; the times shown are their usual weekday hours and are '' @ u ''unconfirmed: '' @ names))))"

definition unverified_pools :: "facility list \<Rightarrow> date \<Rightarrow> zurich_calendar \<Rightarrow> pystr set" where
  "unverified_pools facs d cal =
     {pid_name (identity f) | f. f \<in> set facs \<and> (\<exists>b \<in> set (basins f). bn_rules b \<noteq> [] \<and>
        (case resolve_basin f b d cal of OpenDay ss uv \<Rightarrow> uv | _ \<Rightarrow> False))}"

definition day_warnings :: "facility list \<Rightarrow> date \<Rightarrow> zurich_calendar \<Rightarrow> (pystr \<times> (pystr \<times> pystr) list) list" where
  "day_warnings facs d cal =
     (if covers cal d then [] else [(WARNING_CALENDAR_COVERAGE, [(u ''year'', str_of_int (year d))])]) @
     (let unverified = sorted_list_of_set (unverified_pools facs d cal)
      in if unverified = [] then []
         else [(WARNING_HOLIDAY_HOURS_UNVERIFIED,
                [(u ''date'', isoformat_date d), (u ''pools'', py_join (u '', '') unverified)])])"

definition warning_row :: "date \<Rightarrow> pystr \<times> (pystr \<times> pystr) list \<Rightarrow> ios_row" where
  "warning_row d w = [CText (isoformat_date d), CText (fst w), ios_doc (JObj (map (map_prod id JStr) (snd w)))]"

definition warning_rows :: "facility list \<Rightarrow> date \<Rightarrow> zurich_calendar \<Rightarrow> ios_row list" where
  "warning_rows facs d cal = map (warning_row d) (day_warnings facs d cal)"

text \<open>The one query the export is a projection of: no person, no place, noon.\<close>

definition noon_query :: "date \<Rightarrow> swim_query" where
  "noon_query d =
     \<lparr>sq_person = \<lparr>gender = None, age = None\<rparr>,
      sq_at = \<lparr>dt_date = d, dt_time = Time 12 0 0 0, dt_tz = Some Zurich\<rparr>, sq_near = None, radius_km = None\<rparr>"

definition resolve_day ::
  "runtime \<Rightarrow> datetime \<Rightarrow> facility list \<Rightarrow> zurich_calendar \<Rightarrow> roster_entry list \<Rightarrow> date \<Rightarrow> py_error + query_result" where
  "resolve_day rt now facs cal roster d =
     find_swim_options (rt_repr rt) (rt_tzdb rt) now (noon_query d) facs cal roster None"

end
