(* ===== verification/Ios_Export.thy ===== *)
theory Ios_Export
  imports Ios_Rows Atomic
begin

text \<open>
  \<open>src/swimzh/etl/ios_export.py\<close>, the assembly of the store, its file and the release manifest. What SQLite answers
  (the integrity check, the statistics, the journal mode, the wording of a database error), the size of a file and
  the two hashes are parameters; the constraints of the schema are written out.
\<close>

section \<open>Assembly\<close>

definition horizon :: "date \<Rightarrow> int \<Rightarrow> py_error + date list" where
  "horizon today days =
     map_err (\<lambda>i. let d = add_days today i in if year d \<le> 9999 then Inr d else Inl OverflowError) [0..days - 1]"

text \<open>\<open>by_id.get(row.entry.pool_id)\<close>: of two facilities with one id the later.\<close>

definition facility_of :: "facility list \<Rightarrow> roster_entry \<Rightarrow> facility option" where
  "facility_of facs row = map_of (rev (map (\<lambda>f. (facility_id (identity f), f)) facs)) (pce_pool_id (re_entry row))"

definition static_tables ::
  "facility list \<Rightarrow> roster_entry list \<Rightarrow> (pystr \<times> pystr) list \<Rightarrow> zurich_calendar \<Rightarrow> date list \<Rightarrow> ios_tables" where
  "static_tables facs roster alias_rows cal dates =
     (let known = List.map_filter (facility_of facs) roster
      in [(u ''pool'', map (\<lambda>row. ios_pool_row row (facility_of facs row)) roster),
          (u ''pool_basin'', concat (map (\<lambda>f. map (ios_basin_row f) (basins f)) known)),
          (u ''pool_locker'', concat (map ios_locker_rows known)),
          (u ''pool_rental'', concat (map ios_rental_rows known)),
          (u ''pool_feature'', concat (map (\<lambda>f. ios_feature_rows f dates cal) known)),
          (u ''day'', []), (u ''session'', []), (u ''day_notice'', []), (u ''day_warning'', []),
          (u ''lane_day'', concat (map lane_day_rows known)),
          (u ''alias'', map (\<lambda>(norm, pid). [CText pid, CText norm])
             (filter (\<lambda>(norm, pid). pid \<in> (pce_pool_id \<circ> re_entry) ` set roster) alias_rows))])"

definition extend_table :: "pystr \<Rightarrow> ios_row list \<Rightarrow> ios_tables \<Rightarrow> ios_tables" where
  "extend_table name rows tables = map (\<lambda>(n, rs). (n, if n = name then rs @ rows else rs)) tables"

definition export_day ::
  "runtime \<Rightarrow> datetime \<Rightarrow> facility list \<Rightarrow> roster_entry list \<Rightarrow> zurich_calendar \<Rightarrow> ios_tables \<Rightarrow> date \<Rightarrow>
   py_error + ios_tables" where
  "export_day rt now facs roster cal tables d =
     bind_err (resolve_day rt now facs cal roster d) (\<lambda>r.
       Inr (extend_table (u ''day_warning'') (warning_rows facs d cal)
            (extend_table (u ''day_notice'') (map (notice_row d) (qr_notices r))
            (extend_table (u ''day'') (map (\<lambda>s. status_row s d) (qr_statuses r))
            (extend_table (u ''session'') (session_rows r d) tables)))))"

definition resolved_tables ::
  "runtime \<Rightarrow> datetime \<Rightarrow> facility list \<Rightarrow> roster_entry list \<Rightarrow> zurich_calendar \<Rightarrow> date list \<Rightarrow> ios_tables \<Rightarrow>
   py_error + ios_tables" where
  "resolved_tables rt now facs roster cal dates tables = fold_err (export_day rt now facs roster cal) dates tables"

definition table_rows_of :: "ios_tables \<Rightarrow> pystr \<Rightarrow> ios_row list" where
  "table_rows_of tables name = (case map_of tables name of Some rs \<Rightarrow> rs | None \<Rightarrow> [])"

section \<open>The meta table\<close>

text \<open>The content hash reads the schema version, the horizon and every row.\<close>

record ios_env =
  ie_content_hash :: "int \<times> pystr \<times> pystr \<times> ios_tables \<Rightarrow> pystr"
  ie_calendar_detail :: pystr

definition content_hash :: "ios_env \<Rightarrow> ios_tables \<Rightarrow> date \<Rightarrow> date \<Rightarrow> pystr" where
  "content_hash env tables first_day last_day =
     ie_content_hash env (SCHEMA_VERSION, isoformat_date first_day, isoformat_date last_day, tables)"

definition gold_valid_as_of :: "facility list \<Rightarrow> pystr option" where
  "gold_valid_as_of facs =
     (case List.map_filter (\<lambda>f. pv_valid_as_of (provenance_of f)) facs of
        [] \<Rightarrow> None
      | d # ds \<Rightarrow> Some (isoformat_date (fold max ds d)))"

definition freshness_json :: "runtime \<Rightarrow> source_freshness_rec list \<Rightarrow> ios_cell" where
  "freshness_json rt rows = ios_doc (JList (map (\<lambda>s. JObj
     [(u ''source'', JStr (sh_source (sof_header s))),
      (u ''fetched_at'', JStr (isoformat (rt_tzdb rt) (sh_fetched_at (sof_header s)))),
      (u ''status'', JStr (silver_status_value (sh_status (sof_header s))))]) rows))"

definition meta_rows ::
  "ios_env \<Rightarrow> runtime \<Rightarrow> ios_tables \<Rightarrow> date \<Rightarrow> date \<Rightarrow> datetime \<Rightarrow> pystr option \<Rightarrow> source_freshness_rec list \<Rightarrow>
   (pystr \<times> ios_cell) list" where
  "meta_rows env rt tables first_day last_day built_at valid_as_of freshness =
     [(u ''schema_version'', CText (str_of_int SCHEMA_VERSION)),
      (u ''built_at'', CText (isoformat (rt_tzdb rt) built_at)),
      (u ''horizon_start'', CText (isoformat_date first_day)),
      (u ''horizon_end'', CText (isoformat_date last_day)),
      (u ''gold_valid_as_of'', CText (case valid_as_of of Some s \<Rightarrow> s | None \<Rightarrow> [])),
      (u ''content_hash'', CText (content_hash env tables first_day last_day)),
      (u ''source_freshness'', freshness_json rt freshness)]"

section \<open>The constraints\<close>

fun cell_fits :: "ios_type \<Rightarrow> bool \<Rightarrow> ios_cell \<Rightarrow> bool" where
  "cell_fits t nullable CNull = nullable"
| "cell_fits t nullable (CText s) = (t = TEXT)"
| "cell_fits t nullable (CDoc j) = (t = TEXT)"
| "cell_fits t nullable (CInt n) = (t = INTEGER \<or> t = REAL)"
| "cell_fits t nullable (CFloat x) = (t = REAL)"

definition row_fits :: "ios_table \<Rightarrow> ios_row \<Rightarrow> bool" where
  "row_fits t row \<longleftrightarrow> list_all2 (\<lambda>(name, ty, nullable) c. cell_fits ty nullable c) (it_columns t) row"

definition key_of :: "ios_table \<Rightarrow> ios_row \<Rightarrow> ios_cell list" where
  "key_of t row = map snd (filter (\<lambda>(col, c). fst col \<in> set (it_key t)) (zip (it_columns t) row))"

definition table_accepts :: "ios_table \<Rightarrow> ios_row list \<Rightarrow> bool" where
  "table_accepts t rows \<longleftrightarrow> list_all (row_fits t) rows \<and> (it_key t = [] \<or> distinct (map (key_of t) rows))"

definition store_accepts :: "ios_tables \<Rightarrow> bool" where
  "store_accepts tables \<longleftrightarrow> list_all (\<lambda>(name, t). table_accepts t (table_rows_of tables name)) IOS_SCHEMA"

section \<open>The file\<close>

datatype ios_file = BlankFile | IosStore ios_tables "(pystr \<times> ios_cell) list" | ManifestFile json | OtherFile

record ios_io = swap_io +
  io_integrity :: "pystr option"
  io_analyzed :: bool
  io_wal :: bool
  io_size :: int
  io_sql_detail :: pystr
  io_row_repr :: "pystr option \<Rightarrow> pystr"

definition IOS_SOURCE :: pystr where
  "IOS_SOURCE = u ''ios_export''"

definition integrity_error :: "ios_io \<Rightarrow> provider_error option" where
  "integrity_error io =
     (if io_integrity io = Some (u ''ok'') then None
      else Some (ProviderSpecific IOS_SOURCE (JStr (u ''integrity_check failed: '' @ io_row_repr io (io_integrity io)))))"

definition finalize :: "ios_io \<Rightarrow> provider_error option" where
  "finalize io =
     (case integrity_error io of
        Some e \<Rightarrow> Some e
      | None \<Rightarrow> if io_analyzed io then None else Some (ProviderSpecific IOS_SOURCE (JStr (u ''ANALYZE wrote no statistics''))))"

definition not_wal :: "ios_io \<Rightarrow> provider_error option" where
  "not_wal io = (if io_wal io then Some (ProviderSpecific IOS_SOURCE (JStr (u ''exported store is in WAL mode''))) else None)"

text \<open>What is wrong with a store that was written, if anything is.\<close>

definition write_failure :: "ios_io \<Rightarrow> ios_tables \<Rightarrow> provider_error option" where
  "write_failure io tables =
     (if store_accepts tables then finalize io else Some (SchemaMismatch IOS_SOURCE (io_sql_detail io)))"

definition store_failure :: "ios_io \<Rightarrow> ios_tables \<Rightarrow> provider_error option" where
  "store_failure io tables = (case write_failure io tables of Some e \<Rightarrow> Some e | None \<Rightarrow> not_wal io)"

text \<open>A rejected row rolls the transaction back: the tables stay, empty.\<close>

definition write_store ::
  "pystr \<Rightarrow> ios_tables \<Rightarrow> (pystr \<times> ios_cell) list \<Rightarrow> ios_file fs \<Rightarrow> ios_file fs" where
  "write_store path tables meta fs =
     (if store_accepts tables then fs(path \<mapsto> IosStore tables meta)
      else fs(path \<mapsto> IosStore (map (\<lambda>(n, rs). (n, [])) tables) []))"

definition sidecars :: "pystr \<Rightarrow> pystr list" where
  "sidecars path = [path @ u ''-wal'', path @ u ''-shm'']"

definition unlink_all :: "pystr list \<Rightarrow> 'c fs \<Rightarrow> 'c fs" where
  "unlink_all paths fs = fold (\<lambda>p g. g(p := None)) paths fs"

definition store_write_block ::
  "ios_io \<Rightarrow> ios_tables \<Rightarrow> (pystr \<times> ios_cell) list \<Rightarrow> pystr \<Rightarrow> ios_file fs \<Rightarrow> unit block_end \<times> ios_file fs" where
  "store_write_block io tables meta path fs =
     (Finished (store_failure io tables = None), unlink_all (sidecars path) (write_store path tables meta fs))"

record export_report =
  er_horizon_start :: date
  er_horizon_end :: date
  er_pools :: nat
  er_sessions :: nat
  er_day_rows :: nat
  er_notices :: nat
  er_warnings :: nat
  er_bytes :: int
  er_content_hash :: pystr
  er_uncovered_days :: nat

definition report_of :: "ios_env \<Rightarrow> zurich_calendar \<Rightarrow> ios_io \<Rightarrow> ios_tables \<Rightarrow> date list \<Rightarrow> export_report" where
  "report_of env cal io tables dates =
     \<lparr>er_horizon_start = hd dates, er_horizon_end = last dates,
      er_pools = length (table_rows_of tables (u ''pool'')), er_sessions = length (table_rows_of tables (u ''session'')),
      er_day_rows = length (table_rows_of tables (u ''day'')), er_notices = length (table_rows_of tables (u ''day_notice'')),
      er_warnings = length (table_rows_of tables (u ''day_warning'')), er_bytes = io_size io,
      er_content_hash = content_hash env tables (hd dates) (last dates),
      er_uncovered_days = length (filter (\<lambda>d. \<not> covers cal d) dates)\<rparr>"

text \<open>The store's tables and meta rows, from the gold store; an exception of a reader leaves the export.\<close>

definition assemble ::
  "ios_env \<Rightarrow> models \<Rightarrow> runtime \<Rightarrow> gold_db \<Rightarrow> zurich_calendar \<Rightarrow> date \<Rightarrow> int \<Rightarrow> datetime \<Rightarrow>
   py_error + date list \<times> ios_tables \<times> (pystr \<times> ios_cell) list" where
  "assemble env m rt db cal today days now =
     bind_err (gold_load_all m db) (\<lambda>facs.
     bind_err (load_roster m db) (\<lambda>roster.
     bind_err (horizon today days) (\<lambda>dates.
     bind_err (resolved_tables rt now facs roster cal dates (static_tables facs roster (load_alias_rows db) cal dates)) (\<lambda>tables.
     bind_err (load_source_freshness rt db) (\<lambda>freshness.
       Inr (dates, tables, meta_rows env rt tables (hd dates) (last dates) now (gold_valid_as_of facs) freshness))))))"

definition export_ios ::
  "ios_env \<Rightarrow> models \<Rightarrow> runtime \<Rightarrow> gold_db \<Rightarrow> pystr \<Rightarrow> date \<Rightarrow> int \<Rightarrow> datetime \<Rightarrow> ios_io \<Rightarrow> ios_file fs \<Rightarrow>
   (py_error + (export_report, provider_error) result) \<times> ios_file fs" where
  "export_ios env m rt db out today days now io fs =
     (if days < 1
      then (Inr (Err (ProviderSpecific IOS_SOURCE (JStr (u ''days must be >= 1, got '' @ str_of_int days)))), fs)
      else
        (case load_calendar m db of
           Inl e \<Rightarrow>
             (if e \<in> {LookupError, KeyError, IndexError}
              then Inr (Err (SchemaMismatch (u ''gold'') (ie_calendar_detail env))) else Inl e, fs)
         | Inr cal \<Rightarrow>
             (case assemble env m rt db cal today days now of
                Inl e \<Rightarrow> (Inl e, fs)
              | Inr (dates, tables, meta) \<Rightarrow>
                  (case atomic_swap (swap_io.truncate io) BlankFile out (store_write_block io tables meta) fs of
                     (Swapped, fs') \<Rightarrow> (Inr (Ok (report_of env cal io tables dates)), unlink_all (sidecars out) fs')
                   | (NotCommitted, fs') \<Rightarrow> (Inr (Err (the (store_failure io tables))), fs')
                   | (r, fs') \<Rightarrow> (Inl OSError, fs')))))"

section \<open>The release manifest\<close>

record store_manifest =
  sm_schema_version :: int
  sm_built_at :: ios_cell
  sm_horizon_end :: ios_cell
  sm_url :: pystr
  sm_sha256 :: pystr
  sm_bytes :: int
  sm_freshness :: "(pystr \<times> pystr) list list"

record manifest_env =
  me_json :: "pystr \<Rightarrow> json option"
  me_str :: "json \<Rightarrow> pystr"
  me_sha256 :: "ios_file \<Rightarrow> pystr"
  me_size :: "ios_file \<Rightarrow> int"
  me_unreadable :: "ios_file \<Rightarrow> pystr"
  me_missing :: "pystr list \<Rightarrow> pystr"
  me_no_store :: pystr
  me_bad_freshness :: pystr

text \<open>\<open>json.loads\<close> of a meta value: a document column is the value it was dumped from.\<close>

definition cell_json :: "manifest_env \<Rightarrow> ios_cell \<Rightarrow> json option" where
  "cell_json env c = (case c of CDoc j \<Rightarrow> Some j | CText s \<Rightarrow> me_json env s | _ \<Rightarrow> None)"

definition freshness_item :: "manifest_env \<Rightarrow> json \<Rightarrow> py_error + (pystr \<times> pystr) list" where
  "freshness_item env item =
     (case item of JObj ms \<Rightarrow> Inr (map (\<lambda>(k, v). (k, str_json (me_str env) v)) ms) | _ \<Rightarrow> Inl AttributeError)"

definition freshness_items :: "manifest_env \<Rightarrow> ios_cell option \<Rightarrow> py_error + (pystr \<times> pystr) list list" where
  "freshness_items env raw =
     (case (case raw of Some c \<Rightarrow> cell_json env c | None \<Rightarrow> Some (JList [])) of
        None \<Rightarrow> Inl ValueError
      | Some (JList items) \<Rightarrow> map_err (freshness_item env) items
      | Some (JObj ms) \<Rightarrow> if ms = [] then Inr [] else Inl AttributeError
      | Some (JStr s) \<Rightarrow> if s = [] then Inr [] else Inl AttributeError
      | Some _ \<Rightarrow> Inl TypeError)"

definition REQUIRED_META :: "pystr list" where
  "REQUIRED_META = [u ''schema_version'', u ''built_at'', u ''horizon_end'']"

definition cell_int :: "ios_cell \<Rightarrow> py_error + int" where
  "cell_int c = (case c of CText s \<Rightarrow> (case int_of_str s of Some n \<Rightarrow> Inr n | None \<Rightarrow> Inl ValueError) | CInt n \<Rightarrow> Inr n
     | _ \<Rightarrow> Inl ValueError)"

definition manifest_of_meta ::
  "manifest_env \<Rightarrow> ios_file \<Rightarrow> (pystr \<rightharpoonup> ios_cell) \<Rightarrow> pystr \<Rightarrow> py_error + (store_manifest, provider_error) result" where
  "manifest_of_meta env file meta url =
     (let missing = filter (\<lambda>k. meta k = None) REQUIRED_META
      in if missing \<noteq> [] then Inr (Err (SchemaMismatch IOS_SOURCE (me_missing env missing)))
         else
           (case freshness_items env (meta (u ''source_freshness'')) of
              Inl e \<Rightarrow>
                if e \<in> {ValueError, AttributeError}
                then Inr (Err (SchemaMismatch IOS_SOURCE (me_bad_freshness env))) else Inl e
            | Inr items \<Rightarrow>
                bind_err (cell_int (the (meta (u ''schema_version'')))) (\<lambda>version.
                  Inr (Ok \<lparr>sm_schema_version = version, sm_built_at = the (meta (u ''built_at'')),
                           sm_horizon_end = the (meta (u ''horizon_end'')), sm_url = url,
                           sm_sha256 = me_sha256 env file, sm_bytes = me_size env file, sm_freshness = items\<rparr>))))"

definition manifest_for ::
  "manifest_env \<Rightarrow> ios_file fs \<Rightarrow> pystr \<Rightarrow> pystr \<Rightarrow> py_error + (store_manifest, provider_error) result" where
  "manifest_for env fs store url =
     (case fs store of
        None \<Rightarrow> Inr (Err (ProviderSpecific IOS_SOURCE (JStr (me_no_store env))))
      | Some file \<Rightarrow>
          (case file of
             IosStore tables meta \<Rightarrow> manifest_of_meta env file (map_of meta) url
           | _ \<Rightarrow> Inr (Err (SchemaMismatch IOS_SOURCE (me_unreadable env file)))))"

definition cell_to_json :: "ios_cell \<Rightarrow> json" where
  "cell_to_json c = (case c of CText s \<Rightarrow> JStr s | CInt n \<Rightarrow> JInt n | CDoc j \<Rightarrow> j | _ \<Rightarrow> JNull)"

definition manifest_json :: "store_manifest \<Rightarrow> json" where
  "manifest_json m = sort_keys (JObj
     [(u ''schema_version'', JInt (sm_schema_version m)), (u ''built_at'', cell_to_json (sm_built_at m)),
      (u ''horizon_end'', cell_to_json (sm_horizon_end m)), (u ''url'', JStr (sm_url m)), (u ''sha256'', JStr (sm_sha256 m)),
      (u ''bytes'', JInt (sm_bytes m)),
      (u ''freshness'', JList (map (\<lambda>ps. JObj (map (map_prod id JStr) ps)) (sm_freshness m)))])"

definition write_manifest ::
  "manifest_env \<Rightarrow> swap_io \<Rightarrow> pystr \<Rightarrow> pystr \<Rightarrow> pystr \<Rightarrow> ios_file fs \<Rightarrow>
   (py_error + (store_manifest, provider_error) result) \<times> ios_file fs" where
  "write_manifest env io store out url fs =
     (case manifest_for env fs store url of
        Inl e \<Rightarrow> (Inl e, fs)
      | Inr (Err e) \<Rightarrow> (Inr (Err e), fs)
      | Inr (Ok manifest) \<Rightarrow>
          (case atomic_swap io BlankFile out
                  (\<lambda>tmp g. (Finished True :: unit block_end, g(tmp \<mapsto> ManifestFile (manifest_json manifest)))) fs of
             (Swapped, fs') \<Rightarrow> (Inr (Ok manifest), fs')
           | (r, fs') \<Rightarrow> (Inl OSError, fs')))"

end
