(* ===== verification/Ios_Facts.thy ===== *)
theory Ios_Facts
  imports Ios_Export Query_Properties Roster_Properties
begin

text \<open>Closed forms of the export: the answer of a day, the rows of every table, and which rows fit the schema.\<close>

section \<open>The answer of a day\<close>

lemma noon_moment: "mo_day (moment_of db now (sq_at (noon_query d))) = d"
  by (simp add: mo_day_moment noon_query_def at_local_def astimezone_zurich_def)

lemma noon_in_radius: "in_radius (noon_query d) fac"
  by (simp add: in_radius_def out_of_radius_def noon_query_def)

lemma basin_days_ex:
  "(\<exists>bd \<in> set (basin_days fac d cal). P (snd bd)) \<longleftrightarrow> (\<exists>b \<in> set (basins fac). bn_rules b \<noteq> [] \<and> P (resolve_basin fac b d cal))"
  by (auto simp: basin_days_def)

lemma day_unverified_case: "(case s of OpenDay ss uv \<Rightarrow> uv | _ \<Rightarrow> False) = day_unverified s"
  by (cases s) simp_all

lemma unverified_pools_eq: "unverified_pools facs d cal = unverified_names d cal facs"
  unfolding unverified_pools_def unverified_names_def day_unverified_case basin_days_ex ..

lemma resolve_day_answer:
  obtains r where "resolve_day rt now facs cal roster d = Inr r"
    "qr_warnings r = (if covers cal d then [] else [calendar_warning d]) @
       (if unverified_pools facs d cal \<noteq> {} then [holiday_warning d (unverified_pools facs d cal)] else [])"
    "qr_notices r = concat (map (\<lambda>fac. active_notices fac d) facs)"
    "mset (qr_options r) = mset (concat (map
       (facility_options (noon_query d) (moment_of (rt_tzdb rt) now (sq_at (noon_query d))) cal None) facs))"
  unfolding resolve_day_def find_swim_options_eq find_swim_options_at_eq
  by (simp add: Let_def noon_moment noon_in_radius unverified_pools_eq)

section \<open>Dates\<close>

lemma digits_of_small: "n < 10 \<Longrightarrow> digits_of n = [48 + n]"
  by (subst digits_of.simps) simp

lemma digits_of_two: "10 \<le> n \<Longrightarrow> n < 100 \<Longrightarrow> digits_of n = [48 + n div 10, 48 + n mod 10]"
  by (subst digits_of.simps) (simp add: digits_of_small less_mult_imp_div_less)

lemma zero_pad_d2: "n < 100 \<Longrightarrow> zero_pad 2 (digits_of n) = d2 n"
  by (cases "n < 10") (simp_all add: digits_of_small digits_of_two zero_pad_def d2_def)

lemma digits_of_snoc: "10 \<le> n \<Longrightarrow> digits_of n = digits_of (n div 10) @ [48 + n mod 10]"
  by (subst digits_of.simps) simp

lemma digits_of_pair: "100 \<le> n \<Longrightarrow> digits_of n = digits_of (n div 100) @ d2 (n mod 100)"
proof -
  assume n: "100 \<le> n"
  then have "10 \<le> n" "10 \<le> n div 10" by simp_all
  then have "digits_of n = digits_of (n div 10 div 10) @ [48 + n div 10 mod 10, 48 + n mod 10]"
    by (simp add: digits_of_snoc [of n] digits_of_snoc [of "n div 10"])
  moreover have "n div 10 div 10 = n div 100" using div_mult2_eq [of n 10 10] by simp
  moreover have "n mod 100 = 10 * (n div 10 mod 10) + n mod 10" using mod_mult2_eq [of n 10 10] by simp
  ultimately show ?thesis by (simp add: d2_def)
qed

lemma zero_pad_d4: "n < 10000 \<Longrightarrow> zero_pad 4 (digits_of n) = d4 n"
proof -
  assume n: "n < 10000"
  show ?thesis
  proof (cases "n < 100")
    case True
    have pad: "zero_pad 4 s = 48 # 48 # zero_pad 2 s" if "length s \<le> 2" for s
      using that by (simp add: zero_pad_def numeral_eq_Suc Suc_diff_le)
    have "length (digits_of n) \<le> 2" using True by (cases "n < 10") (simp_all add: digits_of_small digits_of_two)
    from pad [OF this] True show ?thesis by (simp add: zero_pad_d2 d4_def) (simp add: d2_def)
  next
    case False
    then have "100 \<le> n" by simp
    moreover from n have "n div 100 < 100" by (simp add: less_mult_imp_div_less)
    note zero_pad_d2 [OF this]
    ultimately show ?thesis by (simp add: digits_of_pair d4_def zero_pad_def d_lengths)
  qed
qed

lemma isoformat_date_iso: "valid_date d \<Longrightarrow> isoformat_date d = iso_date d"
proof -
  assume v: "valid_date d"
  then have "0 \<le> year d" "0 \<le> month d" "0 \<le> day d" "nat (year d) < 10000" "nat (month d) < 100" "nat (day d) < 100"
    using days_in_month_le [of "year d" "month d"] by (auto simp: valid_date_def nat_less_iff)
  then show ?thesis by (simp add: isoformat_date_def iso_date_def str_of_int_def zero_pad_d4 zero_pad_d2 u_def)
qed

lemma isoformat_date_inject: "valid_date d \<Longrightarrow> valid_date e \<Longrightarrow> isoformat_date d = isoformat_date e \<Longrightarrow> d = e"
  using parse_date_iso [of d "[]"] parse_date_iso [of e "[]"] by (simp add: isoformat_date_iso)

section \<open>The rows of the finished tables\<close>

lemma extend_table_names [simp]: "map fst (extend_table n rows t) = map fst t"
  by (auto simp: extend_table_def)

lemma extend_table_map_of:
  "map_of (extend_table n rows t) k = map_option (\<lambda>rs. if k = n then rs @ rows else rs) (map_of t k)"
  by (induction t) (simp_all add: extend_table_def split_def)

lemma extend_table_rows:
  "table_rows_of (extend_table n rows t) k = table_rows_of t k @ (if k = n \<and> k \<in> set (map fst t) then rows else [])"
proof (cases "map_of t k")
  case None
  then have "k \<notin> set (map fst t)" by (simp add: map_of_eq_None_iff)
  then show ?thesis unfolding table_rows_of_def extend_table_map_of None by simp
next
  case (Some rs)
  then have "k \<in> set (map fst t)" by (force dest: map_of_SomeD)
  with Some show ?thesis by (simp add: table_rows_of_def extend_table_map_of)
qed

definition answer_of :: "runtime \<Rightarrow> datetime \<Rightarrow> facility list \<Rightarrow> zurich_calendar \<Rightarrow> roster_entry list \<Rightarrow> date \<Rightarrow> query_result" where
  "answer_of rt now facs cal roster d = projr (resolve_day rt now facs cal roster d)"

lemma resolve_day_Inr: "resolve_day rt now facs cal roster d = Inr (answer_of rt now facs cal roster d)"
  by (rule resolve_day_answer [of rt now facs cal roster d]) (simp add: answer_of_def)

definition day_rows :: "facility list \<Rightarrow> zurich_calendar \<Rightarrow> pystr \<Rightarrow> query_result \<Rightarrow> date \<Rightarrow> ios_row list" where
  "day_rows facs cal name r d =
     (if name = u ''session'' then session_rows r d
      else if name = u ''day'' then map (\<lambda>s. status_row s d) (qr_statuses r)
      else if name = u ''day_notice'' then map (notice_row d) (qr_notices r)
      else if name = u ''day_warning'' then warning_rows facs d cal else [])"

lemma resolved_tables_rows:
  assumes "set (map fst t) = set TABLE_NAMES"
  shows "\<exists>t'. resolved_tables rt now facs roster cal dates t = Inr t' \<and> map fst t' = map fst t \<and>
     (\<forall>name. table_rows_of t' name =
        table_rows_of t name @ concat (map (\<lambda>d. day_rows facs cal name (answer_of rt now facs cal roster d) d) dates))"
  using assms
proof (induction dates arbitrary: t)
  case Nil
  then show ?case by (simp add: resolved_tables_def)
next
  case (Cons d dates)
  let ?r = "answer_of rt now facs cal roster d"
  obtain t1 where t1: "export_day rt now facs roster cal t d = Inr t1" "map fst t1 = map fst t"
    "\<And>name. table_rows_of t1 name = table_rows_of t name @ day_rows facs cal name ?r d"
    using Cons.prems
    by (simp add: export_day_def resolve_day_Inr extend_table_rows day_rows_def TABLE_NAMES_def IOS_SCHEMA_def)
  from Cons.IH [of t1] Cons.prems t1(2) obtain t' where
    "resolved_tables rt now facs roster cal dates t1 = Inr t'" "map fst t' = map fst t1"
    "\<forall>name. table_rows_of t' name = table_rows_of t1 name @
       concat (map (\<lambda>d. day_rows facs cal name (answer_of rt now facs cal roster d) d) dates)" by metis
  with t1 show ?case by (simp add: resolved_tables_def)
qed

lemma static_tables_names: "map fst (static_tables facs roster al cal dates) = TABLE_NAMES"
  by (simp add: static_tables_def TABLE_NAMES_def IOS_SCHEMA_def Let_def)

section \<open>Rows that fit the schema\<close>

lemma cell_fits_or_null [simp]:
  "cell_fits TEXT True (text_or_null x)" "cell_fits INTEGER True (int_or_null y)" "cell_fits REAL True (num_cell z)"
  "cell_fits TEXT b (ios_doc j)" "cell_fits TEXT True (snd (admission_doc a))" "cell_fits TEXT True (season_doc s)"
  "cell_fits TEXT b (snd (access_doc acc))"
  by (auto simp: text_or_null_def int_or_null_def num_cell_def ios_doc_def admission_doc_def price_doc_def season_doc_def
      access_doc_def Let_def split: option.splits admission.splits)

definition schema_of :: "pystr \<Rightarrow> ios_table" where
  "schema_of name = the (map_of IOS_SCHEMA name)"

lemma pool_row_fits: "row_fits (schema_of (u ''pool'')) (ios_pool_row row fac)"
  by (cases fac) (auto simp: row_fits_def schema_of_def IOS_SCHEMA_def ios_pool_row_def Let_def split: option.splits)

lemma basin_row_fits: "row_fits (schema_of (u ''pool_basin'')) (ios_basin_row fac b)"
  by (simp add: row_fits_def schema_of_def IOS_SCHEMA_def ios_basin_row_def)

lemma lane_day_row_fits: "row_fits (schema_of (u ''lane_day'')) (lane_day_row b plan wd)"
  by (simp add: row_fits_def schema_of_def IOS_SCHEMA_def lane_day_row_def Let_def)

lemma resolved_row_fits:
  "row_fits (schema_of (u ''day'')) (status_row s d)" "row_fits (schema_of (u ''session'')) (session_row d opt)"
  "row_fits (schema_of (u ''day_notice'')) (notice_row d n)" "row_fits (schema_of (u ''day_warning'')) (warning_row d w)"
  by (simp_all add: row_fits_def schema_of_def IOS_SCHEMA_def status_row_def session_row_def notice_row_def warning_row_def Let_def)

section \<open>Keys that do not repeat\<close>

lemma distinct_concat_tagged:
  assumes "distinct (map tag xs)" "\<And>x. x \<in> set xs \<Longrightarrow> distinct (g x)" "\<And>x y. x \<in> set xs \<Longrightarrow> y \<in> set (g x) \<Longrightarrow> h y = tag x"
  shows "distinct (concat (map g xs))"
  using assms
proof (induction xs)
  case (Cons x xs)
  have "tag x \<notin> tag ` set xs" using Cons.prems(1) by simp
  moreover have "tag x \<in> tag ` set xs" if y: "y \<in> set (g x)" and x': "x' \<in> set xs" "y \<in> set (g x')" for x' y
  proof -
    from Cons.prems(3) [of x y] Cons.prems(3) [of x' y] y x' have "tag x = tag x'" by simp
    with x'(1) show ?thesis by simp
  qed
  ultimately have "set (g x) \<inter> set (concat (map g xs)) = {}" by auto
  moreover have "distinct (concat (map g xs))" using Cons by simp
  ultimately show ?case using Cons.prems(2) by simp
qed simp

lemma distinct_concat_parts:
  assumes "distinct xs" "distinct (concat (map g xs))"
  shows "x \<in> set xs \<Longrightarrow> distinct (g x)"
    "x \<in> set xs \<Longrightarrow> y \<in> set xs \<Longrightarrow> x \<noteq> y \<Longrightarrow> set (g x) \<inter> set (g y) = {}"
  using assms by (induction xs) fastforce+

lemma distinct_concat_sub:
  assumes "distinct xs" "distinct (concat (map g xs))" "distinct ys" "set ys \<subseteq> set xs"
  shows "distinct (concat (map g ys))"
  using assms(3,4)
proof (induction ys)
  case (Cons y ys)
  have "set (g y) \<inter> set (g z) = {}" if "z \<in> set ys" for z
    using distinct_concat_parts(2) [OF assms(1,2), of y z] Cons.prems that by auto
  then have "set (g y) \<inter> set (concat (map g ys)) = {}" by auto
  with Cons distinct_concat_parts(1) [OF assms(1,2)] show ?case by simp
qed simp

subsection \<open>Features\<close>

definition key_text :: "feature_kind \<Rightarrow> nat \<Rightarrow> pystr" where
  "key_text k n = (if n = 1 then feature_kind_value k else feature_kind_value k @ u ''#'' @ str_of_int (int n))"

lemma kind_value_no_hash: "35 \<notin> set (feature_kind_value k)"
  by (cases k) (simp_all add: u_def)

lemma kind_value_inject: "feature_kind_value k = feature_kind_value k' \<Longrightarrow> k = k'"
  by (cases k; cases k') simp_all

lemma take_to_hash: "35 \<notin> set s \<Longrightarrow> takeWhile (\<lambda>c. c \<noteq> 35) (s @ 35 # t) = s"
  by (subst takeWhile_append2) auto

lemma key_text_inject: "key_text k m = key_text k' n \<Longrightarrow> k = k' \<and> m = n"
proof -
  assume eq: "key_text k m = key_text k' n"
  have hash: "35 \<in> set (key_text k n) \<longleftrightarrow> n \<noteq> 1" for k n
    using kind_value_no_hash [of k] by (simp add: key_text_def u_def)
  have val: "takeWhile (\<lambda>c. c \<noteq> 35) (key_text k n) = feature_kind_value k" for k n
    using kind_value_no_hash [of k] by (auto simp: key_text_def u_def take_to_hash takeWhile_eq_all_conv)
  from val [of k m] val [of k' n] eq have k: "k = k'" by (intro kind_value_inject) simp
  moreover have "m = n"
  proof (cases "m = 1")
    case True
    with hash [of k m] hash [of k' n] eq show ?thesis by simp
  next
    case False
    with hash [of k m] hash [of k' n] eq have "n \<noteq> 1" by simp
    with False eq k show ?thesis by (simp add: key_text_def str_of_int_def digits_of_inject)
  qed
  ultimately show ?thesis by simp
qed

definition kinds_so_far :: "feature_kind list \<Rightarrow> feature_kind \<Rightarrow> nat" where
  "kinds_so_far before k = length (filter (\<lambda>x. x = k) before)"

lemma feature_key_text: "feature_key f before = key_text (ft_kind f) (kinds_so_far before (ft_kind f) + 1)"
  by (simp add: feature_key_def key_text_def kinds_so_far_def)

lemma feature_keys_later:
  "x \<in> set (feature_keys before fs) \<Longrightarrow> \<exists>k n. x = key_text k n \<and> kinds_so_far before k < n"
proof (induction fs arbitrary: before)
  case (Cons f fs)
  from Cons.prems consider "x = feature_key f before" | "x \<in> set (feature_keys (before @ [ft_kind f]) fs)" by auto
  then show ?case
  proof cases
    case 2
    then obtain k n where "x = key_text k n" "kinds_so_far (before @ [ft_kind f]) k < n" using Cons.IH by blast
    then have "x = key_text k n" "kinds_so_far before k < n" by (auto simp: kinds_so_far_def split: if_splits)
    then show ?thesis by blast
  qed (auto simp: feature_key_text)
qed simp

lemma feature_keys_distinct: "distinct (feature_keys before fs)"
proof (induction fs arbitrary: before)
  case (Cons f fs)
  have "feature_key f before \<notin> set (feature_keys (before @ [ft_kind f]) fs)"
  proof
    assume "feature_key f before \<in> set (feature_keys (before @ [ft_kind f]) fs)"
    then obtain k n where "feature_key f before = key_text k n" "kinds_so_far (before @ [ft_kind f]) k < n"
      using feature_keys_later by blast
    then show False by (auto simp: feature_key_text kinds_so_far_def dest!: key_text_inject)
  qed
  with Cons show ?case by simp
qed simp

lemma feature_keys_length [simp]: "length (feature_keys before fs) = length fs"
  by (induction fs arbitrary: before) simp_all

subsection \<open>The horizon\<close>

lemma list_all2_mapped: "list_all2 (\<lambda>x y. y = f x \<and> P y) xs ys \<Longrightarrow> ys = map f xs \<and> (\<forall>x \<in> set xs. P (f x))"
  by (induction rule: list_all2_induct) auto

lemma horizon_dates:
  assumes "horizon today days = Inr dates"
  shows "dates = map (add_days today) [0..days - 1]" "\<forall>i \<in> set [0..days - 1]. year (add_days today i) \<le> 9999"
proof -
  have "list_all2 (\<lambda>i d. d = add_days today i \<and> year d \<le> 9999) [0..days - 1] dates"
    using assms unfolding horizon_def map_err_Inr
    by (rule list_all2_mono) (auto simp: Let_def split: if_splits)
  from list_all2_mapped [OF this] show "dates = map (add_days today) [0..days - 1]"
    "\<forall>i \<in> set [0..days - 1]. year (add_days today i) \<le> 9999" by simp_all
qed

lemma horizon_days:
  assumes "horizon today days = Inr dates" "valid_date today"
  shows "distinct dates" "\<forall>d \<in> set dates. valid_date d" "length dates = nat days"
proof -
  have step: "valid_date (add_days today i) \<and> toordinal (add_days today i) = toordinal today + i"
    if "0 \<le> i" "year (add_days today i) \<le> 9999" for i
  proof -
    have ge: "year ((next_day ^^ n) d) \<ge> year d" for n d
    proof (induction n)
      case (Suc n)
      have "year (next_day e) \<ge> year e" for e by (simp add: next_day_def Let_def)
      with Suc show ?case by (metis funpow.simps(2) comp_apply order_trans)
    qed simp
    have "civil_date today" "1 \<le> year today" using assms(2) by (simp_all add: valid_date_civil)
    with next_days_ordinal [of today "nat i"] ge [of today "nat i"] that show ?thesis
      by (simp add: add_days_def valid_date_civil)
  qed
  note dates = horizon_dates(1) [OF assms(1)] and late = horizon_dates(2) [OF assms(1)]
  have ok: "valid_date (add_days today i) \<and> toordinal (add_days today i) = toordinal today + i" if "i \<in> set [0..days - 1]" for i
  proof (rule step)
    show "0 \<le> i" using that by simp
    show "year (add_days today i) \<le> 9999" using late that by (rule bspec)
  qed
  have "inj_on (add_days today) (set [0..days - 1])"
  proof (rule inj_onI)
    fix i j assume "i \<in> set [0..days - 1]" "j \<in> set [0..days - 1]" "add_days today i = add_days today j"
    with ok [of i] ok [of j] show "i = j" by (metis add_left_cancel)
  qed
  then show "distinct dates" by (simp add: dates distinct_map)
  show "\<forall>d \<in> set dates. valid_date d" using ok by (auto simp: dates)
  show "length dates = nat days" by (simp add: dates)
qed

section \<open>The constraints of the schema\<close>

text \<open>
  No row of an export can break a constraint of the store's schema: the value types, the columns that
  must be present, and the primary keys, table by table.
\<close>

section \<open>The constraints hold\<close>

lemma table_key_simps:
  "key_of (schema_of (u ''pool'')) (ios_pool_row row fac) = [CText (pce_pool_id (re_entry row))]"
  "key_of (schema_of (u ''pool_basin'')) (ios_basin_row f b) = [CText (bn_id b)]"
  "key_of (schema_of (u ''lane_day'')) (lane_day_row b plan wd) = [CText (bn_id b), CInt (weekday_value wd)]"
  "key_of (schema_of (u ''day'')) (status_row s d) = [CText (fs_facility_id s), CText (isoformat_date d)]"
  by (simp_all add: key_of_def schema_of_def IOS_SCHEMA_def ios_pool_row_def ios_basin_row_def lane_day_row_def
      status_row_def Let_def)

lemma numbered_key_simps:
  "key_of (schema_of (u ''pool_locker'')) [a, b, c] = [a, b]" "key_of (schema_of (u ''pool_rental'')) [a, b, c] = [a, b]"
  "key_of (schema_of (u ''pool_feature'')) [a, b, c] = [a, b]"
  by (simp_all add: key_of_def schema_of_def IOS_SCHEMA_def)

lemma keyed_tables:
  "it_key (schema_of (u ''session'')) = []" "it_key (schema_of (u ''day_notice'')) = []"
  "it_key (schema_of (u ''day_warning'')) = []" "it_key (schema_of (u ''alias'')) = []"
  by (simp_all add: schema_of_def IOS_SCHEMA_def)

text \<open>Rows collected from parts with different tags, the tag being a cell of the key.\<close>

lemma tagged_accepts:
  assumes "distinct (map tag xs)" "inj c" and "\<And>x. x \<in> set xs \<Longrightarrow> list_all (row_fits t) (g x)"
    and "\<And>x. x \<in> set xs \<Longrightarrow> distinct (map (key_of t) (g x))"
    and "\<And>x row. x \<in> set xs \<Longrightarrow> row \<in> set (g x) \<Longrightarrow> key_of t row ! n = c (tag x)"
  shows "table_accepts t (concat (map g xs))"
proof -
  have "distinct (map (\<lambda>x. c (tag x)) xs)" using assms(1,2) by (simp add: distinct_map inj_on_def inj_def)
  then have "distinct (concat (map (\<lambda>x. map (key_of t) (g x)) xs))"
    by (rule distinct_concat_tagged [where h = "\<lambda>k. k ! n"]) (use assms(4,5) in auto)
  moreover have "list_all (row_fits t) (concat (map g xs))" using assms(3) by (auto simp: list_all_iff)
  ultimately show ?thesis by (simp add: table_accepts_def map_concat comp_def)
qed

lemma numbered_accepted:
  assumes "distinct (map (facility_id \<circ> identity) known)"
    and "\<And>a b c. key_of t [a, b, c] = [a, b]"
    and "\<And>f d i. d \<in> set (docs f) \<Longrightarrow> row_fits t [CText (facility_id (identity f)), CInt i, d]"
  shows "table_accepts t (concat (map (\<lambda>f. numbered f (docs f)) known))"
proof (rule tagged_accepts [where tag = "facility_id \<circ> identity" and c = CText and n = 0])
  fix f
  show "list_all (row_fits t) (numbered f (docs f))"
    using assms(3) by (auto simp: numbered_def list_all_iff in_set_enumerate_eq)
  have keys: "map (key_of t) (numbered f (docs f)) = map (\<lambda>i. [CText (facility_id (identity f)), CInt (int i)]) (map fst (enumerate 0 (docs f)))"
    unfolding map_map numbered_def by (rule map_cong) (auto simp: assms(2))
  show "distinct (map (key_of t) (numbered f (docs f)))"
    unfolding keys by (simp add: distinct_map inj_on_def)
qed (use assms in \<open>auto simp: numbered_def inj_def\<close>)

lemma unkeyed_accepted: "it_key t = [] \<Longrightarrow> list_all (row_fits t) rows \<Longrightarrow> table_accepts t rows"
  by (simp add: table_accepts_def)


text \<open>The facilities the roster names.\<close>

abbreviation known_facilities :: "facility list \<Rightarrow> roster_entry list \<Rightarrow> facility list" where
  "known_facilities facs roster \<equiv> List.map_filter (facility_of facs) roster"

lemma facility_of_Some: "facility_of facs row = Some f \<Longrightarrow> f \<in> set facs \<and> facility_id (identity f) = pce_pool_id (re_entry row)"
  by (auto simp: facility_of_def dest!: map_of_SomeD)

lemma known_sub: "set (known_facilities facs roster) \<subseteq> set facs"
  by (auto simp: map_filter_def dest: facility_of_Some)

lemma known_distinct:
  assumes "distinct (map (pce_pool_id \<circ> re_entry) roster)"
  shows "distinct (map (facility_id \<circ> identity) (known_facilities facs roster))"
  using assms
proof (induction roster)
  case (Cons row roster)
  have "pce_pool_id (re_entry row) \<notin> facility_id ` identity ` set (known_facilities facs roster)"
  proof
    assume "pce_pool_id (re_entry row) \<in> facility_id ` identity ` set (known_facilities facs roster)"
    then obtain f row' where "row' \<in> set roster" "facility_of facs row' = Some f" "pce_pool_id (re_entry row) = facility_id (identity f)"
      by (auto simp: map_filter_def)
    then have "row' \<in> set roster" "pce_pool_id (re_entry row') = pce_pool_id (re_entry row)"
      by (auto dest!: facility_of_Some)
    then have "pce_pool_id (re_entry row) \<in> (pce_pool_id \<circ> re_entry) ` set roster" by (metis comp_apply image_eqI)
    with Cons.prems show False by simp
  qed
  with Cons show ?case
    by (cases "facility_of facs row") (auto simp: map_filter_simps comp_def image_iff dest!: facility_of_Some)
qed (simp add: map_filter_simps)

lemma basins_distinct:
  assumes "distinct (map (facility_id \<circ> identity) facs)" "distinct (map bn_id (concat (map basins facs)))"
    and "distinct (map (pce_pool_id \<circ> re_entry) roster)"
  shows "distinct (map bn_id (concat (map basins (known_facilities facs roster))))"
proof -
  have "distinct (concat (map (map bn_id \<circ> basins) (known_facilities facs roster)))"
  proof (rule distinct_concat_sub)
    show "distinct facs" using assms(1) by (simp add: distinct_map)
    show "distinct (concat (map (map bn_id \<circ> basins) facs))" using assms(2) by (simp add: map_concat)
    show "distinct (known_facilities facs roster)" using known_distinct [OF assms(3)] by (simp add: distinct_map)
  qed (rule known_sub)
  then show ?thesis by (simp add: map_concat)
qed

section \<open>The tables one by one\<close>

lemma pool_accepted:
  assumes "distinct (map (pce_pool_id \<circ> re_entry) roster)"
  shows "table_accepts (schema_of (u ''pool'')) (map (\<lambda>row. ios_pool_row row (facility_of facs row)) roster)"
  using assms by (simp add: table_accepts_def list_all_iff pool_row_fits table_key_simps comp_def distinct_map inj_on_def)

lemma basin_accepted:
  assumes "distinct (map bn_id (concat (map basins known)))"
  shows "table_accepts (schema_of (u ''pool_basin'')) (concat (map (\<lambda>f. map (ios_basin_row f) (basins f)) known))"
proof -
  have keys: "map (key_of (schema_of (u ''pool_basin''))) (concat (map (\<lambda>f. map (ios_basin_row f) (basins f)) known)) =
      map (\<lambda>i. [CText i]) (map bn_id (concat (map basins known)))"
    by (simp add: map_concat table_key_simps comp_def)
  show ?thesis unfolding table_accepts_def keys
    using assms by (auto simp: list_all_iff basin_row_fits distinct_map inj_on_def)
qed

lemma numbered_row_fits:
  "row_fits (schema_of (u ''pool_locker'')) [CText p, CInt i, ios_doc j]"
  "row_fits (schema_of (u ''pool_rental'')) [CText p, CInt i, ios_doc j]"
  by (simp_all add: row_fits_def schema_of_def IOS_SCHEMA_def)

lemma locker_accepted:
  assumes "distinct (map (facility_id \<circ> identity) known)"
  shows "table_accepts (schema_of (u ''pool_locker'')) (concat (map ios_locker_rows known))"
    "table_accepts (schema_of (u ''pool_rental'')) (concat (map ios_rental_rows known))"
  unfolding ios_locker_rows_def ios_rental_rows_def
  using numbered_key_simps(1,2)
  by (auto intro!: numbered_accepted [OF assms] simp: numbered_row_fits locker_doc_def rental_doc_def)

lemma feature_accepted:
  assumes "distinct (map (facility_id \<circ> identity) known)"
  shows "table_accepts (schema_of (u ''pool_feature'')) (concat (map (\<lambda>f. ios_feature_rows f dates cal) known))"
proof (rule tagged_accepts [where tag = "facility_id \<circ> identity" and c = CText and n = 0])
  fix f
  show "list_all (row_fits (schema_of (u ''pool_feature''))) (ios_feature_rows f dates cal)"
    by (auto simp: ios_feature_rows_def list_all_iff row_fits_def schema_of_def IOS_SCHEMA_def feature_doc_def
        dest!: set_zip_rightD)
  let ?zip = "zip (feature_keys [] (features f)) (map (feature_doc f dates cal) (features f))"
  have "map (key_of (schema_of (u ''pool_feature''))) (ios_feature_rows f dates cal) =
      map (\<lambda>k. [CText (facility_id (identity f)), CText k]) (map fst ?zip)"
    unfolding map_map ios_feature_rows_def by (rule map_cong) (auto simp: numbered_key_simps)
  also have "map fst ?zip = feature_keys [] (features f)" by simp
  finally show "distinct (map (key_of (schema_of (u ''pool_feature''))) (ios_feature_rows f dates cal))"
    using feature_keys_distinct [of "[]" "features f"] by (simp add: distinct_map inj_on_def)
qed (use assms in \<open>auto simp: ios_feature_rows_def numbered_key_simps inj_def\<close>)

lemma weekday_values_distinct: "distinct (map weekday_value WEEK)"
  by (simp add: WEEK_def)

definition basin_lane_days :: "basin \<Rightarrow> ios_row list" where
  "basin_lane_days b = (case lane_plan_of b of Some (Parsed plan) \<Rightarrow> map (lane_day_row b plan) WEEK | _ \<Rightarrow> [])"

lemma lane_day_accepted:
  assumes "distinct (map bn_id (concat (map basins known)))"
  shows "table_accepts (schema_of (u ''lane_day'')) (concat (map lane_day_rows known))"
proof -
  have "concat (map lane_day_rows known) = concat (map basin_lane_days (concat (map basins known)))"
    by (induction known) (simp_all add: lane_day_rows_def basin_lane_days_def)
  moreover have "table_accepts (schema_of (u ''lane_day'')) (concat (map basin_lane_days (concat (map basins known))))"
  proof (rule tagged_accepts [where tag = bn_id and c = CText and n = 0])
    fix b
    show "distinct (map (key_of (schema_of (u ''lane_day''))) (basin_lane_days b))"
    proof (cases "\<exists>plan. lane_plan_of b = Some (Parsed plan)")
      case True
      then obtain plan where "lane_plan_of b = Some (Parsed plan)" ..
      then have "map (key_of (schema_of (u ''lane_day''))) (basin_lane_days b) = map (\<lambda>n. [CText (bn_id b), CInt n]) (map weekday_value WEEK)"
        by (simp add: basin_lane_days_def table_key_simps comp_def)
      with weekday_values_distinct show ?thesis by (simp add: distinct_map inj_on_def)
    qed (auto simp: basin_lane_days_def split: option.splits lane_plan_outcome.splits)
  qed (use assms in \<open>auto simp: basin_lane_days_def table_key_simps lane_day_row_fits list_all_iff inj_def
      split: option.splits lane_plan_outcome.splits\<close>)
  ultimately show ?thesis by simp
qed


lemma answer_statuses_once:
  assumes "distinct (map (facility_id \<circ> identity) facs)" "distinct (map (pce_pool_id \<circ> re_entry) roster)"
  shows "distinct (map fs_facility_id (qr_statuses (answer_of rt now facs cal roster d)))"
  using answer_statuses_distinct [OF assms] resolve_day_Inr [of rt now facs cal roster d] by (simp add: resolve_day_def)

lemma day_accepted:
  assumes "distinct (map (facility_id \<circ> identity) facs)" "distinct (map (pce_pool_id \<circ> re_entry) roster)"
    and "distinct dates" "\<forall>d \<in> set dates. valid_date d"
  shows "table_accepts (schema_of (u ''day''))
    (concat (map (\<lambda>d. map (\<lambda>s. status_row s d) (qr_statuses (answer_of rt now facs cal roster d))) dates))"
proof (rule tagged_accepts [where tag = isoformat_date and c = CText and n = 1])
  show "distinct (map isoformat_date dates)"
    using assms(3,4) by (auto simp: distinct_map inj_on_def intro: isoformat_date_inject)
  fix d
  let ?ss = "qr_statuses (answer_of rt now facs cal roster d)"
  have "map (key_of (schema_of (u ''day''))) (map (\<lambda>s. status_row s d) ?ss) = map (\<lambda>i. [CText i, CText (isoformat_date d)]) (map fs_facility_id ?ss)"
    by (simp add: table_key_simps comp_def)
  with answer_statuses_once [OF assms(1,2), of rt now cal d]
  show "distinct (map (key_of (schema_of (u ''day''))) (map (\<lambda>s. status_row s d) ?ss))"
    by (simp add: distinct_map inj_on_def)
qed (auto simp: list_all_iff resolved_row_fits table_key_simps inj_def)

lemma unkeyed_rows:
  "list_all (row_fits (schema_of (u ''session''))) (concat (map (\<lambda>d. session_rows (r d) d) dates))"
  "list_all (row_fits (schema_of (u ''day_notice''))) (concat (map (\<lambda>d. map (notice_row d) (qr_notices (r d))) dates))"
  "list_all (row_fits (schema_of (u ''day_warning''))) (concat (map (\<lambda>d. warning_rows facs d cal) dates))"
  "list_all (row_fits (schema_of (u ''alias''))) (map (\<lambda>(norm, pid). [CText pid, CText norm]) al)"
  by (auto simp: list_all_iff session_rows_def warning_rows_def resolved_row_fits row_fits_def [of "schema_of (u ''alias'')"])
    (simp_all add: schema_of_def IOS_SCHEMA_def)

lemma store_accepts_tables:
  "store_accepts tables \<longleftrightarrow> (\<forall>n \<in> set TABLE_NAMES. table_accepts (schema_of n) (table_rows_of tables n))"
proof -
  have "map_of IOS_SCHEMA n = Some t" if "(n, t) \<in> set IOS_SCHEMA" for n t
    using that by (rule map_of_is_SomeI [rotated]) (simp add: IOS_SCHEMA_def)
  then show ?thesis by (force simp: store_accepts_def list_all_iff TABLE_NAMES_def schema_of_def)
qed


text \<open>No constraint of the schema can reject the rows of an export.\<close>

lemma tables_accepted:
  assumes "valid_date today" "horizon today days = Inr dates"
    and "distinct (map (facility_id \<circ> identity) facs)" "distinct (map (pce_pool_id \<circ> re_entry) roster)"
    and "distinct (map bn_id (concat (map basins facs)))"
  shows "\<exists>tables. resolved_tables rt now facs roster cal dates (static_tables facs roster al cal dates) = Inr tables \<and>
    map fst tables = TABLE_NAMES \<and> store_accepts tables \<and> length (table_rows_of tables (u ''pool'')) = length roster"
proof -
  let ?static = "static_tables facs roster al cal dates" and ?known = "known_facilities facs roster"
  have "set (map fst ?static) = set TABLE_NAMES" by (simp only: static_tables_names)
  from resolved_tables_rows [OF this, of rt now facs roster cal dates] obtain tables where
    tables: "resolved_tables rt now facs roster cal dates ?static = Inr tables" "map fst tables = TABLE_NAMES"
    and rows: "\<And>name. table_rows_of tables name = table_rows_of ?static name @
        concat (map (\<lambda>d. day_rows facs cal name (answer_of rt now facs cal roster d) d) dates)"
    by (auto simp: static_tables_names)
  note ids = known_distinct [OF assms(4), of facs] and bids = basins_distinct [OF assms(3,5,4)]
    and dates = horizon_days(1,2) [OF assms(2,1)]
  note parts = pool_accepted [OF assms(4)] basin_accepted [OF bids] locker_accepted [OF ids] feature_accepted [OF ids]
    lane_day_accepted [OF bids] day_accepted [OF assms(3,4) dates] unkeyed_accepted [OF keyed_tables(1) unkeyed_rows(1)]
    unkeyed_accepted [OF keyed_tables(2) unkeyed_rows(2)] unkeyed_accepted [OF keyed_tables(3) unkeyed_rows(3)]
    unkeyed_accepted [OF keyed_tables(4) unkeyed_rows(4)]
  have names: "set TABLE_NAMES = {u ''pool'', u ''pool_basin'', u ''pool_locker'', u ''pool_rental'', u ''pool_feature'',
      u ''day'', u ''session'', u ''day_notice'', u ''day_warning'', u ''lane_day'', u ''alias''}"
    by (simp add: TABLE_NAMES_def IOS_SCHEMA_def)
  have none: "concat (map (\<lambda>d. []) ds) = []" for ds :: "date list" by (induction ds) simp_all
  have "store_accepts tables"
    unfolding store_accepts_tables names ball_simps rows
    by (simp add: parts none static_tables_def day_rows_def table_rows_of_def Let_def)
  moreover have "length (table_rows_of tables (u ''pool'')) = length roster"
    unfolding rows by (simp add: none static_tables_def day_rows_def table_rows_of_def Let_def)
  ultimately show ?thesis using tables by blast
qed

end
