(* ===== verification/Ios_Properties.thy ===== *)
theory Ios_Properties
  imports Ios_Facts Codec_Properties
begin

text \<open>
  What the exported store promises: its warnings and rows say what the live query says, an export goes
  through when nothing is in its way, a failed one destroys nothing, and the manifest describes the file.
\<close>

section \<open>Warnings\<close>

lemma finite_unverified: "finite (unverified_pools facs d cal)"
  unfolding unverified_pools_eq unverified_names_def by simp

lemma export_warnings_render:
  "\<exists>r. resolve_day rt now facs cal roster d = Inr r \<and>
     map (\<lambda>(code, ps). render_warning code (map_of ps)) (day_warnings facs d cal) = map Inr (qr_warnings r)"
proof (rule resolve_day_answer [of rt now facs cal roster d])
  fix r assume r: "resolve_day rt now facs cal roster d = Inr r"
    "qr_warnings r = (if covers cal d then [] else [calendar_warning d]) @
       (if unverified_pools facs d cal \<noteq> {} then [holiday_warning d (unverified_pools facs d cal)] else [])"
  then show ?thesis using finite_unverified [of facs d cal]
    by (simp add: day_warnings_def Let_def render_warning_def warning_param_def WARNING_CALENDAR_COVERAGE_def
        WARNING_HOLIDAY_HOURS_UNVERIFIED_def calendar_warning_def holiday_warning_def)
qed

section \<open>All or nothing\<close>

lemma unlink_all_other: "p \<notin> set paths \<Longrightarrow> unlink_all paths fs p = fs p"
  by (induction paths arbitrary: fs) (simp_all add: unlink_all_def)

lemma sidecars_other [simp]: "out \<notin> set (sidecars out)"
  by (simp add: sidecars_def u_def)

lemma write_store_other: "p \<noteq> path \<Longrightarrow> write_store path tables meta fs p = fs p"
  by (simp add: write_store_def)

text \<open>The paths an export may touch beside its target.\<close>

definition scratch_paths :: "ios_io \<Rightarrow> pystr set" where
  "scratch_paths io = insert (tmp_name (swap_io.truncate io)) (set (sidecars (tmp_name (swap_io.truncate io))))"

lemma swap_store:
  assumes "atomic_swap (swap_io.truncate io) BlankFile out (store_write_block io tables meta) fs = (r, fs')"
    and "out \<notin> scratch_paths io"
  shows "r = Swapped \<Longrightarrow> store_accepts tables \<and> fs' out = Some (IosStore tables meta)"
    "p \<notin> insert out (scratch_paths io) \<Longrightarrow> fs' p = fs p" "r \<noteq> Swapped \<Longrightarrow> fs' out = fs out"
    "r = NotCommitted \<longleftrightarrow> prepare_ok (swap_io.truncate io) \<and> store_failure io tables \<noteq> None"
  using assms
  by (auto simp: atomic_swap_def store_write_block_def scratch_paths_def unlink_all_other write_store_other Let_def
      store_failure_def write_failure_def write_store_def split: if_splits option.splits)


text \<open>How an export ends: nothing touched, the file swapped in, or the swap given up.\<close>

lemma export_ios_cases:
  assumes "export_ios env m rt db out today days now io fs = (r, fs')"
  obtains (untouched) "fs' = fs" "\<And>rep. r \<noteq> Inr (Ok rep)"
  | (swapped) cal dates tables meta g where "assemble env m rt db cal today days now = Inr (dates, tables, meta)"
      "atomic_swap (swap_io.truncate io) BlankFile out (store_write_block io tables meta) fs = (Swapped, g)"
      "r = Inr (Ok (report_of env cal io tables dates))" "fs' = unlink_all (sidecars out) g"
  | (kept) tables meta sr where
      "atomic_swap (swap_io.truncate io) BlankFile out (store_write_block io tables meta) fs = (sr, fs')"
      "sr \<noteq> Swapped" "\<And>rep. r \<noteq> Inr (Ok rep)"
proof (cases "days < 1")
  case True
  with assms show thesis by (intro untouched) (auto simp: export_ios_def)
next
  case days: False
  show thesis
  proof (cases "load_calendar m db")
    case (Inl e)
    with days assms show thesis by (intro untouched) (auto simp: export_ios_def split: if_splits)
  next
    case cal: (Inr cal)
    show thesis
    proof (cases "assemble env m rt db cal today days now")
      case (Inl e)
      with days cal assms show thesis by (intro untouched) (auto simp: export_ios_def)
    next
      case (Inr parts)
      obtain dates tables meta where parts: "parts = (dates, tables, meta)" by (metis prod_cases3)
      obtain sr g where swap: "atomic_swap (swap_io.truncate io) BlankFile out (store_write_block io tables meta) fs = (sr, g)"
        by fastforce
      show thesis
      proof (cases "sr = Swapped")
        case True
        with days cal Inr parts swap assms show thesis by (intro swapped) (auto simp: export_ios_def)
      next
        case False
        with days cal Inr parts swap assms show thesis
          by (intro kept [of tables meta sr]) (auto simp: export_ios_def split: swap_result.splits)
      qed
    qed
  qed
qed

lemma bad_store_reports:
  "store_failure io tables = None \<longleftrightarrow>
     store_accepts tables \<and> io_integrity io = Some (u ''ok'') \<and> io_analyzed io \<and> \<not> io_wal io"
  by (simp add: store_failure_def write_failure_def finalize_def integrity_error_def not_wal_def)

text \<open>Nothing of the system gets in the way: the staging file can be made and moved, SQLite finds its file sound.\<close>

definition io_works :: "ios_io \<Rightarrow> bool" where
  "io_works io \<longleftrightarrow> prepare_ok io \<and> replace_ok io \<and> io_integrity io = Some (u ''ok'') \<and> io_analyzed io \<and> \<not> io_wal io"

lemma swap_works:
  assumes "io_works io" "store_accepts tables"
  shows "\<exists>g. atomic_swap (swap_io.truncate io) BlankFile out (store_write_block io tables meta) fs = (Swapped, g)"
  using assms bad_store_reports [of io tables]
  by (simp add: atomic_swap_def store_write_block_def io_works_def swap_io.truncate_def Let_def)

lemma hd_upto: "i \<le> j \<Longrightarrow> hd [i..j] = i" "i \<le> j \<Longrightarrow> last [i..j] = j"
  by (simp add: upto_rec1) (simp add: upto_rec2)

lemma export_runs:
  assumes "load_calendar m db = Inr cal" "gold_load_all m db = Inr facs" "load_roster m db = Inr roster"
    and "load_source_freshness rt db = Inr fresh" "1 \<le> days" "valid_date today" "horizon today days = Inr dates"
    and "distinct (map (facility_id \<circ> identity) facs)" "distinct (map pt_id (gd_pool db))"
    and "distinct (map bn_id (concat (map basins facs)))" "io_works io" "out \<notin> scratch_paths io"
  shows "\<exists>rep fs' tables meta. export_ios env m rt db out today days now io fs = (Inr (Ok rep), fs') \<and>
    fs' out = Some (IosStore tables meta) \<and> store_accepts tables \<and> map fst tables = TABLE_NAMES \<and>
    er_pools rep = length (gd_pool db) \<and> er_horizon_start rep = today \<and> er_horizon_end rep = add_days today (days - 1)"
proof -
  have roster: "map (pce_pool_id \<circ> re_entry) roster = map pt_id (sort_key pt_id (gd_pool db))"
    using assms(3) unfolding load_roster_def map_err_Inr
    by (induction rule: list_all2_induct) (auto simp: roster_entry_of_def catalog_entry_of_def bind_err_Inr Let_def)
  then have n: "length roster = length (gd_pool db)" by (metis length_map length_sort)
  have "distinct (map (pce_pool_id \<circ> re_entry) roster)" unfolding roster using assms(9) by (simp add: distinct_map)
  from tables_accepted [OF assms(6,7,8) this assms(10), of rt now cal "load_alias_rows db"] obtain tables where
    tables: "resolved_tables rt now facs roster cal dates (static_tables facs roster (load_alias_rows db) cal dates) = Inr tables"
    "map fst tables = TABLE_NAMES" "store_accepts tables" "length (table_rows_of tables (u ''pool'')) = length roster" by blast
  let ?meta = "meta_rows env rt tables (hd dates) (last dates) now (gold_valid_as_of facs) fresh"
  have "assemble env m rt db cal today days now = Inr (dates, tables, ?meta)"
    using assms(2-4,7) tables(1) by (simp add: assemble_def)
  moreover from swap_works [OF assms(11) tables(3)] obtain g where
    g: "atomic_swap (swap_io.truncate io) BlankFile out (store_write_block io tables ?meta) fs = (Swapped, g)" by blast
  ultimately have "export_ios env m rt db out today days now io fs =
      (Inr (Ok (report_of env cal io tables dates)), unlink_all (sidecars out) g)"
    using assms(1,5) by (simp add: export_ios_def)
  moreover have "unlink_all (sidecars out) g out = Some (IosStore tables ?meta)"
    using swap_store(1) [OF g assms(12)] by (simp add: unlink_all_other)
  moreover have "hd dates = today" "last dates = add_days today (days - 1)"
    using horizon_dates [OF assms(7)] assms(5) by (simp_all add: hd_map last_map add_days_def hd_upto)
  ultimately show ?thesis using tables n by (auto simp: report_of_def)
qed

section \<open>A concrete export\<close>

definition ex_ios_gold :: gold_db where
  "ex_ios_gold = \<lparr>gd_pool = [\<lparr>pt_id = u ''p'', pt_name = u ''P'', pt_kind = pool_kind_value LAKE, pt_address = [], pt_lat = None,
       pt_lon = None, pt_url = None, pt_description = None, pt_phone = None, pt_doc = None\<rparr>],
     gd_alias = [], gd_xref = [], gd_calendar = Some (JsonText JNull), gd_freshness = []\<rparr>"

definition ex_ios_models :: models where
  "ex_ios_models = ex_models\<lparr>validate_calendar :=
     (\<lambda>_. Inr \<lparr>cad_known_years = [], cad_public_holidays = [], cad_school_holidays = []\<rparr>)\<rparr>"

definition ex_ios_io :: ios_io where
  "ex_ios_io = \<lparr>prepare_ok = True, tmp_name = u ''t'', replace_ok = True, io_integrity = Some (u ''ok''), io_analyzed = True,
     io_wal = False, io_size = 4096, io_sql_detail = [], io_row_repr = (\<lambda>_. [])\<rparr>"

definition ex_ios_env :: ios_env where
  "ex_ios_env = \<lparr>ie_content_hash = (\<lambda>_. u ''hash''), ie_calendar_detail = []\<rparr>"

lemma ex_ios_loads:
  "\<exists>cal roster. load_calendar ex_ios_models ex_ios_gold = Inr cal \<and> load_roster ex_ios_models ex_ios_gold = Inr roster"
  "gold_load_all ex_ios_models ex_ios_gold = Inr []" "load_source_freshness ex_rt ex_ios_gold = Inr []"
  "horizon ex_day 2 = Inr [Date 2026 8 12, Date 2026 8 13]"
  by (simp_all add: load_calendar_def load_roster_def gold_load_all_def load_source_freshness_def ex_ios_gold_def ex_ios_models_def
      calendar_loads_def roster_entry_of_def catalog_entry_of_def schedule_freshness_of_doc_def KIND_FROM_def by_value_def
      dict_at_def map_filter_simps SILVER_SOURCES_def horizon_def add_days_def next_day_def days_in_month_def ex_day_def
      upto.simps Let_def)


lemma ex_valid_day: "valid_date ex_day"
  by (simp add: ex_day_def valid_date_def days_in_month_def)

lemma ex_ios_next: "add_days ex_day 1 = Date 2026 8 13"
  by (simp add: add_days_def next_day_def days_in_month_def ex_day_def Let_def)

lemma ex_ios_works: "io_works ex_ios_io"
  by (simp add: io_works_def ex_ios_io_def)

lemma ex_ios_out: "u ''out'' \<notin> scratch_paths ex_ios_io"
  by (simp add: scratch_paths_def sidecars_def ex_ios_io_def swap_io.truncate_def u_def)

lemma ex_ios_pools: "distinct (map pt_id (gd_pool ex_ios_gold))" "length (gd_pool ex_ios_gold) = 1"
  by (simp_all add: ex_ios_gold_def)

lemma no_basins: "distinct (map (facility_id \<circ> identity) [])" "distinct (map bn_id (concat (map basins [])))"
  by simp_all

section \<open>The store answers like the query\<close>

lemma filter_concat_tagged:
  assumes "distinct (map tag xs)" "\<And>x row. x \<in> set xs \<Longrightarrow> row \<in> set (g x) \<Longrightarrow> h row = c (tag x)" "inj c" "x \<in> set xs"
  shows "filter (\<lambda>row. h row = c (tag x)) (concat (map g xs)) = g x"
  using assms(1,2,4)
proof (induction xs)
  case (Cons y ys)
  have other: "filter (\<lambda>row. h row = c (tag x)) (g z) = []" if "z \<in> set (y # ys)" "tag z \<noteq> tag x" for z
    using Cons.prems(2) [OF that(1)] that(2) injD [OF assms(3)] by (auto simp: filter_empty_conv)
  have same: "filter (\<lambda>row. h row = c (tag x)) (g x) = g x"
    using Cons.prems(2,3) by (auto simp: filter_id_conv)
  show ?case
  proof (cases "x = y")
    case True
    have "filter (\<lambda>row. h row = c (tag x)) (concat (map g ys)) = concat (map (\<lambda>z. filter (\<lambda>row. h row = c (tag x)) (g z)) ys)"
      by (simp add: filter_concat comp_def)
    also have "\<dots> = []" using other True Cons.prems(1) by (auto simp: image_iff)
    finally show ?thesis using same True by simp
  next
    case False
    with Cons.prems(1,3) have "x \<in> set ys" "tag y \<noteq> tag x" by auto
    with Cons other [of y] show ?thesis by simp
  qed
qed simp

text \<open>What a client reads for a day: the rows of a table whose date column is that day.\<close>

definition rows_on :: "ios_tables \<Rightarrow> pystr \<Rightarrow> nat \<Rightarrow> date \<Rightarrow> ios_row list" where
  "rows_on tables name col d = filter (\<lambda>row. row ! col = CText (isoformat_date d)) (table_rows_of tables name)"




section \<open>An export\<close>





section \<open>The witnesses of an export\<close>

lemma ex_ios_export:
  "\<exists>rep fs' tables meta. export_ios ex_ios_env ex_ios_models ex_rt ex_ios_gold (u ''out'') ex_day 2 ex_now ex_ios_io [u ''other'' \<mapsto> OtherFile] =
     (Inr (Ok rep), fs') \<and> fs' (u ''out'') = Some (IosStore tables meta)"
proof -
  obtain cal roster where "load_calendar ex_ios_models ex_ios_gold = Inr cal" "load_roster ex_ios_models ex_ios_gold = Inr roster"
    using ex_ios_loads(1) by blast
  from export_runs [OF this(1) ex_ios_loads(2) this(2) ex_ios_loads(3) _ ex_valid_day ex_ios_loads(4) no_basins(1) ex_ios_pools(1)
      no_basins(2) ex_ios_works ex_ios_out] show ?thesis by fastforce
qed



section \<open>The manifest\<close>

lemma int_of_version: "int_of_str (str_of_int SCHEMA_VERSION) = Some SCHEMA_VERSION"
  by (simp add: SCHEMA_VERSION_def str_of_int_def digits_of_small int_of_str_def py_strip_def strip_where_def is_space_def)

lemma source_keys_sorted:
  "sort_keys (JObj [(u ''source'', a), (u ''fetched_at'', b), (u ''status'', c)]) =
   JObj [(u ''fetched_at'', sort_keys b), (u ''source'', sort_keys a), (u ''status'', sort_keys c)]"
  by (simp add: u_def)

text \<open>
  C20: The manifest of a store that was just exported can be written, and every claim in it is a claim
  of the file: its schema version, the time of the export, the last day of the report, the digest and size of the
  file as it is on disk, and for each source the gold store knows when it was fetched and in which state.
\<close>

theorem manifest_describes_the_export:
  assumes "export_ios env m rt db out today days now io fs = (Inr (Ok rep), fs')" "out \<notin> scratch_paths io"
  shows "\<exists>mf file sources. manifest_for menv fs' out url = Inr (Ok mf) \<and> fs' out = Some file \<and>
    load_source_freshness rt db = Inr sources \<and> sm_schema_version mf = SCHEMA_VERSION \<and>
    sm_built_at mf = CText (isoformat (rt_tzdb rt) now) \<and> sm_horizon_end mf = CText (isoformat_date (er_horizon_end rep)) \<and>
    sm_url mf = url \<and> sm_sha256 mf = me_sha256 menv file \<and> sm_bytes mf = me_size menv file \<and>
    sm_freshness mf = map (\<lambda>s. [(u ''fetched_at'', isoformat (rt_tzdb rt) (sh_fetched_at (sof_header s))),
      (u ''source'', sh_source (sof_header s)), (u ''status'', silver_status_value (sh_status (sof_header s)))]) sources"
  using assms(1)
proof (cases rule: export_ios_cases)
  case (swapped cal dates tables meta g)
  have written: "fs' out = Some (IosStore tables meta)"
    using swap_store(1) [OF swapped(2) assms(2)] swapped(4) by (simp add: unlink_all_other)
  obtain ta sources where meta: "meta = meta_rows env rt tables (hd dates) (last dates) now ta sources"
    "load_source_freshness rt db = Inr sources"
    using swapped(1) by (auto simp: assemble_def bind_err_Inr)
  have items: "freshness_items menv (Some (freshness_json rt sources)) = Inr (map (\<lambda>s.
      [(u ''fetched_at'', isoformat (rt_tzdb rt) (sh_fetched_at (sof_header s))),
       (u ''source'', sh_source (sof_header s)), (u ''status'', silver_status_value (sh_status (sof_header s)))]) sources)"
    by (induction sources) (simp_all add: freshness_items_def freshness_json_def cell_json_def ios_doc_def freshness_item_def
        str_json_def source_keys_sorted del: sort_keys.simps(7))
  show ?thesis
    using written meta(2) swapped(3) items int_of_version
    by (simp add: manifest_for_def manifest_of_meta_def meta(1) meta_rows_def REQUIRED_META_def cell_int_def report_of_def)
next
  case untouched
  then show ?thesis by blast
next
  case kept
  then show ?thesis by blast
qed

definition ex_menv :: manifest_env where
  "ex_menv = \<lparr>me_json = (\<lambda>_. None), me_str = (\<lambda>_. []), me_sha256 = (\<lambda>_. u ''5f''), me_size = (\<lambda>_. 4096),
     me_unreadable = (\<lambda>_. []), me_missing = (\<lambda>_. []), me_no_store = [], me_bad_freshness = []\<rparr>"

theorem manifest_describes_the_export_witness:
  "\<exists>rep fs' mf. export_ios ex_ios_env ex_ios_models ex_rt ex_ios_gold (u ''out'') ex_day 2 ex_now ex_ios_io [u ''other'' \<mapsto> OtherFile] =
     (Inr (Ok rep), fs') \<and> manifest_for ex_menv fs' (u ''out'') (u ''https://pools.example'') = Inr (Ok mf) \<and>
     sm_horizon_end mf = CText (isoformat_date (er_horizon_end rep)) \<and> sm_url mf = u ''https://pools.example'' \<and>
     sm_sha256 mf = u ''5f'' \<and> sm_bytes mf = 4096"
proof -
  obtain rep fs' where run: "export_ios ex_ios_env ex_ios_models ex_rt ex_ios_gold (u ''out'') ex_day 2 ex_now ex_ios_io
     [u ''other'' \<mapsto> OtherFile] = (Inr (Ok rep), fs')" using ex_ios_export by blast
  obtain mf where "manifest_for ex_menv fs' (u ''out'') (u ''https://pools.example'') = Inr (Ok mf)"
    "sm_horizon_end mf = CText (isoformat_date (er_horizon_end rep))" "sm_url mf = u ''https://pools.example''"
    "sm_sha256 mf = u ''5f''" "sm_bytes mf = 4096"
    using manifest_describes_the_export [OF run ex_ios_out, of ex_menv "u ''https://pools.example''"] by (auto simp: ex_menv_def)
  with run show ?thesis by blast
qed

end
