(* ===== verification/Pipeline.thy ===== *)
theory Pipeline
  imports Scrape Lane_Fetch Silver Build Lake Refresh Http_Cache Ios_Export Geo_Sport
begin

text \<open>
  \<open>src/swimzh/cli.py\<close>: the build pipeline and the commands around it. A run threads three
  stores: the gold files, the lake and the world \<open>'w\<close> the providers' clients act on; its result is the
  process exit code or the exception it ends with. What a command prints is left out.
\<close>

section \<open>The disk cache of a run\<close>

definition CACHE_ENV_VAR :: pystr where "CACHE_ENV_VAR = u ''SWIMZH_CACHE''"

definition CACHE_MODE_BY_ENV :: "(pystr \<times> cache_mode) list" where
  "CACHE_MODE_BY_ENV = [([], USE), (u ''use'', USE), (u ''on'', USE), (u ''off'', OFF), (u ''refresh'', REFRESH)]"

text \<open>The mode, or the text of the \<open>CacheModeError\<close>.\<close>

definition resolve_cache_mode :: "(pystr \<Rightarrow> pystr) \<Rightarrow> bool \<Rightarrow> (pystr \<rightharpoonup> pystr) \<Rightarrow> pystr + cache_mode" where
  "resolve_cache_mode srepr refresh env =
     (if refresh then Inr REFRESH
      else
        (let raw = py_lower (py_strip (case env CACHE_ENV_VAR of Some v \<Rightarrow> v | None \<Rightarrow> []))
         in case map_of CACHE_MODE_BY_ENV raw of
              Some mode \<Rightarrow> Inr mode
            | None \<Rightarrow> Inl (CACHE_ENV_VAR @ u ''='' @ srepr raw @ u '' is not one of: '' @
                py_join (u '', '') (sort (filter (\<lambda>k. k \<noteq> []) (map fst CACHE_MODE_BY_ENV))))))"

definition cache_transport ::
  "(http_request \<Rightarrow> 'w \<Rightarrow> httpx_outcome \<times> 'w) \<Rightarrow> cache_mode \<Rightarrow> pystr \<Rightarrow> ('w \<Rightarrow> datetime) \<Rightarrow> ('w \<Rightarrow> write_io) \<Rightarrow>
   'w disk_transport" where
  "cache_transport inner mode cache_dir now io =
     \<lparr>dt_inner = inner, dt_root = cache_dir, dt_mode = mode, dt_now = now, dt_io = io\<rparr>"

definition live_transport ::
  "(pystr \<Rightarrow> pystr) \<Rightarrow> (http_request \<Rightarrow> 'w \<Rightarrow> httpx_outcome \<times> 'w) \<Rightarrow> bool \<Rightarrow> (pystr \<rightharpoonup> pystr) \<Rightarrow> ('w \<Rightarrow> datetime) \<Rightarrow>
   ('w \<Rightarrow> write_io) \<Rightarrow> pystr + 'w disk_transport" where
  "live_transport srepr network refresh env now io =
     (case resolve_cache_mode srepr refresh env of
        Inl exc \<Rightarrow> Inl exc
      | Inr mode \<Rightarrow> Inr (cache_transport network mode DEFAULT_CACHE_ROOT now io))"

section \<open>One client per source\<close>

record 'w provider_clients =
  pc_roster :: "'w param_getter"
  pc_schedules :: "'w getter"
  pc_prices :: "'w getter"
  pc_pages :: "'w getter"
  pc_lanes :: "'w getter"

definition LIVE_TIMEOUT_S :: rat where "LIVE_TIMEOUT_S = 30"

type_synonym 'w http_send = "pystr \<Rightarrow> (pystr \<times> pystr) list request_kwargs \<Rightarrow> 'w \<Rightarrow> httpx_outcome \<times> 'w"

definition wrap_client ::
  "'w http_send \<Rightarrow> (rat \<Rightarrow> 'w \<Rightarrow> 'w) \<Rightarrow> (pystr \<Rightarrow> rat option) \<Rightarrow> rat \<Rightarrow> retry_policy option \<Rightarrow> pystr \<Rightarrow>
   ('w, (pystr \<times> pystr) list) http_client" where
  "wrap_client send sleep read_float timeout_s retry source =
     \<lparr>hc_send = send, hc_source = source, hc_timeout_s = timeout_s, hc_max_bytes = DEFAULT_MAX_BYTES,
      hc_retry = (case retry of Some p \<Rightarrow> p | None \<Rightarrow> DEFAULT_RETRY), hc_sleep = sleep, hc_read_float = read_float\<rparr>"

definition clients_over ::
  "'w http_send \<Rightarrow> (rat \<Rightarrow> 'w \<Rightarrow> 'w) \<Rightarrow> (pystr \<Rightarrow> rat option) \<Rightarrow> rat \<Rightarrow> retry_policy option \<Rightarrow> 'w provider_clients" where
  "clients_over send sleep read_float timeout_s retry =
     (let via = (\<lambda>source url params.
            http_get (wrap_client send sleep read_float timeout_s retry source) url
              \<lparr>kw_extensions = NoExtensions, kw_others = params\<rparr>)
      in \<lparr>pc_roster = via (u ''geo_sport''),
          pc_schedules = (\<lambda>url. via (u ''schedule_scraper'') url []),
          pc_prices = (\<lambda>url. via (u ''price_scraper'') url []),
          pc_pages = (\<lambda>url. via (u ''page_provider'') url []),
          pc_lanes = (\<lambda>url. via (u ''belegungsplan'') url [])\<rparr>)"

section \<open>What a run is given\<close>

text \<open>
  The libraries the phases rest on, and what the operating system decides: the staging file of
  the gold store, and that of each document of the lake.
\<close>

record pipeline_env =
  pe_geo :: geo_env
  pe_scrape :: scrape_env
  pe_page :: page_env
  pe_curated :: curated_env
  pe_models :: models
  pe_runtime :: runtime
  pe_frepr :: "rat \<Rightarrow> pystr"
  pe_pdf :: "byte list \<Rightarrow> pdf_outcome"
  pe_swap :: swap_io
  pe_lake_io :: "pystr \<Rightarrow> lake_io"

definition pe_srepr :: "pipeline_env \<Rightarrow> pystr \<Rightarrow> pystr" where
  "pe_srepr env s = rt_repr (pe_runtime env) (JStr s)"

record phase_result =
  ph_code :: int
  ph_fatal :: bool

section \<open>Schedules\<close>

definition fetch_prices ::
  "pipeline_env \<Rightarrow> 'w getter \<Rightarrow> date \<Rightarrow> 'w \<Rightarrow> (py_error + (city_tariffs, provider_error) result) \<times> 'w" where
  "fetch_prices env get on w = scrape_prices (pe_scrape env) get on w"

text \<open>What the two scrapes yield together: the first failure, no schedule at all, or the reconciled pages.\<close>

definition schedules_of_reports ::
  "(pystr \<Rightarrow> pystr) \<Rightarrow> scrape_report \<Rightarrow> scrape_report \<Rightarrow> crosswalk \<Rightarrow> (scraped_schedules, provider_error) result" where
  "schedules_of_reports srepr declared shared cw =
     (let report = \<lparr>sr_extracts = sr_extracts declared @ sr_extracts shared,
                    sr_failures = sr_failures declared @ sr_failures shared,
                    sr_notes = sr_notes declared @ sr_notes shared\<rparr>
      in case sr_failures report of
           failure # _ \<Rightarrow> Err (scf_cause failure)
         | [] \<Rightarrow>
             if sr_extracts report = []
             then Err (SchemaMismatch (u ''schedule_scraper'') (u ''no schedules could be scraped''))
             else
               (case resolve_all srepr (sr_extracts report) cw of
                  Err e \<Rightarrow> Err e
                | Ok outcome \<Rightarrow>
                    Ok \<lparr>ss_facilities = map (\<lambda>(pid, aspects). scraped_facility pid aspects) (ro_resolved outcome),
                        ss_unresolved = sort (ro_unresolved outcome), ss_notes = sr_notes report\<rparr>))"

definition fetch_schedules ::
  "pipeline_env \<Rightarrow> 'w getter \<Rightarrow> pool_catalog_entry list \<Rightarrow> city_tariffs \<Rightarrow> crosswalk \<Rightarrow> datetime \<Rightarrow> 'w \<Rightarrow>
   (py_error + (scraped_schedules, provider_error) result) \<times> 'w" where
  "fetch_schedules env get catalog tariffs cw fetched_at w =
     (case scrape_declared_sources (pe_scrape env) get catalog fetched_at tariffs w of
        (Inl e, w1) \<Rightarrow> (Inl e, w1)
      | (Inr declared, w1) \<Rightarrow>
          (case scrape_shared_sources (pe_scrape env) get catalog fetched_at w1 of
             (Inl e, w2) \<Rightarrow> (Inl e, w2)
           | (Inr shared, w2) \<Rightarrow> (Inr (schedules_of_reports (pe_srepr env) declared shared cw), w2)))"

text \<open>Composed onto the curated tier, and written for the pools the scrape resolved only.\<close>

definition keyed_facility :: "facility \<Rightarrow> pool_id \<times> facility" where
  "keyed_facility f = (facility_id (identity f), f)"

definition write_scraped_schedules ::
  "models \<Rightarrow> facility list \<Rightarrow> scraped_schedules \<Rightarrow> gold_db \<Rightarrow> py_error + phase_result \<times> gold_db" where
  "write_scraped_schedules m curated scraped db =
     bind_err (compose_facilities curated (ss_facilities scraped)) (\<lambda>composition.
       let scraped_ids = (facility_id \<circ> identity) ` set (ss_facilities scraped)
       in bind_err (write_schedules m
            (map keyed_facility (filter (\<lambda>f. facility_id (identity f) \<in> scraped_ids) (co_facilities composition))) db)
          (\<lambda>db'. Inr (\<lparr>ph_code = if ss_unresolved scraped \<noteq> [] then 1 else 0, ph_fatal = False\<rparr>, db')))"

section \<open>Lane plans\<close>

definition attached_plans :: "lane_plan_attachment \<Rightarrow> nat" where
  "attached_plans a =
     length (filter (\<lambda>b. case lane_plan_of b of Some (Parsed p) \<Rightarrow> True | _ \<Rightarrow> False) (concat (map basins (at_facilities a))))"

definition undiscovered_error :: "undiscovered_source \<Rightarrow> discovery_report \<Rightarrow> provider_error" where
  "undiscovered_error source discovery =
     (case find (\<lambda>miss. pm_pool miss = us_pool source) (dr_misses discovery) of
        Some miss \<Rightarrow> pm_cause miss
      | None \<Rightarrow> SchemaMismatch (u ''scrape-lanes'')
          (u ''authored lane source not advertised by its pool page: '' @ us_url source))"

definition page_urls :: "models \<Rightarrow> gold_db \<Rightarrow> facility list \<Rightarrow> py_error + (pool_id \<times> pystr) list" where
  "page_urls m db facilities =
     bind_err (load_roster m db) (\<lambda>roster.
       let page_url = map_of (rev (map (\<lambda>r. (pce_pool_id (re_entry r), pce_url (re_entry r))) roster))
       in Inr (List.map_filter (\<lambda>f. case page_url (facility_id (identity f)) of
                 Some (Some url) \<Rightarrow> Some (facility_id (identity f), url)
               | _ \<Rightarrow> None) facilities))"

definition fetch_lane_plans ::
  "pipeline_env \<Rightarrow> 'w getter \<Rightarrow> 'w getter \<Rightarrow> facility list \<Rightarrow> (pool_id \<times> pystr) list \<Rightarrow> 'w \<Rightarrow>
   (py_error + (scraped_lane_plans, provider_error) result) \<times> 'w" where
  "fetch_lane_plans env page_get lane_get facilities pages w =
     (case discover_pages (pe_page env) page_get pages w of
        (Inl e, w1) \<Rightarrow> (Inl e, w1)
      | (Inr discovery, w1) \<Rightarrow>
          (case undiscovered_authored facilities (dr_links discovery) of
             source # _ \<Rightarrow> (Inr (Err (undiscovered_error source discovery)), w1)
           | [] \<Rightarrow>
               (case scrape_lane_plans (pe_frepr env) (pe_pdf env) lane_get (dr_links discovery) w1 of
                  (Inl e, w2) \<Rightarrow> (Inl e, w2)
                | (Inr report, w2) \<Rightarrow>
                    (Inr (case sm_bound (split_misses (rp_misses report) (authored_lane_urls facilities)) of
                            miss # _ \<Rightarrow> Err (lm_cause miss)
                          | [] \<Rightarrow> Ok \<lparr>sl_links = dr_links discovery, sl_plans = rp_plans report\<rparr>), w2))))"

definition write_lane_plans ::
  "pipeline_env \<Rightarrow> facility list \<Rightarrow> scraped_lane_plans \<Rightarrow> datetime \<Rightarrow> gold_db \<Rightarrow> py_error + phase_result \<times> gold_db" where
  "write_lane_plans env facilities scraped fetched_at db =
     (case attach_lane_plans (pe_srepr env) facilities (sl_plans scraped) fetched_at of
        Err e \<Rightarrow> Inr (\<lparr>ph_code = 1, ph_fatal = True\<rparr>, db)
      | Ok attachment \<Rightarrow>
          if attached_plans attachment = 0 then Inr (\<lparr>ph_code = 1, ph_fatal = True\<rparr>, db)
          else bind_err (write_schedules (pe_models env) (map keyed_facility (at_facilities attachment)) db)
            (\<lambda>db'. Inr (\<lparr>ph_code = 0, ph_fatal = False\<rparr>, db')))"

section \<open>The sources through the refresh policy\<close>

definition EXIT_BUILT_STALE :: int where "EXIT_BUILT_STALE = 2"

definition SCHEDULE_SOURCES :: "pystr set" where "SCHEDULE_SOURCES = {u ''prices'', u ''schedules''}"
definition LANE_SOURCES :: "pystr set" where "LANE_SOURCES = {u ''lane_plans''}"

text \<open>What one run is asked: where the lake is, the data directory, the clock and what to refetch.\<close>

record build_args =
  ba_db_path :: pystr
  ba_data_dir :: pystr
  ba_lake_root :: pystr
  ba_now :: datetime
  ba_force :: bool
  ba_force_sources :: "pystr set"

definition forced :: "build_args \<Rightarrow> pystr \<Rightarrow> bool" where
  "forced args source \<longleftrightarrow> ba_force args \<or> source \<in> ba_force_sources args"

text \<open>An encoder's document as the lake stores it: the members of an object.\<close>

definition object_payload :: "json \<Rightarrow> py_error + payload" where
  "object_payload j = (case j of JObj ms \<Rightarrow> Inr ms | _ \<Rightarrow> Inl TypeError)"

definition refresh_step ::
  "pipeline_env \<Rightarrow> build_args \<Rightarrow> pystr \<Rightarrow> ('w \<Rightarrow> (py_error + ('t, provider_error) result) \<times> 'w) \<Rightarrow>
   ('t \<Rightarrow> py_error + json) \<Rightarrow> (json \<Rightarrow> py_error + 't) \<Rightarrow> lake \<times> 'w \<Rightarrow>
   (py_error + ('t refreshed, refresh_failure) result) \<times> (lake \<times> 'w)" where
  "refresh_step env args source fetch encode decode st =
     refresh_source (pe_runtime env) (ba_lake_root args) (pe_lake_io env source) source (ba_now args) fetch
       (\<lambda>v. bind_err (encode v) object_payload) (\<lambda>p. decode (JObj p)) (forced args source) None st"

definition refresh_roster ::
  "pipeline_env \<Rightarrow> 'w provider_clients \<Rightarrow> build_args \<Rightarrow> lake \<times> 'w \<Rightarrow>
   (py_error + (pool_catalog_entry list refreshed, refresh_failure) result) \<times> (lake \<times> 'w)" where
  "refresh_roster env clients args =
     refresh_step env args (u ''roster'') (fetch_roster (pe_geo env) (pc_roster clients))
       (\<lambda>entries. encode_roster (pe_models env) entries (ba_now args)) (decode_roster (pe_models env))"

definition refresh_prices ::
  "pipeline_env \<Rightarrow> 'w provider_clients \<Rightarrow> build_args \<Rightarrow> lake \<times> 'w \<Rightarrow>
   (py_error + (city_tariffs refreshed, refresh_failure) result) \<times> (lake \<times> 'w)" where
  "refresh_prices env clients args =
     refresh_step env args (u ''prices'') (fetch_prices env (pc_prices clients) (dt_date (ba_now args)))
       (encode_prices (pe_models env)) (decode_prices (pe_models env))"

definition refresh_schedules ::
  "pipeline_env \<Rightarrow> 'w provider_clients \<Rightarrow> build_args \<Rightarrow> pool_catalog_entry list \<Rightarrow> city_tariffs \<Rightarrow> crosswalk \<Rightarrow> lake \<times> 'w \<Rightarrow>
   (py_error + (scraped_schedules refreshed, refresh_failure) result) \<times> (lake \<times> 'w)" where
  "refresh_schedules env clients args catalog tariffs cw =
     refresh_step env args (u ''schedules'')
       (fetch_schedules env (pc_schedules clients) catalog tariffs cw (ba_now args))
       (encode_schedules (pe_models env)) (decode_schedules (pe_models env) (rt_repr (pe_runtime env)))"

definition refresh_lane_plans ::
  "pipeline_env \<Rightarrow> 'w provider_clients \<Rightarrow> build_args \<Rightarrow> facility list \<Rightarrow> (pool_id \<times> pystr) list \<Rightarrow> lake \<times> 'w \<Rightarrow>
   (py_error + (scraped_lane_plans refreshed, refresh_failure) result) \<times> (lake \<times> 'w)" where
  "refresh_lane_plans env clients args facilities pages =
     refresh_step env args (u ''lane_plans'')
       (fetch_lane_plans env (pc_pages clients) (pc_lanes clients) facilities pages)
       (encode_lane_plans (pe_models env)) (decode_lane_plans (pe_models env) (rt_repr (pe_runtime env)))"

section \<open>The build\<close>

text \<open>
  A phase either raises, returns 1 (\<open>None\<close>) or goes on with its value; the lake and the world
  are threaded through whatever happens.
\<close>

type_synonym ('a, 's) phase = "'s \<Rightarrow> (py_error + 'a option) \<times> 's"

definition bind_phase :: "('a, 's) phase \<Rightarrow> ('a \<Rightarrow> ('b, 's) phase) \<Rightarrow> ('b, 's) phase" where
  "bind_phase p k s =
     (case p s of
        (Inl e, s') \<Rightarrow> (Inl e, s')
      | (Inr None, s') \<Rightarrow> (Inr None, s')
      | (Inr (Some v), s') \<Rightarrow> k v s')"

definition abort_err :: "(py_error + ('a, 'f) result) \<times> 's \<Rightarrow> (py_error + 'a option) \<times> 's" where
  "abort_err x = (case x of (r, s) \<Rightarrow>
     (bind_err r (\<lambda>r. case r of Err e \<Rightarrow> Inr None | Ok v \<Rightarrow> Inr (Some v)), s))"

definition lift_phase :: "py_error + 'a \<Rightarrow> ('a, 's) phase" where
  "lift_phase r s = (bind_err r (\<lambda>v. Inr (Some v)), s)"

definition guard_phase :: "bool \<Rightarrow> (unit, 's) phase" where
  "guard_phase ok s = (Inr (if ok then Some () else None), s)"

text \<open>The body of the \<open>with\<close> block: the staging store to commit and the exit code.\<close>

definition staged_build ::
  "pipeline_env \<Rightarrow> 'w provider_clients \<Rightarrow> build_args \<Rightarrow> curated_assembly \<Rightarrow> pool_catalog_entry list refreshed \<Rightarrow>
   city_tariffs refreshed \<Rightarrow> (gold_db \<times> int, lake \<times> 'w) phase" where
  "staged_build env clients args assembly roster prices =
     (let m = pe_models env
      in bind_phase (lift_phase (write_curated_store (pe_srepr env) m assembly empty_db)) (\<lambda>(db0, audit).
         bind_phase (\<lambda>st. abort_err (refresh_schedules env clients args (rf_value roster) (rf_value prices)
             (crosswalk_from_rows (load_alias_rows db0) (load_xref_rows db0)) st)) (\<lambda>schedules.
         bind_phase (lift_phase (assembly_facilities m assembly)) (\<lambda>curated.
         bind_phase (lift_phase (write_scraped_schedules m curated (rf_value schedules) db0)) (\<lambda>(written, db1).
         bind_phase (lift_phase (gold_load_all m db1)) (\<lambda>facilities.
         bind_phase (lift_phase (page_urls m db1 facilities)) (\<lambda>pages.
         bind_phase (\<lambda>st. abort_err (refresh_lane_plans env clients args facilities pages st)) (\<lambda>lanes.
         bind_phase (lift_phase (write_lane_plans env facilities (rf_value lanes) (sh_fetched_at (rf_header lanes)) db1))
           (\<lambda>(attached, db2).
         bind_phase (guard_phase (\<not> ph_fatal attached)) (\<lambda>_.
         bind_phase (lift_phase (write_source_freshness (pe_runtime env)
             [rf_header roster, rf_header prices, rf_header schedules, rf_header lanes] (ba_now args) db2)) (\<lambda>db3.
           let code = max (ph_code written) (ph_code attached);
               stale = rf_stale roster \<or> rf_stale prices \<or> rf_stale schedules \<or> rf_stale lanes
           in lift_phase (Inr (db3, if code = 0 \<and> stale then EXIT_BUILT_STALE else code)))))))))))))"

text \<open>The swap around it: committed only at the end of the block; an exception escapes it.\<close>

definition swap_build ::
  "pipeline_env \<Rightarrow> pystr \<Rightarrow> (gold_db \<times> int, lake \<times> 'w) phase \<Rightarrow> gold_db fs \<Rightarrow> lake \<times> 'w \<Rightarrow>
   (py_error + int) \<times> gold_db fs \<times> (lake \<times> 'w)" where
  "swap_build env db_path body files st =
     (let (out, st') = body st;
          block = (\<lambda>tmp g. case out of
              Inl e \<Rightarrow> (Raised e, g)
            | Inr None \<Rightarrow> (Finished False, g)
            | Inr (Some (db, code)) \<Rightarrow> (Finished True, g(tmp \<mapsto> db)))
      in case atomic_swap (pe_swap env) empty_db db_path block files of
           (Swapped, files') \<Rightarrow> (bind_err out (\<lambda>r. Inr (case r of Some (db, code) \<Rightarrow> code | None \<Rightarrow> 1)), files', st')
         | (NotCommitted, files') \<Rightarrow> (Inr 1, files', st')
         | (BlockRaised e, files') \<Rightarrow> (Inl e, files', st')
         | (ReplaceFailed, files') \<Rightarrow> (Inl OSError, files', st')
         | (PrepareFailed, files') \<Rightarrow> (Inl OSError, files', st))"

text \<open>Before the swap: the roster, the curated tier and the prices.\<close>

definition assembled ::
  "pipeline_env \<Rightarrow> 'w provider_clients \<Rightarrow> build_args \<Rightarrow>
   (pool_catalog_entry list refreshed \<times> curated_assembly \<times> city_tariffs refreshed, lake \<times> 'w) phase" where
  "assembled env clients args =
     bind_phase (\<lambda>st. abort_err (refresh_roster env clients args st)) (\<lambda>roster.
     bind_phase (\<lambda>st. abort_err (assemble_curated (pe_curated env) (pe_models env) (ba_data_dir args) (rf_value roster), st))
       (\<lambda>assembly.
     bind_phase (\<lambda>st. abort_err (refresh_prices env clients args st)) (\<lambda>prices.
       lift_phase (Inr (roster, assembly, prices)))))"

definition build_on_lake ::
  "pipeline_env \<Rightarrow> 'w provider_clients \<Rightarrow> build_args \<Rightarrow> gold_db fs \<Rightarrow> lake \<times> 'w \<Rightarrow>
   (py_error + int) \<times> gold_db fs \<times> (lake \<times> 'w)" where
  "build_on_lake env clients args files st =
     (if \<not> ba_force_sources args \<subseteq> set SILVER_SOURCES then (Inl ValueError, files, st)
      else
        (case assembled env clients args st of
           (Inl e, st') \<Rightarrow> (Inl e, files, st')
         | (Inr None, st') \<Rightarrow> (Inr 1, files, st')
         | (Inr (Some (roster, assembly, prices)), st') \<Rightarrow>
             swap_build env (ba_db_path args) (staged_build env clients args assembly roster prices) files st'))"

text \<open>Without a lake: a throwaway one, empty at the start and dropped at the end.\<close>

definition build ::
  "pipeline_env \<Rightarrow> 'w provider_clients \<Rightarrow> build_args \<Rightarrow> gold_db fs \<Rightarrow> lake option \<Rightarrow> 'w \<Rightarrow>
   (py_error + int) \<times> gold_db fs \<times> lake option \<times> 'w" where
  "build env clients args files lake w =
     (case lake of
        Some l \<Rightarrow>
          (case build_on_lake env clients args files (l, w) of (r, files', l', w') \<Rightarrow> (r, files', Some l', w'))
      | None \<Rightarrow>
          (case build_on_lake env clients args files (Map.empty, w) of (r, files', l', w') \<Rightarrow> (r, files', None, w')))"

definition scrape_gold ::
  "pipeline_env \<Rightarrow> 'w provider_clients \<Rightarrow> build_args \<Rightarrow> gold_db fs \<Rightarrow> lake option \<Rightarrow> 'w \<Rightarrow>
   (py_error + int) \<times> gold_db fs \<times> lake option \<times> 'w" where
  "scrape_gold env clients args = build env clients (args\<lparr>ba_force_sources := SCHEDULE_SOURCES\<rparr>)"

definition scrape_lanes ::
  "pipeline_env \<Rightarrow> 'w provider_clients \<Rightarrow> build_args \<Rightarrow> gold_db fs \<Rightarrow> lake option \<Rightarrow> 'w \<Rightarrow>
   (py_error + int) \<times> gold_db fs \<times> lake option \<times> 'w" where
  "scrape_lanes env clients args = build env clients (args\<lparr>ba_force_sources := LANE_SOURCES\<rparr>)"

section \<open>The other commands\<close>

text \<open>\<open>writable\<close>: the directory of \<open>out\<close> can be made and the file opened.\<close>

definition build_catalog_file ::
  "pipeline_env \<Rightarrow> bool \<Rightarrow> pystr \<Rightarrow> 'w param_getter \<Rightarrow> datetime \<Rightarrow> json_text fs \<Rightarrow> 'w \<Rightarrow> (py_error + int) \<times> json_text fs \<times> 'w" where
  "build_catalog_file env writable out get generated_at fs w =
     (case fetch_all_pools (pe_geo env) get w of
        (Inl e, w') \<Rightarrow> (Inl e, fs, w')
      | (Inr (Err e), w') \<Rightarrow> (Inr 1, fs, w')
      | (Inr (Ok pools), w') \<Rightarrow>
          (case catalog_dumps (pe_models env) (build_catalog pools) generated_at of
             Inl e \<Rightarrow> (Inl e, fs, w')
           | Inr doc \<Rightarrow> if writable then (Inr 0, fs(out \<mapsto> doc), w') else (Inl OSError, fs, w')))"

definition write_ios_manifest ::
  "manifest_env \<Rightarrow> swap_io \<Rightarrow> pystr \<Rightarrow> pystr \<Rightarrow> pystr \<Rightarrow> ios_file fs \<Rightarrow> (py_error + int) \<times> ios_file fs" where
  "write_ios_manifest menv io store manifest url fs =
     (if url = [] then (Inr 2, fs)
      else
        (case write_manifest menv io store manifest url fs of
           (Inl e, fs') \<Rightarrow> (Inl e, fs')
         | (Inr (Ok described), fs') \<Rightarrow> (Inr 0, fs')
         | (Inr (Err e), fs') \<Rightarrow> (Inr 1, fs')))"

definition export_ios_store ::
  "ios_env \<Rightarrow> manifest_env \<Rightarrow> models \<Rightarrow> runtime \<Rightarrow> gold_db fs \<Rightarrow> pystr \<Rightarrow> pystr \<Rightarrow> date \<Rightarrow> int \<Rightarrow> pystr option \<Rightarrow> pystr option \<Rightarrow>
   datetime \<Rightarrow> ios_io \<Rightarrow> swap_io \<Rightarrow> ios_file fs \<Rightarrow> (py_error + int) \<times> ios_file fs" where
  "export_ios_store env menv m rt gold db_path out today days manifest url now io manifest_io fs =
     (case gold db_path of
        None \<Rightarrow> (Inr 1, fs)
      | Some db \<Rightarrow>
          (case export_ios env m rt db out today days now io fs of
             (Inl e, fs') \<Rightarrow> (Inl e, fs')
           | (Inr (Err e), fs') \<Rightarrow> (Inr 1, fs')
           | (Inr (Ok report), fs') \<Rightarrow>
               (case manifest of
                  None \<Rightarrow> (Inr 0, fs')
                | Some path \<Rightarrow>
                    write_ios_manifest menv manifest_io out path (case url of Some x \<Rightarrow> x | None \<Rightarrow> []) fs')))"

definition lake_command ::
  "runtime \<Rightarrow> (py_error \<Rightarrow> pystr) \<Rightarrow> lake_io \<Rightarrow> pystr \<Rightarrow> pystr \<Rightarrow> origin \<Rightarrow> pystr \<Rightarrow> lake \<Rightarrow> py_error + int \<times> lake" where
  "lake_command rt detail io command lake_root origin out fs =
     (if command = u ''pull''
      then bind_err (lake_pull rt detail lake_root io origin fs) (\<lambda>(report, fs'). Inr (0, fs'))
      else Inr (0, snd (lake_export lake_root out fs)))"

text \<open>The commands that reach the network; the argument parser has refused any other name.\<close>

definition dispatch ::
  "pipeline_env \<Rightarrow> 'w provider_clients \<Rightarrow> pystr \<Rightarrow> build_args \<Rightarrow> pystr \<Rightarrow> bool \<Rightarrow> gold_db fs \<Rightarrow> json_text fs \<Rightarrow> lake \<Rightarrow> 'w \<Rightarrow>
   (py_error + int) \<times> gold_db fs \<times> json_text fs \<times> lake option \<times> 'w" where
  "dispatch env clients command args out writable files documents lake w =
     (if command = u ''build-catalog''
      then (case build_catalog_file env writable out (pc_roster clients) (ba_now args) documents w of
              (r, documents', w') \<Rightarrow> (r, files, documents', Some lake, w'))
      else
        (case map_of [(u ''build'', \<lambda>a. build env clients (a\<lparr>ba_force_sources := {}\<rparr>)),
                      (u ''scrape-gold'', scrape_gold env clients),
                      (u ''scrape-lanes'', scrape_lanes env clients)] command of
           None \<Rightarrow> (Inl KeyError, files, documents, Some lake, w)
         | Some run \<Rightarrow>
             (case run args files (Some lake) w of (r, files', l', w') \<Rightarrow> (r, files', documents, l', w'))))"

end
