(* ===== verification/Pipeline_Properties.thy ===== *)
theory Pipeline_Properties
  imports Pipeline Scrape_Properties Gold_Properties Lake_Properties Silver_Properties Sheet_Properties
begin

text \<open>
  What a build promises: it writes a whole store or none, its exit code and the store's provenance rows tell the
  same story, what it is asked to refetch it refetches, and with an up-to-date lake it needs no network.
\<close>

section \<open>One source of a run\<close>

text \<open>What the policy did with a source, over the documents of the lake.\<close>

lemma silver_policy_source:
  "source \<in> set SILVER_SOURCES \<Longrightarrow> \<exists>rule. silver_policy source = Inr rule"
  by (auto simp: SILVER_SOURCES_def silver_policy_def POLICY_SOURCE_def u_def)

definition honest_header :: "build_args \<Rightarrow> pystr \<Rightarrow> silver_header \<Rightarrow> bool" where
  "honest_header args source h \<longleftrightarrow> sh_source h = source \<and>
     (forced args source \<longrightarrow> sh_status h = STALE \<or> sh_fetched_at h = ba_now args)"

lemma refresh_step_header:
  assumes "refresh_step env args source fetch encode decode (l, w) = (Inr (Ok r), (l', w'))"
  shows "honest_header args source (rf_header r)"
proof -
  obtain rule where run: "refresh_with (\<lambda>fs src. lake_read (pe_runtime env) (ba_lake_root args) fs src)
      (lake_write (pe_runtime env) (ba_lake_root args) (pe_lake_io env source))
      (lake_mark_stale (pe_runtime env) (ba_lake_root args) (pe_lake_io env source))
      (rt_tzdb (pe_runtime env)) rule source (ba_now args) fetch
      (\<lambda>v. bind_err (encode v) object_payload) (\<lambda>p. decode (JObj p)) (forced args source) (l, w) = (Inr (Ok r), (l', w'))"
    using assms by (auto simp: refresh_step_def refresh_source_def split: sum.splits)
  from run show ?thesis
  proof (cases rule: silver_lake.run_cases)
    case (reused d)
    then have "rf_header r = sd_header d" by (auto simp: bind_err_def split: sum.splits)
    then show ?thesis using reused(2) read_header(1) [OF reused(1)] by (simp add: honest_header_def not_due_def)
  next
    case (adopted previous v p d)
    then show ?thesis
      by (auto simp: honest_header_def lake_write_def lake_store_def split: prod.splits swap_result.splits)
  next
    case (kept d error k)
    from kept(6) show ?thesis
    proof (cases rule: mark_stale_cases)
      case (stored old)
      then have "sd_header k = (sd_header old)\<lparr>sh_status := STALE\<rparr>"
        by (auto simp: lake_store_def split: prod.splits swap_result.splits)
      moreover have "rf_header r = sd_header k" using kept(7) by (auto simp: bind_err_def split: sum.splits)
      ultimately show ?thesis using read_header(1) [OF stored(1)] by (simp add: honest_header_def)
    qed simp
  qed auto
qed

text \<open>A source that is not due: neither the lake nor the network is touched, whatever comes of it.\<close>

definition up_to_date :: "pipeline_env \<Rightarrow> build_args \<Rightarrow> lake \<Rightarrow> pystr \<Rightarrow> bool" where
  "up_to_date env args l source \<longleftrightarrow> (\<exists>rule d. silver_policy source = Inr rule \<and>
     lake_read (pe_runtime env) (ba_lake_root args) l source = Inr (Some d) \<and>
     not_due (rt_tzdb (pe_runtime env)) rule (ba_now args) (forced args source) (Some d))"

text \<open>A step whose result depends on the lake alone, and that leaves the lake and the world as they are.\<close>

definition offline :: "('l \<times> 'w \<Rightarrow> 'r \<times> ('l \<times> 'w)) \<Rightarrow> 'l \<Rightarrow> bool" where
  "offline p l \<longleftrightarrow> (\<exists>r. \<forall>w. p (l, w) = (r, (l, w)))"

lemma refresh_step_reuses:
  "up_to_date env args l source \<Longrightarrow> offline (refresh_step env args source fetch encode decode) l"
  by (auto simp: offline_def up_to_date_def refresh_step_def refresh_source_def refresh_with_def)

section \<open>Phases\<close>

lemma bind_phase_Some:
  "bind_phase p k s = (Inr (Some v), s') \<longleftrightarrow> (\<exists>a s1. p s = (Inr (Some a), s1) \<and> k a s1 = (Inr (Some v), s'))"
  by (auto simp: bind_phase_def split: prod.splits sum.splits option.splits)

lemma abort_err_Some: "abort_err x = (Inr (Some v), s) \<longleftrightarrow> x = (Inr (Ok v), s)"
  by (cases x) (auto simp: abort_err_def bind_err_def split: sum.splits result.splits)

lemma lift_phase_Some: "lift_phase r s = (Inr (Some v), s') \<longleftrightarrow> r = Inr v \<and> s' = s"
  by (auto simp: lift_phase_def bind_err_def split: sum.splits)

lemma guard_phase_Some: "guard_phase ok s = (Inr (Some v), s') \<longleftrightarrow> ok \<and> s' = s"
  by (auto simp: guard_phase_def)

lemmas phase_Some = bind_phase_Some abort_err_Some lift_phase_Some guard_phase_Some

lemma offline_bind:
  assumes "offline p l" "\<And>a. offline (k a) l"
  shows "offline (bind_phase p k) l"
proof -
  obtain r where r: "\<And>w. p (l, w) = (r, (l, w))" using assms(1) by (auto simp: offline_def)
  show ?thesis
  proof (cases "\<exists>v. r = Inr (Some v)")
    case True
    then obtain v where v: "r = Inr (Some v)" by blast
    obtain r2 where "\<And>w. k v (l, w) = (r2, (l, w))" using assms(2) [of v] by (auto simp: offline_def)
    then show ?thesis by (auto simp: offline_def bind_phase_def r v)
  next
    case False
    then show ?thesis by (cases r) (auto simp: offline_def bind_phase_def r split: option.splits)
  qed
qed

lemma offline_lift: "offline (lift_phase r) l" by (simp add: offline_def lift_phase_def)
lemma offline_guard: "offline (guard_phase ok) l" by (simp add: offline_def guard_phase_def)
lemma offline_pure: "offline (\<lambda>s. abort_err (r, s)) l" by (simp add: offline_def abort_err_def)
lemma offline_abort: "offline q l \<Longrightarrow> offline (\<lambda>s. abort_err (q s)) l" by (auto simp: offline_def abort_err_def)

lemma offline_prod: "(\<And>x y. offline (k x y) l) \<Longrightarrow> offline (case a of (x, y) \<Rightarrow> k x y) l"
  by (cases a) simp

lemmas offline_intros = offline_bind offline_lift offline_guard offline_pure offline_abort offline_prod

text \<open>A phase that goes on writes documents into rows that exist, and nothing else.\<close>

definition same_rows :: "gold_db \<Rightarrow> gold_db \<Rightarrow> bool" where
  "same_rows db db' \<longleftrightarrow> gd_alias db' = gd_alias db \<and> gd_xref db' = gd_xref db \<and> gd_calendar db' = gd_calendar db \<and>
     map (\<lambda>t. t\<lparr>pt_doc := None\<rparr>) (gd_pool db') = map (\<lambda>t. t\<lparr>pt_doc := None\<rparr>) (gd_pool db)"

lemma same_rows_refl [simp]: "same_rows db db" by (simp add: same_rows_def)

lemma same_rows_trans [trans]: "same_rows a b \<Longrightarrow> same_rows b c \<Longrightarrow> same_rows a c"
  by (simp add: same_rows_def)

lemma same_rows_ids: "same_rows a b \<Longrightarrow> map pt_id (gd_pool b) = map pt_id (gd_pool a)"
proof -
  have ids: "map pt_id ts = map pt_id (map (\<lambda>t. t\<lparr>pt_doc := None\<rparr>) ts)" for ts by simp
  show "same_rows a b \<Longrightarrow> ?thesis" unfolding same_rows_def by (subst (1 2) ids) simp
qed

lemma same_rows_update: "same_rows db (foldl update_doc db xs)"
proof (induction xs arbitrary: db)
  case (Cons x xs)
  have "same_rows db (update_doc db x)" by (simp add: same_rows_def update_doc_def)
  with Cons show ?case using same_rows_trans by fastforce
qed simp

lemma same_rows_schedules: "write_schedules m keyed db = Inr db' \<Longrightarrow> same_rows db db'"
  by (auto simp: write_schedules_def bind_err_Inr same_rows_update)

lemma same_rows_scraped: "write_scraped_schedules m cs s db = Inr (r, db') \<Longrightarrow> same_rows db db'"
  by (auto simp: write_scraped_schedules_def bind_err_Inr Let_def dest: same_rows_schedules)

lemma same_rows_lanes: "write_lane_plans env fs s at_time db = Inr (r, db') \<Longrightarrow> same_rows db db'"
  by (auto simp: write_lane_plans_def bind_err_Inr split: result.splits if_splits dest: same_rows_schedules)

lemma freshness_written:
  assumes "write_source_freshness rt hs now db = Inr db'"
  shows "gd_freshness db' = map (freshness_tuple_of rt now) hs" "same_rows db db'"
  using assms by (auto simp: write_source_freshness_def freshness_table.insert_all same_rows_def split: if_splits)

text \<open>The codes of the two writing phases.\<close>

lemma scraped_code:
  "write_scraped_schedules m cs s db = Inr (r, db') \<Longrightarrow> ph_code r = (if ss_unresolved s = [] then 0 else 1)"
  by (auto simp: write_scraped_schedules_def bind_err_Inr Let_def)

lemma lanes_code: "write_lane_plans env fs s at_time db = Inr (r, db') \<Longrightarrow> \<not> ph_fatal r \<Longrightarrow> ph_code r = 0"
  by (auto simp: write_lane_plans_def bind_err_Inr split: result.splits if_splits)

section \<open>What a build that commits has done\<close>

text \<open>The exit code over the provenance of the four sources.\<close>

definition exit_code_says :: "silver_header list \<Rightarrow> int \<Rightarrow> bool" where
  "exit_code_says hs code \<longleftrightarrow> code \<in> {0, 1, 2} \<and>
     (code = 0 \<longrightarrow> sh_status ` set hs \<subseteq> {FRESH}) \<and> (code = 2 \<longrightarrow> STALE \<in> sh_status ` set hs)"

definition committed_store ::
  "pipeline_env \<Rightarrow> build_args \<Rightarrow> pool_catalog_entry list \<Rightarrow> gold_db \<Rightarrow> int \<Rightarrow> bool" where
  "committed_store env args catalog db code \<longleftrightarrow> (\<exists>hs.
     gd_freshness db = map (freshness_tuple_of (pe_runtime env) (ba_now args)) hs \<and>
     map sh_source hs = SILVER_SOURCES \<and> (\<forall>h \<in> set hs. honest_header args (sh_source h) h) \<and>
     exit_code_says hs code \<and> map pt_id (gd_pool db) = map pce_pool_id (sort_key pce_pool_id catalog))"

lemma stale_or_fresh: "sh_status h \<noteq> STALE \<longleftrightarrow> sh_status h = FRESH"
  by (cases "sh_status h") simp_all

lemma staged_build_commits:
  assumes run: "staged_build env clients args assembly roster prices st = (Inr (Some (db, code)), st')"
    and sp: "map pr_id (sp_pools (cas_spine assembly)) = map pce_pool_id (sort_key pce_pool_id catalog)"
    and hr: "honest_header args (u ''roster'') (rf_header roster)" and hp: "honest_header args (u ''prices'') (rf_header prices)"
  shows "committed_store env args catalog db code"
proof -
  obtain db0 audit schedules s1 curated written db1 facilities pages lanes attached db2
    where w0: "write_curated_store (pe_srepr env) (pe_models env) assembly empty_db = Inr (db0, audit)"
    and sch: "refresh_schedules env clients args (rf_value roster) (rf_value prices)
        (crosswalk_from_rows (load_alias_rows db0) (load_xref_rows db0)) st = (Inr (Ok schedules), s1)"
    and w1: "write_scraped_schedules (pe_models env) curated (rf_value schedules) db0 = Inr (written, db1)"
    and lan: "refresh_lane_plans env clients args facilities pages s1 = (Inr (Ok lanes), st')"
    and w2: "write_lane_plans env facilities (rf_value lanes) (sh_fetched_at (rf_header lanes)) db1 = Inr (attached, db2)"
    and ok: "\<not> ph_fatal attached"
    and w3: "write_source_freshness (pe_runtime env)
             [rf_header roster, rf_header prices, rf_header schedules, rf_header lanes] (ba_now args) db2 = Inr db"
    and code: "code = (let code = max (ph_code written) (ph_code attached);
               stale = rf_stale roster \<or> rf_stale prices \<or> rf_stale schedules \<or> rf_stale lanes
           in if code = 0 \<and> stale then EXIT_BUILT_STALE else code)"
    using run unfolding staged_build_def Let_def phase_Some by (auto simp: phase_Some split: prod.splits)
  obtain s2 w where "st = (s2, w)" by (cases st)
  with sch have hs: "honest_header args (u ''schedules'') (rf_header schedules)"
    by (cases s1) (auto simp: refresh_schedules_def dest: refresh_step_header)
  obtain s3 w3 where "s1 = (s3, w3)" by (cases s1)
  with lan have hl: "honest_header args (u ''lane_plans'') (rf_header lanes)"
    by (cases st') (auto simp: refresh_lane_plans_def dest: refresh_step_header)
  let ?hs = "[rf_header roster, rf_header prices, rf_header schedules, rf_header lanes]"
  have sources: "map sh_source ?hs = SILVER_SOURCES" and honest: "\<forall>h \<in> set ?hs. honest_header args (sh_source h) h"
    using hr hp hs hl by (simp_all add: honest_header_def SILVER_SOURCES_def)
  have "exit_code_says ?hs code"
    using code scraped_code [OF w1] lanes_code [OF w2 ok]
    by (auto simp: exit_code_says_def EXIT_BUILT_STALE_def rf_stale_def Let_def stale_or_fresh split: if_splits)
  moreover have "map pt_id (gd_pool db0) = map pr_id (sp_pools (cas_spine assembly))"
    using w0 same_rows_ids [OF same_rows_schedules]
    by (auto simp: write_curated_store_def bind_err_Inr write_pools_eq write_calendar_def pool_tuple_of_def comp_def split: if_splits)
  moreover have "map pt_id (gd_pool db) = map pt_id (gd_pool db0)"
    using same_rows_ids [OF same_rows_scraped [OF w1]] same_rows_ids [OF same_rows_lanes [OF w2]]
      same_rows_ids [OF freshness_written(2) [OF w3]] by simp
  ultimately show ?thesis unfolding committed_store_def
    using freshness_written(1) [OF w3] sources honest sp by (intro exI [of _ ?hs]) simp
qed

text \<open>A roster that is put together has its pools in the spine, in the order of their ids.\<close>

lemma assembled_spine:
  assumes "assembled env clients args st = (Inr (Some (roster, assembly, prices)), st')"
  shows "map pr_id (sp_pools (cas_spine assembly)) = map pce_pool_id (sort_key pce_pool_id (rf_value roster))"
    "honest_header args (u ''roster'') (rf_header roster)" "honest_header args (u ''prices'') (rf_header prices)"
    "\<exists>st1. refresh_roster env clients args st = (Inr (Ok roster), st1)"
proof -
  obtain s1 s2 where r: "refresh_roster env clients args st = (Inr (Ok roster), s1)"
    and a: "assemble_curated (pe_curated env) (pe_models env) (ba_data_dir args) (rf_value roster) = Inr (Ok assembly)"
    and p: "refresh_prices env clients args s1 = (Inr (Ok prices), s2)"
    using assms unfolding assembled_def phase_Some by (auto simp: phase_Some)
  from r show "\<exists>st1. refresh_roster env clients args st = (Inr (Ok roster), st1)" by blast
  from a obtain loaded where l: "load_dataset (pe_curated env) (ba_data_dir args) = Inr loaded"
    by (auto simp: assemble_curated_def bind_err_Inr)
  with a have "\<exists>fs reg. build_spine (pe_models env) (rf_value roster) fs reg = Inr (cas_spine assembly)"
    by (cases loaded) (auto simp: assemble_curated_def bind_err_Inr intro!: exI)
  then show "map pr_id (sp_pools (cas_spine assembly)) = map pce_pool_id (sort_key pce_pool_id (rf_value roster))"
    using build_spine_built by (metis built_from_def)
  show "honest_header args (u ''roster'') (rf_header roster)"
    using r by (cases st, cases s1) (auto simp: refresh_roster_def dest: refresh_step_header)
  show "honest_header args (u ''prices'') (rf_header prices)"
    using p by (cases s1, cases s2) (auto simp: refresh_prices_def dest: refresh_step_header)
qed

text \<open>A swap either commits the block's store and returns its code, or leaves the target as it was.\<close>

lemma swap_build_cases:
  assumes "swap_build env target body files st = (out, files', st')" "fresh_tmp (pe_swap env) target files"
  obtains (committed) db code where "body st = (Inr (Some (db, code)), st')" "out = Inr code" "files' = files(target \<mapsto> db)"
  | (kept) "out = Inr 1 \<or> (\<exists>e. out = Inl e)" "\<And>p. p \<noteq> tmp_name (pe_swap env) \<Longrightarrow> files' p = files p"
proof -
  obtain res s1 where body: "body st = (res, s1)" by (cases "body st")
  define block :: "pystr \<Rightarrow> gold_db fs \<Rightarrow> py_error block_end \<times> gold_db fs" where "block = (\<lambda>tmp g. case res of Inl e \<Rightarrow> (Raised e, g) | Inr None \<Rightarrow> (Finished False, g)
      | Inr (Some (db, code)) \<Rightarrow> (Finished True, g(tmp \<mapsto> db)))"
  obtain r f1 where swap: "atomic_swap (pe_swap env) empty_db target block files = (r, f1)"
    by (cases "atomic_swap (pe_swap env) empty_db target block files")
  have conf: "confined block" by (auto simp: confined_def block_def split: sum.splits option.splits)
  have eqs: "files' = f1" "r \<noteq> PrepareFailed \<Longrightarrow> st' = s1"
    "out = (case r of Swapped \<Rightarrow> bind_err res (\<lambda>r. Inr (case r of Some (db, code) \<Rightarrow> code | None \<Rightarrow> 1)) | NotCommitted \<Rightarrow> Inr 1
      | BlockRaised e \<Rightarrow> Inl e | _ \<Rightarrow> Inl OSError)"
    using assms(1) body swap by (auto simp: swap_build_def block_def Let_def split: swap_result.splits prod.splits)
  show ?thesis
  proof (cases "r = Swapped")
    case True
    note sw = atomic_swap_swapped [OF conf assms(2) swap [unfolded True]]
    from sw(2) obtain db code where "res = Inr (Some (db, code))"
      by (auto simp: block_def split: sum.splits option.splits)
    with sw(1) eqs body True show ?thesis by (intro committed [of db code]) (auto simp: block_def)
  next
    case False
    show ?thesis
      by (rule kept) (use False eqs(1,3) atomic_swap_not_swapped(1) [OF conf assms(2) swap False] in
          \<open>auto split: swap_result.splits\<close>)
  qed
qed

definition starting_lake :: "lake option \<Rightarrow> lake" where
  "starting_lake lake = (case lake of Some l \<Rightarrow> l | None \<Rightarrow> Map.empty)"

lemma build_cases:
  assumes "build env clients args files lake w = (out, files', lake', w')" "fresh_tmp (pe_swap env) (ba_db_path args) files"
  obtains (committed) roster st1 db code where "out = Inr code" "files' = files(ba_db_path args \<mapsto> db)"
      "committed_store env args (rf_value roster) db code"
      "refresh_roster env clients args (starting_lake lake, w) = (Inr (Ok roster), st1)"
  | (kept) "out = Inr 1 \<or> (\<exists>e. out = Inl e)" "\<And>p. p \<noteq> tmp_name (pe_swap env) \<Longrightarrow> files' p = files p"
proof -
  let ?st = "(starting_lake lake, w)"
  obtain st' where run: "build_on_lake env clients args files ?st = (out, files', st')"
    using assms(1) by (auto simp: build_def starting_lake_def split: option.splits prod.splits)
  consider "files' = files" "out = Inr 1 \<or> (\<exists>e. out = Inl e)"
    | roster assembly prices st1 where "assembled env clients args ?st = (Inr (Some (roster, assembly, prices)), st1)"
      "swap_build env (ba_db_path args) (staged_build env clients args assembly roster prices) files st1 = (out, files', st')"
    using run by (auto simp: build_on_lake_def split: if_splits prod.splits sum.splits option.splits)
  then show ?thesis
  proof cases
    case 1
    then show ?thesis by (intro kept) auto
  next
    case 2
    note facts = assembled_spine [OF 2(1)]
    from 2(2) assms(2) show ?thesis
    proof (cases rule: swap_build_cases)
      case (committed db code)
      have "\<exists>s1. refresh_roster env clients args ?st = (Inr (Ok roster), s1)" by (rule facts(4))
      then show ?thesis
        using staged_build_commits [OF committed(1) facts(1-3)] committed(2,3) that(1) by blast
    qed (rule that(2))
  qed
qed

section \<open>Results\<close>

text \<open>
  C1: A build is all or nothing. Either it commits: the gold store at its path is then a new one with one
  provenance row for each of the four sources in their order, its exit code is 0 only if every row is fresh and 2
  only if some row is stale, its pools are those of the roster this run obtained, by id, and no other file has changed.
  Or its result is the code 1 or an exception, and every file but its staging file is as it was, the gold store included.
\<close>

theorem build_commits_whole_store_or_none:
  assumes "build env clients args files lake w = (out, files', lake', w')" "fresh_tmp (pe_swap env) (ba_db_path args) files"
  shows "(\<exists>db code roster st1. out = Inr code \<and> code \<in> {0, 1, 2} \<and> files' = files(ba_db_path args \<mapsto> db) \<and>
       map ftt_source (gd_freshness db) = SILVER_SOURCES \<and>
       (code = 0 \<longrightarrow> ftt_status ` set (gd_freshness db) = {u ''fresh''}) \<and>
       (code = 2 \<longrightarrow> u ''stale'' \<in> ftt_status ` set (gd_freshness db)) \<and>
       refresh_roster env clients args (starting_lake lake, w) = (Inr (Ok roster), st1) \<and>
       map pt_id (gd_pool db) = map pce_pool_id (sort_key pce_pool_id (rf_value roster))) \<or>
     (out = Inr 1 \<or> (\<exists>e. out = Inl e)) \<and> (p \<noteq> tmp_name (pe_swap env) \<longrightarrow> files' p = files p)"
  using assms
proof (cases rule: build_cases)
  case (committed roster st1 db code)
  from committed(3) obtain hs where
    hs: "gd_freshness db = map (freshness_tuple_of (pe_runtime env) (ba_now args)) hs" "map sh_source hs = SILVER_SOURCES"
      "exit_code_says hs code" "map pt_id (gd_pool db) = map pce_pool_id (sort_key pce_pool_id (rf_value roster))"
    unfolding committed_store_def by blast
  have "hs \<noteq> []" using hs(2) by (auto simp: SILVER_SOURCES_def)
  then have "code = 0 \<longrightarrow> ftt_status ` set (gd_freshness db) = {u ''fresh''}"
    using hs(1,3) by (cases hs) (auto simp: exit_code_says_def freshness_tuple_of_def)
  moreover have "code = 2 \<longrightarrow> u ''stale'' \<in> ftt_status ` set (gd_freshness db)"
    using hs(1,3) by (force simp: exit_code_says_def freshness_tuple_of_def)
  moreover have "map ftt_source (gd_freshness db) = SILVER_SOURCES"
    using hs(1,2) by (simp add: freshness_tuple_of_def comp_def)
  moreover have "code \<in> {0, 1, 2}" using hs(3) unfolding exit_code_says_def by blast
  ultimately show ?thesis using committed(1,2,4) hs(4) by blast
qed simp


lemma assembled_offline:
  assumes "\<And>s. s \<in> set SILVER_SOURCES \<Longrightarrow> up_to_date env args l s"
  shows "offline (assembled env clients args) l"
proof -
  have "up_to_date env args l (u ''roster'')" "up_to_date env args l (u ''prices'')"
    by (rule assms, simp add: SILVER_SOURCES_def)+
  then have "offline (refresh_roster env clients args) l" "offline (refresh_prices env clients args) l"
    unfolding refresh_roster_def refresh_prices_def by (simp_all add: refresh_step_reuses)
  then show ?thesis unfolding assembled_def by (intro offline_intros)
qed

lemma staged_offline:
  assumes "\<And>s. s \<in> set SILVER_SOURCES \<Longrightarrow> up_to_date env args l s"
  shows "offline (staged_build env clients args assembly roster prices) l"
proof -
  have "up_to_date env args l (u ''schedules'')" "up_to_date env args l (u ''lane_plans'')"
    by (rule assms, simp add: SILVER_SOURCES_def)+
  then have "offline (refresh_schedules env clients args c t cw) l" "offline (refresh_lane_plans env clients args fs ps) l"
    for c t cw fs ps
    unfolding refresh_schedules_def refresh_lane_plans_def by (simp_all add: refresh_step_reuses)
  then show ?thesis unfolding staged_build_def Let_def by (intro offline_intros)
qed

lemma swap_offline:
  assumes "offline body l"
  shows "\<exists>out files'. \<forall>w. swap_build env target body files (l, w) = (out, files', (l, w))"
proof -
  obtain r where r: "\<And>w. body (l, w) = (r, (l, w))" using assms by (auto simp: offline_def)
  define block :: "pystr \<Rightarrow> gold_db fs \<Rightarrow> py_error block_end \<times> gold_db fs" where "block = (\<lambda>tmp g. case r of Inl e \<Rightarrow> (Raised e, g) | Inr None \<Rightarrow> (Finished False, g)
      | Inr (Some (db, code)) \<Rightarrow> (Finished True, g(tmp \<mapsto> db)))"
  obtain res g where "atomic_swap (pe_swap env) empty_db target block files = (res, g)"
    by (cases "atomic_swap (pe_swap env) empty_db target block files")
  then show ?thesis by (cases res) (simp_all add: swap_build_def r block_def)
qed

text \<open>
  C3: A build whose four silver documents are readable, not stale, younger than their time to live and not
  forced makes no network call and rewrites no document, whatever comes of it; its exit code and the gold store it
  may write are a function of the lake, the curated data and the files alone.
\<close>

theorem warm_build_makes_no_call:
  assumes "\<And>s. s \<in> set SILVER_SOURCES \<Longrightarrow> up_to_date env args l s"
  shows "\<exists>out files'. \<forall>w. build env clients args files (Some l) w = (out, files', Some l, w)"
proof -
  obtain r where r: "\<And>w. assembled env clients args (l, w) = (r, (l, w))"
    using assembled_offline [OF assms] by (auto simp: offline_def)
  have "\<exists>out files'. \<forall>w. build_on_lake env clients args files (l, w) = (out, files', (l, w))"
  proof (cases "ba_force_sources args \<subseteq> set SILVER_SOURCES")
    case False
    then show ?thesis by (simp add: build_on_lake_def)
  next
    case known: True
    show ?thesis
    proof (cases "\<exists>roster assembly prices. r = Inr (Some (roster, assembly, prices))")
    case True
    then obtain roster assembly prices where v: "r = Inr (Some (roster, assembly, prices))" by blast
    obtain out files' where
      "\<And>w. swap_build env (ba_db_path args) (staged_build env clients args assembly roster prices) files (l, w) = (out, files', (l, w))"
      using swap_offline [OF staged_offline [OF assms]] by blast
    with known show ?thesis by (auto simp: build_on_lake_def r v)
  next
    case False
    with known show ?thesis by (cases r) (auto simp: build_on_lake_def r split: option.splits)
  qed
  qed
  then show ?thesis by (auto simp: build_def)
qed

text \<open>
  C5: A lane fetch that succeeds has every sheet a basin declares: the link is among those the pool pages advertise,
  the sheet was fetched and parsed, and all its plans are in the result under its URL. No plan comes from a URL that
  no page advertises.
\<close>

theorem declared_sheets_are_all_fetched:
  assumes "fetch_lane_plans env page_get lane_get facilities pages w = (Inr (Ok scraped), w')"
    "(basin_key, src) \<in> set (declared_sources facilities)"
  shows "lps_url src \<in> dl_url ` set (sl_links scraped) \<and>
    (\<exists>v v' parsed. scrape_belegungsplan_sheet (pe_frepr env) (pe_pdf env) lane_get (lps_url src) v = (Inr (Ok parsed), v') \<and>
       (\<lambda>p. p\<lparr>pp_source_url := lps_url src\<rparr>) ` set parsed \<subseteq> set (sl_plans scraped)) \<and>
    pp_source_url ` set (sl_plans scraped) \<subseteq> dl_url ` set (sl_links scraped)"
proof -
  obtain discovery :: discovery_report and w1 report where
    none: "undiscovered_authored facilities (dr_links discovery) = []"
    and sheets: "scrape_lane_plans (pe_frepr env) (pe_pdf env) lane_get (dr_links discovery) w1 = (Inr report, w')"
    and bound: "sm_bound (split_misses (rp_misses report) (authored_lane_urls facilities)) = []"
    and scraped: "scraped = \<lparr>sl_links = dr_links discovery, sl_plans = rp_plans report\<rparr>"
    using assms(1) by (auto simp: fetch_lane_plans_def split: prod.splits sum.splits list.splits)
  let ?url = "lps_url src"
  have "(\<lambda>d. \<lparr>us_pool = fst (fst d), us_url = lps_url (snd d)\<rparr>) `
      {d \<in> set (declared_sources facilities). lps_url (snd d) \<notin> set (map dl_url (dr_links discovery))} = {}"
    using undiscovered_fold [of "[]" "set (map dl_url (dr_links discovery))" "declared_sources facilities"]
    unfolding none [unfolded undiscovered_authored_def] by simp
  then have adv: "?url \<in> dl_url ` set (dr_links discovery)" using assms(2) by (cases basin_key) auto
  have "?url \<in> authored_lane_urls facilities" using assms(2) by (force simp: authored_lane_urls_def)
  then have "?url \<notin> lm_url ` set (rp_misses report)"
    using bound by (force simp: split_misses_def filter_empty_conv)
  then show ?thesis
    using scrape_urls_accounts [OF sheets [unfolded scrape_lane_plans_def]] adv scraped
    by (auto simp: fetch_set_facts)
qed

text \<open>The roster entries whose pages the two phases read.\<close>

definition scraped_entries :: "pool_catalog_entry list \<Rightarrow> pool_catalog_entry list" where
  "scraped_entries catalog = map ds_entry (scrape_sources catalog) @ concat (map ss_members (shared_sources catalog))"

definition resolved_ref ::
  "crosswalk \<Rightarrow> source_ref \<times> pool_kind \<times> pystr \<times> geo_point option \<Rightarrow> (pool_id \<times> pool_kind \<times> pystr \<times> geo_point option) option" where
  "resolved_ref cw x =
     map_option (\<lambda>pid. (pid, snd x)) (case fst x of Name n \<Rightarrow> cw_alias cw (normalize n) | Xref ns ext \<Rightarrow> cw_xref cw (ns, ext))"

lemma entries_resolved:
  assumes "mset (map stated_entry xs) = mset (map entry_facts es)" "resolve_all srepr xs cw = Ok out"
  shows "mset (map (\<lambda>(pid, a). (pid, sa_kind a, sa_address a, sa_geo a)) (ro_resolved out)) =
      mset (List.map_filter (resolved_ref cw) (map entry_facts es))"
    "mset (ro_unresolved out) =
      mset (map (ref_label \<circ> fst) (filter (\<lambda>x. \<exists>e. resolve_ref srepr (fst x) cw = Err e) (map entry_facts es)))"
proof -
  have "map (\<lambda>(pid, a). (pid, sa_kind a, sa_address a, sa_geo a))
      (List.map_filter (\<lambda>x. case resolve_ref srepr (fst x) cw of Ok p \<Rightarrow> Some (p, snd x) | Err e \<Rightarrow> None) xs) =
      List.map_filter (resolved_ref cw) (map stated_entry xs)"
    by (induction xs) (auto simp: map_filter_simps resolved_ref_def resolve_ref_def classify_ref_def stated_entry_def
        split: option.splits source_ref.splits)
  moreover have "map (ref_label \<circ> fst) (filter (\<lambda>x. \<exists>e. resolve_ref srepr (fst x) cw = Err e) xs) =
      map (ref_label \<circ> fst) (filter (\<lambda>x. \<exists>e. resolve_ref srepr (fst x) cw = Err e) (map stated_entry xs))"
    by (induction xs) (auto simp: stated_entry_def)
  ultimately have out: "map (\<lambda>(pid, a). (pid, sa_kind a, sa_address a, sa_geo a)) (ro_resolved out) = List.map_filter (resolved_ref cw) (map stated_entry xs)"
    "ro_unresolved out = map (ref_label \<circ> fst) (filter (\<lambda>x. \<exists>e. resolve_ref srepr (fst x) cw = Err e) (map stated_entry xs))"
    using assms(2) unfolding resolve_all_Ok by auto
  show "mset (map (\<lambda>(pid, a). (pid, sa_kind a, sa_address a, sa_geo a)) (ro_resolved out)) =
      mset (List.map_filter (resolved_ref cw) (map entry_facts es))"
    unfolding out(1) List.map_filter_def mset_map mset_filter assms(1) [unfolded mset_map] ..
  show "mset (ro_unresolved out) =
      mset (map (ref_label \<circ> fst) (filter (\<lambda>x. \<exists>e. resolve_ref srepr (fst x) cw = Err e) (map entry_facts es)))"
    unfolding out(2) mset_map mset_filter assms(1) [unfolded mset_map] ..
qed

lemma sort_mset: "mset xs = mset ys \<Longrightarrow> sort xs = sort ys"
  by (metis sorted_list_of_multiset_mset)

lemma mset_concat_map: "mset xs = mset ys \<Longrightarrow> mset (concat (map g xs)) = mset (concat (map g ys))"
  by (simp add: mset_concat flip: sum_mset_sum_list)

definition resolved_entry :: "crosswalk \<Rightarrow> pool_catalog_entry \<Rightarrow> (pool_id \<times> pool_kind \<times> pystr \<times> geo_point option) option" where
  "resolved_entry cw e =
     map_option (\<lambda>pid. (pid, pce_kind e, pce_address e, pce_geo e)) (cw_alias cw (normalize (pce_name e)))"

text \<open>
  C4: A schedule fetch that succeeds has read every page it had to: each roster entry with a page of its own or
  on a shared one is accounted for exactly once, either as the facility of the pool its name resolves to, with the kind,
  the address and the position the roster gives it, or, when its name is no alias, among the unresolved names.
\<close>

theorem schedule_fetch_is_complete:
  assumes "fetch_schedules env get catalog tariffs cw fetched_at w = (Inr (Ok scraped), w')"
  shows "mset (map (\<lambda>f. (facility_id (identity f), pid_kind (identity f), address f, geo f)) (ss_facilities scraped)) =
      mset (List.map_filter (resolved_entry cw) (scraped_entries catalog)) \<and>
    ss_unresolved scraped = sort (map pce_name (filter (\<lambda>e. resolved_entry cw e = None) (scraped_entries catalog)))"
proof -
  obtain declared w1 shared where
    d: "scrape_declared_sources (pe_scrape env) get catalog fetched_at tariffs w = (Inr declared, w1)"
    and s: "scrape_shared_sources (pe_scrape env) get catalog fetched_at w1 = (Inr shared, w')"
    and sch: "schedules_of_reports (pe_srepr env) declared shared cw = Ok scraped"
    using assms by (auto simp: fetch_schedules_def split: prod.splits sum.splits)
  let ?xs = "sr_extracts declared @ sr_extracts shared"
  obtain out where clean: "sr_failures declared = []" "sr_failures shared = []" and out: "resolve_all (pe_srepr env) ?xs cw = Ok out"
    and scraped: "ss_facilities scraped = map (\<lambda>(pid, aspects). scraped_facility pid aspects) (ro_resolved out)"
      "ss_unresolved scraped = sort (ro_unresolved out)"
    using sch by (auto simp: schedules_of_reports_def Let_def split: list.splits if_splits result.splits)
  obtain ok ok' where "mset ok = mset (scrape_sources catalog)" "mset ok' = mset (shared_sources catalog)"
    "map stated_entry (sr_extracts declared) = map (entry_facts \<circ> ds_entry) ok"
    "map stated_entry (sr_extracts shared) = concat (map (\<lambda>s. map entry_facts (ss_members s)) ok')"
    using scrape_phases_account [OF d s] clean by auto
  then have "mset (map stated_entry (sr_extracts declared)) = mset (map (entry_facts \<circ> ds_entry) (scrape_sources catalog))"
    "mset (map stated_entry (sr_extracts shared)) = mset (concat (map (\<lambda>s. map entry_facts (ss_members s)) (shared_sources catalog)))"
    by (simp_all only: mset_map) (metis mset_concat_map)
  then have xs: "mset (map stated_entry ?xs) = mset (map entry_facts (scraped_entries catalog))"
    by (simp add: scraped_entries_def map_concat comp_def)
  note res = entries_resolved [OF xs out]
  have pick: "resolved_ref cw (entry_facts e) = resolved_entry cw e"
    "(\<exists>x. resolve_ref (pe_srepr env) (fst (entry_facts e)) cw = Err x) \<longleftrightarrow> resolved_entry cw e = None"
    "ref_label (fst (entry_facts e)) = pce_name e" for e
    by (auto simp: entry_facts_def resolved_ref_def resolved_entry_def resolve_ref_def classify_ref_def split: option.splits)
  have "List.map_filter (resolved_ref cw) (map entry_facts es) = List.map_filter (resolved_entry cw) es" for es
    by (induction es) (simp_all add: map_filter_simps pick(1) split: option.split)
  then have "mset (map (\<lambda>(pid, a). (pid, sa_kind a, sa_address a, sa_geo a)) (ro_resolved out)) =
      mset (List.map_filter (resolved_entry cw) (scraped_entries catalog))"
    using res(1) by simp
  moreover have "sort (ro_unresolved out) = sort (map pce_name (filter (\<lambda>e. resolved_entry cw e = None) (scraped_entries catalog)))"
    by (rule sort_mset) (use res(2) in \<open>simp add: filter_map comp_def pick(2,3)\<close>)
  moreover have "map (\<lambda>f. (facility_id (identity f), pid_kind (identity f), address f, geo f)) (ss_facilities scraped) =
      map (\<lambda>(pid, a). (pid, sa_kind a, sa_address a, sa_geo a)) (ro_resolved out)"
    by (auto simp: scraped(1) scraped_facility_def)
  ultimately show ?thesis unfolding scraped(2) by simp
qed

section \<open>A lake that is up to date\<close>

definition ex_roster_pin :: pool_catalog_entry where
  "ex_roster_pin = ex_pin\<lparr>pce_url := Some (u ''page'')\<rparr>"

definition ex_entry_dto :: entry_dto where
  "ex_entry_dto = \<lparr>end_pool_id = u ''p'', end_name = u ''P'', end_kind = pool_kind_value OUTDOOR_POOL, end_address = [],
     end_lat = None, end_lon = None, end_url = Some (u ''page''), end_description = None, end_phone = None, end_poi_id = None\<rparr>"

definition ex_build_models :: models where
  "ex_build_models = ex_models\<lparr>
     validate_catalog := (\<lambda>_. Inr \<lparr>ctd_generated_at = ex_at 10, ctd_count = 1, ctd_entries = [ex_entry_dto]\<rparr>),
     validate_price_table := (\<lambda>_. Inr \<lparr>ptd_entries = [], ptd_valid_as_of = None, ptd_source_url = None\<rparr>)\<rparr>"

definition ex_build_curated :: curated_env where
  "ex_build_curated = ex_curated_env\<lparr>ce_registry := (\<lambda>_. Inr \<lparr>rgd_facilities = []\<rparr>), ce_pool_files := (\<lambda>_. [])\<rparr>"

lemma ex_entry: "entry_from_dto ex_entry_dto = Inr ex_roster_pin"
  using kind_of_value [of OUTDOOR_POOL] by (simp add: entry_from_dto_def ex_entry_dto_def ex_roster_pin_def ex_pin_def)

lemma ex_roster_decoded: "decode_roster ex_build_models (JObj p) = Inr [ex_roster_pin]"
  by (simp add: decode_roster_def catalog_loads_def ex_build_models_def ex_entry)

lemma ex_dataset: "\<exists>ds. load_dataset ex_build_curated [] = Inr (Ok ds) \<and> ds_facilities ds = [] \<and> ds_registry ds = empty_registry"
    by (simp add: load_dataset_def load_guarded_def load_yaml_def validate_def ex_curated_env_def ex_build_curated_def
        build_registry_def mk_registry_def lifted_def bind_exc_def Let_def)

lemma ex_docs: "storable f \<Longrightarrow> facility_dumps ex_build_models f = Inr (JsonText JNull)"
  using facility_wire.there_and_back [of f] by (auto simp: facility_dumps_def ex_build_models_def ex_models_def)

lemma ex_loads: "facility_loads ex_build_models (JsonText j) = Inr ex_stored_facility"
  using facility_wire.there_and_back [OF ex_storable] by (auto simp: facility_loads_def ex_build_models_def ex_models_def)

lemma ex_build_spine:
  obtains sp where "build_spine ex_build_models [ex_roster_pin] [] empty_registry = Inr sp"
    "\<exists>p. sp_pools sp = [p] \<and> pr_id p = u ''p'' \<and> pr_kind p = OUTDOOR_POOL \<and> pr_url p = Some (u ''page'') \<and>
      pr_facility_doc p = Some (JsonText JNull)" "spine_ok sp"
proof -
  have f: "spine_facility (curated_by_id []) empty_registry ex_roster_pin = Inr ex_pin_facility"
    by (simp add: spine_facility_def curated_by_id_def location_only_facility_def ex_roster_pin_def ex_pin_def ex_pin_facility_def
        spine_kind_def spine_identity_def registry_get_def empty_registry_def Let_def)
  have "storable ex_pin_facility" by (simp add: storable_def ex_pin_facility_def)
  note d = ex_docs [OF this]
  from spine_step_total [OF f d] obtain st where
    "spine_step ex_build_models (curated_by_id []) empty_registry \<lparr>ss_pools = [], ss_aliases = ([], []), ss_xrefs = ([], [])\<rparr> ex_roster_pin = Inr st"
    by blast
  then obtain sp where sp: "build_spine ex_build_models [ex_roster_pin] [] empty_registry = Inr sp"
    by (simp add: build_spine_def)
  note b = build_spine_built [OF sp]
  then have "\<exists>p. sp_pools sp = [p] \<and> row_for ex_build_models (curated_by_id []) empty_registry ex_roster_pin p"
    by (auto simp: built_from_def list_all2_Cons1)
  then obtain p where p: "sp_pools sp = [p]" "row_for ex_build_models (curated_by_id []) empty_registry ex_roster_pin p" by blast
  from p(2) f d have "pr_id p = u ''p'' \<and> pr_kind p = OUTDOOR_POOL \<and> pr_url p = Some (u ''page'') \<and>
      pr_facility_doc p = Some (JsonText JNull)"
    by (auto simp: row_for_def ex_roster_pin_def ex_pin_def spine_kind_def empty_registry_def spine_identity_def registry_get_def)
  moreover have "spine_ok sp" using b p(1) by (auto simp: built_from_def spine_ok_def)
  ultimately show ?thesis using sp p(1) that by blast
qed


section \<open>The staged build on it\<close>

definition ex_sheet_plans :: scraped_lane_plans where
  "ex_sheet_plans = \<lparr>sl_links = [\<lparr>dl_pool = u ''p'', dl_url = u ''a.pdf''\<rparr>], sl_plans = [ex_parsed]\<rparr>"

definition ex_no_schedules :: scraped_schedules where
  "ex_no_schedules = \<lparr>ss_facilities = [], ss_unresolved = [], ss_notes = []\<rparr>"

text \<open>A store of one row whose document reads as the stored facility.\<close>

definition ex_row_store :: "gold_db \<Rightarrow> bool" where
  "ex_row_store db \<longleftrightarrow> (\<exists>t j. gd_pool db = [t] \<and> pt_id t = u ''p'' \<and> pt_kind t = pool_kind_value OUTDOOR_POOL \<and>
     pt_url t = Some (u ''page'') \<and> pt_doc t = Some (JsonText j))"

lemma ex_row_store_loads:
  assumes "ex_row_store db"
  shows "gold_load_all ex_build_models db = Inr [ex_stored_facility]"
    "page_urls ex_build_models db [ex_stored_facility] = Inr [(u ''p'', u ''page'')]"
proof -
  obtain t j where t: "gd_pool db = [t]" "pt_id t = u ''p''" "pt_kind t = pool_kind_value OUTDOOR_POOL"
    "pt_url t = Some (u ''page'')" "pt_doc t = Some (JsonText j)" using assms by (auto simp: ex_row_store_def)
  show "gold_load_all ex_build_models db = Inr [ex_stored_facility]"
    by (simp add: gold_load_all_def t ex_loads map_filter_simps)
  show "page_urls ex_build_models db [ex_stored_facility] = Inr [(u ''p'', u ''page'')]"
    by (simp add: page_urls_def load_roster_def t roster_entry_of_def catalog_entry_of_def schedule_freshness_of_doc_def ex_loads
        kind_of_value map_filter_simps ex_stored_facility_def ex_facility_def ex_identity_def del: pool_kind_value.simps)
qed

lemma ex_row_store_written:
  assumes "ex_row_store db" "storable f" "facility_id (identity f) = u ''p''"
  shows "\<exists>db'. write_schedules ex_build_models [keyed_facility f] db = Inr db' \<and> ex_row_store db'"
  using assms by (auto simp: write_schedules_def keyed_facility_def ex_docs update_doc_def ex_row_store_def)


lemma ex_compose: "\<exists>c. compose_facilities [ex_stored_facility] [] = Inr c"
proof (cases "compose_facilities [ex_stored_facility] []")
  case (Inl e)
  then obtain k where "k \<in> set (pool_keys [ex_stored_facility] [])" "fold_pool (pool_sources [ex_stored_facility] [] k) = Inl e"
    using fold_pools_error [of "[ex_stored_facility]" "[]" "pool_keys [ex_stored_facility] []" e]
    by (auto simp: compose_facilities_def)
  then have "ambiguous_timetable [ex_stored_facility] [] k" using fold_pool_Inl(1) by blast
  then show ?thesis by (simp add: ambiguous_timetable_def dict_by_id_def)
qed simp

definition ex_pipeline :: pipeline_env where
  "ex_pipeline = \<lparr>pe_geo = ex_geo_env [],
     pe_scrape = \<lparr>sx_unescape = id, sx_json = (\<lambda>_. None), sx_repr = (\<lambda>_. []), sx_other_date = (\<lambda>_. None), sx_netloc_rejected = (\<lambda>_. False)\<rparr>,
     pe_page = \<lparr>pg_unescape = id, pg_urljoin = (\<lambda>_ href. href)\<rparr>, pe_curated = ex_build_curated, pe_models = ex_build_models,
     pe_runtime = ex_rt, pe_frepr = (\<lambda>_. []), pe_pdf = (\<lambda>_. PdfEmpty),
     pe_swap = \<lparr>prepare_ok = True, tmp_name = u ''.tmp'', replace_ok = True\<rparr>, pe_lake_io = (\<lambda>_. ex_io)\<rparr>"

text \<open>Every client times out; the world counts the requests.\<close>

definition ex_down :: "nat getter" where
  "ex_down url n = (Inr (Err (Timeout url 10)), n + 1)"

definition ex_clients :: "nat provider_clients" where
  "ex_clients = \<lparr>pc_roster = (\<lambda>url params. ex_down url), pc_schedules = ex_down, pc_prices = ex_down, pc_pages = ex_down,
     pc_lanes = ex_down\<rparr>"

definition ex_args :: "pystr set \<Rightarrow> build_args" where
  "ex_args forced_sources = \<lparr>ba_db_path = u ''gold'', ba_data_dir = [], ba_lake_root = u ''lake'', ba_now = ex_at 13, ba_force = False,
     ba_force_sources = forced_sources\<rparr>"

lemma ex_staged:
  assumes sp: "build_spine ex_build_models [ex_roster_pin] [] empty_registry = Inr (cas_spine a)"
    and sch: "\<And>c t cw. refresh_schedules ex_pipeline clients args c t cw st = (Inr (Ok schedules), st1)" "rf_value schedules = ex_no_schedules"
    and lan: "\<And>w. refresh_lane_plans ex_pipeline clients args [ex_stored_facility] [(u ''p'', u ''page'')] st1 = (Inr (Ok lanes), st2)"
      "rf_value lanes = ex_sheet_plans"
    and sources: "sh_source (rf_header roster) = u ''roster''" "sh_source (rf_header prices) = u ''prices''"
      "sh_source (rf_header schedules) = u ''schedules''" "sh_source (rf_header lanes) = u ''lane_plans''"
  shows "\<exists>db. staged_build ex_pipeline clients args a roster prices st =
    (Inr (Some (db, if rf_stale roster \<or> rf_stale prices \<or> rf_stale schedules \<or> rf_stale lanes then 2 else 0)), st2)"
proof -
  let ?m = ex_build_models
  obtain p where p: "sp_pools (cas_spine a) = [p]" "pr_id p = u ''p''" "pr_kind p = OUTDOOR_POOL" "pr_url p = Some (u ''page'')"
      "pr_facility_doc p = Some (JsonText JNull)" and ok: "spine_ok (cas_spine a)"
    using sp ex_build_spine by (metis Inr_inject)
  have curated: "assembly_facilities ?m a = Inr [ex_stored_facility]"
    and keyed: "keyed_schedules ?m (cas_spine a) = Inr [(u ''p'', ex_stored_facility)]"
    by (simp_all add: assembly_facilities_def keyed_schedules_def p map_filter_simps ex_loads)
  obtain db0 audit where w0: "write_curated_store (pe_srepr ex_pipeline) ?m a empty_db = Inr (db0, audit)" and r0: "ex_row_store db0"
    using ok p by (auto simp: write_curated_store_def write_pools_eq keyed write_schedules_def ex_docs ex_storable update_doc_def
        write_calendar_def ex_row_store_def pool_tuple_of_def)
  obtain c where c: "compose_facilities [ex_stored_facility] [] = Inr c" using ex_compose by blast
  have w1: "write_scraped_schedules ?m [ex_stored_facility] (rf_value schedules) db0 = Inr (\<lparr>ph_code = 0, ph_fatal = False\<rparr>, db0)"
    by (simp add: write_scraped_schedules_def sch(2) ex_no_schedules_def c write_schedules_def)
  obtain att where att: "attach_lane_plans (pe_srepr ex_pipeline) [ex_stored_facility] [ex_parsed] (sh_fetched_at (rf_header lanes)) = Ok att"
      "at_facilities att = [ex_facility (u ''p'') [attached ex_plan (sh_fetched_at (rf_header lanes)) ex_sheet_basin]]"
    using ex_attached unfolding ex_stored_facility_def by blast
  let ?f = "ex_facility (u ''p'') [attached ex_plan (sh_fetched_at (rf_header lanes)) ex_sheet_basin]"
  have f: "storable ?f" "facility_id (identity ?f) = u ''p''"
    using ex_plan_wf_ranges
    by (auto simp: storable_def ex_facility_def ex_identity_def attached_def ex_sheet_basin_def good_basin_def storable_plan_def
        good_coverage_def good_reservation_def ex_plan_def wf_ranges_def ex_reservation_def)
  have n: "attached_plans att = 1"
    by (simp add: attached_plans_def att(2) ex_facility_def attached_def ex_sheet_basin_def)
  obtain db2 where db2: "write_schedules ?m [keyed_facility ?f] db0 = Inr db2" using ex_row_store_written [OF r0 f] by blast
  have w2: "write_lane_plans ex_pipeline [ex_stored_facility] (rf_value lanes) (sh_fetched_at (rf_header lanes)) db0 =
      Inr (\<lparr>ph_code = 0, ph_fatal = False\<rparr>, db2)"
    using db2 by (simp add: write_lane_plans_def lan(2) ex_sheet_plans_def att n) (simp add: ex_pipeline_def)
  have "\<exists>db3. write_source_freshness ex_rt [rf_header roster, rf_header prices, rf_header schedules, rf_header lanes]
      (ba_now args) db2 = Inr db3"
    unfolding write_source_freshness_def freshness_table.insert_all using sources by (simp add: freshness_tuple_of_def u_inject)
  then obtain db3 where w3: "write_source_freshness ex_rt
      [rf_header roster, rf_header prices, rf_header schedules, rf_header lanes] (ba_now args) db2 = Inr db3" by blast
  have "pe_models ex_pipeline = ?m" "pe_runtime ex_pipeline = ex_rt" by (simp_all add: ex_pipeline_def)
  then show ?thesis
    unfolding staged_build_def Let_def
    by (auto simp: bind_phase_def lift_phase_def guard_phase_def abort_err_def w0 sch(1) curated w1 ex_row_store_loads [OF r0]
        lan(1) w2 w3 EXIT_BUILT_STALE_def)
qed


section \<open>The lake it reads\<close>

definition ex_silver :: "pystr \<Rightarrow> payload \<Rightarrow> silver_doc" where
  "ex_silver source p = \<lparr>sd_header = \<lparr>sh_source = source, sh_fetched_at = ex_at 10, sh_status = FRESH, content_sha = [],
     sh_schema = SILVER_SCHEMA\<rparr>, sd_payload = p\<rparr>"

definition ex_lake :: "(pystr \<Rightarrow> payload) \<Rightarrow> lake" where
  "ex_lake p = (\<lambda>path. if \<exists>s \<in> set SILVER_SOURCES. path = lake_path (u ''lake'') s
     then Some (document_of ex_rt (ex_silver (the (find (\<lambda>s. path = lake_path (u ''lake'') s) SILVER_SOURCES))
       (p (the (find (\<lambda>s. path = lake_path (u ''lake'') s) SILVER_SOURCES))))) else None)"

lemma ex_lake_read:
  assumes "source \<in> set SILVER_SOURCES"
  shows "lake_read ex_rt (u ''lake'') (ex_lake p) source = Inr (Some (restamped ex_rt (ex_silver source (p source))))"
proof -
  have "find (\<lambda>s. lake_path (u ''lake'') source = lake_path (u ''lake'') s) SILVER_SOURCES = Some source"
    using assms by (auto simp: SILVER_SOURCES_def lake_path_inj)
  then have "ex_lake p (lake_path (u ''lake'') source) = Some (document_of ex_rt (ex_silver source (p source)))"
    using assms by (auto simp: ex_lake_def)
  then show ?thesis
    using read_stored [of ex_rt "ex_silver source (p source)" "ex_lake p" "u ''lake''"] ex_good_time [of 10]
    by (simp add: ex_silver_def)
qed

lemma ex_lake_age: "dt_sub (rt_tzdb ex_rt) (ex_at 13) (fix_offset (rt_tzdb ex_rt) (ex_at 10)) = 3 * 3600000000"
  by (simp add: dt_sub_def fix_offset_def wall_us_def time_us_def ex_rt_def ex_at_def)

lemma ex_policy:
  assumes "source \<in> set SILVER_SOURCES"
  obtains rule where "silver_policy source = Inr rule" "3 * 3600000000 < seconds (cp_ttl_s rule)"
    "3 * 3600000000 \<le> seconds (cp_max_stale_s rule)"
proof -
  have "\<exists>rule. silver_policy source = Inr rule \<and> 3 * 3600000000 < seconds (cp_ttl_s rule) \<and>
      3 * 3600000000 \<le> seconds (cp_max_stale_s rule)"
    using assms by (auto simp: SILVER_SOURCES_def silver_policy_def POLICY_SOURCE_def u_inject policy_for_def CACHE_POLICIES_def
        seconds_def DAY_S_def HOUR_S_def)
  then show ?thesis using that by blast
qed

lemma ex_not_due:
  assumes "source \<in> set SILVER_SOURCES" "\<not> forced args source" "ba_now args = ex_at 13" "ba_lake_root args = u ''lake''"
  shows "up_to_date ex_pipeline args (ex_lake p) source"
proof -
  obtain rule where "silver_policy source = Inr rule" "3 * 3600000000 < seconds (cp_ttl_s rule)" by (rule ex_policy [OF assms(1)])
  then show ?thesis
    using ex_lake_read [OF assms(1)] assms(2-4) ex_lake_age
    by (simp add: up_to_date_def ex_pipeline_def not_due_def restamped_def ex_silver_def)
qed


definition ex_tariffs :: city_tariffs where
  "ex_tariffs = \<lparr>general_tariff = \<lparr>pt_entries = [], pt_valid_as_of = None, pt_source_url = None\<rparr>,
     school_tariff = \<lparr>pt_entries = [], pt_valid_as_of = None, pt_source_url = None\<rparr>\<rparr>"

lemma ex_payloads:
  obtains p where "decode_prices ex_build_models (JObj (canon (p (u ''prices'')))) = Inr ex_tariffs"
    "decode_schedules ex_build_models (rt_repr ex_rt) (JObj (canon (p (u ''schedules'')))) = Inr ex_no_schedules"
    "decode_lane_plans ex_build_models (rt_repr ex_rt) (JObj (canon (p (u ''lane_plans'')))) = Inr ex_sheet_plans"
proof -
  have canon: "JObj (canon q) = sort_keys (JObj q)" for q by (simp add: canon_def)
  have "\<forall>f \<in> set (ss_facilities ex_no_schedules). storable f \<and> facility_reads_back ex_build_models f"
    by (simp add: ex_no_schedules_def)
  then obtain ps where ps: "decode_schedules ex_build_models (rt_repr ex_rt) (JObj (canon ps)) = Inr ex_no_schedules"
    unfolding canon using schedules_payload by metis
  have "\<forall>q \<in> set (sl_plans ex_sheet_plans). storable_plan (pp_plan q) \<and> plan_reads_back ex_build_models (pp_plan q)"
    using ex_plan_wf_ranges
    by (auto simp: ex_sheet_plans_def ex_parsed_def storable_plan_def plan_reads_back_def reads_back_def ex_build_models_def ex_models_def
        good_coverage_def good_reservation_def ex_plan_def wf_ranges_def ex_reservation_def)
  then obtain pl where pl: "decode_lane_plans ex_build_models (rt_repr ex_rt) (JObj (canon pl)) = Inr ex_sheet_plans"
    unfolding canon using lane_plans_payload by metis
  let ?pp = "[(u ''general'', JNull), (u ''school'', JNull)]"
  have pp: "decode_prices ex_build_models (JObj (canon ?pp)) = Inr ex_tariffs"
    by (simp add: canon_def decode_prices_def price_table_at_def get_item_def ex_build_models_def ex_models_def
        price_table_from_dto_def ex_tariffs_def u_def)
  show ?thesis
    by (rule that [of "\<lambda>s. if s = u ''prices'' then ?pp else if s = u ''schedules'' then ps else pl"])
      (use ps pl pp in \<open>simp_all add: u_inject\<close>)
qed

lemma refresh_step_reused:
  assumes "up_to_date env args l source" "lake_read (pe_runtime env) (ba_lake_root args) l source = Inr (Some d)"
    "decode (JObj (sd_payload d)) = Inr v"
  shows "refresh_step env args source fetch encode decode (l, w) =
    (Inr (Ok \<lparr>rf_value = v, rf_header = sd_header d, rf_fetched = False\<rparr>), (l, w))"
  using assms by (auto simp: up_to_date_def refresh_step_def refresh_source_def refresh_with_def)

lemma refresh_step_kept:
  assumes "silver_policy source = Inr rule" "lake_read (pe_runtime env) (ba_lake_root args) l source = Inr (Some d)"
    "forced args source" "fetch w = (Inr (Err e), w')" "transient e"
    "dt_sub (rt_tzdb (pe_runtime env)) (ba_now args) (sh_fetched_at (sd_header d)) \<le> seconds (cp_max_stale_s rule)"
    "lake_mark_stale (pe_runtime env) (ba_lake_root args) (pe_lake_io env source) source l = (Inr k, l')"
    "decode (JObj (sd_payload k)) = Inr v"
  shows "refresh_step env args source fetch encode decode (l, w) =
    (Inr (Ok \<lparr>rf_value = v, rf_header = sd_header k, rf_fetched = False\<rparr>), (l', w'))"
  using assms by (simp add: refresh_step_def refresh_source_def refresh_with_def not_due_def Let_def)

lemma ex_assembled:
  assumes "decode_prices ex_build_models (JObj (canon (p (u ''prices'')))) = Inr ex_tariffs" "forced_sources \<inter> {u ''roster'', u ''prices''} = {}"
  obtains roster a prices where
    "assembled ex_pipeline ex_clients (ex_args forced_sources) (ex_lake p, w) = (Inr (Some (roster, a, prices)), (ex_lake p, w))"
    "build_spine ex_build_models [ex_roster_pin] [] empty_registry = Inr (cas_spine a)"
    "sh_source (rf_header roster) = u ''roster''" "sh_source (rf_header prices) = u ''prices''" "\<not> rf_stale roster" "\<not> rf_stale prices"
proof -
  let ?args = "ex_args forced_sources"
  have fields: "pe_runtime ex_pipeline = ex_rt" "pe_models ex_pipeline = ex_build_models" "pe_curated ex_pipeline = ex_build_curated"
    "ba_lake_root ?args = u ''lake''" "ba_data_dir ?args = []" "ba_now ?args = ex_at 13"
    by (simp_all add: ex_pipeline_def ex_args_def)
  have mem: "u ''roster'' \<in> set SILVER_SOURCES" "u ''prices'' \<in> set SILVER_SOURCES" by (simp_all add: SILVER_SOURCES_def)
  have no: "\<not> forced ?args (u ''roster'')" "\<not> forced ?args (u ''prices'')" using assms(2) by (auto simp: forced_def ex_args_def)
  define hd where "hd = (\<lambda>s. sd_header (restamped ex_rt (ex_silver s (p s))))"
  have r: "refresh_roster ex_pipeline ex_clients ?args (ex_lake p, w) =
      (Inr (Ok \<lparr>rf_value = [ex_roster_pin], rf_header = hd (u ''roster''), rf_fetched = False\<rparr>), (ex_lake p, w))"
    unfolding refresh_roster_def hd_def fields
    by (rule refresh_step_reused [OF ex_not_due [OF mem(1) no(1)]]) (simp_all add: fields ex_lake_read mem ex_roster_decoded)
  have pr: "refresh_prices ex_pipeline ex_clients ?args (ex_lake p, w) =
      (Inr (Ok \<lparr>rf_value = ex_tariffs, rf_header = hd (u ''prices''), rf_fetched = False\<rparr>), (ex_lake p, w))"
    unfolding refresh_prices_def hd_def fields
    by (rule refresh_step_reused [OF ex_not_due [OF mem(2) no(2)]])
      (simp_all add: fields ex_lake_read mem assms(1) restamped_def ex_silver_def)
  obtain sp where sp: "build_spine ex_build_models [ex_roster_pin] [] empty_registry = Inr sp" by (rule ex_build_spine)
  obtain ds where "load_dataset ex_build_curated [] = Inr (Ok ds)" "ds_facilities ds = []" "ds_registry ds = empty_registry"
    using ex_dataset by blast
  with sp have a: "assemble_curated ex_build_curated ex_build_models [] [ex_roster_pin] =
      Inr (Ok \<lparr>cas_spine = sp, cas_calendar = ds_calendar ds, cas_authored = ds_facilities ds\<rparr>)"
    by (simp add: assemble_curated_def)
  show ?thesis
    by (rule that [of "\<lparr>rf_value = [ex_roster_pin], rf_header = hd (u ''roster''), rf_fetched = False\<rparr>"
          "\<lparr>cas_spine = sp, cas_calendar = ds_calendar ds, cas_authored = ds_facilities ds\<rparr>"
          "\<lparr>rf_value = ex_tariffs, rf_header = hd (u ''prices''), rf_fetched = False\<rparr>"])
      (simp_all add: assembled_def bind_phase_def abort_err_def lift_phase_def r pr a fields sp rf_stale_def hd_def restamped_def ex_silver_def)
qed


text \<open>A run over the lake with the roster, the prices and the schedules reused.\<close>

lemma ex_run:
  assumes "decode_prices ex_build_models (JObj (canon (p (u ''prices'')))) = Inr ex_tariffs"
    "decode_schedules ex_build_models (rt_repr ex_rt) (JObj (canon (p (u ''schedules'')))) = Inr ex_no_schedules"
    "forced_sources \<subseteq> {u ''lane_plans''}"
    "refresh_lane_plans ex_pipeline ex_clients (ex_args forced_sources) [ex_stored_facility] [(u ''p'', u ''page'')] (ex_lake p, 0) =
       (Inr (Ok lanes), (l', w'))" "rf_value lanes = ex_sheet_plans" "sh_source (rf_header lanes) = u ''lane_plans''"
  shows "\<exists>db. build ex_pipeline ex_clients (ex_args forced_sources) [u ''gold'' \<mapsto> empty_db] (Some (ex_lake p)) 0 =
    (Inr (if rf_stale lanes then 2 else 0), [u ''gold'' \<mapsto> db], Some l', w')"
proof -
  let ?args = "ex_args forced_sources"
  have fields: "pe_runtime ex_pipeline = ex_rt" "pe_models ex_pipeline = ex_build_models" "ba_lake_root ?args = u ''lake''"
    "ba_now ?args = ex_at 13" "ba_force_sources ?args = forced_sources" "ba_db_path ?args = u ''gold''"
    by (simp_all add: ex_pipeline_def ex_args_def)
  have mem: "u ''schedules'' \<in> set SILVER_SOURCES" by (simp add: SILVER_SOURCES_def)
  have no: "\<not> forced ?args (u ''schedules'')" using assms(3) by (auto simp: forced_def ex_args_def u_inject)
  define hd where "hd = sd_header (restamped ex_rt (ex_silver (u ''schedules'') (p (u ''schedules''))))"
  have sch: "refresh_schedules ex_pipeline ex_clients ?args c t cw (ex_lake p, 0) =
      (Inr (Ok \<lparr>rf_value = ex_no_schedules, rf_header = hd, rf_fetched = False\<rparr>), (ex_lake p, 0))" for c t cw
    unfolding refresh_schedules_def hd_def fields
    by (rule refresh_step_reused [OF ex_not_due [OF mem no]])
      (simp_all add: fields ex_lake_read mem assms(2) restamped_def ex_silver_def)
  have "forced_sources \<inter> {u ''roster'', u ''prices''} = {}" using assms(3) by (auto simp: u_inject)
  then obtain roster a prices where asm:
    "assembled ex_pipeline ex_clients ?args (ex_lake p, 0) = (Inr (Some (roster, a, prices)), (ex_lake p, 0))"
    "build_spine ex_build_models [ex_roster_pin] [] empty_registry = Inr (cas_spine a)"
    "sh_source (rf_header roster) = u ''roster''" "sh_source (rf_header prices) = u ''prices''" "\<not> rf_stale roster" "\<not> rf_stale prices"
    by (rule ex_assembled [where p = p, OF assms(1)])
  have hd: "sh_source hd = u ''schedules''" "sh_status hd = FRESH" by (simp_all add: hd_def restamped_def ex_silver_def)
  obtain db where staged: "staged_build ex_pipeline ex_clients ?args a roster prices (ex_lake p, 0) =
      (Inr (Some (db, if rf_stale lanes then 2 else 0)), (l', w'))"
    using ex_staged [OF asm(2) sch _ assms(4,5) asm(3,4) _ assms(6)] asm(5,6) hd by (auto simp: rf_stale_def)
  have "forced_sources \<subseteq> set SILVER_SOURCES" using assms(3) by (auto simp: SILVER_SOURCES_def)
  then have "build_on_lake ex_pipeline ex_clients ?args [u ''gold'' \<mapsto> empty_db] (ex_lake p, 0) =
      (Inr (if rf_stale lanes then 2 else 0), [u ''gold'' \<mapsto> db], (l', w'))"
    by (simp add: build_on_lake_def asm(1) staged fields swap_build_def atomic_swap_def Let_def)
      (simp add: ex_pipeline_def fun_upd_def u_inject fun_eq_iff)
  then show ?thesis by (auto simp: build_def)
qed

lemma ex_tmp: "fresh_tmp (pe_swap ex_pipeline) (ba_db_path (ex_args forced_sources)) [u ''gold'' \<mapsto> empty_db]"
  by (simp add: fresh_tmp_def ex_pipeline_def ex_args_def u_inject)

text \<open>With nothing forced the lane plans are reused too.\<close>

lemma ex_warm:
  assumes "decode_lane_plans ex_build_models (rt_repr ex_rt) (JObj (canon (p (u ''lane_plans'')))) = Inr ex_sheet_plans"
  obtains lanes where "refresh_lane_plans ex_pipeline ex_clients (ex_args {}) [ex_stored_facility] [(u ''p'', u ''page'')] (ex_lake p, 0) =
       (Inr (Ok lanes), (ex_lake p, 0))" "rf_value lanes = ex_sheet_plans" "sh_source (rf_header lanes) = u ''lane_plans''" "\<not> rf_stale lanes"
proof -
  let ?args = "ex_args {}"
  let ?d = "restamped ex_rt (ex_silver (u ''lane_plans'') (p (u ''lane_plans'')))"
  have fields: "pe_runtime ex_pipeline = ex_rt" "pe_models ex_pipeline = ex_build_models" "ba_lake_root ?args = u ''lake''"
    "ba_now ?args = ex_at 13" by (simp_all add: ex_pipeline_def ex_args_def)
  have mem: "u ''lane_plans'' \<in> set SILVER_SOURCES" by (simp add: SILVER_SOURCES_def)
  have no: "\<not> forced ?args (u ''lane_plans'')" by (simp add: forced_def ex_args_def)
  have "refresh_lane_plans ex_pipeline ex_clients ?args [ex_stored_facility] [(u ''p'', u ''page'')] (ex_lake p, 0) =
      (Inr (Ok \<lparr>rf_value = ex_sheet_plans, rf_header = sd_header ?d, rf_fetched = False\<rparr>), (ex_lake p, 0))"
    unfolding refresh_lane_plans_def fields
    by (rule refresh_step_reused [OF ex_not_due [OF mem no]])
      (simp_all add: fields ex_lake_read mem assms restamped_def ex_silver_def)
  then show ?thesis by (rule that) (simp_all add: rf_stale_def restamped_def ex_silver_def)
qed

text \<open>Forced, the discovery times out on the only page, and the kept document stands in.\<close>

lemma ex_stale:
  assumes "decode_lane_plans ex_build_models (rt_repr ex_rt) (JObj (canon (p (u ''lane_plans'')))) = Inr ex_sheet_plans"
  obtains lanes l' where "refresh_lane_plans ex_pipeline ex_clients (ex_args LANE_SOURCES) [ex_stored_facility] [(u ''p'', u ''page'')]
       (ex_lake p, 0) = (Inr (Ok lanes), (l', 1))" "rf_value lanes = ex_sheet_plans" "sh_source (rf_header lanes) = u ''lane_plans''"
      "rf_stale lanes"
proof -
  let ?args = "ex_args LANE_SOURCES" and ?src = "u ''lane_plans''"
  let ?d = "restamped ex_rt (ex_silver ?src (p ?src))"
  have fields: "pe_runtime ex_pipeline = ex_rt" "pe_models ex_pipeline = ex_build_models" "ba_lake_root ?args = u ''lake''"
    "ba_now ?args = ex_at 13" "pe_lake_io ex_pipeline = (\<lambda>_. ex_io)" by (simp_all add: ex_pipeline_def ex_args_def)
  have mem: "?src \<in> set SILVER_SOURCES" by (simp add: SILVER_SOURCES_def)
  obtain rule where rule: "silver_policy ?src = Inr rule" "3 * 3600000000 \<le> seconds (cp_max_stale_s rule)" by (rule ex_policy [OF mem])
  have forced: "forced ?args ?src" by (simp add: forced_def ex_args_def LANE_SOURCES_def)
  note rd = ex_lake_read [OF mem, of p]
  obtain k l' where mk: "lake_mark_stale ex_rt (u ''lake'') ex_io ?src (ex_lake p) = (Inr k, l')"
    using ex_store_writes [of ex_rt "u ''lake''"] rd unfolding lake_mark_stale_def by fastforce
  have k: "k = ?d\<lparr>sd_header := (sd_header ?d)\<lparr>sh_status := STALE\<rparr>\<rparr>"
    using silver_lake.stale_doc [OF mk] rd by auto
  have f: "fetch_lane_plans ex_pipeline (pc_pages ex_clients) (pc_lanes ex_clients) [ex_stored_facility] [(u ''p'', u ''page'')] 0 =
      (Inr (Err (Timeout (u ''page'') 10)), 1)"
    by (simp add: fetch_lane_plans_def discover_pages_def fetch_page_doc_def ex_clients_def ex_down_def undiscovered_authored_def
        ex_declared ex_stored_facility_def undiscovered_step_def Let_def undiscovered_error_def)
  have "refresh_lane_plans ex_pipeline ex_clients ?args [ex_stored_facility] [(u ''p'', u ''page'')] (ex_lake p, 0) =
      (Inr (Ok \<lparr>rf_value = ex_sheet_plans, rf_header = sd_header k, rf_fetched = False\<rparr>), (l', 1))"
    unfolding refresh_lane_plans_def fields
    by (rule refresh_step_kept [where d = ?d and rule = rule and e = "Timeout (u ''page'') 10"])
      (use rule rd forced f mk ex_lake_age assms in \<open>simp_all add: fields transient_def k restamped_def ex_silver_def\<close>)
  then show ?thesis by (rule that) (simp_all add: rf_stale_def k restamped_def ex_silver_def)
qed

theorem build_commits_whole_store_or_none_witness:
  "\<exists>p db. build ex_pipeline ex_clients (ex_args {}) [u ''gold'' \<mapsto> empty_db] (Some (ex_lake p)) 0 =
      (Inr 0, [u ''gold'' \<mapsto> db], Some (ex_lake p), 0) \<and>
    map ftt_source (gd_freshness db) = SILVER_SOURCES \<and> ftt_status ` set (gd_freshness db) = {u ''fresh''}"
proof -
  obtain p where p: "decode_prices ex_build_models (JObj (canon (p (u ''prices'')))) = Inr ex_tariffs"
    "decode_schedules ex_build_models (rt_repr ex_rt) (JObj (canon (p (u ''schedules'')))) = Inr ex_no_schedules"
    "decode_lane_plans ex_build_models (rt_repr ex_rt) (JObj (canon (p (u ''lane_plans'')))) = Inr ex_sheet_plans"
    by (rule ex_payloads)
  obtain lanes where l: "refresh_lane_plans ex_pipeline ex_clients (ex_args {}) [ex_stored_facility] [(u ''p'', u ''page'')] (ex_lake p, 0) =
       (Inr (Ok lanes), (ex_lake p, 0))" "rf_value lanes = ex_sheet_plans" "sh_source (rf_header lanes) = u ''lane_plans''" "\<not> rf_stale lanes"
    by (rule ex_warm [where p = p, OF p(3)])
  obtain db where run: "build ex_pipeline ex_clients (ex_args {}) [u ''gold'' \<mapsto> empty_db] (Some (ex_lake p)) 0 =
      (Inr 0, [u ''gold'' \<mapsto> db], Some (ex_lake p), 0)"
    using ex_run [where p = p, OF p(1,2) empty_subsetI l(1-3)] l(4) by auto
  have inj: "db' = db" if "[u ''gold'' \<mapsto> db] = [u ''gold'' \<mapsto> empty_db](ba_db_path (ex_args {}) \<mapsto> db')" for db'
    using fun_cong [OF that, of "u ''gold''"] by (simp add: ex_args_def)
  have "\<exists>db'. [u ''gold'' \<mapsto> db] = [u ''gold'' \<mapsto> empty_db](ba_db_path (ex_args {}) \<mapsto> db') \<and>
      map ftt_source (gd_freshness db') = SILVER_SOURCES \<and> ftt_status ` set (gd_freshness db') = {u ''fresh''}"
    using build_commits_whole_store_or_none [OF run ex_tmp, of "u ''gold''"]
  proof (elim disjE exE conjE)
    fix db' code roster st1
    assume c: "Inr 0 = (Inr code :: py_error + int)" and f: "[u ''gold'' \<mapsto> db] = [u ''gold'' \<mapsto> empty_db](ba_db_path (ex_args {}) \<mapsto> db')"
      and rows: "map ftt_source (gd_freshness db') = SILVER_SOURCES" "code = 0 \<longrightarrow> ftt_status ` set (gd_freshness db') = {u ''fresh''}"
    have "code = 0" using c by simp
    then show ?thesis using f rows(1) rows(2) [THEN mp] by (intro exI [of _ db'] conjI)
  qed (simp_all only: sum.inject sum.distinct zero_neq_one)
  then obtain db' where "[u ''gold'' \<mapsto> db] = [u ''gold'' \<mapsto> empty_db](ba_db_path (ex_args {}) \<mapsto> db')"
    "map ftt_source (gd_freshness db') = SILVER_SOURCES \<and> ftt_status ` set (gd_freshness db') = {u ''fresh''}" by blast
  then have "map ftt_source (gd_freshness db) = SILVER_SOURCES \<and> ftt_status ` set (gd_freshness db) = {u ''fresh''}"
    using inj by metis
  with run show ?thesis by (intro exI [of _ p] exI [of _ db] conjI) auto
qed


theorem warm_build_makes_no_call_witness:
  "\<exists>out files'. \<forall>w. build ex_pipeline ex_clients (ex_args {}) [u ''gold'' \<mapsto> empty_db] (Some (ex_lake (\<lambda>_. []))) w =
     (out, files', Some (ex_lake (\<lambda>_. [])), w)"
  by (rule warm_build_makes_no_call, rule ex_not_due) (simp_all add: forced_def ex_args_def)


section \<open>A concrete discovery and a concrete shared page\<close>

lemmas at_numeral = lower_cp_def [of "numeral n" for n] is_space_def [of "numeral n" for n]

definition ex_reply :: "nat getter" where
  "ex_reply url n = (Inr (Ok \<lparr>rs_status = 200, rs_headers = [], rs_content = [], rs_extensions = Map.empty\<rparr>), n + 1)"

definition ex_page_text :: pystr where
  "ex_page_text = u ''href='' @ [34] @ u ''belegungsplaene/a.pdf'' @ [34]"

lemma ex_href: "map (\<lambda>m. Regex.group m 1) (rx_findall BELEGUNGSPLAN_HREF ex_page_text) = [u ''belegungsplaene/a.pdf'']"
  unfolding ex_page_text_def u_def by code_simp

definition ex_sheet_env :: pipeline_env where
  "ex_sheet_env = ex_pipeline\<lparr>
     pe_page := \<lparr>pg_unescape = (\<lambda>_. ex_page_text), pg_urljoin = (\<lambda>_ _. u ''a.pdf'')\<rparr>,
     pe_pdf := (\<lambda>raw. PdfPage ex_words 842)\<rparr>"

lemma ex_lane_fetch:
  obtains plan where "fetch_lane_plans ex_sheet_env ex_reply ex_reply [ex_stored_facility] [(u ''p'', u ''page'')] 0 =
    (Inr (Ok \<lparr>sl_links = [\<lparr>dl_pool = u ''p'', dl_url = u ''a.pdf''\<rparr>], sl_plans = [plan\<lparr>pp_source_url := u ''a.pdf''\<rparr>]\<rparr>), 2)"
proof -
  have links: "discover_links (pe_page ex_sheet_env) page (u ''p'') (u ''page'') = [\<lparr>dl_pool = u ''p'', dl_url = u ''a.pdf''\<rparr>]" for page
  proof -
    have "pg_unescape (pe_page ex_sheet_env) page = ex_page_text" "pg_urljoin (pe_page ex_sheet_env) base href = u ''a.pdf''" for base href
      by (simp_all add: ex_sheet_env_def)
    then show ?thesis unfolding discover_links_def by (simp only: ex_href Let_def) simp
  qed
  obtain plan where plan: "parse_belegungsplan_sheet (pe_frepr ex_sheet_env) (pe_pdf ex_sheet_env) [] DEFAULT_GRID_SPEC = Inr (Ok [plan])"
    using ex_parse_sheet [of "pe_frepr ex_sheet_env" "[]"] by (auto simp: ex_sheet_env_def)
  show ?thesis
    by (rule that [of plan])
      (simp add: fetch_lane_plans_def discover_pages_def fetch_page_doc_def ex_reply_def links undiscovered_authored_def ex_declared
        ex_stored_facility_def undiscovered_step_def Let_def scrape_lane_plans_def fetch_set_def scrape_belegungsplan_sheet_def
        fetch_plan_def plan split_misses_def)
qed

theorem declared_sheets_are_all_fetched_witness:
  "\<exists>v v' parsed. scrape_belegungsplan_sheet (pe_frepr ex_sheet_env) (pe_pdf ex_sheet_env) ex_reply (u ''a.pdf'') v = (Inr (Ok parsed), v')"
proof -
  obtain plan where run: "fetch_lane_plans ex_sheet_env ex_reply ex_reply [ex_stored_facility] [(u ''p'', u ''page'')] 0 =
    (Inr (Ok \<lparr>sl_links = [\<lparr>dl_pool = u ''p'', dl_url = u ''a.pdf''\<rparr>], sl_plans = [plan\<lparr>pp_source_url := u ''a.pdf''\<rparr>]\<rparr>), 2)"
    by (rule ex_lane_fetch)
  have "((u ''p'', u ''b''), \<lparr>lps_url = u ''a.pdf'', lps_section = None\<rparr>) \<in> set (declared_sources [ex_stored_facility])"
    by (simp add: ex_declared ex_stored_facility_def)
  from declared_sheets_are_all_fetched [OF run this] show ?thesis by auto
qed

definition ex_season_text :: pystr where
  "ex_season_text = u ''von Mai bis Juni in Betrieb''"

definition ex_season_env :: scrape_env where
  "ex_season_env = \<lparr>sx_unescape = (\<lambda>_. ex_season_text), sx_json = (\<lambda>_. None), sx_repr = (\<lambda>_. []), sx_other_date = (\<lambda>_. None),
     sx_netloc_rejected = (\<lambda>_. False)\<rparr>"

lemma ex_season_page: "page_level_text ex_season_env [] = ex_season_text"
proof -
  have "rx_split PAGE_WS_RE ex_season_text = [u ''von'', u ''Mai'', u ''bis'', u ''Juni'', u ''in'', u ''Betrieb'']"
    by (simp add: ex_season_text_def rx_split_def PAGE_WS_RE_def u_def is_space_def rx_at_def Regex.group_def)
  moreover have "py_strip ex_season_text = ex_season_text"
    by (simp add: py_strip_def strip_where_def is_space_def u_def ex_season_text_def)
  moreover have "py_join [32] [u ''von'', u ''Mai'', u ''bis'', u ''Juni'', u ''in'', u ''Betrieb''] = ex_season_text"
    by (simp add: u_def ex_season_text_def)
  ultimately show ?thesis by (simp add: page_level_text_def ex_season_env_def rx_sub_def)
qed

lemma ex_season_facts: "\<exists>facts. parse_planschbecken ex_season_env [] = Inr (Ok facts)"
proof -
  have "(case rx_search SEASON_SENTENCE_RE ex_season_text of None \<Rightarrow> False
      | Some m \<Rightarrow> Regex.group m 2 = u ''Mai'' \<and> Regex.group m 3 = u ''Juni'')"
    by (simp add: ex_season_text_def SEASON_SENTENCE_RE_def MONTH_ALT_def GERMAN_MONTHS_def u_def at_numeral rx_search_def rx_at_def
        Regex.group_def at_word_boundary_def is_word_cp_def)
  then obtain m where m: "rx_search SEASON_SENTENCE_RE ex_season_text = Some m" "Regex.group m 2 = u ''Mai''" "Regex.group m 3 = u ''Juni''"
    by (auto split: option.splits)
  have "dict_at GERMAN_MONTHS (py_casefold (u ''Mai'')) = Inr 5" "dict_at GERMAN_MONTHS (py_casefold (u ''Juni'')) = Inr 6"
    by (simp_all add: dict_at_def GERMAN_MONTHS_def u_def py_casefold_def casefold_cp_def at_numeral)
  moreover obtain w where "whole_months 5 6 = Inr w" by (rule whole_months_Inr [of 5 6]) simp_all
  ultimately show ?thesis by (simp add: parse_planschbecken_def ex_season_page m)
qed


definition ex_shared_site :: "pool_catalog_entry list" where
  "ex_shared_site = [ex_declaring (u ''b'') PADDLING_URL PADDLING, ex_declaring (u ''c'') PADDLING_URL PADDLING]"

definition ex_one_alias :: crosswalk where
  "ex_one_alias = \<lparr>cw_xref = Map.empty, cw_alias = [normalize (u ''b'') \<mapsto> u ''id'']\<rparr>"

definition ex_shared_env :: pipeline_env where
  "ex_shared_env = ex_pipeline\<lparr>pe_scrape := ex_season_env\<rparr>"

lemma ex_shared_fetch:
  "\<exists>scraped. fetch_schedules ex_shared_env ex_reply ex_shared_site ex_tariffs ex_one_alias (ex_at 13) 0 = (Inr (Ok scraped), 1)"
proof -
  obtain facts where facts: "parse_planschbecken ex_season_env [] = Inr (Ok facts)" using ex_season_facts by blast
  have d: "scrape_declared_sources (pe_scrape ex_shared_env) ex_reply ex_shared_site t ex_tariffs 0 = (Inr EMPTY_REPORT, 0)" for t
    by (simp add: scrape_declared_sources_def scrape_sources_def declares_page_def url_count_def ex_shared_site_def ex_declaring_def
        map_filter_simps SCRAPEABLE_KINDS_def)
  have "\<exists>rep. scrape_shared_sources (pe_scrape ex_shared_env) ex_reply ex_shared_site t 0 = (Inr rep, 1) \<and> sr_failures rep = [] \<and>
      sr_extracts rep \<noteq> []" for t
    by (simp add: scrape_shared_sources_def shared_sources_def by_url_def group_pairs_def ex_shared_site_def ex_declaring_def
        map_filter_simps SHARED_PAGE_PARSERS_def fetch_page_def ex_reply_def EMPTY_REPORT_def add_shared_def facts ex_shared_env_def
        decode_utf8_replace.simps)
  then obtain rep where "scrape_shared_sources (pe_scrape ex_shared_env) ex_reply ex_shared_site (ex_at 13) 0 = (Inr rep, 1)"
    "sr_failures rep = []" "sr_extracts rep \<noteq> []" by blast
  then show ?thesis using d
    by (simp add: fetch_schedules_def schedules_of_reports_def EMPTY_REPORT_def Let_def resolve_all_def)
qed

theorem schedule_fetch_is_complete_witness:
  "\<exists>scraped f. fetch_schedules ex_shared_env ex_reply ex_shared_site ex_tariffs ex_one_alias (ex_at 13) 0 = (Inr (Ok scraped), 1) \<and>
     ss_facilities scraped = [f] \<and> facility_id (identity f) = u ''id'' \<and> ss_unresolved scraped = [u ''c'']"
proof -
  obtain scraped where run: "fetch_schedules ex_shared_env ex_reply ex_shared_site ex_tariffs ex_one_alias (ex_at 13) 0 = (Inr (Ok scraped), 1)"
    using ex_shared_fetch by blast
  have none: "scrape_sources ex_shared_site = []"
    by (simp add: scrape_sources_def declares_page_def url_count_def ex_shared_site_def ex_declaring_def map_filter_simps SCRAPEABLE_KINDS_def)
  have entries: "scraped_entries ex_shared_site = ex_shared_site"
    by (simp add: scraped_entries_def none)
      (simp add: shared_sources_def by_url_def group_pairs_def ex_shared_site_def ex_declaring_def map_filter_simps SHARED_PAGE_PARSERS_def)
  have "normalize (u ''c'') \<noteq> normalize (u ''b'')"
    by (simp add: normalize_def u_def py_strip_def strip_where_def is_space_def py_casefold_def casefold_cp_def lower_cp_def py_split_def)
  then have picked: "List.map_filter (resolved_entry ex_one_alias) ex_shared_site = [(u ''id'', PADDLING, [], None)]"
    "filter (\<lambda>e. resolved_entry ex_one_alias e = None) ex_shared_site = [ex_declaring (u ''c'') PADDLING_URL PADDLING]"
    by (simp_all add: ex_shared_site_def resolved_entry_def ex_one_alias_def ex_declaring_def map_filter_simps)
  from schedule_fetch_is_complete [OF run, unfolded entries picked]
  have "map (\<lambda>f. (facility_id (identity f), pid_kind (identity f), address f, geo f)) (ss_facilities scraped) = [(u ''id'', PADDLING, [], None)]"
    "ss_unresolved scraped = [u ''c'']" by (simp_all add: ex_declaring_def mset_single_iff del: mset_map)
  with run show ?thesis by (auto simp: map_eq_Cons_conv)
qed

end
