(* ===== verification/Spec2Isabelle.thy ===== *)
theory Spec2Isabelle
  imports Day_Properties Lane_Properties Identity_Properties Query_Properties Compose_Properties Lake_Properties Sheet_Properties Http_Properties Lane_Fetch Silver_Properties Codec_Properties Roster_Properties Gold_Properties Scrape_Properties Baditicker Ios_Properties Pipeline_Properties
begin

text \<open>
  \<^bold>\<open>A verification library for \<open>swimzh\<close>\<close>, the program under \<open>src/swimzh\<close> that answers where, when
  and under which access rules one can swim in a Zurich pool on a given day. Paths below are
  relative to that directory.

  \<^bold>\<open>How the program works.\<close> A build reads a roster of pools from the city's feature service,
  hand-curated data, and the pages and lane-plan sheets of the pools; it joins what it read by a
  spine of pool identities and writes one store. Queries read that store, resolve the day of
  every basin from rules, exceptions, closures and the calendar, and match the sessions with a
  person. Failures are values of a closed union; the few exceptions that can escape are
  modelled beside them.

  \<^bold>\<open>Conventions.\<close> A Python function that can raise returns \<open>py_error + 'a\<close>: \<open>Inl\<close> is the class
  of the exception that leaves it, \<open>Inr\<close> its value. The program's own \<open>Result\<close> is the datatype
  \<open>result\<close>; a function that returns one and can also raise has both layers. Side effects are
  explicit: a client is its \<open>get\<close> over a world \<open>'w\<close> that is threaded through the calls, a file
  system is a map from paths, a store is a record of tables. Loops are \<open>foldl\<close>, \<open>fold_err\<close> (which
  stops at the first exception), or recursive functions over the remaining items; none has
  fuel that can run out, except the regular-expression engine, whose repetition counter is the
  length of the remaining text plus one, enough since every round but the last consumes a character.

  \<^bold>\<open>The layers, bottom up.\<close>
  \<^item> Python itself. \<open>Prelude\<close> (error sum, folds), \<open>PyStr\<close> (text as code points), \<open>PyDict\<close>
    (dictionaries with their order), \<open>Regex\<close> and \<open>Regex_Facts\<close> (the backtracking
    matcher, its loops, what a match looks like, positions and splits), \<open>Bytes\<close> (UTF-8 and
    Base64), \<open>PyTime\<close> and \<open>Iso\<close> (\<open>datetime\<close> and its ISO texts), \<open>Json\<close> (values and their canonical
    text), \<open>Url\<close> (\<open>urlsplit\<close>).
  \<^item> \<open>core/\<close>. \<open>Errors\<close> (\<open>result.py\<close>, \<open>errors.py\<close>), \<open>Normalize\<close> (\<open>normalize.py\<close>),
    \<open>Cache_Tiers\<close> (\<open>cache_tiers.py\<close>), \<open>Http\<close> (\<open>http.py\<close>), \<open>Http_Cache\<close> (\<open>httpcache.py\<close>).
  \<^item> \<open>domain/\<close>. \<open>Access\<close> (\<open>access.py\<close>, \<open>person.py\<close>), \<open>Schedule\<close> (with \<open>closure.py\<close>, \<open>holiday.py\<close>,
    \<open>calendar.py\<close>), \<open>Geo\<close>, \<open>Models\<close> (with \<open>pricing.py\<close>, \<open>admission.py\<close>, \<open>lockers.py\<close>, \<open>rentals.py\<close>),
    \<open>Resolver\<close>, \<open>Lane_Plan\<close>, \<open>Lane_Views\<close> and \<open>Lane_Best\<close> (\<open>lane_plan.py\<close>), \<open>Catalog\<close>, \<open>Registry\<close>,
    \<open>Live\<close> and \<open>Query\<close> (\<open>query.py\<close>).
  \<^item> \<open>providers/\<close>. \<open>Sheet_Header\<close>, \<open>Sheet_Grid\<close>, \<open>Sheet_Plan\<close> (\<open>belegungsplan.py\<close>), \<open>Lane_Fetch\<close>,
    \<open>Geo_Sport\<close> (with \<open>etl/catalog.py\<close>, \<open>etl/roster.py\<close>), \<open>Infrastruktur\<close>, \<open>Curated\<close>, \<open>Schedule_Cells\<close> and
    \<open>Schedule_Scraper\<close> (\<open>schedule_scraper.py\<close>), \<open>Price_Scraper\<close> (with \<open>mietobjekt.py\<close>),
    \<open>Operator_Pages\<close> (with \<open>planschbecken.py\<close>), \<open>Baditicker\<close>.
  \<^item> \<open>boundary/\<close> and the stored forms. \<open>Curated_Dto\<close>, \<open>Dto_Mapping\<close>, \<open>Tokens\<close>, \<open>Codec\<close>
    (\<open>storage/codec.py\<close>, \<open>calendar_codec.py\<close>, \<open>catalog_json.py\<close>, \<open>etl/silver_codec.py\<close>).
  \<^item> \<open>build/\<close>, \<open>storage/\<close> and \<open>etl/\<close>. \<open>Compose\<close>, \<open>Reconcile\<close>, \<open>Seed\<close> (with \<open>storage/rows.py\<close>), \<open>Gold\<close>
    (\<open>storage/sqlite_repo.py\<close>), \<open>Atomic\<close>, \<open>Lake\<close> and \<open>Lake_Store\<close>, \<open>Refresh\<close>, \<open>Lane_Fetch\<close>
    (\<open>etl/lane_plans.py\<close>), \<open>Silver\<close>, \<open>Build\<close> (\<open>etl/build.py\<close>), \<open>Scrape\<close> (\<open>etl/scrape.py\<close>),
    \<open>Ios_Rows\<close> and \<open>Ios_Export\<close> (\<open>etl/ios_export.py\<close>).
  \<^item> \<open>Pipeline\<close> (\<open>cli.py\<close>) composes them: the roster, the curated tier, the prices, the schedules and the lane plans, each
    through the refresh policy, and one swap around the phases that write. A phase raises, ends the build with
    code 1 (\<open>None\<close>) or goes on, and threads the lake and the world through either way.

  Definitions keep the names of the code; a helper named \<open>..._step\<close> is the body of the loop of
  the function it is named after, and a record is the class with its fields.

  \<^bold>\<open>Interfaces.\<close> \<open>wire\<close> and \<open>total_wire\<close> say what an encoder and a decoder owe each other: every
  token table and every mapping of the boundary is an instance, and the round trip of the stored
  facility is their composition. \<open>codec\<close> and \<open>exact_codec\<close> say the same of byte encodings.
  \<open>aspect_lens\<close> is one fact of a facility that \<open>Compose\<close> chooses a source for; \<open>live_source\<close> is a
  live reading attached to an answer; \<open>silver_store\<close> is what the refresh policy needs of the
  lake; \<open>keyed_table\<close> is a table with a primary key and \<open>emit_once\<close> a loop that writes each key
  once. Each is interpreted on the model's own definitions, and the properties use those facts.

  \<^bold>\<open>What the lemmas show.\<close>
  \<^item> \<open>Day_Properties\<close>, \<open>Lane_Properties\<close>, \<open>Query_Facts\<close>, \<open>Query_Properties\<close>: which day a basin has and why,
    what the views of a lane plan say of its reservations, and which options a query returns.
  \<^item> \<open>Identity_Properties\<close>, \<open>Compose_Properties\<close>, \<open>Roster_Properties\<close>: no name or external key leads to
    two pools, every scraped extract is accounted for, the better source of every fact wins.
  \<^item> \<open>Http_Properties\<close>, \<open>Lake_Properties\<close>: retries, classification, the freshness of cached and
    stored documents, and that a failure never destroys what was stored.
  \<^item> \<open>Sheet_Facts\<close>, \<open>Sheet_Properties\<close>, \<open>Silver_Properties\<close>: the reservations read off a sheet say what
    its cells say, no two overlap, and every parsed plan is bound or reported.
  \<^item> \<open>Dto_Facts\<close>, \<open>Codec_Properties\<close>, \<open>Gold_Facts\<close>, \<open>Gold_Properties\<close>: what is written is what is read.
  \<^item> \<open>Ios_Facts\<close>, \<open>Ios_Properties\<close>: the exported store answers like the query, keeps the
    constraints of its schema, is replaced whole or not at all, and is what its manifest says.
  \<^item> \<open>Prose_Facts\<close>, \<open>Page_Facts\<close>, \<open>Scrape_Properties\<close>: what the page parsers can return and when they raise,
    that every page is accounted for, and that what was scraped can be composed and stored.
  \<^item> \<open>Pipeline_Properties\<close>: a build replaces the gold store whole or not at all, its exit code and the provenance
    rows agree, a forced source is refetched or marked stale, and a lake that is up to date needs no network.

  \<^bold>\<open>Numbers and text.\<close> Python's integers are unbounded and so are the model's; \<open>datetime.time\<close>, which takes
  C integers, checks that bound. Durations count microseconds. \<open>Decimal\<close> and the
  coordinates of a sheet are rationals (no context precision is modelled, exponents are unbounded); the
  distances of \<open>Geo\<close> are reals instead of floats. Case mappings and word characters are exact
  on Latin-1 and on the general punctuation, the range of the texts the program reads; digits are the
  ASCII digits.

  \<^bold>\<open>Parameters.\<close> Code outside the repository is an argument: pydantic's validators and serialisers
  (\<open>models\<close>), the transport, sleeping and the clock of the HTTP client, the words of a PDF page,
  JSON and YAML parsing of a text, \<open>repr\<close>, \<open>html.unescape\<close>, \<open>urljoin\<close>, the zone database, SHA-256, the answers
  of a file system. What a theorem needs of one is a hypothesis of it, and its witness
  instantiates it with a concrete function. The SQL engine is not a parameter: the tables' keys and
  references are written out in \<open>Gold\<close>, those of the exported store in \<open>Ios_Rows\<close>.

  \<^bold>\<open>Not modelled.\<close> Of \<open>cli.py\<close> the argument parser, the console text and the choice of live clients for a command
  (\<open>main\<close>); \<open>apps/web\<close> renders the answers of \<open>Query\<close> into pydantic response models
  and HTML; \<open>scripts/\<close> are developer tools outside the program (coverage and budget gates, fixture generators).
\<close>

end
